(* ===== verification/Go_Prelude.thy ===== *)
theory Go_Prelude
  imports Main "HOL-Library.Word"
begin

text \<open>
  The part of Go and of its standard library that the modelled code uses: error values with
  \<open>errors.Is\<close>, \<open>time.Time\<close> and \<open>time.Duration\<close>, the \<open>strings\<close> functions, and the generic
  lemmas on lists that the components share.
\<close>

section \<open>Collections of simplification rules\<close>

named_theorems row_simps \<open>lookups and updates of the rows of a table\<close>
named_theorems wp_simps \<open>execution of the operations of the state monad\<close>
named_theorems go_simps \<open>Go run-time values: errors, strings, times\<close>

section \<open>Error values\<close>

text \<open>
  A Go \<open>error\<close> is a value. \<open>Sentinel\<close> is a package-level \<open>errors.New\<close> variable that is compared by
  identity, \<open>DbErr\<close> an error of the database driver, \<open>ErrNew\<close> the result of \<open>errors.New\<close> or of
  \<open>fmt.Errorf\<close> without \<open>%w\<close>, \<open>ErrWrap\<close> a \<open>fmt.Errorf\<close> that wraps one error, \<open>ErrWrap2\<close> one that
  wraps two, \<open>BillingErr\<close> the struct of the webhook handlers. \<open>GoPanic\<close> is a run-time panic (a nil
  dereference): it is never stored in an \<open>error\<close> variable, so every place where the source swallows
  an error lets it through.
\<close>

datatype go_err =
    Sentinel string
  | DbErr string
  | ErrNew string
  | ErrWrap string go_err
  | ErrWrap2 go_err go_err
  | BillingErr string string
  | GoPanic string

type_synonym 'a res = "go_err + 'a"

fun is_panic :: "go_err \<Rightarrow> bool" where
  "is_panic (GoPanic _) = True"
| "is_panic _ = False"

text \<open>\<open>errors.Is\<close>: the error itself or one it wraps is the target.\<close>

fun err_is :: "go_err \<Rightarrow> go_err \<Rightarrow> bool" where
  "err_is (ErrWrap m e) t = (ErrWrap m e = t \<or> err_is e t)"
| "err_is (ErrWrap2 a b) t = (ErrWrap2 a b = t \<or> err_is a t \<or> err_is b t)"
| "err_is e t = (e = t)"

text \<open>\<open>error.Error()\<close>.\<close>

fun err_text :: "go_err \<Rightarrow> string" where
  "err_text (Sentinel m) = m"
| "err_text (DbErr m) = m"
| "err_text (ErrNew m) = m"
| "err_text (ErrWrap m e) = m @ '': '' @ err_text e"
| "err_text (ErrWrap2 a b) = err_text a @ '': '' @ err_text b"
| "err_text (BillingErr t m) = t @ '': '' @ m"
| "err_text (GoPanic m) = m"

text \<open>\<open>fmt.Errorf("msg: %w", err)\<close> on the error path of a call: a panic unwinds past it.\<close>

definition wrap_err :: "string \<Rightarrow> go_err \<Rightarrow> go_err" where
  "wrap_err m e = (if is_panic e then e else ErrWrap m e)"

definition ErrNoRows :: go_err where
  "ErrNoRows = Sentinel ''sql: no rows in result set''"

definition no_rows_affected :: go_err where
  "no_rows_affected = ErrNew ''no rows affected''"

lemma err_is_refl [simp]: "err_is e e"
  by (cases e) auto

lemma err_is_wrap [go_simps]: "err_is e t \<Longrightarrow> err_is (ErrWrap m e) t"
  by simp

lemma is_panic_wrap_err [go_simps]: "is_panic (wrap_err m e) = is_panic e"
  by (simp add: wrap_err_def)

lemma err_is_wrap_err: "\<not> is_panic e \<Longrightarrow> err_is e t \<Longrightarrow> err_is (wrap_err m e) t"
  by (simp add: wrap_err_def)

lemma err_is_NoRows_simps [simp]:
  "err_is ErrNoRows ErrNoRows" "\<not> err_is (DbErr m) ErrNoRows"
  "\<not> err_is (ErrNew m) ErrNoRows" "\<not> err_is (GoPanic m) ErrNoRows"
  "\<not> is_panic ErrNoRows"
  by (simp_all add: ErrNoRows_def)

section \<open>Time\<close>

text \<open>
  \<open>time.Time\<close> is the number of nanoseconds since Go's zero time (year 1, UTC), so \<open>IsZero\<close> is
  equality with 0 and \<open>Before\<close>/\<open>After\<close>/\<open>Equal\<close> are the order of the integers. \<open>time.Duration\<close> is
  an \<open>int64\<close> of nanoseconds whose products wrap around.
\<close>

type_synonym time = int
type_synonym duration = "64 word"
type_synonym uuid = nat

definition is_zero_time :: "time \<Rightarrow> bool" where
  "is_zero_time t \<longleftrightarrow> t = 0"

text \<open>
  What bun stores for a \<open>*time.Time\<close> column tagged \<open>nullzero\<close>: \<open>NULL\<close> for nil and for a pointer to the
  zero time.
\<close>

definition nz_time :: "time option \<Rightarrow> time option" where
  "nz_time t = (case t of None \<Rightarrow> None | Some x \<Rightarrow> if is_zero_time x then None else Some x)"

lemma nz_time_simps [simp]:
  "nz_time None = None" "x \<noteq> 0 \<Longrightarrow> nz_time (Some x) = Some x" "nz_time (nz_time t) = nz_time t"
  by (auto simp: nz_time_def is_zero_time_def split: option.split)

definition hour :: duration where
  "hour = 3600000000000"

definition day :: duration where
  "day = 86400000000000"

definition minute :: duration where
  "minute = 60000000000"

text \<open>\<open>t.Add(d)\<close>, and \<open>time.Duration(n) * 24 * time.Hour\<close> for an \<open>int\<close> \<open>n\<close>.\<close>

definition time_add :: "time \<Rightarrow> duration \<Rightarrow> time" where
  "time_add t d = t + sint d"

definition days_dur :: "int \<Rightarrow> duration" where
  "days_dur n = word_of_int n * 24 * hour"

definition day_ns :: int where
  "day_ns = 86400000000000"

text \<open>
  The product does not wrap for up to 106751 days (about 292 years) either way; beyond that it does.
\<close>

lemma sint_days_dur:
  assumes "\<bar>n\<bar> \<le> 106751"
  shows "sint (days_dur n) = n * day_ns"
proof -
  have eq: "days_dur n = word_of_int (n * day_ns)"
    by (simp add: days_dur_def hour_def day_ns_def)
  have "- (2 ^ 63) \<le> n * day_ns" "n * day_ns < 2 ^ 63"
    using assms by (auto simp: day_ns_def)
  then have "signed_take_bit 63 (n * day_ns) = n * day_ns"
    by (simp only: signed_take_bit_int_eq_self_iff)
  then show ?thesis
    unfolding eq signed_of_int by simp
qed

lemma time_add_days:
  "\<bar>n\<bar> \<le> 106751 \<Longrightarrow> time_add t (days_dur n) = t + n * day_ns"
  by (simp add: time_add_def sint_days_dur)

lemma days_dur_30: "days_dur 30 = 30 * 24 * hour"
  by (simp add: days_dur_def)

section \<open>Strings\<close>

text \<open>
  Strings are byte lists. \<open>strings.TrimSpace\<close> and \<open>strings.ToLower\<close> are modelled on ASCII: the
  non-ASCII white space and letters that Go also folds are left alone.
\<close>

definition is_space :: "char \<Rightarrow> bool" where
  "is_space c = (of_char c \<in> {9, 10, 11, 12, 13, 32 :: nat})"

definition trim_space :: "string \<Rightarrow> string" where
  "trim_space s = rev (dropWhile is_space (rev (dropWhile is_space s)))"

definition lower_char :: "char \<Rightarrow> char" where
  "lower_char c = (let n = of_char c :: nat in if 65 \<le> n \<and> n \<le> 90 then char_of (n + 32) else c)"

definition to_lower :: "string \<Rightarrow> string" where
  "to_lower s = map lower_char s"

definition equal_fold :: "string \<Rightarrow> string \<Rightarrow> bool" where
  "equal_fold a b \<longleftrightarrow> to_lower a = to_lower b"

fun has_prefix :: "string \<Rightarrow> string \<Rightarrow> bool" where
  "has_prefix s [] = True"
| "has_prefix [] (p # ps) = False"
| "has_prefix (c # s) (p # ps) = (c = p \<and> has_prefix s ps)"

fun contains :: "string \<Rightarrow> string \<Rightarrow> bool" where
  "contains [] p = (p = [])"
| "contains (c # s) p = (has_prefix (c # s) p \<or> contains s p)"

lemma trim_space_Nil [simp]: "trim_space [] = []"
  by (simp add: trim_space_def)

lemma to_lower_Nil [simp]: "to_lower [] = []"
  by (simp add: to_lower_def)

lemma dropWhile_no_hit: "\<forall>x \<in> set xs. \<not> P x \<Longrightarrow> dropWhile P xs = xs"
  by (cases xs) auto

lemma dropWhile_idem: "dropWhile P (dropWhile P xs) = dropWhile P xs"
  by (induction xs) auto

lemma dropWhile_rev_keeps:
  assumes "dropWhile P xs = xs"
  shows "dropWhile P (rev (dropWhile P (rev xs))) = rev (dropWhile P (rev xs))"
proof (cases "rev (dropWhile P (rev xs))")
  case Nil
  show ?thesis unfolding Nil by simp
next
  case (Cons y ys)
  have "xs = rev (dropWhile P (rev xs)) @ rev (takeWhile P (rev xs))"
    by (metis rev_append rev_rev_ident takeWhile_dropWhile_id)
  with Cons obtain r where "xs = y # r"
    by (metis append_Cons)
  with assms have "\<not> P y"
    by (metis dropWhile.simps(2) impossible_Cons length_dropWhile_le)
  then show ?thesis
    unfolding Cons by simp
qed

lemma trim_space_idem [simp]: "trim_space (trim_space s) = trim_space s"
  unfolding trim_space_def
  by (simp add: dropWhile_rev_keeps dropWhile_idem)

lemma lower_char_idem [simp]: "lower_char (lower_char c) = lower_char c"
proof (cases "65 \<le> (of_char c :: nat) \<and> (of_char c :: nat) \<le> 90")
  case True
  then show ?thesis
    by (simp add: lower_char_def Let_def)
next
  case False
  then have "lower_char c = c"
    unfolding lower_char_def Let_def by (simp only: if_False)
  then show ?thesis by simp
qed

lemma to_lower_idem [simp]: "to_lower (to_lower s) = to_lower s"
  by (simp add: to_lower_def)

lemma is_space_lower [simp]: "is_space (lower_char c) = is_space c"
  by (simp add: is_space_def lower_char_def Let_def)

lemma trim_lower: "trim_space (to_lower s) = to_lower (trim_space s)"
  by (simp add: trim_space_def to_lower_def dropWhile_map rev_map o_def)

definition upper_char :: "char \<Rightarrow> char" where
  "upper_char c = (let n = of_char c :: nat in if 97 \<le> n \<and> n \<le> 122 then char_of (n - 32) else c)"

definition to_upper :: "string \<Rightarrow> string" where
  "to_upper s = map upper_char s"

section \<open>Rows of a table\<close>

text \<open>\<open>ORDER BY key DESC\<close> (rows with equal keys in table order, which SQL leaves open).\<close>

definition sort_desc :: "('r \<Rightarrow> time) \<Rightarrow> 'r list \<Rightarrow> 'r list" where
  "sort_desc k rs = sort_key (\<lambda>r. - k r) rs"

lemma set_sort_desc [simp]: "set (sort_desc k rs) = set rs"
  by (simp add: sort_desc_def)

text \<open>
  A table is a list of rows in insertion order. \<open>update_where\<close> is \<open>UPDATE ... WHERE\<close>, and
  \<open>newest\<close> is \<open>ORDER BY key DESC LIMIT 1\<close> (the first of the rows with the greatest key).
\<close>

definition update_where :: "('r \<Rightarrow> bool) \<Rightarrow> ('r \<Rightarrow> 'r) \<Rightarrow> 'r list \<Rightarrow> 'r list" where
  "update_where c f rs = map (\<lambda>r. if c r then f r else r) rs"

fun newest :: "('r \<Rightarrow> time) \<Rightarrow> 'r list \<Rightarrow> 'r option" where
  "newest k [] = None"
| "newest k (r # rs) = (case newest k rs of None \<Rightarrow> Some r | Some m \<Rightarrow> if k m > k r then Some m else Some r)"

definition replace_row :: "('r \<Rightarrow> uuid) \<Rightarrow> 'r \<Rightarrow> 'r list \<Rightarrow> 'r list" where
  "replace_row key r rs = update_where (\<lambda>x. key x = key r) (\<lambda>_. r) rs"

lemma update_where_simps [simp]:
  "update_where c f [] = []"
  "update_where c f (r # rs) = (if c r then f r else r) # update_where c f rs"
  by (simp_all add: update_where_def)

lemma length_update_where [simp]: "length (update_where c f rs) = length rs"
  by (simp add: update_where_def)

lemma set_update_where:
  "x \<in> set (update_where c f rs) \<longleftrightarrow> (\<exists>r \<in> set rs. x = (if c r then f r else r))"
  by (auto simp: update_where_def)

lemma bex_update_where:
  "(\<exists>x \<in> set (update_where c f rs). P x) \<longleftrightarrow> (\<exists>r \<in> set rs. P (if c r then f r else r))"
  by (induction rs) auto

lemma update_where_none: "(\<And>r. r \<in> set rs \<Longrightarrow> \<not> c r) \<Longrightarrow> update_where c f rs = rs"
  by (induction rs) auto

lemma map_update_where:
  "(\<And>r. c r \<Longrightarrow> k (f r) = k r) \<Longrightarrow> map k (update_where c f rs) = map k rs"
  by (induction rs) auto

lemma filter_update_where:
  "(\<And>r. c r \<Longrightarrow> P (f r) = P r) \<Longrightarrow> filter P (update_where c f rs) = update_where c f (filter P rs)"
  by (induction rs) auto

lemma newest_Some_in: "newest k rs = Some r \<Longrightarrow> r \<in> set rs"
  by (induction rs arbitrary: r) (auto split: option.splits if_splits)

lemma newest_None [simp]: "newest k rs = None \<longleftrightarrow> rs = []"
  by (cases rs) (auto split: option.splits)

lemma newest_max: "newest k rs = Some r \<Longrightarrow> x \<in> set rs \<Longrightarrow> k x \<le> k r"
proof (induction rs arbitrary: r)
  case Nil
  then show ?case by simp
next
  case (Cons y rs)
  show ?case
  proof (cases "newest k rs")
    case None
    with Cons.prems show ?thesis by simp
  next
    case (Some m)
    with Cons.IH[OF Some] Cons.prems show ?thesis
      by (auto split: if_splits)
  qed
qed

lemma map_replace_row [row_simps]: "map key (replace_row key r rs) = map key rs"
  unfolding replace_row_def by (rule map_update_where) simp

lemma set_replace_row:
  "x \<in> set (replace_row key r rs) \<longleftrightarrow>
     (x \<in> set rs \<and> key x \<noteq> key r) \<or> (x = r \<and> key r \<in> key ` set rs)"
  unfolding replace_row_def set_update_where by (auto simp: image_iff dest: sym)

lemma find_replace_row [row_simps]:
  "find (\<lambda>x. key x = i) (replace_row key r rs) =
     (if i = key r then (if i \<in> key ` set rs then Some r else None) else find (\<lambda>x. key x = i) rs)"
  by (induction rs) (auto simp: replace_row_def)

lemma find_Some_in: "find P rs = Some r \<Longrightarrow> r \<in> set rs \<and> P r"
  by (induction rs) (auto split: if_splits)

lemma find_append: "find P (xs @ ys) = (case find P xs of Some x \<Rightarrow> Some x | None \<Rightarrow> find P ys)"
  by (induction xs) auto

lemma find_distinct:
  "distinct (map key rs) \<Longrightarrow> r \<in> set rs \<Longrightarrow> find (\<lambda>x. key x = key r) rs = Some r"
  by (induction rs) (auto simp: image_iff)

lemma find_None_not: "find P rs = None \<Longrightarrow> r \<in> set rs \<Longrightarrow> \<not> P r"
  by (auto simp: find_None_iff)

end
