(* ===== verification/Models.thy ===== *)
theory Models
  imports Go_Prelude Complex_Main
begin

text \<open>
  The rows of the billing schema (package \<open>pkg/db/models\<close>) as records with the fields of the Go
  structs, and the methods of \<open>Subscription\<close> and \<open>NotificationQueue\<close>. A pointer is an \<open>option\<close>; a
  \<open>string\<close> enumeration is a datatype of its constants with one constructor for any other string. A
  method that reads the clock takes the instants it reads as arguments, in the order it reads them.
  A \<open>uuid.UUID\<close> is a number, with 0 for \<open>uuid.Nil\<close>; a \<open>float64\<close> amount is the rational it denotes.
\<close>

type_synonym float64 = rat

section \<open>Floating-point values\<close>

text \<open>
  A \<open>float64\<close> computed at run time: a finite value (exact in the model: rounding is left out), an infinity
  or a NaN, with the comparisons of IEEE 754.
\<close>

datatype fval = Fin float64 | PosInf | NegInf | NaN

fun fv_less :: "fval \<Rightarrow> fval \<Rightarrow> bool" where
  "fv_less (Fin a) (Fin b) = (a < b)"
| "fv_less NegInf (Fin b) = True"
| "fv_less NegInf PosInf = True"
| "fv_less (Fin a) PosInf = True"
| "fv_less _ _ = False"

definition fv_le :: "fval \<Rightarrow> fval \<Rightarrow> bool" where
  "fv_le a b \<longleftrightarrow> fv_less a b \<or> (a = b \<and> a \<noteq> NaN)"

fun fv_div :: "fval \<Rightarrow> fval \<Rightarrow> fval" where
  "fv_div (Fin a) (Fin b) = (if b \<noteq> 0 then Fin (a / b) else if a > 0 then PosInf else if a < 0 then NegInf else NaN)"
| "fv_div (Fin a) PosInf = Fin 0"
| "fv_div (Fin a) NegInf = Fin 0"
| "fv_div PosInf (Fin b) = (if b < 0 then NegInf else PosInf)"
| "fv_div NegInf (Fin b) = (if b < 0 then PosInf else NegInf)"
| "fv_div _ _ = NaN"

fun fv_neg :: "fval \<Rightarrow> fval" where
  "fv_neg (Fin a) = Fin (- a)"
| "fv_neg PosInf = NegInf"
| "fv_neg NegInf = PosInf"
| "fv_neg NaN = NaN"

section \<open>Enumerations\<close>

datatype processor = ProcessorNMI | ProcessorCCBill | ProcessorSolana | ProcessorPayPal | ProcessorOther string

fun processor_str :: "processor \<Rightarrow> string" where
  "processor_str ProcessorNMI = ''nmi''"
| "processor_str ProcessorCCBill = ''ccbill''"
| "processor_str ProcessorSolana = ''solana''"
| "processor_str ProcessorPayPal = ''paypal''"
| "processor_str (ProcessorOther s) = s"

datatype sub_status = StatusPending | StatusActive | StatusPastDue | StatusCancelled | StatusOther string

fun sub_status_str :: "sub_status \<Rightarrow> string" where
  "sub_status_str StatusPending = ''pending''"
| "sub_status_str StatusActive = ''active''"
| "sub_status_str StatusPastDue = ''past_due''"
| "sub_status_str StatusCancelled = ''cancelled''"
| "sub_status_str (StatusOther s) = s"

datatype cancel_type = CancelTypeUser | CancelTypeMerchant | CancelTypeExpired | CancelTypeChargeback | CancelTypeOther string

fun cancel_type_str :: "cancel_type \<Rightarrow> string" where
  "cancel_type_str CancelTypeUser = ''user''"
| "cancel_type_str CancelTypeMerchant = ''merchant''"
| "cancel_type_str CancelTypeExpired = ''expired''"
| "cancel_type_str CancelTypeChargeback = ''chargeback''"
| "cancel_type_str (CancelTypeOther s) = s"

datatype source_type = EntitlementSourceSubscription | EntitlementSourceOneOff | EntitlementSourceAdmin | EntitlementSourceGrace

datatype revoke_reason = EntitlementRevokeAdmin

datatype notif_event =
    NotificationPremiumStarted
  | NotificationPremiumRenewed
  | NotificationPremiumEnded
  | NotificationPaymentMethodFailed
  | NotificationPaymentMethodAutoUpdated
  | NotificationPaymentMethodUpdateRequired
  | NotificationOneOffPurchaseCompleted
  | NotificationSystemAlert
  | NotificationTranslationCompleted
  | NotificationTranslationCompletedPendingDigest
  | NotificationTranslationDigestSent
  | NotificationOther string

text \<open>\<open>email.PremiumEndReason\<close> and its parser.\<close>

datatype end_reason =
    PremiumEndReasonUserCancel | PremiumEndReasonExpired | PremiumEndReasonChargeback
  | PremiumEndReasonRefund | PremiumEndReasonAdmin | PremiumEndReasonProcessor | PremiumEndReasonUnknown

fun end_reason_str :: "end_reason \<Rightarrow> string" where
  "end_reason_str PremiumEndReasonUserCancel = ''user_cancel''"
| "end_reason_str PremiumEndReasonExpired = ''expired''"
| "end_reason_str PremiumEndReasonChargeback = ''chargeback''"
| "end_reason_str PremiumEndReasonRefund = ''refund''"
| "end_reason_str PremiumEndReasonAdmin = ''admin''"
| "end_reason_str PremiumEndReasonProcessor = ''processor_cancel''"
| "end_reason_str PremiumEndReasonUnknown = ''unknown''"

text \<open>A value of a \<open>map[string]any\<close> (notification data, metadata of analytics events).\<close>

datatype meta = MStr string | MAmount float64 | MFloat fval | MTime "time option" | MBool bool | MId uuid | MMap "(string \<times> meta) list"

section \<open>Rows\<close>

record product =
  prod_ID :: uuid
  prod_Slug :: string
  prod_DisplayName :: string
  prod_Description :: string
  prod_EntitlementsSpec :: "(string \<times> int option) list"
  prod_IsActive :: bool
  prod_CreatedAt :: time
  prod_UpdatedAt :: time

record price =
  price_ID :: uuid
  price_ProductID :: uuid
  price_DisplayName :: string
  price_IsActive :: bool
  price_Amount :: float64
  price_Currency :: string
  price_BillingCycleDays :: "int option"
  price_NMIPlanID :: "string option"
  price_NMIProvider :: "string option"
  price_CCBillPriceID :: "string option"
  price_CreatedAt :: time
  price_UpdatedAt :: time

record payment_method =
  pm_ID :: uuid
  pm_UserID :: string
  pm_Processor :: processor
  pm_Provider :: "string option"
  pm_VaultID :: string
  pm_BillingID :: "string option"
  pm_InitialTransactionID :: string
  pm_IsActive :: bool
  pm_LastFour :: "string option"
  pm_CardType :: "string option"
  pm_ExpiryDate :: "string option"
  pm_FailureReason :: "string option"
  pm_CreatedAt :: time
  pm_UpdatedAt :: time

text \<open>
  \<open>sub_Price\<close> and \<open>sub_PaymentMethod\<close> are the relations that a query fills in; they are \<open>None\<close> in a
  stored row.
\<close>

record subscription =
  sub_ID :: uuid
  sub_UserID :: string
  sub_PriceID :: uuid
  sub_Status :: sub_status
  sub_StartedAt :: time
  sub_EndedAt :: "time option"
  sub_CurrentPeriodStartsAt :: "time option"
  sub_CurrentPeriodEndsAt :: "time option"
  sub_Processor :: processor
  sub_ProcessorProvider :: "string option"
  sub_ProcessorSubscriptionID :: string
  sub_UserEmail :: "string option"
  sub_PaymentMethodID :: "uuid option"
  sub_LastRetryAt :: "time option"
  sub_RetryAttempts :: "int option"
  sub_NextRetryAt :: "time option"
  sub_CancelFeedback :: "string option"
  sub_CancelType :: "cancel_type option"
  sub_CancelledAt :: "time option"
  sub_Price :: "price option"
  sub_PaymentMethod :: "payment_method option"
  sub_Metadata :: "string option"
  sub_CreatedAt :: time
  sub_UpdatedAt :: time

record entitlement =
  ent_ID :: uuid
  ent_UserID :: string
  ent_Entitlement :: string
  ent_StartAt :: time
  ent_EndAt :: "time option"
  ent_SourceID :: "uuid option"
  ent_SourceType :: source_type
  ent_RevokedAt :: "time option"
  ent_RevokeReason :: "revoke_reason option"
  ent_CreatedAt :: time
  ent_UpdatedAt :: time
  ent_DeletedAt :: "time option"

record notification =
  nq_ID :: uuid
  nq_UserID :: string
  nq_EventType :: notif_event
  nq_Data :: "(string \<times> meta) list"
  nq_Seen :: bool
  nq_CreatedAt :: time

record payment =
  pay_ID :: uuid
  pay_UserID :: string
  pay_PriceID :: uuid
  pay_SubscriptionID :: "uuid option"
  pay_RefundedPaymentID :: "uuid option"
  pay_Processor :: processor
  pay_ProcessorProvider :: "string option"
  pay_TransactionID :: string
  pay_Amount :: float64
  pay_Currency :: string
  pay_PurchasedAt :: time
  pay_CreatedAt :: time

record idempotency_request =
  idem_ID :: uuid
  idem_Operation :: string
  idem_Key :: string
  idem_UserID :: "string option"
  idem_Status :: string
  idem_ResultJSON :: "string option"
  idem_CreatedAt :: time
  idem_UpdatedAt :: time

record webhook_event =
  wh_ID :: uuid
  wh_Processor :: string
  wh_EventID :: "string option"
  wh_EventType :: string
  wh_Status :: string
  wh_ProcessedAt :: "time option"
  wh_RawPayload :: string
  wh_Headers :: "(string \<times> string) list"
  wh_IPAddress :: string
  wh_SignatureValid :: "bool option"
  wh_Signature :: "string option"
  wh_ProcessingResult :: "string option"
  wh_ErrorMessage :: "string option"
  wh_SubscriptionID :: "uuid option"
  wh_UserID :: "string option"
  wh_ProcessingAttempts :: int
  wh_LastAttemptAt :: "time option"
  wh_NextAttemptAt :: "time option"
  wh_ReceivedAt :: time
  wh_CreatedAt :: time
  wh_UpdatedAt :: time

record ccbill_alias =
  al_Alias :: string
  al_UserID :: string
  al_CreatedAt :: time
  al_UpdatedAt :: time

text \<open>The tables of the Solana payments. Lamports and token units are \<open>uint64\<close>.\<close>

record sol_intent =
  spi_ID :: uuid
  spi_UserID :: string
  spi_PriceID :: uuid
  spi_FlowType :: string
  spi_Token :: string
  spi_TokenMint :: string
  spi_Amount :: float64
  spi_Currency :: string
  spi_ExpectedAmountLamports :: "64 word"
  spi_PayerWallet :: "string option"
  spi_RecipientWallet :: string
  spi_Reference :: "string option"
  spi_Memo :: "string option"
  spi_Status :: string
  spi_Signature :: "string option"
  spi_TransactionSignature :: "string option"
  spi_ErrorMessage :: "string option"
  spi_ExpiresAt :: "time option"
  spi_ConfirmedAt :: "time option"
  spi_CreatedAt :: time
  spi_UpdatedAt :: time

record sol_wallet =
  sw_ID :: uuid
  sw_UserID :: string
  sw_Address :: string
  sw_IsVerified :: bool
  sw_VerifiedAt :: "time option"
  sw_CreatedAt :: time
  sw_UpdatedAt :: time

record sol_challenge =
  swc_UserID :: string
  swc_Address :: string
  swc_Message :: string
  swc_Nonce :: string
  swc_ExpiresAt :: time
  swc_UpdatedAt :: time

record sol_transaction =
  stx_ID :: uuid
  stx_UserID :: "string option"
  stx_Signature :: "string option"
  stx_Status :: string
  stx_Amount :: float64
  stx_Token :: string
  stx_TokenMint :: string
  stx_FromAddress :: string
  stx_ToAddress :: string
  stx_IntentID :: "uuid option"
  stx_BlockTime :: "time option"
  stx_Slot :: "int option"

section \<open>Methods of Subscription\<close>

text \<open>\<open>ptr != nil && !ptr.IsZero()\<close>.\<close>

definition set_time :: "time option \<Rightarrow> bool" where
  "set_time t = (case t of None \<Rightarrow> False | Some x \<Rightarrow> \<not> is_zero_time x)"

definition update_current_periods :: "time \<Rightarrow> duration option \<Rightarrow> subscription \<Rightarrow> subscription" where
  "update_current_periods now billingCycle s =
     (case sub_CurrentPeriodEndsAt s of
        Some e \<Rightarrow>
          if \<not> is_zero_time e then
            s\<lparr>sub_CurrentPeriodStartsAt := Some e,
              sub_CurrentPeriodEndsAt := Some (case billingCycle of
                 Some c \<Rightarrow> time_add e c | None \<Rightarrow> time_add e (30 * 24 * hour))\<rparr>
          else
            s\<lparr>sub_CurrentPeriodStartsAt := Some now,
              sub_CurrentPeriodEndsAt := Some (case billingCycle of
                 Some c \<Rightarrow> time_add now c | None \<Rightarrow> time_add now (30 * 24 * hour))\<rparr>
      | None \<Rightarrow>
          s\<lparr>sub_CurrentPeriodStartsAt := Some now,
            sub_CurrentPeriodEndsAt := Some (case billingCycle of
               Some c \<Rightarrow> time_add now c | None \<Rightarrow> time_add now (30 * 24 * hour))\<rparr>)"

definition ActivateWithPrice :: "time \<Rightarrow> price option \<Rightarrow> subscription \<Rightarrow> subscription res" where
  "ActivateWithPrice now pr s =
     (case pr of
        None \<Rightarrow> Inl (ErrNew ''price model cannot be nil'')
      | Some p \<Rightarrow>
          (case price_BillingCycleDays p of
             None \<Rightarrow> Inl (GoPanic ''nil BillingCycleDays'')
           | Some d \<Rightarrow>
               let s1 = update_current_periods now (Some (days_dur d)) s
               in Inr (s1\<lparr>sub_EndedAt := None, sub_CancelType := None, sub_CancelledAt := None,
                          sub_PriceID := price_ID p, sub_CancelFeedback := None,
                          sub_Status := StatusActive\<rparr>)))"

definition ResetCurrentPeriods :: "time \<Rightarrow> subscription \<Rightarrow> subscription res" where
  "ResetCurrentPeriods now s =
     (case sub_CurrentPeriodEndsAt s of
        None \<Rightarrow> Inl (ErrNew ''invalid subscription period end date'')
      | Some e \<Rightarrow>
          if is_zero_time e then Inl (ErrNew ''invalid subscription period end date'')
          else if e = now \<or> e < now then
            Inr (s\<lparr>sub_CurrentPeriodStartsAt := Some 0, sub_CurrentPeriodEndsAt := Some 0,
                   sub_EndedAt := Some now\<rparr>)
          else Inr s)"

text \<open>\<open>Cancel\<close> reads the clock (\<open>now\<close>), and then again inside \<open>ResetCurrentPeriods\<close> (\<open>now2\<close>).\<close>

definition CancelSub :: "time \<Rightarrow> time \<Rightarrow> string \<Rightarrow> cancel_type option \<Rightarrow> subscription \<Rightarrow> subscription res" where
  "CancelSub now now2 reason cancelType s =
     (case ResetCurrentPeriods now2 s of
        Inl e \<Rightarrow> Inl e
      | Inr s1 \<Rightarrow>
          let s2 = s1\<lparr>sub_CancelledAt := Some now, sub_CancelType := cancelType\<rparr>;
              s3 = (if reason \<noteq> '''' then s2\<lparr>sub_CancelFeedback := Some reason\<rparr> else s2)
          in Inr (s3\<lparr>sub_Status := StatusCancelled\<rparr>))"

definition ValidateSub :: "time \<Rightarrow> fval \<Rightarrow> subscription \<Rightarrow> unit res" where
  "ValidateSub now amount s =
     (if (case sub_CurrentPeriodEndsAt s of Some e \<Rightarrow> e < now | None \<Rightarrow> False) \<and> sub_Status s = StatusActive then
        Inl (ErrNew ''cannot activate expired subscription without proper renewal'')
      else if sub_Status s = StatusActive \<and> fv_le amount (Fin 0) then
        Inl (ErrNew ''cannot activate subscription with invalid amount'')
      else if sub_Status s = StatusPastDue \<and> (case sub_RetryAttempts s of Some n \<Rightarrow> n \<ge> 5 | None \<Rightarrow> False) then
        Inl (ErrNew ''subscription has exceeded maximum dunning attempts, should be cancelled'')
      else Inr ())"

lemma update_current_periods_frame [simp]:
  "sub_ID (update_current_periods now c s) = sub_ID s"
  "sub_UserID (update_current_periods now c s) = sub_UserID s"
  "sub_Status (update_current_periods now c s) = sub_Status s"
  "sub_RetryAttempts (update_current_periods now c s) = sub_RetryAttempts s"
  by (auto simp: update_current_periods_def split: option.splits)

lemma update_current_periods_ends:
  "sub_CurrentPeriodEndsAt (update_current_periods now (Some c) s) =
     Some (time_add (if set_time (sub_CurrentPeriodEndsAt s) then the (sub_CurrentPeriodEndsAt s) else now) c)"
  by (auto simp: update_current_periods_def set_time_def split: option.splits)

lemma update_current_periods_starts:
  "sub_CurrentPeriodStartsAt (update_current_periods now c s) =
     Some (if set_time (sub_CurrentPeriodEndsAt s) then the (sub_CurrentPeriodEndsAt s) else now)"
  by (auto simp: update_current_periods_def set_time_def split: option.splits)

lemma ResetCurrentPeriods_ok_iff:
  "(\<exists>s'. ResetCurrentPeriods now s = Inr s') \<longleftrightarrow> set_time (sub_CurrentPeriodEndsAt s)"
  by (auto simp: ResetCurrentPeriods_def set_time_def split: option.splits)

lemma ResetCurrentPeriods_frame:
  assumes "ResetCurrentPeriods now s = Inr s'"
  shows "sub_ID s' = sub_ID s" "sub_UserID s' = sub_UserID s" "sub_Status s' = sub_Status s"
    "sub_PriceID s' = sub_PriceID s"
  using assms by (auto simp: ResetCurrentPeriods_def split: option.splits if_splits)

lemma ResetCurrentPeriods_closed:
  assumes "ResetCurrentPeriods now s = Inr s'"
  shows "(\<exists>e. sub_CurrentPeriodEndsAt s' = Some e \<and> now < e) \<or> sub_EndedAt s' = Some now"
  using assms by (auto simp: ResetCurrentPeriods_def split: option.splits if_splits)

section \<open>Methods of NotificationQueue\<close>

definition IsSeen :: "notification \<Rightarrow> bool" where
  "IsSeen nq = nq_Seen nq"

definition MarkAsSeen :: "notification \<Rightarrow> notification" where
  "MarkAsSeen nq = nq\<lparr>nq_Seen := True\<rparr>"

definition IsExpiredForCleanup :: "time \<Rightarrow> notification \<Rightarrow> bool" where
  "IsExpiredForCleanup now nq =
     (if IsSeen nq then nq_CreatedAt nq < time_add now (- 90 * 24 * hour)
      else nq_CreatedAt nq < time_add now (- 180 * 24 * hour))"

end
