(* ===== verification/Schema.thy ===== *)
theory Schema
  imports Models
begin

text \<open>
  The tables of the PostgreSQL schema (\<open>internal/manager/data/migrations/postgres\<close>) as lists of rows
  in insertion order, with the primary keys and unique indexes of the subscriptions, entitlements,
  notifications, payments and idempotency records that the statements are checked against.
\<close>

section \<open>The tables\<close>

record tables =
  t_subs :: "subscription list"
  t_ents :: "entitlement list"
  t_notifs :: "notification list"
  t_prices :: "price list"
  t_products :: "product list"
  t_payments :: "payment list"
  t_pms :: "payment_method list"
  t_idems :: "idempotency_request list"
  t_events :: "webhook_event list"
  t_aliases :: "ccbill_alias list"
  t_intents :: "sol_intent list"
  t_wallets :: "sol_wallet list"
  t_challenges :: "sol_challenge list"
  t_soltxs :: "sol_transaction list"

section \<open>Primary keys and unique indexes\<close>

definition duplicate_key :: string where
  "duplicate_key = ''ERROR: duplicate key value violates unique constraint''"

text \<open>\<open>idx_subscriptions_user_active\<close>: one active subscription per user.\<close>

definition is_active_sub :: "subscription \<Rightarrow> bool" where
  "is_active_sub s \<longleftrightarrow> sub_Status s = StatusActive"

definition sub_unique :: "subscription list \<Rightarrow> bool" where
  "sub_unique rs \<longleftrightarrow> distinct (map sub_ID rs) \<and> distinct (map sub_UserID (filter is_active_sub rs))"

text \<open>
  \<open>uniq_entitlements_active\<close>: one open (no end, not revoked) window per user and entitlement.
  \<open>idx_entitlements_no_overlap\<close>: no two live windows of a user and entitlement start together.
\<close>

definition ent_open :: "entitlement \<Rightarrow> bool" where
  "ent_open e \<longleftrightarrow> ent_RevokedAt e = None \<and> ent_EndAt e = None"

definition ent_live :: "entitlement \<Rightarrow> bool" where
  "ent_live e \<longleftrightarrow> ent_RevokedAt e = None \<and> ent_DeletedAt e = None"

definition ent_unique :: "entitlement list \<Rightarrow> bool" where
  "ent_unique rs \<longleftrightarrow> distinct (map ent_ID rs) \<and>
     distinct (map (\<lambda>e. (ent_UserID e, ent_Entitlement e)) (filter ent_open rs)) \<and>
     distinct (map (\<lambda>e. (ent_UserID e, ent_Entitlement e, ent_StartAt e)) (filter ent_live rs))"

text \<open>\<open>UNIQUE(processor, transaction_id)\<close> and \<open>UNIQUE(operation, key)\<close>.\<close>

definition pay_unique :: "payment list \<Rightarrow> bool" where
  "pay_unique rs \<longleftrightarrow> distinct (map pay_ID rs) \<and> distinct (map (\<lambda>p. (pay_Processor p, pay_TransactionID p)) rs)"

definition idem_unique :: "idempotency_request list \<Rightarrow> bool" where
  "idem_unique rs \<longleftrightarrow> distinct (map idem_ID rs) \<and> distinct (map (\<lambda>r. (idem_Operation r, idem_Key r)) rs)"

text \<open>
  The indexes of these five tables. Those of the other tables (prices, products, payment methods, webhook events,
  aliases, and the wallets, intents and transactions of Solana) are not part of it: the statements that
  insert there check what their theories say they check.
\<close>

definition schema_ok :: "tables \<Rightarrow> bool" where
  "schema_ok t \<longleftrightarrow> sub_unique (t_subs t) \<and> ent_unique (t_ents t) \<and> distinct (map nq_ID (t_notifs t)) \<and>
     pay_unique (t_payments t) \<and> idem_unique (t_idems t)"

section \<open>What the indexes say\<close>

lemma distinct_map_filter_eq:
  "distinct (map k (filter P rs)) \<Longrightarrow> a \<in> set rs \<Longrightarrow> b \<in> set rs \<Longrightarrow> P a \<Longrightarrow> P b \<Longrightarrow> k a = k b \<Longrightarrow> a = b"
  by (simp add: distinct_map inj_on_def)

lemma sub_unique_active:
  assumes "sub_unique rs" "a \<in> set rs" "b \<in> set rs" "sub_Status a = StatusActive" "sub_Status b = StatusActive"
    "sub_UserID a = sub_UserID b"
  shows "a = b"
  using assms by (intro distinct_map_filter_eq[of sub_UserID is_active_sub rs])
    (simp_all add: sub_unique_def is_active_sub_def)

lemma ent_unique_open:
  assumes "ent_unique rs" "a \<in> set rs" "b \<in> set rs" "ent_open a" "ent_open b"
    "ent_UserID a = ent_UserID b" "ent_Entitlement a = ent_Entitlement b"
  shows "a = b"
  using assms by (intro distinct_map_filter_eq[of "\<lambda>e. (ent_UserID e, ent_Entitlement e)" ent_open rs])
    (simp_all add: ent_unique_def)

lemma distinct_filter_update_where:
  assumes "distinct (map k (filter P rs))" "\<And>r. c r \<Longrightarrow> \<not> P (f r)"
  shows "distinct (map k (filter P (update_where c f rs)))"
  using assms(1)
proof (induction rs)
  case (Cons r rs)
  have "set (filter P (update_where c f rs)) \<subseteq> set (filter P rs)"
    by (auto simp: set_update_where assms(2))
  with Cons show ?case
    by (auto simp: assms(2) split: if_splits)
qed simp

text \<open>Closing windows cannot violate an index: they only leave the partial indexes.\<close>

lemma ent_unique_close:
  assumes "ent_unique rs" "\<And>r. c r \<Longrightarrow> ent_ID (f r) = ent_ID r" "\<And>r. c r \<Longrightarrow> ent_RevokedAt (f r) \<noteq> None"
  shows "ent_unique (update_where c f rs)"
  using assms by (simp add: ent_unique_def map_update_where distinct_filter_update_where ent_open_def ent_live_def)

section \<open>The contract of a keyed table\<close>

text \<open>
  What the repositories promise of a table with a primary key: \<open>put\<close> (\<open>UPDATE ... WHERE id = ?\<close>)
  replaces the row with that key, stored in its normal form, and nothing else; \<open>add\<close> (\<open>INSERT\<close>)
  appends the row.
\<close>

locale keyed_table =
  fixes key :: "'r \<Rightarrow> uuid"
    and norm :: "'r \<Rightarrow> 'r"
    and rows :: "tables \<Rightarrow> 'r list"
    and put :: "'r \<Rightarrow> tables \<Rightarrow> tables"
    and add :: "'r \<Rightarrow> tables \<Rightarrow> tables"
  assumes key_norm: "key (norm r) = key r"
    and rows_put: "rows (put r t) = replace_row key (norm r) (rows t)"
    and rows_add: "rows (add r t) = rows t @ [norm r]"
begin

definition lookup :: "tables \<Rightarrow> uuid \<Rightarrow> 'r option" where
  "lookup t i = find (\<lambda>r. key r = i) (rows t)"

lemma lookup_in: "lookup t i = Some r \<Longrightarrow> r \<in> set (rows t) \<and> key r = i"
  unfolding lookup_def by (rule find_Some_in)

lemma lookup_unique: "distinct (map key (rows t)) \<Longrightarrow> r \<in> set (rows t) \<Longrightarrow> lookup t (key r) = Some r"
  unfolding lookup_def by (rule find_distinct)

lemma lookup_put:
  "lookup (put r t) i =
     (if i = key r then (if i \<in> key ` set (rows t) then Some (norm r) else None) else lookup t i)"
  unfolding lookup_def rows_put using find_replace_row[of key i "norm r" "rows t"] by (simp add: key_norm)

lemma lookup_add:
  "lookup (add r t) i = (case lookup t i of Some x \<Rightarrow> Some x | None \<Rightarrow> if i = key r then Some (norm r) else None)"
  unfolding lookup_def rows_add find_append by (auto simp: key_norm split: option.split)

lemma keys_put: "map key (rows (put r t)) = map key (rows t)"
  unfolding rows_put by (rule map_replace_row)

lemma rows_put_other: "x \<in> set (rows (put r t)) \<Longrightarrow> key x \<noteq> key r \<Longrightarrow> x \<in> set (rows t)"
  unfolding rows_put by (auto simp: set_replace_row key_norm)

lemma other_rows_put: "x \<in> set (rows t) \<Longrightarrow> key x \<noteq> key r \<Longrightarrow> x \<in> set (rows (put r t))"
  unfolding rows_put by (auto simp: set_replace_row key_norm)

end

end
