(* ===== verification/Query.thy ===== *)
theory Query
  imports Go_Prelude Complex_Main
begin

text \<open>
  \<open>pkg/query/\<close>: the options of a paginated query (the fields that select a page), their defaults, and the
  response with its page count. The theory shows that the pages of a listing are the listing.
\<close>

section \<open>The options\<close>

record query_options =
  qo_Page :: int
  qo_PageSize :: int
  qo_Limit :: int
  qo_Offset :: int
  qo_TotalItems :: int
  qo_All :: bool

abbreviation defaultPage :: int where "defaultPage \<equiv> 1"
abbreviation defaultPageSize :: int where "defaultPageSize \<equiv> 10"
abbreviation maxPageSize :: int where "maxPageSize \<equiv> 100"

text \<open>\<open>bound\<close> are the options as far as they were bound, and whether binding them failed.\<close>

definition ParseQueryOptions :: "query_options \<Rightarrow> bool \<Rightarrow> query_options" where
  "ParseQueryOptions bound failed =
     (let opts = (if failed then bound\<lparr>qo_Page := defaultPage, qo_PageSize := defaultPageSize\<rparr> else bound)
      in if qo_All opts then opts\<lparr>qo_PageSize := 0, qo_Page := 1\<rparr>
         else let o1 = (if qo_Page opts < 1 then opts\<lparr>qo_Page := defaultPage\<rparr> else opts);
                  o2 = (if qo_PageSize o1 < 1 then o1\<lparr>qo_PageSize := defaultPageSize\<rparr> else o1)
              in if qo_PageSize o2 > maxPageSize then o2\<lparr>qo_PageSize := maxPageSize\<rparr> else o2)"

definition GetLimit :: "query_options \<Rightarrow> int" where
  "GetLimit o' = (if qo_Limit o' > 0 then qo_Limit o' else qo_PageSize o')"

definition GetOffset :: "query_options \<Rightarrow> int" where
  "GetOffset o' = (if qo_Offset o' > 0 then qo_Offset o' else (qo_Page o' - 1) * qo_PageSize o')"

definition SetTotal :: "int \<Rightarrow> query_options \<Rightarrow> query_options" where
  "SetTotal n o' = o'\<lparr>qo_TotalItems := n\<rparr>"

definition TotalPages :: "query_options \<Rightarrow> int" where
  "TotalPages o' = (if qo_All o' \<or> qo_PageSize o' \<le> 0 then 1 else (qo_TotalItems o' + qo_PageSize o' - 1) div qo_PageSize o')"

text \<open>The rows of the page: a limit or an offset that is not positive is left out of the statement.\<close>

definition slice :: "int \<Rightarrow> int \<Rightarrow> 'r list \<Rightarrow> 'r list" where
  "slice limit offset rs = (let xs = drop (nat offset) rs in if limit \<le> 0 then xs else take (nat limit) xs)"

definition page_rows :: "query_options \<Rightarrow> 'r list \<Rightarrow> 'r list" where
  "page_rows o' rs = slice (GetLimit o') (GetOffset o') rs"

record 'r page_response =
  pr_Items :: "'r list"
  pr_Page :: int
  pr_PageSize :: int
  pr_TotalItems :: int
  pr_TotalPages :: int
  pr_HasMore :: bool

definition PaginatedResponse :: "query_options \<Rightarrow> 'r list \<Rightarrow> int \<Rightarrow> 'r page_response" where
  "PaginatedResponse q items n =
     (if qo_All q then \<lparr>pr_Items = items, pr_Page = 1, pr_PageSize = n, pr_TotalItems = n, pr_TotalPages = 1, pr_HasMore = False\<rparr>
      else let totalPages = ceiling (of_int n / of_int (qo_PageSize q) :: rat)
        in \<lparr>pr_Items = (if n = 0 then [] else items), pr_Page = qo_Page q, pr_PageSize = qo_PageSize q, pr_TotalItems = n,
            pr_TotalPages = totalPages, pr_HasMore = qo_Page q < totalPages\<rparr>)"

section \<open>The pages of a listing\<close>

lemma parsed_bounds:
  assumes "\<not> qo_All bound"
  shows "1 \<le> qo_Page (ParseQueryOptions bound failed)" "1 \<le> qo_PageSize (ParseQueryOptions bound failed)"
    "qo_PageSize (ParseQueryOptions bound failed) \<le> 100" "\<not> qo_All (ParseQueryOptions bound failed)"
    "qo_Limit (ParseQueryOptions bound failed) = qo_Limit bound" "qo_Offset (ParseQueryOptions bound failed) = qo_Offset bound"
  using assms by (auto simp: ParseQueryOptions_def Let_def)

lemma ceiling_div:
  assumes "0 < s"
  shows "ceiling (of_int n / of_int s :: rat) = (n + s - 1) div s"
proof -
  let ?q = "(n + s - 1) div s"
  have m: "s * ?q + (n + s - 1) mod s = n + s - 1" "0 \<le> (n + s - 1) mod s" "(n + s - 1) mod s < s"
    using assms by simp_all
  then have "s * (?q - 1) < n" "n \<le> s * ?q"
    unfolding right_diff_distrib mult_1_right using m by linarith+
  then have "(of_int (s * (?q - 1)) :: rat) < of_int n" "(of_int n :: rat) \<le> of_int (s * ?q)"
    by (simp_all only: of_int_less_iff of_int_le_iff)
  then show ?thesis
    using assms by (simp add: ceiling_eq_iff field_simps)
qed

text \<open>Cutting a list into pages of \<open>s\<close> rows.\<close>

lemma concat_pages: "concat (map (\<lambda>k. take s (drop (k * s) xs)) [0..<m]) = take (m * s) xs"
proof (induction m)
  case (Suc m)
  have "take (m * s) xs @ take s (drop (m * s) xs) = take (m * s + s) xs"
    by (simp add: take_add)
  with Suc show ?case
    by (simp add: add.commute)
qed simp

lemma page_rows_nth:
  assumes "0 < qo_PageSize q" "qo_Limit q \<le> 0" "qo_Offset q \<le> 0"
  shows "page_rows (q\<lparr>qo_Page := int k + 1\<rparr>) xs = take (nat (qo_PageSize q)) (drop (k * nat (qo_PageSize q)) xs)"
  using assms by (simp add: page_rows_def slice_def GetLimit_def GetOffset_def Let_def nat_mult_distrib)

text \<open>
  C27. Whatever page size a client asks for, the pages 1 to the page count that the response states, as the
  repositories cut them, are the whole listing, each row once and in order; a page says that there are more
  exactly when it is not the last one, and it has at most 100 rows.
\<close>

theorem pages_are_the_listing:
  assumes "q = ParseQueryOptions bound failed" "\<not> qo_All bound" "qo_Limit bound \<le> 0" "qo_Offset bound \<le> 0"
    and "resp = (\<lambda>k. PaginatedResponse (q\<lparr>qo_Page := k\<rparr>) (page_rows (q\<lparr>qo_Page := k\<rparr>) xs) (int (length xs)))"
  shows "concat (map (\<lambda>k. pr_Items (resp (int k + 1))) [0..<nat (pr_TotalPages (resp 1))]) = xs \<and>
    TotalPages (SetTotal (int (length xs)) q) = pr_TotalPages (resp 1) \<and>
    (\<forall>k. pr_HasMore (resp k) = (k < pr_TotalPages (resp 1)) \<and> length (pr_Items (resp k)) \<le> 100)"
proof -
  let ?s = "qo_PageSize q" and ?n = "int (length xs)"
  have q: "1 \<le> ?s" "?s \<le> 100" "\<not> qo_All q" "qo_Limit q \<le> 0" "qo_Offset q \<le> 0"
    using parsed_bounds[OF assms(2)] assms(1,3,4) by simp_all
  have pages: "pr_TotalPages (resp k) = (?n + ?s - 1) div ?s" for k
    using q(1,3) ceiling_div[of ?s ?n] by (simp add: assms(5) PaginatedResponse_def Let_def)
  have items: "pr_Items (resp k) = page_rows (q\<lparr>qo_Page := k\<rparr>) xs" for k
    using q by (auto simp: assms(5) PaginatedResponse_def Let_def page_rows_def slice_def GetLimit_def)
  have "?n \<le> (?n + ?s - 1) div ?s * ?s"
  proof -
    have "(?n + ?s - 1) div ?s * ?s + (?n + ?s - 1) mod ?s = ?n + ?s - 1" "(?n + ?s - 1) mod ?s < ?s"
      using q(1) by simp_all
    then show ?thesis
      by linarith
  qed
  then have "length xs \<le> nat ((?n + ?s - 1) div ?s) * nat ?s"
    using q(1) by (simp add: nat_mult_distrib[symmetric] le_nat_iff pos_imp_zdiv_nonneg_iff)
  then have "concat (map (\<lambda>k. pr_Items (resp (int k + 1))) [0..<nat (pr_TotalPages (resp 1))]) = xs"
    using q page_rows_nth[of q _ xs] by (simp add: items pages concat_pages)
  moreover have "TotalPages (SetTotal ?n q) = pr_TotalPages (resp 1)"
    using q by (simp add: TotalPages_def SetTotal_def pages)
  moreover have "pr_HasMore (resp k) = (k < pr_TotalPages (resp 1))" for k
    using q(1,3) ceiling_div[of ?s ?n] by (simp add: pages) (simp add: assms(5) PaginatedResponse_def Let_def)
  moreover have "length (pr_Items (resp k)) \<le> 100" for k
    using q by (simp add: items page_rows_def slice_def GetLimit_def Let_def)
  ultimately show ?thesis
    by blast
qed

definition sample_options :: query_options where
  "sample_options = \<lparr>qo_Page = 0, qo_PageSize = 2, qo_Limit = 0, qo_Offset = 0, qo_TotalItems = 0, qo_All = False\<rparr>"

theorem pages_are_the_listing_witness:
  "let resp = (\<lambda>k. PaginatedResponse ((ParseQueryOptions sample_options False)\<lparr>qo_Page := k\<rparr>)
     (page_rows ((ParseQueryOptions sample_options False)\<lparr>qo_Page := k\<rparr>) ''abcde'') 5)
   in concat (map (\<lambda>k. pr_Items (resp (int k + 1))) [0..<nat (pr_TotalPages (resp 1))]) = ''abcde'' \<and> pr_Items (resp 3) = ''e''"
proof -
  have "int (length ''abcde'') = 5" "\<not> qo_All sample_options" "qo_Limit sample_options \<le> 0" "qo_Offset sample_options \<le> 0"
    by (simp_all add: sample_options_def)
  then have "concat (map (\<lambda>k. pr_Items (PaginatedResponse ((ParseQueryOptions sample_options False)\<lparr>qo_Page := int k + 1\<rparr>)
     (page_rows ((ParseQueryOptions sample_options False)\<lparr>qo_Page := int k + 1\<rparr>) ''abcde'') 5))
     [0..<nat (pr_TotalPages (PaginatedResponse ((ParseQueryOptions sample_options False)\<lparr>qo_Page := 1\<rparr>)
       (page_rows ((ParseQueryOptions sample_options False)\<lparr>qo_Page := 1\<rparr>) ''abcde'') 5))]) = ''abcde''"
    using pages_are_the_listing[OF refl, of sample_options _ False "''abcde''", OF _ _ _ refl] by simp
  moreover have "pr_Items (PaginatedResponse ((ParseQueryOptions sample_options False)\<lparr>qo_Page := 3\<rparr>)
     (page_rows ((ParseQueryOptions sample_options False)\<lparr>qo_Page := 3\<rparr>) ''abcde'') 5) = ''e''"
    by code_simp
  ultimately show ?thesis
    by (simp add: Let_def)
qed

end
