(* ===== verification/Store.thy ===== *)
theory Store
  imports Schema Query "HOL-Library.State_Monad"
begin

text \<open>
  What a handler runs against: the PostgreSQL tables, transactions (\<open>bun\<close>'s \<open>RunInTx\<close>), the clock,
  fresh identifiers, the analytics sink and the outgoing mail, as a state monad over \<open>world\<close>; and the
  weakest-precondition rules that execute it.

  A handler is a \<open>(world, 'a res) state\<close>: Go's pair of a result and an \<open>error\<close> is the value it
  returns, so \<open>if err != nil\<close> is a case distinction in the model as it is in the source.
\<close>

section \<open>The world\<close>

text \<open>
  The environment decides, per step of the run: whether the database statement of that step fails and
  with which message, what the clock shows, which identifier \<open>uuid.New\<close> yields. \<open>env_commit_aborted\<close> is what
  the driver reports for \<open>COMMIT\<close> of a transaction that a failed statement has aborted (PostgreSQL
  rolls it back; the driver may or may not return an error). \<open>env_http\<close> is what \<open>http.PostForm\<close> to a URL gives: an error, or a response with its status, what
  reading its body gives (an error or the body) and the error of closing it.
\<close>

datatype http_result = HttpRefused string | HttpResponse nat "string + string" "string option"

record env =
  env_fault :: "nat \<Rightarrow> string option"
  env_clock :: "nat \<Rightarrow> time"
  env_uuid :: "nat \<Rightarrow> uuid"
  env_commit_aborted :: "string option"
  env_http :: "nat \<Rightarrow> string \<Rightarrow> (string \<times> string) list \<Rightarrow> http_result"

text \<open>
  An event passed to the analytics service: \<open>billing.PaymentEventData\<close>, \<open>SubscriptionEventData\<close> or
  \<open>ChargebackEventData\<close> (by \<open>be_Kind\<close>). \<open>be_Ref\<close> is the processor's transaction, subscription or batch.
\<close>

record billing_event =
  be_Kind :: string
  be_EventType :: string
  be_Processor :: string
  be_SubscriptionID :: "uuid option"
  be_UserID :: string
  be_Amount :: "fval option"
  be_Currency :: string
  be_Ref :: "string option"
  be_BillingInfo :: "(string \<times> meta) list"
  be_Metadata :: "(string \<times> meta) list"

text \<open>
  \<open>w_tx\<close> is the open transaction: the statements it has executed so far, as a function on the
  committed tables (a statement of the transaction sees the committed tables with its own writes on
  top). \<open>w_aborted\<close> says that a statement of the transaction has failed. \<open>w_pc\<close> counts the steps.
  \<open>w_log\<close>, \<open>w_outbox\<close> and \<open>w_sent\<close> are what has left the program: analytics events, mail, and forms posted
  to a URL.
\<close>

record world =
  w_db :: tables
  w_tx :: "(tables \<Rightarrow> tables) option"
  w_aborted :: bool
  w_pc :: nat
  w_env :: env
  w_log :: "billing_event list"
  w_outbox :: "notification list"
  w_sent :: "(string \<times> (string \<times> string) list) list"

type_synonym 'a go = "(world, 'a res) state"

text \<open>\<open>*db.DB\<close>: a handle on the connection pool, or on the open transaction (\<open>db.NewWithTx\<close>).\<close>

datatype handle = Pool | Tx

definition view :: "handle \<Rightarrow> world \<Rightarrow> tables" where
  "view h w = (case h of Pool \<Rightarrow> w_db w | Tx \<Rightarrow> (case w_tx w of None \<Rightarrow> w_db w | Some p \<Rightarrow> p (w_db w)))"

definition db_write :: "handle \<Rightarrow> (tables \<Rightarrow> tables) \<Rightarrow> world \<Rightarrow> world" where
  "db_write h u w = (case h of
     Pool \<Rightarrow> w\<lparr>w_db := u (w_db w)\<rparr>
   | Tx \<Rightarrow> (case w_tx w of None \<Rightarrow> w\<lparr>w_db := u (w_db w)\<rparr> | Some p \<Rightarrow> w\<lparr>w_tx := Some (u \<circ> p)\<rparr>))"

definition tick :: "world \<Rightarrow> world" where
  "tick w = w\<lparr>w_pc := Suc (w_pc w)\<rparr>"

definition clock_now :: "world \<Rightarrow> time" where
  "clock_now w = env_clock (w_env w) (w_pc w)"

definition db_fault :: "handle \<Rightarrow> world \<Rightarrow> go_err option" where
  "db_fault h w =
     (if h = Tx \<and> w_aborted w then Some (DbErr ''current transaction is aborted'')
      else map_option DbErr (env_fault (w_env w) (w_pc w)))"

definition db_fail :: "handle \<Rightarrow> world \<Rightarrow> world" where
  "db_fail h w = (if h = Tx then w\<lparr>w_aborted := True\<rparr> else w)"

section \<open>Operations\<close>

definition now_m :: "(world, time) state" where
  "now_m = State (\<lambda>w. (clock_now w, tick w))"

definition new_uuid :: "(world, uuid) state" where
  "new_uuid = State (\<lambda>w. (env_uuid (w_env w) (w_pc w), tick w))"

text \<open>A \<open>SELECT\<close>: it fails with the environment, or computes its result from the rows it sees.\<close>

definition db_query :: "handle \<Rightarrow> (time \<Rightarrow> tables \<Rightarrow> 'a res) \<Rightarrow> 'a go" where
  "db_query h f = State (\<lambda>w. case db_fault h w of
     Some e \<Rightarrow> (Inl e, db_fail h (tick w))
   | None \<Rightarrow> (f (clock_now w) (view h w), tick w))"

text \<open>
  An \<open>INSERT\<close>, \<open>UPDATE\<close> or \<open>DELETE\<close>: a violated constraint is a driver error, and otherwise the
  statement has a result (the number of rows, say) and an effect on the tables.
\<close>

definition db_exec :: "handle \<Rightarrow> (time \<Rightarrow> tables \<Rightarrow> string + ('a \<times> (tables \<Rightarrow> tables))) \<Rightarrow> 'a go" where
  "db_exec h f = State (\<lambda>w. case db_fault h w of
     Some e \<Rightarrow> (Inl e, db_fail h (tick w))
   | None \<Rightarrow> (case f (clock_now w) (view h w) of
       Inl m \<Rightarrow> (Inl (DbErr m), db_fail h (tick w))
     | Inr (x, u) \<Rightarrow> (Inr x, db_write h u (tick w))))"

text \<open>A \<open>SELECT\<close> that PostgreSQL refuses when it analyses it, whatever the tables hold: \<open>m\<close> is its message.\<close>

definition db_refused :: "handle \<Rightarrow> string \<Rightarrow> 'a go" where
  "db_refused h m = State (\<lambda>w.
     (Inl (case db_fault h w of Some e \<Rightarrow> e | None \<Rightarrow> DbErr m), db_fail h (tick w)))"

definition tx_open :: "world \<Rightarrow> world" where
  "tx_open w = (tick w)\<lparr>w_tx := Some id, w_aborted := False\<rparr>"

definition tx_close :: "world \<Rightarrow> world" where
  "tx_close w = w\<lparr>w_tx := None, w_aborted := False\<rparr>"

definition tx_commit :: "world \<Rightarrow> world" where
  "tx_commit w = tx_close (w\<lparr>w_db := view Tx w\<rparr>)"

text \<open>
  \<open>RunInTx\<close>: \<open>BEGIN\<close> may fail; an error (or a panic) of the body rolls back; otherwise \<open>COMMIT\<close>, which
  may fail, and which rolls back when the transaction is aborted.
\<close>

definition run_in_tx :: "'a go \<Rightarrow> 'a go" where
  "run_in_tx m = State (\<lambda>w. case db_fault Pool w of
     Some e \<Rightarrow> (Inl e, tick w)
   | None \<Rightarrow> (case run_state m (tx_open w) of
       (Inl e, w') \<Rightarrow> (Inl e, tx_close w')
     | (Inr x, w') \<Rightarrow> (case env_fault (w_env w') (w_pc w') of
         Some msg \<Rightarrow> (Inl (DbErr msg), tx_close (tick w'))
       | None \<Rightarrow>
           if w_aborted w' then
             (case env_commit_aborted (w_env w') of
                Some msg \<Rightarrow> (Inl (DbErr msg), tx_close (tick w'))
              | None \<Rightarrow> (Inr x, tx_close (tick w')))
           else (Inr x, tx_commit (tick w')))))"

definition ok :: "'a \<Rightarrow> 'a go" where
  "ok x = State_Monad.return (Inr x)"

definition throw :: "go_err \<Rightarrow> 'a go" where
  "throw e = State_Monad.return (Inl e)"

text \<open>\<open>BillingEventService.Log...Event\<close> (its error is only logged), and mail delivery.\<close>

definition log_event :: "billing_event \<Rightarrow> (world, unit) state" where
  "log_event b = State (\<lambda>w. ((), w\<lparr>w_log := w_log w @ [b]\<rparr>))"

definition deliver_mail :: "notification \<Rightarrow> (world, unit) state" where
  "deliver_mail n = State (\<lambda>w. ((), w\<lparr>w_outbox := w_outbox w @ [n]\<rparr>))"

text \<open>\<open>http.PostForm\<close>.\<close>

definition http_post :: "string \<Rightarrow> (string \<times> string) list \<Rightarrow> (world, http_result) state" where
  "http_post url form = State (\<lambda>w. (env_http (w_env w) (w_pc w) url form, (tick w)\<lparr>w_sent := w_sent w @ [(url, form)]\<rparr>))"

text \<open>A \<open>for\<close> loop over a slice whose body returns early on an error.\<close>

fun for_each :: "'b list \<Rightarrow> ('b \<Rightarrow> unit go) \<Rightarrow> unit go" where
  "for_each [] f = ok ()"
| "for_each (x # xs) f = do {
     r \<leftarrow> f x;
     (case r of Inl e \<Rightarrow> throw e | Inr _ \<Rightarrow> for_each xs f)
   }"

text \<open>A \<open>for\<close> loop whose body cannot fail.\<close>

fun for_all_do :: "'b list \<Rightarrow> ('b \<Rightarrow> (world, unit) state) \<Rightarrow> (world, unit) state" where
  "for_all_do [] f = State_Monad.return ()"
| "for_all_do (x # xs) f = do { f x; for_all_do xs f }"

section \<open>Weakest preconditions\<close>

definition wp :: "('s, 'a) state \<Rightarrow> ('a \<Rightarrow> 's \<Rightarrow> bool) \<Rightarrow> 's \<Rightarrow> bool" where
  "wp m Q s = Q (fst (run_state m s)) (snd (run_state m s))"

lemma wp_run: "wp m Q s \<Longrightarrow> run_state m s = (x, s') \<Longrightarrow> Q x s'"
  by (simp add: wp_def)

lemma wp_of_run: "run_state m s = (x, s') \<Longrightarrow> wp m Q s = Q x s'"
  by (simp add: wp_def)

lemma run_state_wp: "(\<And>Q. wp m Q s = Q x s') \<Longrightarrow> run_state m s = (x, s')"
  unfolding wp_def by (drule meta_spec[where x = "\<lambda>y s''. y = x \<and> s'' = s'"]) (simp add: prod_eq_iff)

lemma run_state_wp_eq:
  assumes "\<And>Q. wp m Q s = wp n Q s'"
  shows "run_state m s = run_state n s'"
proof -
  have "wp m (\<lambda>x y. (x, y) = run_state n s') s"
    unfolding assms by (simp add: wp_def)
  then show ?thesis
    by (simp add: wp_def)
qed

lemma wpI: "(\<And>x s'. run_state m s = (x, s') \<Longrightarrow> Q x s') \<Longrightarrow> wp m Q s"
  by (simp add: wp_def prod_eq_iff)

lemma wp_mono: "wp m Q s \<Longrightarrow> (\<And>x s'. Q x s' \<Longrightarrow> R x s') \<Longrightarrow> wp m R s"
  by (simp add: wp_def)

lemma wp_conj: "wp m Q s \<Longrightarrow> wp m R s \<Longrightarrow> wp m (\<lambda>x s'. Q x s' \<and> R x s') s"
  by (simp add: wp_def)

lemma wp_return [wp_simps]: "wp (State_Monad.return x) Q s = Q x s"
  by (simp add: wp_def)

lemma wp_bind [wp_simps]: "wp (State_Monad.bind m f) Q s = wp m (\<lambda>x. wp (f x) Q) s"
  by (simp add: wp_def split: prod.split)

lemma wp_ok [wp_simps]: "wp (ok x) Q s = Q (Inr x) s"
  by (simp add: ok_def wp_return)

lemma wp_throw [wp_simps]: "wp (throw e) Q s = Q (Inl e) s"
  by (simp add: throw_def wp_return)

lemma wp_if [wp_simps]: "wp (if c then m else n) Q s = (if c then wp m Q s else wp n Q s)"
  by simp

lemma wp_Let [wp_simps]: "wp (Let x f) Q s = wp (f x) Q s"
  by (simp add: Let_def)

lemma wp_case_option [wp_simps]:
  "wp (case x of None \<Rightarrow> m | Some y \<Rightarrow> f y) Q s = (case x of None \<Rightarrow> wp m Q s | Some y \<Rightarrow> wp (f y) Q s)"
  by (simp split: option.split)

lemma wp_case_sum [wp_simps]:
  "wp (case x of Inl e \<Rightarrow> f e | Inr y \<Rightarrow> g y) Q s = (case x of Inl e \<Rightarrow> wp (f e) Q s | Inr y \<Rightarrow> wp (g y) Q s)"
  by (simp split: sum.split)

lemma wp_case_prod [wp_simps]:
  "wp (case x of (a, b) \<Rightarrow> f a b) Q s = (case x of (a, b) \<Rightarrow> wp (f a b) Q s)"
  by (simp split: prod.split)

lemma wp_now [wp_simps]: "wp now_m Q w = Q (clock_now w) (tick w)"
  by (simp add: wp_def now_m_def)

lemma wp_new_uuid [wp_simps]: "wp new_uuid Q w = Q (env_uuid (w_env w) (w_pc w)) (tick w)"
  by (simp add: wp_def new_uuid_def)

lemma wp_log_event [wp_simps]: "wp (log_event b) Q w = Q () (w\<lparr>w_log := w_log w @ [b]\<rparr>)"
  by (simp add: wp_def log_event_def)

lemma wp_deliver_mail [wp_simps]: "wp (deliver_mail n) Q w = Q () (w\<lparr>w_outbox := w_outbox w @ [n]\<rparr>)"
  by (simp add: wp_def deliver_mail_def)

lemma wp_http_post [wp_simps]:
  "wp (http_post url form) Q w = Q (env_http (w_env w) (w_pc w) url form) ((tick w)\<lparr>w_sent := w_sent w @ [(url, form)]\<rparr>)"
  by (simp add: wp_def http_post_def)

lemma wp_db_query [wp_simps]:
  "wp (db_query h f) Q w = (case db_fault h w of
     Some e \<Rightarrow> Q (Inl e) (db_fail h (tick w)) | None \<Rightarrow> Q (f (clock_now w) (view h w)) (tick w))"
  by (simp add: wp_def db_query_def split: option.split)

lemma wp_db_exec [wp_simps]:
  "wp (db_exec h f) Q w = (case db_fault h w of
     Some e \<Rightarrow> Q (Inl e) (db_fail h (tick w))
   | None \<Rightarrow> (case f (clock_now w) (view h w) of
       Inl m \<Rightarrow> Q (Inl (DbErr m)) (db_fail h (tick w)) | Inr (x, u) \<Rightarrow> Q (Inr x) (db_write h u (tick w))))"
  by (simp add: wp_def db_exec_def split: option.split sum.split)

lemma wp_db_refused [wp_simps]:
  "wp (db_refused h m) Q w = Q (Inl (case db_fault h w of Some e \<Rightarrow> e | None \<Rightarrow> DbErr m)) (db_fail h (tick w))"
  by (simp add: wp_def db_refused_def)

lemma wp_run_in_tx [wp_simps]:
  "wp (run_in_tx m) Q w = (case db_fault Pool w of
     Some e \<Rightarrow> Q (Inl e) (tick w)
   | None \<Rightarrow> wp m (\<lambda>r w'. case r of
       Inl e \<Rightarrow> Q (Inl e) (tx_close w')
     | Inr x \<Rightarrow> (case env_fault (w_env w') (w_pc w') of
         Some msg \<Rightarrow> Q (Inl (DbErr msg)) (tx_close (tick w'))
       | None \<Rightarrow> if w_aborted w' then
             (case env_commit_aborted (w_env w') of
                Some msg \<Rightarrow> Q (Inl (DbErr msg)) (tx_close (tick w'))
              | None \<Rightarrow> Q (Inr x) (tx_close (tick w')))
           else Q (Inr x) (tx_commit (tick w')))) (tx_open w))"
  by (simp add: wp_def run_in_tx_def split: option.split sum.split prod.split)

subsection \<open>The components of the world under the operations\<close>

lemma tick_simps [simp]:
  "w_db (tick w) = w_db w" "w_tx (tick w) = w_tx w" "w_aborted (tick w) = w_aborted w"
  "w_env (tick w) = w_env w" "w_log (tick w) = w_log w" "w_outbox (tick w) = w_outbox w"
  "view h (tick w) = view h w" "w_pc (tick w) = Suc (w_pc w)" "w_sent (tick w) = w_sent w"
  by (simp_all add: tick_def view_def split: handle.split option.split)

lemma db_fail_simps [simp]:
  "w_db (db_fail h w) = w_db w" "w_tx (db_fail h w) = w_tx w" "w_env (db_fail h w) = w_env w"
  "w_log (db_fail h w) = w_log w" "w_outbox (db_fail h w) = w_outbox w" "view h' (db_fail h w) = view h' w"
  "db_fail Pool w = w" "w_aborted (db_fail Tx w)" "w_pc (db_fail h w) = w_pc w" "w_sent (db_fail h w) = w_sent w"
  by (simp_all add: db_fail_def view_def split: handle.split option.split)

lemma write_simps [simp]:
  "w_env (db_write h u w) = w_env w" "w_aborted (db_write h u w) = w_aborted w" "w_pc (db_write h u w) = w_pc w"
  "w_log (db_write h u w) = w_log w" "w_outbox (db_write h u w) = w_outbox w"
  "w_db (db_write Pool u w) = u (w_db w)" "w_tx (db_write Pool u w) = w_tx w"
  "view h (db_write h u w) = u (view h w)" "w_sent (db_write h u w) = w_sent w"
  by (simp_all add: db_write_def view_def split: handle.split option.split)

lemma write_Tx_simps [simp]:
  assumes "w_tx w \<noteq> None"
  shows "w_db (db_write Tx u w) = w_db w" "w_tx (db_write Tx u w) \<noteq> None"
    "view Pool (db_write Tx u w) = view Pool w"
  using assms by (auto simp: db_write_def view_def)

lemma tx_open_simps [simp]:
  "w_db (tx_open w) = w_db w" "w_tx (tx_open w) = Some id" "\<not> w_aborted (tx_open w)"
  "w_env (tx_open w) = w_env w" "w_log (tx_open w) = w_log w" "w_outbox (tx_open w) = w_outbox w"
  "view h (tx_open w) = w_db w" "w_pc (tx_open w) = Suc (w_pc w)" "w_sent (tx_open w) = w_sent w"
  by (simp_all add: tx_open_def view_def tick_def split: handle.split)

lemma tx_close_simps [simp]:
  "w_db (tx_close w) = w_db w" "w_tx (tx_close w) = None" "\<not> w_aborted (tx_close w)"
  "w_env (tx_close w) = w_env w" "w_log (tx_close w) = w_log w" "w_outbox (tx_close w) = w_outbox w"
  "view h (tx_close w) = w_db w" "w_pc (tx_close w) = w_pc w" "w_sent (tx_close w) = w_sent w"
  by (simp_all add: tx_close_def view_def split: handle.split)

lemma tx_commit_simps [simp]:
  "w_db (tx_commit w) = view Tx w" "w_tx (tx_commit w) = None" "\<not> w_aborted (tx_commit w)"
  "w_env (tx_commit w) = w_env w" "w_log (tx_commit w) = w_log w" "w_outbox (tx_commit w) = w_outbox w"
  "w_pc (tx_commit w) = w_pc w" "w_sent (tx_commit w) = w_sent w"
  by (simp_all add: tx_commit_def)

lemma log_upd_simps [simp]:
  "view h (w\<lparr>w_log := l\<rparr>) = view h w" "view h (w\<lparr>w_outbox := b\<rparr>) = view h w"
  "clock_now (w\<lparr>w_log := l\<rparr>) = clock_now w" "clock_now (w\<lparr>w_outbox := b\<rparr>) = clock_now w"
  "db_fault h (w\<lparr>w_log := l\<rparr>) = db_fault h w" "db_fault h (w\<lparr>w_outbox := b\<rparr>) = db_fault h w"
  "view h (w\<lparr>w_sent := x\<rparr>) = view h w" "clock_now (w\<lparr>w_sent := x\<rparr>) = clock_now w" "db_fault h (w\<lparr>w_sent := x\<rparr>) = db_fault h w"
  by (simp_all add: view_def clock_now_def db_fault_def split: handle.split option.split)

lemma view_Pool [simp]: "view Pool w = w_db w"
  by (simp add: view_def)

lemma db_fault_aborted [simp]: "w_aborted w \<Longrightarrow> db_fault Tx w \<noteq> None"
  by (simp add: db_fault_def)

lemma db_fault_DbErr: "db_fault h w = Some e \<Longrightarrow> \<exists>m. e = DbErr m"
  by (auto simp: db_fault_def split: if_splits)

section \<open>Runs without database faults\<close>

text \<open>
  \<open>healthy w\<close>: from here on no statement fails and no transaction is aborted. A run that satisfies it
  is what the source describes when nothing goes wrong; properties that hold under every fault
  schedule do not assume it.
\<close>

definition healthy :: "world \<Rightarrow> bool" where
  "healthy w \<longleftrightarrow> (\<forall>n. env_fault (w_env w) n = None) \<and> \<not> w_aborted w"

lemma healthy_ops [simp]:
  "healthy (tick w) = healthy w" "healthy (db_write h u w) = healthy w"
  "healthy (w\<lparr>w_log := l\<rparr>) = healthy w" "healthy (w\<lparr>w_outbox := b\<rparr>) = healthy w" "healthy (w\<lparr>w_sent := x\<rparr>) = healthy w"
  unfolding healthy_def by simp_all

lemma healthy_tx_ops [simp]:
  assumes "healthy w"
  shows "healthy (tx_open w)" "healthy (tx_close w)" "healthy (tx_commit w)"
  using assms unfolding healthy_def by simp_all

lemma healthy_env [simp]: "healthy w \<Longrightarrow> env_fault (w_env w) n = None"
  by (simp add: healthy_def)

lemma healthy_not_aborted [simp]: "healthy w \<Longrightarrow> \<not> w_aborted w"
  by (simp add: healthy_def)

lemma healthy_no_fault [simp]: "healthy w \<Longrightarrow> db_fault h w = None"
  by (simp add: db_fault_def)

text \<open>\<open>reads w x\<close>: the clock shows \<open>x\<close> at some step from \<open>w\<close> on.\<close>

definition reads :: "world \<Rightarrow> time \<Rightarrow> bool" where
  "reads w x \<longleftrightarrow> (\<exists>n \<ge> w_pc w. env_clock (w_env w) n = x)"

lemma reads_clock: "w_env w' = w_env w \<Longrightarrow> w_pc w \<le> w_pc w' \<Longrightarrow> reads w (clock_now w')"
  by (auto simp: reads_def clock_now_def)

section \<open>What an operation keeps\<close>

text \<open>
  \<open>keeps b I m\<close>: run inside a transaction (\<open>b\<close>), the operation leaves the committed tables and
  the outgoing mail alone and keeps the invariant \<open>I\<close> of the tables the transaction sees; run outside (\<open>\<not> b\<close>), it keeps \<open>I\<close> of
  the committed tables. With \<open>I\<close> trivial the first says that the operation writes only through the
  open transaction, which is what makes \<open>run_in_tx\<close> atomic.
\<close>

definition sane :: "bool \<Rightarrow> (tables \<Rightarrow> bool) \<Rightarrow> tables \<times> notification list \<Rightarrow> world \<Rightarrow> bool" where
  "sane b I d w \<longleftrightarrow>
     (if b then (w_db w, w_outbox w) = d \<and> w_tx w \<noteq> None \<and> I (view Tx w) else w_tx w = None \<and> I (w_db w))"

definition keeps :: "bool \<Rightarrow> (tables \<Rightarrow> bool) \<Rightarrow> (world, 'a) state \<Rightarrow> bool" where
  "keeps b I m \<longleftrightarrow> (\<forall>d w. sane b I d w \<longrightarrow> wp m (\<lambda>_. sane b I d) w)"

abbreviation tx_only :: "(world, 'a) state \<Rightarrow> bool" where
  "tx_only \<equiv> keeps True (\<lambda>_. True)"

named_theorems keeps_intros \<open>operations that keep an invariant of the tables\<close>

lemma keepsD: "keeps b I m \<Longrightarrow> sane b I d w \<Longrightarrow> wp m (\<lambda>_. sane b I d) w"
  unfolding keeps_def by blast

lemma sane_ops [simp]:
  "sane b I d (tick w) = sane b I d w" "sane b I d (db_fail h w) = sane b I d w"
  "sane b I d (w\<lparr>w_log := l\<rparr>) = sane b I d w" "sane False I d (w\<lparr>w_outbox := x\<rparr>) = sane False I d w"
  "sane b I d (w\<lparr>w_sent := f\<rparr>) = sane b I d w"
  unfolding sane_def by (simp_all del: not_None_eq)

lemma sane_view: "sane b I d w \<Longrightarrow> (b \<Longrightarrow> h = Tx) \<Longrightarrow> I (view h w)"
  by (cases h) (auto simp: sane_def view_def split: if_splits)

lemma sane_write:
  "sane b I d w \<Longrightarrow> (b \<Longrightarrow> h = Tx) \<Longrightarrow> I (u (view h w)) \<Longrightarrow> sane b I d (db_write h u w)"
  by (cases h; cases b) (auto simp: sane_def db_write_def view_def)

lemma keeps_bind [keeps_intros]:
  "keeps b I m \<Longrightarrow> (\<And>x. keeps b I (f x)) \<Longrightarrow> keeps b I (State_Monad.bind m f)"
  unfolding keeps_def wp_bind by (blast intro: wp_mono)

lemma keeps_return [keeps_intros]: "keeps b I (State_Monad.return x)"
  by (simp add: keeps_def wp_simps)

lemma keeps_ok [keeps_intros]: "keeps b I (ok x)"
  by (simp add: keeps_def wp_simps)

lemma keeps_throw [keeps_intros]: "keeps b I (throw e)"
  by (simp add: keeps_def wp_simps)

lemma keeps_now [keeps_intros]: "keeps b I now_m"
  by (simp add: keeps_def wp_simps)

lemma keeps_uuid [keeps_intros]: "keeps b I new_uuid"
  by (simp add: keeps_def wp_simps)

lemma keeps_log [keeps_intros]: "keeps b I (log_event e)"
  by (simp add: keeps_def wp_simps)

lemma keeps_mail [keeps_intros]: "keeps False I (deliver_mail n)"
  by (simp add: keeps_def wp_simps)

lemma keeps_post [keeps_intros]: "keeps b I (http_post url form)"
  by (simp add: keeps_def wp_simps)

lemma keeps_query [keeps_intros]: "keeps b I (db_query h f)"
  by (simp add: keeps_def wp_simps split: option.split)

lemma keeps_refused [keeps_intros]: "keeps b I (db_refused h m)"
  by (simp add: keeps_def wp_simps)

lemma keeps_exec:
  assumes "b \<Longrightarrow> h = Tx" and "\<And>now t x u. I t \<Longrightarrow> f now t = Inr (x, u) \<Longrightarrow> I (u t)"
  shows "keeps b I (db_exec h f)"
proof -
  have "sane b I d (db_write h u (tick w))"
    if "sane b I d w" "f now (view h w) = Inr (x, u)" for d w now x u
  proof (rule sane_write)
    show "I (u (view h (tick w)))"
      using assms(2)[OF sane_view[OF that(1) assms(1)] that(2)] by simp
  qed (use that assms(1) in auto)
  then show ?thesis
    unfolding keeps_def wp_db_exec by (auto split: option.split sum.split)
qed

lemma keeps_if [keeps_intros]:
  "(c \<Longrightarrow> keeps b I m) \<Longrightarrow> (\<not> c \<Longrightarrow> keeps b I n) \<Longrightarrow> keeps b I (if c then m else n)"
  by simp

lemma keeps_Let [keeps_intros]: "keeps b I (f x) \<Longrightarrow> keeps b I (Let x f)"
  by (simp add: Let_def)

lemma keeps_case_option [keeps_intros]:
  "(x = None \<Longrightarrow> keeps b I m) \<Longrightarrow> (\<And>y. x = Some y \<Longrightarrow> keeps b I (f y)) \<Longrightarrow>
   keeps b I (case x of None \<Rightarrow> m | Some y \<Rightarrow> f y)"
  by (simp split: option.split)

lemma keeps_case_sum [keeps_intros]:
  "(\<And>e. x = Inl e \<Longrightarrow> keeps b I (f e)) \<Longrightarrow> (\<And>y. x = Inr y \<Longrightarrow> keeps b I (g y)) \<Longrightarrow>
   keeps b I (case x of Inl e \<Rightarrow> f e | Inr y \<Rightarrow> g y)"
  by (simp split: sum.split)

lemma keeps_case_prod [keeps_intros]:
  "(\<And>u v. x = (u, v) \<Longrightarrow> keeps b I (f u v)) \<Longrightarrow> keeps b I (case x of (u, v) \<Rightarrow> f u v)"
  by (simp split: prod.split)

lemma keeps_for_each [keeps_intros]: "(\<And>x. keeps b I (f x)) \<Longrightarrow> keeps b I (for_each xs f)"
  by (induction xs) (auto intro!: keeps_intros)

lemma keeps_for_all_do [keeps_intros]: "(\<And>x. keeps b I (f x)) \<Longrightarrow> keeps b I (for_all_do xs f)"
  by (induction xs) (auto intro!: keeps_intros)

lemma sane_tx_open: "sane False I d w \<Longrightarrow> sane True I (w_db w, w_outbox w) (tx_open w)"
  by (simp add: sane_def)

lemma run_in_tx_keeps [keeps_intros]:
  assumes "keeps True I m"
  shows "keeps False I (run_in_tx m)"
  unfolding keeps_def
proof (intro allI impI)
  fix d w
  assume s: "sane False I d w"
  have "wp m (\<lambda>_. sane True I (w_db w, w_outbox w)) (tx_open w)"
    by (rule keepsD[OF assms sane_tx_open[OF s]])
  then show "wp (run_in_tx m) (\<lambda>_. sane False I d) w"
    unfolding wp_run_in_tx using s
    by (auto simp: sane_def split: option.split elim!: wp_mono split: sum.split)
qed

text \<open>
  A transaction whose body writes only through it: nothing of a failed one is committed, whatever
  statement failed.
\<close>

definition rolled_back_or :: "world \<Rightarrow> 'a res \<Rightarrow> world \<Rightarrow> bool" where
  "rolled_back_or w r w' \<longleftrightarrow> w_tx w' = None \<and> w_outbox w' = w_outbox w \<and>
     (case r of Inl _ \<Rightarrow> w_db w' = w_db w | Inr _ \<Rightarrow> True)"

lemma run_in_tx_atomic:
  assumes "tx_only m" "w_tx w = None"
  shows "wp (run_in_tx m) (rolled_back_or w) w"
proof -
  have "wp m (\<lambda>_. sane True (\<lambda>_. True) (w_db w, w_outbox w)) (tx_open w)"
    by (rule keepsD[OF assms(1)]) (simp add: sane_def)
  then show ?thesis
    unfolding wp_run_in_tx using assms(2)
    by (auto simp: sane_def rolled_back_or_def split: option.split elim!: wp_mono split: sum.split)
qed

section \<open>Loops\<close>

lemma wp_for_each:
  assumes "\<And>x w. x \<in> set xs \<Longrightarrow> I w \<Longrightarrow> wp (f x) (\<lambda>r w'. case r of Inl e \<Rightarrow> Q (Inl e) w' | Inr _ \<Rightarrow> I w') w"
    and "\<And>w. I w \<Longrightarrow> Q (Inr ()) w" and "I w"
  shows "wp (for_each xs f) Q w"
  using assms
proof (induction xs arbitrary: w)
  case Nil
  then show ?case by (simp add: wp_simps)
next
  case (Cons x xs)
  have "wp (f x) (\<lambda>r w'. case r of Inl e \<Rightarrow> Q (Inl e) w' | Inr _ \<Rightarrow> I w') w"
    using Cons.prems by simp
  then have "wp (f x) (\<lambda>r w'. case r of Inl e \<Rightarrow> Q (Inl e) w' | Inr _ \<Rightarrow> wp (for_each xs f) Q w') w"
    by (rule wp_mono) (auto intro!: Cons.IH Cons.prems split: sum.splits)
  then show ?case
    by (auto simp: wp_simps elim!: wp_mono split: sum.splits)
qed

end
