(* ===== verification/Subscription_Repo.thy ===== *)
theory Subscription_Repo
  imports Store
begin

text \<open>
  \<open>internal/manager/data/repo/subscription.go\<close>: the queries and statements on
  \<open>billing.subscriptions\<close>, with the unique indexes of the schema (primary key; at most one active
  subscription per user, \<open>idx_subscriptions_user_active\<close>), and the lookups of prices and products
  that the subscription code uses (\<open>repo/price.go\<close>, \<open>repo/product.go\<close>).
\<close>

section \<open>The table\<close>

text \<open>The row written for a \<open>Subscription\<close>: no relations, and \<open>nullzero\<close> on the time columns.\<close>

definition stored_sub :: "subscription \<Rightarrow> subscription" where
  "stored_sub s = s\<lparr>
     sub_EndedAt := nz_time (sub_EndedAt s),
     sub_CurrentPeriodStartsAt := nz_time (sub_CurrentPeriodStartsAt s),
     sub_CurrentPeriodEndsAt := nz_time (sub_CurrentPeriodEndsAt s),
     sub_LastRetryAt := nz_time (sub_LastRetryAt s), sub_NextRetryAt := nz_time (sub_NextRetryAt s),
     sub_CancelledAt := nz_time (sub_CancelledAt s), sub_Price := None, sub_PaymentMethod := None\<rparr>"

definition sub_by_id :: "tables \<Rightarrow> uuid \<Rightarrow> subscription option" where
  "sub_by_id t i = find (\<lambda>s. sub_ID s = i) (t_subs t)"

definition price_by_id :: "tables \<Rightarrow> uuid \<Rightarrow> price option" where
  "price_by_id t i = find (\<lambda>p. price_ID p = i) (t_prices t)"

definition product_by_id :: "tables \<Rightarrow> uuid \<Rightarrow> product option" where
  "product_by_id t i = find (\<lambda>p. prod_ID p = i) (t_products t)"

definition put_sub :: "subscription \<Rightarrow> tables \<Rightarrow> tables" where
  "put_sub s t = t\<lparr>t_subs := replace_row sub_ID (stored_sub s) (t_subs t)\<rparr>"

definition add_sub :: "subscription \<Rightarrow> tables \<Rightarrow> tables" where
  "add_sub s t = t\<lparr>t_subs := t_subs t @ [stored_sub s]\<rparr>"

text \<open>\<open>selectWithDetails\<close>: the row with its \<open>Price\<close> and \<open>PaymentMethod\<close> relations.\<close>

definition with_details :: "tables \<Rightarrow> subscription \<Rightarrow> subscription" where
  "with_details t s = s\<lparr>
     sub_Price := price_by_id t (sub_PriceID s),
     sub_PaymentMethod := (case sub_PaymentMethodID s of None \<Rightarrow> None
       | Some i \<Rightarrow> find (\<lambda>p. pm_ID p = i) (t_pms t))\<rparr>"

text \<open>\<open>Scan\<close> of a single row: \<open>sql.ErrNoRows\<close> when there is none.\<close>

definition scan_row :: "'r option \<Rightarrow> 'r res" where
  "scan_row r = (case r of None \<Rightarrow> Inl ErrNoRows | Some x \<Rightarrow> Inr x)"

section \<open>SubscriptionRepo\<close>

text \<open>
  \<open>Create\<close> leaves the columns with a default that it did not set (\<open>RETURNING\<close>) in its argument: the
  model returns that subscription. \<open>bun\<close> writes \<open>DEFAULT\<close> for a nil \<open>retry_attempts\<close> too, which the
  migration makes 0.
\<close>

definition default_times :: "time \<Rightarrow> subscription \<Rightarrow> subscription" where
  "default_times now s = s\<lparr>sub_CreatedAt := (if is_zero_time (sub_CreatedAt s) then now else sub_CreatedAt s),
     sub_UpdatedAt := (if is_zero_time (sub_UpdatedAt s) then now else sub_UpdatedAt s),
     sub_RetryAttempts := (case sub_RetryAttempts s of None \<Rightarrow> Some 0 | Some n \<Rightarrow> Some n)\<rparr>"

definition SubRepo_Create :: "handle \<Rightarrow> subscription \<Rightarrow> subscription go" where
  "SubRepo_Create h s = do {
     r \<leftarrow> db_exec h (\<lambda>now t.
       let row = default_times now s
       in if sub_unique (t_subs (add_sub row t)) then Inr ((1 :: nat, row), add_sub row) else Inl duplicate_key);
     (case r of Inl e \<Rightarrow> throw e
      | Inr (rows, row) \<Rightarrow> if rows < 1 then throw no_rows_affected else ok row)
   }"

definition SubRepo_Update :: "handle \<Rightarrow> subscription \<Rightarrow> unit go" where
  "SubRepo_Update h s = do {
     r \<leftarrow> db_exec h (\<lambda>now t.
       if sub_unique (t_subs (put_sub s t))
       then Inr (length (filter (\<lambda>x. sub_ID x = sub_ID s) (t_subs t)), put_sub s) else Inl duplicate_key);
     (case r of Inl e \<Rightarrow> throw e
      | Inr rows \<Rightarrow> if rows < 1 then throw no_rows_affected else ok ())
   }"

definition SubRepo_Delete :: "handle \<Rightarrow> uuid \<Rightarrow> unit go" where
  "SubRepo_Delete h i = do {
     r \<leftarrow> db_exec h (\<lambda>now t.
       Inr (length (filter (\<lambda>x. sub_ID x = i) (t_subs t)),
            (\<lambda>t. t\<lparr>t_subs := filter (\<lambda>x. sub_ID x \<noteq> i) (t_subs t)\<rparr>)));
     (case r of Inl e \<Rightarrow> throw e
      | Inr rows \<Rightarrow> if rows < 1 then throw no_rows_affected else ok ())
   }"

text \<open>
  \<open>selectWithDetails\<close> joins \<open>prices\<close> and \<open>payment_methods\<close>, which have an \<open>id\<close> of their own (and \<open>payment_methods\<close> a
  \<open>user_id\<close>): a condition on such a column without the table's alias is ambiguous and PostgreSQL refuses
  the statement.
\<close>

definition ambiguous :: "string \<Rightarrow> string" where
  "ambiguous column = ''ERROR: column reference '' @ [CHR 0x22] @ column @ [CHR 0x22] @ '' is ambiguous (SQLSTATE=42702)''"

text \<open>\<open>GetByID\<close> has the condition \<open>id = ?\<close>: no subscription is ever found by its identifier.\<close>

definition SubRepo_GetByID :: "handle \<Rightarrow> uuid \<Rightarrow> subscription go" where
  "SubRepo_GetByID h i = db_refused h (ambiguous ''id'')"

definition latest_by_user :: "tables \<Rightarrow> string \<Rightarrow> subscription option" where
  "latest_by_user t u = newest sub_CreatedAt (filter (\<lambda>s. sub_UserID s = u) (t_subs t))"

definition SubRepo_GetLatestByUserID :: "handle \<Rightarrow> string \<Rightarrow> subscription go" where
  "SubRepo_GetLatestByUserID h u =
     db_query h (\<lambda>now t. scan_row (map_option (with_details t) (latest_by_user t u)))"

definition SubRepo_GetByUserIDAndPriceID :: "handle \<Rightarrow> string \<Rightarrow> uuid \<Rightarrow> subscription go" where
  "SubRepo_GetByUserIDAndPriceID h u p = db_query h (\<lambda>now t. scan_row (map_option (with_details t)
     (find (\<lambda>s. sub_UserID s = u \<and> sub_PriceID s = p) (t_subs t))))"

definition active_sub_of :: "time \<Rightarrow> tables \<Rightarrow> string \<Rightarrow> subscription option" where
  "active_sub_of now t u = newest sub_CreatedAt (filter (\<lambda>s. sub_UserID s = u \<and> sub_Status s = StatusActive \<and>
     (case sub_CurrentPeriodEndsAt s of None \<Rightarrow> True | Some e \<Rightarrow> e > now)) (t_subs t))"

definition SubRepo_GetActiveSubscription :: "handle \<Rightarrow> string \<Rightarrow> subscription go" where
  "SubRepo_GetActiveSubscription h u =
     db_query h (\<lambda>now t. scan_row (map_option (with_details t) (active_sub_of now t u)))"

text \<open>\<open>strings.TrimSpace(strings.ToLower(p))\<close>, with the default provider for the empty string.\<close>

definition norm_provider :: "string \<Rightarrow> string" where
  "norm_provider p = (let q = trim_space (to_lower p) in if q = '''' then ''mobius'' else q)"

definition provider_matches :: "string \<Rightarrow> string option \<Rightarrow> bool" where
  "provider_matches provider stored =
     (if provider = ''mobius'' then stored = Some provider \<or> stored = None \<or> stored = Some ''''
      else stored = Some provider)"

definition match_processor_sub :: "string \<Rightarrow> string \<Rightarrow> string \<Rightarrow> subscription \<Rightarrow> bool" where
  "match_processor_sub processor provider psid s \<longleftrightarrow>
     processor_str (sub_Processor s) = processor \<and> sub_ProcessorSubscriptionID s = psid \<and>
     (equal_fold processor (processor_str ProcessorNMI) \<longrightarrow>
        provider_matches (norm_provider provider) (sub_ProcessorProvider s))"

definition sub_by_psid :: "tables \<Rightarrow> string \<Rightarrow> string \<Rightarrow> string \<Rightarrow> subscription option" where
  "sub_by_psid t processor provider psid = find (match_processor_sub processor provider psid) (t_subs t)"

definition SubRepo_GetByProcessorSubscriptionID :: "handle \<Rightarrow> string \<Rightarrow> string \<Rightarrow> string \<Rightarrow> subscription go" where
  "SubRepo_GetByProcessorSubscriptionID h processor provider psid =
     db_query h (\<lambda>now t. scan_row (map_option (with_details t) (sub_by_psid t processor provider psid)))"

text \<open>The listings: the rows of a condition with their relations, newest first.\<close>

definition subs_desc :: "(subscription \<Rightarrow> bool) \<Rightarrow> tables \<Rightarrow> subscription list" where
  "subs_desc P t = sort_desc sub_CreatedAt (filter P (t_subs t))"

definition SubRepo_GetActiveSubscriptionsByUserID :: "handle \<Rightarrow> string \<Rightarrow> subscription list go" where
  "SubRepo_GetActiveSubscriptionsByUserID h u = db_query h (\<lambda>now t. Inr (map (with_details t)
     (subs_desc (\<lambda>s. sub_UserID s = u \<and> sub_Status s = StatusActive) t)))"

definition SubRepo_GetSubscriptionsByProcessorAndUserID :: "handle \<Rightarrow> string \<Rightarrow> processor \<Rightarrow> subscription list go" where
  "SubRepo_GetSubscriptionsByProcessorAndUserID h u p = db_query h (\<lambda>now t. Inr (map (with_details t)
     (subs_desc (\<lambda>s. sub_UserID s = u \<and> sub_Processor s = p) t)))"

definition SubRepo_GetActiveSubscriptionsByProcessor :: "handle \<Rightarrow> string \<Rightarrow> subscription list go" where
  "SubRepo_GetActiveSubscriptionsByProcessor h p = db_query h (\<lambda>now t. Inr (map (with_details t)
     (filter (\<lambda>s. processor_str (sub_Processor s) = p \<and> sub_Status s = StatusActive) (t_subs t))))"

text \<open>A count and a page of the user's subscriptions.\<close>

definition SubRepo_GetPaginatedByUserID :: "handle \<Rightarrow> string \<Rightarrow> int \<Rightarrow> int \<Rightarrow> (subscription list \<times> nat) go" where
  "SubRepo_GetPaginatedByUserID h u page pageSize = do {
     let offset = (page - 1) * pageSize;
     c \<leftarrow> db_query h (\<lambda>now t. Inr (length (filter (\<lambda>s. sub_UserID s = u) (t_subs t))));
     (case c of
        Inl e \<Rightarrow> throw e
      | Inr n \<Rightarrow> do {
          r \<leftarrow> db_query h (\<lambda>now t. Inr (map (with_details t) (slice pageSize offset (subs_desc (\<lambda>s. sub_UserID s = u) t))));
          (case r of Inl e \<Rightarrow> throw e | Inr ss \<Rightarrow> ok (ss, n))
        })
   }"

text \<open>The listing for the billing history: the count, and a page whose condition is on \<open>user_id\<close> alone.\<close>

definition SubRepo_GetSubscriptionsWithDetailsForUser :: "handle \<Rightarrow> string \<Rightarrow> int \<Rightarrow> int \<Rightarrow> (subscription list \<times> nat) go" where
  "SubRepo_GetSubscriptionsWithDetailsForUser h u page pageSize = do {
     c \<leftarrow> db_query h (\<lambda>now t. Inr (length (filter (\<lambda>s. sub_UserID s = u) (t_subs t))));
     (case c of
        Inl e \<Rightarrow> throw e
      | Inr n \<Rightarrow> do {
          r \<leftarrow> db_refused h (ambiguous ''user_id'');
          (case r of Inl e \<Rightarrow> throw e | Inr ss \<Rightarrow> ok (ss, n))
        })
   }"

record sub_filters =
  sf_UserID :: string
  sf_Status :: string
  sf_PriceID :: uuid
  sf_Processor :: string

definition applySubscriptionFilters :: "sub_filters \<Rightarrow> subscription \<Rightarrow> bool" where
  "applySubscriptionFilters f s \<longleftrightarrow> (sf_UserID f \<noteq> '''' \<longrightarrow> sub_UserID s = sf_UserID f) \<and>
     (sf_Status f \<noteq> '''' \<longrightarrow> sub_status_str (sub_Status s) = sf_Status f) \<and>
     (sf_PriceID f \<noteq> 0 \<longrightarrow> sub_PriceID s = sf_PriceID f) \<and>
     (sf_Processor f \<noteq> '''' \<longrightarrow> processor_str (sub_Processor s) = sf_Processor f)"

definition SubRepo_GetSubscribers :: "handle \<Rightarrow> sub_filters \<Rightarrow> query_options \<Rightarrow> (subscription list \<times> nat) go" where
  "SubRepo_GetSubscribers h f opts = do {
     c \<leftarrow> db_query h (\<lambda>now t. Inr (length (filter (applySubscriptionFilters f) (t_subs t))));
     (case c of
        Inl e \<Rightarrow> throw e
      | Inr n \<Rightarrow> do {
          r \<leftarrow> db_query h (\<lambda>now t. Inr (slice (qo_Limit opts) (qo_Offset opts) (subs_desc (applySubscriptionFilters f) t)));
          (case r of Inl e \<Rightarrow> throw e | Inr ss \<Rightarrow> ok (ss, n))
        })
   }"

section \<open>PriceService.GetByID and ProductService.GetByID\<close>

definition Price_GetByID :: "handle \<Rightarrow> uuid \<Rightarrow> price go" where
  "Price_GetByID h i = db_query h (\<lambda>now t. scan_row (price_by_id t i))"

definition Product_GetByID :: "handle \<Rightarrow> uuid \<Rightarrow> product go" where
  "Product_GetByID h i = db_query h (\<lambda>now t. scan_row (product_by_id t i))"

definition price_by_nmi_plan :: "tables \<Rightarrow> string \<Rightarrow> string \<Rightarrow> price option" where
  "price_by_nmi_plan t provider plan = find (\<lambda>p. price_NMIPlanID p = Some plan \<and> price_IsActive p \<and>
     provider_matches (norm_provider provider) (price_NMIProvider p)) (t_prices t)"

definition Price_GetByNMIPlan :: "handle \<Rightarrow> string \<Rightarrow> string \<Rightarrow> price go" where
  "Price_GetByNMIPlan h provider plan = db_query h (\<lambda>now t. scan_row (price_by_nmi_plan t provider plan))"

definition Price_GetByCCBillPriceID :: "handle \<Rightarrow> string \<Rightarrow> price go" where
  "Price_GetByCCBillPriceID h i = db_query h (\<lambda>now t. scan_row
     (find (\<lambda>p. price_CCBillPriceID p = Some i \<and> price_IsActive p) (t_prices t)))"

section \<open>Rows under the statements\<close>

lemma scan_row_simps [simp]: "scan_row None = Inl ErrNoRows" "scan_row (Some x) = Inr x"
  by (simp_all add: scan_row_def)

lemma scan_row_Inr [simp]: "scan_row r = Inr x \<longleftrightarrow> r = Some x"
  by (cases r) auto

lemma scan_row_Inl [simp]: "scan_row r = Inl e \<longleftrightarrow> r = None \<and> e = ErrNoRows"
  by (cases r) auto

lemma stored_sub_simps [simp]:
  "sub_ID (stored_sub s) = sub_ID s" "sub_UserID (stored_sub s) = sub_UserID s"
  "sub_Status (stored_sub s) = sub_Status s" "sub_PriceID (stored_sub s) = sub_PriceID s"
  "sub_CreatedAt (stored_sub s) = sub_CreatedAt s" "sub_RetryAttempts (stored_sub s) = sub_RetryAttempts s"
  "sub_CurrentPeriodEndsAt (stored_sub s) = nz_time (sub_CurrentPeriodEndsAt s)"
  "sub_CurrentPeriodStartsAt (stored_sub s) = nz_time (sub_CurrentPeriodStartsAt s)"
  "sub_EndedAt (stored_sub s) = nz_time (sub_EndedAt s)" "sub_CancelledAt (stored_sub s) = nz_time (sub_CancelledAt s)"
  "sub_CancelType (stored_sub s) = sub_CancelType s" "sub_NextRetryAt (stored_sub s) = nz_time (sub_NextRetryAt s)"
  "sub_Processor (stored_sub s) = sub_Processor s" "is_active_sub (stored_sub s) = is_active_sub s"
  "sub_ProcessorSubscriptionID (stored_sub s) = sub_ProcessorSubscriptionID s"
  "sub_ProcessorProvider (stored_sub s) = sub_ProcessorProvider s"
  "sub_CancelFeedback (stored_sub s) = sub_CancelFeedback s" "sub_LastRetryAt (stored_sub s) = nz_time (sub_LastRetryAt s)"
  "sub_StartedAt (stored_sub s) = sub_StartedAt s" "stored_sub (stored_sub s) = stored_sub s"
  by (simp_all add: stored_sub_def is_active_sub_def)

lemma with_details_simps [simp]:
  "sub_ID (with_details t s) = sub_ID s" "sub_UserID (with_details t s) = sub_UserID s"
  "sub_Status (with_details t s) = sub_Status s" "sub_PriceID (with_details t s) = sub_PriceID s"
  "sub_CreatedAt (with_details t s) = sub_CreatedAt s" "sub_RetryAttempts (with_details t s) = sub_RetryAttempts s"
  "sub_CurrentPeriodEndsAt (with_details t s) = sub_CurrentPeriodEndsAt s"
  "sub_CurrentPeriodStartsAt (with_details t s) = sub_CurrentPeriodStartsAt s"
  "sub_EndedAt (with_details t s) = sub_EndedAt s" "sub_CancelledAt (with_details t s) = sub_CancelledAt s"
  "sub_Processor (with_details t s) = sub_Processor s" "sub_NextRetryAt (with_details t s) = sub_NextRetryAt s"
  "sub_ProcessorSubscriptionID (with_details t s) = sub_ProcessorSubscriptionID s"
  "sub_ProcessorProvider (with_details t s) = sub_ProcessorProvider s"
  "sub_UserEmail (with_details t s) = sub_UserEmail s" "sub_StartedAt (with_details t s) = sub_StartedAt s"
  "sub_Price (with_details t s) = price_by_id t (sub_PriceID s)"
  "sub_CancelFeedback (with_details t s) = sub_CancelFeedback s"
  by (simp_all add: with_details_def)

lemma put_sub_tables [simp]:
  "t_ents (put_sub s t) = t_ents t" "t_notifs (put_sub s t) = t_notifs t" "t_prices (put_sub s t) = t_prices t"
  "t_products (put_sub s t) = t_products t" "t_payments (put_sub s t) = t_payments t"
  "t_pms (put_sub s t) = t_pms t" "t_idems (put_sub s t) = t_idems t" "t_events (put_sub s t) = t_events t"
  "t_aliases (put_sub s t) = t_aliases t"
  by (simp_all add: put_sub_def)

lemma put_sub_subs: "t_subs (put_sub s t) = replace_row sub_ID (stored_sub s) (t_subs t)"
  by (simp add: put_sub_def)

lemma add_sub_tables [simp]:
  "t_ents (add_sub s t) = t_ents t" "t_notifs (add_sub s t) = t_notifs t" "t_prices (add_sub s t) = t_prices t"
  "t_products (add_sub s t) = t_products t" "t_payments (add_sub s t) = t_payments t"
  "t_pms (add_sub s t) = t_pms t" "t_idems (add_sub s t) = t_idems t" "t_events (add_sub s t) = t_events t"
  "t_aliases (add_sub s t) = t_aliases t"
  by (simp_all add: add_sub_def)

lemma add_sub_subs: "t_subs (add_sub s t) = t_subs t @ [stored_sub s]"
  by (simp add: add_sub_def)

text \<open>The subscriptions are a keyed table.\<close>

interpretation subs: keyed_table sub_ID stored_sub t_subs put_sub add_sub
  rewrites "keyed_table.lookup sub_ID t_subs = sub_by_id"
proof -
  show k: "keyed_table sub_ID stored_sub t_subs put_sub add_sub"
    by unfold_locales (simp_all add: put_sub_subs add_sub_subs)
  show "keyed_table.lookup sub_ID t_subs = sub_by_id"
    by (intro ext) (simp add: keyed_table.lookup_def[OF k] sub_by_id_def)
qed

lemmas sub_by_id_in = subs.lookup_in
lemmas sub_by_id_put [row_simps] = subs.lookup_put
lemmas sub_by_id_add [row_simps] = subs.lookup_add
lemmas sub_by_id_unique = subs.lookup_unique

lemma sub_by_psid_in:
  "sub_by_psid t p v i = Some s \<Longrightarrow> s \<in> set (t_subs t) \<and> match_processor_sub p v i s"
  unfolding sub_by_psid_def by (rule find_Some_in)

lemma latest_by_user_in: "latest_by_user t u = Some s \<Longrightarrow> s \<in> set (t_subs t) \<and> sub_UserID s = u"
  unfolding latest_by_user_def by (auto dest: newest_Some_in)

lemma active_sub_of_in:
  "active_sub_of now t u = Some s \<Longrightarrow> s \<in> set (t_subs t) \<and> sub_UserID s = u \<and> sub_Status s = StatusActive"
  unfolding active_sub_of_def by (auto dest: newest_Some_in)

lemma sub_id_image: "s \<in> set (t_subs t) \<Longrightarrow> sub_ID s = i \<Longrightarrow> i \<in> sub_ID ` set (t_subs t)"
  by (rule image_eqI) auto

lemma price_by_id_tables [row_simps]:
  "price_by_id (put_sub s t) i = price_by_id t i" "price_by_id (add_sub s t) i = price_by_id t i"
  by (simp_all add: price_by_id_def)

lemma product_by_id_tables [row_simps]:
  "product_by_id (put_sub s t) i = product_by_id t i" "product_by_id (add_sub s t) i = product_by_id t i"
  by (simp_all add: product_by_id_def)

section \<open>Executing the repository\<close>

lemma wp_SubRepo_Create [wp_simps]:
  "wp (SubRepo_Create h s) Q w =
    (case db_fault h w of Some e \<Rightarrow> Q (Inl e) (db_fail h (tick w))
     | None \<Rightarrow>
       (let row = default_times (clock_now w) s
        in if sub_unique (t_subs (add_sub row (view h w))) then Q (Inr row) (db_write h (add_sub row) (tick w))
           else Q (Inl (DbErr duplicate_key)) (db_fail h (tick w))))"
  unfolding SubRepo_Create_def by (simp add: wp_simps Let_def split: option.split)

lemma default_times_simps [simp]:
  "sub_ID (default_times now s) = sub_ID s" "sub_UserID (default_times now s) = sub_UserID s"
  "sub_Status (default_times now s) = sub_Status s" "sub_PriceID (default_times now s) = sub_PriceID s"
  "sub_Processor (default_times now s) = sub_Processor s"
  "sub_CurrentPeriodEndsAt (default_times now s) = sub_CurrentPeriodEndsAt s"
  "sub_CurrentPeriodStartsAt (default_times now s) = sub_CurrentPeriodStartsAt s"
  "sub_ProcessorSubscriptionID (default_times now s) = sub_ProcessorSubscriptionID s"
  "sub_EndedAt (default_times now s) = sub_EndedAt s" "sub_StartedAt (default_times now s) = sub_StartedAt s"
  by (simp_all add: default_times_def)

lemma wp_SubRepo_Update [wp_simps]:
  "wp (SubRepo_Update h s) Q w =
    (case db_fault h w of Some e \<Rightarrow> Q (Inl e) (db_fail h (tick w))
     | None \<Rightarrow>
        if sub_unique (t_subs (put_sub s (view h w))) then
          (if sub_ID s \<in> sub_ID ` set (t_subs (view h w)) then Q (Inr ()) (db_write h (put_sub s) (tick w))
           else Q (Inl no_rows_affected) (db_write h (put_sub s) (tick w)))
        else Q (Inl (DbErr duplicate_key)) (db_fail h (tick w)))"
proof -
  have "(length (filter (\<lambda>x. sub_ID x = sub_ID s) rs) = 0) = (sub_ID s \<notin> sub_ID ` set rs)" for rs
    by (auto simp: filter_empty_conv image_iff)
  then show ?thesis
    unfolding SubRepo_Update_def by (auto simp: wp_simps split: option.split)
qed

lemma wp_SubRepo_GetByID [wp_simps]:
  "wp (SubRepo_GetByID h i) Q w =
    Q (Inl (case db_fault h w of Some e \<Rightarrow> e | None \<Rightarrow> DbErr (ambiguous ''id''))) (db_fail h (tick w))"
  unfolding SubRepo_GetByID_def by (simp add: wp_simps)

lemma wp_SubRepo_GetLatest [wp_simps]:
  "wp (SubRepo_GetLatestByUserID h u) Q w =
    (case db_fault h w of Some e \<Rightarrow> Q (Inl e) (db_fail h (tick w))
     | None \<Rightarrow> Q (scan_row (map_option (with_details (view h w)) (latest_by_user (view h w) u))) (tick w))"
  unfolding SubRepo_GetLatestByUserID_def by (simp add: wp_simps)

lemma wp_SubRepo_GetActive [wp_simps]:
  "wp (SubRepo_GetActiveSubscription h u) Q w =
    (case db_fault h w of Some e \<Rightarrow> Q (Inl e) (db_fail h (tick w))
     | None \<Rightarrow> Q (scan_row (map_option (with_details (view h w)) (active_sub_of (clock_now w) (view h w) u))) (tick w))"
  unfolding SubRepo_GetActiveSubscription_def by (simp add: wp_simps)

lemma wp_SubRepo_GetByPsid [wp_simps]:
  "wp (SubRepo_GetByProcessorSubscriptionID h p v i) Q w =
    (case db_fault h w of Some e \<Rightarrow> Q (Inl e) (db_fail h (tick w))
     | None \<Rightarrow> Q (scan_row (map_option (with_details (view h w)) (sub_by_psid (view h w) p v i))) (tick w))"
  unfolding SubRepo_GetByProcessorSubscriptionID_def by (simp add: wp_simps)

lemma wp_Price_GetByID [wp_simps]:
  "wp (Price_GetByID h i) Q w =
    (case db_fault h w of Some e \<Rightarrow> Q (Inl e) (db_fail h (tick w))
     | None \<Rightarrow> Q (scan_row (price_by_id (view h w) i)) (tick w))"
  unfolding Price_GetByID_def by (simp add: wp_simps)

lemma wp_Product_GetByID [wp_simps]:
  "wp (Product_GetByID h i) Q w =
    (case db_fault h w of Some e \<Rightarrow> Q (Inl e) (db_fail h (tick w))
     | None \<Rightarrow> Q (scan_row (product_by_id (view h w) i)) (tick w))"
  unfolding Product_GetByID_def by (simp add: wp_simps)

section \<open>What the repository keeps\<close>

lemma keeps_SubRepo_Create:
  assumes "b \<Longrightarrow> h = Tx" "\<And>row t. I t \<Longrightarrow> sub_unique (t_subs (add_sub row t)) \<Longrightarrow> I (add_sub row t)"
  shows "keeps b I (SubRepo_Create h s)"
  unfolding SubRepo_Create_def
  by (intro keeps_intros keeps_exec) (auto simp: Let_def assms split: if_splits)

lemma keeps_SubRepo_Update:
  assumes "b \<Longrightarrow> h = Tx" "\<And>row t. I t \<Longrightarrow> sub_unique (t_subs (put_sub row t)) \<Longrightarrow> I (put_sub row t)"
  shows "keeps b I (SubRepo_Update h s)"
  unfolding SubRepo_Update_def
  by (intro keeps_intros keeps_exec) (auto simp: assms split: if_splits)

lemma keeps_subs_queries [keeps_intros]:
  "keeps b I (SubRepo_GetByID h i)" "keeps b I (SubRepo_GetLatestByUserID h u)"
  "keeps b I (SubRepo_GetByUserIDAndPriceID h u p)"
  "keeps b I (SubRepo_GetActiveSubscription h u)" "keeps b I (SubRepo_GetByProcessorSubscriptionID h q v k)"
  "keeps b I (Price_GetByID h i)" "keeps b I (Product_GetByID h i)" "keeps b I (Price_GetByNMIPlan h q v)"
  "keeps b I (Price_GetByCCBillPriceID h k)"
  unfolding SubRepo_GetByID_def SubRepo_GetLatestByUserID_def SubRepo_GetByUserIDAndPriceID_def
    SubRepo_GetActiveSubscription_def SubRepo_GetByProcessorSubscriptionID_def
    Price_GetByID_def Product_GetByID_def Price_GetByNMIPlan_def Price_GetByCCBillPriceID_def
  by (rule keeps_refused keeps_query)+

end
