(* ===== verification/Entitlement.thy ===== *)
theory Entitlement
  imports Subscription_Repo
begin

text \<open>
  \<open>internal/manager/data/repo/entitlement.go\<close> and
  \<open>internal/manager/api/entitlement/entitlement_service.go\<close>: access windows \<open>[StartAt, EndAt)\<close>, granted
  with \<open>GrantWindow\<close> and \<open>AppendEntitlementDays\<close> and closed with \<open>EndActiveBySubscription\<close> and
  \<open>EndActiveByPayment\<close>. The model carries bun's soft-delete tag, so every query and update adds
  \<open>deleted_at IS NULL\<close>.
\<close>

section \<open>EntitlementRepo\<close>

definition ent_of :: "string \<Rightarrow> string \<Rightarrow> entitlement \<Rightarrow> bool" where
  "ent_of u name e \<longleftrightarrow> ent_DeletedAt e = None \<and> ent_UserID e = u \<and> ent_Entitlement e = name"

definition covers :: "time \<Rightarrow> entitlement \<Rightarrow> bool" where
  "covers tm e \<longleftrightarrow> ent_StartAt e \<le> tm \<and> (case ent_EndAt e of None \<Rightarrow> True | Some x \<Rightarrow> x > tm)"

definition entitled :: "tables \<Rightarrow> string \<Rightarrow> string \<Rightarrow> time \<Rightarrow> bool" where
  "entitled t u name tm \<longleftrightarrow> (\<exists>e \<in> set (t_ents t). ent_of u name e \<and> covers tm e \<and> ent_RevokedAt e = None)"

definition EntRepo_IsEntitled :: "handle \<Rightarrow> string \<Rightarrow> string \<Rightarrow> time \<Rightarrow> bool go" where
  "EntRepo_IsEntitled h u name tm = db_query h (\<lambda>now t. Inr (entitled t u name tm))"

definition has_indefinite :: "tables \<Rightarrow> string \<Rightarrow> string \<Rightarrow> time \<Rightarrow> bool" where
  "has_indefinite t u name tm \<longleftrightarrow> (\<exists>e \<in> set (t_ents t). ent_of u name e \<and>
     (ent_RevokedAt e = None \<and> ent_EndAt e = None) \<and> ent_StartAt e \<le> tm)"

definition EntRepo_HasActiveIndefinite :: "handle \<Rightarrow> string \<Rightarrow> string \<Rightarrow> time \<Rightarrow> bool go" where
  "EntRepo_HasActiveIndefinite h u name tm = db_query h (\<lambda>now t. Inr (has_indefinite t u name tm))"

definition latest_active :: "tables \<Rightarrow> string \<Rightarrow> string \<Rightarrow> entitlement option" where
  "latest_active t u name = newest ent_StartAt (filter (\<lambda>e. ent_of u name e \<and> ent_RevokedAt e = None) (t_ents t))"

definition EntRepo_GetLatestActive :: "handle \<Rightarrow> string \<Rightarrow> string \<Rightarrow> entitlement go" where
  "EntRepo_GetLatestActive h u name = db_query h (\<lambda>now t. scan_row (latest_active t u name))"

definition latest_finite :: "tables \<Rightarrow> string \<Rightarrow> string \<Rightarrow> time \<Rightarrow> entitlement option" where
  "latest_finite t u name tm = newest (\<lambda>e. the (ent_EndAt e))
     (filter (\<lambda>e. ent_of u name e \<and> ent_RevokedAt e = None \<and> ent_EndAt e \<noteq> None \<and> covers tm e) (t_ents t))"

definition EntRepo_GetLatestFiniteActive :: "handle \<Rightarrow> string \<Rightarrow> string \<Rightarrow> time \<Rightarrow> entitlement go" where
  "EntRepo_GetLatestFiniteActive h u name tm = db_query h (\<lambda>now t. scan_row (latest_finite t u name tm))"

definition stored_ent :: "entitlement \<Rightarrow> entitlement" where
  "stored_ent e = e\<lparr>ent_EndAt := nz_time (ent_EndAt e), ent_RevokedAt := nz_time (ent_RevokedAt e)\<rparr>"

definition add_ent :: "entitlement \<Rightarrow> tables \<Rightarrow> tables" where
  "add_ent e t = t\<lparr>t_ents := t_ents t @ [stored_ent e]\<rparr>"

definition EntRepo_Insert :: "handle \<Rightarrow> entitlement \<Rightarrow> unit go" where
  "EntRepo_Insert h e = do {
     r \<leftarrow> db_exec h (\<lambda>now t. if ent_unique (t_ents (add_ent e t)) then Inr (1 :: nat, add_ent e) else Inl duplicate_key);
     (case r of Inl e \<Rightarrow> throw e
      | Inr rows \<Rightarrow> if rows < 1 then throw no_rows_affected else ok ())
   }"

definition active_ents :: "tables \<Rightarrow> string \<Rightarrow> time \<Rightarrow> entitlement list" where
  "active_ents t u tm = filter (\<lambda>e. ent_DeletedAt e = None \<and> ent_UserID e = u \<and> ent_RevokedAt e = None \<and> covers tm e) (t_ents t)"

text \<open>\<open>SELECT DISTINCT\<close> leaves the order of the names open; the model lists them in table order.\<close>

definition EntRepo_ListActiveEntitlements :: "handle \<Rightarrow> string \<Rightarrow> time \<Rightarrow> string list go" where
  "EntRepo_ListActiveEntitlements h u tm = db_query h (\<lambda>now t. Inr (remdups (map ent_Entitlement (active_ents t u tm))))"

definition EntRepo_ListActiveRecords :: "handle \<Rightarrow> string \<Rightarrow> time \<Rightarrow> entitlement list go" where
  "EntRepo_ListActiveRecords h u tm = db_query h (\<lambda>now t. Inr (sort_key ent_StartAt (active_ents t u tm)))"

definition close_ent :: "time \<Rightarrow> time \<Rightarrow> revoke_reason option \<Rightarrow> entitlement \<Rightarrow> entitlement" where
  "close_ent endAt now reason e =
     e\<lparr>ent_EndAt := Some endAt, ent_RevokedAt := Some now, ent_RevokeReason := reason, ent_UpdatedAt := now\<rparr>"

definition open_by :: "source_type \<Rightarrow> uuid \<Rightarrow> entitlement \<Rightarrow> bool" where
  "open_by src i e \<longleftrightarrow> ent_DeletedAt e = None \<and> ent_SourceType e = src \<and> ent_SourceID e = Some i \<and> ent_EndAt e = None"

definition end_ents :: "source_type \<Rightarrow> uuid \<Rightarrow> time \<Rightarrow> time \<Rightarrow> revoke_reason option \<Rightarrow> tables \<Rightarrow> tables" where
  "end_ents src i endAt now reason t =
     t\<lparr>t_ents := update_where (open_by src i) (close_ent endAt now reason) (t_ents t)\<rparr>"

definition EntRepo_EndActiveBySubscription :: "handle \<Rightarrow> uuid \<Rightarrow> time \<Rightarrow> revoke_reason option \<Rightarrow> unit go" where
  "EntRepo_EndActiveBySubscription h i endAt reason = do {
     now \<leftarrow> now_m;
     db_exec h (\<lambda>_ t. Inr ((), end_ents EntitlementSourceSubscription i endAt now reason))
   }"

definition EntRepo_EndActiveByPayment :: "handle \<Rightarrow> uuid \<Rightarrow> time \<Rightarrow> revoke_reason option \<Rightarrow> unit go" where
  "EntRepo_EndActiveByPayment h i endAt reason = do {
     now \<leftarrow> now_m;
     db_exec h (\<lambda>_ t. Inr ((), end_ents EntitlementSourceOneOff i endAt now reason))
   }"

definition exists_by_source :: "tables \<Rightarrow> source_type \<Rightarrow> uuid \<Rightarrow> string \<Rightarrow> bool" where
  "exists_by_source t src i name \<longleftrightarrow> (\<exists>e \<in> set (t_ents t). ent_DeletedAt e = None \<and> ent_SourceType e = src \<and>
     ent_SourceID e = Some i \<and> ent_Entitlement e = name \<and> ent_RevokedAt e = None)"

definition EntRepo_ExistsBySource :: "handle \<Rightarrow> source_type \<Rightarrow> uuid \<Rightarrow> string \<Rightarrow> bool go" where
  "EntRepo_ExistsBySource h src i name = db_query h (\<lambda>now t. Inr (exists_by_source t src i name))"

definition EntRepo_ListByUser :: "handle \<Rightarrow> string \<Rightarrow> entitlement list go" where
  "EntRepo_ListByUser h u = db_query h (\<lambda>now t.
     Inr (sort_desc ent_StartAt (filter (\<lambda>e. ent_DeletedAt e = None \<and> ent_UserID e = u) (t_ents t))))"

section \<open>EntitlementService\<close>

definition GrantWindow ::
  "handle \<Rightarrow> string \<Rightarrow> string \<Rightarrow> time \<Rightarrow> time option \<Rightarrow> source_type \<Rightarrow> uuid option \<Rightarrow> entitlement go" where
  "GrantWindow h u name startAt endAt src srcID = do {
     i \<leftarrow> new_uuid;
     c \<leftarrow> now_m;
     m \<leftarrow> now_m;
     let ent = \<lparr>ent_ID = i, ent_UserID = u, ent_Entitlement = name, ent_StartAt = startAt, ent_EndAt = endAt,
                ent_SourceID = srcID, ent_SourceType = src, ent_RevokedAt = None, ent_RevokeReason = None,
                ent_CreatedAt = c, ent_UpdatedAt = m, ent_DeletedAt = None\<rparr>;
     r \<leftarrow> EntRepo_Insert h ent;
     (case r of Inl e \<Rightarrow> throw e | Inr _ \<Rightarrow> ok ent)
   }"

definition AppendEntitlementDays ::
  "handle \<Rightarrow> string \<Rightarrow> string \<Rightarrow> int \<Rightarrow> source_type \<Rightarrow> uuid option \<Rightarrow> entitlement go" where
  "AppendEntitlementDays h u name days src srcID =
     (if days \<le> 0 then throw (ErrNew ''days must be > 0'') else do {
       now \<leftarrow> now_m;
       r \<leftarrow> EntRepo_HasActiveIndefinite h u name now;
       (case r of
          Inl e \<Rightarrow> throw e
        | Inr exists \<Rightarrow>
            if exists then throw (ErrNew ''cannot append entitlement while subscription entitlement is active'')
            else do {
              l \<leftarrow> EntRepo_GetLatestActive h u name;
              (case l of
                 Inl e \<Rightarrow>
                   if err_is e ErrNoRows
                   then GrantWindow h u name now (Some (time_add now (days_dur days))) src srcID
                   else throw e
               | Inr lst \<Rightarrow>
                   let start = (case ent_EndAt lst of Some x \<Rightarrow> x | None \<Rightarrow> now)
                   in GrantWindow h u name start (Some (time_add start (days_dur days))) src srcID)
            })
     })"

abbreviation "IsEntitled \<equiv> EntRepo_IsEntitled"
abbreviation "ExistsBySource \<equiv> EntRepo_ExistsBySource"
abbreviation "LatestFiniteWindow \<equiv> EntRepo_GetLatestFiniteActive"
abbreviation "EndActiveBySubscription \<equiv> EntRepo_EndActiveBySubscription"
abbreviation "EndActiveByPayment \<equiv> EntRepo_EndActiveByPayment"

section \<open>The windows under the statements\<close>

lemma end_ents_tables [simp]:
  "t_subs (end_ents src i tm now r t) = t_subs t" "t_notifs (end_ents src i tm now r t) = t_notifs t"
  "t_prices (end_ents src i tm now r t) = t_prices t" "t_products (end_ents src i tm now r t) = t_products t"
  "t_payments (end_ents src i tm now r t) = t_payments t" "t_idems (end_ents src i tm now r t) = t_idems t"
  "t_pms (end_ents src i tm now r t) = t_pms t" "t_events (end_ents src i tm now r t) = t_events t"
  "t_aliases (end_ents src i tm now r t) = t_aliases t"
  "t_ents (end_ents src i tm now r t) = update_where (open_by src i) (close_ent tm now r) (t_ents t)"
  by (simp_all add: end_ents_def)

lemma add_ent_tables [simp]:
  "t_subs (add_ent e t) = t_subs t" "t_notifs (add_ent e t) = t_notifs t" "t_prices (add_ent e t) = t_prices t"
  "t_products (add_ent e t) = t_products t" "t_payments (add_ent e t) = t_payments t" "t_idems (add_ent e t) = t_idems t"
  "t_pms (add_ent e t) = t_pms t" "t_events (add_ent e t) = t_events t" "t_aliases (add_ent e t) = t_aliases t"
  by (simp_all add: add_ent_def)

lemma add_ent_ents: "t_ents (add_ent e t) = t_ents t @ [stored_ent e]"
  by (simp add: add_ent_def)

lemma close_ent_simps [simp]:
  "ent_ID (close_ent tm now r e) = ent_ID e" "ent_UserID (close_ent tm now r e) = ent_UserID e"
  "ent_Entitlement (close_ent tm now r e) = ent_Entitlement e" "ent_StartAt (close_ent tm now r e) = ent_StartAt e"
  "ent_EndAt (close_ent tm now r e) = Some tm" "ent_RevokedAt (close_ent tm now r e) = Some now"
  "ent_SourceID (close_ent tm now r e) = ent_SourceID e" "ent_SourceType (close_ent tm now r e) = ent_SourceType e"
  "ent_DeletedAt (close_ent tm now r e) = ent_DeletedAt e"
  by (simp_all add: close_ent_def)

lemma stored_ent_simps [simp]:
  "ent_ID (stored_ent e) = ent_ID e" "ent_UserID (stored_ent e) = ent_UserID e"
  "ent_Entitlement (stored_ent e) = ent_Entitlement e" "ent_StartAt (stored_ent e) = ent_StartAt e"
  "ent_EndAt (stored_ent e) = nz_time (ent_EndAt e)" "ent_RevokedAt (stored_ent e) = nz_time (ent_RevokedAt e)"
  "ent_SourceID (stored_ent e) = ent_SourceID e" "ent_SourceType (stored_ent e) = ent_SourceType e"
  "ent_DeletedAt (stored_ent e) = ent_DeletedAt e"
  by (simp_all add: stored_ent_def)

lemma entitled_add_ent [row_simps]:
  "entitled (add_ent e t) u name tm \<longleftrightarrow>
     entitled t u name tm \<or> (ent_of u name e \<and> covers tm (stored_ent e) \<and> nz_time (ent_RevokedAt e) = None)"
  by (auto simp: entitled_def ent_of_def add_ent_ents)

text \<open>Closing removes exactly the windows it closes, at every instant, past ones included.\<close>

lemma entitled_end_ents [row_simps]:
  "entitled (end_ents src i endAt now r t) u name tm \<longleftrightarrow>
     (\<exists>e \<in> set (t_ents t). ent_of u name e \<and> covers tm e \<and> ent_RevokedAt e = None \<and> \<not> open_by src i e)"
  unfolding entitled_def end_ents_tables bex_update_where by (intro bex_cong) auto

lemma entitled_put_sub [row_simps]:
  "entitled (put_sub s t) u name tm = entitled t u name tm"
  "entitled (add_sub s t) u name tm = entitled t u name tm"
  by (simp_all add: entitled_def)

lemma latest_finite_in:
  "latest_finite t u name tm = Some e \<Longrightarrow>
     e \<in> set (t_ents t) \<and> ent_of u name e \<and> ent_RevokedAt e = None \<and> covers tm e \<and> (\<exists>x. ent_EndAt e = Some x \<and> tm < x)"
  unfolding latest_finite_def by (auto dest!: newest_Some_in simp: covers_def)

lemma latest_active_in:
  "latest_active t u name = Some e \<Longrightarrow> e \<in> set (t_ents t) \<and> ent_of u name e \<and> ent_RevokedAt e = None"
  unfolding latest_active_def by (auto dest!: newest_Some_in)

lemma ent_unique_end_ents: "ent_unique (t_ents t) \<Longrightarrow> ent_unique (t_ents (end_ents src i tm now r t))"
  by (simp add: ent_unique_close)

section \<open>Executing the service\<close>

lemma wp_IsEntitled [wp_simps]:
  "wp (EntRepo_IsEntitled h u name tm) Q w = (case db_fault h w of Some e \<Rightarrow> Q (Inl e) (db_fail h (tick w))
     | None \<Rightarrow> Q (Inr (entitled (view h w) u name tm)) (tick w))"
  unfolding EntRepo_IsEntitled_def by (simp add: wp_simps)

lemma wp_HasActiveIndefinite [wp_simps]:
  "wp (EntRepo_HasActiveIndefinite h u name tm) Q w = (case db_fault h w of Some e \<Rightarrow> Q (Inl e) (db_fail h (tick w))
     | None \<Rightarrow> Q (Inr (has_indefinite (view h w) u name tm)) (tick w))"
  unfolding EntRepo_HasActiveIndefinite_def by (simp add: wp_simps)

lemma wp_GetLatestActive [wp_simps]:
  "wp (EntRepo_GetLatestActive h u name) Q w = (case db_fault h w of Some e \<Rightarrow> Q (Inl e) (db_fail h (tick w))
     | None \<Rightarrow> Q (scan_row (latest_active (view h w) u name)) (tick w))"
  unfolding EntRepo_GetLatestActive_def by (simp add: wp_simps)

lemma wp_GetLatestFinite [wp_simps]:
  "wp (EntRepo_GetLatestFiniteActive h u name tm) Q w = (case db_fault h w of Some e \<Rightarrow> Q (Inl e) (db_fail h (tick w))
     | None \<Rightarrow> Q (scan_row (latest_finite (view h w) u name tm)) (tick w))"
  unfolding EntRepo_GetLatestFiniteActive_def by (simp add: wp_simps)

lemma wp_ExistsBySource [wp_simps]:
  "wp (EntRepo_ExistsBySource h src i name) Q w = (case db_fault h w of Some e \<Rightarrow> Q (Inl e) (db_fail h (tick w))
     | None \<Rightarrow> Q (Inr (exists_by_source (view h w) src i name)) (tick w))"
  unfolding EntRepo_ExistsBySource_def by (simp add: wp_simps)

lemma wp_ent_Insert [wp_simps]:
  "wp (EntRepo_Insert h x) Q w =
    (case db_fault h w of Some e \<Rightarrow> Q (Inl e) (db_fail h (tick w))
     | None \<Rightarrow> if ent_unique (t_ents (add_ent x (view h w))) then Q (Inr ()) (db_write h (add_ent x) (tick w))
               else Q (Inl (DbErr duplicate_key)) (db_fail h (tick w)))"
  unfolding EntRepo_Insert_def by (simp add: wp_simps split: option.split)

text \<open>The closing statement reads the clock first: the revocation time is that reading.\<close>

lemma wp_EndActiveBySubscription [wp_simps]:
  "wp (EntRepo_EndActiveBySubscription h i endAt reason) Q w =
    (case db_fault h (tick w) of Some e \<Rightarrow> Q (Inl e) (db_fail h (tick (tick w)))
     | None \<Rightarrow> Q (Inr ()) (db_write h (end_ents EntitlementSourceSubscription i endAt (clock_now w) reason) (tick (tick w))))"
  unfolding EntRepo_EndActiveBySubscription_def by (simp add: wp_simps split: option.split)

lemma wp_EndActiveByPayment [wp_simps]:
  "wp (EntRepo_EndActiveByPayment h i endAt reason) Q w =
    (case db_fault h (tick w) of Some e \<Rightarrow> Q (Inl e) (db_fail h (tick (tick w)))
     | None \<Rightarrow> Q (Inr ()) (db_write h (end_ents EntitlementSourceOneOff i endAt (clock_now w) reason) (tick (tick w))))"
  unfolding EntRepo_EndActiveByPayment_def by (simp add: wp_simps split: option.split)

section \<open>What the service keeps\<close>

lemma keeps_ent_Insert:
  assumes "b \<Longrightarrow> h = Tx" "\<And>e t. I t \<Longrightarrow> ent_unique (t_ents (add_ent e t)) \<Longrightarrow> I (add_ent e t)"
  shows "keeps b I (EntRepo_Insert h x)"
  unfolding EntRepo_Insert_def by (intro keeps_intros keeps_exec) (auto simp: assms split: if_splits)

lemma keeps_end_ents:
  assumes "b \<Longrightarrow> h = Tx" "\<And>src i tm now r t. I t \<Longrightarrow> I (end_ents src i tm now r t)"
  shows "keeps b I (EntRepo_EndActiveBySubscription h i tm r)" "keeps b I (EntRepo_EndActiveByPayment h i tm r)"
  unfolding EntRepo_EndActiveBySubscription_def EntRepo_EndActiveByPayment_def
  by (intro keeps_intros keeps_exec; auto simp: assms)+

lemma keeps_ent_queries [keeps_intros]:
  "keeps b I (EntRepo_IsEntitled h u n tm)" "keeps b I (EntRepo_HasActiveIndefinite h u n tm)"
  "keeps b I (EntRepo_GetLatestActive h u n)" "keeps b I (EntRepo_GetLatestFiniteActive h u n tm)"
  "keeps b I (EntRepo_ListActiveEntitlements h u tm)" "keeps b I (EntRepo_ListActiveRecords h u tm)"
  "keeps b I (EntRepo_ExistsBySource h src i n)" "keeps b I (EntRepo_ListByUser h u)"
  unfolding EntRepo_IsEntitled_def EntRepo_HasActiveIndefinite_def EntRepo_GetLatestActive_def
    EntRepo_GetLatestFiniteActive_def EntRepo_ListActiveEntitlements_def EntRepo_ListActiveRecords_def
    EntRepo_ExistsBySource_def EntRepo_ListByUser_def
  by (rule keeps_query)+

lemma keeps_GrantWindow:
  assumes "b \<Longrightarrow> h = Tx" "\<And>e t. I t \<Longrightarrow> ent_unique (t_ents (add_ent e t)) \<Longrightarrow> I (add_ent e t)"
  shows "keeps b I (GrantWindow h u n s e src i)"
  unfolding GrantWindow_def by (intro keeps_intros keeps_ent_Insert assms)

lemma keeps_AppendEntitlementDays:
  assumes "b \<Longrightarrow> h = Tx" "\<And>e t. I t \<Longrightarrow> ent_unique (t_ents (add_ent e t)) \<Longrightarrow> I (add_ent e t)"
  shows "keeps b I (AppendEntitlementDays h u n d src i)"
  unfolding AppendEntitlementDays_def by (intro keeps_intros keeps_GrantWindow assms)

end
