(* ===== verification/Notification.thy ===== *)
theory Notification
  imports Subscription_Repo
begin

text \<open>
  \<open>internal/manager/data/repo/notification_queue.go\<close>, \<open>internal/manager/api/notification/\<close> and
  \<open>internal/manager/api/email/subscription_notifications.go\<close>: the queue of in-app notifications, the
  clean-up of the ones a new notification makes obsolete, and the choice of the email.
\<close>

section \<open>NotificationQueueRepo\<close>

definition put_nq :: "notification \<Rightarrow> tables \<Rightarrow> tables" where
  "put_nq n t = t\<lparr>t_notifs := replace_row nq_ID n (t_notifs t)\<rparr>"

definition add_nq :: "notification \<Rightarrow> tables \<Rightarrow> tables" where
  "add_nq n t = t\<lparr>t_notifs := t_notifs t @ [n]\<rparr>"

definition del_nq :: "uuid \<Rightarrow> tables \<Rightarrow> tables" where
  "del_nq i t = t\<lparr>t_notifs := filter (\<lambda>n. nq_ID n \<noteq> i) (t_notifs t)\<rparr>"

definition nq_default :: "time \<Rightarrow> notification \<Rightarrow> notification" where
  "nq_default now n = n\<lparr>nq_CreatedAt := (if is_zero_time (nq_CreatedAt n) then now else nq_CreatedAt n)\<rparr>"

definition NQRepo_Create :: "handle \<Rightarrow> notification \<Rightarrow> notification go" where
  "NQRepo_Create h n = do {
     r \<leftarrow> db_exec h (\<lambda>now t.
       let row = nq_default now n
       in if distinct (map nq_ID (t_notifs (add_nq row t))) then Inr ((1 :: nat, row), add_nq row) else Inl duplicate_key);
     (case r of Inl e \<Rightarrow> throw e
      | Inr (rows, row) \<Rightarrow> if rows < 1 then throw no_rows_affected else ok row)
   }"

definition NQRepo_GetByID :: "handle \<Rightarrow> uuid \<Rightarrow> notification go" where
  "NQRepo_GetByID h i = db_query h (\<lambda>now t. scan_row (find (\<lambda>n. nq_ID n = i) (t_notifs t)))"

definition NQRepo_GetByUserID :: "handle \<Rightarrow> string \<Rightarrow> notification list go" where
  "NQRepo_GetByUserID h u = db_query h (\<lambda>now t.
     Inr (sort_desc nq_CreatedAt (filter (\<lambda>n. nq_UserID n = u) (t_notifs t))))"

definition NQRepo_GetUnseenByUserID :: "handle \<Rightarrow> string \<Rightarrow> notification list go" where
  "NQRepo_GetUnseenByUserID h u = db_query h (\<lambda>now t.
     Inr (sort_desc nq_CreatedAt (filter (\<lambda>n. nq_UserID n = u \<and> \<not> nq_Seen n) (t_notifs t))))"

definition NQRepo_GetByEventType :: "handle \<Rightarrow> notif_event \<Rightarrow> notification list go" where
  "NQRepo_GetByEventType h ev = db_query h (\<lambda>now t.
     Inr (sort_desc nq_CreatedAt (filter (\<lambda>n. nq_EventType n = ev) (t_notifs t))))"

definition NQRepo_CountByUserAndEventSince :: "handle \<Rightarrow> string \<Rightarrow> notif_event \<Rightarrow> time \<Rightarrow> nat go" where
  "NQRepo_CountByUserAndEventSince h u ev since = db_query h (\<lambda>now t.
     Inr (length (filter (\<lambda>n. nq_UserID n = u \<and> nq_EventType n = ev \<and> nq_CreatedAt n \<ge> since) (t_notifs t))))"

definition NQRepo_GetUsersWithPendingDigest :: "handle \<Rightarrow> time \<Rightarrow> string list go" where
  "NQRepo_GetUsersWithPendingDigest h since = db_query h (\<lambda>now t.
     Inr (remdups (map nq_UserID (filter (\<lambda>n.
       nq_EventType n = NotificationTranslationCompletedPendingDigest \<and> nq_CreatedAt n \<ge> since) (t_notifs t)))))"

definition NQRepo_GetPendingDigestForUser :: "handle \<Rightarrow> string \<Rightarrow> time \<Rightarrow> int \<Rightarrow> notification list go" where
  "NQRepo_GetPendingDigestForUser h u since limit = db_query h (\<lambda>now t.
     let items = sort_desc nq_CreatedAt (filter (\<lambda>n. nq_UserID n = u \<and>
           nq_EventType n = NotificationTranslationCompletedPendingDigest \<and> nq_CreatedAt n \<ge> since) (t_notifs t))
     in Inr (if limit > 0 then take (nat limit) items else items))"

definition NQRepo_MarkAsSeen :: "handle \<Rightarrow> uuid \<Rightarrow> unit go" where
  "NQRepo_MarkAsSeen h i = do {
     r \<leftarrow> db_exec h (\<lambda>now t. Inr (length (filter (\<lambda>n. nq_ID n = i) (t_notifs t)),
            (\<lambda>t. t\<lparr>t_notifs := update_where (\<lambda>n. nq_ID n = i) MarkAsSeen (t_notifs t)\<rparr>)));
     (case r of Inl e \<Rightarrow> throw e
      | Inr rows \<Rightarrow> if rows < 1 then throw no_rows_affected else ok ())
   }"

definition NQRepo_Update :: "handle \<Rightarrow> notification \<Rightarrow> unit go" where
  "NQRepo_Update h n = do {
     r \<leftarrow> db_exec h (\<lambda>now t. Inr (length (filter (\<lambda>x. nq_ID x = nq_ID n) (t_notifs t)), put_nq n));
     (case r of Inl e \<Rightarrow> throw e
      | Inr rows \<Rightarrow> if rows < 1 then throw no_rows_affected else ok ())
   }"

definition NQRepo_Delete :: "handle \<Rightarrow> uuid \<Rightarrow> unit go" where
  "NQRepo_Delete h i = do {
     r \<leftarrow> db_exec h (\<lambda>now t. Inr (length (filter (\<lambda>x. nq_ID x = i) (t_notifs t)), del_nq i));
     (case r of Inl e \<Rightarrow> throw e
      | Inr rows \<Rightarrow> if rows < 1 then throw no_rows_affected else ok ())
   }"

record nq_filters =
  nf_UserID :: string
  nf_EventType :: "notif_event option"
  nf_Seen :: "bool option"

definition nq_matches :: "nq_filters \<Rightarrow> notification \<Rightarrow> bool" where
  "nq_matches f n \<longleftrightarrow> (nf_UserID f \<noteq> '''' \<longrightarrow> nq_UserID n = nf_UserID f) \<and>
     (case nf_EventType f of None \<Rightarrow> True | Some ev \<Rightarrow> nq_EventType n = ev) \<and>
     (case nf_Seen f of None \<Rightarrow> True | Some b \<Rightarrow> nq_Seen n = b)"

text \<open>\<open>GetNotifications\<close>: a count and a page, each a query of its own.\<close>

definition NQRepo_GetNotifications :: "handle \<Rightarrow> nq_filters \<Rightarrow> query_options \<Rightarrow> (notification list \<times> nat) go" where
  "NQRepo_GetNotifications h f opts = do {
     c \<leftarrow> db_query h (\<lambda>now t. Inr (length (filter (nq_matches f) (t_notifs t))));
     (case c of
        Inl e \<Rightarrow> throw e
      | Inr tot \<Rightarrow> do {
          r \<leftarrow> db_query h (\<lambda>now t. Inr (page_rows opts (sort_desc nq_CreatedAt (filter (nq_matches f) (t_notifs t)))));
          (case r of Inl e \<Rightarrow> throw e | Inr ns \<Rightarrow> ok (ns, tot))
        })
   }"

section \<open>NotificationService\<close>

definition obsolete_types :: "notif_event \<Rightarrow> notif_event list" where
  "obsolete_types ev = (case ev of
     NotificationPremiumStarted \<Rightarrow> [NotificationPremiumEnded]
   | NotificationPremiumRenewed \<Rightarrow> [NotificationPremiumEnded]
   | NotificationPaymentMethodAutoUpdated \<Rightarrow> [NotificationPaymentMethodFailed, NotificationPaymentMethodUpdateRequired]
   | _ \<Rightarrow> [])"

fun delete_obsolete :: "handle \<Rightarrow> notif_event list \<Rightarrow> notification list \<Rightarrow> nat \<Rightarrow> nat go" where
  "delete_obsolete h types [] n = ok n"
| "delete_obsolete h types (x # xs) n =
     (if nq_EventType x \<in> set types then do {
        r \<leftarrow> NQRepo_Delete h (nq_ID x);
        (case r of
           Inl e \<Rightarrow> if is_panic e then throw e else delete_obsolete h types xs n
         | Inr _ \<Rightarrow> delete_obsolete h types xs (Suc n))
      }
      else delete_obsolete h types xs n)"

definition removeObsoleteNotifications :: "handle \<Rightarrow> string \<Rightarrow> notif_event list \<Rightarrow> nat go" where
  "removeObsoleteNotifications h u types = do {
     r \<leftarrow> NQRepo_GetNotifications h \<lparr>nf_UserID = u, nf_EventType = None, nf_Seen = Some False\<rparr>
            \<lparr>qo_Page = 1, qo_PageSize = 1000, qo_Limit = 0, qo_Offset = 0, qo_TotalItems = 0, qo_All = False\<rparr>;
     (case r of
        Inl e \<Rightarrow> throw (wrap_err ''failed to get notifications for cleanup'' e)
      | Inr (ns, tot) \<Rightarrow> delete_obsolete h types ns 0)
   }"

definition cleanupObsoleteNotifications :: "handle \<Rightarrow> notification \<Rightarrow> unit go" where
  "cleanupObsoleteNotifications h n =
     (if obsolete_types (nq_EventType n) = [] then ok () else do {
        r \<leftarrow> removeObsoleteNotifications h (nq_UserID n) (obsolete_types (nq_EventType n));
        (case r of
           Inl e \<Rightarrow> throw (wrap_err ''failed to remove obsolete notifications'' e)
         | Inr c \<Rightarrow> ok ())
      })"

text \<open>The error of the clean-up and the one of the delivery are logged only.\<close>

definition CreateAndDeliver :: "handle \<Rightarrow> notification \<Rightarrow> unit go" where
  "CreateAndDeliver h n = do {
     c \<leftarrow> cleanupObsoleteNotifications h n;
     r \<leftarrow> NQRepo_Create h n;
     (case r of
        Inl e \<Rightarrow> throw (wrap_err ''failed to create notification'' e)
      | Inr row \<Rightarrow> do { deliver_mail row; ok () })
   }"

section \<open>The email of a notification\<close>

definition ParsePremiumEndReason :: "string \<Rightarrow> end_reason" where
  "ParsePremiumEndReason value =
     (let v = to_lower value in
      if v = end_reason_str PremiumEndReasonUserCancel then PremiumEndReasonUserCancel
      else if v = end_reason_str PremiumEndReasonExpired then PremiumEndReasonExpired
      else if v = end_reason_str PremiumEndReasonChargeback then PremiumEndReasonChargeback
      else if v = end_reason_str PremiumEndReasonRefund then PremiumEndReasonRefund
      else if v = end_reason_str PremiumEndReasonAdmin then PremiumEndReasonAdmin
      else if v = end_reason_str PremiumEndReasonProcessor then PremiumEndReasonProcessor
      else PremiumEndReasonUnknown)"

datatype mail =
    SubscriptionConfirmation string
  | SubscriptionRenewal string
  | SubscriptionExpiredMail string
  | SubscriptionCancellation string end_reason
  | PaymentFailedMail string
  | OneOffReceipt string float64 string string string

text \<open>\<open>SendPremiumEnded\<close>.\<close>

definition premium_ended_mail :: "string \<Rightarrow> end_reason \<Rightarrow> mail" where
  "premium_ended_mail u reason = (case reason of
     PremiumEndReasonExpired \<Rightarrow> SubscriptionExpiredMail u
   | PremiumEndReasonChargeback \<Rightarrow> SubscriptionCancellation u reason
   | PremiumEndReasonRefund \<Rightarrow> SubscriptionCancellation u reason
   | PremiumEndReasonAdmin \<Rightarrow> SubscriptionCancellation u reason
   | PremiumEndReasonProcessor \<Rightarrow> SubscriptionCancellation u reason
   | PremiumEndReasonUserCancel \<Rightarrow> SubscriptionCancellation u PremiumEndReasonUserCancel
   | PremiumEndReasonUnknown \<Rightarrow> SubscriptionCancellation u PremiumEndReasonUserCancel)"

definition data_str :: "string \<Rightarrow> (string \<times> meta) list \<Rightarrow> string" where
  "data_str k d = (case map_of d k of Some (MStr s) \<Rightarrow> s | _ \<Rightarrow> '''')"

definition data_amount :: "string \<Rightarrow> (string \<times> meta) list \<Rightarrow> float64" where
  "data_amount k d = (case map_of d k of Some (MAmount a) \<Rightarrow> a | _ \<Rightarrow> 0)"

text \<open>
  \<open>sendEmailNotification\<close> with the two email services present: which email is sent. \<open>profile\<close> is the
  lookup of the user's address in the profiles database.
\<close>

definition email_of :: "(string \<Rightarrow> string option) \<Rightarrow> notification \<Rightarrow> mail option" where
  "email_of profile n = (let u = nq_UserID n; d = nq_Data n in case nq_EventType n of
     NotificationPremiumStarted \<Rightarrow> Some (SubscriptionConfirmation u)
   | NotificationPremiumRenewed \<Rightarrow> Some (SubscriptionRenewal u)
   | NotificationPremiumEnded \<Rightarrow>
       Some (premium_ended_mail u (case map_of d ''reason'' of
         Some (MStr r) \<Rightarrow> ParsePremiumEndReason r | _ \<Rightarrow> PremiumEndReasonUnknown))
   | NotificationPaymentMethodFailed \<Rightarrow> Some (PaymentFailedMail u)
   | NotificationOneOffPurchaseCompleted \<Rightarrow>
       if d = [] then None else
       let e = data_str ''user_email'' d;
           addr = (if e = '''' then (case profile u of Some m \<Rightarrow> m | None \<Rightarrow> '''') else e)
       in if addr = '''' then None
          else Some (OneOffReceipt addr (data_amount ''amount'' d) (data_str ''currency'' d)
                      (data_str ''product_name'' d) (data_str ''payment_method'' d))
   | _ \<Rightarrow> None)"

lemma ParsePremiumEndReason_str: "ParsePremiumEndReason (end_reason_str r) = r"
  by (cases r) (simp_all add: ParsePremiumEndReason_def to_lower_def lower_char_def Let_def)

section \<open>The queue under the statements\<close>

lemma nq_tables [simp]:
  "t_notifs (put_nq n t) = replace_row nq_ID n (t_notifs t)" "t_notifs (add_nq n t) = t_notifs t @ [n]"
  "t_notifs (del_nq i t) = filter (\<lambda>n. nq_ID n \<noteq> i) (t_notifs t)"
  by (simp_all add: put_nq_def add_nq_def del_nq_def)

lemma nq_other_tables [simp]:
  "t_subs (add_nq n t) = t_subs t" "t_ents (add_nq n t) = t_ents t" "t_prices (add_nq n t) = t_prices t"
  "t_products (add_nq n t) = t_products t" "t_payments (add_nq n t) = t_payments t" "t_pms (add_nq n t) = t_pms t"
  "t_idems (add_nq n t) = t_idems t" "t_events (add_nq n t) = t_events t" "t_aliases (add_nq n t) = t_aliases t"
  "t_subs (del_nq i t) = t_subs t" "t_ents (del_nq i t) = t_ents t" "t_prices (del_nq i t) = t_prices t"
  "t_products (del_nq i t) = t_products t" "t_payments (del_nq i t) = t_payments t" "t_pms (del_nq i t) = t_pms t"
  "t_idems (del_nq i t) = t_idems t" "t_events (del_nq i t) = t_events t" "t_aliases (del_nq i t) = t_aliases t"
  by (simp_all add: add_nq_def del_nq_def)

interpretation notifs: keyed_table nq_ID "\<lambda>n. n" t_notifs put_nq add_nq
  by unfold_locales simp_all

lemma sub_by_id_nq [row_simps]: "sub_by_id (add_nq n t) i = sub_by_id t i" "sub_by_id (del_nq j t) i = sub_by_id t i"
  by (simp_all add: sub_by_id_def)

lemma nq_default_simps [simp]:
  "nq_ID (nq_default now n) = nq_ID n" "nq_UserID (nq_default now n) = nq_UserID n"
  "nq_EventType (nq_default now n) = nq_EventType n" "nq_Data (nq_default now n) = nq_Data n"
  by (simp_all add: nq_default_def)

lemma wp_NQRepo_Create [wp_simps]:
  "wp (NQRepo_Create h n) Q w =
    (case db_fault h w of Some e \<Rightarrow> Q (Inl e) (db_fail h (tick w))
     | None \<Rightarrow>
        if nq_ID n \<notin> nq_ID ` set (t_notifs (view h w)) \<and> distinct (map nq_ID (t_notifs (view h w)))
        then Q (Inr (nq_default (clock_now w) n)) (db_write h (add_nq (nq_default (clock_now w) n)) (tick w))
        else Q (Inl (DbErr duplicate_key)) (db_fail h (tick w)))"
  unfolding NQRepo_Create_def by (auto simp: wp_simps Let_def split: option.split)

lemma keeps_NQRepo_Create:
  assumes "b \<Longrightarrow> h = Tx" "\<And>n t. I t \<Longrightarrow> distinct (map nq_ID (t_notifs (add_nq n t))) \<Longrightarrow> I (add_nq n t)"
  shows "keeps b I (NQRepo_Create h n)"
  unfolding NQRepo_Create_def
  by (intro keeps_intros keeps_exec) (auto simp: Let_def assms split: if_splits)

lemma keeps_NQRepo_Delete:
  assumes "b \<Longrightarrow> h = Tx" "\<And>i t. I t \<Longrightarrow> I (del_nq i t)"
  shows "keeps b I (NQRepo_Delete h i)"
  unfolding NQRepo_Delete_def by (intro keeps_intros keeps_exec) (auto simp: assms)

lemma keeps_delete_obsolete:
  assumes "b \<Longrightarrow> h = Tx" "\<And>i t. I t \<Longrightarrow> I (del_nq i t)"
  shows "keeps b I (delete_obsolete h types ns n)"
  by (induction ns arbitrary: n) (auto intro!: keeps_intros keeps_NQRepo_Delete assms)

lemma keeps_CreateAndDeliver:
  assumes "\<And>i t. I t \<Longrightarrow> I (del_nq i t)"
    "\<And>n t. I t \<Longrightarrow> distinct (map nq_ID (t_notifs (add_nq n t))) \<Longrightarrow> I (add_nq n t)"
  shows "keeps False I (CreateAndDeliver h n)"
  unfolding CreateAndDeliver_def cleanupObsoleteNotifications_def removeObsoleteNotifications_def
    NQRepo_GetNotifications_def
  by (intro keeps_intros keeps_NQRepo_Create keeps_delete_obsolete assms) simp_all

end
