(* ===== verification/Lifecycle.thy ===== *)
theory Lifecycle
  imports Entitlement Notification
begin

text \<open>
  \<open>internal/manager/api/lifecycle/lifecycle_service.go\<close> and \<open>internal/manager/api/dunning/dunning.go\<close>:
  creation, renewal, cancellation, expiry and failure of a membership. Each operation is a
  transaction (\<open>..._tx\<close>, the closure passed to \<open>RunInTx\<close>) that yields the queued notifications,
  followed by their dispatch. \<open>nsvc\<close> says whether \<open>SetNotificationService\<close> has been called.
\<close>

section \<open>Parameters of the operations\<close>

record create_params =
  cp_UserID :: string
  cp_PriceID :: uuid
  cp_Processor :: processor
  cp_ProcessorSubscriptionID :: "string option"
  cp_UserEmail :: "string option"
  cp_ProcessorProvider :: string

record renew_params =
  rp_Processor :: processor
  rp_ProcessorSubscriptionID :: string
  rp_ProcessorProvider :: string

record cancel_params =
  kp_SubscriptionID :: "uuid option"
  kp_Processor :: "processor option"
  kp_ProcessorSubscriptionID :: "string option"
  kp_CancelType :: cancel_type
  kp_CancelFeedback :: "string option"
  kp_ImmediateCancellation :: bool
  kp_ProcessorProvider :: string

record fail_params =
  fp_Processor :: processor
  fp_ProcessorSubscriptionID :: string
  fp_ProcessorProvider :: string
  fp_FailureReason :: "string option"
  fp_FailureCode :: "string option"

definition DunningInterval :: duration where
  "DunningInterval = 72 * hour"

definition MaxDunningFailures :: int where
  "MaxDunningFailures = 5"

section \<open>Helpers\<close>

definition new_notification :: "uuid \<Rightarrow> string \<Rightarrow> notif_event \<Rightarrow> (string \<times> meta) list \<Rightarrow> notification" where
  "new_notification i u ev d =
     \<lparr>nq_ID = i, nq_UserID = u, nq_EventType = ev, nq_Data = d, nq_Seen = False, nq_CreatedAt = 0\<rparr>"

definition reason_data :: "end_reason \<Rightarrow> (string \<times> meta) list" where
  "reason_data r = [(''reason'', MStr (end_reason_str r))]"

text \<open>The creation of a notification in the transaction, whose error is logged only.\<close>

definition queue_notification :: "handle \<Rightarrow> string \<Rightarrow> notif_event \<Rightarrow> (string \<times> meta) list \<Rightarrow> (world, notification list) state" where
  "queue_notification h u ev d = do {
     i \<leftarrow> new_uuid;
     r \<leftarrow> NQRepo_Create h (new_notification i u ev d);
     State_Monad.return (case r of Inl e \<Rightarrow> [] | Inr row \<Rightarrow> [row])
   }"

definition dispatchNotifications :: "bool \<Rightarrow> notification list \<Rightarrow> (world, unit) state" where
  "dispatchNotifications nsvc ns = (if nsvc then for_all_do ns deliver_mail else State_Monad.return ())"

text \<open>The provider of a processor: only NMI subscriptions have one, \<open>mobius\<close> by default.\<close>

definition op_provider :: "processor \<Rightarrow> string \<Rightarrow> string" where
  "op_provider proc prov = (if proc = ProcessorNMI then norm_provider prov else '''')"

definition set_provider :: "string \<Rightarrow> subscription \<Rightarrow> subscription" where
  "set_provider provider s = (if provider \<noteq> '''' then s\<lparr>sub_ProcessorProvider := Some provider\<rparr> else s)"

section \<open>CreateMembership\<close>

definition trimmed_email :: "string option \<Rightarrow> string option" where
  "trimmed_email m = (case m of None \<Rightarrow> None
     | Some e \<Rightarrow> if trim_space e \<noteq> '''' then Some (trim_space e) else None)"

definition create_period_end :: "price \<Rightarrow> time \<Rightarrow> time" where
  "create_period_end p now = (case price_BillingCycleDays p of
     Some d \<Rightarrow> if d > 0 then time_add now (days_dur d) else time_add now (30 * 24 * hour)
   | None \<Rightarrow> time_add now (30 * 24 * hour))"

text \<open>The branch that reactivates the user's latest subscription.\<close>

definition reactivated_sub :: "create_params \<Rightarrow> price \<Rightarrow> time \<Rightarrow> subscription \<Rightarrow> subscription" where
  "reactivated_sub p pr now old =
     (let s1 = (case trimmed_email (cp_UserEmail p) of Some e \<Rightarrow> old\<lparr>sub_UserEmail := Some e\<rparr> | None \<Rightarrow> old);
          s2 = s1\<lparr>sub_PriceID := price_ID pr, sub_Status := StatusActive, sub_Processor := cp_Processor p\<rparr>;
          s3 = (case cp_ProcessorSubscriptionID p of Some i \<Rightarrow> s2\<lparr>sub_ProcessorSubscriptionID := i\<rparr> | None \<Rightarrow> s2);
          s4 = set_provider (cp_ProcessorProvider p) s3
      in s4\<lparr>sub_CurrentPeriodStartsAt := Some now, sub_CurrentPeriodEndsAt := Some (create_period_end pr now),
            sub_StartedAt := now, sub_CancelledAt := None, sub_CancelType := None, sub_CancelFeedback := None,
            sub_EndedAt := None\<rparr>)"

text \<open>The branch that creates one.\<close>

definition new_sub :: "create_params \<Rightarrow> price \<Rightarrow> time \<Rightarrow> uuid \<Rightarrow> subscription" where
  "new_sub p pr now i =
     set_provider (cp_ProcessorProvider p)
      \<lparr>sub_ID = i, sub_UserID = cp_UserID p, sub_PriceID = price_ID pr, sub_Status = StatusActive,
       sub_StartedAt = now, sub_EndedAt = None,
       sub_CurrentPeriodStartsAt = Some now, sub_CurrentPeriodEndsAt = Some (create_period_end pr now),
       sub_Processor = cp_Processor p, sub_ProcessorProvider = None,
       sub_ProcessorSubscriptionID = (case cp_ProcessorSubscriptionID p of Some i \<Rightarrow> i | None \<Rightarrow> ''''),
       sub_UserEmail = trimmed_email (cp_UserEmail p), sub_PaymentMethodID = None,
       sub_LastRetryAt = None, sub_RetryAttempts = None, sub_NextRetryAt = None,
       sub_CancelFeedback = None, sub_CancelType = None, sub_CancelledAt = None,
       sub_Price = None, sub_PaymentMethod = None, sub_Metadata = None,
       sub_CreatedAt = 0, sub_UpdatedAt = 0\<rparr>"

definition ent_names :: "product \<Rightarrow> string list" where
  "ent_names pd = (if prod_EntitlementsSpec pd \<noteq> [] then map fst (prod_EntitlementsSpec pd) else [''premium''])"

definition grant_for_sub :: "handle \<Rightarrow> string \<Rightarrow> time \<Rightarrow> uuid \<Rightarrow> string \<Rightarrow> unit go" where
  "grant_for_sub h u now i name = do {
     x \<leftarrow> ExistsBySource h EntitlementSourceSubscription i name;
     (case x of
        Inl e \<Rightarrow> throw (wrap_err ''failed entitlement check'' e)
      | Inr exists \<Rightarrow> if exists then ok () else do {
          f \<leftarrow> LatestFiniteWindow h u name now;
          (case f of
             Inl e \<Rightarrow>
               if \<not> err_is e ErrNoRows then throw (wrap_err ''failed to fetch finite entitlement'' e)
               else do {
                 g \<leftarrow> GrantWindow h u name now None EntitlementSourceSubscription (Some i);
                 (case g of Inl e \<Rightarrow> throw (wrap_err (''failed to grant entitlement '' @ name) e) | Inr _ \<Rightarrow> ok ())
               }
           | Inr fin \<Rightarrow> do {
               g \<leftarrow> GrantWindow h u name (case ent_EndAt fin of Some x \<Rightarrow> x | None \<Rightarrow> now)
                      None EntitlementSourceSubscription (Some i);
               (case g of Inl e \<Rightarrow> throw (wrap_err (''failed to grant entitlement '' @ name) e) | Inr _ \<Rightarrow> ok ())
             })
        })
   }"

definition grant_entitlements :: "handle \<Rightarrow> create_params \<Rightarrow> price \<Rightarrow> time \<Rightarrow> subscription \<Rightarrow> unit go" where
  "grant_entitlements h p pr now s = do {
     r \<leftarrow> Product_GetByID h (price_ProductID pr);
     (case r of
        Inl e \<Rightarrow> throw (wrap_err ''failed to get product'' e)
      | Inr pd \<Rightarrow> for_each (ent_names pd) (grant_for_sub h (cp_UserID p) now (sub_ID s)))
   }"

definition save_membership :: "handle \<Rightarrow> create_params \<Rightarrow> price \<Rightarrow> time \<Rightarrow> subscription res \<Rightarrow> subscription go" where
  "save_membership h p pr now existing =
     (case existing of
        Inr old \<Rightarrow> do {
          let s = reactivated_sub p pr now old;
          r \<leftarrow> SubRepo_Update h s;
          (case r of Inl e \<Rightarrow> throw (wrap_err ''failed to update subscription'' e) | Inr _ \<Rightarrow> ok s)
        }
      | Inl _ \<Rightarrow> do {
          i \<leftarrow> new_uuid;
          r \<leftarrow> SubRepo_Create h (new_sub p pr now i);
          (case r of Inl e \<Rightarrow> throw (wrap_err ''failed to create subscription'' e) | Inr s \<Rightarrow> ok s)
        })"

definition finish_membership ::
  "handle \<Rightarrow> create_params \<Rightarrow> price \<Rightarrow> time \<Rightarrow> subscription \<Rightarrow> (subscription \<times> notification list) go" where
  "finish_membership h p pr now s = do {
     g \<leftarrow> grant_entitlements h p pr now s;
     (case g of
        Inl e \<Rightarrow> throw e
      | Inr _ \<Rightarrow> do {
          ns \<leftarrow> queue_notification h (cp_UserID p) NotificationPremiumStarted [];
          ok (s, ns)
        })
   }"

definition createMembershipCore :: "handle \<Rightarrow> create_params \<Rightarrow> (subscription \<times> notification list) go" where
  "createMembershipCore h p = do {
     r \<leftarrow> Price_GetByID h (cp_PriceID p);
     (case r of
        Inl e \<Rightarrow> throw (wrap_err ''failed to get price'' e)
      | Inr pr \<Rightarrow> do {
          existing \<leftarrow> SubRepo_GetLatestByUserID h (cp_UserID p);
          (if (case existing of Inr old \<Rightarrow> sub_Status old = StatusActive | Inl _ \<Rightarrow> False)
           then throw (ErrNew ''user already has an active subscription'')
           else do {
             now \<leftarrow> now_m;
             m \<leftarrow> save_membership h p pr now existing;
             (case m of
                Inl e \<Rightarrow> throw e
              | Inr s \<Rightarrow> finish_membership h p pr now s)
           })
        })
   }"

definition CreateMembership :: "bool \<Rightarrow> create_params \<Rightarrow> subscription go" where
  "CreateMembership nsvc p = do {
     r \<leftarrow> run_in_tx (createMembershipCore Tx p);
     (case r of
        Inl e \<Rightarrow> throw e
      | Inr (s, ns) \<Rightarrow> do { dispatchNotifications nsvc ns; ok s })
   }"

definition CreateMembershipTx :: "handle option \<Rightarrow> create_params \<Rightarrow> (subscription \<times> notification list) go" where
  "CreateMembershipTx txDB p = (case txDB of
     None \<Rightarrow> throw (ErrNew ''transaction DB is required'') | Some h \<Rightarrow> createMembershipCore h p)"

section \<open>RenewMembership\<close>

definition renewed_sub :: "time \<Rightarrow> int \<Rightarrow> subscription \<Rightarrow> subscription" where
  "renewed_sub start d s = s\<lparr>sub_Status := StatusActive,
     sub_CurrentPeriodStartsAt := Some start, sub_CurrentPeriodEndsAt := Some (time_add start (days_dur d)),
     sub_CancelledAt := None, sub_CancelType := None, sub_CancelFeedback := None, sub_EndedAt := None\<rparr>"

text \<open>A nil \<open>BillingCycleDays\<close> is dereferenced: a panic.\<close>

definition renew_tx :: "renew_params \<Rightarrow> notification list go" where
  "renew_tx p = do {
     let provider = op_provider (rp_Processor p) (rp_ProcessorProvider p);
     r \<leftarrow> SubRepo_GetByProcessorSubscriptionID Tx (processor_str (rp_Processor p)) provider (rp_ProcessorSubscriptionID p);
     (case r of
        Inl e \<Rightarrow> throw (wrap_err ''subscription not found'' e)
      | Inr s0 \<Rightarrow> do {
          let s1 = set_provider provider s0;
          q \<leftarrow> Price_GetByID Pool (sub_PriceID s1);
          (case q of
             Inl e \<Rightarrow> throw (wrap_err ''failed to get price'' e)
           | Inr pr \<Rightarrow> do {
               start \<leftarrow> (if set_time (sub_CurrentPeriodEndsAt s1)
                         then State_Monad.return (the (sub_CurrentPeriodEndsAt s1)) else now_m);
               (case price_BillingCycleDays pr of
                  None \<Rightarrow> throw (GoPanic ''nil BillingCycleDays'')
                | Some d \<Rightarrow> do {
                    let s2 = renewed_sub start d s1;
                    u \<leftarrow> SubRepo_Update Tx s2;
                    (case u of
                       Inl e \<Rightarrow> throw (wrap_err ''failed to update subscription'' e)
                     | Inr _ \<Rightarrow> do {
                         ns \<leftarrow> queue_notification Tx (sub_UserID s2) NotificationPremiumRenewed [];
                         ok ns
                       })
                  })
             })
        })
   }"

definition tx_then_dispatch :: "bool \<Rightarrow> notification list go \<Rightarrow> unit go" where
  "tx_then_dispatch nsvc body = do {
     r \<leftarrow> run_in_tx body;
     (case r of
        Inl e \<Rightarrow> throw e
      | Inr ns \<Rightarrow> do { dispatchNotifications nsvc ns; ok () })
   }"

definition RenewMembership :: "bool \<Rightarrow> renew_params \<Rightarrow> unit go" where
  "RenewMembership nsvc p = tx_then_dispatch nsvc (renew_tx p)"

section \<open>CancelMembership\<close>

definition cancel_lookup :: "cancel_params \<Rightarrow> string \<Rightarrow> subscription go" where
  "cancel_lookup p provider =
     (case kp_SubscriptionID p of
        Some i \<Rightarrow> SubRepo_GetByID Tx i
      | None \<Rightarrow> (case (kp_ProcessorSubscriptionID p, kp_Processor p) of
          (Some k, Some proc) \<Rightarrow> SubRepo_GetByProcessorSubscriptionID Tx (processor_str proc) provider k
        | _ \<Rightarrow> throw (ErrNew ''either subscription_id or processor details must be provided'')))"

definition cancelled_sub :: "cancel_params \<Rightarrow> time \<Rightarrow> subscription \<Rightarrow> subscription" where
  "cancelled_sub p now s =
     (let s1 = s\<lparr>sub_Status := StatusCancelled, sub_CancelledAt := Some now, sub_CancelType := Some (kp_CancelType p)\<rparr>;
          s2 = (case kp_CancelFeedback p of Some f \<Rightarrow> s1\<lparr>sub_CancelFeedback := Some f\<rparr> | None \<Rightarrow> s1)
      in if kp_ImmediateCancellation p then s2\<lparr>sub_EndedAt := Some now, sub_CurrentPeriodEndsAt := Some now\<rparr>
         else if sub_CurrentPeriodEndsAt s2 = None then s2\<lparr>sub_EndedAt := Some now\<rparr> else s2)"

definition cancel_reason :: "cancel_type \<Rightarrow> end_reason" where
  "cancel_reason c = (case c of
     CancelTypeUser \<Rightarrow> PremiumEndReasonUserCancel
   | CancelTypeExpired \<Rightarrow> PremiumEndReasonExpired
   | CancelTypeMerchant \<Rightarrow> PremiumEndReasonProcessor
   | _ \<Rightarrow> PremiumEndReasonAdmin)"

text \<open>When and where the entitlements end, from the updated subscription.\<close>

definition cancel_ends :: "cancel_params \<Rightarrow> time \<Rightarrow> subscription \<Rightarrow> time option" where
  "cancel_ends p now s =
     (if kp_ImmediateCancellation p \<or> (case sub_CurrentPeriodEndsAt s of Some e \<Rightarrow> e < now | None \<Rightarrow> False)
      then Some (case sub_CurrentPeriodEndsAt s of
             Some e \<Rightarrow> if \<not> kp_ImmediateCancellation p then e else now | None \<Rightarrow> now)
      else None)"

text \<open>The error of \<open>EndActiveBySubscription\<close> is logged only.\<close>

definition end_entitlements :: "uuid \<Rightarrow> time \<Rightarrow> (world, unit) state" where
  "end_entitlements i endAt = do {
     r \<leftarrow> EndActiveBySubscription Tx i endAt (Some EntitlementRevokeAdmin);
     State_Monad.return ()
   }"

definition cancel_provider :: "cancel_params \<Rightarrow> string" where
  "cancel_provider p = (case kp_Processor p of Some proc \<Rightarrow> op_provider proc (kp_ProcessorProvider p) | None \<Rightarrow> '''')"

definition cancel_tx :: "cancel_params \<Rightarrow> notification list go" where
  "cancel_tx p = do {
     let provider = cancel_provider p;
     r \<leftarrow> cancel_lookup p provider;
     (case r of
        Inl e \<Rightarrow> throw (if kp_SubscriptionID p = None \<and> (kp_ProcessorSubscriptionID p = None \<or> kp_Processor p = None)
                        then e else wrap_err ''subscription not found'' e)
      | Inr s0 \<Rightarrow> do {
          now \<leftarrow> now_m;
          let s1 = cancelled_sub p now (set_provider provider s0);
          u \<leftarrow> SubRepo_Update Tx s1;
          (case u of
             Inl e \<Rightarrow> throw (wrap_err ''failed to update subscription'' e)
           | Inr _ \<Rightarrow> do {
               (case cancel_ends p now s1 of
                  Some endAt \<Rightarrow> end_entitlements (sub_ID s1) endAt
                | None \<Rightarrow> State_Monad.return ());
               ns \<leftarrow> queue_notification Tx (sub_UserID s1) NotificationPremiumEnded (reason_data (cancel_reason (kp_CancelType p)));
               ok ns
             })
        })
   }"

definition CancelMembership :: "bool \<Rightarrow> cancel_params \<Rightarrow> unit go" where
  "CancelMembership nsvc p = tx_then_dispatch nsvc (cancel_tx p)"

section \<open>ExpireMembership\<close>

definition expired_sub :: "time \<Rightarrow> subscription \<Rightarrow> subscription" where
  "expired_sub now s = s\<lparr>sub_Status := StatusCancelled, sub_EndedAt := Some now\<rparr>"

definition expire_tx :: "uuid \<Rightarrow> notification list go" where
  "expire_tx i = do {
     r \<leftarrow> SubRepo_GetByID Tx i;
     (case r of
        Inl e \<Rightarrow> throw (wrap_err ''subscription not found'' e)
      | Inr s0 \<Rightarrow> do {
          now \<leftarrow> now_m;
          let s1 = expired_sub now s0;
          u \<leftarrow> SubRepo_Update Tx s1;
          (case u of
             Inl e \<Rightarrow> throw (wrap_err ''failed to update subscription'' e)
           | Inr _ \<Rightarrow> do {
               end_entitlements (sub_ID s1) now;
               ns \<leftarrow> queue_notification Tx (sub_UserID s1) NotificationPremiumEnded (reason_data PremiumEndReasonExpired);
               ok ns
             })
        })
   }"

definition ExpireMembership :: "bool \<Rightarrow> uuid \<Rightarrow> unit go" where
  "ExpireMembership nsvc i = tx_then_dispatch nsvc (expire_tx i)"

section \<open>FailMembership\<close>

definition failed_sub :: "time \<Rightarrow> subscription \<Rightarrow> subscription" where
  "failed_sub now s =
     (let attempts = (case sub_RetryAttempts s of None \<Rightarrow> 1 | Some n \<Rightarrow> n + 1);
          s1 = s\<lparr>sub_Status := StatusPastDue, sub_LastRetryAt := Some now, sub_RetryAttempts := Some attempts\<rparr>
      in if attempts \<ge> MaxDunningFailures then s1\<lparr>sub_Status := StatusCancelled, sub_EndedAt := Some now\<rparr>
         else s1\<lparr>sub_NextRetryAt := Some (time_add now DunningInterval)\<rparr>)"

definition fail_tx :: "fail_params \<Rightarrow> notification list go" where
  "fail_tx p = do {
     let provider = op_provider (fp_Processor p) (fp_ProcessorProvider p);
     r \<leftarrow> SubRepo_GetByProcessorSubscriptionID Tx (processor_str (fp_Processor p)) provider (fp_ProcessorSubscriptionID p);
     (case r of
        Inl e \<Rightarrow> throw (wrap_err ''subscription not found'' e)
      | Inr s0 \<Rightarrow> do {
          now \<leftarrow> now_m;
          let s1 = failed_sub now (set_provider provider s0);
          u \<leftarrow> SubRepo_Update Tx s1;
          (case u of
             Inl e \<Rightarrow> throw (wrap_err ''failed to update subscription'' e)
           | Inr _ \<Rightarrow> do {
               (if sub_Status s1 = StatusCancelled then end_entitlements (sub_ID s1) now else State_Monad.return ());
               ns \<leftarrow> (if sub_Status s1 = StatusCancelled
                      then queue_notification Tx (sub_UserID s1) NotificationPremiumEnded (reason_data PremiumEndReasonExpired)
                      else queue_notification Tx (sub_UserID s1) NotificationPaymentMethodFailed []);
               ok ns
             })
        })
   }"

definition FailMembership :: "bool \<Rightarrow> fail_params \<Rightarrow> unit go" where
  "FailMembership nsvc p = tx_then_dispatch nsvc (fail_tx p)"

end
