(* ===== verification/Lifecycle_Laws.thy ===== *)
theory Lifecycle_Laws
  imports Lifecycle
begin

text \<open>
  What holds of every membership operation under every schedule of database faults: it is atomic, it
  keeps every invariant of the tables that the single statements keep (the locale \<open>table_inv\<close>, with the
  trivial invariant and the schema's as its instances), and so does every sequence of operations.
\<close>

section \<open>The contract of an invariant of the tables\<close>

locale table_inv =
  fixes I :: "tables \<Rightarrow> bool"
  assumes put_sub: "I t \<Longrightarrow> sub_unique (t_subs (put_sub s t)) \<Longrightarrow> I (put_sub s t)"
    and add_sub: "I t \<Longrightarrow> sub_unique (t_subs (add_sub s t)) \<Longrightarrow> I (add_sub s t)"
    and add_ent: "I t \<Longrightarrow> ent_unique (t_ents (add_ent e t)) \<Longrightarrow> I (add_ent e t)"
    and end_ents: "I t \<Longrightarrow> I (end_ents src i tm now r t)"
    and add_nq: "I t \<Longrightarrow> distinct (map nq_ID (t_notifs (add_nq n t))) \<Longrightarrow> I (add_nq n t)"
begin

lemmas statements =
  keeps_SubRepo_Create keeps_SubRepo_Update keeps_GrantWindow keeps_AppendEntitlementDays
  keeps_end_ents keeps_NQRepo_Create put_sub add_sub add_ent end_ents add_nq

lemma keeps_queue_notification: "(b \<Longrightarrow> h = Tx) \<Longrightarrow> keeps b I (queue_notification h u ev d)"
  unfolding queue_notification_def by (intro keeps_intros statements)

lemma keeps_end_entitlements: "keeps True I (end_entitlements i tm)"
  unfolding end_entitlements_def by (intro keeps_intros statements) simp_all

lemma keeps_dispatch: "keeps False I (dispatchNotifications nsvc ns)"
  unfolding dispatchNotifications_def by (intro keeps_intros)

lemma keeps_grant_for_sub: "(b \<Longrightarrow> h = Tx) \<Longrightarrow> keeps b I (grant_for_sub h u now i name)"
  unfolding grant_for_sub_def by (intro keeps_intros statements)

lemma keeps_createMembershipCore: "(b \<Longrightarrow> h = Tx) \<Longrightarrow> keeps b I (createMembershipCore h p)"
  unfolding createMembershipCore_def save_membership_def finish_membership_def grant_entitlements_def
  by (intro keeps_intros keeps_grant_for_sub keeps_queue_notification statements)

lemma keeps_renew_tx: "keeps True I (renew_tx p)"
  unfolding renew_tx_def by (intro keeps_intros keeps_queue_notification statements) simp_all

lemma keeps_cancel_lookup: "keeps b I (cancel_lookup p v)"
  unfolding cancel_lookup_def by (intro keeps_intros)

lemma keeps_cancel_tx: "keeps True I (cancel_tx p)"
  unfolding cancel_tx_def
  by (intro keeps_intros keeps_cancel_lookup keeps_queue_notification keeps_end_entitlements statements) simp_all

lemma keeps_expire_tx: "keeps True I (expire_tx i)"
  unfolding expire_tx_def
  by (intro keeps_intros keeps_queue_notification keeps_end_entitlements statements) simp_all

lemma keeps_fail_tx: "keeps True I (fail_tx p)"
  unfolding fail_tx_def
  by (intro keeps_intros keeps_queue_notification keeps_end_entitlements statements) simp_all

lemma keeps_tx_then_dispatch: "keeps True I m \<Longrightarrow> keeps False I (tx_then_dispatch nsvc m)"
  unfolding tx_then_dispatch_def by (intro keeps_intros keeps_dispatch)

lemma keeps_CreateMembership: "keeps False I (CreateMembership nsvc p)"
  unfolding CreateMembership_def by (intro keeps_intros keeps_dispatch keeps_createMembershipCore) simp

lemma keeps_RenewMembership: "keeps False I (RenewMembership nsvc p)"
  unfolding RenewMembership_def by (intro keeps_tx_then_dispatch keeps_renew_tx)

lemma keeps_CancelMembership: "keeps False I (CancelMembership nsvc p)"
  unfolding CancelMembership_def by (intro keeps_tx_then_dispatch keeps_cancel_tx)

lemma keeps_ExpireMembership: "keeps False I (ExpireMembership nsvc i)"
  unfolding ExpireMembership_def by (intro keeps_tx_then_dispatch keeps_expire_tx)

lemma keeps_FailMembership: "keeps False I (FailMembership nsvc p)"
  unfolding FailMembership_def by (intro keeps_tx_then_dispatch keeps_fail_tx)

end

interpretation anything: table_inv "\<lambda>_. True"
  by unfold_locales simp_all

interpretation schema: table_inv schema_ok
  by unfold_locales (simp_all add: schema_ok_def ent_unique_close)

section \<open>The operations as one step relation\<close>

text \<open>
  A call of the service, whatever its result. \<open>calls w w'\<close>: \<open>w'\<close> is reached from \<open>w\<close> by a sequence of
  calls, each on the world the previous one left.
\<close>

datatype lifecycle_call =
    CallCreate create_params
  | CallRenew renew_params
  | CallCancel cancel_params
  | CallExpire uuid
  | CallFail fail_params

definition forget :: "'a go \<Rightarrow> unit go" where
  "forget m = do { r \<leftarrow> m; (case r of Inl e \<Rightarrow> throw e | Inr _ \<Rightarrow> ok ()) }"

fun run_call :: "bool \<Rightarrow> lifecycle_call \<Rightarrow> unit go" where
  "run_call nsvc (CallCreate p) = forget (CreateMembership nsvc p)"
| "run_call nsvc (CallRenew p) = RenewMembership nsvc p"
| "run_call nsvc (CallCancel p) = CancelMembership nsvc p"
| "run_call nsvc (CallExpire i) = ExpireMembership nsvc i"
| "run_call nsvc (CallFail p) = FailMembership nsvc p"

inductive calls :: "bool \<Rightarrow> world \<Rightarrow> world \<Rightarrow> bool" for nsvc where
  calls_none: "calls nsvc w w"
| calls_step: "calls nsvc w w' \<Longrightarrow> run_state (run_call nsvc c) w' = (r, w'') \<Longrightarrow> calls nsvc w w''"

context table_inv
begin

lemma keeps_run_call: "keeps False I (run_call nsvc c)"
  by (cases c) (auto simp: forget_def intro!: keeps_intros keeps_CreateMembership keeps_RenewMembership
      keeps_CancelMembership keeps_ExpireMembership keeps_FailMembership)

lemma keeps_calls:
  assumes "calls nsvc w w'" "w_tx w = None" "I (w_db w)"
  shows "w_tx w' = None \<and> I (w_db w')"
  using assms
proof (induction rule: calls.induct)
  case (calls_step w w' c r w'')
  then have "sane False I d w'" for d
    by (simp add: sane_def)
  with keeps_run_call have "wp (run_call nsvc c) (\<lambda>_. sane False I undefined) w'"
    by (rule keepsD)
  then show ?case
    using calls_step.hyps wp_run by (fastforce simp: sane_def)
qed simp

end

section \<open>Failed operations\<close>

lemma wp_dispatch [wp_simps]:
  "wp (dispatchNotifications nsvc ns) Q w = Q () (w\<lparr>w_outbox := w_outbox w @ (if nsvc then ns else [])\<rparr>)"
proof -
  have "wp (for_all_do ns deliver_mail) Q w = Q () (w\<lparr>w_outbox := w_outbox w @ ns\<rparr>)"
    by (induction ns arbitrary: w) (simp_all add: wp_simps)
  then show ?thesis
    by (simp add: dispatchNotifications_def wp_simps)
qed

text \<open>An error is the transaction's: nothing was dispatched.\<close>

definition undone_on_error :: "world \<Rightarrow> 'a res \<Rightarrow> world \<Rightarrow> bool" where
  "undone_on_error w r w' \<longleftrightarrow>
     (case r of Inl _ \<Rightarrow> w_db w' = w_db w \<and> w_tx w' = None \<and> w_outbox w' = w_outbox w | Inr _ \<Rightarrow> True)"

lemma tx_then_dispatch_undone:
  assumes "tx_only m" "w_tx w = None"
  shows "wp (tx_then_dispatch nsvc m) (undone_on_error w) w"
  unfolding tx_then_dispatch_def wp_bind
  by (rule wp_mono[OF run_in_tx_atomic[OF assms]])
     (auto simp: wp_simps rolled_back_or_def undone_on_error_def wpI split: sum.split)

lemma CreateMembership_undone:
  assumes "w_tx w = None"
  shows "wp (CreateMembership nsvc p) (undone_on_error w) w"
  unfolding CreateMembership_def wp_bind
  by (rule wp_mono[OF run_in_tx_atomic[OF anything.keeps_createMembershipCore assms]])
     (auto simp: wp_simps rolled_back_or_def undone_on_error_def wpI split: sum.split)

lemma run_call_undone:
  assumes "w_tx w = None"
  shows "wp (run_call nsvc c) (undone_on_error w) w"
proof (cases c)
  case (CallCreate p)
  have "wp (forget (CreateMembership nsvc p)) (undone_on_error w) w"
    unfolding forget_def wp_bind
    by (rule wp_mono[OF CreateMembership_undone[OF assms]])
       (auto simp: wp_simps undone_on_error_def split: sum.split)
  then show ?thesis by (simp add: CallCreate)
qed (auto simp: RenewMembership_def CancelMembership_def ExpireMembership_def FailMembership_def
      intro!: tx_then_dispatch_undone assms anything.keeps_renew_tx anything.keeps_cancel_tx
        anything.keeps_expire_tx anything.keeps_fail_tx)

section \<open>Properties\<close>

text \<open>
  C2. A membership operation that returns an error, whichever of its statements failed and at
  whatever step, has committed nothing, has left no transaction open and has sent no email.
\<close>

theorem lifecycle_error_undone:
  assumes "w_tx w = None" "run_state (run_call nsvc c) w = (Inl e, w')"
  shows "w_db w' = w_db w \<and> w_tx w' = None \<and> w_outbox w' = w_outbox w"
  using wp_run[OF run_call_undone[OF assms(1)] assms(2)] by (simp add: undone_on_error_def)

text \<open>
  Every sequence of membership operations, under every schedule of database faults, keeps the
  primary keys and unique indexes of \<open>schema_ok\<close>; in particular a user never has two active
  subscriptions, nor two open windows for one entitlement.
\<close>

theorem lifecycle_keeps_schema:
  assumes "calls nsvc w w'" "w_tx w = None" "schema_ok (w_db w)"
  shows "schema_ok (w_db w') \<and>
    (\<forall>a \<in> set (t_subs (w_db w')). \<forall>b \<in> set (t_subs (w_db w')). sub_UserID a = sub_UserID b \<longrightarrow>
       sub_Status a = StatusActive \<longrightarrow> sub_Status b = StatusActive \<longrightarrow> a = b) \<and>
    (\<forall>a \<in> set (t_ents (w_db w')). \<forall>b \<in> set (t_ents (w_db w')). ent_UserID a = ent_UserID b \<longrightarrow>
       ent_Entitlement a = ent_Entitlement b \<longrightarrow> ent_open a \<longrightarrow> ent_open b \<longrightarrow> a = b)"
proof -
  have ok: "schema_ok (w_db w')"
    using schema.keeps_calls[OF assms] by simp
  then show ?thesis
    using sub_unique_active[of "t_subs (w_db w')"] ent_unique_open[of "t_ents (w_db w')"]
    by (auto simp: schema_ok_def)
qed

end
