(* ===== verification/Lifecycle_Effects.thy ===== *)
theory Lifecycle_Effects
  imports Lifecycle_Laws
begin

text \<open>
  What each membership operation does to the committed tables when no statement fails: the exact new
  row of the subscription, and who is entitled to what afterwards.
\<close>

section \<open>Rows that satisfy the indexes\<close>

lemma sub_unique_iff:
  "sub_unique rs \<longleftrightarrow> distinct (map sub_ID rs) \<and>
     (\<forall>a \<in> set rs. \<forall>b \<in> set rs. is_active_sub a \<longrightarrow> is_active_sub b \<longrightarrow> sub_UserID a = sub_UserID b \<longrightarrow> a = b)"
proof -
  have "distinct (map sub_ID rs) \<Longrightarrow> distinct (filter is_active_sub rs)"
    by (simp add: distinct_map)
  then show ?thesis
    by (auto simp: sub_unique_def distinct_map inj_on_def)
qed

definition other_active :: "tables \<Rightarrow> subscription \<Rightarrow> bool" where
  "other_active t s \<longleftrightarrow>
     (\<exists>x \<in> set (t_subs t). is_active_sub x \<and> sub_UserID x = sub_UserID s \<and> sub_ID x \<noteq> sub_ID s)"

lemma sub_unique_put:
  assumes "sub_unique (t_subs t)" "is_active_sub s \<Longrightarrow> \<not> other_active t s"
  shows "sub_unique (t_subs (put_sub s t))"
proof -
  have "distinct (map sub_ID (t_subs (put_sub s t)))"
    using assms(1) by (simp add: sub_unique_iff subs.keys_put)
  then show ?thesis
    using assms unfolding sub_unique_iff put_sub_subs
    by (auto simp: set_replace_row other_active_def dest: sym)
qed

lemma sub_unique_add:
  assumes "sub_unique (t_subs t)" "sub_ID s \<notin> sub_ID ` set (t_subs t)" "is_active_sub s \<Longrightarrow> \<not> other_active t s"
  shows "sub_unique (t_subs (add_sub s t))"
  using assms unfolding sub_unique_iff add_sub_subs
  by (auto simp: other_active_def image_iff dest: sym)

section \<open>Good worlds\<close>

text \<open>
  No transaction is open, the tables satisfy the schema, no statement is going to fail, and the
  identifiers drawn from now on are distinct and unused.
\<close>

definition used_ids :: "tables \<Rightarrow> uuid set" where
  "used_ids t = sub_ID ` set (t_subs t) \<union> ent_ID ` set (t_ents t) \<union> nq_ID ` set (t_notifs t)"

definition good :: "world \<Rightarrow> bool" where
  "good w \<longleftrightarrow> healthy w \<and> w_tx w = None \<and> schema_ok (w_db w) \<and> inj (env_uuid (w_env w)) \<and>
     (\<forall>n \<ge> w_pc w. env_uuid (w_env w) n \<notin> used_ids (w_db w))"

lemma goodD:
  assumes "good w"
  shows "healthy w" "w_tx w = None" "schema_ok (w_db w)" "sub_unique (t_subs (w_db w))"
    "ent_unique (t_ents (w_db w))" "distinct (map nq_ID (t_notifs (w_db w)))"
  using assms by (simp_all add: good_def schema_ok_def)

lemma good_tick: "good w \<Longrightarrow> good (tick w)"
  by (simp add: good_def)

lemma good_fresh:
  assumes "good w" "w_pc w \<le> n"
  shows "env_uuid (w_env w) n \<notin> nq_ID ` set (t_notifs (w_db w))"
    "env_uuid (w_env w) n \<notin> sub_ID ` set (t_subs (w_db w))" "env_uuid (w_env w) n \<notin> ent_ID ` set (t_ents (w_db w))"
  using assms by (auto simp: good_def used_ids_def)

section \<open>Executing the helpers in a healthy world\<close>

definition fresh_notif :: "world \<Rightarrow> string \<Rightarrow> notif_event \<Rightarrow> (string \<times> meta) list \<Rightarrow> notification" where
  "fresh_notif w u ev d = nq_default (clock_now (tick w)) (new_notification (env_uuid (w_env w) (w_pc w)) u ev d)"

lemma fresh_notif_simps [simp]:
  "nq_ID (fresh_notif w u ev d) = env_uuid (w_env w) (w_pc w)" "nq_UserID (fresh_notif w u ev d) = u"
  "nq_EventType (fresh_notif w u ev d) = ev" "nq_Data (fresh_notif w u ev d) = d"
  by (simp_all add: fresh_notif_def new_notification_def)

text \<open>
  A completed run: no transaction is left open, and the notification it queued has an identifier that
  was drawn during the run.
\<close>

definition ran :: "world \<Rightarrow> world \<Rightarrow> notification \<Rightarrow> bool" where
  "ran w w' n \<longleftrightarrow> w_tx w' = None \<and> \<not> w_aborted w' \<and> w_env w' = w_env w \<and>
     (\<exists>k. w_pc w \<le> k \<and> k < w_pc w' \<and> nq_ID n = env_uuid (w_env w) k)"

lemma ran_fresh:
  "w_tx w' = None \<Longrightarrow> \<not> w_aborted w' \<Longrightarrow> w_env w' = w_env w \<Longrightarrow> w_env x = w_env w \<Longrightarrow>
   w_pc w \<le> w_pc x \<Longrightarrow> w_pc x < w_pc w' \<Longrightarrow> ran w w' (fresh_notif x u ev d)"
  by (auto simp: ran_def)

lemma wp_queue_notification:
  assumes "healthy w" "env_uuid (w_env w) (w_pc w) \<notin> nq_ID ` set (t_notifs (view h w))"
    "distinct (map nq_ID (t_notifs (view h w)))"
  shows "wp (queue_notification h u ev d) Q w =
    Q [fresh_notif w u ev d] (db_write h (add_nq (fresh_notif w u ev d)) (tick (tick w)))"
  using assms unfolding queue_notification_def by (simp add: wp_simps fresh_notif_def new_notification_def)

lemma wp_end_entitlements:
  assumes "healthy w"
  shows "wp (end_entitlements i tm) Q w =
    Q () (db_write Tx (end_ents EntitlementSourceSubscription i tm (clock_now w) (Some EntitlementRevokeAdmin)) (tick (tick w)))"
  using assms unfolding end_entitlements_def by (simp add: wp_simps)

lemma wp_tx_then_dispatch:
  assumes "healthy w"
    and "wp m (\<lambda>r w'. healthy w' \<and> (case r of Inl e \<Rightarrow> Q (Inl e) (tx_close w')
      | Inr ns \<Rightarrow> Q (Inr ()) ((tx_commit (tick w'))\<lparr>w_outbox := w_outbox w' @ (if nsvc then ns else [])\<rparr>))) (tx_open w)"
  shows "wp (tx_then_dispatch nsvc m) Q w"
  unfolding tx_then_dispatch_def wp_bind wp_run_in_tx using assms(1)
  by (auto simp: wp_simps intro!: wp_mono[OF assms(2)] split: sum.split option.split)

section \<open>RenewMembership\<close>

lemma set_provider_simps [simp]:
  "sub_ID (set_provider v s) = sub_ID s" "sub_UserID (set_provider v s) = sub_UserID s"
  "sub_PriceID (set_provider v s) = sub_PriceID s" "sub_Status (set_provider v s) = sub_Status s"
  "sub_CurrentPeriodEndsAt (set_provider v s) = sub_CurrentPeriodEndsAt s"
  "sub_CurrentPeriodStartsAt (set_provider v s) = sub_CurrentPeriodStartsAt s"
  "sub_RetryAttempts (set_provider v s) = sub_RetryAttempts s" "sub_NextRetryAt (set_provider v s) = sub_NextRetryAt s"
  "sub_LastRetryAt (set_provider v s) = sub_LastRetryAt s" "sub_EndedAt (set_provider v s) = sub_EndedAt s"
  "sub_StartedAt (set_provider v s) = sub_StartedAt s" "sub_CancelledAt (set_provider v s) = sub_CancelledAt s"
  "sub_CancelType (set_provider v s) = sub_CancelType s"
  by (simp_all add: set_provider_def)

lemma set_time_Some: "set_time t \<Longrightarrow> t = Some (the t)"
  by (auto simp: set_time_def split: option.splits)

lemma sub_by_id_exists: "sub_by_id t i = Some s \<Longrightarrow> i \<in> sub_ID ` set (t_subs t)"
  by (drule sub_by_id_in) auto

lemma sub_by_psid_exists: "sub_by_psid t p v k = Some s \<Longrightarrow> sub_ID s \<in> sub_ID ` set (t_subs t)"
  by (drule sub_by_psid_in) auto

lemma renewed_sub_simps [simp]:
  "sub_ID (renewed_sub start d s) = sub_ID s" "sub_UserID (renewed_sub start d s) = sub_UserID s"
  by (simp_all add: renewed_sub_def)

lemma renew_run:
  assumes g: "good w"
    and look: "sub_by_psid (w_db w) (processor_str (rp_Processor p)) v (rp_ProcessorSubscriptionID p) = Some s"
    and v: "v = op_provider (rp_Processor p) (rp_ProcessorProvider p)"
    and pr: "price_by_id (w_db w) (sub_PriceID s) = Some pr" "price_BillingCycleDays pr = Some d"
    and one: "\<not> other_active (w_db w) s"
  shows "wp (RenewMembership nsvc p) (\<lambda>r w'. r = Inr () \<and>
     (\<exists>start n. w_db w' = add_nq n (put_sub (renewed_sub start d (set_provider v (with_details (w_db w) s))) (w_db w)) \<and>
        w_outbox w' = w_outbox w @ (if nsvc then [n] else []) \<and> ran w w' n \<and>
        nq_UserID n = sub_UserID s \<and> nq_EventType n = NotificationPremiumRenewed \<and>
        (if set_time (sub_CurrentPeriodEndsAt s) then sub_CurrentPeriodEndsAt s = Some start else reads w start))) w"
proof -
  have uni: "sub_unique (t_subs (put_sub (renewed_sub start d (set_provider v (with_details (w_db w) s))) (w_db w)))" for start
    by (rule sub_unique_put[OF goodD(4)[OF g]]) (use one in \<open>simp add: other_active_def\<close>)
  have mem: "sub_ID s \<in> sub_ID ` set (t_subs (w_db w))"
    by (rule sub_by_psid_exists[OF look])
  show ?thesis
    unfolding RenewMembership_def
    apply (rule wp_tx_then_dispatch)
     apply (simp add: goodD[OF g])
    apply (simp add: renew_tx_def wp_simps look v[symmetric] goodD[OF g] pr uni mem wp_queue_notification good_fresh[OF g])
    apply (intro conjI impI; intro exI conjI; ((rule refl)+)?; simp add: set_time_Some reads_clock ran_fresh)
    done
qed

section \<open>CancelMembership\<close>

text \<open>
  The subscription a cancellation finds: the one of the processor's details, when no identifier is given. With an
  identifier the lookup is refused, and so is every expiry.
\<close>

definition cancel_target :: "tables \<Rightarrow> cancel_params \<Rightarrow> string \<Rightarrow> subscription option" where
  "cancel_target t p v = (case kp_SubscriptionID p of
     Some i \<Rightarrow> None
   | None \<Rightarrow> (case (kp_ProcessorSubscriptionID p, kp_Processor p) of
       (Some k, Some proc) \<Rightarrow> sub_by_psid t (processor_str proc) v k | _ \<Rightarrow> None))"

lemma cancel_target_exists: "cancel_target t p v = Some s \<Longrightarrow> sub_ID s \<in> sub_ID ` set (t_subs t)"
  by (auto simp: cancel_target_def dest: sub_by_psid_exists split: option.splits)

lemma wp_cancel_lookup:
  assumes "healthy w" "cancel_target (view Tx w) p v = Some s"
  shows "wp (cancel_lookup p v) Q w = Q (Inr (with_details (view Tx w) s)) (tick w)"
  using assms unfolding cancel_lookup_def cancel_target_def
  by (auto simp: wp_simps split: option.splits)

lemma cancelled_sub_simps [simp]:
  "sub_ID (cancelled_sub p now s) = sub_ID s" "sub_UserID (cancelled_sub p now s) = sub_UserID s"
  "sub_Status (cancelled_sub p now s) = StatusCancelled" "sub_CancelledAt (cancelled_sub p now s) = Some now"
  "sub_CancelType (cancelled_sub p now s) = Some (kp_CancelType p)"
  "sub_RetryAttempts (cancelled_sub p now s) = sub_RetryAttempts s"
  by (simp_all add: cancelled_sub_def Let_def split: option.split)

definition ended_by :: "uuid \<Rightarrow> time option \<Rightarrow> time \<Rightarrow> tables \<Rightarrow> tables" where
  "ended_by i endAt now t = (case endAt of None \<Rightarrow> t
     | Some e \<Rightarrow> end_ents EntitlementSourceSubscription i e now (Some EntitlementRevokeAdmin) t)"

lemma cancel_run:
  assumes g: "good w" and look: "cancel_target (w_db w) p (cancel_provider p) = Some s"
  shows "wp (CancelMembership nsvc p) (\<lambda>r w'. r = Inr () \<and>
     (\<exists>now now2 n s1. w_db w' = add_nq n (ended_by (sub_ID s) (cancel_ends p now s1) now2 (put_sub s1 (w_db w))) \<and>
        w_outbox w' = w_outbox w @ (if nsvc then [n] else []) \<and> ran w w' n \<and>
        nq_UserID n = sub_UserID s \<and> nq_EventType n = NotificationPremiumEnded \<and>
        nq_Data n = reason_data (cancel_reason (kp_CancelType p)) \<and>
        s1 = cancelled_sub p now (set_provider (cancel_provider p) (with_details (w_db w) s)) \<and> reads w now)) w"
proof -
  define s1 where "s1 now = cancelled_sub p now (set_provider (cancel_provider p) (with_details (w_db w) s))" for now
  have s1: "sub_ID (s1 now) = sub_ID s" "sub_UserID (s1 now) = sub_UserID s" for now
    by (simp_all add: s1_def)
  have uni: "sub_unique (t_subs (put_sub (s1 now) (w_db w)))" for now
    by (rule sub_unique_put[OF goodD(4)[OF g]]) (simp add: is_active_sub_def s1_def)
  have mem: "sub_ID s \<in> sub_ID ` set (t_subs (w_db w))"
    by (rule cancel_target_exists[OF look])
  note run = cancel_tx_def wp_simps wp_cancel_lookup look goodD[OF g] s1_def[symmetric] s1 uni mem
    wp_queue_notification wp_end_entitlements good_fresh[OF g] ended_by_def reads_clock
  let ?now = "clock_now (tick (tx_open w))"
  show ?thesis
    unfolding CancelMembership_def s1_def[symmetric]
    apply (rule wp_tx_then_dispatch)
     apply (rule goodD[OF g])
    apply (cases "cancel_ends p ?now (s1 ?now)")
     apply (simp_all add: run)
     apply (intro conjI impI; rule exI[of _ ?now]; simp add: reads_clock ran_fresh; intro exI conjI; ((rule refl)+)?; simp add: ran_fresh)
    apply (intro conjI impI; rule exI[of _ ?now]; simp add: reads_clock ran_fresh; intro exI conjI; ((rule refl)+)?; simp add: ran_fresh)
    done
qed

section \<open>Lookups by identifier\<close>

text \<open>
  \<open>untouched w w'\<close>: the tables, the outgoing mail, the analytics events and the posted forms are those of \<open>w\<close>;
  \<open>unmoved w r w'\<close>: so they are, and the operation has returned an error, not a panic.
\<close>

definition untouched :: "world \<Rightarrow> world \<Rightarrow> bool" where
  "untouched w w' \<longleftrightarrow> w_db w' = w_db w \<and> w_outbox w' = w_outbox w \<and> w_log w' = w_log w \<and> w_sent w' = w_sent w"

definition unmoved :: "world \<Rightarrow> 'a res \<Rightarrow> world \<Rightarrow> bool" where
  "unmoved w r w' \<longleftrightarrow> (\<exists>e. r = Inl e \<and> \<not> is_panic e) \<and> untouched w w'"

lemma unmoved_simps [simp]:
  "unmoved w (Inl e) w' \<longleftrightarrow> \<not> is_panic e \<and> untouched w w'" "\<not> unmoved w (Inr x) w'"
  by (auto simp: unmoved_def)

lemma untouched_refl [simp]: "untouched w w"
  by (simp add: untouched_def)

lemma untouched_trans: "untouched w w1 \<Longrightarrow> untouched w1 w2 \<Longrightarrow> untouched w w2"
  by (simp add: untouched_def)

lemma untouched_ops [simp]:
  "untouched w (tick w') = untouched w w'" "untouched w (db_fail h w') = untouched w w'"
  "untouched w (tx_open w') = untouched w w'" "untouched w (tx_close w') = untouched w w'"
  "untouched (tick w) w' = untouched w w'" "untouched (db_fail h w) w' = untouched w w'"
  by (simp_all add: untouched_def)

lemma db_fault_no_panic [simp]: "db_fault h w = Some e \<Longrightarrow> \<not> is_panic e"
  by (drule db_fault_DbErr) auto

lemma refused_no_panic [simp]: "\<not> is_panic (case db_fault h w of None \<Rightarrow> DbErr m | Some e \<Rightarrow> e)"
  by (auto split: option.split)

lemma wrap_no_panic [simp]: "\<not> is_panic e \<Longrightarrow> \<not> is_panic (wrap_err m e)"
  by (simp add: wrap_err_def)

lemma run_refused: "wp m (unmoved w) w \<Longrightarrow> run_state m w = (r, w') \<Longrightarrow> unmoved w r w'"
  by (drule wp_run) auto

lemma cancel_by_id_refused: "kp_SubscriptionID p = Some i \<Longrightarrow> wp (CancelMembership nsvc p) (unmoved w) w"
  unfolding CancelMembership_def tx_then_dispatch_def cancel_tx_def cancel_lookup_def
  by (auto simp: wp_simps split: option.split)

lemma expire_refused: "wp (ExpireMembership nsvc i) (unmoved w) w"
  unfolding ExpireMembership_def tx_then_dispatch_def expire_tx_def
  by (auto simp: wp_simps split: option.split)

section \<open>FailMembership\<close>

definition fail_attempts :: "subscription \<Rightarrow> int" where
  "fail_attempts s = (case sub_RetryAttempts s of None \<Rightarrow> 1 | Some n \<Rightarrow> n + 1)"

lemma failed_sub_simps [simp]:
  "sub_ID (failed_sub now s) = sub_ID s" "sub_UserID (failed_sub now s) = sub_UserID s"
  "sub_RetryAttempts (failed_sub now s) = Some (fail_attempts s)" "sub_LastRetryAt (failed_sub now s) = Some now"
  "sub_Status (failed_sub now s) = (if fail_attempts s \<ge> MaxDunningFailures then StatusCancelled else StatusPastDue)"
  by (simp_all add: failed_sub_def fail_attempts_def Let_def split: option.split)

lemma fail_run:
  assumes g: "good w"
    and look: "sub_by_psid (w_db w) (processor_str (fp_Processor p)) v (fp_ProcessorSubscriptionID p) = Some s"
    and v: "v = op_provider (fp_Processor p) (fp_ProcessorProvider p)"
  shows "wp (FailMembership nsvc p) (\<lambda>r w'. r = Inr () \<and>
     (\<exists>now now2 n. w_db w' = add_nq n (ended_by (sub_ID s)
            (if fail_attempts s \<ge> MaxDunningFailures then Some now else None) now2
            (put_sub (failed_sub now (set_provider v (with_details (w_db w) s))) (w_db w))) \<and>
        w_outbox w' = w_outbox w @ (if nsvc then [n] else []) \<and> ran w w' n \<and>
        nq_UserID n = sub_UserID s \<and>
        nq_EventType n = (if fail_attempts s \<ge> MaxDunningFailures then NotificationPremiumEnded else NotificationPaymentMethodFailed) \<and>
        reads w now)) w"
proof -
  let ?s = "set_provider v (with_details (w_db w) s)"
  have att: "fail_attempts ?s = fail_attempts s"
    by (simp add: fail_attempts_def)
  have uni: "sub_unique (t_subs (put_sub (failed_sub now ?s) (w_db w)))" for now
    by (rule sub_unique_put[OF goodD(4)[OF g]]) (simp add: is_active_sub_def split: if_splits)
  have mem: "sub_ID s \<in> sub_ID ` set (t_subs (w_db w))"
    by (rule sub_by_psid_exists[OF look])
  show ?thesis
    unfolding FailMembership_def
    apply (rule wp_tx_then_dispatch)
     apply (rule goodD[OF g])
    apply (cases "fail_attempts s \<ge> MaxDunningFailures")
     apply (simp_all add: fail_tx_def wp_simps look v[symmetric] goodD[OF g] uni mem att
        wp_queue_notification wp_end_entitlements good_fresh[OF g] ended_by_def)
     apply (intro conjI impI; intro exI conjI; ((rule refl)+)?; simp add: reads_clock ran_fresh)
    apply (intro conjI impI; intro exI conjI; ((rule refl)+)?; simp add: reads_clock ran_fresh)
    done
qed

section \<open>CreateMembership\<close>

text \<open>What a step of the transaction leaves alone when it succeeds.\<close>

definition in_tx :: "world \<Rightarrow> bool" where
  "in_tx w \<longleftrightarrow> w_tx w \<noteq> None"

lemma in_tx_ops [simp]:
  "in_tx (tick w) = in_tx w" "in_tx w \<Longrightarrow> in_tx (db_write Tx u w)" "in_tx (tx_open w)"
  "in_tx w \<Longrightarrow> w_db (db_write Tx u w) = w_db w" "\<not> in_tx (tx_commit w)" "\<not> in_tx (tx_close w)"
  unfolding in_tx_def by (simp_all del: not_None_eq)

definition tx_step :: "world \<Rightarrow> world \<Rightarrow> bool" where
  "tx_step w w' \<longleftrightarrow> healthy w' \<and> in_tx w' \<and> w_db w' = w_db w \<and> w_env w' = w_env w \<and>
     w_pc w \<le> w_pc w' \<and> w_outbox w' = w_outbox w"

lemma tx_step_trans: "tx_step w w' \<Longrightarrow> tx_step w' w'' \<Longrightarrow> tx_step w w''"
  by (auto simp: tx_step_def)

definition granted :: "string \<Rightarrow> time \<Rightarrow> uuid \<Rightarrow> string \<Rightarrow> tables \<Rightarrow> tables \<Rightarrow> bool" where
  "granted u now i name t t' \<longleftrightarrow>
     (if exists_by_source t EntitlementSourceSubscription i name then t' = t
      else (\<forall>tm \<ge> now. entitled t' u name tm) \<and>
        (\<exists>e. t' = add_ent e t \<and> ent_UserID e = u \<and> ent_Entitlement e = name))"

lemma wp_GrantWindow:
  assumes "healthy w"
  shows "wp (GrantWindow Tx u name start None src i) Q w =
    (let e = \<lparr>ent_ID = env_uuid (w_env w) (w_pc w), ent_UserID = u, ent_Entitlement = name, ent_StartAt = start,
          ent_EndAt = None, ent_SourceID = i, ent_SourceType = src, ent_RevokedAt = None, ent_RevokeReason = None,
          ent_CreatedAt = clock_now (tick w), ent_UpdatedAt = clock_now (tick (tick w)), ent_DeletedAt = None\<rparr>;
         w3 = tick (tick (tick w))
     in if ent_unique (t_ents (add_ent e (view Tx w))) then Q (Inr e) (db_write Tx (add_ent e) (tick w3))
        else Q (Inl (DbErr duplicate_key)) (db_fail Tx (tick w3)))"
  using assms unfolding GrantWindow_def by (simp add: wp_simps Let_def)

lemma granted_start:
  assumes "\<not> exists_by_source t EntitlementSourceSubscription i name"
    and "e = \<lparr>ent_ID = x, ent_UserID = u, ent_Entitlement = name, ent_StartAt = start, ent_EndAt = None,
           ent_SourceID = si, ent_SourceType = src, ent_RevokedAt = None, ent_RevokeReason = None,
           ent_CreatedAt = c, ent_UpdatedAt = m, ent_DeletedAt = None\<rparr>"
    and "start = (case latest_finite t u name now of None \<Rightarrow> now | Some f \<Rightarrow> (case ent_EndAt f of Some z \<Rightarrow> z | None \<Rightarrow> now))"
  shows "granted u now i name t (add_ent e t)"
proof -
  have "entitled (add_ent e t) u name tm" if "now \<le> tm" for tm
  proof (cases "start \<le> tm")
    case True
    then show ?thesis
      by (simp add: entitled_add_ent assms(2) ent_of_def covers_def)
  next
    case False
    with that assms(3) obtain f z where f: "latest_finite t u name now = Some f" "ent_EndAt f = Some z" "start = z"
      by (auto split: option.splits)
    with latest_finite_in[OF f(1)] False that have "entitled t u name tm"
      by (auto simp: entitled_def covers_def intro!: bexI[of _ f])
    then show ?thesis
      by (simp add: entitled_add_ent)
  qed
  then show ?thesis
    using assms(1,2) by (auto simp: granted_def)
qed

lemma wp_grant_for_sub:
  assumes "healthy w" "in_tx w"
  shows "wp (grant_for_sub Tx u now i name)
    (\<lambda>r w'. r = Inr () \<longrightarrow> tx_step w w' \<and> granted u now i name (view Tx w) (view Tx w')) w"
proof (cases "exists_by_source (view Tx w) EntitlementSourceSubscription i name")
  case True
  then show ?thesis
    using assms by (auto simp: grant_for_sub_def wp_simps granted_def tx_step_def)
next
  case False
  note sim = grant_for_sub_def wp_simps wp_GrantWindow Let_def granted_start[OF False refl] assms False
  show ?thesis
    using assms(2) by (cases "latest_finite (view Tx w) u name now") (auto simp: sim tx_step_def)
qed

text \<open>
  The loop over the entitlement names: the names of the product are the keys of a map, but the lemma
  holds of every list.
\<close>

lemma entitled_add_mono: "entitled t u name tm \<Longrightarrow> entitled (add_ent e t) u name tm"
  by (simp add: entitled_add_ent)

definition all_granted :: "string \<Rightarrow> time \<Rightarrow> uuid \<Rightarrow> string list \<Rightarrow> tables \<Rightarrow> tables \<Rightarrow> bool" where
  "all_granted u now i names t t' \<longleftrightarrow>
     (\<exists>es. t' = t\<lparr>t_ents := t_ents t @ es\<rparr> \<and> (\<forall>e \<in> set es. ent_UserID e = u \<and> ent_Entitlement e \<in> set names)) \<and>
     (\<forall>name \<in> set names. \<not> exists_by_source t EntitlementSourceSubscription i name \<longrightarrow>
        (\<forall>tm \<ge> now. entitled t' u name tm))"

lemma all_granted_Cons:
  assumes "granted u now i x t t'" "all_granted u now i xs t' t''"
  shows "all_granted u now i (x # xs) t t''"
proof -
  obtain es where es: "t'' = t'\<lparr>t_ents := t_ents t' @ es\<rparr>" "\<forall>e \<in> set es. ent_UserID e = u \<and> ent_Entitlement e \<in> set xs"
    using assms(2) by (auto simp: all_granted_def)
  have mono: "entitled t' v n tm \<Longrightarrow> entitled t'' v n tm" for v n tm
    by (auto simp: entitled_def es(1))
  show ?thesis
  proof (cases "exists_by_source t EntitlementSourceSubscription i x")
    case True
    then have "t' = t"
      using assms(1) by (simp add: granted_def)
    then show ?thesis
      using assms(2) True by (fastforce simp: all_granted_def)
  next
    case False
    then obtain e where e: "t' = add_ent e t" "ent_UserID e = u" "ent_Entitlement e = x"
      and now: "\<And>tm. now \<le> tm \<Longrightarrow> entitled t' u x tm"
      using assms(1) by (auto simp: granted_def)
    have "t'' = t\<lparr>t_ents := t_ents t @ (stored_ent e # es)\<rparr>"
      by (simp add: es(1) e(1) add_ent_def)
    moreover have "exists_by_source t' EntitlementSourceSubscription i n = exists_by_source t EntitlementSourceSubscription i n"
      if "n \<noteq> x" for n
      using that by (auto simp: exists_by_source_def e add_ent_ents)
    ultimately show ?thesis
      using assms(2) es(2) e now mono unfolding all_granted_def
      by (intro conjI exI[of _ "stored_ent e # es"]) (auto, metis)
  qed
qed

lemma wp_grant_loop:
  assumes "healthy w" "in_tx w"
  shows "wp (for_each names (grant_for_sub Tx u now i))
    (\<lambda>r w'. r = Inr () \<longrightarrow> tx_step w w' \<and> all_granted u now i names (view Tx w) (view Tx w')) w"
  using assms
proof (induction names arbitrary: w)
  case Nil
  then show ?case
    by (auto simp: wp_simps tx_step_def all_granted_def)
next
  case (Cons x xs)
  have step: "wp (for_each xs (grant_for_sub Tx u now i)) (\<lambda>r w''. r = Inr () \<longrightarrow>
      tx_step w w'' \<and> all_granted u now i (x # xs) (view Tx w) (view Tx w'')) w'"
    if "tx_step w w'" "granted u now i x (view Tx w) (view Tx w')" for w'
    by (rule wp_mono[OF Cons.IH]) (use that in \<open>auto simp: tx_step_def intro: all_granted_Cons\<close>)
  show ?case
    unfolding for_each.simps wp_bind
    by (rule wp_mono[OF wp_grant_for_sub[OF Cons.prems]]) (auto simp: wp_simps step split: sum.split)
qed

text \<open>The row saved: the latest subscription of the user reactivated, or a new one.\<close>

definition saved :: "create_params \<Rightarrow> price \<Rightarrow> time \<Rightarrow> subscription \<Rightarrow> tables \<Rightarrow> tables \<Rightarrow> bool" where
  "saved p pr now s t t' \<longleftrightarrow>
     sub_by_id t' (sub_ID s) = Some (stored_sub s) \<and> (\<forall>i. i \<noteq> sub_ID s \<longrightarrow> sub_by_id t' i = sub_by_id t i) \<and>
     t_ents t' = t_ents t \<and> t_notifs t' = t_notifs t \<and> t_products t' = t_products t \<and>
     sub_Status s = StatusActive \<and> sub_UserID s = cp_UserID p \<and> sub_PriceID s = price_ID pr \<and>
     sub_Processor s = cp_Processor p \<and> sub_StartedAt s = now \<and>
     sub_CurrentPeriodStartsAt s = Some now \<and> sub_CurrentPeriodEndsAt s = Some (create_period_end pr now) \<and>
     sub_EndedAt s = None"

lemma reactivated_sub_simps [simp]:
  "sub_ID (reactivated_sub p pr now s) = sub_ID s" "sub_UserID (reactivated_sub p pr now s) = sub_UserID s"
  "sub_Status (reactivated_sub p pr now s) = StatusActive" "sub_PriceID (reactivated_sub p pr now s) = price_ID pr"
  "sub_Processor (reactivated_sub p pr now s) = cp_Processor p" "sub_StartedAt (reactivated_sub p pr now s) = now"
  "sub_CurrentPeriodStartsAt (reactivated_sub p pr now s) = Some now" "sub_EndedAt (reactivated_sub p pr now s) = None"
  "sub_CurrentPeriodEndsAt (reactivated_sub p pr now s) = Some (create_period_end pr now)"
  "sub_RetryAttempts (reactivated_sub p pr now s) = sub_RetryAttempts s"
  by (auto simp: reactivated_sub_def set_provider_def Let_def split: option.split)

lemma new_sub_simps [simp]:
  "sub_ID (new_sub p pr now i) = i" "sub_UserID (new_sub p pr now i) = cp_UserID p"
  "sub_Status (new_sub p pr now i) = StatusActive" "sub_PriceID (new_sub p pr now i) = price_ID pr"
  "sub_Processor (new_sub p pr now i) = cp_Processor p" "sub_StartedAt (new_sub p pr now i) = now"
  "sub_CurrentPeriodStartsAt (new_sub p pr now i) = Some now" "sub_EndedAt (new_sub p pr now i) = None"
  "sub_CurrentPeriodEndsAt (new_sub p pr now i) = Some (create_period_end pr now)"
  by (simp_all add: new_sub_def set_provider_def)

lemma saved_put:
  assumes "sub_UserID old = cp_UserID p" "sub_ID old \<in> sub_ID ` set (t_subs t)"
  shows "saved p pr now (reactivated_sub p pr now old) t (put_sub (reactivated_sub p pr now old) t)"
  using assms by (auto simp: saved_def sub_by_id_put)

lemma saved_add:
  assumes "sub_unique (t_subs (add_sub s t))" "s = default_times c (new_sub p pr now i)"
  shows "saved p pr now s t (add_sub s t)"
proof -
  have "distinct (map sub_ID (t_subs (add_sub s t)))"
    using assms(1) by (simp add: sub_unique_def)
  then have "sub_by_id (add_sub s t) (sub_ID (stored_sub s)) = Some (stored_sub s)"
    by (rule sub_by_id_unique) (simp add: add_sub_subs)
  then show ?thesis
    using assms(2) by (auto simp: saved_def sub_by_id_add split: option.split)
qed

lemma wp_save_membership:
  assumes "healthy w" "in_tx w" "\<And>old. existing = Inr old \<Longrightarrow> sub_UserID old = cp_UserID p"
  shows "wp (save_membership Tx p pr now existing)
    (\<lambda>r w'. \<forall>s. r = Inr s \<longrightarrow> tx_step w w' \<and> saved p pr now s (view Tx w) (view Tx w')) w"
proof (cases existing)
  case (Inr old)
  then show ?thesis
    using assms by (auto simp: save_membership_def wp_simps Let_def saved_put tx_step_def)
next
  case (Inl e)
  then show ?thesis
    using assms(1,2) by (auto simp: save_membership_def wp_simps Let_def tx_step_def intro: saved_add)
qed

definition created :: "create_params \<Rightarrow> time \<Rightarrow> tables \<Rightarrow> subscription \<Rightarrow> tables \<Rightarrow> bool" where
  "created p now t s t' \<longleftrightarrow>
     (\<exists>pr pd t1 t2 n. price_by_id t (cp_PriceID p) = Some pr \<and> product_by_id t (price_ProductID pr) = Some pd \<and>
        saved p pr now s t t1 \<and> all_granted (cp_UserID p) now (sub_ID s) (ent_names pd) t1 t2 \<and>
        t' = add_nq n t2 \<and> nq_UserID n = cp_UserID p \<and> nq_EventType n = NotificationPremiumStarted)"

lemma createdI:
  "price_by_id t (cp_PriceID p) = Some pr \<Longrightarrow> product_by_id t (price_ProductID pr) = Some pd \<Longrightarrow>
   saved p pr now s t t1 \<Longrightarrow> all_granted (cp_UserID p) now (sub_ID s) (ent_names pd) t1 t2 \<Longrightarrow>
   nq_UserID n = cp_UserID p \<Longrightarrow> nq_EventType n = NotificationPremiumStarted \<Longrightarrow> created p now t s (add_nq n t2)"
  unfolding created_def by blast

lemma wp_grant_entitlements:
  assumes "healthy w" "in_tx w"
  shows "wp (grant_entitlements Tx p pr now s) (\<lambda>r w'. r = Inr () \<longrightarrow> tx_step w w' \<and>
     (\<exists>pd. product_by_id (view Tx w) (price_ProductID pr) = Some pd \<and>
        all_granted (cp_UserID p) now (sub_ID s) (ent_names pd) (view Tx w) (view Tx w'))) w"
proof (cases "product_by_id (view Tx w) (price_ProductID pr)")
  case None
  then show ?thesis
    using assms by (simp add: grant_entitlements_def wp_simps)
next
  case (Some pd)
  have "wp (for_each (ent_names pd) (grant_for_sub Tx (cp_UserID p) now (sub_ID s)))
    (\<lambda>r w'. r = Inr () \<longrightarrow> tx_step (tick w) w' \<and>
       all_granted (cp_UserID p) now (sub_ID s) (ent_names pd) (view Tx (tick w)) (view Tx w')) (tick w)"
    by (rule wp_grant_loop) (use assms in simp_all)
  then show ?thesis
    using assms Some by (auto simp: grant_entitlements_def wp_simps tx_step_def elim!: wp_mono)
qed

lemma wp_create_finish:
  assumes g: "good w0" and w: "tx_step w0 w" "reads w0 now"
    and pr: "price_by_id (w_db w0) (cp_PriceID p) = Some pr"
    and s: "saved p pr now s (w_db w0) (view Tx w)"
  shows "wp (finish_membership Tx p pr now s)
    (\<lambda>r w'. \<forall>s ns. r = Inr (s, ns) \<longrightarrow> tx_step w0 w' \<and> (\<exists>now. reads w0 now \<and> created p now (w_db w0) s (view Tx w'))) w"
proof -
  have h: "healthy w" "in_tx w" "w_env w = w_env w0"
    using w(1) by (simp_all add: tx_step_def)
  have prod: "product_by_id (view Tx w) i = product_by_id (w_db w0) i" for i
    using s by (simp add: saved_def product_by_id_def)
  have notify: "wp (queue_notification Tx (cp_UserID p) NotificationPremiumStarted [])
      (\<lambda>ns w'. tx_step w0 w' \<and> (\<exists>now. reads w0 now \<and> created p now (w_db w0) s (view Tx w'))) w2"
    if "tx_step w w2" "product_by_id (w_db w0) (price_ProductID pr) = Some pd"
      "all_granted (cp_UserID p) now (sub_ID s) (ent_names pd) (view Tx w) (view Tx w2)" for w2 pd
  proof -
    have step: "tx_step w0 w2"
      by (rule tx_step_trans[OF w(1) that(1)])
    have n: "t_notifs (view Tx w2) = t_notifs (w_db w0)"
      using s that(3) by (auto simp: saved_def all_granted_def)
    have fresh: "env_uuid (w_env w2) (w_pc w2) \<notin> nq_ID ` set (t_notifs (w_db w0))"
      using step good_fresh(1)[OF g, of "w_pc w2"] by (simp add: tx_step_def)
    show ?thesis
      using step fresh n goodD(6)[OF g] w(2) createdI[OF pr that(2) s that(3)]
      by (auto simp: wp_queue_notification tx_step_def intro!: exI[of _ now])
  qed
  show ?thesis
    unfolding finish_membership_def wp_bind
    by (rule wp_mono[OF wp_grant_entitlements[OF h(1,2)]])
       (auto simp: wp_simps prod notify intro!: wp_mono[OF notify] split: sum.split)
qed

lemma wp_createMembershipCore:
  assumes g: "good w0" and w: "tx_step w0 w" "view Tx w = w_db w0"
  shows "wp (createMembershipCore Tx p)
    (\<lambda>r w'. \<forall>s ns. r = Inr (s, ns) \<longrightarrow> tx_step w0 w' \<and> (\<exists>now. reads w0 now \<and> created p now (w_db w0) s (view Tx w'))) w"
proof (cases "price_by_id (w_db w0) (cp_PriceID p)")
  case None
  then show ?thesis
    using w by (simp add: createMembershipCore_def wp_simps tx_step_def)
next
  case (Some pr)
  let ?old = "scan_row (map_option (with_details (w_db w0)) (latest_by_user (w_db w0) (cp_UserID p)))"
  let ?now = "clock_now (tick (tick w))" and ?w = "tick (tick (tick w))"
  have h: "healthy ?w" "in_tx ?w" "healthy w" "reads w0 ?now"
    using w(1) by (auto simp: tx_step_def intro!: reads_clock)
  have user: "sub_UserID old = cp_UserID p" if "?old = Inr old" for old
    using that by (auto dest: latest_by_user_in)
  have "wp (save_membership Tx p pr ?now ?old) (\<lambda>m w'. \<forall>s. m = Inr s \<longrightarrow> tx_step w0 w' \<and> saved p pr ?now s (w_db w0) (view Tx w')) ?w"
    by (rule wp_mono[OF wp_save_membership[OF h(1,2) user]]) (use w in \<open>auto simp: tx_step_def\<close>)
  note saved = this
  show ?thesis
    using w(2) Some h(3)
    apply (simp add: createMembershipCore_def wp_simps)
    apply (intro impI; rule wp_mono[OF saved])
    apply (auto simp: wp_simps intro!: wp_mono[OF wp_create_finish[OF g _ h(4) Some]] split: sum.split)
    done
qed

lemma create_run:
  assumes g: "good w"
  shows "wp (CreateMembership nsvc p) (\<lambda>r w'. \<forall>s. r = Inr s \<longrightarrow> w_tx w' = None \<and>
     (\<exists>now. reads w now \<and> created p now (w_db w) s (w_db w'))) w"
proof -
  have "tx_step w (tx_open w)"
    using goodD(1)[OF g] by (simp add: tx_step_def)
  then have "wp (createMembershipCore Tx p) (\<lambda>r w'. \<forall>s ns. r = Inr (s, ns) \<longrightarrow>
      tx_step w w' \<and> (\<exists>now. reads w now \<and> created p now (w_db w) s (view Tx w'))) (tx_open w)"
    by (rule wp_createMembershipCore[OF g]) simp
  then show ?thesis
    using goodD(1)[OF g] unfolding CreateMembership_def
    by (auto simp: wp_simps tx_step_def elim!: wp_mono split: sum.split prod.split)
qed

end
