(* ===== verification/Samples.thy ===== *)
theory Samples
  imports Lifecycle_Effects
begin

text \<open>Concrete tables and worlds on which the hypotheses of the properties are shown to hold.\<close>

definition sample_price :: price where
  "sample_price = \<lparr>price_ID = 10, price_ProductID = 20, price_DisplayName = ''Monthly'', price_IsActive = True,
     price_Amount = 10, price_Currency = ''USD'', price_BillingCycleDays = Some 30, price_NMIPlanID = Some ''plan'',
     price_NMIProvider = Some ''mobius'', price_CCBillPriceID = Some ''cc-1'', price_CreatedAt = 1, price_UpdatedAt = 1\<rparr>"

definition sample_product :: product where
  "sample_product = \<lparr>prod_ID = 20, prod_Slug = ''premium'', prod_DisplayName = ''Premium'', prod_Description = '''',
     prod_EntitlementsSpec = [(''premium'', None), (''downloads'', None)], prod_IsActive = True,
     prod_CreatedAt = 1, prod_UpdatedAt = 1\<rparr>"

definition sample_sub :: subscription where
  "sample_sub = \<lparr>sub_ID = 1, sub_UserID = ''alice'', sub_PriceID = 10, sub_Status = StatusActive,
     sub_StartedAt = 1, sub_EndedAt = None, sub_CurrentPeriodStartsAt = Some 1, sub_CurrentPeriodEndsAt = Some 5000,
     sub_Processor = ProcessorNMI, sub_ProcessorProvider = Some ''mobius'', sub_ProcessorSubscriptionID = ''psid'',
     sub_UserEmail = None, sub_PaymentMethodID = None, sub_LastRetryAt = None, sub_RetryAttempts = None,
     sub_NextRetryAt = None, sub_CancelFeedback = None, sub_CancelType = None, sub_CancelledAt = None,
     sub_Price = None, sub_PaymentMethod = None, sub_Metadata = None, sub_CreatedAt = 1, sub_UpdatedAt = 1\<rparr>"

definition sample_ent :: entitlement where
  "sample_ent = \<lparr>ent_ID = 2, ent_UserID = ''alice'', ent_Entitlement = ''premium'', ent_StartAt = 1, ent_EndAt = None,
     ent_SourceID = Some 1, ent_SourceType = EntitlementSourceSubscription, ent_RevokedAt = None,
     ent_RevokeReason = None, ent_CreatedAt = 1, ent_UpdatedAt = 1, ent_DeletedAt = None\<rparr>"

definition sample_tables :: tables where
  "sample_tables = \<lparr>t_subs = [sample_sub], t_ents = [sample_ent], t_notifs = [], t_prices = [sample_price],
     t_products = [sample_product], t_payments = [], t_pms = [], t_idems = [], t_events = [], t_aliases = [],
     t_intents = [], t_wallets = [], t_challenges = [], t_soltxs = []\<rparr>"

definition sample_env :: env where
  "sample_env = \<lparr>env_fault = (\<lambda>_. None), env_clock = (\<lambda>n. 1000 + int n), env_uuid = (\<lambda>n. 100 + n),
     env_commit_aborted = None, env_http = (\<lambda>_ _ _. HttpRefused ''no gateway'')\<rparr>"

definition sample_world :: world where
  "sample_world = \<lparr>w_db = sample_tables, w_tx = None, w_aborted = False, w_pc = 0, w_env = sample_env,
     w_log = [], w_outbox = [], w_sent = []\<rparr>"

text \<open>The same world in which the third step, a statement of the transaction, fails.\<close>

definition faulty_world :: world where
  "faulty_world = sample_world\<lparr>w_env := sample_env\<lparr>env_fault := (\<lambda>n. if n = 3 then Some ''connection reset'' else None)\<rparr>\<rparr>"

text \<open>A world without subscriptions.\<close>

definition empty_world :: world where
  "empty_world = sample_world\<lparr>w_db := sample_tables\<lparr>t_subs := [], t_ents := []\<rparr>\<rparr>"

named_theorems sample_defs \<open>the sample rows\<close>

lemmas sample_rows [sample_defs] = sample_price_def sample_product_def sample_sub_def sample_ent_def sample_tables_def

lemma sample_schema: "schema_ok sample_tables"
  by (simp add: sample_defs schema_ok_def sub_unique_def ent_unique_def pay_unique_def idem_unique_def)

lemma good_sample: "good sample_world"
  using sample_schema
  by (simp add: good_def healthy_def sample_world_def sample_env_def used_ids_def inj_def)
     (simp add: sample_defs)

lemma good_empty: "good empty_world"
  using sample_schema
  by (simp add: good_def healthy_def sample_world_def sample_env_def used_ids_def inj_def empty_world_def schema_ok_def
      sub_unique_def ent_unique_def sample_tables_def)

lemma sample_lookup [simp]:
  "sub_by_id (w_db sample_world) 1 = Some sample_sub" "sub_by_id (w_db sample_world) (Suc 0) = Some sample_sub"
  "sub_by_psid (w_db sample_world) ''nmi'' ''mobius'' ''psid'' = Some sample_sub"
  "price_by_id (w_db sample_world) 10 = Some sample_price" "product_by_id (w_db sample_world) 20 = Some sample_product"
  "price_BillingCycleDays sample_price = Some 30" "sub_PriceID sample_sub = 10" "sub_ID sample_sub = 1"
  by (simp_all add: sample_world_def sample_defs sub_by_id_def sub_by_psid_def price_by_id_def product_by_id_def
      match_processor_sub_def norm_provider_def provider_matches_def equal_fold_def to_lower_def lower_char_def Let_def
      trim_space_def is_space_def)

end
