(* ===== verification/Lifecycle_Props.thy ===== *)
theory Lifecycle_Props
  imports Samples
begin

text \<open>The properties of the membership operations, each with a run on concrete tables.\<close>

section \<open>Rows and access after the statements of an operation\<close>

lemma entitled_nq [row_simps]: "entitled (add_nq n t) u name tm = entitled t u name tm"
  by (simp add: entitled_def)

lemma entitled_ended_by [row_simps]:
  "entitled (ended_by i endAt now t) u name tm \<longleftrightarrow>
     (\<exists>e \<in> set (t_ents t). ent_of u name e \<and> covers tm e \<and> ent_RevokedAt e = None \<and>
        (endAt \<noteq> None \<longrightarrow> \<not> open_by EntitlementSourceSubscription i e))"
proof (cases endAt)
  case None
  then show ?thesis by (simp add: ended_by_def entitled_def)
next
  case (Some a)
  then show ?thesis by (simp add: ended_by_def entitled_end_ents del: end_ents_tables)
qed

lemma sub_by_id_ended [row_simps]: "sub_by_id (ended_by i endAt now t) j = sub_by_id t j"
  by (simp add: ended_by_def sub_by_id_def split: option.split)

lemma open_by_close [simp]: "\<not> open_by src i (close_ent tm now r e)"
  by (simp add: open_by_def)

lemma open_by_ended: "e \<in> set (t_ents (ended_by i (Some tm) now t)) \<Longrightarrow> \<not> open_by EntitlementSourceSubscription i e"
  by (auto simp: ended_by_def set_update_where split: if_splits) (metis open_by_close)

text \<open>An operation that puts one row leaves the others alone.\<close>

lemma sub_by_id_after:
  assumes "t' = add_nq n (ended_by i endAt now (put_sub s1 t))" "sub_ID s1 \<in> sub_ID ` set (t_subs t)"
  shows "sub_by_id t' (sub_ID s1) = Some (stored_sub s1)" "j \<noteq> sub_ID s1 \<Longrightarrow> sub_by_id t' j = sub_by_id t j"
  using assms(2) by (simp_all add: assms(1) row_simps)

lemma runs: "wp m Q w \<Longrightarrow> run_state m w = (r, w') \<Longrightarrow> Q r w'"
  by (rule wp_run)

section \<open>Creation\<close>

lemma create_effect:
  assumes "good w" "run_state (CreateMembership nsvc p) w = (Inr s, w')"
  shows "\<exists>pr pd. price_by_id (w_db w) (cp_PriceID p) = Some pr \<and> product_by_id (w_db w) (price_ProductID pr) = Some pd \<and>
    reads w (sub_StartedAt s) \<and> sub_by_id (w_db w') (sub_ID s) = Some (stored_sub s) \<and>
    sub_Status s = StatusActive \<and> sub_UserID s = cp_UserID p \<and> sub_PriceID s = price_ID pr \<and>
    (case price_BillingCycleDays pr of
       Some d \<Rightarrow> 0 < d \<and> d \<le> 106751 \<longrightarrow> sub_CurrentPeriodEndsAt s = Some (sub_StartedAt s + d * day_ns)
     | None \<Rightarrow> sub_CurrentPeriodEndsAt s = Some (sub_StartedAt s + 30 * day_ns)) \<and>
    (\<forall>i. i \<noteq> sub_ID s \<longrightarrow> sub_by_id (w_db w') i = sub_by_id (w_db w) i) \<and>
    (\<forall>name \<in> set (ent_names pd). \<not> exists_by_source (w_db w) EntitlementSourceSubscription (sub_ID s) name \<longrightarrow>
       (\<forall>tm \<ge> sub_StartedAt s. entitled (w_db w') (cp_UserID p) name tm)) \<and>
    (\<forall>u name tm. u \<noteq> cp_UserID p \<longrightarrow> entitled (w_db w') u name tm = entitled (w_db w) u name tm)"
proof -
  obtain now where now: "reads w now" "created p now (w_db w) s (w_db w')"
    using runs[OF create_run[OF assms(1)] assms(2)] by blast
  obtain pr pd t1 t2 n where c: "price_by_id (w_db w) (cp_PriceID p) = Some pr"
      "product_by_id (w_db w) (price_ProductID pr) = Some pd" "saved p pr now s (w_db w) t1"
      "all_granted (cp_UserID p) now (sub_ID s) (ent_names pd) t1 t2" "w_db w' = add_nq n t2"
    using now(2) by (auto simp: created_def)
  have ends: "create_period_end pr now = now + 30 * day_ns" if "price_BillingCycleDays pr = None"
    using that time_add_days[of 30 now] by (simp add: create_period_end_def days_dur_30)
  have ents: "exists_by_source t1 src i name = exists_by_source (w_db w) src i name"
      "entitled t1 u name tm = entitled (w_db w) u name tm" for src i u name tm
    using c(3) by (simp_all add: saved_def exists_by_source_def entitled_def)
  obtain es where t2: "t2 = t1\<lparr>t_ents := t_ents t1 @ es\<rparr>" "\<forall>e \<in> set es. ent_UserID e = cp_UserID p"
    using c(4) by (auto simp: all_granted_def)
  have rows: "sub_by_id (w_db w') i = sub_by_id t1 i" for i
    by (simp add: c(5) t2(1) row_simps) (simp add: sub_by_id_def)
  have other: "entitled (w_db w') u name tm = entitled (w_db w) u name tm" if "u \<noteq> cp_UserID p" for u name tm
    unfolding ents(2)[symmetric] c(5) entitled_nq using that t2 by (auto simp: entitled_def ent_of_def)
  have access: "entitled (w_db w') (cp_UserID p) name tm"
    if "name \<in> set (ent_names pd)" "\<not> exists_by_source (w_db w) EntitlementSourceSubscription (sub_ID s) name" "now \<le> tm"
    for name tm
    using c(4,5) that by (simp add: all_granted_def ents entitled_nq)
  show ?thesis
    using c(1,2,3) now(1) ends rows other access
    by (intro exI[of _ pr] exI[of _ pd])
       (auto simp: saved_def create_period_end_def time_add_days split: option.split)
qed

text \<open>
  C7. When no statement fails, a membership that is created is stored as returned: active for the
  user, with a period that starts at the creation and lasts the price's billing cycle (30 days when it
  has none). Every other subscription row is untouched. The user is entitled to every entitlement of
  the product at every instant from the creation on, without a gap: a finite window that is running is
  followed by the new open one. No other user's access changes.
\<close>

theorem create_membership_effect:
  assumes "good w" "run_state (CreateMembership nsvc p) w = (Inr s, w')"
  shows "\<exists>pr pd. price_by_id (w_db w) (cp_PriceID p) = Some pr \<and> product_by_id (w_db w) (price_ProductID pr) = Some pd \<and>
    reads w (sub_StartedAt s) \<and> sub_by_id (w_db w') (sub_ID s) = Some (stored_sub s) \<and>
    sub_Status s = StatusActive \<and> sub_UserID s = cp_UserID p \<and> sub_PriceID s = price_ID pr \<and>
    (case price_BillingCycleDays pr of
       Some d \<Rightarrow> 0 < d \<and> d \<le> 106751 \<longrightarrow> sub_CurrentPeriodEndsAt s = Some (sub_StartedAt s + d * day_ns)
     | None \<Rightarrow> sub_CurrentPeriodEndsAt s = Some (sub_StartedAt s + 30 * day_ns)) \<and>
    (\<forall>i. i \<noteq> sub_ID s \<longrightarrow> sub_by_id (w_db w') i = sub_by_id (w_db w) i) \<and>
    (\<forall>name \<in> set (ent_names pd). \<not> exists_by_source (w_db w) EntitlementSourceSubscription (sub_ID s) name \<longrightarrow>
       (\<forall>tm \<ge> sub_StartedAt s. entitled (w_db w') (cp_UserID p) name tm)) \<and>
    (\<forall>u name tm. u \<noteq> cp_UserID p \<longrightarrow> entitled (w_db w') u name tm = entitled (w_db w) u name tm)"
  by (rule create_effect[OF assms])

definition sample_create :: create_params where
  "sample_create = \<lparr>cp_UserID = ''bob'', cp_PriceID = 10, cp_Processor = ProcessorNMI,
     cp_ProcessorSubscriptionID = Some ''psid-2'', cp_UserEmail = Some '' bob@example.org '', cp_ProcessorProvider = ''mobius''\<rparr>"

lemma create_sample_ok:
  "case fst (run_state (CreateMembership True sample_create) empty_world) of Inl _ \<Rightarrow> False | Inr s \<Rightarrow> sub_ID s \<noteq> 1"
  by code_simp

theorem create_membership_effect_witness:
  "\<exists>s w'. run_state (CreateMembership True sample_create) empty_world = (Inr s, w') \<and>
     sub_by_id (w_db w') (sub_ID s) = Some (stored_sub s) \<and>
     (\<forall>tm \<ge> sub_StartedAt s. entitled (w_db w') ''bob'' ''downloads'' tm)"
proof -
  obtain s w' where run: "run_state (CreateMembership True sample_create) empty_world = (Inr s, w')"
    using create_sample_ok by (cases "run_state (CreateMembership True sample_create) empty_world") (auto split: sum.splits)
  have rows: "price_by_id (w_db empty_world) 10 = Some sample_price" "product_by_id (w_db empty_world) 20 = Some sample_product"
      "\<not> exists_by_source (w_db empty_world) src i name" for src i name
    by (simp_all add: empty_world_def sample_world_def sample_defs price_by_id_def product_by_id_def exists_by_source_def)
  show ?thesis
    using run create_membership_effect[OF good_empty run] rows
    by (auto simp: sample_create_def sample_price_def sample_product_def ent_names_def)
qed

section \<open>Renewal\<close>

text \<open>
  C8. When no statement fails, the price has a billing cycle of 1 to 106751 days and the user has no
  other active subscription, a renewal succeeds: the subscription becomes active and uncancelled, its
  new period starts exactly where the previous one ended (at the renewal when it has no end) and lasts
  one billing cycle, no other subscription changes, and nobody's access changes at any instant.
\<close>

theorem renew_membership_effect:
  assumes "good w" "run_state (RenewMembership nsvc p) w = (r, w')"
    and "v = op_provider (rp_Processor p) (rp_ProcessorProvider p)"
    and "sub_by_psid (w_db w) (processor_str (rp_Processor p)) v (rp_ProcessorSubscriptionID p) = Some s"
    and "price_by_id (w_db w) (sub_PriceID s) = Some pr" "price_BillingCycleDays pr = Some d" "1 \<le> d" "d \<le> 106751"
    and "\<not> other_active (w_db w) s"
  shows "r = Inr () \<and> (\<exists>start s'.
    (if set_time (sub_CurrentPeriodEndsAt s) then sub_CurrentPeriodEndsAt s = Some start else reads w start) \<and>
    sub_by_id (w_db w') (sub_ID s) = Some s' \<and> sub_Status s' = StatusActive \<and>
    sub_CurrentPeriodStartsAt s' = nz_time (Some start) \<and>
    sub_CurrentPeriodEndsAt s' = nz_time (Some (start + d * day_ns)) \<and>
    sub_CancelledAt s' = None \<and> sub_CancelType s' = None \<and> sub_EndedAt s' = None) \<and>
    (\<forall>i. i \<noteq> sub_ID s \<longrightarrow> sub_by_id (w_db w') i = sub_by_id (w_db w) i) \<and>
    (\<forall>u name tm. entitled (w_db w') u name tm = entitled (w_db w) u name tm)"
proof -
  obtain start n where run: "r = Inr ()"
      "w_db w' = add_nq n (put_sub (renewed_sub start d (set_provider v (with_details (w_db w) s))) (w_db w))"
      "if set_time (sub_CurrentPeriodEndsAt s) then sub_CurrentPeriodEndsAt s = Some start else reads w start"
    using runs[OF renew_run[OF assms(1,4,3,5,6,9)] assms(2)] by blast
  have mem: "sub_ID s \<in> sub_ID ` set (t_subs (w_db w))"
    by (rule sub_by_psid_exists[OF assms(4)])
  have "time_add start (days_dur d) = start + d * day_ns"
    using assms(7,8) by (simp add: time_add_days)
  then show ?thesis
    using run(1,3) mem
    by (simp add: run(2) row_simps renewed_sub_def stored_sub_def) (auto intro!: exI[of _ start])
qed

definition sample_renew :: renew_params where
  "sample_renew = \<lparr>rp_Processor = ProcessorNMI, rp_ProcessorSubscriptionID = ''psid'', rp_ProcessorProvider = '' Mobius''\<rparr>"

theorem renew_membership_effect_witness:
  "fst (run_state (RenewMembership True sample_renew) sample_world) = Inr () \<and>
   (\<exists>s'. sub_by_id (w_db (snd (run_state (RenewMembership True sample_renew) sample_world))) 1 = Some s' \<and>
      sub_CurrentPeriodStartsAt s' = Some 5000 \<and> sub_CurrentPeriodEndsAt s' = Some (5000 + 30 * day_ns))"
proof -
  have "\<not> other_active (w_db sample_world) sample_sub" "set_time (sub_CurrentPeriodEndsAt sample_sub)"
      "sub_CurrentPeriodEndsAt sample_sub = Some 5000" "op_provider ProcessorNMI '' Mobius'' = ''mobius''"
    by (simp_all add: other_active_def sample_world_def sample_tables_def sample_sub_def set_time_def is_zero_time_def)
       code_simp
  then show ?thesis
    using renew_membership_effect[OF good_sample surjective_pairing,
        where nsvc = True and p = sample_renew and v = "''mobius''" and s = sample_sub and pr = sample_price and d = 30]
    by (auto simp: sample_renew_def)
       (auto simp: day_ns_def)
qed

section \<open>Cancellation\<close>

text \<open>
  When no statement fails, an immediate cancellation by the details of the processor (no identifier given) of a
  subscription that exists succeeds: the
  subscription is cancelled with its period and its end at the instant of the cancellation, and every
  open window it granted loses effect at every instant, past ones included; every other window keeps
  its effect. The queued notification carries the reason of the cancel type.
\<close>

theorem cancel_immediate_effect:
  assumes "good w" "run_state (CancelMembership nsvc p) w = (r, w')"
    and "cancel_target (w_db w) p (cancel_provider p) = Some s" "kp_ImmediateCancellation p"
  shows "r = Inr () \<and> (\<exists>now s' n. reads w now \<and> sub_by_id (w_db w') (sub_ID s) = Some s' \<and>
      sub_Status s' = StatusCancelled \<and> sub_CancelType s' = Some (kp_CancelType p) \<and>
      sub_CancelledAt s' = nz_time (Some now) \<and> sub_EndedAt s' = nz_time (Some now) \<and>
      sub_CurrentPeriodEndsAt s' = nz_time (Some now) \<and>
      n \<in> set (t_notifs (w_db w')) \<and> nq_UserID n = sub_UserID s \<and> nq_EventType n = NotificationPremiumEnded \<and>
      nq_Data n = reason_data (cancel_reason (kp_CancelType p))) \<and>
    (\<forall>u name tm. entitled (w_db w') u name tm \<longleftrightarrow>
      (\<exists>e \<in> set (t_ents (w_db w)). ent_of u name e \<and> covers tm e \<and> ent_RevokedAt e = None \<and>
         \<not> open_by EntitlementSourceSubscription (sub_ID s) e))"
proof -
  obtain now now2 n s1 where run: "r = Inr ()"
      "w_db w' = add_nq n (ended_by (sub_ID s) (cancel_ends p now s1) now2 (put_sub s1 (w_db w)))"
      "nq_UserID n = sub_UserID s" "nq_EventType n = NotificationPremiumEnded"
      "nq_Data n = reason_data (cancel_reason (kp_CancelType p))" "reads w now"
      "s1 = cancelled_sub p now (set_provider (cancel_provider p) (with_details (w_db w) s))"
    using runs[OF cancel_run[OF assms(1,3)] assms(2)] by blast
  have mem: "sub_ID s \<in> sub_ID ` set (t_subs (w_db w))"
    by (rule cancel_target_exists[OF assms(3)])
  have ends: "cancel_ends p now s1 \<noteq> None"
    using assms(4) by (simp add: cancel_ends_def)
  have s1: "sub_EndedAt s1 = Some now" "sub_CurrentPeriodEndsAt s1 = Some now"
    using assms(4) by (simp_all add: run(7) cancelled_sub_def Let_def split: option.split)
  have id: "sub_ID s1 = sub_ID s" "sub_CancelType s1 = Some (kp_CancelType p)" "sub_CancelledAt s1 = Some now"
      "sub_Status s1 = StatusCancelled"
    by (simp_all add: run(7))
  have "sub_by_id (w_db w') (sub_ID s) = Some (stored_sub s1)"
    using sub_by_id_after(1)[OF run(2)] mem by (simp add: id)
  moreover have "n \<in> set (t_notifs (w_db w'))"
    by (simp add: run(2))
  ultimately show ?thesis
    using run(1,3-6) s1 id ends
    by (intro conjI exI[of _ now] exI[of _ "stored_sub s1"] exI[of _ n])
       (simp_all add: run(2) entitled_nq entitled_ended_by stored_sub_def)
qed

definition sample_cancel :: "bool \<Rightarrow> cancel_type \<Rightarrow> cancel_params" where
  "sample_cancel now c = \<lparr>kp_SubscriptionID = None, kp_Processor = Some ProcessorNMI, kp_ProcessorSubscriptionID = Some ''psid'',
     kp_CancelType = c, kp_CancelFeedback = None, kp_ImmediateCancellation = now, kp_ProcessorProvider = ''mobius''\<rparr>"

lemma sample_target:
  "cancel_target (w_db sample_world) (sample_cancel b c) (cancel_provider (sample_cancel b c)) = Some sample_sub"
  by (simp add: cancel_target_def sample_cancel_def cancel_provider_def op_provider_def norm_provider_def to_lower_def
      lower_char_def Let_def trim_space_def is_space_def)

theorem cancel_immediate_effect_witness:
  "fst (run_state (CancelMembership True (sample_cancel True CancelTypeUser)) sample_world) = Inr () \<and>
   (\<forall>u name tm. \<not> entitled (w_db (snd (run_state (CancelMembership True (sample_cancel True CancelTypeUser)) sample_world))) u name tm)"
  using cancel_immediate_effect[OF good_sample surjective_pairing sample_target[of True CancelTypeUser],
      where nsvc = True]
  by (simp add: sample_cancel_def) (simp add: sample_world_def sample_defs open_by_def)

text \<open>
  A cancellation at the end of the period (not immediate, with a period end after every instant the
  clock shows) marks the subscription as cancelled and leaves everybody's access as it is at every
  instant, after the period end too: the open window of the subscription is not closed, and it has no
  end of its own.
\<close>

theorem cancel_at_period_end_keeps_access:
  assumes "good w" "run_state (CancelMembership nsvc p) w = (r, w')"
    and "cancel_target (w_db w) p (cancel_provider p) = Some s" "\<not> kp_ImmediateCancellation p"
    and "sub_CurrentPeriodEndsAt s = Some e" "\<forall>now. reads w now \<longrightarrow> now < e"
  shows "r = Inr () \<and> map_option sub_Status (sub_by_id (w_db w') (sub_ID s)) = Some StatusCancelled \<and>
    (\<forall>u name tm. entitled (w_db w') u name tm = entitled (w_db w) u name tm) \<and>
    (\<forall>x \<in> set (t_ents (w_db w)). open_by EntitlementSourceSubscription (sub_ID s) x \<longrightarrow> x \<in> set (t_ents (w_db w')))"
proof -
  obtain now now2 n s1 where run: "r = Inr ()"
      "w_db w' = add_nq n (ended_by (sub_ID s) (cancel_ends p now s1) now2 (put_sub s1 (w_db w)))" "reads w now"
      "s1 = cancelled_sub p now (set_provider (cancel_provider p) (with_details (w_db w) s))"
    using runs[OF cancel_run[OF assms(1,3)] assms(2)] by blast
  have "sub_CurrentPeriodEndsAt s1 = Some e"
    using assms(4,5) by (simp add: run(4) cancelled_sub_def Let_def split: option.split)
  then have none: "cancel_ends p now s1 = None"
    using assms(4,6) run(3) by (simp add: cancel_ends_def not_less order_less_imp_le)
  have id: "sub_ID s1 = sub_ID s" "sub_Status s1 = StatusCancelled"
    by (simp_all add: run(4))
  show ?thesis
    using run(1) sub_by_id_after(1)[OF run(2)] cancel_target_exists[OF assms(3)] none
    by (simp add: id run(2) entitled_nq entitled_ended_by) (simp add: ended_by_def entitled_def)
qed

theorem cancel_at_period_end_keeps_access_witness:
  "\<exists>p w. kp_ImmediateCancellation p = False \<and> good w \<and>
     (let w' = snd (run_state (CancelMembership True p) w) in
        map_option sub_Status (sub_by_id (w_db w') 1) = Some StatusCancelled \<and>
        entitled (w_db w') ''alice'' ''premium'' (10 ^ 40))"
proof -
  let ?w = "sample_world\<lparr>w_env := sample_env\<lparr>env_clock := (\<lambda>_. 1000)\<rparr>\<rparr>" and ?p = "sample_cancel False CancelTypeUser"
  have g: "good ?w"
    using good_sample by (simp add: good_def healthy_def sample_world_def sample_env_def)
  have t: "cancel_target (w_db ?w) ?p (cancel_provider ?p) = Some sample_sub"
    using sample_target by simp
  have "entitled (w_db ?w) ''alice'' ''premium'' (10 ^ 40)"
    by (simp add: sample_world_def sample_defs entitled_def ent_of_def covers_def)
  then show ?thesis
    using cancel_at_period_end_keeps_access[OF g surjective_pairing t, where nsvc = True and e = 5000] g
    by (intro exI[of _ ?p] exI[of _ ?w])
       (simp add: sample_cancel_def sample_sub_def reads_def)
qed

section \<open>Failed payments\<close>

text \<open>
  C14. When no statement fails, a failed payment of a subscription that exists counts one more attempt.
  Up to the fourth the subscription is past due, is to be retried after three days, and nobody's access
  changes. From the fifth on it is cancelled with its end at that instant, exactly its open windows lose
  effect, and the user is told that the membership ended.
\<close>

theorem fail_membership_effect:
  assumes "good w" "run_state (FailMembership nsvc p) w = (r, w')"
    and "v = op_provider (fp_Processor p) (fp_ProcessorProvider p)"
    and "sub_by_psid (w_db w) (processor_str (fp_Processor p)) v (fp_ProcessorSubscriptionID p) = Some s"
  shows "r = Inr () \<and> (\<exists>now s'. reads w now \<and> sub_by_id (w_db w') (sub_ID s) = Some s' \<and>
      sub_RetryAttempts s' = Some (fail_attempts s) \<and> sub_LastRetryAt s' = nz_time (Some now) \<and>
      (if fail_attempts s < 5
       then sub_Status s' = StatusPastDue \<and> sub_NextRetryAt s' = nz_time (Some (now + 3 * day_ns)) \<and>
         sub_EndedAt s' = nz_time (sub_EndedAt s)
       else sub_Status s' = StatusCancelled \<and> sub_EndedAt s' = nz_time (Some now))) \<and>
    (\<forall>u name tm. entitled (w_db w') u name tm \<longleftrightarrow>
      (\<exists>e \<in> set (t_ents (w_db w)). ent_of u name e \<and> covers tm e \<and> ent_RevokedAt e = None \<and>
         (fail_attempts s \<ge> 5 \<longrightarrow> \<not> open_by EntitlementSourceSubscription (sub_ID s) e)))"
proof -
  let ?s1 = "\<lambda>now. failed_sub now (set_provider v (with_details (w_db w) s))"
  obtain now now2 n where run: "r = Inr ()" "reads w now"
      "w_db w' = add_nq n (ended_by (sub_ID s) (if fail_attempts s \<ge> MaxDunningFailures then Some now else None) now2
         (put_sub (?s1 now) (w_db w)))"
    using runs[OF fail_run[OF assms(1,4,3)] assms(2)] by blast
  have "time_add now DunningInterval = now + 3 * day_ns"
    using time_add_days[of 3 now] by (simp add: DunningInterval_def days_dur_def)
  moreover have "fail_attempts (set_provider v (with_details (w_db w) s)) = fail_attempts s"
    by (simp add: fail_attempts_def)
  ultimately have row: "if fail_attempts s < 5
       then sub_Status (?s1 now) = StatusPastDue \<and> sub_NextRetryAt (?s1 now) = Some (now + 3 * day_ns) \<and>
         sub_EndedAt (?s1 now) = sub_EndedAt s
       else sub_Status (?s1 now) = StatusCancelled \<and> sub_EndedAt (?s1 now) = Some now"
    "sub_RetryAttempts (?s1 now) = Some (fail_attempts s)" "sub_LastRetryAt (?s1 now) = Some now"
    by (auto simp: failed_sub_def fail_attempts_def MaxDunningFailures_def Let_def split: option.split)
  have "sub_by_id (w_db w') (sub_ID s) = Some (stored_sub (?s1 now))"
    using sub_by_id_after(1)[OF run(3)] sub_by_psid_exists[OF assms(4)] by simp
  then show ?thesis
    using run(1,2) row
    by (auto simp: run(3) entitled_nq entitled_ended_by MaxDunningFailures_def split: if_splits intro!: exI[of _ now])
qed

definition sample_fail :: fail_params where
  "sample_fail = \<lparr>fp_Processor = ProcessorNMI, fp_ProcessorSubscriptionID = ''psid'', fp_ProcessorProvider = '''',
     fp_FailureReason = None, fp_FailureCode = None\<rparr>"

lemma sample_fail_simps [simp]:
  "op_provider (fp_Processor sample_fail) (fp_ProcessorProvider sample_fail) = ''mobius''"
  "processor_str (fp_Processor sample_fail) = ''nmi''" "fp_ProcessorSubscriptionID sample_fail = ''psid''"
  "fail_attempts sample_sub = 1"
  by (simp_all add: sample_fail_def op_provider_def norm_provider_def fail_attempts_def sample_sub_def)

theorem fail_membership_effect_witness:
  "fst (run_state (FailMembership True sample_fail) sample_world) = Inr () \<and>
   map_option sub_Status (sub_by_id (w_db (snd (run_state (FailMembership True sample_fail) sample_world))) 1) = Some StatusPastDue \<and>
   entitled (w_db (snd (run_state (FailMembership True sample_fail) sample_world))) ''alice'' ''premium'' 2000"
  using fail_membership_effect[OF good_sample surjective_pairing refl, where nsvc = True and p = sample_fail and s = sample_sub]
  by simp (auto simp: sample_world_def sample_defs ent_of_def covers_def)

section \<open>Sequences of failures and renewals\<close>

lemma norm_provider_idem [simp]: "norm_provider (norm_provider p) = norm_provider p"
proof (cases "trim_space (to_lower p) = ''''")
  case True
  then show ?thesis
    by (simp add: norm_provider_def to_lower_def lower_char_def trim_space_def is_space_def Let_def)
next
  case False
  then show ?thesis
    by (simp add: norm_provider_def Let_def) (simp add: trim_lower)
qed

lemma norm_provider_nonempty [simp]: "norm_provider p \<noteq> []"
  by (simp add: norm_provider_def Let_def)

lemma match_set_provider:
  assumes "match_processor_sub (processor_str proc) v k s" "v = op_provider proc prov"
  shows "match_processor_sub (processor_str proc) v k (set_provider v s)"
  using assms
  by (auto simp: match_processor_sub_def set_provider_def op_provider_def provider_matches_def split: if_splits)

lemma sub_by_psid_put:
  assumes "sub_by_psid t p v k = Some s" "sub_ID s1 = sub_ID s" "distinct (map sub_ID (t_subs t))"
    and "match_processor_sub p v k (stored_sub s1)"
  shows "sub_by_psid (put_sub s1 t) p v k = Some (stored_sub s1)"
proof -
  have "find P (replace_row sub_ID r rs) = Some r"
    if "find P rs = Some s" "sub_ID r = sub_ID s" "distinct (map sub_ID rs)" "P r" for P r rs
    using that
  proof (induction rs)
    case (Cons x rs)
    then show ?case
      by (cases "P x") (auto simp: replace_row_def dest: find_Some_in)
  qed simp
  from this[OF assms(1)[unfolded sub_by_psid_def], of "stored_sub s1"] assms(2-4) show ?thesis
    by (simp add: sub_by_psid_def put_sub_subs)
qed

lemma good_next:
  assumes g: "good w" and r: "ran w w' n" and s: "schema_ok (w_db w')"
    and t: "w_db w' = add_nq n (ended_by i endAt now (put_sub s1 (w_db w)))"
  shows "good w'"
proof -
  have subs: "sub_ID ` set (t_subs (w_db w')) = sub_ID ` set (t_subs (w_db w))"
    using arg_cong[OF subs.keys_put[of s1 "w_db w"], of set]
    by (simp add: t ended_by_def split: option.split)
  have ents: "ent_ID ` set (t_ents (w_db w')) = ent_ID ` set (t_ents (w_db w))"
  proof (cases endAt)
    case (Some e)
    have "map ent_ID (t_ents (w_db w')) = map ent_ID (t_ents (w_db w))"
      by (simp add: t Some ended_by_def map_update_where)
    then show ?thesis by (metis list.set_map)
  qed (simp add: t ended_by_def)
  obtain k where k: "w_pc w \<le> k" "k < w_pc w'" "nq_ID n = env_uuid (w_env w) k"
    using r by (auto simp: ran_def)
  have nqs: "nq_ID ` set (t_notifs (w_db w')) = insert (nq_ID n) (nq_ID ` set (t_notifs (w_db w)))"
    by (simp add: t ended_by_def split: option.split)
  have fresh: "env_uuid (w_env w) m \<notin> used_ids (w_db w')" if "w_pc w' \<le> m" for m
  proof -
    have "env_uuid (w_env w) m \<noteq> nq_ID n" "env_uuid (w_env w) m \<notin> used_ids (w_db w)"
      using g k that unfolding good_def k(3) by (auto dest: injD)
    then show ?thesis
      unfolding used_ids_def subs ents nqs by simp
  qed
  have env: "w_env w' = w_env w" "w_tx w' = None" "\<not> w_aborted w'"
    using r by (simp_all add: ran_def)
  have h: "healthy w'"
    using goodD(1)[OF g] env unfolding healthy_def by metis
  have "inj (env_uuid (w_env w'))"
    unfolding env(1) using g by (simp add: good_def)
  then show ?thesis
    unfolding good_def using h s fresh env(1,2) by simp
qed

lemma schema_after:
  assumes "good w" "keeps False schema_ok m" "run_state m w = (r, w')"
  shows "schema_ok (w_db w')"
proof -
  have "sane False schema_ok d w" for d
    using goodD[OF assms(1)] by (simp add: sane_def)
  from wp_run[OF keepsD[OF assms(2) this] assms(3)] show ?thesis
    by (simp add: sane_def)
qed

text \<open>One failure, as a step that can be repeated.\<close>

lemma fail_again:
  assumes "good w" "v = op_provider (fp_Processor p) (fp_ProcessorProvider p)"
    and "sub_by_psid (w_db w) (processor_str (fp_Processor p)) v (fp_ProcessorSubscriptionID p) = Some s"
    and "run_state (FailMembership nsvc p) w = (r, w')"
  shows "good w' \<and> (\<exists>s'. sub_by_psid (w_db w') (processor_str (fp_Processor p)) v (fp_ProcessorSubscriptionID p) = Some s' \<and>
      sub_ID s' = sub_ID s \<and> sub_UserID s' = sub_UserID s \<and> sub_PriceID s' = sub_PriceID s \<and> sub_RetryAttempts s' = Some (fail_attempts s) \<and>
      sub_Status s' = (if fail_attempts s < 5 then StatusPastDue else StatusCancelled) \<and>
      sub_Processor s' = sub_Processor s \<and> sub_ProcessorSubscriptionID s' = sub_ProcessorSubscriptionID s \<and>
      sub_ProcessorProvider s' = (if v \<noteq> '''' then Some v else sub_ProcessorProvider s)) \<and>
    (fail_attempts s \<ge> 5 \<longrightarrow> (\<forall>e \<in> set (t_ents (w_db w')). \<not> open_by EntitlementSourceSubscription (sub_ID s) e)) \<and>
    t_prices (w_db w') = t_prices (w_db w)"
proof -
  let ?endAt = "\<lambda>now. if fail_attempts s \<ge> MaxDunningFailures then Some now else None"
  define s1 where "s1 = (\<lambda>now. failed_sub now (set_provider v (with_details (w_db w) s)))"
  obtain now now2 n where run: "ran w w' n"
      "w_db w' = add_nq n (ended_by (sub_ID s) (?endAt now) now2 (put_sub (s1 now) (w_db w)))"
    using runs[OF fail_run[OF assms(1,3,2)] assms(4)] unfolding s1_def by blast
  have schema: "schema_ok (w_db w')"
    by (rule schema_after[OF assms(1) schema.keeps_FailMembership assms(4)])
  have good: "good w'"
    by (rule good_next[OF assms(1) run(1) schema run(2)])
  have att: "fail_attempts (set_provider v (with_details (w_db w) s)) = fail_attempts s"
    by (simp add: fail_attempts_def)
  have s1: "sub_ID (s1 now) = sub_ID s" "sub_UserID (s1 now) = sub_UserID s" "sub_PriceID (s1 now) = sub_PriceID s"
      "sub_RetryAttempts (s1 now) = Some (fail_attempts s)"
      "sub_Status (s1 now) = (if fail_attempts s < 5 then StatusPastDue else StatusCancelled)"
    by (simp_all add: s1_def att MaxDunningFailures_def) (simp add: failed_sub_def Let_def)
  have s1': "sub_Processor (s1 now) = sub_Processor s" "sub_ProcessorSubscriptionID (s1 now) = sub_ProcessorSubscriptionID s"
      "sub_ProcessorProvider (s1 now) = (if v \<noteq> '''' then Some v else sub_ProcessorProvider s)"
    by (simp_all add: s1_def failed_sub_def set_provider_def with_details_def Let_def)
  have "match_processor_sub (processor_str (fp_Processor p)) v (fp_ProcessorSubscriptionID p) (set_provider v s)"
    by (rule match_set_provider[OF _ assms(2)]) (use sub_by_psid_in[OF assms(3)] in blast)
  then have m: "match_processor_sub (processor_str (fp_Processor p)) v (fp_ProcessorSubscriptionID p) (stored_sub (s1 now))"
    by (auto simp: s1_def match_processor_sub_def failed_sub_def set_provider_def with_details_def Let_def)
  have psid: "sub_by_psid (w_db w') q z k = sub_by_psid (put_sub (s1 now) (w_db w)) q z k" for q z k
    by (simp add: run(2) sub_by_psid_def ended_by_def split: option.split)
  have "sub_by_psid (w_db w') (processor_str (fp_Processor p)) v (fp_ProcessorSubscriptionID p) = Some (stored_sub (s1 now))"
    unfolding psid using goodD(4)[OF assms(1)] by (intro sub_by_psid_put[OF assms(3) s1(1) _ m]) (simp add: sub_unique_def)
  moreover have "\<forall>e \<in> set (t_ents (w_db w')). \<not> open_by EntitlementSourceSubscription (sub_ID s) e" if "fail_attempts s \<ge> 5"
    using that by (simp add: run(2) MaxDunningFailures_def open_by_ended)
  moreover have "t_prices (w_db w') = t_prices (w_db w)"
    by (simp add: run(2) ended_by_def add_nq_def split: option.split)
  ultimately show ?thesis
    using good s1 s1' by (auto simp: stored_sub_def)
qed

primrec fail_times :: "bool \<Rightarrow> fail_params \<Rightarrow> nat \<Rightarrow> world \<Rightarrow> world" where
  "fail_times nsvc p 0 w = w"
| "fail_times nsvc p (Suc n) w = snd (run_state (FailMembership nsvc p) (fail_times nsvc p n w))"

text \<open>
  C26. Dunning terminates: of a subscription without earlier failures, the first four failed payments
  leave it past due with that many attempts, and the fifth cancels it and leaves it no open window.
\<close>

theorem dunning_runs_out:
  assumes "good w" "v = op_provider (fp_Processor p) (fp_ProcessorProvider p)"
    and "sub_by_psid (w_db w) (processor_str (fp_Processor p)) v (fp_ProcessorSubscriptionID p) = Some s"
    and "sub_RetryAttempts s \<in> {None, Some 0}" "1 \<le> k" "k \<le> 5"
  shows "\<exists>s'. sub_by_id (w_db (fail_times nsvc p k w)) (sub_ID s) = Some s' \<and>
    sub_RetryAttempts s' = Some (int k) \<and> sub_Status s' = (if k < 5 then StatusPastDue else StatusCancelled) \<and>
    (k = 5 \<longrightarrow> (\<forall>e \<in> set (t_ents (w_db (fail_times nsvc p k w))). \<not> open_by EntitlementSourceSubscription (sub_ID s) e))"
proof -
  let ?look = "\<lambda>w. sub_by_psid (w_db w) (processor_str (fp_Processor p)) v (fp_ProcessorSubscriptionID p)"
  have inv: "good (fail_times nsvc p k w) \<and> (\<exists>s'. ?look (fail_times nsvc p k w) = Some s' \<and> sub_ID s' = sub_ID s \<and>
      sub_RetryAttempts s' = (if k = 0 then sub_RetryAttempts s else Some (int k)) \<and>
      (0 < k \<longrightarrow> sub_Status s' = (if k < 5 then StatusPastDue else StatusCancelled)) \<and>
      (5 \<le> k \<longrightarrow> (\<forall>e \<in> set (t_ents (w_db (fail_times nsvc p k w))). \<not> open_by EntitlementSourceSubscription (sub_ID s) e)))" for k
  proof (induction k)
    case 0
    then show ?case using assms by simp
  next
    case (Suc k)
    then obtain s' where s': "good (fail_times nsvc p k w)" "?look (fail_times nsvc p k w) = Some s'" "sub_ID s' = sub_ID s"
        "sub_RetryAttempts s' = (if k = 0 then sub_RetryAttempts s else Some (int k))"
      by blast
    then have "fail_attempts s' = int (Suc k)"
      using assms(4) by (auto simp: fail_attempts_def)
    with fail_again[OF s'(1) assms(2) s'(2) surjective_pairing, where nsvc = nsvc] s'(3) show ?case
      by (auto simp: Ball_def)
  qed
  from inv[of k] obtain s' where s': "good (fail_times nsvc p k w)" "?look (fail_times nsvc p k w) = Some s'" "sub_ID s' = sub_ID s"
      "sub_RetryAttempts s' = Some (int k)" "sub_Status s' = (if k < 5 then StatusPastDue else StatusCancelled)"
      "5 \<le> k \<longrightarrow> (\<forall>e \<in> set (t_ents (w_db (fail_times nsvc p k w))). \<not> open_by EntitlementSourceSubscription (sub_ID s) e)"
    using assms(5) by auto
  have "sub_by_id (w_db (fail_times nsvc p k w)) (sub_ID s') = Some s'"
    using goodD(4)[OF s'(1)] sub_by_psid_in[OF s'(2)] by (intro sub_by_id_unique) (simp_all add: sub_unique_def)
  with s' show ?thesis by auto
qed

theorem dunning_runs_out_witness:
  "map_option sub_Status (sub_by_id (w_db (fail_times True sample_fail 5 sample_world)) 1) = Some StatusCancelled"
proof -
  have s: "sub_by_psid (w_db sample_world) (processor_str (fp_Processor sample_fail)) ''mobius''
      (fp_ProcessorSubscriptionID sample_fail) = Some sample_sub" "sub_RetryAttempts sample_sub \<in> {None, Some 0}"
    by (simp_all, simp add: sample_sub_def)
  from dunning_runs_out[OF good_sample _ s, where nsvc = True and k = 5] show ?thesis
    by auto
qed

lemma renew_then:
  assumes "good w" "v = op_provider (rp_Processor p) (rp_ProcessorProvider p)"
    and "sub_by_psid (w_db w) (processor_str (rp_Processor p)) v (rp_ProcessorSubscriptionID p) = Some s"
    and "price_by_id (w_db w) (sub_PriceID s) = Some pr" "price_BillingCycleDays pr = Some d" "\<not> other_active (w_db w) s"
    and "run_state (RenewMembership nsvc p) w = (r, w')"
  shows "r = Inr () \<and> good w' \<and> (\<exists>s'. sub_by_psid (w_db w') (processor_str (rp_Processor p)) v (rp_ProcessorSubscriptionID p) = Some s' \<and>
      sub_by_id (w_db w') (sub_ID s) = Some s' \<and>
      sub_ID s' = sub_ID s \<and> sub_Status s' = StatusActive \<and> sub_RetryAttempts s' = sub_RetryAttempts s \<and>
      sub_NextRetryAt s' = nz_time (sub_NextRetryAt s) \<and> sub_PriceID s' = sub_PriceID s \<and>
      (set_time (sub_CurrentPeriodEndsAt s) \<longrightarrow>
         sub_CurrentPeriodEndsAt s' = nz_time (Some (time_add (the (sub_CurrentPeriodEndsAt s)) (days_dur d)))) \<and>
      \<not> other_active (w_db w') s') \<and> t_prices (w_db w') = t_prices (w_db w)"
proof -
  define s1 where "s1 = (\<lambda>start. renewed_sub start d (set_provider v (with_details (w_db w) s)))"
  obtain start n where run: "r = Inr ()" "ran w w' n" "w_db w' = add_nq n (put_sub (s1 start) (w_db w))"
      "if set_time (sub_CurrentPeriodEndsAt s) then sub_CurrentPeriodEndsAt s = Some start else reads w start"
    using runs[OF renew_run[OF assms(1,3,2,4,5,6)] assms(7)] unfolding s1_def by blast
  have t: "w_db w' = add_nq n (ended_by 0 None 0 (put_sub (s1 start) (w_db w)))"
    by (simp add: run(3) ended_by_def)
  have schema: "schema_ok (w_db w')"
    by (rule schema_after[OF assms(1) schema.keeps_RenewMembership assms(7)])
  have good: "good w'"
    by (rule good_next[OF assms(1) run(2) schema t])
  have id: "sub_ID (s1 start) = sub_ID s"
    by (simp add: s1_def)
  have "match_processor_sub (processor_str (rp_Processor p)) v (rp_ProcessorSubscriptionID p) (set_provider v s)"
    by (rule match_set_provider[OF _ assms(2)]) (use sub_by_psid_in[OF assms(3)] in blast)
  then have m: "match_processor_sub (processor_str (rp_Processor p)) v (rp_ProcessorSubscriptionID p) (stored_sub (s1 start))"
    by (auto simp: s1_def match_processor_sub_def renewed_sub_def set_provider_def with_details_def)
  have "sub_by_psid (put_sub (s1 start) (w_db w)) (processor_str (rp_Processor p)) v (rp_ProcessorSubscriptionID p) = Some (stored_sub (s1 start))"
    using goodD(4)[OF assms(1)] by (intro sub_by_psid_put[OF assms(3) id _ m]) (simp add: sub_unique_def)
  then have "sub_by_psid (w_db w') (processor_str (rp_Processor p)) v (rp_ProcessorSubscriptionID p) = Some (stored_sub (s1 start))"
    by (simp add: run(3) sub_by_psid_def)
  moreover have "sub_by_id (w_db w') (sub_ID s) = Some (stored_sub (s1 start))"
    using sub_by_psid_exists[OF assms(3)] id by (simp add: run(3) row_simps)
  moreover have "\<not> other_active (w_db w') (stored_sub (s1 start))"
    using assms(6) by (auto simp: run(3) put_sub_subs set_replace_row other_active_def s1_def)
  moreover have "t_prices (w_db w') = t_prices (w_db w)"
    by (simp add: run(3) put_sub_def)
  ultimately show ?thesis
    using run(1,4) good id by (auto simp: s1_def renewed_sub_def)
qed

text \<open>
  A renewal does not clear the retry counter: a subscription that has failed four times, has then
  been renewed successfully and is active again is cancelled by its next single failed payment.
\<close>

theorem renewal_keeps_dunning_count:
  assumes "good w" "sub_by_psid (w_db w) (processor_str (rp_Processor p)) v (rp_ProcessorSubscriptionID p) = Some s"
    and "v = op_provider (rp_Processor p) (rp_ProcessorProvider p)"
    and "price_by_id (w_db w) (sub_PriceID s) = Some pr" "price_BillingCycleDays pr = Some d" "\<not> other_active (w_db w) s"
    and "sub_RetryAttempts s = Some 4"
    and "fp_Processor q = rp_Processor p" "fp_ProcessorSubscriptionID q = rp_ProcessorSubscriptionID p"
      "v = op_provider (fp_Processor q) (fp_ProcessorProvider q)"
    and "run_state (RenewMembership nsvc p) w = (r, w')" "run_state (FailMembership nsvc q) w' = (r', w'')"
  shows "r = Inr () \<and> map_option sub_Status (sub_by_id (w_db w') (sub_ID s)) = Some StatusActive \<and>
    r' = Inr () \<and> map_option sub_Status (sub_by_id (w_db w'') (sub_ID s)) = Some StatusCancelled"
proof -
  obtain s' where s': "r = Inr ()" "good w'" "sub_by_id (w_db w') (sub_ID s) = Some s'" "sub_ID s' = sub_ID s"
      "sub_Status s' = StatusActive" "sub_RetryAttempts s' = Some 4"
      "sub_by_psid (w_db w') (processor_str (fp_Processor q)) v (fp_ProcessorSubscriptionID q) = Some s'"
    using renew_then[OF assms(1,3,2,4,5,6,11)] assms(7-9) by auto
  have att: "fail_attempts s' = 5"
    by (simp add: fail_attempts_def s'(6))
  obtain now now2 n where run: "r' = Inr ()"
      "w_db w'' = add_nq n (ended_by (sub_ID s') (if fail_attempts s' \<ge> MaxDunningFailures then Some now else None) now2
         (put_sub (failed_sub now (set_provider v (with_details (w_db w') s'))) (w_db w')))"
    using runs[OF fail_run[OF s'(2,7) assms(10)] assms(12)] by blast
  have "sub_by_id (w_db w'') (sub_ID s') = Some (stored_sub (failed_sub now (set_provider v (with_details (w_db w') s'))))"
    using sub_by_id_after(1)[OF run(2)] sub_by_psid_exists[OF s'(7)] by simp
  moreover have "fail_attempts (set_provider v (with_details (w_db w') s')) = fail_attempts s'"
    by (simp add: fail_attempts_def)
  ultimately show ?thesis
    using s' run(1) att by (simp add: MaxDunningFailures_def)
qed

theorem renewal_keeps_dunning_count_witness:
  "\<exists>w r w' r' w''. run_state (RenewMembership True sample_renew) w = (r, w') \<and> run_state (FailMembership True sample_fail) w' = (r', w'') \<and>
     map_option sub_Status (sub_by_id (w_db w') 1) = Some StatusActive \<and>
     map_option sub_Status (sub_by_id (w_db w'') 1) = Some StatusCancelled"
proof -
  let ?s = "sample_sub\<lparr>sub_RetryAttempts := Some 4\<rparr>"
  let ?w = "sample_world\<lparr>w_db := sample_tables\<lparr>t_subs := [?s]\<rparr>\<rparr>"
  have g: "good ?w"
    using good_sample
    by (simp add: good_def healthy_def sample_world_def schema_ok_def sample_tables_def sub_unique_def used_ids_def)
  have look: "sub_by_psid (w_db ?w) (processor_str (rp_Processor sample_renew)) ''mobius'' (rp_ProcessorSubscriptionID sample_renew) = Some ?s"
    by code_simp
  have v: "''mobius'' = op_provider (rp_Processor sample_renew) (rp_ProcessorProvider sample_renew)"
    by code_simp
  have q: "fp_Processor sample_fail = rp_Processor sample_renew"
      "fp_ProcessorSubscriptionID sample_fail = rp_ProcessorSubscriptionID sample_renew"
      "''mobius'' = op_provider (fp_Processor sample_fail) (fp_ProcessorProvider sample_fail)"
    by code_simp+
  have pr: "price_by_id (w_db ?w) (sub_PriceID ?s) = Some sample_price"
    by (simp add: price_by_id_def sample_tables_def sample_price_def)
  have o: "\<not> other_active (w_db ?w) ?s" "sub_RetryAttempts ?s = Some 4"
    by (simp_all add: other_active_def)
  obtain r w' where r: "run_state (RenewMembership True sample_renew) ?w = (r, w')"
    by (cases "run_state (RenewMembership True sample_renew) ?w")
  obtain r' w'' where r': "run_state (FailMembership True sample_fail) w' = (r', w'')"
    by (cases "run_state (FailMembership True sample_fail) w'")
  have "sub_ID ?s = 1"
    by simp
  with r r' renewal_keeps_dunning_count[OF g look v pr sample_lookup(6) o q r r'] show ?thesis
    by (intro exI[of _ ?w] exI conjI) auto
qed

section \<open>Two failures of the code\<close>

text \<open>
  The renewal of a subscription whose price has no billing cycle (a one-off price) panics on a nil
  pointer, after which nothing is committed.
\<close>

theorem renew_without_cycle_panics:
  assumes "good w" "v = op_provider (rp_Processor p) (rp_ProcessorProvider p)"
    and "sub_by_psid (w_db w) (processor_str (rp_Processor p)) v (rp_ProcessorSubscriptionID p) = Some s"
    and "price_by_id (w_db w) (sub_PriceID s) = Some pr" "price_BillingCycleDays pr = None"
    and "run_state (RenewMembership nsvc p) w = (r, w')"
  shows "(\<exists>m. r = Inl (GoPanic m)) \<and> w_db w' = w_db w \<and> w_outbox w' = w_outbox w"
proof -
  have "wp (RenewMembership nsvc p) (\<lambda>r w'. \<exists>m. r = Inl (GoPanic m)) w"
    unfolding RenewMembership_def
  proof (rule wp_tx_then_dispatch)
    show "healthy w" by (rule goodD[OF assms(1)])
    show "wp (renew_tx p) (\<lambda>r w'. healthy w' \<and> (case r of Inl e \<Rightarrow> \<exists>m. Inl e = Inl (GoPanic m)
        | Inr ns \<Rightarrow> \<exists>m. Inr () = Inl (GoPanic m))) (tx_open w)"
      using goodD[OF assms(1)] by (simp add: renew_tx_def wp_simps assms(2)[symmetric] assms(3-5))
  qed
  then obtain m where "r = Inl (GoPanic m)"
    using runs[OF _ assms(6)] by blast
  moreover have "w_db w' = w_db w \<and> w_outbox w' = w_outbox w"
    using wp_run[OF run_call_undone[of w nsvc "CallRenew p"], of r w'] goodD(2)[OF assms(1)] assms(6) calculation
    by (simp add: undone_on_error_def)
  ultimately show ?thesis by blast
qed

theorem renew_without_cycle_panics_witness:
  "\<exists>w m. fst (run_state (RenewMembership True sample_renew) w) = Inl (GoPanic m)"
proof -
  let ?pr = "sample_price\<lparr>price_BillingCycleDays := None\<rparr>"
  let ?w = "sample_world\<lparr>w_db := sample_tables\<lparr>t_prices := [?pr]\<rparr>\<rparr>"
  have g: "good ?w"
    using good_sample
    by (simp add: good_def healthy_def sample_world_def schema_ok_def sample_tables_def used_ids_def)
  have v: "''mobius'' = op_provider (rp_Processor sample_renew) (rp_ProcessorProvider sample_renew)"
    by code_simp
  have look: "sub_by_psid (w_db ?w) (processor_str (rp_Processor sample_renew)) ''mobius'' (rp_ProcessorSubscriptionID sample_renew) = Some sample_sub"
    by code_simp
  have pr: "price_by_id (w_db ?w) (sub_PriceID sample_sub) = Some ?pr"
    by (simp add: price_by_id_def sample_price_def)
  show ?thesis
    using renew_without_cycle_panics[OF g v look pr _ surjective_pairing, where nsvc = True] by auto
qed

text \<open>
  An error of \<open>EndActiveBySubscription\<close> is only logged, but it aborts the transaction: when the
  driver reports no error for the \<open>COMMIT\<close> that PostgreSQL then executes as a rollback, an immediate
  cancellation returns nil, has cancelled nothing, and the user stays entitled.
\<close>

definition lost_world :: world where
  "lost_world = sample_world\<lparr>w_env := sample_env\<lparr>env_fault := (\<lambda>n. if n = 5 then Some ''deadlock detected'' else None)\<rparr>\<rparr>"

lemma lost_run:
  "fst (run_state (CancelMembership True (sample_cancel True CancelTypeUser)) lost_world) = Inr ()"
  "w_db (snd (run_state (CancelMembership True (sample_cancel True CancelTypeUser)) lost_world)) = w_db lost_world \<and>
   w_outbox (snd (run_state (CancelMembership True (sample_cancel True CancelTypeUser)) lost_world)) = w_outbox lost_world"
  by code_simp+

theorem cancel_lost_commit:
  "\<exists>w'. run_state (CancelMembership True (sample_cancel True CancelTypeUser)) lost_world = (Inr (), w') \<and>
     w_db w' = w_db lost_world \<and> w_outbox w' = w_outbox lost_world \<and>
     entitled (w_db w') ''alice'' ''premium'' (10 ^ 40)"
proof -
  let ?w' = "snd (run_state (CancelMembership True (sample_cancel True CancelTypeUser)) lost_world)"
  have "entitled (w_db lost_world) ''alice'' ''premium'' (10 ^ 40)"
    by (simp add: lost_world_def sample_world_def sample_defs entitled_def ent_of_def covers_def)
  then show ?thesis
    using lost_run by (intro exI[of _ ?w']) (simp add: prod_eq_iff)
qed

section \<open>Runs of the general properties\<close>

lemma faulty_run:
  "case fst (run_state (run_call True (CallRenew sample_renew)) faulty_world) of Inl (ErrWrap _ _) \<Rightarrow> True | _ \<Rightarrow> False"
  by code_simp

theorem lifecycle_error_undone_witness:
  "\<exists>e w'. run_state (run_call True (CallRenew sample_renew)) faulty_world = (Inl e, w') \<and> w_db w' = w_db faulty_world"
proof -
  obtain e w' where run: "run_state (run_call True (CallRenew sample_renew)) faulty_world = (Inl e, w')"
    using faulty_run by (cases "run_state (run_call True (CallRenew sample_renew)) faulty_world") (auto split: sum.splits)
  have "w_tx faulty_world = None"
    by (simp add: faulty_world_def sample_world_def)
  from lifecycle_error_undone[OF this run] run show ?thesis
    by blast
qed

theorem lifecycle_keeps_schema_witness:
  "\<exists>w1 w2. w2 = snd (run_state (run_call True (CallExpire 1)) w1) \<and>
     w1 = snd (run_state (run_call True (CallRenew sample_renew)) sample_world) \<and>
     calls True sample_world w2 \<and> schema_ok (w_db w2)"
proof -
  let ?w1 = "snd (run_state (run_call True (CallRenew sample_renew)) sample_world)"
  let ?w2 = "snd (run_state (run_call True (CallExpire 1)) ?w1)"
  have "calls True sample_world ?w2"
    by (rule calls_step[OF calls_step[OF calls_none surjective_pairing] surjective_pairing])
  with lifecycle_keeps_schema[OF this] goodD[OF good_sample] show ?thesis
    by blast
qed

end
