(* ===== verification/Payments.thy ===== *)
theory Payments
  imports Notification
begin

text \<open>
  \<open>internal/manager/api/payment/stores/paymentdb/paymentdb.go\<close> and \<open>internal/manager/api/payment/payment.go\<close>:
  the log of payments, whose refunds are negative payments that point at the payment they refund. A stored
  amount is a finite number.
\<close>

section \<open>The store\<close>

definition payment_by_id :: "tables \<Rightarrow> uuid \<Rightarrow> payment option" where
  "payment_by_id t i = find (\<lambda>p. pay_ID p = i) (t_payments t)"

definition stored_payment :: "time \<Rightarrow> payment \<Rightarrow> payment" where
  "stored_payment now p = p\<lparr>pay_Currency := (if pay_Currency p = '''' then ''USD'' else pay_Currency p),
     pay_PurchasedAt := (if is_zero_time (pay_PurchasedAt p) then now else pay_PurchasedAt p),
     pay_CreatedAt := (if is_zero_time (pay_CreatedAt p) then now else pay_CreatedAt p)\<rparr>"

definition add_payment :: "payment \<Rightarrow> tables \<Rightarrow> tables" where
  "add_payment p t = t\<lparr>t_payments := t_payments t @ [p]\<rparr>"

definition del_payment :: "uuid \<Rightarrow> tables \<Rightarrow> tables" where
  "del_payment i t = t\<lparr>t_payments := filter (\<lambda>p. pay_ID p \<noteq> i) (t_payments t)\<rparr>"

definition PayStore_Create :: "handle \<Rightarrow> payment \<Rightarrow> unit go" where
  "PayStore_Create h p = do {
     r \<leftarrow> db_exec h (\<lambda>now t. let row = stored_payment now p in
       if pay_unique (t_payments (add_payment row t)) then Inr (1 :: nat, add_payment row) else Inl duplicate_key);
     (case r of Inl e \<Rightarrow> throw e
      | Inr rows \<Rightarrow> if rows < 1 then throw no_rows_affected else ok ())
   }"

definition PayStore_GetByID :: "handle \<Rightarrow> uuid \<Rightarrow> payment go" where
  "PayStore_GetByID h i = db_query h (\<lambda>now t. scan_row (payment_by_id t i))"

definition PayStore_GetByUserID :: "handle \<Rightarrow> string \<Rightarrow> payment list go" where
  "PayStore_GetByUserID h u = db_query h (\<lambda>now t.
     Inr (sort_desc pay_PurchasedAt (filter (\<lambda>p. pay_UserID p = u) (t_payments t))))"

definition payment_by_txn :: "tables \<Rightarrow> processor \<Rightarrow> string \<Rightarrow> payment option" where
  "payment_by_txn t proc k = find (\<lambda>p. pay_Processor p = proc \<and> pay_TransactionID p = k) (t_payments t)"

definition PayStore_GetByTransactionID :: "handle \<Rightarrow> processor \<Rightarrow> string \<Rightarrow> payment go" where
  "PayStore_GetByTransactionID h proc k = db_query h (\<lambda>now t. scan_row (payment_by_txn t proc k))"

definition PayStore_GetByPriceID :: "handle \<Rightarrow> uuid \<Rightarrow> payment list go" where
  "PayStore_GetByPriceID h i = db_query h (\<lambda>now t.
     Inr (sort_desc pay_PurchasedAt (filter (\<lambda>p. pay_PriceID p = i) (t_payments t))))"

definition PayStore_GetByProcessor :: "handle \<Rightarrow> processor \<Rightarrow> payment list go" where
  "PayStore_GetByProcessor h proc = db_query h (\<lambda>now t.
     Inr (sort_desc pay_PurchasedAt (filter (\<lambda>p. pay_Processor p = proc) (t_payments t))))"

definition PayStore_Delete :: "handle \<Rightarrow> uuid \<Rightarrow> unit go" where
  "PayStore_Delete h i = do {
     r \<leftarrow> db_exec h (\<lambda>now t. Inr (length (filter (\<lambda>p. pay_ID p = i) (t_payments t)), del_payment i));
     (case r of Inl e \<Rightarrow> throw e
      | Inr rows \<Rightarrow> if rows < 1 then throw no_rows_affected else ok ())
   }"

definition refund_sum :: "tables \<Rightarrow> uuid \<Rightarrow> float64" where
  "refund_sum t i = (\<Sum>p\<leftarrow>t_payments t. if pay_RefundedPaymentID p = Some i then pay_Amount p else 0)"

definition PayStore_GetRefundTotalByPaymentID :: "handle \<Rightarrow> uuid \<Rightarrow> float64 go" where
  "PayStore_GetRefundTotalByPaymentID h i = db_query h (\<lambda>now t. Inr \<bar>refund_sum t i\<bar>)"

definition PayStore_GetPaginatedByUserID :: "handle \<Rightarrow> string \<Rightarrow> int \<Rightarrow> int \<Rightarrow> (payment list \<times> nat) go" where
  "PayStore_GetPaginatedByUserID h u page psize = do {
     c \<leftarrow> db_query h (\<lambda>now t. Inr (length (filter (\<lambda>p. pay_UserID p = u) (t_payments t))));
     (case c of
        Inl e \<Rightarrow> throw e
      | Inr n \<Rightarrow> do {
          r \<leftarrow> db_query h (\<lambda>now t.
            Inr (slice psize ((page - 1) * psize) (sort_desc pay_PurchasedAt (filter (\<lambda>p. pay_UserID p = u) (t_payments t)))));
          (case r of Inl e \<Rightarrow> throw e | Inr ps \<Rightarrow> ok (ps, n))
        })
   }"

record payment_filters =
  pf_UserID :: string
  pf_PriceID :: uuid
  pf_Processor :: string
  pf_StartDate :: "time option"
  pf_EndDate :: "time option"
  pf_MinAmount :: "float64 option"
  pf_MaxAmount :: "float64 option"

definition payment_matches :: "payment_filters \<Rightarrow> payment \<Rightarrow> bool" where
  "payment_matches f p \<longleftrightarrow>
     (pf_UserID f = '''' \<or> pay_UserID p = pf_UserID f) \<and> (pf_PriceID f = 0 \<or> pay_PriceID p = pf_PriceID f) \<and>
     (pf_Processor f = '''' \<or> processor_str (pay_Processor p) = pf_Processor f) \<and>
     (case pf_StartDate f of None \<Rightarrow> True | Some x \<Rightarrow> x \<le> pay_PurchasedAt p) \<and>
     (case pf_EndDate f of None \<Rightarrow> True | Some x \<Rightarrow> pay_PurchasedAt p \<le> x) \<and>
     (case pf_MinAmount f of None \<Rightarrow> True | Some x \<Rightarrow> x \<le> pay_Amount p) \<and>
     (case pf_MaxAmount f of None \<Rightarrow> True | Some x \<Rightarrow> pay_Amount p \<le> x)"

definition PayStore_GetPayments :: "handle \<Rightarrow> payment_filters \<Rightarrow> query_options \<Rightarrow> (payment list \<times> nat) go" where
  "PayStore_GetPayments h f opts = do {
     c \<leftarrow> db_query h (\<lambda>now t. Inr (length (filter (payment_matches f) (t_payments t))));
     (case c of
        Inl e \<Rightarrow> throw e
      | Inr n \<Rightarrow> do {
          r \<leftarrow> db_query h (\<lambda>now t. Inr (page_rows opts (sort_desc pay_PurchasedAt (filter (payment_matches f) (t_payments t)))));
          (case r of Inl e \<Rightarrow> throw e | Inr ps \<Rightarrow> ok (ps, n))
        })
   }"

section \<open>PaymentService\<close>

abbreviation "Payment_Create \<equiv> PayStore_Create"
abbreviation "Payment_GetByID \<equiv> PayStore_GetByID"
abbreviation "Payment_GetByTransactionID \<equiv> PayStore_GetByTransactionID"

definition refundEpsilon :: float64 where
  "refundEpsilon = 1 / 10000"

definition PaymentService_Update :: "payment \<Rightarrow> unit go" where
  "PaymentService_Update p = throw (ErrNew ''payments are immutable; updates are not supported'')"

definition PaymentService_Delete :: "uuid \<Rightarrow> unit go" where
  "PaymentService_Delete i = throw (ErrNew ''payments cannot be deleted'')"

definition refund_of :: "payment \<Rightarrow> uuid \<Rightarrow> string \<Rightarrow> float64 \<Rightarrow> time \<Rightarrow> time \<Rightarrow> payment" where
  "refund_of orig i txn amount purchased created =
     \<lparr>pay_ID = i, pay_UserID = pay_UserID orig, pay_PriceID = pay_PriceID orig, pay_SubscriptionID = pay_SubscriptionID orig,
      pay_RefundedPaymentID = Some (pay_ID orig), pay_Processor = pay_Processor orig, pay_ProcessorProvider = None,
      pay_TransactionID = txn, pay_Amount = - amount, pay_Currency = pay_Currency orig,
      pay_PurchasedAt = purchased, pay_CreatedAt = created\<rparr>"

definition PaymentService_Refund :: "handle \<Rightarrow> uuid \<Rightarrow> string \<Rightarrow> float64 \<Rightarrow> payment go" where
  "PaymentService_Refund h originalPaymentID refundTransactionID amount = do {
     r \<leftarrow> Payment_GetByID h originalPaymentID;
     (case r of
        Inl e \<Rightarrow> throw e
      | Inr orig \<Rightarrow>
          if amount \<le> 0 then throw (ErrNew ''refund amount must be > 0'')
          else if trim_space refundTransactionID = '''' then throw (ErrNew ''refund transaction id is required'')
          else do {
            s \<leftarrow> PayStore_GetRefundTotalByPaymentID h originalPaymentID;
            (case s of
               Inl e \<Rightarrow> throw (wrap_err ''failed to calculate refunded total'' e)
             | Inr refundedTotal \<Rightarrow>
                 if amount > pay_Amount orig then throw (ErrNew ''refund amount cannot exceed original payment amount'')
                 else if refundedTotal > 0 \<and> amount + refundedTotal - pay_Amount orig > refundEpsilon
                   then throw (ErrNew ''refund total would exceed original payment'')
                 else do {
                   i \<leftarrow> new_uuid;
                   purchased \<leftarrow> now_m;
                   created \<leftarrow> now_m;
                   let refund = refund_of orig i refundTransactionID amount purchased created;
                   c \<leftarrow> Payment_Create h refund;
                   (case c of Inl e \<Rightarrow> throw e | Inr _ \<Rightarrow> ok refund)
                 })
          })
   }"

section \<open>Rows\<close>

lemma payment_tables [simp]:
  "t_payments (add_payment p t) = t_payments t @ [p]" "t_subs (add_payment p t) = t_subs t" "t_ents (add_payment p t) = t_ents t"
  "t_notifs (add_payment p t) = t_notifs t" "t_idems (add_payment p t) = t_idems t" "t_events (add_payment p t) = t_events t"
  "t_aliases (add_payment p t) = t_aliases t" "t_prices (add_payment p t) = t_prices t" "t_products (add_payment p t) = t_products t"
  by (simp_all add: add_payment_def)

lemma stored_payment_simps [simp]:
  "pay_ID (stored_payment now p) = pay_ID p" "pay_RefundedPaymentID (stored_payment now p) = pay_RefundedPaymentID p"
  "pay_Amount (stored_payment now p) = pay_Amount p" "pay_Processor (stored_payment now p) = pay_Processor p"
  "pay_TransactionID (stored_payment now p) = pay_TransactionID p"
  by (simp_all add: stored_payment_def)

lemma refund_of_simps [simp]:
  "pay_ID (refund_of p i txn a x y) = i" "pay_RefundedPaymentID (refund_of p i txn a x y) = Some (pay_ID p)"
  "pay_Amount (refund_of p i txn a x y) = - a" "pay_Processor (refund_of p i txn a x y) = pay_Processor p"
  "pay_TransactionID (refund_of p i txn a x y) = txn"
  by (simp_all add: refund_of_def)

lemma keeps_PayStore_Create:
  assumes "b \<Longrightarrow> h = Tx" "\<And>p t. I t \<Longrightarrow> pay_unique (t_payments (add_payment p t)) \<Longrightarrow> I (add_payment p t)"
  shows "keeps b I (PayStore_Create h p)"
  unfolding PayStore_Create_def by (intro keeps_intros keeps_exec) (auto simp: Let_def assms split: if_splits)

lemma keeps_payment_queries [keeps_intros]:
  "keeps b I (PayStore_GetByID h i)" "keeps b I (PayStore_GetByTransactionID h proc k)"
  "keeps b I (PayStore_GetRefundTotalByPaymentID h i)"
  unfolding PayStore_GetByID_def PayStore_GetByTransactionID_def PayStore_GetRefundTotalByPaymentID_def
  by (rule keeps_query)+

lemma payment_by_id_in: "payment_by_id t i = Some p \<Longrightarrow> p \<in> set (t_payments t) \<and> pay_ID p = i"
  unfolding payment_by_id_def by (rule find_Some_in)

lemma refund_sum_add: "refund_sum (add_payment p t) i = refund_sum t i + (if pay_RefundedPaymentID p = Some i then pay_Amount p else 0)"
  by (simp add: refund_sum_def)

section \<open>Refunds\<close>

text \<open>
  The invariant of the log: every refund is negative and points at a logged payment, and the refunds of a
  payment that has any add up to at most its amount, up to the tolerance.
\<close>

definition refunds_ok :: "tables \<Rightarrow> bool" where
  "refunds_ok t \<longleftrightarrow> distinct (map pay_ID (t_payments t)) \<and>
     (\<forall>r \<in> set (t_payments t). \<forall>i. pay_RefundedPaymentID r = Some i \<longrightarrow> pay_Amount r < 0 \<and> i \<in> pay_ID ` set (t_payments t)) \<and>
     (\<forall>p \<in> set (t_payments t). refund_sum t (pay_ID p) = 0 \<or> - refund_sum t (pay_ID p) \<le> pay_Amount p + refundEpsilon)"

lemma refund_sum_none: "\<forall>r \<in> set (t_payments t). pay_RefundedPaymentID r \<noteq> Some i \<Longrightarrow> refund_sum t i = 0"
proof -
  have "(\<Sum>p\<leftarrow>ps. if pay_RefundedPaymentID p = Some i then pay_Amount p else 0) = 0"
    if "\<forall>r \<in> set ps. pay_RefundedPaymentID r \<noteq> Some i" for ps
    using that by (induction ps) auto
  then show "\<forall>r \<in> set (t_payments t). pay_RefundedPaymentID r \<noteq> Some i \<Longrightarrow> refund_sum t i = 0"
    unfolding refund_sum_def by blast
qed

lemma refund_sum_nonpos: "\<forall>r \<in> set ps. \<forall>i. pay_RefundedPaymentID r = Some i \<longrightarrow> pay_Amount r < 0 \<Longrightarrow>
  (\<Sum>p\<leftarrow>ps. if pay_RefundedPaymentID p = Some i then pay_Amount p else 0) \<le> 0"
  by (induction ps) auto

lemma refunds_ok_add:
  assumes "refunds_ok t" "pay_ID p \<notin> pay_ID ` set (t_payments t)" "pay_RefundedPaymentID p = None"
  shows "refunds_ok (add_payment p t)"
proof -
  have "refund_sum t (pay_ID p) = 0"
    using assms(1,2) by (intro refund_sum_none) (auto simp: refunds_ok_def)
  then show ?thesis
    using assms by (auto simp: refunds_ok_def refund_sum_add)
qed

lemma refunds_ok_refund:
  assumes t: "refunds_ok t" "pay_ID r \<notin> pay_ID ` set (t_payments t)" and p: "p \<in> set (t_payments t)"
    and r: "pay_RefundedPaymentID r = Some (pay_ID p)" "pay_Amount r < 0" "- pay_Amount r \<le> pay_Amount p"
    and bound: "\<bar>refund_sum t (pay_ID p)\<bar> > 0 \<longrightarrow> - pay_Amount r + \<bar>refund_sum t (pay_ID p)\<bar> - pay_Amount p \<le> refundEpsilon"
  shows "refunds_ok (add_payment r t)"
proof -
  have e: "0 < refundEpsilon"
    by (simp add: refundEpsilon_def)
  have neg: "refund_sum t (pay_ID p) \<le> 0"
    unfolding refund_sum_def using t(1) by (intro refund_sum_nonpos) (auto simp: refunds_ok_def)
  have none: "refund_sum t (pay_ID r) = 0"
    using t by (intro refund_sum_none) (auto simp: refunds_ok_def)
  have ne: "pay_ID r \<noteq> pay_ID p"
    using t(2) p by auto
  have "q = p" if "q \<in> set (t_payments t)" "pay_ID q = pay_ID p" for q
    using t(1) p that by (auto simp: refunds_ok_def distinct_map inj_on_def)
  then show ?thesis
    using t p r bound e neg none ne by (auto simp: refunds_ok_def refund_sum_add image_iff)
qed

lemma wp_PayStore_Create:
  "wp (PayStore_Create h p) Q w = (case db_fault h w of Some e \<Rightarrow> Q (Inl e) (db_fail h (tick w))
     | None \<Rightarrow> if pay_unique (t_payments (add_payment (stored_payment (clock_now w) p) (view h w)))
         then Q (Inr ()) (db_write h (add_payment (stored_payment (clock_now w) p)) (tick w))
         else Q (Inl (DbErr duplicate_key)) (db_fail h (tick w)))"
  unfolding PayStore_Create_def by (simp add: wp_simps Let_def split: option.split)

lemma refund_keeps:
  assumes w: "refunds_ok (w_db w)"
  shows "wp (PaymentService_Refund Pool i txn a) (\<lambda>_ w'. refunds_ok (w_db w')) w"
proof -
  let ?t = "w_db w"
  have new: "refunds_ok (add_payment (stored_payment now (refund_of p j txn a x y)) ?t)"
    if "payment_by_id ?t i = Some p" "0 < a" "a \<le> pay_Amount p"
      "0 < \<bar>refund_sum ?t i\<bar> \<longrightarrow> a + \<bar>refund_sum ?t i\<bar> - pay_Amount p \<le> refundEpsilon"
      "pay_unique (t_payments ?t @ [stored_payment now (refund_of p j txn a x y)])" for p j now x y
    by (rule refunds_ok_refund[of ?t _ p]) (use that w payment_by_id_in[OF that(1)] in \<open>auto simp: pay_unique_def\<close>)
  show ?thesis
    unfolding PaymentService_Refund_def PayStore_GetByID_def PayStore_GetRefundTotalByPaymentID_def
    using w new by (cases "payment_by_id ?t i") (auto simp: wp_simps wp_PayStore_Create Let_def not_less split: option.split)
qed

text \<open>
  \<open>pay_runs w w'\<close>: \<open>w'\<close> is reached by recording payments (that refund nothing) and by calls of
  \<open>Refund\<close>, one after the other.
\<close>

inductive pay_runs :: "world \<Rightarrow> world \<Rightarrow> bool" where
  pay_none: "pay_runs w w"
| pay_record: "pay_runs w w' \<Longrightarrow> pay_RefundedPaymentID p = None \<Longrightarrow> run_state (Payment_Create Pool p) w' = (r, w'') \<Longrightarrow> pay_runs w w''"
| pay_refund: "pay_runs w w' \<Longrightarrow> run_state (PaymentService_Refund Pool i txn a) w' = (r', w'') \<Longrightarrow> pay_runs w w''"

lemma pay_runs_ok: "pay_runs w w' \<Longrightarrow> refunds_ok (w_db w) \<Longrightarrow> refunds_ok (w_db w')"
proof (induction rule: pay_runs.induct)
  case (pay_record w w' p r w'')
  then have "wp (Payment_Create Pool p) (\<lambda>_ w'. refunds_ok (w_db w')) w'"
    by (auto simp: wp_PayStore_Create pay_unique_def intro!: refunds_ok_add split: option.split)
  then show ?case
    using pay_record.hyps(3) by (rule wp_run)
next
  case (pay_refund w w' i txn a r' w'')
  then show ?case
    using wp_run[OF refund_keeps] by blast
qed

text \<open>
  C10. Whatever sequence of payments and refunds is recorded, and whichever statements fail, the refunds of
  a payment never add up to more than its amount plus 0.0001.
\<close>

theorem refunds_never_exceed_payment:
  assumes "pay_runs w w'" "refunds_ok (w_db w)" "payment_by_id (w_db w') i = Some p"
  shows "- refund_sum (w_db w') i \<le> max 0 (pay_Amount p + refundEpsilon)"
  using pay_runs_ok[OF assms(1,2)] payment_by_id_in[OF assms(3)] by (auto simp: refunds_ok_def)

end
