(* ===== verification/Encoding.thy ===== *)
theory Encoding
  imports Models "HOL-Library.List_Lexorder" "HOL-Library.Char_ord" "HOL-Library.AList"
begin

text \<open>
  The encodings of Go's standard library that the webhook code reads: \<open>encoding/json\<close> (documents, the
  printing of a \<open>map[string]string\<close>, the decoding into a struct by its tags), \<open>strconv.ParseFloat\<close> on
  decimal notation with the special values of IEEE 754, \<open>net/url.ParseQuery\<close> and the two layouts of
  \<open>time.Parse\<close>. A string is its bytes; JSON reads and prints them as UTF-8, the other functions as ASCII
  (bytes from 128 on are passed through unchanged).
\<close>

section \<open>Digits\<close>

abbreviation code :: "char \<Rightarrow> nat" where
  "code c \<equiv> of_char c"

definition is_digit :: "char \<Rightarrow> bool" where
  "is_digit c \<longleftrightarrow> 48 \<le> code c \<and> code c \<le> 57"

definition digits_int :: "string \<Rightarrow> int" where
  "digits_int ds = foldl (\<lambda>n c. 10 * n + (int (code c) - 48)) 0 ds"

definition hex_digit :: "char \<Rightarrow> nat option" where
  "hex_digit c = (let n = code c in
     if 48 \<le> n \<and> n \<le> 57 then Some (n - 48) else if 97 \<le> n \<and> n \<le> 102 then Some (n - 87)
     else if 65 \<le> n \<and> n \<le> 70 then Some (n - 55) else None)"

definition hex_char :: "nat \<Rightarrow> char" where
  "hex_char n = (if n < 10 then char_of (48 + n) else char_of (87 + n))"

text \<open>A decimal number is a mantissa and a power of ten; its fraction and exponent are optional.\<close>

definition scan_fraction :: "string \<Rightarrow> (string \<times> string) option" where
  "scan_fraction s = (case s of
     c # r \<Rightarrow> if c = CHR ''.'' then (let ds = takeWhile is_digit r in if ds = [] then None else Some (ds, dropWhile is_digit r))
              else Some ([], s)
   | [] \<Rightarrow> Some ([], []))"

definition scan_exponent :: "string \<Rightarrow> (int \<times> string) option" where
  "scan_exponent s = (case s of
     c # r \<Rightarrow> if c = CHR ''e'' \<or> c = CHR ''E'' then
         (let (neg, d) = (case r of x # y \<Rightarrow> if x = CHR ''-'' then (True, y) else if x = CHR ''+'' then (False, y) else (False, r) | [] \<Rightarrow> (False, r));
              ds = takeWhile is_digit d
          in if ds = [] then None else Some (if neg then - digits_int ds else digits_int ds, dropWhile is_digit d))
       else Some (0, s)
   | [] \<Rightarrow> Some (0, []))"

definition decimal_val :: "int \<Rightarrow> int \<Rightarrow> float64" where
  "decimal_val m e = (if 0 \<le> e then of_int m * 10 ^ nat e else of_int m / 10 ^ nat (- e))"

section \<open>Floating-point text\<close>

text \<open>
  \<open>strconv.ParseFloat\<close>: an optional sign, digits with at most one point and at least one digit, an optional
  exponent; or an infinity or a NaN by name. A value beyond the largest float is an error. Hexadecimal
  notation and underscores are left out (the model refuses them).
\<close>

definition parse_unsigned :: "string \<Rightarrow> (int \<times> int) option" where
  "parse_unsigned s =
     (let whole = takeWhile is_digit s; r = dropWhile is_digit s;
          (fr, r1) = (case r of c # t \<Rightarrow> if c = CHR ''.'' then (takeWhile is_digit t, dropWhile is_digit t) else ([], r) | [] \<Rightarrow> ([], r))
      in if whole = [] \<and> fr = [] then None
         else (case scan_exponent r1 of
             Some (e, []) \<Rightarrow> Some (digits_int (whole @ fr), e - int (length fr))
           | _ \<Rightarrow> None))"

definition ParseFloat :: "string \<Rightarrow> fval option" where
  "ParseFloat s =
     (let (neg, signed, r) = (case s of
            c # t \<Rightarrow> if c = CHR ''-'' then (True, True, t) else if c = CHR ''+'' then (False, True, t) else (False, False, s)
          | [] \<Rightarrow> (False, False, []))
      in if to_lower r = ''inf'' \<or> to_lower r = ''infinity'' then Some (if neg then NegInf else PosInf)
         else if \<not> signed \<and> to_lower r = ''nan'' then Some NaN
         else (case parse_unsigned r of
             None \<Rightarrow> None
           | Some (m, e) \<Rightarrow> let v = decimal_val m e in
               if v \<ge> of_int (2 ^ 1024) then None else Some (Fin (if neg then - v else v))))"

section \<open>JSON documents\<close>

text \<open>A number is kept as its literal, a string as its bytes.\<close>

datatype json = JNull | JBool bool | JNum string | JStr string | JArr "json list" | JObj "(string \<times> json) list"

definition skip_ws :: "string \<Rightarrow> string" where
  "skip_ws s = dropWhile (\<lambda>c. code c \<in> {9, 10, 13, 32}) s"

definition utf8 :: "nat \<Rightarrow> string" where
  "utf8 n = (if n < 128 then [char_of n]
     else if n < 2048 then [char_of (192 + n div 64), char_of (128 + n mod 64)]
     else if n < 65536 then [char_of (224 + n div 4096), char_of (128 + n div 64 mod 64), char_of (128 + n mod 64)]
     else [char_of (240 + n div 262144), char_of (128 + n div 4096 mod 64), char_of (128 + n div 64 mod 64), char_of (128 + n mod 64)])"

text \<open>
  \<open>utf8.DecodeRune\<close>: how many bytes the character at the front takes, 0 when they are not the encoding of one (too long
  an encoding, a surrogate, beyond U+10FFFF, a byte out of place). \<open>second n b\<close>: \<open>b\<close> may follow the first byte \<open>n\<close>.
\<close>

definition cont :: "char \<Rightarrow> bool" where
  "cont c \<longleftrightarrow> 128 \<le> code c \<and> code c < 192"

definition second :: "nat \<Rightarrow> char \<Rightarrow> bool" where
  "second n b \<longleftrightarrow> cont b \<and> (n = 224 \<longrightarrow> 160 \<le> code b) \<and> (n = 237 \<longrightarrow> code b < 160) \<and>
     (n = 240 \<longrightarrow> 144 \<le> code b) \<and> (n = 244 \<longrightarrow> code b < 144)"

definition rune_width :: "string \<Rightarrow> nat" where
  "rune_width s = (case s of [] \<Rightarrow> 0
     | a # t \<Rightarrow> (let n = code a in
         if n < 128 then 1
         else if 194 \<le> n \<and> n < 224 then (case t of b # _ \<Rightarrow> if second n b then 2 else 0 | _ \<Rightarrow> 0)
         else if 224 \<le> n \<and> n < 240 then (case t of b # c # _ \<Rightarrow> if second n b \<and> cont c then 3 else 0 | _ \<Rightarrow> 0)
         else if 240 \<le> n \<and> n < 245 then (case t of b # c # d # _ \<Rightarrow> if second n b \<and> cont c \<and> cont d then 4 else 0 | _ \<Rightarrow> 0)
         else 0))"

text \<open>The characters of a text, each with whether its bytes encode one; a byte that does not stands alone.\<close>

function runes :: "string \<Rightarrow> (bool \<times> string) list" where
  "runes [] = []"
| "runes (c # s) = (case rune_width (c # s) of
     0 \<Rightarrow> (False, [c]) # runes s | Suc k \<Rightarrow> (True, c # take k s) # runes (drop k s))"
  by pat_completeness auto
termination by (relation "measure length") auto

definition hex4 :: "string \<Rightarrow> (nat \<times> string) option" where
  "hex4 s = (case s of a # b # c # d # r \<Rightarrow>
       (case (hex_digit a, hex_digit b, hex_digit c, hex_digit d) of
          (Some w, Some x, Some y, Some z) \<Rightarrow> Some (((w * 16 + x) * 16 + y) * 16 + z, r) | _ \<Rightarrow> None)
     | _ \<Rightarrow> None)"

text \<open>
  An escaped code unit: a pair of surrogates is one character, a lone one is replaced by U+FFFD.
\<close>

definition unescape_unit :: "string \<Rightarrow> (string \<times> string) option" where
  "unescape_unit s = (case hex4 s of
     None \<Rightarrow> None
   | Some (n, r) \<Rightarrow>
       if n < 55296 \<or> 57344 \<le> n then Some (utf8 n, r)
       else (case r of
           a # b # t \<Rightarrow>
             (case (if a = CHR 0x5C \<and> b = CHR ''u'' then hex4 t else None) of
                Some (l, r2) \<Rightarrow> if n < 56320 \<and> 56320 \<le> l \<and> l < 57344
                  then Some (utf8 (65536 + (n - 55296) * 1024 + (l - 56320)), r2) else Some (utf8 65533, r)
              | None \<Rightarrow> Some (utf8 65533, r))
         | _ \<Rightarrow> Some (utf8 65533, r)))"

definition simple_escape :: "char \<Rightarrow> char option" where
  "simple_escape c = map_of [(CHR 0x22, CHR 0x22), (CHR 0x5C, CHR 0x5C), (CHR ''/'', CHR ''/''), (CHR ''b'', CHR 0x08),
     (CHR ''f'', CHR 0x0C), (CHR ''n'', CHR 0x0A), (CHR ''r'', CHR 0x0D), (CHR ''t'', CHR 0x09)] c"

text \<open>
  The body of a string literal, after its opening quote; a byte that encodes no character is read as U+FFFD. The fuel
  bounds the characters read.
\<close>

fun json_string :: "nat \<Rightarrow> string \<Rightarrow> (string \<times> string) option" where
  "json_string 0 s = None"
| "json_string (Suc n) s = (case s of
     [] \<Rightarrow> None
   | c # r \<Rightarrow>
       if c = CHR 0x22 then Some ([], r)
       else if c = CHR 0x5C then (case r of
           [] \<Rightarrow> None
         | x # t \<Rightarrow>
             (case (if x = CHR ''u'' then unescape_unit t else map_option (\<lambda>y. ([y], t)) (simple_escape x)) of
                None \<Rightarrow> None
              | Some (u, t2) \<Rightarrow> map_option (\<lambda>(v, z). (u @ v, z)) (json_string n t2)))
       else if code c < 32 then None
       else if code c < 128 then map_option (\<lambda>(v, z). (c # v, z)) (json_string n r)
       else (case rune_width (c # r) of
           0 \<Rightarrow> map_option (\<lambda>(v, z). (utf8 65533 @ v, z)) (json_string n r)
         | Suc k \<Rightarrow> map_option (\<lambda>(v, z). (c # take k r @ v, z)) (json_string n (drop k r))))"

definition json_number :: "string \<Rightarrow> (json \<times> string) option" where
  "json_number s =
     (let r = (case s of c # t \<Rightarrow> if c = CHR ''-'' then t else s | [] \<Rightarrow> s);
          (whole, r1) = (case r of c # t \<Rightarrow> if c = CHR ''0'' then ([c], t) else (takeWhile is_digit r, dropWhile is_digit r) | [] \<Rightarrow> ([], r))
      in if whole = [] then None
         else (case scan_fraction r1 of
             None \<Rightarrow> None
           | Some (_, r2) \<Rightarrow> (case scan_exponent r2 of
               None \<Rightarrow> None
             | Some (_, r3) \<Rightarrow> Some (JNum (take (length s - length r3) s), r3))))"

definition literal :: "string \<Rightarrow> json \<Rightarrow> string \<Rightarrow> (json \<times> string) option" where
  "literal w j s = (if has_prefix s w then Some (j, drop (length w) s) else None)"

fun json_value :: "nat \<Rightarrow> string \<Rightarrow> (json \<times> string) option"
  and json_elems :: "nat \<Rightarrow> string \<Rightarrow> (json list \<times> string) option"
  and json_members :: "nat \<Rightarrow> string \<Rightarrow> ((string \<times> json) list \<times> string) option" where
  "json_value 0 s = None"
| "json_value (Suc n) s = (case skip_ws s of
     [] \<Rightarrow> None
   | c # r \<Rightarrow>
       if c = CHR ''{'' then (case skip_ws r of
           [] \<Rightarrow> None
         | d # t \<Rightarrow> if d = CHR ''}'' then Some (JObj [], t) else map_option (\<lambda>(ms, z). (JObj ms, z)) (json_members n (d # t)))
       else if c = CHR ''['' then (case skip_ws r of
           [] \<Rightarrow> None
         | d # t \<Rightarrow> if d = CHR '']'' then Some (JArr [], t) else map_option (\<lambda>(es, z). (JArr es, z)) (json_elems n (d # t)))
       else if c = CHR 0x22 then map_option (\<lambda>(v, z). (JStr v, z)) (json_string (length r) r)
       else if c = CHR ''t'' then literal ''true'' (JBool True) (c # r)
       else if c = CHR ''f'' then literal ''false'' (JBool False) (c # r)
       else if c = CHR ''n'' then literal ''null'' JNull (c # r)
       else json_number (c # r))"
| "json_elems 0 s = None"
| "json_elems (Suc n) s = (case json_value n s of
     None \<Rightarrow> None
   | Some (j, r) \<Rightarrow> (case skip_ws r of
       [] \<Rightarrow> None
     | c # t \<Rightarrow> if c = CHR '']'' then Some ([j], t)
         else if c = CHR '','' then map_option (\<lambda>(es, z). (j # es, z)) (json_elems n t) else None))"
| "json_members 0 s = None"
| "json_members (Suc n) s = (case skip_ws s of
     [] \<Rightarrow> None
   | q # r \<Rightarrow> if q \<noteq> CHR 0x22 then None else
       (case json_string (length r) r of
          None \<Rightarrow> None
        | Some (k, r1) \<Rightarrow> (case skip_ws r1 of
            [] \<Rightarrow> None
          | c # r2 \<Rightarrow> if c \<noteq> CHR '':'' then None else
              (case json_value n r2 of
                 None \<Rightarrow> None
               | Some (j, r3) \<Rightarrow> (case skip_ws r3 of
                   [] \<Rightarrow> None
                 | d # t \<Rightarrow> if d = CHR ''}'' then Some ([(k, j)], t)
                     else if d = CHR '','' then map_option (\<lambda>(ms, z). ((k, j) # ms, z)) (json_members n t) else None)))))"

text \<open>The whole input is one document. A nesting level takes two calls and two characters, so twice the length is enough fuel.\<close>

definition json_parse :: "string \<Rightarrow> json option" where
  "json_parse s = (case json_value (2 * length s + 2) s of
     Some (j, r) \<Rightarrow> if skip_ws r = [] then Some j else None | None \<Rightarrow> None)"


section \<open>Integers\<close>

text \<open>\<open>strconv.Atoi\<close> and \<open>ParseInt(s, 10, 64)\<close>: an optional sign and digits, within 64 bits.\<close>

definition atoi :: "string \<Rightarrow> int option" where
  "atoi s =
     (let (neg, ds) = (case s of c # t \<Rightarrow> if c = CHR ''-'' then (True, t) else if c = CHR ''+'' then (False, t) else (False, s) | [] \<Rightarrow> (False, []))
      in if ds = [] \<or> \<not> list_all is_digit ds then None
         else let n = (if neg then - digits_int ds else digits_int ds)
              in if - (2 ^ 63) \<le> n \<and> n < 2 ^ 63 then Some n else None)"

fun show_nat :: "nat \<Rightarrow> string" where
  "show_nat n = (if n < 10 then [char_of (48 + n)] else show_nat (n div 10) @ [char_of (48 + n mod 10)])"

declare show_nat.simps [simp del]

definition show_int :: "int \<Rightarrow> string" where
  "show_int n = (if n < 0 then CHR ''-'' # show_nat (nat (- n)) else show_nat (nat n))"

section \<open>Printing\<close>

fun join :: "string \<Rightarrow> string list \<Rightarrow> string" where
  "join sep [] = []"
| "join sep [x] = x"
| "join sep (x # xs) = x @ sep @ join sep xs"

text \<open>
  \<open>json.Marshal\<close> of a string (with HTML escaping; U+2028 and U+2029 are escaped, and a byte that encodes no character
  is printed as the escape of U+FFFD) and of a \<open>map[string]string\<close>, in key order.
\<close>

definition escape_char :: "char \<Rightarrow> string" where
  "escape_char c =
     (if c = CHR 0x22 \<or> c = CHR 0x5C then [CHR 0x5C, c]
      else if c = CHR 0x08 then [CHR 0x5C, CHR ''b''] else if c = CHR 0x0C then [CHR 0x5C, CHR ''f'']
      else if c = CHR 0x0A then [CHR 0x5C, CHR ''n''] else if c = CHR 0x0D then [CHR 0x5C, CHR ''r'']
      else if c = CHR 0x09 then [CHR 0x5C, CHR ''t'']
      else if code c < 32 \<or> c = CHR ''<'' \<or> c = CHR ''>'' \<or> c = CHR ''&''
        then [CHR 0x5C, CHR ''u'', CHR ''0'', CHR ''0'', hex_char (code c div 16), hex_char (code c mod 16)]
      else [c])"

definition escape_rune :: "bool \<times> string \<Rightarrow> string" where
  "escape_rune r = (case r of (valid, bs) \<Rightarrow>
     if \<not> valid then CHR 0x5C # ''ufffd''
     else if length bs = 1 then escape_char (hd bs)
     else if bs = utf8 8232 then CHR 0x5C # ''u2028''
     else if bs = utf8 8233 then CHR 0x5C # ''u2029''
     else bs)"

definition json_quote :: "string \<Rightarrow> string" where
  "json_quote s = CHR 0x22 # concat (map escape_rune (runes s)) @ [CHR 0x22]"

fun print_members :: "(string \<times> string) list \<Rightarrow> string" where
  "print_members [] = ''}''"
| "print_members [(k, v)] = json_quote k @ '':'' @ json_quote v @ ''}''"
| "print_members ((k, v) # m) = json_quote k @ '':'' @ json_quote v @ '','' @ print_members m"

definition marshal_map :: "(string \<times> string) list \<Rightarrow> string" where
  "marshal_map m = CHR ''{'' # print_members (sort_key fst m)"

text \<open>The compact print of a document (a string is printed from its bytes, whichever escapes it was read with).\<close>

fun print_json :: "json \<Rightarrow> string" where
  "print_json JNull = ''null''"
| "print_json (JBool b) = (if b then ''true'' else ''false'')"
| "print_json (JNum l) = l"
| "print_json (JStr s) = json_quote s"
| "print_json (JArr js) = ''['' @ join '','' (map print_json js) @ '']''"
| "print_json (JObj kvs) = ''{'' @ join '','' (map (\<lambda>(k, v). json_quote k @ '':'' @ v) (map (\<lambda>(k, j). (k, print_json j)) kvs)) @ ''}''"

section \<open>Decoding into a struct\<close>

text \<open>
  The type of a field, and the value it holds. \<open>KStringish\<close> and \<open>KIntish\<close> are the types of
  \<open>internal/manager/api/types/types.go\<close> with their own \<open>UnmarshalJSON\<close>; \<open>KStruct\<close> is a pointer to a struct.
  A struct is the list of its fields by JSON tag; a struct value lists the fields that have been set.
\<close>

datatype kind = KString | KStringish | KIntish | KIntishPtr | KBool | KAnyMap | KRaw | KStruct "(string \<times> kind) list"

datatype gval = GStr string | GInt int | GBool bool | GNil | GAny | GRaw json | GStruct "(string \<times> gval) list"

type_synonym fields = "(string \<times> kind) list"
type_synonym struct = "(string \<times> gval) list"

definition literal_decimal :: "string \<Rightarrow> (int \<times> int) option" where
  "literal_decimal l = (case l of
     c # t \<Rightarrow> if c = CHR ''-'' then map_option (\<lambda>(m, e). (- m, e)) (parse_unsigned t) else parse_unsigned l
   | [] \<Rightarrow> None)"

fun strip_zeros :: "nat \<Rightarrow> int \<Rightarrow> int \<times> nat" where
  "strip_zeros 0 m = (m, 0)"
| "strip_zeros (Suc k) m = (if m mod 10 = 0 then strip_zeros k (m div 10) else (m, Suc k))"

text \<open>
  The text of a JSON number in a \<open>Stringish\<close>: \<open>FormatInt\<close> of an integral value, else the shortest decimal
  without exponent (exact for literals of up to 15 digits, which a \<open>float64\<close> holds).
\<close>

definition number_text :: "string \<Rightarrow> string" where
  "number_text l = (case literal_decimal l of
     None \<Rightarrow> l
   | Some (m, e) \<Rightarrow>
       if 0 \<le> e then show_int (m * 10 ^ nat e)
       else (case strip_zeros (nat (- e)) \<bar>m\<bar> of
           (q, k) \<Rightarrow>
             if k = 0 then show_int (if m < 0 then - q else q)
             else let ds = show_int q; ps = replicate (Suc k - length ds) (CHR ''0'') @ ds; n = length ps - k
                  in (if m < 0 then ''-'' else '''') @ take n ps @ ''.'' @ drop n ps))"

text \<open>\<open>fmt.Sprint\<close> of a decoded document (numbers as in \<open>number_text\<close>).\<close>

fun sprint :: "json \<Rightarrow> string" where
  "sprint JNull = ''<nil>''"
| "sprint (JBool b) = (if b then ''true'' else ''false'')"
| "sprint (JNum l) = number_text l"
| "sprint (JStr s) = s"
| "sprint (JArr js) = ''['' @ join '' '' (map sprint js) @ '']''"
| "sprint (JObj kvs) = ''map['' @ join '' '' (map (\<lambda>(k, v). k @ '':'' @ v) (sort_key fst (map (\<lambda>(k, j). (k, sprint j)) kvs))) @ '']''"

definition Stringish_Unmarshal :: "json \<Rightarrow> string" where
  "Stringish_Unmarshal j = (case j of JNull \<Rightarrow> '''' | _ \<Rightarrow> sprint j)"

definition Intish_Unmarshal :: "json \<Rightarrow> int option" where
  "Intish_Unmarshal j = (case j of
     JNull \<Rightarrow> Some 0
   | JStr s \<Rightarrow> (let t = trim_space s in if t = '''' then Some 0 else atoi t)
   | JNum l \<Rightarrow> atoi l
   | _ \<Rightarrow> None)"

text \<open>
  A key matches the field with that tag, or else the first whose tag differs only in case. Folding the case of a
  key makes \<open>k\<close> of the Kelvin sign (U+212A) and \<open>s\<close> of the long s (U+017F); the tags are ASCII, so no
  other letter matters.
\<close>

function fold_name :: "string \<Rightarrow> string" where
  "fold_name [] = []"
| "fold_name (c # s) =
     (if code c = 226 \<and> take 2 s = [char_of (132 :: nat), char_of (170 :: nat)] then CHR ''k'' # fold_name (drop 2 s)
      else if code c = 197 \<and> take 1 s = [char_of (191 :: nat)] then CHR ''s'' # fold_name (drop 1 s)
      else lower_char c # fold_name s)"
  by pat_completeness auto
termination by (relation "measure length") auto

definition field_of :: "fields \<Rightarrow> string \<Rightarrow> (string \<times> kind) option" where
  "field_of fs k = (case find (\<lambda>(t, _). t = k) fs of
     Some f \<Rightarrow> Some f | None \<Rightarrow> find (\<lambda>(t, _). fold_name t = fold_name k) fs)"

definition set_field :: "string \<Rightarrow> gval \<Rightarrow> struct \<Rightarrow> struct" where
  "set_field t v d = AList.update t v d"

fun decode :: "kind \<Rightarrow> gval option \<Rightarrow> json \<Rightarrow> gval option"
  and decode_members :: "fields \<Rightarrow> struct \<Rightarrow> (string \<times> json) list \<Rightarrow> struct option" where
  "decode KStringish cur j = Some (GStr (Stringish_Unmarshal j))"
| "decode KIntish cur j = map_option GInt (Intish_Unmarshal j)"
| "decode KIntishPtr cur j = (if j = JNull then Some GNil else map_option GInt (Intish_Unmarshal j))"
| "decode KRaw cur j = Some (GRaw j)"
| "decode KString cur (JStr s) = Some (GStr s)"
| "decode KString cur JNull = Some (case cur of Some v \<Rightarrow> v | None \<Rightarrow> GStr '''')"
| "decode KBool cur (JBool b) = Some (GBool b)"
| "decode KBool cur JNull = Some (case cur of Some v \<Rightarrow> v | None \<Rightarrow> GBool False)"
| "decode KAnyMap cur (JObj kvs) = Some GAny"
| "decode KAnyMap cur JNull = Some GNil"
| "decode (KStruct fs) cur (JObj kvs) = map_option GStruct (decode_members fs (case cur of Some (GStruct d) \<Rightarrow> d | _ \<Rightarrow> []) kvs)"
| "decode (KStruct fs) cur JNull = Some GNil"
| "decode _ cur _ = None"
| "decode_members fs d [] = Some d"
| "decode_members fs d ((k, j) # kvs) = (case field_of fs k of
     None \<Rightarrow> decode_members fs d kvs
   | Some (t, kd) \<Rightarrow> (case decode kd (map_of d t) j of
       None \<Rightarrow> None
     | Some v \<Rightarrow> decode_members fs (set_field t v d) kvs))"

definition unmarshal_doc :: "fields \<Rightarrow> json \<Rightarrow> struct option" where
  "unmarshal_doc fs j = (case j of JNull \<Rightarrow> Some [] | JObj kvs \<Rightarrow> decode_members fs [] kvs | _ \<Rightarrow> None)"

definition json_err :: go_err where
  "json_err = ErrNew ''json: cannot unmarshal''"

definition unmarshal :: "fields \<Rightarrow> string \<Rightarrow> struct res" where
  "unmarshal fs s = (case Option.bind (json_parse s) (unmarshal_doc fs) of None \<Rightarrow> Inl json_err | Some d \<Rightarrow> Inr d)"

text \<open>The fields of a struct value: a field that is not set has its zero value.\<close>

definition str_of :: "struct \<Rightarrow> string \<Rightarrow> string" where
  "str_of d t = (case map_of d t of Some (GStr s) \<Rightarrow> s | _ \<Rightarrow> '''')"

definition ptr_of :: "struct \<Rightarrow> string \<Rightarrow> struct option" where
  "ptr_of d t = (case map_of d t of Some (GStruct x) \<Rightarrow> Some x | _ \<Rightarrow> None)"

section \<open>Form encoding\<close>

text \<open>\<open>strings.Cut(s, sep)\<close> on one character, and \<open>url.QueryUnescape\<close>.\<close>

definition cut :: "char \<Rightarrow> string \<Rightarrow> string \<times> string" where
  "cut c s = (takeWhile (\<lambda>x. x \<noteq> c) s, drop 1 (dropWhile (\<lambda>x. x \<noteq> c) s))"

fun query_unescape :: "string \<Rightarrow> string option" where
  "query_unescape [] = Some []"
| "query_unescape (c # s) =
     (if c = CHR ''%'' then (case s of
          a # b # t \<Rightarrow> (case (hex_digit a, hex_digit b) of
              (Some x, Some y) \<Rightarrow> map_option (\<lambda>r. char_of (16 * x + y) # r) (query_unescape t) | _ \<Rightarrow> None)
        | _ \<Rightarrow> None)
      else map_option (\<lambda>r. (if c = CHR ''+'' then CHR '' '' else c) # r) (query_unescape s))"

fun split_on :: "char \<Rightarrow> string \<Rightarrow> string \<Rightarrow> string list" where
  "split_on c acc [] = [rev acc]"
| "split_on c acc (x # s) = (if x = c then rev acc # split_on c [] s else split_on c (x # acc) s)"

definition query_pair :: "string \<Rightarrow> (string \<times> string) option" where
  "query_pair p = (if CHR '';'' \<in> set p then None else
     (case cut (CHR ''='') p of (k, v) \<Rightarrow>
       (case (query_unescape k, query_unescape v) of (Some k', Some v') \<Rightarrow> Some (k', v') | _ \<Rightarrow> None)))"

text \<open>\<open>ParseQuery\<close>: the pairs in order, or an error if one of them is malformed.\<close>

definition ParseQuery :: "string \<Rightarrow> (string \<times> string) list option" where
  "ParseQuery q = those (map query_pair (filter (\<lambda>p. p \<noteq> '''') (split_on (CHR ''&'') [] q)))"

section \<open>Dates\<close>

definition leap :: "int \<Rightarrow> bool" where
  "leap y \<longleftrightarrow> y mod 4 = 0 \<and> (y mod 100 \<noteq> 0 \<or> y mod 400 = 0)"

definition days_in :: "int \<Rightarrow> int \<Rightarrow> int" where
  "days_in y m = (if m = 2 then (if leap y then 29 else 28) else if m \<in> {4, 6, 9, 11} then 30 else 31)"

text \<open>Days from January 1 of year 1 to the given day, and Go's \<open>time.Date\<close> in UTC.\<close>

definition days_civil :: "int \<Rightarrow> int \<Rightarrow> int \<Rightarrow> int" where
  "days_civil y m d = (let p = y - 1 in 365 * p + p div 4 - p div 100 + p div 400 + (\<Sum>i\<leftarrow>[1..m - 1]. days_in y i) + (d - 1))"

definition time_date :: "int \<Rightarrow> int \<Rightarrow> int \<Rightarrow> int \<Rightarrow> int \<Rightarrow> int \<Rightarrow> int \<Rightarrow> time" where
  "time_date y mo d h mi s ns = days_civil y mo d * day_ns + ((h * 60 + mi) * 60 + s) * 1000000000 + ns"

definition two_digits :: "string \<Rightarrow> (int \<times> string) option" where
  "two_digits s = (case s of a # b # t \<Rightarrow> if is_digit a \<and> is_digit b then Some (digits_int [a, b], t) else None | _ \<Rightarrow> None)"

definition one_or_two_digits :: "string \<Rightarrow> (int \<times> string) option" where
  "one_or_two_digits s = (case s of
     a # t \<Rightarrow> if \<not> is_digit a then None else
       (case t of b # r \<Rightarrow> if is_digit b then Some (digits_int [a, b], r) else Some (digits_int [a], t) | [] \<Rightarrow> Some (digits_int [a], []))
   | [] \<Rightarrow> None)"

definition expect :: "char \<Rightarrow> string \<Rightarrow> string option" where
  "expect c s = (case s of a # t \<Rightarrow> if a = c then Some t else None | [] \<Rightarrow> None)"

text \<open>The layout \<open>2006-01-02\<close>, and what is left of the text.\<close>

definition scan_date :: "string \<Rightarrow> ((int \<times> int \<times> int) \<times> string) option" where
  "scan_date s =
     (if length s < 4 \<or> \<not> list_all is_digit (take 4 s) then None else
      Option.bind (expect (CHR ''-'') (drop 4 s)) (\<lambda>r.
      Option.bind (two_digits r) (\<lambda>(m, r1).
      if m < 1 \<or> 12 < m then None else
      Option.bind (expect (CHR ''-'') r1) (\<lambda>r2.
      Option.bind (two_digits r2) (\<lambda>(d, r3). Some ((digits_int (take 4 s), m, d), r3))))))"

definition valid_day :: "int \<Rightarrow> int \<Rightarrow> int \<Rightarrow> bool" where
  "valid_day y m d \<longleftrightarrow> 1 \<le> d \<and> d \<le> days_in y m"

definition parse_date :: "string \<Rightarrow> time option" where
  "parse_date s = (case scan_date s of
     Some ((y, m, d), []) \<Rightarrow> if valid_day y m d then Some (time_date y m d 0 0 0 0) else None | _ \<Rightarrow> None)"

text \<open>A fraction of a second is accepted after the seconds, although the layout has none.\<close>

definition scan_nanos :: "string \<Rightarrow> int \<times> string" where
  "scan_nanos s = (case s of
     c # a # t \<Rightarrow> if (c = CHR ''.'' \<or> c = CHR '','') \<and> is_digit a
       then (let ds = take 9 (takeWhile is_digit (a # t)) in (digits_int (ds @ replicate (9 - length ds) (CHR ''0'')), dropWhile is_digit (a # t)))
       else (0, s)
   | _ \<Rightarrow> (0, s))"

text \<open>The layout \<open>2006-01-02 15:04:05\<close>: a space in it stands for one or more spaces.\<close>

definition parse_datetime :: "string \<Rightarrow> time option" where
  "parse_datetime s =
     Option.bind (scan_date s) (\<lambda>((y, m, d), r).
     Option.bind (if r = [] then Some [] else expect (CHR '' '') r) (\<lambda>r0.
     Option.bind (one_or_two_digits (dropWhile (\<lambda>c. c = CHR '' '') r0)) (\<lambda>(h, r1).
     if 24 \<le> h then None else
     Option.bind (expect (CHR '':'') r1) (\<lambda>r2.
     Option.bind (two_digits r2) (\<lambda>(mi, r3).
     if 60 \<le> mi then None else
     Option.bind (expect (CHR '':'') r3) (\<lambda>r4.
     Option.bind (two_digits r4) (\<lambda>(se, r5).
     if 60 \<le> se then None else
     (case scan_nanos r5 of (ns, r6) \<Rightarrow>
       if r6 = [] \<and> valid_day y m d then Some (time_date y m d h mi se ns) else None))))))))"

end
