(* ===== verification/Idempotency.thy ===== *)
theory Idempotency
  imports Store Encoding
begin

text \<open>
  \<open>internal/manager/data/repo/idempotency_repo.go\<close>, \<open>internal/manager/api/idempotency/idempotency.go\<close> and
  \<open>internal/manager/api/deduplication/\<close>: one row per operation and key, and the processing of a webhook
  at most once per event identifier. A JSON column is the text stored in it.
\<close>

section \<open>IdempotencyRepo\<close>

definition ErrIdempotencyConflict :: go_err where
  "ErrIdempotencyConflict = Sentinel ''idempotency record already exists''"

definition ErrIdempotencyNotUpdated :: go_err where
  "ErrIdempotencyNotUpdated = Sentinel ''idempotency record not updated''"

definition isDuplicateKeyErr :: "go_err \<Rightarrow> bool" where
  "isDuplicateKeyErr e = contains (to_lower (err_text e)) ''duplicate key''"

definition add_idem :: "idempotency_request \<Rightarrow> tables \<Rightarrow> tables" where
  "add_idem r t = t\<lparr>t_idems := t_idems t @ [r]\<rparr>"

definition set_idem :: "uuid \<Rightarrow> string \<Rightarrow> string option \<Rightarrow> time \<Rightarrow> tables \<Rightarrow> tables" where
  "set_idem i st result now t = t\<lparr>t_idems := update_where (\<lambda>r. idem_ID r = i)
     (\<lambda>r. r\<lparr>idem_Status := st, idem_ResultJSON := result, idem_UpdatedAt := now\<rparr>) (t_idems t)\<rparr>"

definition idem_by_key :: "tables \<Rightarrow> string \<Rightarrow> string \<Rightarrow> idempotency_request option" where
  "idem_by_key t op k = find (\<lambda>r. idem_Operation r = op \<and> idem_Key r = k) (t_idems t)"

text \<open>The identifier and the times are defaults of the table.\<close>

definition IdemRepo_Create :: "string \<Rightarrow> string \<Rightarrow> string option \<Rightarrow> idempotency_request go" where
  "IdemRepo_Create op k uid = do {
     i \<leftarrow> new_uuid;
     r \<leftarrow> db_exec Pool (\<lambda>now t.
       let row = \<lparr>idem_ID = i, idem_Operation = op, idem_Key = k, idem_UserID = uid, idem_Status = ''pending'',
                  idem_ResultJSON = None, idem_CreatedAt = now, idem_UpdatedAt = now\<rparr>
       in if idem_unique (t_idems (add_idem row t)) then Inr (row, add_idem row) else Inl duplicate_key);
     (case r of
        Inl e \<Rightarrow> throw (if isDuplicateKeyErr e then ErrIdempotencyConflict else e)
      | Inr row \<Rightarrow> ok row)
   }"

definition IdemRepo_GetByOperationAndKey :: "string \<Rightarrow> string \<Rightarrow> idempotency_request go" where
  "IdemRepo_GetByOperationAndKey op k = db_query Pool (\<lambda>now t.
     case idem_by_key t op k of None \<Rightarrow> Inl ErrNoRows | Some r \<Rightarrow> Inr r)"

definition IdemRepo_UpdateStatus :: "uuid \<Rightarrow> string \<Rightarrow> string option \<Rightarrow> unit go" where
  "IdemRepo_UpdateStatus i st result = do {
     r \<leftarrow> db_exec Pool (\<lambda>now t. Inr (length (filter (\<lambda>r. idem_ID r = i) (t_idems t)), set_idem i st result now));
     (case r of
        Inl e \<Rightarrow> throw e
      | Inr rows \<Rightarrow> if rows = 0 then throw ErrIdempotencyNotUpdated else ok ())
   }"

section \<open>IdempotencyService\<close>

text \<open>\<open>Begin\<close> returns the record and whether it existed.\<close>

definition Idem_Begin :: "string \<Rightarrow> string \<Rightarrow> string option \<Rightarrow> (idempotency_request \<times> bool) go" where
  "Idem_Begin operation key uid =
     (let op = trim_space operation; k = trim_space key in
      if op = '''' \<or> k = '''' then throw (ErrNew ''idempotency operation and key are required'')
      else do {
        r \<leftarrow> IdemRepo_GetByOperationAndKey op k;
        (case r of
           Inr req \<Rightarrow> ok (req, True)
         | Inl e \<Rightarrow>
             if \<not> err_is e ErrNoRows then throw e
             else do {
               c \<leftarrow> IdemRepo_Create op k uid;
               (case c of
                  Inr req \<Rightarrow> ok (req, False)
                | Inl e \<Rightarrow>
                    if err_is e ErrIdempotencyConflict then do {
                      g \<leftarrow> IdemRepo_GetByOperationAndKey op k;
                      (case g of Inl e \<Rightarrow> throw e | Inr existing \<Rightarrow> ok (existing, True))
                    }
                    else throw e)
             })
      })"

definition Idem_Complete :: "uuid \<Rightarrow> string option \<Rightarrow> unit go" where
  "Idem_Complete i result = IdemRepo_UpdateStatus i ''success'' result"

definition Idem_Fail :: "uuid \<Rightarrow> go_err option \<Rightarrow> unit go" where
  "Idem_Fail i failure = IdemRepo_UpdateStatus i ''failed'' (map_option err_text failure)"

section \<open>DeduplicationService\<close>

definition webhook_operation :: "string \<Rightarrow> string \<Rightarrow> string" where
  "webhook_operation processor eventType = ''webhook.'' @ processor @ ''.'' @ eventType"

text \<open>
  The part of \<open>ProcessWebhook\<close> after the idempotency check: run the function and record the outcome;
  the errors of \<open>Complete\<close> and \<open>Fail\<close> are logged only. A panic passes.
\<close>

definition run_and_record :: "idempotency_request option \<Rightarrow> string option \<Rightarrow> unit go \<Rightarrow> unit go" where
  "run_and_record idemReq payload f = do {
     r \<leftarrow> f;
     (case r of
        Inl e \<Rightarrow>
          if is_panic e then throw e else do {
            (case idemReq of
               Some req \<Rightarrow> do { x \<leftarrow> Idem_Fail (idem_ID req) (Some e); State_Monad.return () }
             | None \<Rightarrow> State_Monad.return ());
            throw (ErrWrap ''webhook processing failed'' e)
          }
      | Inr _ \<Rightarrow> do {
          (case idemReq of
             Some req \<Rightarrow> do { x \<leftarrow> Idem_Complete (idem_ID req) payload; State_Monad.return () }
           | None \<Rightarrow> State_Monad.return ());
          ok ()
        })
   }"

definition ProcessWebhook :: "string \<Rightarrow> string \<Rightarrow> processor \<Rightarrow> string option \<Rightarrow> unit go \<Rightarrow> unit go" where
  "ProcessWebhook eventID eventType proc payload f =
     (let ev = trim_space eventID in
      if ev = '''' then run_and_record None payload f
      else do {
        b \<leftarrow> Idem_Begin (webhook_operation (processor_str proc) eventType) ev None;
        (case b of
           Inl e \<Rightarrow> throw (wrap_err ''failed to begin idempotency'' e)
         | Inr (req, exists) \<Rightarrow>
             if exists \<and> equal_fold (idem_Status req) ''success'' then ok ()
             else run_and_record (Some req) payload f)
      })"

definition parseRetentionPeriod :: "string \<Rightarrow> duration res" where
  "parseRetentionPeriod period =
     (if length period < 2 then Inl (ErrNew ''invalid period format'')
      else if last period \<noteq> CHR ''d'' then Inl (ErrNew ''only days (d) unit supported'')
      else (case atoi (butlast period) of
         None \<Rightarrow> Inl (ErrNew ''invalid number of days'')
       | Some days \<Rightarrow> Inr (days_dur days)))"

section \<open>Rows\<close>

lemma idem_tables [simp]:
  "t_idems (add_idem r t) = t_idems t @ [r]" "t_subs (add_idem r t) = t_subs t" "t_ents (add_idem r t) = t_ents t"
  "t_notifs (add_idem r t) = t_notifs t" "t_payments (add_idem r t) = t_payments t" "t_events (add_idem r t) = t_events t"
  "t_subs (set_idem i st x now t) = t_subs t" "t_ents (set_idem i st x now t) = t_ents t"
  "t_notifs (set_idem i st x now t) = t_notifs t" "t_payments (set_idem i st x now t) = t_payments t"
  "t_events (set_idem i st x now t) = t_events t"
  "t_idems (set_idem i st x now t) = update_where (\<lambda>r. idem_ID r = i)
     (\<lambda>r. r\<lparr>idem_Status := st, idem_ResultJSON := x, idem_UpdatedAt := now\<rparr>) (t_idems t)"
  by (simp_all add: add_idem_def set_idem_def)

lemma idem_unique_set: "idem_unique (t_idems (set_idem i st x now t)) = idem_unique (t_idems t)"
  by (simp add: idem_unique_def map_update_where)

lemma idem_by_key_add:
  "idem_by_key (add_idem r t) op k =
     (case idem_by_key t op k of Some x \<Rightarrow> Some x | None \<Rightarrow> if idem_Operation r = op \<and> idem_Key r = k then Some r else None)"
  by (auto simp: idem_by_key_def find_append split: option.split)

lemma idem_by_key_in: "idem_by_key t op k = Some r \<Longrightarrow> r \<in> set (t_idems t) \<and> idem_Operation r = op \<and> idem_Key r = k"
  unfolding idem_by_key_def by (drule find_Some_in) simp

lemma idem_by_key_set:
  "idem_by_key (set_idem i st x now t) op k = map_option
     (\<lambda>r. if idem_ID r = i then r\<lparr>idem_Status := st, idem_ResultJSON := x, idem_UpdatedAt := now\<rparr> else r) (idem_by_key t op k)"
proof -
  have "find (\<lambda>r. idem_Operation r = op \<and> idem_Key r = k) (update_where (\<lambda>r. idem_ID r = i)
      (\<lambda>r. r\<lparr>idem_Status := st, idem_ResultJSON := x, idem_UpdatedAt := now\<rparr>) rs) =
    map_option (\<lambda>r. if idem_ID r = i then r\<lparr>idem_Status := st, idem_ResultJSON := x, idem_UpdatedAt := now\<rparr> else r)
      (find (\<lambda>r. idem_Operation r = op \<and> idem_Key r = k) rs)" for rs
    by (induction rs) auto
  then show ?thesis
    by (simp add: idem_by_key_def)
qed

section \<open>Executing the service\<close>

lemma wp_GetByOperationAndKey [wp_simps]:
  "wp (IdemRepo_GetByOperationAndKey op k) Q w = (case db_fault Pool w of Some e \<Rightarrow> Q (Inl e) (tick w)
     | None \<Rightarrow> Q (case idem_by_key (w_db w) op k of None \<Rightarrow> Inl ErrNoRows | Some r \<Rightarrow> Inr r) (tick w))"
  unfolding IdemRepo_GetByOperationAndKey_def by (simp add: wp_simps split: option.split)

lemma wp_UpdateStatus [wp_simps]:
  "wp (IdemRepo_UpdateStatus i st x) Q w = (case db_fault Pool w of Some e \<Rightarrow> Q (Inl e) (tick w)
     | None \<Rightarrow> Q (if i \<in> idem_ID ` set (t_idems (w_db w)) then Inr () else Inl ErrIdempotencyNotUpdated)
                 (db_write Pool (set_idem i st x (clock_now w)) (tick w)))"
proof -
  have "(filter (\<lambda>r. idem_ID r = i) rs = []) = (i \<notin> idem_ID ` set rs)" for rs
    by (auto simp: filter_empty_conv image_iff)
  then show ?thesis
    unfolding IdemRepo_UpdateStatus_def by (auto simp: wp_simps split: option.split)
qed

lemma wp_Idem_existing:
  assumes "healthy w" "trim_space op \<noteq> ''''" "trim_space k \<noteq> ''''" "idem_by_key (w_db w) (trim_space op) (trim_space k) = Some r"
  shows "wp (Idem_Begin op k uid) Q w = Q (Inr (r, True)) (tick w)"
  using assms by (simp add: Idem_Begin_def Let_def wp_simps)

lemma wp_Idem_new:
  assumes "healthy w" "trim_space op \<noteq> ''''" "trim_space k \<noteq> ''''" "idem_by_key (w_db w) (trim_space op) (trim_space k) = None"
    and "row = \<lparr>idem_ID = env_uuid (w_env w) (Suc (w_pc w)), idem_Operation = trim_space op, idem_Key = trim_space k, idem_UserID = uid,
           idem_Status = ''pending'', idem_ResultJSON = None, idem_CreatedAt = clock_now (tick (tick w)), idem_UpdatedAt = clock_now (tick (tick w))\<rparr>"
    and "idem_unique (t_idems (add_idem row (w_db w)))"
  shows "wp (Idem_Begin op k uid) Q w = Q (Inr (row, False)) (db_write Pool (add_idem row) (tick (tick (tick w))))"
  using assms(1-4,6) unfolding assms(5) Idem_Begin_def IdemRepo_Create_def by (simp add: Let_def wp_simps)

end
