(* ===== verification/Webhook_Events.thy ===== *)
theory Webhook_Events
  imports Store
begin

text \<open>
  The persistence and retry of webhook events: \<open>internal/manager/web/webhook/webhook_event_service.go\<close>,
  \<open>webhook_processor.go\<close>, the River workers of \<open>internal/manager/data/river/jobs_webhooks.go\<close>, and the
  retry section of \<open>config/config.go\<close>. A service is \<open>None\<close> when it is nil. The handler of the
  dispatcher is an argument here: the processor treats it as a function of the event.
\<close>

section \<open>Configuration\<close>

record retry_config =
  rc_MaxAttempts :: int
  rc_InitialBackoff :: duration
  rc_MaxBackoff :: duration
  rc_BatchSize :: int

definition defaultWebhookRetryConfig :: retry_config where
  "defaultWebhookRetryConfig = \<lparr>rc_MaxAttempts = 5, rc_InitialBackoff = minute, rc_MaxBackoff = hour, rc_BatchSize = 100\<rparr>"

text \<open>The \<open>Webhooks\<close> section of the configuration may be absent.\<close>

definition GetWebhookRetryConfig :: "retry_config option \<Rightarrow> retry_config" where
  "GetWebhookRetryConfig cfg = (let defaults = defaultWebhookRetryConfig in case cfg of
     None \<Rightarrow> defaults
   | Some retry \<Rightarrow>
       let r1 = (if rc_MaxAttempts retry \<le> 0 then retry\<lparr>rc_MaxAttempts := rc_MaxAttempts defaults\<rparr> else retry);
           r2 = (if sint (rc_InitialBackoff r1) \<le> 0 then r1\<lparr>rc_InitialBackoff := rc_InitialBackoff defaults\<rparr> else r1);
           r3 = (if sint (rc_MaxBackoff r2) \<le> 0 then r2\<lparr>rc_MaxBackoff := rc_MaxBackoff defaults\<rparr> else r2);
           r4 = (if sint (rc_MaxBackoff r3) < sint (rc_InitialBackoff r3) then r3\<lparr>rc_MaxBackoff := rc_InitialBackoff r3\<rparr> else r3)
       in if rc_BatchSize r4 \<le> 0 then r4\<lparr>rc_BatchSize := rc_BatchSize defaults\<rparr> else r4)"

definition validateWebhookConfig :: "retry_config option \<Rightarrow> unit res" where
  "validateWebhookConfig cfg = (let retry = GetWebhookRetryConfig cfg in
     if rc_MaxAttempts retry < 1 then Inl (ErrNew ''max_attempts must be at least 1'')
     else if sint (rc_InitialBackoff retry) \<le> 0 then Inl (ErrNew ''initial_backoff must be positive'')
     else if sint (rc_MaxBackoff retry) < sint (rc_InitialBackoff retry)
       then Inl (ErrNew ''max_backoff must be greater than or equal to initial_backoff'')
     else if rc_BatchSize retry < 1 then Inl (ErrNew ''batch_size must be at least 1'')
     else Inr ())"

section \<open>WebhookEventService\<close>

abbreviation WebhookStatusPending :: string where "WebhookStatusPending \<equiv> ''pending''"
abbreviation WebhookStatusProcessing :: string where "WebhookStatusProcessing \<equiv> ''processing''"
abbreviation WebhookStatusProcessed :: string where "WebhookStatusProcessed \<equiv> ''processed''"
abbreviation WebhookStatusFailed :: string where "WebhookStatusFailed \<equiv> ''failed''"
abbreviation WebhookStatusError :: string where "WebhookStatusError \<equiv> ''error''"

record create_event_params =
  we_Processor :: string
  we_EventID :: string
  we_EventType :: string
  we_Payload :: string
  we_Headers :: "(string \<times> string) list"
  we_IPAddress :: string
  we_Signature :: string
  we_SignatureValid :: "bool option"

definition nilIfEmpty :: "string \<Rightarrow> string option" where
  "nilIfEmpty val = (let trimmed = trim_space val in if trimmed = '''' then None else Some trimmed)"

text \<open>\<open>msg[:2048]\<close> counts bytes.\<close>

definition truncateError :: "go_err \<Rightarrow> string" where
  "truncateError err = (let msg = err_text err in if length msg > 2048 then take 2048 msg else msg)"

text \<open>
  \<open>int\<close> is 64 bits wide: the shift drops the high bits, and the product of the two durations wraps.
\<close>

definition nextBackoff :: "retry_config \<Rightarrow> int \<Rightarrow> duration" where
  "nextBackoff retry attempt =
     (if attempt \<le> 0 then rc_InitialBackoff retry
      else let multiplier = push_bit (nat (attempt - 1)) (1 :: 64 word);
               backoff = multiplier * rc_InitialBackoff retry
           in if sint backoff > sint (rc_MaxBackoff retry) then rc_MaxBackoff retry else backoff)"

definition retryable :: "webhook_event \<Rightarrow> bool" where
  "retryable e \<longleftrightarrow> wh_Status e = WebhookStatusPending \<or> wh_Status e = WebhookStatusFailed"

definition event_by_id :: "tables \<Rightarrow> uuid \<Rightarrow> webhook_event option" where
  "event_by_id t i = find (\<lambda>e. wh_ID e = i) (t_events t)"

definition add_event :: "webhook_event \<Rightarrow> tables \<Rightarrow> tables" where
  "add_event e t = t\<lparr>t_events := t_events t @ [e]\<rparr>"

definition upd_event :: "uuid \<Rightarrow> (webhook_event \<Rightarrow> webhook_event) \<Rightarrow> tables \<Rightarrow> tables" where
  "upd_event i f t = t\<lparr>t_events := update_where (\<lambda>e. wh_ID e = i) f (t_events t)\<rparr>"

definition not_initialised :: go_err where
  "not_initialised = ErrNew ''webhook event service not initialised''"

text \<open>The identifier and the creation times are defaults of the table.\<close>

definition WE_Create :: "retry_config option \<Rightarrow> create_event_params \<Rightarrow> webhook_event go" where
  "WE_Create svc p = (case svc of None \<Rightarrow> throw not_initialised | Some retry \<Rightarrow>
     (let processor = trim_space (to_lower (we_Processor p)) in
      if processor = '''' then throw (ErrNew ''processor is required'')
      else if we_EventType p = '''' then throw (ErrNew ''event type is required'')
      else if we_IPAddress p = '''' then throw (ErrNew ''ip address is required'')
      else do {
        nextAttempt \<leftarrow> now_m;
        i \<leftarrow> new_uuid;
        r \<leftarrow> db_exec Pool (\<lambda>now t.
          let event = \<lparr>wh_ID = i, wh_Processor = processor, wh_EventID = nilIfEmpty (we_EventID p),
                wh_EventType = we_EventType p, wh_Status = WebhookStatusPending, wh_ProcessedAt = None,
                wh_RawPayload = we_Payload p, wh_Headers = we_Headers p, wh_IPAddress = we_IPAddress p,
                wh_SignatureValid = we_SignatureValid p, wh_Signature = nilIfEmpty (we_Signature p),
                wh_ProcessingResult = None, wh_ErrorMessage = None, wh_SubscriptionID = None, wh_UserID = None,
                wh_ProcessingAttempts = 0, wh_LastAttemptAt = None, wh_NextAttemptAt = nz_time (Some nextAttempt),
                wh_ReceivedAt = now, wh_CreatedAt = now, wh_UpdatedAt = now\<rparr>
          in if i \<in> wh_ID ` set (t_events t) then Inl ''duplicate key'' else Inr (event, add_event event));
        (case r of Inl e \<Rightarrow> throw (wrap_err ''insert webhook event'' e) | Inr event \<Rightarrow> ok event)
      }))"

definition WE_Get :: "retry_config option \<Rightarrow> uuid \<Rightarrow> webhook_event go" where
  "WE_Get svc i = (case svc of None \<Rightarrow> throw not_initialised
     | Some retry \<Rightarrow> db_query Pool (\<lambda>now t. case event_by_id t i of None \<Rightarrow> Inl ErrNoRows | Some e \<Rightarrow> Inr e))"

definition begun :: "time \<Rightarrow> webhook_event \<Rightarrow> webhook_event" where
  "begun now e = e\<lparr>wh_Status := WebhookStatusProcessing, wh_ProcessingAttempts := wh_ProcessingAttempts e + 1,
     wh_LastAttemptAt := Some now, wh_UpdatedAt := now, wh_NextAttemptAt := None\<rparr>"

definition begin_event :: "uuid \<Rightarrow> time \<Rightarrow> tables \<Rightarrow> tables" where
  "begin_event i now t = t\<lparr>t_events := update_where (\<lambda>e. wh_ID e = i \<and> retryable e) (begun now) (t_events t)\<rparr>"

text \<open>\<open>UPDATE ... WHERE id = ? AND status IN (...) RETURNING *\<close>: no row is \<open>sql.ErrNoRows\<close>.\<close>

definition WE_BeginProcessing :: "retry_config option \<Rightarrow> uuid \<Rightarrow> webhook_event go" where
  "WE_BeginProcessing svc i = (case svc of None \<Rightarrow> throw not_initialised | Some retry \<Rightarrow> do {
     now \<leftarrow> now_m;
     r \<leftarrow> db_exec Pool (\<lambda>_ t.
       Inr (map_option (begun now) (find (\<lambda>e. wh_ID e = i \<and> retryable e) (t_events t)), begin_event i now));
     (case r of Inl e \<Rightarrow> throw e | Inr None \<Rightarrow> throw ErrNoRows | Inr (Some e) \<Rightarrow> ok e)
   })"

definition processed :: "time \<Rightarrow> webhook_event \<Rightarrow> webhook_event" where
  "processed now e = e\<lparr>wh_Status := WebhookStatusProcessed, wh_ProcessedAt := Some now,
     wh_NextAttemptAt := None, wh_UpdatedAt := now\<rparr>"

definition WE_MarkProcessed :: "retry_config option \<Rightarrow> uuid \<Rightarrow> unit go" where
  "WE_MarkProcessed svc i = (case svc of None \<Rightarrow> throw not_initialised | Some retry \<Rightarrow> do {
     now \<leftarrow> now_m;
     r \<leftarrow> db_exec Pool (\<lambda>_ t. Inr ((), upd_event i (processed now)));
     (case r of Inl e \<Rightarrow> throw (wrap_err ''mark webhook processed'' e) | Inr _ \<Rightarrow> ok ())
   })"

definition failed_event :: "string \<Rightarrow> time option \<Rightarrow> string \<Rightarrow> time \<Rightarrow> webhook_event \<Rightarrow> webhook_event" where
  "failed_event status nextAttempt msg now e = e\<lparr>wh_Status := status, wh_ErrorMessage := Some msg,
     wh_NextAttemptAt := nextAttempt, wh_ProcessingResult := Some msg, wh_UpdatedAt := now\<rparr>"

text \<open>It returns \<open>shouldRetry\<close> along with the error of the statement.\<close>

definition WE_MarkFailure ::
  "retry_config option \<Rightarrow> webhook_event option \<Rightarrow> go_err \<Rightarrow> (world, bool \<times> go_err option) state" where
  "WE_MarkFailure svc ev failure = (case svc of
     None \<Rightarrow> State_Monad.return (False, Some not_initialised)
   | Some retry \<Rightarrow> (case ev of
       None \<Rightarrow> State_Monad.return (False, Some (ErrNew ''event is required''))
     | Some event \<Rightarrow> do {
         let attempts = wh_ProcessingAttempts event;
         let shouldRetry = (attempts < rc_MaxAttempts retry);
         now \<leftarrow> now_m;
         let nextAttempt = (if shouldRetry then Some (time_add now (nextBackoff retry attempts)) else None);
         let status = (if shouldRetry then WebhookStatusFailed else WebhookStatusError);
         r \<leftarrow> db_exec Pool (\<lambda>_ t. Inr ((), upd_event (wh_ID event) (failed_event status nextAttempt (truncateError failure) now)));
         State_Monad.return (shouldRetry,
           case r of Inl e \<Rightarrow> Some (wrap_err ''mark webhook failure'' e) | Inr _ \<Rightarrow> None)
       }))"

definition due :: "time \<Rightarrow> webhook_event \<Rightarrow> bool" where
  "due now e \<longleftrightarrow> retryable e \<and> (case wh_NextAttemptAt e of None \<Rightarrow> True | Some x \<Rightarrow> x \<le> now)"

definition WE_ListRetryable :: "retry_config option \<Rightarrow> int \<Rightarrow> webhook_event list go" where
  "WE_ListRetryable svc limit = (case svc of None \<Rightarrow> throw not_initialised | Some retry \<Rightarrow>
     (let n = (if limit \<le> 0 then rc_BatchSize retry else limit) in
      db_query Pool (\<lambda>now t.
        let es = sort_key wh_ReceivedAt (filter (due now) (t_events t))
        in Inr (if n > 0 then take (nat n) es else es))))"

section \<open>WebhookProcessor\<close>

text \<open>
  \<open>Process\<close> returns whether a retry has been scheduled, and an error. \<open>handle\<close> is
  \<open>WebhookDispatcher.Process\<close>; a panic of it passes through.
\<close>

definition WP_Process ::
  "(webhook_event \<Rightarrow> unit go) option \<Rightarrow> retry_config option \<Rightarrow> uuid \<Rightarrow> (world, bool \<times> go_err option) state" where
  "WP_Process dispatcher svc i = (case (dispatcher, svc) of
     (Some handle, Some retry) \<Rightarrow> do {
       b \<leftarrow> WE_BeginProcessing svc i;
       (case b of
          Inl e \<Rightarrow> State_Monad.return (False, Some (wrap_err ''begin webhook processing'' e))
        | Inr event \<Rightarrow> do {
            r \<leftarrow> handle event;
            (case r of
               Inl err \<Rightarrow>
                 if is_panic err then State_Monad.return (False, Some err) else do {
                   (retried, markErr) \<leftarrow> WE_MarkFailure svc (Some event) err;
                   State_Monad.return (retried, Some (case markErr of
                     Some e \<Rightarrow> wrap_err ''mark webhook failure'' e | None \<Rightarrow> err))
                 }
             | Inr _ \<Rightarrow> do {
                 m \<leftarrow> WE_MarkProcessed svc i;
                 State_Monad.return (False, case m of
                   Inl e \<Rightarrow> Some (wrap_err ''mark webhook success'' e) | Inr _ \<Rightarrow> None)
               })
          })
     }
   | _ \<Rightarrow> State_Monad.return (False, Some (ErrNew ''webhook processor not initialised'')))"

section \<open>The River workers\<close>

definition WebhookProcessWorker_Work ::
  "(webhook_event \<Rightarrow> unit go) option \<Rightarrow> retry_config option \<Rightarrow> uuid \<Rightarrow> unit go" where
  "WebhookProcessWorker_Work proc svc i = do {
     (retry, err) \<leftarrow> WP_Process proc svc i;
     (case err of Some e \<Rightarrow> throw e | None \<Rightarrow> ok ())
   }"

text \<open>The retry worker goes on after an error and returns the first one (a panic ends it).\<close>

fun retry_all :: "(webhook_event \<Rightarrow> unit go) option \<Rightarrow> retry_config option \<Rightarrow> webhook_event list \<Rightarrow> go_err option \<Rightarrow> unit go" where
  "retry_all proc svc [] firstErr = (case firstErr of None \<Rightarrow> ok () | Some e \<Rightarrow> throw e)"
| "retry_all proc svc (e # es) firstErr = do {
     (retry, err) \<leftarrow> WP_Process proc svc (wh_ID e);
     (case err of
        Some x \<Rightarrow> if is_panic x then throw x
          else retry_all proc svc es (case firstErr of None \<Rightarrow> Some x | Some y \<Rightarrow> Some y)
      | None \<Rightarrow> retry_all proc svc es firstErr)
   }"

definition WebhookRetryWorker_Work ::
  "(webhook_event \<Rightarrow> unit go) option \<Rightarrow> retry_config option \<Rightarrow> unit go" where
  "WebhookRetryWorker_Work proc svc = (case svc of
     None \<Rightarrow> throw (ErrNew ''webhook retry worker not configured'')
   | Some retry \<Rightarrow> do {
       l \<leftarrow> WE_ListRetryable svc 0;
       (case l of
          Inl e \<Rightarrow> throw (wrap_err ''list retryable webhooks'' e)
        | Inr es \<Rightarrow> retry_all proc svc es None)
     })"

end
