(* ===== verification/Webhook_Types.thy ===== *)
theory Webhook_Types
  imports Encoding
begin

text \<open>
  The payload structs of \<open>internal/manager/api/types/types.go\<close>, each as the list of its fields with their JSON
  tags and types (an embedded struct contributes its fields; a field tagged \<open>-\<close> is not decoded).
\<close>

definition NMIWebhookEvent_fields :: fields where
  "NMIWebhookEvent_fields =
    [(''event_id'', KString), (''event_type'', KString), (''event_body'', KRaw)]"

definition NMIBillingAddress_fields :: fields where
  "NMIBillingAddress_fields =
    [(''address_1'', KString), (''address_2'', KString), (''cell_phone'', KString), (''city'', KString),
    (''company'', KString), (''country'', KString), (''email'', KString), (''fax'', KString), (''first_name'', KString),
    (''last_name'', KString), (''phone'', KString), (''postal_code'', KString), (''state'', KString)]"

definition NMICard_fields :: fields where
  "NMICard_fields =
    [(''avs_response'', KString), (''card_available_balance'', KString), (''card_balance'', KString),
    (''cardholder_auth'', KString), (''cavv'', KString), (''cavv_result'', KString), (''cc_bin'', KString),
    (''cc_exp'', KString), (''cc_issue_number'', KString), (''cc_number'', KString), (''cc_start_date'', KString),
    (''cc_type'', KString), (''csc_response'', KString), (''eci'', KString), (''entry_mode'', KString), (''xid'', KString)]"

definition NMIFeatures_fields :: fields where
  "NMIFeatures_fields =
    [(''is_test_mode'', KBool)]"

definition NMIMerchant_fields :: fields where
  "NMIMerchant_fields =
    [(''id'', KStringish), (''name'', KString)]"

definition NMIPlan_fields :: fields where
  "NMIPlan_fields =
    [(''name'', KString), (''amount'', KStringish), (''payments'', KStringish), (''day_of_month'', KIntishPtr),
    (''day_frequency'', KIntishPtr), (''month_frequency'', KIntishPtr), (''id'', KStringish)]"

definition NMIRecurringEventBody_fields :: fields where
  "NMIRecurringEventBody_fields =
    [(''subscription_id'', KStringish), (''attempted_payments'', KIntish), (''completed_payments'', KIntish),
    (''billing_address'', KStruct NMIBillingAddress_fields), (''card'', KStruct NMICard_fields),
    (''features'', KStruct NMIFeatures_fields), (''merchant'', KStruct NMIMerchant_fields),
    (''next_charge_date'', KStringish), (''order_description'', KStringish), (''order_id'', KStringish),
    (''plan'', KStruct NMIPlan_fields), (''ponumber'', KStringish), (''processor_id'', KStringish),
    (''remaining_payments'', KStringish), (''shipping'', KStringish), (''subscription_type'', KStringish),
    (''tax'', KStringish), (''website'', KStringish)]"

definition NMISubscriptionRef_fields :: fields where
  "NMISubscriptionRef_fields =
    [(''subscription_id'', KStringish), (''plan_id'', KStringish)]"

definition NMIAction_fields :: fields where
  "NMIAction_fields =
    [(''amount'', KStringish), (''action_type'', KString), (''date'', KString), (''success'', KStringish),
    (''ip_address'', KString), (''source'', KString), (''api_method'', KString), (''username'', KString),
    (''response'', KStringish), (''response_code'', KStringish), (''response_text'', KString),
    (''processor_response_text'', KString), (''processor_response_code'', KString), (''network_token_used'', KBool),
    (''network_token_cryptogram_created'', KBool), (''device_license_number'', KString), (''device_nickname'', KString),
    (''type'', KString)]"

definition NMITransactionDetail_fields :: fields where
  "NMITransactionDetail_fields =
    [(''transaction_id'', KStringish), (''amount'', KStringish), (''currency'', KStringish), (''order_id'', KStringish),
    (''ponumber'', KStringish), (''customerid'', KStringish), (''customer_vault_id'', KStringish),
    (''subscription'', KStruct NMISubscriptionRef_fields), (''action'', KStruct NMIAction_fields)]"

definition NMITransactionEventBody_fields :: fields where
  "NMITransactionEventBody_fields =
    [(''transaction_id'', KStringish), (''transaction_type'', KStringish), (''condition'', KStringish),
    (''amount'', KStringish), (''requested_amount'', KStringish), (''currency'', KStringish), (''order_id'', KStringish),
    (''order_description'', KStringish), (''ponumber'', KStringish), (''processor_id'', KStringish),
    (''customerid'', KStringish), (''customertaxid'', KStringish), (''customer_vault_id'', KStringish),
    (''website'', KStringish), (''shipping'', KStringish), (''shipping_carrier'', KStringish),
    (''tracking_number'', KStringish), (''shipping_date'', KStringish), (''tax'', KStringish), (''surcharge'', KStringish),
    (''convenience_fee'', KStringish), (''misc_fee'', KStringish), (''misc_fee_name'', KStringish),
    (''cash_discount'', KStringish), (''tip'', KStringish), (''partial_payment_id'', KStringish),
    (''partial_payment_balance'', KStringish), (''platform_id'', KStringish), (''authorization_code'', KStringish),
    (''social_security_number'', KStringish), (''drivers_license_number'', KStringish),
    (''drivers_license_state'', KStringish), (''drivers_license_dob'', KStringish),
    (''merchant'', KStruct NMIMerchant_fields), (''features'', KStruct NMIFeatures_fields),
    (''subscription'', KStruct NMISubscriptionRef_fields), (''action'', KStruct NMIAction_fields),
    (''transaction'', KStruct NMITransactionDetail_fields), (''billing_address'', KStruct NMIBillingAddress_fields),
    (''shipping_address'', KStruct NMIBillingAddress_fields), (''card'', KStruct NMICard_fields)]"

definition NMIPaymentInfo_fields :: fields where
  "NMIPaymentInfo_fields =
    [(''last_four'', KStringish), (''card_type'', KStringish), (''expiry_date'', KStringish)]"

definition NMIACUEventBody_fields :: fields where
  "NMIACUEventBody_fields =
    [(''vault_id'', KStringish), (''customer_id'', KStringish), (''subscription'', KStruct NMISubscriptionRef_fields),
    (''payment_method'', KStruct NMIPaymentInfo_fields)]"

definition CCBillCommonFields_fields :: fields where
  "CCBillCommonFields_fields =
    [(''clientAccnum'', KStringish), (''clientSubacc'', KString), (''subscriptionId'', KString), (''timestamp'', KString)]"

definition CCBillNewSaleSuccessEvent_fields :: fields where
  "CCBillNewSaleSuccessEvent_fields =
    [(''subscriptionId'', KString), (''transactionId'', KString), (''clientAccnum'', KString), (''clientSubacc'', KString),
    (''timestamp'', KString), (''firstName'', KString), (''lastName'', KString), (''address1'', KString),
    (''city'', KString), (''state'', KString), (''country'', KString), (''postalCode'', KString), (''email'', KString),
    (''phoneNumber'', KString), (''ipAddress'', KString), (''username'', KString), (''password'', KString),
    (''formName'', KString), (''flexId'', KString), (''productDesc'', KString), (''priceDescription'', KString),
    (''recurringPriceDescription'', KString), (''billedInitialPrice'', KString), (''billedRecurringPrice'', KString),
    (''billedCurrencyCode'', KStringish), (''subscriptionInitialPrice'', KString),
    (''subscriptionRecurringPrice'', KString), (''subscriptionCurrencyCode'', KStringish),
    (''accountingInitialPrice'', KString), (''accountingRecurringPrice'', KString),
    (''accountingCurrencyCode'', KStringish), (''initialPeriod'', KStringish), (''recurringPeriod'', KStringish),
    (''rebills'', KStringish), (''nextRenewalDate'', KString), (''subscriptionTypeId'', KString),
    (''paymentType'', KString), (''cardType'', KString), (''bin'', KString), (''prePaid'', KString), (''last4'', KString),
    (''expDate'', KString), (''avsResponse'', KString), (''cvv2Response'', KString), (''paymentAccount'', KString),
    (''threeDSecure'', KString), (''cardSubType'', KString), (''reservationId'', KString),
    (''dynamicPricingValidationDigest'', KString), (''affiliateSystem'', KString), (''referringUrl'', KString),
    (''lifeTimeSubscription'', KStringish), (''lifeTimePrice'', KString)]"

definition CCBillUpgradeSuccessEvent_fields :: fields where
  "CCBillUpgradeSuccessEvent_fields =
    [(''subscriptionId'', KString), (''transactionId'', KString), (''clientAccnum'', KString), (''clientSubacc'', KString),
    (''timestamp'', KString), (''firstName'', KString), (''lastName'', KString), (''address1'', KString),
    (''city'', KString), (''state'', KString), (''country'', KString), (''postalCode'', KString), (''email'', KString),
    (''phoneNumber'', KString), (''ipAddress'', KString), (''reservationId'', KString), (''username'', KString),
    (''password'', KString), (''formName'', KString), (''flexId'', KString), (''productDesc'', KString),
    (''priceDescription'', KString), (''recurringPriceDescription'', KString), (''billedInitialPrice'', KString),
    (''billedRecurringPrice'', KString), (''billedCurrencyCode'', KStringish), (''subscriptionInitialPrice'', KString),
    (''subscriptionRecurringPrice'', KString), (''subscriptionCurrencyCode'', KStringish),
    (''accountingInitialPrice'', KString), (''accountingRecurringPrice'', KString),
    (''accountingCurrencyCode'', KStringish), (''initialPeriod'', KStringish), (''recurringPeriod'', KStringish),
    (''rebills'', KStringish), (''nextRenewalDate'', KString), (''subscriptionTypeId'', KString),
    (''dynamicPricingValidationDigest'', KString), (''paymentType'', KString), (''cardType'', KString), (''bin'', KString),
    (''prePaid'', KString), (''last4'', KString), (''expDate'', KString), (''avsResponse'', KString),
    (''cvv2Response'', KString), (''paymentAccount'', KString), (''threeDSecure'', KString), (''cardSubType'', KString),
    (''affiliateSystem'', KString), (''referringUrl'', KString), (''lifeTimeSubscription'', KStringish),
    (''lifeTimePrice'', KString), (''originalSubscriptionId'', KString), (''originalClientAccnum'', KString),
    (''originalClientSubacc'', KString), (''source'', KString), (''scaResponseStatus'', KString)]"

definition CCBillUpgradeFailureEvent_fields :: fields where
  "CCBillUpgradeFailureEvent_fields =
    [(''transactionId'', KString), (''clientAccnum'', KString), (''clientSubacc'', KString), (''timestamp'', KString),
    (''firstName'', KString), (''lastName'', KString), (''address1'', KString), (''city'', KString), (''state'', KString),
    (''country'', KString), (''postalCode'', KString), (''email'', KString), (''phoneNumber'', KString),
    (''ipAddress'', KString), (''reservationId'', KString), (''username'', KString), (''password'', KString),
    (''formName'', KString), (''flexId'', KString), (''priceDescription'', KString),
    (''recurringPriceDescription'', KString), (''billedInitialPrice'', KString), (''billedRecurringPrice'', KString),
    (''billedCurrencyCode'', KStringish), (''subscriptionInitialPrice'', KString),
    (''subscriptionRecurringPrice'', KString), (''subscriptionCurrencyCode'', KStringish),
    (''accountingInitialPrice'', KString), (''accountingRecurringPrice'', KString),
    (''accountingCurrencyCode'', KStringish), (''initialPeriod'', KStringish), (''recurringPeriod'', KStringish),
    (''rebills'', KStringish), (''subscriptionTypeId'', KString), (''dynamicPricingValidationDigest'', KString),
    (''paymentType'', KString), (''cardType'', KString), (''prePaid'', KString), (''avsResponse'', KString),
    (''cvv2Response'', KString), (''paymentAccount'', KString), (''last4'', KString), (''expDate'', KString),
    (''threeDSecure'', KString), (''affiliateSystem'', KString), (''referringUrl'', KString),
    (''lifeTimeSubscription'', KStringish), (''lifeTimePrice'', KString), (''failureReason'', KString),
    (''failureCode'', KString), (''originalSubscriptionId'', KString), (''originalClientAccnum'', KStringish),
    (''originalClientSubacc'', KString), (''source'', KString), (''bin'', KStringish), (''scaResponseStatus'', KString),
    (''cardSubType'', KString), (''passThrough'', KAnyMap)]"

definition CCBillBillingDateChangeEvent_fields :: fields where
  "CCBillBillingDateChangeEvent_fields =
    [(''subscriptionId'', KString), (''clientAccnum'', KString), (''clientSubacc'', KString), (''timestamp'', KString),
    (''nextRenewalDate'', KString)]"

definition CCBillCustomerDataUpdateEvent_fields :: fields where
  "CCBillCustomerDataUpdateEvent_fields =
    [(''subscriptionId'', KString), (''clientAccnum'', KString), (''clientSubacc'', KString), (''timestamp'', KString),
    (''firstName'', KString), (''lastName'', KString), (''paymentAccount'', KString), (''address1'', KString),
    (''city'', KString), (''state'', KString), (''country'', KString), (''postalCode'', KString), (''email'', KString),
    (''phoneNumber'', KString), (''ipAddress'', KString), (''reservationId'', KString), (''username'', KString),
    (''password'', KString), (''paymentType'', KString), (''cardType'', KString), (''bin'', KStringish),
    (''expDate'', KString)]"

definition CCBillUserReactivationEvent_fields :: fields where
  "CCBillUserReactivationEvent_fields =
    [(''subscriptionId'', KString), (''transactionId'', KString), (''price'', KString), (''clientAccnum'', KString),
    (''clientSubacc'', KString), (''email'', KString), (''username'', KString), (''password'', KString),
    (''nextRenewalDate'', KString)]"

definition CCBillRenewalSuccessEvent_fields :: fields where
  "CCBillRenewalSuccessEvent_fields =
    [(''transactionId'', KString), (''subscriptionId'', KString), (''clientAccnum'', KString), (''clientSubacc'', KString),
    (''timestamp'', KString), (''billedAmount'', KString), (''billedCurrency'', KString),
    (''billedCurrencyCode'', KStringish), (''accountingAmount'', KString), (''accountingCurrency'', KString),
    (''accountingCurrencyCode'', KStringish), (''nextRenewalDate'', KString), (''renewalDate'', KString),
    (''cardType'', KString), (''paymentAccount'', KString), (''paymentType'', KString), (''last4'', KString),
    (''expDate'', KString), (''cardSubType'', KString)]"

definition CCBillCancellationEvent_fields :: fields where
  "CCBillCancellationEvent_fields =
    CCBillCommonFields_fields @ [(''reason'', KString), (''source'', KString)]"

definition CCBillExpirationEvent_fields :: fields where
  "CCBillExpirationEvent_fields =
    CCBillCommonFields_fields @ []"

definition CCBillRenewalFailureEvent_fields :: fields where
  "CCBillRenewalFailureEvent_fields =
    [(''transactionId'', KString), (''subscriptionId'', KString), (''clientAccnum'', KString), (''clientSubacc'', KString),
    (''timestamp'', KString), (''failureReason'', KString), (''failureCode'', KString), (''nextRetryDate'', KString),
    (''renewalDate'', KString), (''cardType'', KString), (''paymentType'', KString), (''cardSubType'', KString)]"

definition CCBillNewSaleFailureEvent_fields :: fields where
  "CCBillNewSaleFailureEvent_fields =
    [(''transactionId'', KString), (''clientAccnum'', KString), (''clientSubacc'', KString), (''timestamp'', KString),
    (''firstName'', KString), (''lastName'', KString), (''address1'', KString), (''city'', KString), (''state'', KString),
    (''country'', KString), (''postalCode'', KString), (''email'', KString), (''phoneNumber'', KString),
    (''ipAddress'', KString), (''username'', KString), (''password'', KString), (''formName'', KString),
    (''flexId'', KString), (''priceDescription'', KString), (''recurringPriceDescription'', KString),
    (''billedInitialPrice'', KString), (''billedRecurringPrice'', KString), (''billedCurrencyCode'', KStringish),
    (''subscriptionInitialPrice'', KString), (''subscriptionRecurringPrice'', KString),
    (''subscriptionCurrencyCode'', KStringish), (''accountingInitialPrice'', KString),
    (''accountingRecurringPrice'', KString), (''accountingCurrencyCode'', KStringish), (''initialPeriod'', KStringish),
    (''recurringPeriod'', KStringish), (''rebills'', KStringish), (''subscriptionTypeId'', KString),
    (''paymentType'', KString), (''cardType'', KString), (''prePaid'', KString), (''avsResponse'', KString),
    (''cvv2Response'', KString), (''paymentAccount'', KString), (''threeDSecure'', KString), (''cardSubType'', KString),
    (''failureReason'', KString), (''failureCode'', KString), (''reservationId'', KString),
    (''dynamicPricingValidationDigest'', KString), (''affiliateSystem'', KString), (''referringUrl'', KString),
    (''lifeTimeSubscription'', KStringish), (''lifeTimePrice'', KString)]"

definition CCBillRefundEvent_fields :: fields where
  "CCBillRefundEvent_fields =
    [(''transactionId'', KString), (''subscriptionId'', KString), (''clientAccnum'', KString), (''clientSubacc'', KString),
    (''timestamp'', KString), (''amount'', KString), (''currency'', KString), (''currencyCode'', KStringish),
    (''reason'', KString), (''accountingAmount'', KString), (''accountingCurrency'', KString),
    (''accountingCurrencyCode'', KStringish), (''cardType'', KString), (''paymentAccount'', KString),
    (''paymentType'', KString), (''last4'', KString), (''expDate'', KString)]"

definition CCBillChargebackEvent_fields :: fields where
  "CCBillChargebackEvent_fields =
    [(''transactionId'', KString), (''subscriptionId'', KString), (''clientAccnum'', KString), (''clientSubacc'', KString),
    (''timestamp'', KString), (''amount'', KString), (''currency'', KString), (''currencyCode'', KStringish),
    (''reason'', KString), (''accountingAmount'', KString), (''accountingCurrency'', KString),
    (''accountingCurrencyCode'', KStringish), (''cardType'', KString), (''paymentAccount'', KString),
    (''paymentType'', KString), (''bin'', KString), (''last4'', KString), (''expDate'', KString)]"

definition CCBillVoidEvent_fields :: fields where
  "CCBillVoidEvent_fields =
    [(''transactionId'', KString), (''subscriptionId'', KString), (''clientAccnum'', KString), (''clientSubacc'', KString),
    (''timestamp'', KString), (''amount'', KString), (''currency'', KString), (''currencyCode'', KStringish),
    (''reason'', KString), (''accountingAmount'', KString), (''accountingCurrency'', KString),
    (''accountingCurrencyCode'', KStringish), (''cardType'', KString), (''paymentAccount'', KString),
    (''paymentType'', KString), (''last4'', KString), (''expDate'', KString)]"

end
