(* ===== verification/Webhook_Common.thy ===== *)
theory Webhook_Common
  imports Lifecycle Payments Idempotency Webhook_Events Webhook_Types
begin

text \<open>
  What the webhook handlers share: the services a dispatcher is built from, the dead letters
  (\<open>internal/manager/api/dead-letter/\<close>), the aliases of CCBill users
  (\<open>internal/manager/api/cc-bill-alias/\<close>, \<open>internal/manager/data/repo/ccbill_username_alias.go\<close>), the analytics
  events and the notifications they send.
\<close>

section \<open>The services\<close>

text \<open>
  Which of the optional services are configured (not nil); \<open>ws_CCBill\<close> is the form identifier and name of the
  CCBill client, \<open>ws_NMI\<close> the providers that have an NMI client, \<open>ws_Mail\<close> whether the lifecycle service delivers mail.
\<close>

record wd_services =
  ws_Subs :: bool
  ws_Mail :: bool
  ws_Notif :: bool
  ws_Billing :: bool
  ws_Payment :: bool
  ws_Dedup :: bool
  ws_Alias :: bool
  ws_CCBill :: "(string \<times> string) option"
  ws_NMI :: "string list"

definition sub_lookup :: "wd_services \<Rightarrow> processor \<Rightarrow> string \<Rightarrow> string \<Rightarrow> subscription go" where
  "sub_lookup svc proc provider k =
     (if ws_Subs svc then SubRepo_GetByProcessorSubscriptionID Pool (processor_str proc) provider k
      else throw (GoPanic ''nil SubscriptionService''))"

section \<open>Analytics events\<close>

text \<open>The error of the analytics service is logged only; the event has an identifier and a timestamp of its own.\<close>

definition emit :: "wd_services \<Rightarrow> billing_event \<Rightarrow> (world, unit) state" where
  "emit svc b = (if ws_Billing svc then do { i \<leftarrow> new_uuid; now \<leftarrow> now_m; log_event b } else State_Monad.return ())"

definition payment_event :: "string \<Rightarrow> string \<Rightarrow> uuid option \<Rightarrow> string \<Rightarrow> fval option \<Rightarrow> string \<Rightarrow> string option \<Rightarrow>
    (string \<times> meta) list \<Rightarrow> (string \<times> meta) list \<Rightarrow> billing_event" where
  "payment_event ev proc i u amount currency ref info md = \<lparr>be_Kind = ''payment'', be_EventType = ev, be_Processor = proc,
     be_SubscriptionID = i, be_UserID = u, be_Amount = amount, be_Currency = currency, be_Ref = ref, be_BillingInfo = info, be_Metadata = md\<rparr>"

definition subscription_event :: "string \<Rightarrow> subscription \<Rightarrow> string \<Rightarrow> (string \<times> meta) list \<Rightarrow> billing_event" where
  "subscription_event ev s k md = \<lparr>be_Kind = ''subscription'', be_EventType = ev, be_Processor = ''ccbill'',
     be_SubscriptionID = Some (sub_ID s), be_UserID = sub_UserID s, be_Amount = None, be_Currency = '''', be_Ref = Some k,
     be_BillingInfo = [], be_Metadata = md\<rparr>"

section \<open>Notifications\<close>

text \<open>
  \<open>NotificationService.CreateAndDeliver\<close> on the service's own connection, also when a transaction is open;
  its error is logged only (a panic is not possible in it).
\<close>

definition notify :: "wd_services \<Rightarrow> string \<Rightarrow> notif_event \<Rightarrow> (string \<times> meta) list \<Rightarrow> (world, unit) state" where
  "notify svc u ev d = (if ws_Notif svc then do {
     i \<leftarrow> new_uuid;
     r \<leftarrow> CreateAndDeliver Pool (new_notification i u ev d);
     State_Monad.return ()
   } else State_Monad.return ())"

section \<open>Dead letters\<close>

record dead_letter =
  dl_Processor :: string
  dl_EventType :: string
  dl_RawPayload :: string
  dl_FailureReason :: string
  dl_ProcessingError :: string
  dl_Headers :: "(string \<times> string) list"
  dl_ClientIP :: string
  dl_ProcessingStatus :: string

definition dead_letter_row :: "dead_letter \<Rightarrow> uuid \<Rightarrow> time \<Rightarrow> webhook_event" where
  "dead_letter_row p i now = \<lparr>wh_ID = i, wh_Processor = dl_Processor p, wh_EventID = None, wh_EventType = dl_EventType p,
     wh_Status = dl_ProcessingStatus p, wh_ProcessedAt = None,
     wh_RawPayload = (if dl_RawPayload p = '''' then ''null'' else dl_RawPayload p), wh_Headers = dl_Headers p,
     wh_IPAddress = dl_ClientIP p, wh_SignatureValid = None, wh_Signature = None,
     wh_ProcessingResult = Some (marshal_map [(''failure_reason'', dl_FailureReason p)]),
     wh_ErrorMessage = (if dl_ProcessingError p \<noteq> '''' then Some (dl_ProcessingError p) else None),
     wh_SubscriptionID = None, wh_UserID = None, wh_ProcessingAttempts = 0, wh_LastAttemptAt = None, wh_NextAttemptAt = None,
     wh_ReceivedAt = now, wh_CreatedAt = now, wh_UpdatedAt = now\<rparr>"

text \<open>The identifier is a default of the table.\<close>

definition DL_persist :: "dead_letter \<Rightarrow> unit go" where
  "DL_persist p = do {
     i \<leftarrow> new_uuid;
     db_exec Pool (\<lambda>now t. if i \<in> wh_ID ` set (t_events t) then Inl duplicate_key else Inr ((), add_event (dead_letter_row p i now)))
   }"

definition LogDeadLetter :: "dead_letter \<Rightarrow> unit go" where
  "LogDeadLetter p = do { i \<leftarrow> new_uuid; now \<leftarrow> now_m; r \<leftarrow> DL_persist p; ok () }"

definition LogUnknownEvent :: "string \<Rightarrow> string \<Rightarrow> string \<Rightarrow> (string \<times> string) list \<Rightarrow> string \<Rightarrow> unit go" where
  "LogUnknownEvent proc eventType payload headers ip = LogDeadLetter
     \<lparr>dl_Processor = proc, dl_EventType = eventType, dl_RawPayload = payload,
      dl_FailureReason = ''Unknown or unsupported event type'', dl_ProcessingError = ''Event type not implemented in webhook handler'',
      dl_Headers = headers, dl_ClientIP = ip, dl_ProcessingStatus = ''unknown_event''\<rparr>"

definition LogProcessingFailure :: "string \<Rightarrow> string \<Rightarrow> string \<Rightarrow> go_err \<Rightarrow> (string \<times> string) list \<Rightarrow> string \<Rightarrow> unit go" where
  "LogProcessingFailure proc eventType payload err headers ip = LogDeadLetter
     \<lparr>dl_Processor = proc, dl_EventType = eventType, dl_RawPayload = payload,
      dl_FailureReason = ''Processing error occurred'', dl_ProcessingError = err_text err,
      dl_Headers = headers, dl_ClientIP = ip, dl_ProcessingStatus = ''failed''\<rparr>"

definition LogInvalidPayload :: "string \<Rightarrow> string \<Rightarrow> go_err \<Rightarrow> (string \<times> string) list \<Rightarrow> string \<Rightarrow> unit go" where
  "LogInvalidPayload proc payload err headers ip = LogDeadLetter
     \<lparr>dl_Processor = proc, dl_EventType = ''unknown'', dl_RawPayload = payload,
      dl_FailureReason = ''Invalid or malformed payload'', dl_ProcessingError = err_text err,
      dl_Headers = headers, dl_ClientIP = ip, dl_ProcessingStatus = ''invalid_payload''\<rparr>"

definition LogAuthenticationFailure :: "string \<Rightarrow> string \<Rightarrow> go_err \<Rightarrow> (string \<times> string) list \<Rightarrow> string \<Rightarrow> unit go" where
  "LogAuthenticationFailure proc payload err headers ip = LogDeadLetter
     \<lparr>dl_Processor = proc, dl_EventType = ''unknown'', dl_RawPayload = payload,
      dl_FailureReason = ''Authentication failed'', dl_ProcessingError = err_text err,
      dl_Headers = headers, dl_ClientIP = ip, dl_ProcessingStatus = ''authentication_failed''\<rparr>"

section \<open>Aliases of CCBill users\<close>

definition alias_by_name :: "tables \<Rightarrow> string \<Rightarrow> ccbill_alias option" where
  "alias_by_name t a = find (\<lambda>r. al_Alias r = a) (t_aliases t)"

definition AliasRepo_GetByAlias :: "string \<Rightarrow> ccbill_alias go" where
  "AliasRepo_GetByAlias a = db_query Pool (\<lambda>now t. scan_row (alias_by_name t a))"

definition Alias_Resolve :: "string \<Rightarrow> string go" where
  "Alias_Resolve name = (let a = trim_space name in
     if a = '''' then throw (ErrNew ''ccbill username alias is required'')
     else do {
       r \<leftarrow> AliasRepo_GetByAlias a;
       (case r of Inl e \<Rightarrow> throw e | Inr row \<Rightarrow> ok (al_UserID row))
     })"

definition resolveUserID :: "wd_services \<Rightarrow> string \<Rightarrow> string go" where
  "resolveUserID svc name =
     (if \<not> ws_Alias svc then throw (ErrNew ''ccbill alias service is not configured'')
      else do {
        r \<leftarrow> Alias_Resolve name;
        (case r of Inl e \<Rightarrow> throw (wrap_err (''failed to resolve CCBill username '' @ name) e) | Inr u \<Rightarrow> ok u)
      })"

end
