(* ===== verification/Webhook_NMI.thy ===== *)
theory Webhook_NMI
  imports Webhook_Common
begin

text \<open>
  \<open>internal/manager/web/webhook/webhook_nmi.go\<close>: the handlers of NMI events. A handler takes the services,
  the provider and the decoded event; a decoded body is a struct value. The fields and messages that are
  only written to the log are left out.
\<close>

section \<open>The event and its bodies\<close>

record nmi_event =
  ne_EventID :: string
  ne_EventType :: string
  ne_EventBody :: "json option"

abbreviation EventTypeNMIAddSubscription :: string where "EventTypeNMIAddSubscription \<equiv> ''recurring.subscription.add''"
abbreviation EventTypeNMIUpdateSubscription :: string where "EventTypeNMIUpdateSubscription \<equiv> ''recurring.subscription.update''"
abbreviation EventTypeNMIDeleteSubscription :: string where "EventTypeNMIDeleteSubscription \<equiv> ''recurring.subscription.delete''"
abbreviation EventTypeNMITransactionSuccess :: string where "EventTypeNMITransactionSuccess \<equiv> ''transaction.sale.success''"
abbreviation EventTypeNMITransactionFailure :: string where "EventTypeNMITransactionFailure \<equiv> ''transaction.sale.failure''"
abbreviation EventTypeNMIACUUpdated :: string where "EventTypeNMIACUUpdated \<equiv> ''acu.summary.automaticallyupdated''"
abbreviation EventTypeNMIACUContactCustomer :: string where "EventTypeNMIACUContactCustomer \<equiv> ''acu.summary.contactcustomer''"
abbreviation EventTypeNMIACUClosedAccount :: string where "EventTypeNMIACUClosedAccount \<equiv> ''acu.summary.closedaccount''"
abbreviation EventTypeNMIChargebackComplete :: string where "EventTypeNMIChargebackComplete \<equiv> ''chargeback.batch.complete''"

definition parse_body :: "fields \<Rightarrow> string \<Rightarrow> nmi_event \<Rightarrow> struct res" where
  "parse_body fs what ev = (case Option.bind (ne_EventBody ev) (unmarshal_doc fs) of
     Some d \<Rightarrow> Inr d | None \<Rightarrow> Inl (ErrWrap (''failed to parse '' @ what @ '' event body'') json_err))"

definition parseRecurringEventBody :: "nmi_event \<Rightarrow> struct res" where
  "parseRecurringEventBody ev = parse_body NMIRecurringEventBody_fields ''recurring'' ev"

definition parseTransactionEventBody :: "nmi_event \<Rightarrow> struct res" where
  "parseTransactionEventBody ev = parse_body NMITransactionEventBody_fields ''transaction'' ev"

definition parseACUEventBody :: "nmi_event \<Rightarrow> struct res" where
  "parseACUEventBody ev = parse_body NMIACUEventBody_fields ''ACU'' ev"

text \<open>\<open>Stringish.Trimmed\<close> and \<open>Stringish.Float64\<close> of a field.\<close>

definition trimmed :: "struct \<Rightarrow> string \<Rightarrow> string" where
  "trimmed d t = trim_space (str_of d t)"

definition float_of :: "struct \<Rightarrow> string \<Rightarrow> fval option" where
  "float_of d t = (let s = trimmed d t in if s = '''' then None else ParseFloat s)"

fun first_nonempty :: "string list \<Rightarrow> string" where
  "first_nonempty [] = ''''"
| "first_nonempty (c # cs) = (if c \<noteq> '''' then c else first_nonempty cs)"

definition detail_field :: "struct \<Rightarrow> string \<Rightarrow> string list" where
  "detail_field body t = (case ptr_of body ''transaction'' of None \<Rightarrow> [] | Some d \<Rightarrow> [trimmed d t])"

definition transactionSubscriptionID :: "struct \<Rightarrow> string" where
  "transactionSubscriptionID body = first_nonempty
     ((case ptr_of body ''subscription'' of None \<Rightarrow> [] | Some s \<Rightarrow> [trimmed s ''subscription_id'']) @
      (case ptr_of body ''transaction'' of None \<Rightarrow> []
       | Some d \<Rightarrow> (case ptr_of d ''subscription'' of None \<Rightarrow> [] | Some s \<Rightarrow> [trimmed s ''subscription_id''])) @
      [trimmed body ''order_id''] @ detail_field body ''order_id'' @
      [trimmed body ''ponumber''] @ detail_field body ''ponumber'' @
      [trimmed body ''customerid''] @ detail_field body ''customerid'')"

definition action_source :: "struct \<Rightarrow> string option" where
  "action_source d = (case ptr_of d ''action'' of None \<Rightarrow> None
     | Some a \<Rightarrow> if str_of a ''source'' \<noteq> '''' then Some (to_lower (trim_space (str_of a ''source''))) else None)"

definition transactionActionSource :: "struct \<Rightarrow> string" where
  "transactionActionSource body = (case action_source body of
     Some s \<Rightarrow> s
   | None \<Rightarrow> (case Option.bind (ptr_of body ''transaction'') action_source of Some s \<Rightarrow> s | None \<Rightarrow> ''''))"

definition isRecurringSource :: "string \<Rightarrow> bool" where
  "isRecurringSource source = (to_lower (trim_space source) \<in> {''recurring'', ''retry''})"

definition transactionPlanID :: "struct \<Rightarrow> string" where
  "transactionPlanID body =
     (case (case ptr_of body ''subscription'' of None \<Rightarrow> '''' | Some s \<Rightarrow> trimmed s ''plan_id'') of
        [] \<Rightarrow> (case Option.bind (ptr_of body ''transaction'') (\<lambda>d. ptr_of d ''subscription'') of
                None \<Rightarrow> '''' | Some s \<Rightarrow> trimmed s ''plan_id'')
      | p \<Rightarrow> p)"

text \<open>\<open>None\<close> is the error \<open>amount not provided\<close>.\<close>

definition transactionAmount :: "struct \<Rightarrow> fval option" where
  "transactionAmount body = (case float_of body ''amount'' of
     Some a \<Rightarrow> Some a
   | None \<Rightarrow> Option.bind (ptr_of body ''transaction'') (\<lambda>d. float_of d ''amount''))"

definition transactionCurrency :: "struct \<Rightarrow> string" where
  "transactionCurrency body = (let c = trimmed body ''currency'' in
     if c \<noteq> '''' then c else (case ptr_of body ''transaction'' of None \<Rightarrow> '''' | Some d \<Rightarrow> trimmed d ''currency''))"

definition transactionID :: "struct \<Rightarrow> string" where
  "transactionID body = (let t = trimmed body ''transaction_id'' in
     if t = '''' then (case ptr_of body ''transaction'' of None \<Rightarrow> '''' | Some d \<Rightarrow> trimmed d ''transaction_id'') else t)"

definition nmi_validation :: "string \<Rightarrow> go_err" where
  "nmi_validation m = BillingErr ''validation_error'' m"

definition nmi_provider :: "string \<Rightarrow> string" where
  "nmi_provider provider = (let p = trim_space (to_lower provider) in if p = '''' then ''mobius'' else p)"

section \<open>Subscription events\<close>

definition nmi_create_params :: "string \<Rightarrow> uuid \<Rightarrow> subscription \<Rightarrow> create_params" where
  "nmi_create_params provider priceID s = \<lparr>cp_UserID = sub_UserID s, cp_PriceID = priceID, cp_Processor = ProcessorNMI,
     cp_ProcessorSubscriptionID = Some (sub_ProcessorSubscriptionID s), cp_UserEmail = sub_UserEmail s, cp_ProcessorProvider = provider\<rparr>"

definition handleAddSubscription :: "wd_services \<Rightarrow> string \<Rightarrow> nmi_event \<Rightarrow> unit go" where
  "handleAddSubscription svc prov ev = (case parseRecurringEventBody ev of
     Inl e \<Rightarrow> throw e
   | Inr body \<Rightarrow>
       let nmiSubID = trimmed body ''subscription_id''; provider = nmi_provider prov;
           nmiPlanID = (case ptr_of body ''plan'' of None \<Rightarrow> '''' | Some p \<Rightarrow> trimmed p ''id'')
       in if nmiSubID = '''' then throw (nmi_validation ''Missing subscription ID'')
          else if nmiPlanID = '''' then throw (nmi_validation ''Missing plan ID'')
          else do {
            q \<leftarrow> Price_GetByNMIPlan Pool provider nmiPlanID;
            (case q of
               Inl e \<Rightarrow> throw (wrap_err (''failed to find price for NMI plan ID '' @ nmiPlanID) e)
             | Inr price \<Rightarrow> do {
                 r \<leftarrow> sub_lookup svc ProcessorNMI provider nmiSubID;
                 (case r of
                    Inl e \<Rightarrow> throw (wrap_err (''failed to load subscription for processor ID '' @ nmiSubID) e)
                  | Inr s \<Rightarrow>
                      if sub_Status s \<noteq> StatusPending then ok ()
                      else do {
                        c \<leftarrow> CreateMembership (ws_Mail svc) (nmi_create_params provider (price_ID price) s);
                        (case c of Inl e \<Rightarrow> throw (wrap_err ''failed to create membership'' e) | Inr _ \<Rightarrow> ok ())
                      })
               })
          })"

definition handleUpdateSubscription :: "nmi_event \<Rightarrow> unit go" where
  "handleUpdateSubscription ev = (case parseRecurringEventBody ev of
     Inl e \<Rightarrow> throw e
   | Inr body \<Rightarrow> if trimmed body ''subscription_id'' = '''' then throw (nmi_validation ''Missing subscription ID'') else ok ())"

definition handleDeleteSubscription :: "wd_services \<Rightarrow> string \<Rightarrow> nmi_event \<Rightarrow> unit go" where
  "handleDeleteSubscription svc prov ev = (case parseRecurringEventBody ev of
     Inl e \<Rightarrow> throw e
   | Inr body \<Rightarrow>
       let provider = nmi_provider prov; nmiSubID = trimmed body ''subscription_id''
       in if nmiSubID = '''' then throw (nmi_validation ''Missing subscription ID'')
          else do {
            r \<leftarrow> sub_lookup svc ProcessorNMI provider nmiSubID;
            (case r of
               Inl e \<Rightarrow> if err_is e ErrNoRows then ok () else throw (wrap_err ''failed to get subscription'' e)
             | Inr s \<Rightarrow>
                 if sub_Status s = StatusCancelled then ok ()
                 else do {
                   c \<leftarrow> CancelMembership (ws_Mail svc)
                     \<lparr>kp_SubscriptionID = Some (sub_ID s), kp_Processor = Some ProcessorNMI,
                      kp_ProcessorSubscriptionID = Some nmiSubID, kp_CancelType = CancelTypeMerchant,
                      kp_CancelFeedback = Some ''Cancelled via NMI webhook'', kp_ImmediateCancellation = False,
                      kp_ProcessorProvider = provider\<rparr>;
                   (case c of Inl e \<Rightarrow> throw (wrap_err ''failed to cancel subscription'' e) | Inr _ \<Rightarrow> ok ())
                 })
          })"

section \<open>Transaction events\<close>

text \<open>The activation of a pending subscription, or the renewal of any other.\<close>

definition activate_or_renew :: "wd_services \<Rightarrow> string \<Rightarrow> string \<Rightarrow> subscription \<Rightarrow> unit go" where
  "activate_or_renew svc provider nmiSubID s =
     (if sub_Status s = StatusPending then do {
        c \<leftarrow> CreateMembership (ws_Mail svc) (nmi_create_params provider (sub_PriceID s) s);
        (case c of Inl e \<Rightarrow> throw (wrap_err ''failed to activate subscription'' e) | Inr _ \<Rightarrow> ok ())
      } else do {
        c \<leftarrow> RenewMembership (ws_Mail svc) \<lparr>rp_Processor = ProcessorNMI, rp_ProcessorSubscriptionID = nmiSubID, rp_ProcessorProvider = provider\<rparr>;
        (case c of Inl e \<Rightarrow> throw (wrap_err ''failed to renew subscription'' e) | Inr _ \<Rightarrow> ok ())
      })"

text \<open>
  The amount of the payment record: the event's, or the price's when the event's cannot be parsed. The
  record of an infinite amount is refused by the \<open>numeric\<close> column.
\<close>

definition payment_amount :: "fval option \<Rightarrow> subscription \<Rightarrow> fval" where
  "payment_amount amount s = (case amount of
     Some a \<Rightarrow> a
   | None \<Rightarrow> (case sub_Price s of Some p \<Rightarrow> if price_Amount p > 0 then Fin (price_Amount p) else Fin 0 | None \<Rightarrow> Fin 0))"

definition payment_currency :: "string \<Rightarrow> subscription \<Rightarrow> string" where
  "payment_currency currency s =
     (if trim_space currency \<noteq> '''' then currency
      else (case sub_Price s of
          Some p \<Rightarrow> if trim_space (price_Currency p) \<noteq> '''' then price_Currency p else ''USD''
        | None \<Rightarrow> ''USD''))"

definition insert_payment :: "string \<Rightarrow> string \<Rightarrow> fval \<Rightarrow> string \<Rightarrow> subscription \<Rightarrow> unit go" where
  "insert_payment provider txnID amount currency s = do {
     i \<leftarrow> new_uuid;
     purchased \<leftarrow> now_m;
     created \<leftarrow> now_m;
     (case amount of
        Fin a \<Rightarrow> Payment_Create Pool \<lparr>pay_ID = i, pay_UserID = sub_UserID s, pay_PriceID = sub_PriceID s,
          pay_SubscriptionID = Some (sub_ID s), pay_RefundedPaymentID = None, pay_Processor = ProcessorNMI,
          pay_ProcessorProvider = (if provider \<noteq> '''' then Some provider else None), pay_TransactionID = txnID,
          pay_Amount = a, pay_Currency = currency, pay_PurchasedAt = purchased, pay_CreatedAt = created\<rparr>
      | _ \<Rightarrow> db_exec Pool (\<lambda>_ _. Inl ''numeric field overflow''))
   }"

text \<open>The payment record of the transaction; the error of its insertion is logged only.\<close>

definition record_payment :: "wd_services \<Rightarrow> string \<Rightarrow> struct \<Rightarrow> subscription \<Rightarrow> unit go" where
  "record_payment svc provider body s =
     (let txnID = transactionID body in
      if \<not> ws_Payment svc \<or> txnID = '''' then ok ()
      else do {
        r \<leftarrow> Payment_GetByTransactionID Pool ProcessorNMI txnID;
        (case r of
           Inr _ \<Rightarrow> ok ()
         | Inl e \<Rightarrow>
             if \<not> err_is e ErrNoRows then throw (wrap_err ''failed to check existing payment'' e)
             else (let amount = payment_amount (transactionAmount body) s in
               if fv_less (Fin 0) amount then do {
                 c \<leftarrow> insert_payment provider txnID amount (payment_currency (transactionCurrency body) s) s;
                 ok ()
               } else ok ()))
      })"

definition opt_meta :: "string \<Rightarrow> string \<Rightarrow> (string \<times> meta) list" where
  "opt_meta k v = (if v \<noteq> '''' then [(k, MStr v)] else [])"

definition success_metadata :: "string \<Rightarrow> nmi_event \<Rightarrow> struct \<Rightarrow> subscription \<Rightarrow> (string \<times> meta) list" where
  "success_metadata provider ev body s =
     [(''event_type'', MStr (ne_EventType ev)), (''action_source'', MStr (transactionActionSource body)),
      (''previous_status'', MStr (sub_status_str (sub_Status s))), (''provider'', MStr provider)] @
     opt_meta ''transaction_id'' (transactionID body) @ opt_meta ''plan_id'' (transactionPlanID body) @
     opt_meta ''customer_id'' (trimmed body ''customerid'') @ opt_meta ''customer_vault_id'' (trimmed body ''customer_vault_id'') @
     opt_meta ''order_id'' (trimmed body ''order_id'')"

definition handleTransactionSaleSuccess :: "wd_services \<Rightarrow> string \<Rightarrow> nmi_event \<Rightarrow> unit go" where
  "handleTransactionSaleSuccess svc prov ev = (case parseTransactionEventBody ev of
     Inl e \<Rightarrow> throw e
   | Inr body \<Rightarrow>
       let provider = nmi_provider prov; nmiSubID = transactionSubscriptionID body
       in if nmiSubID = '''' then throw (nmi_validation ''Missing subscription reference'')
          else if \<not> isRecurringSource (transactionActionSource body) then ok ()
          else do {
            r \<leftarrow> sub_lookup svc ProcessorNMI provider nmiSubID;
            (case r of
               Inl e \<Rightarrow> throw (wrap_err ''failed to load subscription for transaction event'' e)
             | Inr s \<Rightarrow> do {
                 a \<leftarrow> activate_or_renew svc provider nmiSubID s;
                 (case a of
                    Inl e \<Rightarrow> throw e
                  | Inr _ \<Rightarrow> do {
                      p \<leftarrow> record_payment svc provider body s;
                      (case p of
                         Inl e \<Rightarrow> throw e
                       | Inr _ \<Rightarrow> do {
                           emit svc (payment_event ''charge_success'' ''nmi'' (Some (sub_ID s)) (sub_UserID s)
                             (transactionAmount body) (transactionCurrency body)
                             (if transactionID body \<noteq> '''' then Some (transactionID body) else None) []
                             (success_metadata provider ev body s));
                           ok ()
                         })
                    })
               })
          })"

definition action_failure :: "struct \<Rightarrow> string option \<times> string option" where
  "action_failure a = (let txt = trim_space (str_of a ''response_text''); cd = trim_space (str_of a ''response_code'') in
     (if txt \<noteq> '''' then Some txt else None, if cd \<noteq> '''' then Some cd else None))"

definition failure_of :: "struct \<Rightarrow> string option \<times> string option" where
  "failure_of body = (case ptr_of body ''action'' of
     Some a \<Rightarrow> action_failure a
   | None \<Rightarrow> (case Option.bind (ptr_of body ''transaction'') (\<lambda>d. ptr_of d ''action'') of
       Some a \<Rightarrow> action_failure a | None \<Rightarrow> (None, None)))"

definition failure_metadata :: "string \<Rightarrow> nmi_event \<Rightarrow> struct \<Rightarrow> subscription \<Rightarrow> (string \<times> meta) list" where
  "failure_metadata provider ev body s =
     [(''event_type'', MStr (ne_EventType ev)), (''previous_status'', MStr (sub_status_str (sub_Status s))), (''provider'', MStr provider)] @
     (case fst (failure_of body) of Some x \<Rightarrow> opt_meta ''failure_reason'' x | None \<Rightarrow> []) @
     (case snd (failure_of body) of Some x \<Rightarrow> opt_meta ''failure_code'' x | None \<Rightarrow> []) @
     opt_meta ''transaction_id'' (trimmed body ''transaction_id'')"

definition handleTransactionSaleFailure :: "wd_services \<Rightarrow> string \<Rightarrow> nmi_event \<Rightarrow> unit go" where
  "handleTransactionSaleFailure svc prov ev = (case parseTransactionEventBody ev of
     Inl e \<Rightarrow> throw e
   | Inr body \<Rightarrow>
       let provider = nmi_provider prov; nmiSubID = transactionSubscriptionID body
       in if nmiSubID = '''' then throw (nmi_validation ''Missing subscription reference'')
          else if \<not> isRecurringSource (transactionActionSource body) then ok ()
          else do {
            found \<leftarrow> (if ws_Subs svc then do {
                r \<leftarrow> sub_lookup svc ProcessorNMI provider nmiSubID;
                State_Monad.return (map_sum id Some r)
              } else ok None);
            (case found of
               Inl e \<Rightarrow> if err_is e ErrNoRows then ok () else throw (wrap_err ''failed to load subscription for transaction event'' e)
             | Inr sub \<Rightarrow> do {
                 f \<leftarrow> FailMembership (ws_Mail svc) \<lparr>fp_Processor = ProcessorNMI, fp_ProcessorSubscriptionID = nmiSubID,
                   fp_ProcessorProvider = provider, fp_FailureReason = fst (failure_of body), fp_FailureCode = snd (failure_of body)\<rparr>;
                 (case f of
                    Inl e \<Rightarrow> throw (wrap_err ''failed to mark subscription as failed'' e)
                  | Inr _ \<Rightarrow> do {
                      (case sub of
                         Some s \<Rightarrow> emit svc (payment_event ''charge_failure'' ''nmi'' (Some (sub_ID s)) (sub_UserID s)
                           (transactionAmount body) (transactionCurrency body)
                           (if trimmed body ''transaction_id'' \<noteq> '''' then Some (trimmed body ''transaction_id'') else None) []
                           (failure_metadata provider ev body s))
                       | None \<Rightarrow> State_Monad.return ());
                      ok ()
                    })
               })
          })"

section \<open>Other events\<close>

definition handleACUEvent :: "nmi_event \<Rightarrow> unit go" where
  "handleACUEvent ev = (case parseACUEventBody ev of Inl e \<Rightarrow> throw e | Inr body \<Rightarrow> ok ())"

definition handleChargebackComplete :: "wd_services \<Rightarrow> nmi_event \<Rightarrow> unit go" where
  "handleChargebackComplete svc ev = do {
     emit svc \<lparr>be_Kind = ''chargeback'', be_EventType = ''batch_processed'', be_Processor = ''nmi'', be_SubscriptionID = None,
       be_UserID = '''', be_Amount = None, be_Currency = '''', be_Ref = Some (ne_EventID ev), be_BillingInfo = [],
       be_Metadata = [(''batch_type'', MStr ''chargeback''), (''event_source'', MStr ''nmi''), (''batch_status'', MStr ''completed'')]\<rparr>;
     ok ()
   }"

section \<open>Dispatch\<close>

text \<open>\<open>payload\<close> is the event marshalled again, for the dead letter.\<close>

definition nmi_handleWebhook :: "wd_services \<Rightarrow> string \<Rightarrow> string \<Rightarrow> nmi_event \<Rightarrow> unit go" where
  "nmi_handleWebhook svc provider payload ev =
     (let t = ne_EventType ev in
      if t = EventTypeNMIAddSubscription then handleAddSubscription svc provider ev
      else if t = EventTypeNMIUpdateSubscription then handleUpdateSubscription ev
      else if t = EventTypeNMIDeleteSubscription then handleDeleteSubscription svc provider ev
      else if t = EventTypeNMITransactionSuccess then handleTransactionSaleSuccess svc provider ev
      else if t = EventTypeNMITransactionFailure then handleTransactionSaleFailure svc provider ev
      else if t = EventTypeNMIACUUpdated \<or> t = EventTypeNMIACUContactCustomer \<or> t = EventTypeNMIACUClosedAccount then handleACUEvent ev
      else if t = EventTypeNMIChargebackComplete then handleChargebackComplete svc ev
      else do {
        d \<leftarrow> LogUnknownEvent ''nmi'' t payload [] '''';
        throw (ErrNew (''unsupported event type: '' @ t))
      })"

definition HandleNMIWebhook :: "wd_services \<Rightarrow> string \<Rightarrow> string \<Rightarrow> nmi_event \<Rightarrow> unit go" where
  "HandleNMIWebhook svc provider payload ev =
     (if ws_Dedup svc
      then ProcessWebhook (ne_EventID ev) (ne_EventType ev) ProcessorNMI (Some payload) (nmi_handleWebhook svc provider payload ev)
      else nmi_handleWebhook svc provider payload ev)"

end
