(* ===== verification/Webhook_CCBill.thy ===== *)
theory Webhook_CCBill
  imports Webhook_Common
begin

text \<open>
  \<open>internal/manager/web/webhook/webhook_ccbill.go\<close>: the handlers of CCBill events. A handler takes the
  services and the body of the event. The fields and messages that are only written to the log are left
  out; a billing error keeps its type and message.
\<close>

section \<open>Helpers\<close>

definition parse_err :: go_err where
  "parse_err = ErrNew ''strconv.ParseFloat: invalid syntax''"

text \<open>Amounts must be within two percent of the price.\<close>

definition amount_mismatch :: "fval \<Rightarrow> float64 \<Rightarrow> bool" where
  "amount_mismatch billed expected = (let tolerance = expected * (2 / 100) in
     fv_less billed (Fin (expected - tolerance)) \<or> fv_less (Fin (expected + tolerance)) billed)"

definition ccbill_sub :: "string \<Rightarrow> subscription go" where
  "ccbill_sub k = SubRepo_GetByProcessorSubscriptionID Tx (processor_str ProcessorCCBill) '''' k"

definition not_found_err :: "string \<Rightarrow> go_err \<Rightarrow> go_err" where
  "not_found_err k e = (if err_is e ErrNoRows then ErrNew (''subscription not found for processor subscription ID: '' @ k)
     else wrap_err ''failed to get subscription'' e)"

text \<open>The event of a payment that CCBill reports, with its amount.\<close>

definition ccbill_payment :: "string \<Rightarrow> subscription option \<Rightarrow> fval \<Rightarrow> (string \<times> meta) list \<Rightarrow> (string \<times> meta) list \<Rightarrow> billing_event" where
  "ccbill_payment ev s amount info md = payment_event ev ''ccbill'' (map_option sub_ID s)
     (case s of Some x \<Rightarrow> sub_UserID x | None \<Rightarrow> '''') (Some amount) ''USD'' None info md"

section \<open>New sales\<close>

definition sale_create_params :: "struct \<Rightarrow> string \<Rightarrow> price \<Rightarrow> create_params" where
  "sale_create_params data userID pr = \<lparr>cp_UserID = userID, cp_PriceID = price_ID pr, cp_Processor = ProcessorCCBill,
     cp_ProcessorSubscriptionID = Some (str_of data ''subscriptionId''),
     cp_UserEmail = (if trim_space (str_of data ''email'') \<noteq> '''' then Some (trim_space (str_of data ''email'')) else None),
     cp_ProcessorProvider = ''''\<rparr>"

text \<open>From the validated amount on: the form, the price, its amount, the membership, the event.\<close>

definition sell :: "wd_services \<Rightarrow> struct \<Rightarrow> string \<Rightarrow> fval \<Rightarrow> unit go" where
  "sell svc data userID billed = (case ws_CCBill svc of
     None \<Rightarrow> throw (GoPanic ''nil CCBillClient'')
   | Some (formID, formName) \<Rightarrow>
       if str_of data ''flexId'' \<noteq> formID then throw (ErrNew ''payment form id mismatch'')
       else if str_of data ''formName'' \<noteq> formName then throw (ErrNew ''payment form name mismatch'')
       else do {
         q \<leftarrow> Price_GetByCCBillPriceID Pool (str_of data ''flexId'');
         (case q of
            Inl e \<Rightarrow> throw (wrap_err (''failed to find price for CCBill price ID '' @ str_of data ''flexId'') e)
          | Inr pr \<Rightarrow>
              if amount_mismatch billed (price_Amount pr)
              then throw (BillingErr ''amount_mismatch'' ''Billed amount does not match expected price'')
              else do {
                c \<leftarrow> CreateMembership (ws_Mail svc) (sale_create_params data userID pr);
                (case c of
                   Inl e \<Rightarrow> throw (wrap_err ''failed to create membership'' e)
                 | Inr s \<Rightarrow> do {
                     emit svc (ccbill_payment ''charge_success'' (Some s) billed []
                       [(''transaction_id'', MStr (str_of data ''transactionId'')), (''processor'', MStr ''ccbill''),
                        (''event_source'', MStr ''webhook''), (''amount'', MFloat billed)]);
                     ok ()
                   })
              })
       })"

definition handleNewSaleSuccess :: "wd_services \<Rightarrow> string \<Rightarrow> unit go" where
  "handleNewSaleSuccess svc body = (case unmarshal CCBillNewSaleSuccessEvent_fields body of
     Inl e \<Rightarrow> throw e
   | Inr data \<Rightarrow> do {
       u \<leftarrow> resolveUserID svc (str_of data ''username'');
       (case u of
          Inl e \<Rightarrow> throw e
        | Inr userID \<Rightarrow> (case ParseFloat (str_of data ''billedInitialPrice'') of
            None \<Rightarrow> throw (ErrWrap (''failed to parse billedInitialPrice '' @ str_of data ''billedInitialPrice'') parse_err)
          | Some billed \<Rightarrow>
              if fv_le billed (Fin 0) then throw (ErrNew ''invalid billedAmount: must be greater than 0'')
              else sell svc data userID billed))
     })"

text \<open>A failure is reported to the analytics and to the user, in a transaction that writes nothing.\<close>

definition sale_failure_tx :: "wd_services \<Rightarrow> struct \<Rightarrow> unit go" where
  "sale_failure_tx svc data = do {
     u \<leftarrow> resolveUserID svc (str_of data ''username'');
     (case u of
        Inl e \<Rightarrow> throw e
      | Inr userID \<Rightarrow> do {
          emit svc (payment_event ''charge_failed'' ''ccbill'' None userID None ''USD'' None [(''initial_signup'', MBool True)]
            [(''transaction_id'', MStr (str_of data ''transactionId'')), (''processor'', MStr ''ccbill''), (''event_source'', MStr ''webhook''),
             (''failure_code'', MStr (str_of data ''failureCode'')), (''failure_reason'', MStr (str_of data ''failureReason'')),
             (''form_id'', MStr (str_of data ''flexId'')), (''form_name'', MStr (str_of data ''formName''))]);
          (if userID \<noteq> '''' then notify svc userID NotificationPaymentMethodFailed [] else State_Monad.return ());
          ok ()
        })
   }"

definition handleNewSaleFailure :: "wd_services \<Rightarrow> string \<Rightarrow> unit go" where
  "handleNewSaleFailure svc body = (case unmarshal CCBillNewSaleFailureEvent_fields body of
     Inl e \<Rightarrow> throw e | Inr data \<Rightarrow> run_in_tx (sale_failure_tx svc data))"

section \<open>Upgrades\<close>

text \<open>
  The field \<open>Amount\<close> of the event is tagged \<open>-\<close>, so that the decoding leaves its zero value, and no code
  sets it afterwards.
\<close>

definition upgrade_amount :: "struct \<Rightarrow> fval" where
  "upgrade_amount data = Fin 0"

definition upgrade_tx :: "wd_services \<Rightarrow> struct \<Rightarrow> fval \<Rightarrow> unit go" where
  "upgrade_tx svc data billed = (let orig = str_of data ''originalSubscriptionId'' in do {
     r \<leftarrow> ccbill_sub orig;
     (case r of
        Inl e \<Rightarrow> throw (not_found_err orig e)
      | Inr s0 \<Rightarrow> do {
          q \<leftarrow> Price_GetByCCBillPriceID Tx (str_of data ''flexId'');
          (case q of
             Inl e \<Rightarrow> throw (wrap_err (''failed to find new price for CCBill price ID '' @ str_of data ''flexId'') e)
           | Inr pr \<Rightarrow>
               if amount_mismatch billed (price_Amount pr)
               then throw (BillingErr ''amount_mismatch'' ''Upgrade billed amount does not match expected price'')
               else do {
                 now \<leftarrow> now_m;
                 (case ActivateWithPrice now (Some pr) s0 of
                    Inl e \<Rightarrow> throw (wrap_err ''failed to activate subscription'' e)
                  | Inr s1 \<Rightarrow> do {
                      let s2 = s1\<lparr>sub_ProcessorSubscriptionID := str_of data ''subscriptionId''\<rparr>;
                      now2 \<leftarrow> now_m;
                      (case ValidateSub now2 billed s2 of
                         Inl e \<Rightarrow> throw (wrap_err ''failed to validate subscription'' e)
                       | Inr _ \<Rightarrow> do {
                           u \<leftarrow> SubRepo_Update Tx s2;
                           (case u of
                              Inl e \<Rightarrow> throw (wrap_err ''failed to update subscription'' e)
                            | Inr _ \<Rightarrow> do {
                                emit svc (ccbill_payment ''charge_success'' (Some s2) billed [(''upgrade'', MBool True)]
                                  [(''transaction_id'', MStr (str_of data ''transactionId'')), (''processor'', MStr ''ccbill''),
                                   (''event_source'', MStr ''webhook''), (''event_type'', MStr ''upgrade''), (''amount'', MFloat billed),
                                   (''new_flex_id'', MStr (str_of data ''flexId'')), (''new_form_name'', MStr (str_of data ''formName'')),
                                   (''original_subscription_id'', MStr orig), (''previous_price_id'', MId (sub_PriceID s2)),
                                   (''new_price_id'', MId (price_ID pr))]);
                                notify svc (sub_UserID s2) NotificationPremiumRenewed [];
                                ok ()
                              })
                         })
                    })
               })
        })
   })"

definition handleUpgradeSuccess :: "wd_services \<Rightarrow> string \<Rightarrow> unit go" where
  "handleUpgradeSuccess svc body = (case unmarshal CCBillUpgradeSuccessEvent_fields body of
     Inl e \<Rightarrow> throw e
   | Inr data \<Rightarrow> let billed = upgrade_amount data in
       if fv_le billed (Fin 0) then throw (ErrNew ''invalid billedAmount: must be greater than 0'')
       else run_in_tx (upgrade_tx svc data billed))"

definition upgrade_failure_tx :: "wd_services \<Rightarrow> struct \<Rightarrow> unit go" where
  "upgrade_failure_tx svc data = do {
     u \<leftarrow> resolveUserID svc (str_of data ''username'');
     (case u of
        Inl e \<Rightarrow> throw e
      | Inr userID \<Rightarrow> do {
          emit svc (payment_event ''upgrade_failed'' ''ccbill'' None userID None ''USD'' None [(''upgrade_failure'', MBool True)]
            [(''transaction_id'', MStr (str_of data ''transactionId'')), (''processor'', MStr ''ccbill''), (''event_source'', MStr ''webhook''),
             (''failure_code'', MStr (str_of data ''failureCode'')), (''failure_reason'', MStr (str_of data ''failureReason'')),
             (''original_subscription_id'', MStr (str_of data ''originalSubscriptionId'')),
             (''original_client_accnum'', MStr (str_of data ''originalClientAccnum'')),
             (''original_client_subacc'', MStr (str_of data ''originalClientSubacc'')), (''upgrade_source'', MStr (str_of data ''source'')),
             (''sca_response_status'', MStr (str_of data ''scaResponseStatus'')), (''card_sub_type'', MStr (str_of data ''cardSubType'')),
             (''form_name'', MStr (str_of data ''formName'')), (''flex_id'', MStr (str_of data ''flexId''))]);
          (if userID \<noteq> '''' then notify svc userID NotificationPaymentMethodFailed [] else State_Monad.return ());
          ok ()
        })
   }"

definition handleUpgradeFailure :: "wd_services \<Rightarrow> string \<Rightarrow> unit go" where
  "handleUpgradeFailure svc body = (case unmarshal CCBillUpgradeFailureEvent_fields body of
     Inl e \<Rightarrow> throw e | Inr data \<Rightarrow> run_in_tx (upgrade_failure_tx svc data))"

section \<open>Changes of a subscription\<close>

definition parse_renewal_date :: "string \<Rightarrow> time option" where
  "parse_renewal_date s = (case parse_datetime s of Some x \<Rightarrow> Some x | None \<Rightarrow> parse_date s)"

definition billing_date_tx :: "wd_services \<Rightarrow> struct \<Rightarrow> unit go" where
  "billing_date_tx svc data = (let k = str_of data ''subscriptionId'' in do {
     r \<leftarrow> ccbill_sub k;
     (case r of
        Inl e \<Rightarrow> throw (not_found_err k e)
      | Inr s0 \<Rightarrow> (case parse_renewal_date (str_of data ''nextRenewalDate'') of
          None \<Rightarrow> throw (ErrNew (''failed to parse nextRenewalDate '' @ str_of data ''nextRenewalDate''))
        | Some newDate \<Rightarrow> do {
            let s1 = s0\<lparr>sub_CurrentPeriodEndsAt := Some newDate\<rparr>;
            u \<leftarrow> SubRepo_Update Tx s1;
            (case u of
               Inl e \<Rightarrow> throw (wrap_err ''failed to update subscription billing date'' e)
             | Inr _ \<Rightarrow> do {
                 emit svc (subscription_event ''billing_date_changed'' s1 k
                   [(''processor_subscription_id'', MStr k), (''processor'', MStr ''ccbill''), (''event_source'', MStr ''webhook''),
                    (''old_renewal_date'', MTime (sub_CurrentPeriodEndsAt s1)), (''new_renewal_date'', MTime (Some newDate))]);
                 ok ()
               })
          }))
   })"

definition handleBillingDateChange :: "wd_services \<Rightarrow> string \<Rightarrow> unit go" where
  "handleBillingDateChange svc body = (case unmarshal CCBillBillingDateChangeEvent_fields body of
     Inl e \<Rightarrow> throw e | Inr data \<Rightarrow> run_in_tx (billing_date_tx svc data))"

definition customer_data_tx :: "wd_services \<Rightarrow> struct \<Rightarrow> unit go" where
  "customer_data_tx svc data = (let k = str_of data ''subscriptionId'' in do {
     r \<leftarrow> ccbill_sub k;
     (case r of
        Inl e \<Rightarrow> throw (not_found_err k e)
      | Inr s \<Rightarrow> do {
          emit svc (subscription_event ''customer_data_updated'' s k
            [(''processor_subscription_id'', MStr k), (''processor'', MStr ''ccbill''), (''event_source'', MStr ''webhook''),
             (''updated_email'', MStr (str_of data ''email'')), (''payment_account'', MStr (str_of data ''paymentAccount'')),
             (''card_type'', MStr (str_of data ''cardType'')), (''payment_type'', MStr (str_of data ''paymentType'')),
             (''bin'', MStr (str_of data ''bin'')), (''exp_date'', MStr (str_of data ''expDate'')),
             (''updated_fields'', MMap (map (\<lambda>t. (t, MStr (str_of data t)))
               [''firstName'', ''lastName'', ''address1'', ''city'', ''state'', ''country'', ''postalCode'', ''phoneNumber'']))]);
          ok ()
        })
   })"

definition handleCustomerDataUpdate :: "wd_services \<Rightarrow> string \<Rightarrow> unit go" where
  "handleCustomerDataUpdate svc body = (case unmarshal CCBillCustomerDataUpdateEvent_fields body of
     Inl e \<Rightarrow> throw e | Inr data \<Rightarrow> run_in_tx (customer_data_tx svc data))"

text \<open>A renewal date that cannot be parsed is ignored.\<close>

definition reactivated :: "time \<Rightarrow> string \<Rightarrow> subscription \<Rightarrow> subscription" where
  "reactivated now date s =
     (let s1 = s\<lparr>sub_Status := StatusActive, sub_CancelledAt := None, sub_CancelType := None, sub_CancelFeedback := None, sub_EndedAt := None\<rparr>
      in case (if date \<noteq> '''' then parse_date date else None) of
           None \<Rightarrow> s1
         | Some x \<Rightarrow> s1\<lparr>sub_CurrentPeriodEndsAt := Some x, sub_CurrentPeriodStartsAt := Some now\<rparr>)"

definition reactivation_tx :: "wd_services \<Rightarrow> struct \<Rightarrow> unit go" where
  "reactivation_tx svc data = (let k = str_of data ''subscriptionId'' in do {
     r \<leftarrow> ccbill_sub k;
     (case r of
        Inl e \<Rightarrow> throw (not_found_err k e)
      | Inr s0 \<Rightarrow> do {
          now \<leftarrow> now_m;
          let s1 = reactivated now (str_of data ''nextRenewalDate'') s0;
          u \<leftarrow> SubRepo_Update Tx s1;
          (case u of
             Inl e \<Rightarrow> throw (wrap_err ''failed to reactivate subscription'' e)
           | Inr _ \<Rightarrow> do {
               emit svc (subscription_event ''subscription_reactivated'' s1 k
                 [(''transaction_id'', MStr (str_of data ''transactionId'')), (''processor_subscription_id'', MStr k),
                  (''processor'', MStr ''ccbill''), (''event_source'', MStr ''webhook''), (''price_description'', MStr (str_of data ''price'')),
                  (''next_renewal_date'', MStr (str_of data ''nextRenewalDate'')), (''reactivation_type'', MStr ''user_initiated'')]);
               notify svc (sub_UserID s1) NotificationPremiumStarted [];
               ok ()
             })
        })
   })"

definition handleUserReactivation :: "wd_services \<Rightarrow> string \<Rightarrow> unit go" where
  "handleUserReactivation svc body = (case unmarshal CCBillUserReactivationEvent_fields body of
     Inl e \<Rightarrow> throw e | Inr data \<Rightarrow> run_in_tx (reactivation_tx svc data))"

section \<open>Refunds, voids and chargebacks\<close>

text \<open>The amount of the event: an error, or a value that is not zero or less.\<close>

definition event_amount :: "string \<Rightarrow> struct \<Rightarrow> fval res" where
  "event_amount what data = (case ParseFloat (str_of data ''amount'') of
     None \<Rightarrow> Inl (ErrWrap (''failed to parse '' @ what @ '' amount '' @ str_of data ''amount'') parse_err)
   | Some a \<Rightarrow> if fv_le a (Fin 0) then Inl (ErrNew ''invalid amount: must be greater than 0'') else Inr a)"

text \<open>A refund of at least 80 percent of the price terminates the subscription.\<close>

definition refund_terminates :: "fval \<Rightarrow> subscription \<Rightarrow> bool" where
  "refund_terminates amount s = (case sub_Price s of None \<Rightarrow> False
     | Some p \<Rightarrow> fv_le (Fin (8 / 10)) (fv_div amount (Fin (price_Amount p))))"

definition refunded_sub :: "time \<Rightarrow> time \<Rightarrow> string \<Rightarrow> subscription \<Rightarrow> subscription res" where
  "refunded_sub now now2 reason s = (case ResetCurrentPeriods now2 s of
     Inl e \<Rightarrow> Inl e
   | Inr s1 \<Rightarrow>
       let s2 = s1\<lparr>sub_Status := StatusCancelled, sub_CancelType := Some CancelTypeMerchant, sub_CancelledAt := Some now\<rparr>
       in Inr (if reason \<noteq> '''' then s2\<lparr>sub_CancelFeedback := Some reason\<rparr> else s2))"

definition refund_event :: "struct \<Rightarrow> fval \<Rightarrow> bool \<Rightarrow> subscription \<Rightarrow> billing_event" where
  "refund_event data amount terminated s = ccbill_payment ''refund'' (Some s) (fv_neg amount) [(''refund'', MBool True)]
     [(''refund_transaction_id'', MStr (str_of data ''transactionId'')), (''processor'', MStr ''ccbill''), (''event_source'', MStr ''webhook''),
      (''refund_reason'', MStr (str_of data ''reason'')), (''refund_type'', MStr ''auto_detected''), (''refund_amount'', MFloat amount),
      (''subscription_terminated'', MBool terminated), (''processor_subscription_id'', MStr (str_of data ''subscriptionId''))]"

definition save_refunded :: "wd_services \<Rightarrow> struct \<Rightarrow> fval \<Rightarrow> bool \<Rightarrow> subscription \<Rightarrow> unit go" where
  "save_refunded svc data amount terminated s = do {
     u \<leftarrow> SubRepo_Update Tx s;
     (case u of
        Inl e \<Rightarrow> throw (wrap_err ''failed to update subscription after refund'' e)
      | Inr _ \<Rightarrow> do { emit svc (refund_event data amount terminated s); ok () })
   }"

definition refund_tx :: "wd_services \<Rightarrow> struct \<Rightarrow> fval \<Rightarrow> unit go" where
  "refund_tx svc data amount = (let k = str_of data ''subscriptionId'' in do {
     r \<leftarrow> ccbill_sub k;
     (case r of
        Inl e \<Rightarrow> throw (not_found_err k e)
      | Inr s0 \<Rightarrow> do {
          now \<leftarrow> now_m;
          (if refund_terminates amount s0 then do {
             now2 \<leftarrow> now_m;
             (case refunded_sub now now2 (str_of data ''reason'') s0 of
                Inl e \<Rightarrow> throw e
              | Inr s1 \<Rightarrow> do {
                  end_entitlements (sub_ID s1) now;
                  notify svc (sub_UserID s1) NotificationPremiumEnded (reason_data PremiumEndReasonRefund);
                  save_refunded svc data amount True s1
                })
           } else save_refunded svc data amount False s0)
        })
   })"

definition handleRefund :: "wd_services \<Rightarrow> string \<Rightarrow> unit go" where
  "handleRefund svc body = (case unmarshal CCBillRefundEvent_fields body of
     Inl e \<Rightarrow> throw e
   | Inr data \<Rightarrow> (case event_amount ''refund'' data of
       Inl e \<Rightarrow> throw e | Inr amount \<Rightarrow> run_in_tx (refund_tx svc data amount)))"

definition void_event :: "struct \<Rightarrow> fval \<Rightarrow> subscription option \<Rightarrow> billing_event" where
  "void_event data amount s = ccbill_payment ''void'' s (fv_neg amount) [(''void'', MBool True)]
     [(''void_transaction_id'', MStr (str_of data ''transactionId'')), (''original_transaction_id'', MStr (str_of data ''transactionId'')),
      (''processor'', MStr ''ccbill''), (''event_source'', MStr ''webhook''), (''void_reason'', MStr (str_of data ''reason'')),
      (''void_amount'', MFloat amount), (''processor_subscription_id'', MStr (str_of data ''subscriptionId'')),
      (''subscription_exists'', MBool (s \<noteq> None))]"

definition void_tx :: "wd_services \<Rightarrow> struct \<Rightarrow> fval \<Rightarrow> unit go" where
  "void_tx svc data amount = do {
     r \<leftarrow> ccbill_sub (str_of data ''subscriptionId'');
     (case r of
        Inl e \<Rightarrow>
          if err_is e ErrNoRows then do { emit svc (void_event data amount None); ok () }
          else throw (wrap_err ''failed to get subscription'' e)
      | Inr s \<Rightarrow> do { emit svc (void_event data amount (Some s)); ok () })
   }"

definition handleVoid :: "wd_services \<Rightarrow> string \<Rightarrow> unit go" where
  "handleVoid svc body = (case unmarshal CCBillVoidEvent_fields body of
     Inl e \<Rightarrow> throw e
   | Inr data \<Rightarrow> (case event_amount ''void'' data of
       Inl e \<Rightarrow> throw e | Inr amount \<Rightarrow> run_in_tx (void_tx svc data amount)))"

definition charged_back_sub :: "time \<Rightarrow> time \<Rightarrow> string \<Rightarrow> subscription \<Rightarrow> subscription res" where
  "charged_back_sub now now2 reason s = (case ResetCurrentPeriods now2 s of
     Inl e \<Rightarrow> Inl e
   | Inr s1 \<Rightarrow> Inr (s1\<lparr>sub_Status := StatusCancelled, sub_CancelType := Some CancelTypeMerchant, sub_CancelledAt := Some now,
       sub_EndedAt := Some now,
       sub_CancelFeedback := Some (''CHARGEBACK: '' @ reason @ '' (Code: unknown, Dispute: unknown)'')\<rparr>))"

definition chargeback_metadata :: "struct \<Rightarrow> fval \<Rightarrow> (string \<times> meta) list" where
  "chargeback_metadata data amount =
     [(''chargeback_transaction_id'', MStr (str_of data ''transactionId'')), (''original_transaction_id'', MStr (str_of data ''transactionId'')),
      (''processor'', MStr ''ccbill''), (''event_source'', MStr ''webhook''), (''chargeback_reason'', MStr (str_of data ''reason'')),
      (''chargeback_reason_code'', MStr ''unknown''), (''chargeback_amount'', MFloat amount), (''dispute_id'', MStr ''unknown''),
      (''processor_subscription_id'', MStr (str_of data ''subscriptionId''))]"

definition chargeback_event :: "struct \<Rightarrow> fval \<Rightarrow> subscription option \<Rightarrow> (string \<times> meta) list \<Rightarrow> billing_event" where
  "chargeback_event data amount s md = ccbill_payment ''chargeback'' s (fv_neg amount)
     [(''chargeback'', MBool True), (''fraud_flag'', MBool True)] (chargeback_metadata data amount @ md)"

definition chargeback_tx :: "wd_services \<Rightarrow> struct \<Rightarrow> fval \<Rightarrow> unit go" where
  "chargeback_tx svc data amount = do {
     r \<leftarrow> ccbill_sub (str_of data ''subscriptionId'');
     (case r of
        Inl e \<Rightarrow>
          if err_is e ErrNoRows then do {
            emit svc (chargeback_event data amount None [(''subscription_exists'', MBool False), (''fraud_flag'', MBool True)]);
            ok ()
          }
          else throw (wrap_err ''failed to get subscription'' e)
      | Inr s0 \<Rightarrow> do {
          now \<leftarrow> now_m;
          now2 \<leftarrow> now_m;
          (case charged_back_sub now now2 (str_of data ''reason'') s0 of
             Inl e \<Rightarrow> throw e
           | Inr s1 \<Rightarrow> do {
               u \<leftarrow> SubRepo_Update Tx s1;
               (case u of
                  Inl e \<Rightarrow> throw (wrap_err ''failed to update subscription after chargeback'' e)
                | Inr _ \<Rightarrow> do {
                    end_entitlements (sub_ID s1) now;
                    emit svc (chargeback_event data amount (Some s1)
                      [(''subscription_terminated'', MBool True), (''fraud_flag'', MBool True), (''termination_immediate'', MBool True)]);
                    notify svc (sub_UserID s1) NotificationPremiumEnded (reason_data PremiumEndReasonChargeback);
                    ok ()
                  })
             })
        })
   }"

definition handleChargeback :: "wd_services \<Rightarrow> string \<Rightarrow> unit go" where
  "handleChargeback svc body = (case unmarshal CCBillChargebackEvent_fields body of
     Inl e \<Rightarrow> throw e
   | Inr data \<Rightarrow> (case event_amount ''chargeback'' data of
       Inl e \<Rightarrow> throw e | Inr amount \<Rightarrow> run_in_tx (chargeback_tx svc data amount)))"

section \<open>Renewals, cancellations and expirations\<close>

definition ccbill_lookup :: "wd_services \<Rightarrow> string \<Rightarrow> subscription go" where
  "ccbill_lookup svc k = sub_lookup svc ProcessorCCBill '''' k"

definition handleRenewalSuccess :: "wd_services \<Rightarrow> string \<Rightarrow> unit go" where
  "handleRenewalSuccess svc body = (case unmarshal CCBillRenewalSuccessEvent_fields body of
     Inl e \<Rightarrow> throw e
   | Inr data \<Rightarrow> (case ParseFloat (str_of data ''billedAmount'') of
       None \<Rightarrow> throw parse_err
     | Some billed \<Rightarrow>
         if fv_le billed (Fin 0) then throw (ErrNew ''invalid billedAmount: must be greater than 0'')
         else let k = str_of data ''subscriptionId'' in do {
           n \<leftarrow> RenewMembership (ws_Mail svc) \<lparr>rp_Processor = ProcessorCCBill, rp_ProcessorSubscriptionID = k, rp_ProcessorProvider = ''''\<rparr>;
           (case n of
              Inl e \<Rightarrow> throw (wrap_err ''failed to renew membership'' e)
            | Inr _ \<Rightarrow> do {
                r \<leftarrow> ccbill_lookup svc k;
                (case r of
                   Inl e \<Rightarrow> throw (wrap_err ''failed to get subscription for logging'' e)
                 | Inr s \<Rightarrow> do {
                     emit svc (ccbill_payment ''charge_success'' (Some s) billed [(''renewal'', MBool True)]
                       [(''transaction_id'', MStr (str_of data ''transactionId'')), (''processor'', MStr ''ccbill''),
                        (''event_source'', MStr ''webhook''), (''event_type'', MStr ''renewal''), (''amount'', MFloat billed),
                        (''subscription_id'', MId (sub_ID s))]);
                     ok ()
                   })
              })
         }))"

definition handleRenewalFailure :: "wd_services \<Rightarrow> string \<Rightarrow> unit go" where
  "handleRenewalFailure svc body = (case unmarshal CCBillRenewalFailureEvent_fields body of
     Inl e \<Rightarrow> throw e
   | Inr data \<Rightarrow> do {
       f \<leftarrow> FailMembership (ws_Mail svc) \<lparr>fp_Processor = ProcessorCCBill, fp_ProcessorSubscriptionID = str_of data ''subscriptionId'',
         fp_ProcessorProvider = '''', fp_FailureReason = Some (str_of data ''failureReason''), fp_FailureCode = Some (str_of data ''failureCode'')\<rparr>;
       (case f of Inl e \<Rightarrow> throw (wrap_err ''failed to fail membership'' e) | Inr _ \<Rightarrow> ok ())
     })"

definition ccbill_cancel_type :: "struct \<Rightarrow> cancel_type" where
  "ccbill_cancel_type data = (if str_of data ''source'' = ''failedRB'' then CancelTypeExpired else CancelTypeMerchant)"

definition cancel_marker :: "cancel_type \<Rightarrow> end_reason" where
  "cancel_marker c = (if c = CancelTypeExpired then PremiumEndReasonExpired
     else if c = CancelTypeUser then PremiumEndReasonUserCancel else PremiumEndReasonProcessor)"

definition ccbill_cancel_params :: "struct \<Rightarrow> subscription \<Rightarrow> cancel_params" where
  "ccbill_cancel_params data s = \<lparr>kp_SubscriptionID = Some (sub_ID s), kp_Processor = Some ProcessorCCBill,
     kp_ProcessorSubscriptionID = Some (str_of data ''subscriptionId''), kp_CancelType = ccbill_cancel_type data,
     kp_CancelFeedback = Some (str_of data ''reason''), kp_ImmediateCancellation = True, kp_ProcessorProvider = ''''\<rparr>"

definition handleCancel :: "wd_services \<Rightarrow> string \<Rightarrow> unit go" where
  "handleCancel svc body = (case unmarshal CCBillCancellationEvent_fields body of
     Inl e \<Rightarrow> throw e
   | Inr data \<Rightarrow> let k = str_of data ''subscriptionId'' in
       if k = '''' then throw (ErrNew ''missing required field: subscriptionId'')
       else do {
         r \<leftarrow> ccbill_lookup svc k;
         (case r of
            Inl e \<Rightarrow> throw (not_found_err k e)
          | Inr s \<Rightarrow> do {
              c \<leftarrow> CancelMembership (ws_Mail svc) (ccbill_cancel_params data s);
              (case c of
                 Inl e \<Rightarrow> throw (wrap_err ''failed to cancel membership'' e)
               | Inr _ \<Rightarrow> do {
                   notify svc (sub_UserID s) NotificationPremiumEnded (reason_data (cancel_marker (ccbill_cancel_type data)));
                   emit svc (subscription_event ''subscription_cancelled'' s k
                     [(''processor_subscription_id'', MStr k), (''cancel_reason'', MStr (str_of data ''reason'')),
                      (''cancel_source'', MStr (str_of data ''source'')), (''cancel_type'', MStr (cancel_type_str (ccbill_cancel_type data))),
                      (''is_failed_rebill'', MBool (str_of data ''source'' = ''failedRB''))]);
                   ok ()
                 })
            })
       })"

definition handleExpiration :: "wd_services \<Rightarrow> string \<Rightarrow> unit go" where
  "handleExpiration svc body = (case unmarshal CCBillExpirationEvent_fields body of
     Inl e \<Rightarrow> throw e
   | Inr data \<Rightarrow> let k = str_of data ''subscriptionId'' in do {
       r \<leftarrow> ccbill_lookup svc k;
       (case r of
          Inl e \<Rightarrow> throw (not_found_err k e)
        | Inr s \<Rightarrow> do {
            x \<leftarrow> ExpireMembership (ws_Mail svc) (sub_ID s);
            (case x of
               Inl e \<Rightarrow> throw (wrap_err ''failed to expire membership'' e)
             | Inr _ \<Rightarrow> do {
                 notify svc (sub_UserID s) NotificationPremiumEnded (reason_data PremiumEndReasonExpired);
                 emit svc (subscription_event ''subscription_expired'' s k
                   [(''processor_subscription_id'', MStr k), (''cancel_source'', MStr ''expiration''),
                    (''cancel_type'', MStr (cancel_type_str CancelTypeExpired)), (''is_expiration'', MBool True)]);
                 ok ()
               })
          })
     })"

section \<open>Dispatch\<close>

definition HandleCCBillWebhook :: "wd_services \<Rightarrow> string \<Rightarrow> string \<Rightarrow> unit go" where
  "HandleCCBillWebhook svc eventType body =
     (if eventType = ''NewSaleSuccess'' then handleNewSaleSuccess svc body
      else if eventType = ''NewSaleFailure'' then handleNewSaleFailure svc body
      else if eventType = ''RenewalSuccess'' then handleRenewalSuccess svc body
      else if eventType = ''RenewalFailure'' then handleRenewalFailure svc body
      else if eventType = ''UpgradeSuccess'' then handleUpgradeSuccess svc body
      else if eventType = ''UpgradeFailure'' then handleUpgradeFailure svc body
      else if eventType = ''Cancellation'' then handleCancel svc body
      else if eventType = ''Expiration'' then handleExpiration svc body
      else if eventType = ''BillingDateChange'' then handleBillingDateChange svc body
      else if eventType = ''CustomerDataUpdate'' then handleCustomerDataUpdate svc body
      else if eventType = ''UserReactivation'' then handleUserReactivation svc body
      else if eventType = ''Refund'' then handleRefund svc body
      else if eventType = ''Void'' then handleVoid svc body
      else if eventType = ''Chargeback'' then handleChargeback svc body
      else do {
        d \<leftarrow> LogUnknownEvent ''ccbill'' eventType body [] '''';
        throw (ErrNew (''unsupported event type: '' @ eventType))
      })"

end
