(* ===== verification/Webhook_Dispatcher.thy ===== *)
theory Webhook_Dispatcher
  imports Webhook_NMI Webhook_CCBill
begin

text \<open>
  \<open>internal/manager/web/webhook/webhook_dispatcher.go\<close> (the routing of a persisted event) and
  \<open>internal/manager/web/webhook/webhook.go\<close> (the reception of a webhook).
\<close>

section \<open>WebhookDispatcher\<close>

definition extractProvider :: "(string \<times> string) list \<Rightarrow> string" where
  "extractProvider headers = (case map_of headers ''x-internal-provider'' of
     Some p \<Rightarrow> p | None \<Rightarrow> (case map_of headers ''provider'' of Some p \<Rightarrow> p | None \<Rightarrow> ''''))"

definition processCCBill :: "wd_services \<Rightarrow> webhook_event \<Rightarrow> unit go" where
  "processCCBill svc e =
     (if ws_CCBill svc = None then throw (ErrNew ''ccbill rest client not configured'')
      else HandleCCBillWebhook svc (wh_EventType e) (wh_RawPayload e))"

text \<open>The decoded event, and its print for the dead letter and the idempotency record.\<close>

definition nmi_event_of :: "struct \<Rightarrow> nmi_event" where
  "nmi_event_of d = \<lparr>ne_EventID = str_of d ''event_id'', ne_EventType = str_of d ''event_type'',
     ne_EventBody = (case map_of d ''event_body'' of Some (GRaw j) \<Rightarrow> Some j | _ \<Rightarrow> None)\<rparr>"

definition nmi_payload :: "nmi_event \<Rightarrow> string" where
  "nmi_payload ev = ''{'' @ json_quote ''event_id'' @ '':'' @ json_quote (ne_EventID ev) @ '','' @
     json_quote ''event_type'' @ '':'' @ json_quote (ne_EventType ev) @ '','' @
     json_quote ''event_body'' @ '':'' @ (case ne_EventBody ev of None \<Rightarrow> ''null'' | Some j \<Rightarrow> print_json j) @ ''}''"

definition processNMI :: "wd_services \<Rightarrow> webhook_event \<Rightarrow> unit go" where
  "processNMI svc e = (case unmarshal NMIWebhookEvent_fields (wh_RawPayload e) of
     Inl x \<Rightarrow> throw (ErrWrap ''parse nmi webhook payload'' x)
   | Inr d \<Rightarrow>
       let p = to_lower (trim_space (extractProvider (wh_Headers e))); provider = (if p = '''' then ''mobius'' else p); ev = nmi_event_of d
       in if provider \<notin> set (ws_NMI svc) then throw (ErrNew (''nmi client '' @ provider @ '' not configured''))
          else HandleNMIWebhook svc provider (nmi_payload ev) ev)"

definition WD_Process :: "wd_services \<Rightarrow> webhook_event \<Rightarrow> unit go" where
  "WD_Process svc e =
     (let processor = to_lower (trim_space (wh_Processor e)) in
      if processor = ''ccbill'' then processCCBill svc e
      else if processor = ''nmi'' then processNMI svc e
      else throw (ErrNew (''unsupported webhook processor: '' @ processor)))"

section \<open>Reception\<close>

text \<open>
  A request: its \<open>processor\<close> and \<open>provider\<close> path parameters, the two query parameters, the headers (the
  first value of each), the client address and the body. \<open>rq_Body\<close> is \<open>None\<close> when it cannot be read.
\<close>

record webhook_request =
  rq_Processor :: string
  rq_Provider :: string
  rq_QueryProvider :: string
  rq_QueryEventType :: string
  rq_Headers :: "(string \<times> string) list"
  rq_ClientIP :: string
  rq_Body :: "string option"

text \<open>
  The runtime: whether CCBill is in test mode, the NMI clients (test mode and webhook secret), the two
  services of persisted events (nil or with their configuration), and the job queue. \<open>rt_ValidIP\<close> is the
  check of CCBill's address ranges, \<open>rt_Verify\<close> the signature check of an NMI client
  (\<open>secret\<close>, \<open>body\<close>, \<open>signature\<close>), \<open>rt_Enqueue\<close> whether River accepts the job (nil: no client).
\<close>

record runtime =
  rt_CCBillTest :: bool
  rt_NMI :: "(string \<times> bool \<times> string) list"
  rt_Events :: "retry_config option"
  rt_Dispatch :: "wd_services option"
  rt_ValidIP :: "string \<Rightarrow> bool"
  rt_Verify :: "string \<Rightarrow> string \<Rightarrow> string \<Rightarrow> bool"
  rt_Enqueue :: "(uuid \<Rightarrow> bool) option"

text \<open>The response: its status and message.\<close>

type_synonym response = "nat \<times> string"

definition normalizeCCBillPayload :: "string \<Rightarrow> string option" where
  "normalizeCCBillPayload body = (let b = trim_space body in
     if b = '''' then Some b
     else if hd b = CHR ''{'' \<or> hd b = CHR ''['' then Some b
     else (case ParseQuery b of
         None \<Rightarrow> None
       | Some kvs \<Rightarrow> Some (marshal_map (map (\<lambda>k. (k, the (map_of kvs k))) (remdups (map fst kvs))))))"

definition set_header :: "string \<Rightarrow> string \<Rightarrow> (string \<times> string) list \<Rightarrow> (string \<times> string) list" where
  "set_header k v h = AList.update k v h"

text \<open>The processor of a runtime runs the dispatcher.\<close>

definition rt_process :: "runtime \<Rightarrow> uuid \<Rightarrow> (world, bool \<times> go_err option) state" where
  "rt_process rt i = WP_Process (map_option WD_Process (rt_Dispatch rt)) (rt_Events rt) i"

definition queueOrProcessWebhook :: "runtime \<Rightarrow> uuid \<Rightarrow> unit go" where
  "queueOrProcessWebhook rt i =
     (if rt_Dispatch rt = None then throw (ErrNew ''webhook processor unavailable'')
      else if (case rt_Enqueue rt of Some q \<Rightarrow> q i | None \<Rightarrow> False) then ok ()
      else do {
        (again, err) \<leftarrow> rt_process rt i;
        (case err of Some e \<Rightarrow> throw e | None \<Rightarrow> ok ())
      })"

text \<open>Persist the event, then queue or process it; the error of the second is logged only (a panic passes).\<close>

definition accept_event :: "runtime \<Rightarrow> create_event_params \<Rightarrow> response go" where
  "accept_event rt p = do {
     c \<leftarrow> WE_Create (rt_Events rt) p;
     (case c of
        Inl e \<Rightarrow> ok (500, ''Failed to persist webhook event'')
      | Inr event \<Rightarrow> do {
          q \<leftarrow> queueOrProcessWebhook rt (wh_ID event);
          (case q of
             Inl e \<Rightarrow> if is_panic e then throw e else ok (200, ''accepted'')
           | Inr _ \<Rightarrow> ok (200, ''accepted''))
        })
   }"

definition webhook_components :: "runtime \<Rightarrow> bool" where
  "webhook_components rt \<longleftrightarrow> rt_Events rt \<noteq> None \<and> rt_Dispatch rt \<noteq> None"

definition header :: "webhook_request \<Rightarrow> string \<Rightarrow> string" where
  "header r k = (case map_of (rq_Headers r) k of Some v \<Rightarrow> v | None \<Rightarrow> '''')"

definition nmi_signature :: "webhook_request \<Rightarrow> string" where
  "nmi_signature r = first_nonempty [header r ''X-Signature'', header r ''X-Nmi-Signature'', header r ''X-Mobius-Signature'']"

text \<open>
  The authentication of an NMI request: a refusal, or the signature and whether it was validated. It is
  skipped in test mode and when the client has no secret.
\<close>

definition nmi_authenticate :: "runtime \<Rightarrow> webhook_request \<Rightarrow> bool \<Rightarrow> string \<Rightarrow> string \<Rightarrow> response + (string \<times> bool)" where
  "nmi_authenticate rt r testMode secret body =
     (if testMode \<or> secret = '''' then Inr ('''', False)
      else let signature = nmi_signature r in
        if signature = '''' then Inl (401, ''Missing webhook signature'')
        else if \<not> rt_Verify rt secret body signature then Inl (401, ''Invalid webhook signature'')
        else Inr (signature, True))"

definition handleNMIWebhook :: "runtime \<Rightarrow> string \<Rightarrow> webhook_request \<Rightarrow> response go" where
  "handleNMIWebhook rt prov r = (case rq_Body r of
     None \<Rightarrow> ok (500, ''Failed to read request body'')
   | Some body \<Rightarrow>
       let provider = nmi_provider prov in
       (case map_of (rt_NMI rt) provider of
          None \<Rightarrow> ok (404, ''unknown nmi provider '' @ provider)
        | Some (testMode, secret) \<Rightarrow> (case nmi_authenticate rt r testMode secret body of
            Inl resp \<Rightarrow> ok resp
          | Inr (signature, validated) \<Rightarrow> (case unmarshal NMIWebhookEvent_fields body of
              Inl e \<Rightarrow> ok (400, ''Invalid JSON data'')
            | Inr d \<Rightarrow>
                if str_of d ''event_id'' = '''' then ok (400, ''Missing event_id in payload'')
                else if \<not> webhook_components rt then ok (500, ''Webhook processing unavailable'')
                else accept_event rt \<lparr>we_Processor = ''nmi'', we_EventID = str_of d ''event_id'', we_EventType = str_of d ''event_type'',
                  we_Payload = body, we_Headers = set_header ''x-internal-provider'' provider (rq_Headers r),
                  we_IPAddress = rq_ClientIP r, we_Signature = signature,
                  we_SignatureValid = (if validated then Some True else None)\<rparr>))))"

text \<open>\<open>strings.Trim(strings.Trim(p, "/"), " ")\<close>.\<close>

definition trim_char :: "char \<Rightarrow> string \<Rightarrow> string" where
  "trim_char c s = rev (dropWhile (\<lambda>x. x = c) (rev (dropWhile (\<lambda>x. x = c) s)))"

definition request_provider :: "webhook_request \<Rightarrow> string" where
  "request_provider r = (let p = trim_char (CHR '' '') (trim_char (CHR ''/'') (rq_Provider r)) in
     if p = '''' then trim_space (rq_QueryProvider r) else p)"

definition ccbill_webhook :: "runtime \<Rightarrow> webhook_request \<Rightarrow> response go" where
  "ccbill_webhook rt r =
     (if \<not> rt_CCBillTest rt \<and> \<not> rt_ValidIP rt (rq_ClientIP r) then do {
        d \<leftarrow> LogInvalidPayload ''ccbill'' (''Unauthorized IP: '' @ rq_ClientIP r)
          (ErrNew (''webhook from unauthorized IP address: '' @ rq_ClientIP r)) (rq_Headers r) (rq_ClientIP r);
        ok (403, ''Unauthorized webhook source'')
      }
      else (case rq_Body r of
        None \<Rightarrow> do {
          d \<leftarrow> LogInvalidPayload ''ccbill'' '''' (ErrNew ''read error'') (rq_Headers r) (rq_ClientIP r);
          ok (500, ''Failed to read request body'')
        }
      | Some raw \<Rightarrow> (case normalizeCCBillPayload raw of
          None \<Rightarrow> do {
            d \<leftarrow> LogInvalidPayload ''ccbill'' '''' (ErrNew ''invalid URL escape'') (rq_Headers r) (rq_ClientIP r);
            ok (400, ''Invalid webhook payload'')
          }
        | Some body \<Rightarrow>
            let eventType = trim_space (rq_QueryEventType r); provider = request_provider r in
            if eventType = '''' then ok (400, ''Missing eventType parameter'')
            else if \<not> webhook_components rt then ok (500, ''Webhook processing unavailable'')
            else accept_event rt \<lparr>we_Processor = ''ccbill'', we_EventID = '''', we_EventType = eventType, we_Payload = body,
              we_Headers = (if provider \<noteq> '''' then set_header ''x-internal-provider'' provider (rq_Headers r) else rq_Headers r),
              we_IPAddress = rq_ClientIP r, we_Signature = '''', we_SignatureValid = None\<rparr>)))"

definition Webhook :: "runtime \<Rightarrow> webhook_request \<Rightarrow> response go" where
  "Webhook rt r =
     (if rq_Processor r = ''ccbill'' then ccbill_webhook rt r
      else if rq_Processor r = ''nmi'' then handleNMIWebhook rt (request_provider r) r
      else do {
        d \<leftarrow> LogUnknownEvent (rq_Processor r) ''unknown'' (case rq_Body r of None \<Rightarrow> '''' | Some b \<Rightarrow> b) (rq_Headers r) (rq_ClientIP r);
        ok (400, ''Invalid processor'')
      })"

end
