(* ===== verification/Webhook_Retry.thy ===== *)
theory Webhook_Retry
  imports Webhook_Events "HOL-Library.Sublist"
begin

text \<open>
  The retry protocol of webhook events: the abstract state machine of an event, the contract of the
  handlers it runs, and the refinement of the machine by the processor under every schedule of
  database faults; the backoff; and the configuration.
\<close>

section \<open>The state machine of an event\<close>

text \<open>A state is the status and the number of processing attempts; \<open>m\<close> is \<open>MaxAttempts\<close>.\<close>

inductive wh_step :: "int \<Rightarrow> string \<times> int \<Rightarrow> string \<times> int \<Rightarrow> bool" for m where
  wh_begin: "s = WebhookStatusPending \<or> s = WebhookStatusFailed \<Longrightarrow> wh_step m (s, n) (WebhookStatusProcessing, n + 1)"
| wh_done: "wh_step m (WebhookStatusProcessing, n) (WebhookStatusProcessed, n)"
| wh_fail: "n < m \<Longrightarrow> wh_step m (WebhookStatusProcessing, n) (WebhookStatusFailed, n)"
| wh_give_up: "m \<le> n \<Longrightarrow> wh_step m (WebhookStatusProcessing, n) (WebhookStatusError, n)"

inductive_cases wh_step_from [elim!]: "wh_step m (s, n) st"
inductive_simps wh_step_processed: "wh_step m (WebhookStatusProcessed, n) st"
inductive_simps wh_step_error: "wh_step m (WebhookStatusError, n) st"

abbreviation wh_steps :: "int \<Rightarrow> string \<times> int \<Rightarrow> string \<times> int \<Rightarrow> bool" where
  "wh_steps m \<equiv> (wh_step m)\<^sup>*\<^sup>*"

definition wh_inv :: "int \<Rightarrow> string \<times> int \<Rightarrow> bool" where
  "wh_inv m st \<longleftrightarrow> 0 \<le> snd st \<and> snd st \<le> max 1 m \<and>
     (fst st = WebhookStatusPending \<longrightarrow> snd st = 0) \<and> (fst st = WebhookStatusFailed \<longrightarrow> snd st < m)"

lemma wh_inv_step: "wh_step m st st' \<Longrightarrow> wh_inv m st \<Longrightarrow> wh_inv m st'"
  by (cases rule: wh_step.cases) (auto simp: wh_inv_def)

lemma wh_inv_steps: "wh_steps m st st' \<Longrightarrow> wh_inv m st \<Longrightarrow> wh_inv m st'"
  by (induction rule: rtranclp_induct) (simp, metis wh_inv_step)

lemma wh_terminal:
  assumes "wh_steps m (s, n) st" "s = WebhookStatusProcessed \<or> s = WebhookStatusError"
  shows "st = (s, n)"
  using assms by (induction rule: rtranclp_induct) (auto simp: wh_step_processed wh_step_error)

definition wh_state :: "webhook_event \<Rightarrow> string \<times> int" where
  "wh_state e = (wh_Status e, wh_ProcessingAttempts e)"

text \<open>What no step of the machine changes: what was received, when and from where.\<close>

definition wh_core :: "webhook_event \<Rightarrow> uuid \<times> string \<times> string option \<times> string \<times> string \<times> (string \<times> string) list \<times> time \<times> string" where
  "wh_core e = (wh_ID e, wh_Processor e, wh_EventID e, wh_EventType e, wh_RawPayload e, wh_Headers e, wh_ReceivedAt e, wh_IPAddress e)"

section \<open>Rows\<close>

lemma upd_event_events [simp]:
  "t_events (upd_event i f t) = update_where (\<lambda>e. wh_ID e = i) f (t_events t)" "t_events (add_event e t) = t_events t @ [e]"
  by (simp_all add: upd_event_def add_event_def)

lemma event_upd [simp]:
  "wh_ID (begun now e) = wh_ID e" "wh_ID (processed now e) = wh_ID e" "wh_ID (failed_event st n msg now e) = wh_ID e"
  "wh_state (begun now e) = (WebhookStatusProcessing, wh_ProcessingAttempts e + 1)"
  "wh_state (processed now e) = (WebhookStatusProcessed, wh_ProcessingAttempts e)"
  "wh_state (failed_event st n msg now e) = (st, wh_ProcessingAttempts e)"
  "wh_ProcessingAttempts (begun now e) = wh_ProcessingAttempts e + 1"
  "wh_core (begun now e) = wh_core e" "wh_core (processed now e) = wh_core e" "wh_core (failed_event st n msg now e) = wh_core e"
  by (simp_all add: begun_def processed_def failed_event_def wh_state_def wh_core_def)

lemma find_update_where:
  assumes "\<And>e. key (f e) = key e"
  shows "find (\<lambda>e. key e = i) (update_where (\<lambda>e. key e = j \<and> P e) f rs) =
     map_option (\<lambda>e. if i = j \<and> P e then f e else e) (find (\<lambda>e. key e = i) rs)"
  by (induction rs) (auto simp: assms)

lemma event_by_id_upd:
  assumes "\<And>e. wh_ID (f e) = wh_ID e"
  shows "event_by_id (upd_event j f t) i = map_option (\<lambda>e. if i = j then f e else e) (event_by_id t i)"
  using find_update_where[of wh_ID f i j "\<lambda>_. True", OF assms] by (simp add: event_by_id_def)

text \<open>With distinct identifiers the row that \<open>BeginProcessing\<close> returns is the row of that identifier.\<close>

lemma find_hit:
  assumes "distinct (map wh_ID es)"
  shows "find (\<lambda>e. wh_ID e = i \<and> retryable e) es =
     (case find (\<lambda>e. wh_ID e = i) es of Some e \<Rightarrow> if retryable e then Some e else None | None \<Rightarrow> None)"
  using assms
proof (induction es)
  case (Cons x es)
  have "\<forall>y \<in> set es. wh_ID y \<noteq> wh_ID x"
    using Cons.prems by (auto simp: image_iff)
  then have "find (\<lambda>e. wh_ID e = wh_ID x) es = None" "find (\<lambda>e. wh_ID e = wh_ID x \<and> retryable e) es = None"
    by (auto simp: find_None_iff)
  then show ?case
    using Cons by auto
qed simp

lemma event_by_id_begin:
  "event_by_id (begin_event i now t) j = map_option (\<lambda>e. if j = i \<and> retryable e then begun now e else e) (event_by_id t j)"
  by (simp add: event_by_id_def begin_event_def find_update_where)

lemma ids_kept [simp]:
  "map wh_ID (t_events (begin_event i now t)) = map wh_ID (t_events t)"
  by (simp add: begin_event_def map_update_where)

lemma ids_upd: "(\<And>e. wh_ID (f e) = wh_ID e) \<Longrightarrow> map wh_ID (t_events (upd_event i f t)) = map wh_ID (t_events t)"
  by (simp add: map_update_where)

section \<open>The contract of a handler\<close>

text \<open>
  What the processor relies on: run outside a transaction, the handler of an event leaves none open and
  keeps the rows of the events table (it may append dead letters, with new identifiers).
\<close>

definition events_grown :: "webhook_event list \<Rightarrow> tables \<Rightarrow> bool" where
  "events_grown es t \<longleftrightarrow> prefix es (t_events t) \<and> distinct (map wh_ID (t_events t))"

lemma event_by_id_grown: "events_grown es t \<Longrightarrow> find (\<lambda>e. wh_ID e = i) es = Some e \<Longrightarrow> event_by_id t i = Some e"
  by (auto simp: events_grown_def prefix_def event_by_id_def find_append)

lemma wp_BeginProcessing:
  assumes "distinct (map wh_ID (t_events (w_db w)))"
  shows "wp (WE_BeginProcessing (Some rc) i) Q w =
    (case db_fault Pool (tick w) of
       Some e \<Rightarrow> Q (Inl e) (tick (tick w))
     | None \<Rightarrow> Q (case event_by_id (w_db w) i of
           Some e \<Rightarrow> if retryable e then Inr (begun (clock_now w) e) else Inl ErrNoRows
         | None \<Rightarrow> Inl ErrNoRows) (db_write Pool (begin_event i (clock_now w)) (tick (tick w))))"
  unfolding WE_BeginProcessing_def
  by (simp add: wp_simps find_hit[OF assms] event_by_id_def split: option.split)

lemma wp_MarkFailure:
  "wp (WE_MarkFailure (Some rc) (Some e) err) Q w =
    (let again = (wh_ProcessingAttempts e < rc_MaxAttempts rc);
         next = (if again then Some (time_add (clock_now w) (nextBackoff rc (wh_ProcessingAttempts e))) else None);
         u = upd_event (wh_ID e) (failed_event (if again then WebhookStatusFailed else WebhookStatusError) next (truncateError err) (clock_now w))
     in case db_fault Pool (tick w) of
          Some x \<Rightarrow> Q (again, Some (wrap_err ''mark webhook failure'' x)) (tick (tick w))
        | None \<Rightarrow> Q (again, None) (db_write Pool u (tick (tick w))))"
  unfolding WE_MarkFailure_def by (simp add: wp_simps Let_def split: option.split)

lemma wp_MarkProcessed:
  "wp (WE_MarkProcessed (Some rc) i) Q w =
    (case db_fault Pool (tick w) of
       Some x \<Rightarrow> Q (Inl (wrap_err ''mark webhook processed'' x)) (tick (tick w))
     | None \<Rightarrow> Q (Inr ()) (db_write Pool (upd_event i (processed (clock_now w))) (tick (tick w))))"
  unfolding WE_MarkProcessed_def by (simp add: wp_simps split: option.split)

text \<open>\<open>wh_runs handle rc w w'\<close>: \<open>w'\<close> is reached by calls of the processor, on any identifiers.\<close>

inductive wh_runs :: "(webhook_event \<Rightarrow> unit go) \<Rightarrow> retry_config \<Rightarrow> world \<Rightarrow> world \<Rightarrow> bool" for handle rc where
  wh_runs_none: "wh_runs handle rc w w"
| wh_runs_step: "wh_runs handle rc w w' \<Longrightarrow> run_state (WP_Process (Some handle) (Some rc) i) w' = (x, w'') \<Longrightarrow> wh_runs handle rc w w''"

locale webhook_handler =
  fixes handle :: "webhook_event \<Rightarrow> unit go"
  assumes keeps_events: "keeps False (events_grown es) (handle e)"
begin

lemma wp_handle:
  assumes "w_tx w = None" "distinct (map wh_ID (t_events (w_db w)))"
  shows "wp (handle e) (\<lambda>_ w'. w_tx w' = None \<and> events_grown (t_events (w_db w)) (w_db w')) w"
  using keepsD[OF keeps_events, of "t_events (w_db w)" _ w e] assms
  by (fastforce simp: sane_def events_grown_def elim: wp_mono)

text \<open>The processor moves the event along the machine, whichever statements fail.\<close>

lemma wp_process:
  assumes w: "w_tx w = None" "distinct (map wh_ID (t_events (w_db w)))" and e: "event_by_id (w_db w) i = Some e"
  shows "wp (WP_Process (Some handle) (Some rc) i) (\<lambda>(retried, err) w'.
     w_tx w' = None \<and> distinct (map wh_ID (t_events (w_db w'))) \<and>
     (\<exists>e'. event_by_id (w_db w') i = Some e' \<and> wh_core e' = wh_core e \<and> wh_steps (rc_MaxAttempts rc) (wh_state e) (wh_state e') \<and>
       (err = None \<longrightarrow> retryable e \<and> wh_state e' = (WebhookStatusProcessed, wh_ProcessingAttempts e + 1)))) w"
proof (cases "db_fault Pool (tick w) = None \<and> retryable e")
  case False
  then show ?thesis
    using w e by (auto simp: WP_Process_def wp_simps wp_BeginProcessing event_by_id_begin split: option.split)
next
  case True
  let ?b = "begun (clock_now w) e" and ?w = "db_write Pool (begin_event i (clock_now w)) (tick (tick w))"
  have start: "wh_step (rc_MaxAttempts rc) (wh_state e) (wh_state ?b)"
    using True by (auto simp: wh_state_def begun_def retryable_def intro: wh_begin)
  have b: "event_by_id (w_db ?w) i = Some ?b"
    using True e by (simp add: event_by_id_begin)
  have i: "wh_ID e = i"
    using e by (auto simp: event_by_id_def dest: find_Some_in)
  have "wp (handle ?b) (\<lambda>_ w'. w_tx w' = None \<and> events_grown (t_events (w_db ?w)) (w_db w')) ?w"
    by (rule wp_handle) (use w in simp_all)
  then have h: "wp (handle ?b) (\<lambda>_ w'. w_tx w' = None \<and> distinct (map wh_ID (t_events (w_db w'))) \<and>
      event_by_id (w_db w') i = Some ?b) ?w"
    by (rule wp_mono) (use b event_by_id_grown in \<open>auto simp: events_grown_def event_by_id_def\<close>)
  have two: "wh_steps (rc_MaxAttempts rc) (wh_state e) st"
    if "wh_step (rc_MaxAttempts rc) (WebhookStatusProcessing, wh_ProcessingAttempts e + 1) st" for st
    using start that by (metis event_upd(4) rtranclp.rtrancl_into_rtrancl r_into_rtranclp)
  note ends = two[OF wh_done] two[OF wh_fail] two[OF wh_give_up]
  show ?thesis
    using True w e i start
    apply (simp add: WP_Process_def wp_simps wp_BeginProcessing)
    apply (rule wp_mono[OF h])
    apply (auto simp: wp_simps wp_MarkFailure wp_MarkProcessed Let_def event_by_id_upd map_update_where ends split: sum.split option.split)
    done
qed

text \<open>A call on another identifier leaves the event alone.\<close>

lemma wp_process_other:
  assumes w: "w_tx w = None" "distinct (map wh_ID (t_events (w_db w)))" and e: "event_by_id (w_db w) j = Some e" "j \<noteq> i"
  shows "wp (WP_Process (Some handle) (Some rc) i) (\<lambda>_ w'. w_tx w' = None \<and>
     distinct (map wh_ID (t_events (w_db w'))) \<and> event_by_id (w_db w') j = Some e) w"
proof -
  let ?w = "db_write Pool (begin_event i (clock_now w)) (tick (tick w))"
  have h: "wp (handle b) (\<lambda>_ w'. w_tx w' = None \<and> distinct (map wh_ID (t_events (w_db w'))) \<and> event_by_id (w_db w') j = Some e) ?w" for b
  proof (rule wp_mono[OF wp_handle])
    show "w_tx ?w = None" "distinct (map wh_ID (t_events (w_db ?w)))"
      using w by simp_all
    have "event_by_id (w_db ?w) j = Some e"
      using e by (simp add: event_by_id_begin)
    then show "w_tx w' = None \<and> distinct (map wh_ID (t_events (w_db w'))) \<and> event_by_id (w_db w') j = Some e"
      if "w_tx w' = None \<and> events_grown (t_events (w_db ?w)) (w_db w')" for r :: "unit res" and w'
      using that event_by_id_grown by (auto simp: events_grown_def event_by_id_def)
  qed
  have i: "wh_ID x = i" if "event_by_id t i = Some x" for t x
    using that by (auto simp: event_by_id_def dest: find_Some_in)
  have m: "wp (WE_MarkFailure (Some rc) (Some (begun now x)) err) (\<lambda>_ w'. w_tx w' = None \<and>
      distinct (map wh_ID (t_events (w_db w'))) \<and> event_by_id (w_db w') j = Some e) w'"
    if "wh_ID x = i" "w_tx w' = None" "distinct (map wh_ID (t_events (w_db w')))" "event_by_id (w_db w') j = Some e" for now x err w'
    using that e(2) by (simp add: wp_MarkFailure Let_def event_by_id_upd map_update_where split: option.split)
  show ?thesis
  proof (cases "event_by_id (w_db w) i")
    case None
    then show ?thesis
      using w e by (simp add: WP_Process_def wp_simps wp_BeginProcessing event_by_id_begin split: option.split)
  next
    case (Some x)
    then show ?thesis
      using w e i[OF Some]
      apply (simp add: WP_Process_def wp_simps wp_BeginProcessing event_by_id_begin split: option.split)
      apply (intro impI; rule wp_mono[OF h])
      apply (auto simp: wp_simps wp_MarkProcessed event_by_id_upd map_update_where intro!: wp_mono[OF m] split: sum.split option.split)
      done
  qed
qed

lemma runs_refine:
  assumes "wh_runs handle rc w w'" "w_tx w = None" "distinct (map wh_ID (t_events (w_db w)))"
    "event_by_id (w_db w) i = Some e"
  shows "w_tx w' = None \<and> distinct (map wh_ID (t_events (w_db w'))) \<and>
    (\<exists>e'. event_by_id (w_db w') i = Some e' \<and> wh_core e' = wh_core e \<and> wh_steps (rc_MaxAttempts rc) (wh_state e) (wh_state e'))"
  using assms
proof (induction rule: wh_runs.induct)
  case (wh_runs_step w w' j x w'')
  then obtain e' where e': "w_tx w' = None" "distinct (map wh_ID (t_events (w_db w')))"
      "event_by_id (w_db w') i = Some e'" "wh_core e' = wh_core e \<and> wh_steps (rc_MaxAttempts rc) (wh_state e) (wh_state e')"
    by blast
  show ?case
  proof (cases "j = i")
    case True
    with wp_run[OF wp_process[OF e'(1-3), of rc]] wh_runs_step.hyps(2) e'(4) show ?thesis
      by (fastforce split: prod.splits intro: rtranclp_trans)
  next
    case False
    with wp_run[OF wp_process_other[OF e'(1-3) not_sym]] wh_runs_step.hyps(2) e'(4) show ?thesis
      by blast
  qed
qed blast

end

section \<open>Backoff\<close>

lemma sint_of_int:
  assumes "- (2 ^ 63) \<le> k" "k < 2 ^ 63"
  shows "sint (word_of_int k :: 64 word) = k"
proof -
  have "signed_take_bit 63 k = k"
    using assms by (simp only: signed_take_bit_int_eq_self_iff)
  then show ?thesis
    unfolding signed_of_int by simp
qed

lemma push_bit_one_word: "push_bit n (1 :: 64 word) = word_of_int (2 ^ n)"
  by (simp add: push_bit_eq_mult)

text \<open>
  C36. As long as the exact product fits in 63 bits, the backoff after attempt \<open>a\<close> is the initial backoff
  doubled \<open>a - 1\<close> times, capped by the maximal one; it is then positive.
\<close>

theorem backoff_is_capped_exponential:
  assumes "1 \<le> a" "0 < sint (rc_InitialBackoff rc)" "0 < sint (rc_MaxBackoff rc)"
    and "2 ^ nat (a - 1) * sint (rc_InitialBackoff rc) < 2 ^ 63"
  shows "sint (nextBackoff rc a) = min (2 ^ nat (a - 1) * sint (rc_InitialBackoff rc)) (sint (rc_MaxBackoff rc)) \<and>
    0 < sint (nextBackoff rc a)"
proof -
  let ?k = "2 ^ nat (a - 1) * sint (rc_InitialBackoff rc)"
  have "push_bit (nat (a - 1)) (1 :: 64 word) * rc_InitialBackoff rc = word_of_int ?k"
    by (simp add: push_bit_one_word)
  moreover have "0 < ?k"
    using assms(2) by simp
  ultimately have "sint (push_bit (nat (a - 1)) (1 :: 64 word) * rc_InitialBackoff rc) = ?k"
    using sint_of_int[of ?k] assms(4) by simp
  then show ?thesis
    using assms(1,3) \<open>0 < ?k\<close> by (auto simp: nextBackoff_def Let_def min_def)
qed

theorem backoff_is_capped_exponential_witness:
  "sint (nextBackoff defaultWebhookRetryConfig 4) = 8 * sint minute \<and> sint (nextBackoff defaultWebhookRetryConfig 7) = sint hour"
  using backoff_is_capped_exponential[of 4 defaultWebhookRetryConfig] backoff_is_capped_exponential[of 7 defaultWebhookRetryConfig]
  by (simp add: defaultWebhookRetryConfig_def minute_def hour_def)

text \<open>
  Beyond that the product wraps. From attempt 65 on the multiplier is 0 and the event is retried
  at once; with the default one-minute start, attempt 29 schedules the retry 74 years before the failure.
\<close>

theorem backoff_overflows:
  "(\<forall>rc a. 65 \<le> a \<longrightarrow> 0 \<le> sint (rc_MaxBackoff rc) \<longrightarrow> nextBackoff rc a = 0) \<and>
   sint (nextBackoff defaultWebhookRetryConfig 29) < - (74 * 365 * day_ns)"
proof -
  have "push_bit (nat (a - 1)) (1 :: 64 word) = 0" if "65 \<le> a" for a :: int
    by (rule bit_word_eqI) (use that in \<open>simp only: bit_push_bit_iff, simp\<close>)
  then have "nextBackoff rc a = 0" if "65 \<le> a" "0 \<le> sint (rc_MaxBackoff rc)" for rc a
    using that unfolding nextBackoff_def Let_def by (simp only:) simp
  moreover have "sint (nextBackoff defaultWebhookRetryConfig 29) < - (74 * 365 * day_ns)"
    by code_simp
  ultimately show ?thesis by blast
qed

theorem backoff_overflows_witness:
  "nextBackoff defaultWebhookRetryConfig 70 = 0"
  using backoff_overflows by (simp add: defaultWebhookRetryConfig_def hour_def)

section \<open>Configuration\<close>

text \<open>
  The configuration that the service runs with always has at least one attempt and one row per
  batch, a positive initial backoff and a maximal backoff not below it, whatever the file says; so the
  validation of the webhook section never fails.
\<close>

theorem webhook_config_always_valid:
  "validateWebhookConfig cfg = Inr () \<and>
   (let rc = GetWebhookRetryConfig cfg in 1 \<le> rc_MaxAttempts rc \<and> 0 < sint (rc_InitialBackoff rc) \<and>
      sint (rc_InitialBackoff rc) \<le> sint (rc_MaxBackoff rc) \<and> 1 \<le> rc_BatchSize rc)"
proof -
  have "1 \<le> rc_MaxAttempts rc \<and> 0 < sint (rc_InitialBackoff rc) \<and>
      sint (rc_InitialBackoff rc) \<le> sint (rc_MaxBackoff rc) \<and> 1 \<le> rc_BatchSize rc"
    if "rc = GetWebhookRetryConfig cfg" for rc
  proof (cases cfg)
    case None
    then show ?thesis
      by (simp add: that GetWebhookRetryConfig_def defaultWebhookRetryConfig_def minute_def hour_def)
  next
    case (Some r)
    have "sint minute = 60000000000" "sint hour = 3600000000000"
      by (simp_all add: minute_def hour_def)
    then show ?thesis
      by (auto simp: Some that GetWebhookRetryConfig_def defaultWebhookRetryConfig_def Let_def)
  qed
  then show ?thesis
    by (auto simp: validateWebhookConfig_def Let_def)
qed

end
