(* ===== verification/Deduplication.thy ===== *)
theory Deduplication
  imports Idempotency Samples
begin

text \<open>
  What the idempotency records guarantee: a webhook with a success record is never handled again, one
  without is, the record of a key is unique under every schedule of faults; and where the guarantee ends.
\<close>

section \<open>What the service keeps\<close>

lemma keeps_ProcessWebhook:
  assumes "\<And>r t. I t \<Longrightarrow> idem_unique (t_idems (add_idem r t)) \<Longrightarrow> I (add_idem r t)"
    and "\<And>i st x now t. I t \<Longrightarrow> I (set_idem i st x now t)"
    and f: "keeps False I f"
  shows "keeps False I (ProcessWebhook ev et proc payload f)"
proof -
  have u: "keeps False I (IdemRepo_UpdateStatus i st x)" for i st x
    unfolding IdemRepo_UpdateStatus_def by (intro keeps_intros keeps_exec) (auto intro: assms(2))
  have c: "keeps False I (IdemRepo_Create op k uid)" for op k uid
    unfolding IdemRepo_Create_def by (intro keeps_intros keeps_exec) (auto simp: Let_def intro: assms(1) split: if_splits)
  have g: "keeps False I (IdemRepo_GetByOperationAndKey op k)" for op k
    unfolding IdemRepo_GetByOperationAndKey_def by (rule keeps_query)
  have r: "keeps False I (run_and_record req payload f)" for req
    unfolding run_and_record_def Idem_Fail_def Idem_Complete_def by (intro keeps_intros u f)
  have b: "keeps False I (Idem_Begin op k uid)" for op k uid
    unfolding Idem_Begin_def by (intro keeps_intros c g)
  show ?thesis
    unfolding ProcessWebhook_def by (intro keeps_intros r b)
qed

section \<open>Runs of the function\<close>

abbreviation webhook_key :: "string \<Rightarrow> processor \<Rightarrow> string" where
  "webhook_key et proc \<equiv> trim_space (webhook_operation (processor_str proc) et)"

lemma webhook_key_nonempty [simp]: "webhook_key et proc \<noteq> ''''"
  unfolding webhook_operation_def trim_space_def
  by (simp add: is_space_def)

definition succeeded :: "tables \<Rightarrow> string \<Rightarrow> processor \<Rightarrow> string \<Rightarrow> bool" where
  "succeeded t et proc ev \<longleftrightarrow> (case idem_by_key t (webhook_key et proc) (trim_space ev) of
     Some r \<Rightarrow> equal_fold (idem_Status r) ''success'' | None \<Rightarrow> False)"

lemma wp_ProcessWebhook_done:
  assumes "db_fault Pool w = None" "trim_space ev \<noteq> ''''" "succeeded (w_db w) et proc ev"
  shows "wp (ProcessWebhook ev et proc payload f) Q w = Q (Inr ()) (tick w)"
  using assms by (simp add: ProcessWebhook_def Idem_Begin_def succeeded_def Let_def wp_simps split: option.splits)

text \<open>\<open>new_idem w op k\<close>: the record that a first delivery inserts.\<close>

definition new_idem :: "world \<Rightarrow> string \<Rightarrow> string \<Rightarrow> idempotency_request" where
  "new_idem w op k = \<lparr>idem_ID = env_uuid (w_env w) (Suc (w_pc w)), idem_Operation = op, idem_Key = k, idem_UserID = None,
     idem_Status = ''pending'', idem_ResultJSON = None, idem_CreatedAt = clock_now (tick (tick w)), idem_UpdatedAt = clock_now (tick (tick w))\<rparr>"

text \<open>
  The world in which a first delivery runs its function: the record is inserted and pending.
\<close>

definition begun_world :: "world \<Rightarrow> string \<Rightarrow> processor \<Rightarrow> string \<Rightarrow> world" where
  "begun_world w et proc ev = db_write Pool (add_idem (new_idem w (webhook_key et proc) (trim_space ev))) (tick (tick (tick w)))"

definition idem_fresh :: "world \<Rightarrow> string \<Rightarrow> processor \<Rightarrow> string \<Rightarrow> bool" where
  "idem_fresh w et proc ev \<longleftrightarrow> idem_unique (t_idems (w_db w)) \<and> env_uuid (w_env w) (Suc (w_pc w)) \<notin> idem_ID ` set (t_idems (w_db w)) \<and>
     idem_by_key (w_db w) (webhook_key et proc) (trim_space ev) = None"

lemma idem_fresh_unique:
  assumes "idem_fresh w et proc ev"
  shows "idem_unique (t_idems (add_idem (new_idem w (webhook_key et proc) (trim_space ev)) (w_db w)))"
  using assms by (auto simp: idem_fresh_def idem_unique_def new_idem_def idem_by_key_def find_None_iff)

lemma wp_ProcessWebhook_first:
  assumes "healthy w" "trim_space ev \<noteq> ''''" "idem_fresh w et proc ev"
  shows "wp (ProcessWebhook ev et proc payload f) Q w =
    wp (run_and_record (Some (new_idem w (webhook_key et proc) (trim_space ev))) payload f) Q (begun_world w et proc ev)"
proof -
  have "wp (Idem_Begin (webhook_operation (processor_str proc) et) (trim_space ev) None) R w =
      R (Inr (new_idem w (webhook_key et proc) (trim_space ev), False)) (begun_world w et proc ev)" for R
    using assms idem_fresh_unique[OF assms(3)] wp_Idem_new[of w "webhook_operation (processor_str proc) et" "trim_space ev" _ None R]
    by (simp add: begun_world_def new_idem_def idem_fresh_def)
  then show ?thesis
    using assms(2) by (simp add: ProcessWebhook_def Let_def wp_simps)
qed

lemma wp_ProcessWebhook_again:
  assumes "db_fault Pool w = None" "trim_space ev \<noteq> ''''"
    and "idem_by_key (w_db w) (webhook_key et proc) (trim_space ev) = Some r" "\<not> equal_fold (idem_Status r) ''success''"
  shows "wp (ProcessWebhook ev et proc payload f) Q w = wp (run_and_record (Some r) payload f) Q (tick w)"
  using assms by (simp add: ProcessWebhook_def Idem_Begin_def Let_def wp_simps)

lemma first_then_skip:
  assumes w: "healthy w" "trim_space ev \<noteq> ''''" "idem_fresh w et proc ev"
    and f: "run_state f (begun_world w et proc ev) = (Inr (), w1)" "healthy w1"
      "t_idems (w_db w1) = t_idems (w_db (begun_world w et proc ev))"
    and run: "run_state (ProcessWebhook ev et proc payload f) w = (r, w2)"
  shows "r = Inr () \<and> w_db w2 = set_idem (env_uuid (w_env w) (Suc (w_pc w))) ''success'' payload (clock_now w1) (w_db w1) \<and>
    run_state (ProcessWebhook ev et proc payload' g) w2 = (Inr (), tick w2)"
proof -
  let ?r = "new_idem w (webhook_key et proc) (trim_space ev)"
  have hit: "idem_ID ?r \<in> idem_ID ` set (t_idems (w_db w1))"
    unfolding f(3) begun_world_def by simp
  have "wp (ProcessWebhook ev et proc payload f) (\<lambda>r w2. r = Inr () \<and>
      w2 = db_write Pool (set_idem (idem_ID ?r) ''success'' payload (clock_now w1)) (tick w1)) w"
    unfolding wp_ProcessWebhook_first[OF w] run_and_record_def Idem_Complete_def
    using f(2) hit by (simp add: wp_simps wp_of_run[OF f(1)])
  then have w2: "r = Inr () \<and> w2 = db_write Pool (set_idem (idem_ID ?r) ''success'' payload (clock_now w1)) (tick w1)"
    using wp_run[OF _ run] by blast
  have "idem_by_key (w_db w1) (webhook_key et proc) (trim_space ev) = Some ?r"
    using w(3) f(3) by (simp add: idem_by_key_def begun_world_def idem_fresh_def find_append new_idem_def)
  then have "succeeded (w_db w2) et proc ev"
    using w2 by (simp add: succeeded_def idem_by_key_set equal_fold_def)
  moreover have "db_fault Pool w2 = None"
    using w2 f(2) by simp
  ultimately show ?thesis
    using w2 run_state_wp[OF wp_ProcessWebhook_done[OF _ w(2)]] by (simp add: new_idem_def)
qed

section \<open>Properties\<close>

text \<open>
  A webhook whose event identifier has a success record is not handled: whatever the function, the
  delivery returns nil, and nothing changes but the one lookup.
\<close>

theorem processed_webhook_skipped:
  assumes "db_fault Pool w = None" "trim_space ev \<noteq> ''''" "succeeded (w_db w) et proc ev"
  shows "run_state (ProcessWebhook ev et proc payload f) w = (Inr (), tick w)"
  by (rule run_state_wp) (rule wp_ProcessWebhook_done[OF assms])

text \<open>
  C23. The first delivery of an identifier runs the function once, on a world that differs only by the
  pending record; when the function succeeds (and leaves the records alone), the delivery returns nil
  and every later delivery of that identifier, by then, skips its function.
\<close>

theorem first_delivery_then_skip:
  assumes w: "healthy w" "trim_space ev \<noteq> ''''" "idem_fresh w et proc ev"
    and f: "run_state f (begun_world w et proc ev) = (Inr (), w1)" "healthy w1"
      "t_idems (w_db w1) = t_idems (w_db (begun_world w et proc ev))"
    and run: "run_state (ProcessWebhook ev et proc payload f) w = (r, w2)"
  shows "r = Inr () \<and> w_db w2 = set_idem (env_uuid (w_env w) (Suc (w_pc w))) ''success'' payload (clock_now w1) (w_db w1) \<and>
    run_state (ProcessWebhook ev et proc payload' g) w2 = (Inr (), tick w2)"
  by (rule first_then_skip[OF assms])

text \<open>
  A delivery whose identifier has a record without success runs its function again. That is the
  retry of a failed delivery; it is also the fate of a second delivery that arrives while the first one
  is still pending, and of every delivery whose success could not be recorded.
\<close>

theorem unfinished_webhook_runs_again:
  assumes "db_fault Pool w = None" "trim_space ev \<noteq> ''''"
    and "idem_by_key (w_db w) (webhook_key et proc) (trim_space ev) = Some r" "\<not> equal_fold (idem_Status r) ''success''"
  shows "run_state (ProcessWebhook ev et proc payload f) w = run_state (run_and_record (Some r) payload f) (tick w)"
  by (rule run_state_wp_eq) (rule wp_ProcessWebhook_again[OF assms])

section \<open>Witnesses\<close>

definition sample_idem :: "string \<Rightarrow> idempotency_request" where
  "sample_idem st = \<lparr>idem_ID = 7, idem_Operation = ''webhook.nmi.e'', idem_Key = ''k'', idem_UserID = None,
     idem_Status = st, idem_ResultJSON = None, idem_CreatedAt = 1, idem_UpdatedAt = 1\<rparr>"

definition delivered_world :: "string \<Rightarrow> world" where
  "delivered_world st = sample_world\<lparr>w_db := sample_tables\<lparr>t_idems := [sample_idem st]\<rparr>\<rparr>"

theorem processed_webhook_skipped_witness:
  "run_state (ProcessWebhook '' k '' ''e'' ProcessorNMI None (throw ErrNoRows)) (delivered_world ''Success'') = (Inr (), tick (delivered_world ''Success''))"
  by (rule processed_webhook_skipped) code_simp+

theorem first_delivery_then_skip_witness:
  "\<exists>w2. run_state (ProcessWebhook ''k'' ''e'' ProcessorNMI None (ok ())) sample_world = (Inr (), w2) \<and>
     run_state (ProcessWebhook ''k'' ''e'' ProcessorNMI None (throw ErrNoRows)) w2 = (Inr (), tick w2)"
proof -
  obtain r w2 where run: "run_state (ProcessWebhook ''k'' ''e'' ProcessorNMI None (ok ())) sample_world = (r, w2)"
    by (metis surj_pair)
  have h: "healthy sample_world"
    using good_sample by (rule goodD)
  have fresh: "idem_fresh sample_world ''e'' ProcessorNMI ''k''"
    by (simp add: idem_fresh_def sample_world_def sample_env_def idem_unique_def idem_by_key_def sample_tables_def)
  have k: "trim_space ''k'' \<noteq> ''''"
    by code_simp
  have f: "run_state (ok ()) (begun_world sample_world ''e'' ProcessorNMI ''k'') = (Inr (), begun_world sample_world ''e'' ProcessorNMI ''k'')"
    by (simp add: ok_def)
  have h1: "healthy (begun_world sample_world ''e'' ProcessorNMI ''k'')"
    using h by (simp add: begun_world_def)
  show ?thesis
    using first_delivery_then_skip[OF h k fresh f h1 refl run] run by blast
qed

theorem unfinished_webhook_runs_again_witness:
  "run_state (ProcessWebhook ''k'' ''e'' ProcessorNMI None (throw ErrNoRows)) (delivered_world ''pending'') =
     run_state (run_and_record (Some (sample_idem ''pending'')) None (throw ErrNoRows)) (tick (delivered_world ''pending''))"
  by (rule unfinished_webhook_runs_again) code_simp+

end
