(* ===== verification/Webhook_Laws.thy ===== *)
theory Webhook_Laws
  imports Webhook_Dispatcher Webhook_Retry Lifecycle_Laws Deduplication
begin

text \<open>
  What holds of every webhook under every schedule of database faults: the handlers keep each invariant of
  the tables that the single statements keep (the locale \<open>webhook_inv\<close>, which extends \<open>table_inv\<close>), so the
  dispatcher is a handler in the sense of the retry protocol, and the schema survives any traffic.
\<close>

section \<open>Transactions with writes beside them\<close>

text \<open>
  The CCBill handlers write a notification on the pool while their transaction is open. \<open>world_inv\<close> is the
  contract of a predicate of the world that only statements can break; \<open>mixed I\<close> is the one of an open
  transaction that has written no notification, so that the notifications written beside it commute with it.
\<close>

locale world_inv =
  fixes S :: "world \<Rightarrow> bool"
  assumes S_tick: "S w \<Longrightarrow> S (tick w)"
    and S_fail: "S w \<Longrightarrow> S (db_fail h w)"
    and S_log: "S w \<Longrightarrow> S (w\<lparr>w_log := l\<rparr>)"
    and S_mail: "S w \<Longrightarrow> S (w\<lparr>w_outbox := x\<rparr>)"
begin

definition stable :: "(world, 'a) state \<Rightarrow> bool" where
  "stable m \<longleftrightarrow> (\<forall>w. S w \<longrightarrow> wp m (\<lambda>_. S) w)"

lemma stable_run: "stable m \<Longrightarrow> S w \<Longrightarrow> run_state m w = (x, w') \<Longrightarrow> S w'"
  unfolding stable_def wp_def by fastforce

lemma stable_bind: "stable m \<Longrightarrow> (\<And>x. stable (f x)) \<Longrightarrow> stable (State_Monad.bind m f)"
  unfolding stable_def wp_bind by (blast intro: wp_mono)

lemma stable_basic: "stable (State_Monad.return x)" "stable (ok y)" "stable (throw e)" "stable now_m" "stable new_uuid"
  "stable (log_event b)" "stable (deliver_mail n)"
  by (simp_all add: stable_def wp_simps S_tick S_log S_mail)

lemma stable_query: "stable (db_query h f)"
  by (simp add: stable_def wp_simps S_tick S_fail split: option.split)

lemma stable_exec:
  assumes "\<And>w x u. S w \<Longrightarrow> f (clock_now w) (view h w) = Inr (x, u) \<Longrightarrow> S (db_write h u w)"
  shows "stable (db_exec h f)"
proof -
  have "S (db_write h u (tick w))" if "S w" "f (clock_now w) (view h w) = Inr (x, u)" for w x u
  proof -
    have "db_write h u (tick w) = tick (db_write h u w)"
      by (simp add: db_write_def tick_def split: handle.split option.split)
    then show ?thesis
      using assms[OF that] S_tick by simp
  qed
  then show ?thesis
    by (auto simp: stable_def wp_simps S_tick S_fail split: option.split sum.split)
qed

lemma stable_if: "stable m \<Longrightarrow> stable n \<Longrightarrow> stable (if c then m else n)"
  by simp

lemma stable_Let: "stable (f x) \<Longrightarrow> stable (Let x f)"
  by simp

lemma stable_option: "stable m \<Longrightarrow> (\<And>y. stable (f y)) \<Longrightarrow> stable (case x of None \<Rightarrow> m | Some y \<Rightarrow> f y)"
  by (simp split: option.split)

lemma stable_sum: "(\<And>e. stable (f e)) \<Longrightarrow> (\<And>y. stable (g y)) \<Longrightarrow> stable (case x of Inl e \<Rightarrow> f e | Inr y \<Rightarrow> g y)"
  by (simp split: sum.split)

lemma stable_prod: "(\<And>u v. stable (f u v)) \<Longrightarrow> stable (case x of (u, v) \<Rightarrow> f u v)"
  by (simp split: prod.split)

lemmas stable_intros = stable_bind stable_basic stable_query stable_if stable_Let stable_option stable_sum stable_prod

lemma stable_delete_obsolete: "(\<And>i. stable (NQRepo_Delete h i)) \<Longrightarrow> stable (delete_obsolete h types ns n)"
  by (induction ns arbitrary: n) (auto intro!: stable_intros)

lemma stable_resolve: "stable (resolveUserID svc a)"
  unfolding resolveUserID_def Alias_Resolve_def AliasRepo_GetByAlias_def by (intro stable_intros)

lemma stable_emit: "stable (emit svc e)"
  unfolding emit_def by (intro stable_intros)

end

definition no_notifs :: "(tables \<Rightarrow> tables) \<Rightarrow> bool" where
  "no_notifs p \<longleftrightarrow> (\<forall>t n. p (t\<lparr>t_notifs := n\<rparr>) = (p t)\<lparr>t_notifs := n\<rparr>)"

definition mixed :: "(tables \<Rightarrow> bool) \<Rightarrow> world \<Rightarrow> bool" where
  "mixed I w \<longleftrightarrow> (\<exists>p. w_tx w = Some p \<and> no_notifs p) \<and> I (w_db w) \<and> I (view Tx w)"

lemma no_notifs_same: "no_notifs p \<Longrightarrow> t_notifs (p t) = t_notifs t"
  unfolding no_notifs_def by (metis tables.select_convs(3) tables.surjective tables.update_convs(3))

lemma no_notifs_comp: "no_notifs p \<Longrightarrow> no_notifs q \<Longrightarrow> no_notifs (q \<circ> p)"
  by (simp add: no_notifs_def)

lemma no_notifs_writes: "no_notifs (put_sub s)" "no_notifs (end_ents src i tm now r)" "no_notifs id"
  by (simp_all add: no_notifs_def put_sub_def end_ents_def)

lemma mixed_tx_write: "mixed I w \<Longrightarrow> no_notifs u \<Longrightarrow> I (u (view Tx w)) \<Longrightarrow> mixed I (db_write Tx u w)"
  by (auto simp: mixed_def db_write_def view_def no_notifs_comp)

text \<open>A write of notifications on the pool commutes with the transaction.\<close>

lemma mixed_pool_write:
  assumes "mixed I w" "u = (\<lambda>t. t\<lparr>t_notifs := f (t_notifs t)\<rparr>)" "I (u (w_db w))" "I (u (view Tx w))"
  shows "mixed I (db_write Pool u w)"
proof -
  obtain p where p: "w_tx w = Some p" "no_notifs p"
    using assms(1) by (auto simp: mixed_def)
  have "view Tx (db_write Pool u w) = u (view Tx w)"
    using p no_notifs_same[OF p(2)] by (simp add: view_def assms(2) no_notifs_def)
  then show ?thesis
    using assms p by (simp add: mixed_def)
qed

lemma world_inv_mixed: "world_inv (mixed I)"
  by unfold_locales (simp_all add: mixed_def)

lemma mixed_open: "w_tx w = None \<Longrightarrow> I (w_db w) \<Longrightarrow> mixed I (tx_open w)"
  using no_notifs_writes(3) by (auto simp: mixed_def)

interpretation mixed_tx: world_inv "mixed I" for I
  by (rule world_inv_mixed)

abbreviation mixed_keeps :: "(tables \<Rightarrow> bool) \<Rightarrow> (world, 'a) state \<Rightarrow> bool" where
  "mixed_keeps I \<equiv> mixed_tx.stable I"

lemma run_in_tx_mixed:
  assumes "mixed_keeps I m"
  shows "keeps False I (run_in_tx m)"
  unfolding keeps_def
proof (intro allI impI)
  fix d w
  assume s: "sane False I d w"
  then have "wp m (\<lambda>_. mixed I) (tx_open w)"
    using assms mixed_open by (auto simp: mixed_tx.stable_def sane_def)
  then show "wp (run_in_tx m) (\<lambda>_. sane False I d) w"
    unfolding wp_run_in_tx using s
    by (auto simp: sane_def mixed_def split: option.split elim!: wp_mono split: sum.split)
qed

section \<open>The statements of the handlers\<close>

locale webhook_inv = table_inv I for I :: "tables \<Rightarrow> bool" +
  assumes del_nq: "I t \<Longrightarrow> I (del_nq i t)"
    and add_idem: "I t \<Longrightarrow> idem_unique (t_idems (add_idem r t)) \<Longrightarrow> I (add_idem r t)"
    and set_idem: "I t \<Longrightarrow> I (set_idem i st x now t)"
    and add_payment: "I t \<Longrightarrow> pay_unique (t_payments (add_payment p t)) \<Longrightarrow> I (add_payment p t)"
    and add_dead_letter: "I t \<Longrightarrow> wh_ID e \<notin> wh_ID ` set (t_events t) \<Longrightarrow> I (add_event e t)"
begin

lemma keeps_emit: "keeps b I (emit svc e)"
  unfolding emit_def by (intro keeps_intros)

text \<open>A notification is written on the pool, also while a transaction is open.\<close>

lemma keeps_notify: "keeps False I (notify svc u ev d)"
  unfolding notify_def by (intro keeps_intros keeps_CreateAndDeliver del_nq add_nq)

lemma keeps_dead_letter: "keeps False I (LogUnknownEvent proc t payload h ip)" "keeps False I (LogInvalidPayload proc payload e h ip)"
proof -
  have "keeps False I (DL_persist p)" for p
    unfolding DL_persist_def
    by (intro keeps_intros keeps_exec) (auto simp: dead_letter_row_def intro: add_dead_letter split: if_splits)
  then show "keeps False I (LogUnknownEvent proc t payload h ip)" "keeps False I (LogInvalidPayload proc payload e h ip)"
    unfolding LogUnknownEvent_def LogInvalidPayload_def LogDeadLetter_def by (intro keeps_intros; simp)+
qed

lemma keeps_sub_lookup: "keeps b I (sub_lookup svc proc v k)"
  unfolding sub_lookup_def by (intro keeps_intros)

lemma keeps_resolve: "keeps b I (resolveUserID svc a)"
  unfolding resolveUserID_def Alias_Resolve_def AliasRepo_GetByAlias_def Let_def by (intro keeps_intros)

section \<open>NMI\<close>

lemmas nmi_parts = keeps_emit keeps_dead_letter keeps_sub_lookup keeps_CreateMembership keeps_RenewMembership
  keeps_CancelMembership keeps_FailMembership keeps_PayStore_Create add_payment

lemma keeps_record_payment: "keeps False I (record_payment svc provider body s)"
proof -
  have "keeps False I (db_exec Pool (\<lambda>_ _. Inl m) :: unit go)" for m
    by (rule keeps_exec) auto
  then have "keeps False I (insert_payment provider txn a c s)" for txn a c
    unfolding insert_payment_def by (cases a) (auto intro!: keeps_intros keeps_PayStore_Create add_payment)
  then show ?thesis
    unfolding record_payment_def Let_def by (intro keeps_intros)
qed

lemma keeps_nmi_handlers:
  "keeps False I (handleAddSubscription svc provider ev)" "keeps False I (handleUpdateSubscription ev)"
  "keeps False I (handleDeleteSubscription svc provider ev)" "keeps False I (handleTransactionSaleSuccess svc provider ev)"
  "keeps False I (handleTransactionSaleFailure svc provider ev)" "keeps False I (handleACUEvent ev)"
  "keeps False I (handleChargebackComplete svc ev)"
  unfolding handleAddSubscription_def handleUpdateSubscription_def handleDeleteSubscription_def handleTransactionSaleSuccess_def
    handleTransactionSaleFailure_def handleACUEvent_def handleChargebackComplete_def activate_or_renew_def Let_def
  by (intro keeps_intros nmi_parts keeps_record_payment)+

lemma keeps_nmi_handleWebhook: "keeps False I (nmi_handleWebhook svc provider payload ev)"
  unfolding nmi_handleWebhook_def Let_def by (intro keeps_intros keeps_nmi_handlers keeps_dead_letter)

lemma keeps_HandleNMIWebhook: "keeps False I (HandleNMIWebhook svc provider payload ev)"
  unfolding HandleNMIWebhook_def
  by (intro keeps_intros keeps_ProcessWebhook keeps_nmi_handleWebhook add_idem set_idem)

section \<open>CCBill\<close>

lemma mixed_tx_writes:
  "mixed I w \<Longrightarrow> sub_unique (t_subs (put_sub s (view Tx w))) \<Longrightarrow> mixed I (db_write Tx (put_sub s) w)"
  "mixed I w \<Longrightarrow> mixed I (db_write Tx (end_ents src i tm now r) w)"
  using put_sub end_ents by (auto intro!: mixed_tx_write no_notifs_writes) (auto simp: mixed_def)

lemma mixed_sub_update: "mixed_keeps I (SubRepo_Update Tx s)"
  unfolding SubRepo_Update_def
  by (intro mixed_tx.stable_intros mixed_tx.stable_exec)
     (auto intro!: mixed_tx_writes split: if_splits)

lemma mixed_end_entitlements: "mixed_keeps I (end_entitlements i tm)"
  unfolding end_entitlements_def EntRepo_EndActiveBySubscription_def
  by (intro mixed_tx.stable_intros mixed_tx.stable_exec) (auto intro!: mixed_tx_writes)

lemma mixed_notif_writes:
  "mixed I w \<Longrightarrow> mixed I (db_write Pool (del_nq i) w)"
  "mixed I w \<Longrightarrow> distinct (map nq_ID (t_notifs (add_nq n (w_db w)))) \<Longrightarrow> mixed I (db_write Pool (add_nq n) w)"
proof -
  show "mixed I (db_write Pool (del_nq i) w)" if "mixed I w"
    by (rule mixed_pool_write[where f = "filter (\<lambda>n. nq_ID n \<noteq> i)"])
       (use that in \<open>auto simp: mixed_def del_nq_def[abs_def] intro: del_nq[unfolded del_nq_def]\<close>)
  show "mixed I (db_write Pool (add_nq n) w)" if w: "mixed I w" "distinct (map nq_ID (t_notifs (add_nq n (w_db w))))"
  proof (rule mixed_pool_write[where f = "\<lambda>ns. ns @ [n]", OF w(1)])
    have "t_notifs (view Tx w) = t_notifs (w_db w)"
      using w(1) no_notifs_same by (auto simp: mixed_def view_def)
    then show "I (add_nq n (view Tx w))"
      using w by (intro add_nq) (auto simp: mixed_def)
    show "I (add_nq n (w_db w))"
      using w by (intro add_nq) (auto simp: mixed_def)
  qed (simp add: add_nq_def[abs_def])
qed

lemma mixed_notify: "mixed_keeps I (notify svc u ev d)"
proof -
  have "mixed_keeps I (NQRepo_Delete Pool i)" for i
    unfolding NQRepo_Delete_def
    by (intro mixed_tx.stable_intros mixed_tx.stable_exec) (auto intro!: mixed_notif_writes)
  moreover have "mixed_keeps I (NQRepo_Create Pool n)" for n
    unfolding NQRepo_Create_def
    by (intro mixed_tx.stable_intros mixed_tx.stable_exec) (auto intro!: mixed_notif_writes simp: Let_def split: if_splits)
  ultimately show ?thesis
    unfolding notify_def CreateAndDeliver_def cleanupObsoleteNotifications_def removeObsoleteNotifications_def NQRepo_GetNotifications_def
    by (intro mixed_tx.stable_intros mixed_tx.stable_delete_obsolete)
qed

lemma mixed_queries: "mixed_keeps I (ccbill_sub k)" "mixed_keeps I (Price_GetByCCBillPriceID Tx q)"
  unfolding ccbill_sub_def SubRepo_GetByProcessorSubscriptionID_def Price_GetByCCBillPriceID_def
  by (intro mixed_tx.stable_query)+

lemmas mixed_parts = mixed_tx.stable_intros mixed_sub_update mixed_end_entitlements mixed_notify mixed_queries
  mixed_tx.stable_resolve mixed_tx.stable_emit

lemma mixed_bodies:
  "mixed_keeps I (sale_failure_tx svc data)" "mixed_keeps I (upgrade_tx svc data a)" "mixed_keeps I (upgrade_failure_tx svc data)"
  "mixed_keeps I (billing_date_tx svc data)" "mixed_keeps I (customer_data_tx svc data)" "mixed_keeps I (reactivation_tx svc data)"
  "mixed_keeps I (refund_tx svc data a)" "mixed_keeps I (void_tx svc data a)" "mixed_keeps I (chargeback_tx svc data a)"
  unfolding sale_failure_tx_def upgrade_tx_def upgrade_failure_tx_def billing_date_tx_def customer_data_tx_def reactivation_tx_def
    refund_tx_def save_refunded_def void_tx_def chargeback_tx_def
  by (intro mixed_parts)+

lemma keeps_ccbill_handlers:
  "keeps False I (handleNewSaleSuccess svc body)" "keeps False I (handleNewSaleFailure svc body)"
  "keeps False I (handleUpgradeSuccess svc body)" "keeps False I (handleUpgradeFailure svc body)"
  "keeps False I (handleBillingDateChange svc body)" "keeps False I (handleCustomerDataUpdate svc body)"
  "keeps False I (handleUserReactivation svc body)" "keeps False I (handleRefund svc body)"
  "keeps False I (handleVoid svc body)" "keeps False I (handleChargeback svc body)"
  "keeps False I (handleRenewalSuccess svc body)" "keeps False I (handleRenewalFailure svc body)"
  "keeps False I (handleCancel svc body)" "keeps False I (handleExpiration svc body)"
  unfolding handleNewSaleSuccess_def sell_def handleNewSaleFailure_def handleUpgradeSuccess_def handleUpgradeFailure_def
    handleBillingDateChange_def handleCustomerDataUpdate_def handleUserReactivation_def handleRefund_def handleVoid_def
    handleChargeback_def handleRenewalSuccess_def handleRenewalFailure_def handleCancel_def handleExpiration_def ccbill_lookup_def Let_def
  by (intro keeps_intros run_in_tx_mixed mixed_bodies keeps_resolve keeps_emit keeps_notify keeps_sub_lookup
      keeps_CreateMembership keeps_RenewMembership keeps_CancelMembership keeps_ExpireMembership keeps_FailMembership)+

lemma keeps_HandleCCBillWebhook: "keeps False I (HandleCCBillWebhook svc t body)"
  unfolding HandleCCBillWebhook_def by (intro keeps_intros keeps_ccbill_handlers keeps_dead_letter)

section \<open>The dispatcher\<close>

lemma keeps_WD_Process: "keeps False I (WD_Process svc e)"
  unfolding WD_Process_def processCCBill_def processNMI_def Let_def
  by (intro keeps_intros keeps_HandleCCBillWebhook keeps_HandleNMIWebhook)

end

section \<open>Instances\<close>

interpretation webhook_schema: webhook_inv schema_ok
  by unfold_locales (simp_all add: schema_ok_def idem_unique_def map_update_where del_nq_def distinct_map_filter add_event_def)

interpretation webhook_events: webhook_inv "events_grown es" for es
  by unfold_locales (auto simp: events_grown_def del_nq_def add_event_def)

text \<open>The dispatcher is a handler in the sense of the retry protocol, whatever its services.\<close>

interpretation dispatcher: webhook_handler "WD_Process svc" for svc
  by unfold_locales (rule webhook_events.keeps_WD_Process)

end
