(* ===== verification/Webhook_Traffic.thy ===== *)
theory Webhook_Traffic
  imports Webhook_Laws Samples
begin

text \<open>
  Webhook traffic as one step relation: requests, processing jobs and runs of the retry worker, in any order
  and under any schedule of database faults; and what every event goes through.
\<close>

section \<open>The steps\<close>

inductive traffic :: "wd_services \<Rightarrow> retry_config \<Rightarrow> world \<Rightarrow> world \<Rightarrow> bool" for svc rc where
  traffic_none: "traffic svc rc w w"
| traffic_job: "traffic svc rc w w' \<Longrightarrow>
    run_state (WebhookProcessWorker_Work (Some (WD_Process svc)) (Some rc) i) w' = (x, w'') \<Longrightarrow> traffic svc rc w w''"
| traffic_retry: "traffic svc rc w w' \<Longrightarrow>
    run_state (WebhookRetryWorker_Work (Some (WD_Process svc)) (Some rc)) w' = (x, w'') \<Longrightarrow> traffic svc rc w w''"
| traffic_request: "traffic svc rc w w' \<Longrightarrow> rt_Dispatch rt = Some svc \<Longrightarrow> rt_Events rt = Some rc \<Longrightarrow>
    run_state (Webhook rt r) w' = (y, w'') \<Longrightarrow> traffic svc rc w w''"

section \<open>Invariants of the tables\<close>

locale event_inv = webhook_inv I for I :: "tables \<Rightarrow> bool" +
  assumes begin_event: "I t \<Longrightarrow> I (begin_event i now t)"
    and processed: "I t \<Longrightarrow> I (upd_event i (processed now) t)"
    and failed_event: "I t \<Longrightarrow> I (upd_event i (failed_event st n msg now) t)"
begin

lemma keeps_process: "keeps False I (WP_Process (Some (WD_Process svc)) (Some rc) i)"
proof -
  have "keeps False I (WE_BeginProcessing (Some rc) i)"
    unfolding WE_BeginProcessing_def by (auto intro!: keeps_intros keeps_exec begin_event)
  moreover have "keeps False I (WE_MarkProcessed (Some rc) i)"
    unfolding WE_MarkProcessed_def by (auto intro!: keeps_intros keeps_exec processed)
  moreover have "keeps False I (WE_MarkFailure (Some rc) (Some e) err)" for e err
    unfolding WE_MarkFailure_def Let_def by (auto intro!: keeps_intros keeps_exec failed_event)
  ultimately show ?thesis
    unfolding WP_Process_def by (auto intro!: keeps_intros keeps_WD_Process)
qed

lemma keeps_retry_all: "keeps False I (retry_all (Some (WD_Process svc)) (Some rc) es first)"
  by (induction es arbitrary: first) (auto intro!: keeps_intros keeps_process split: option.split prod.split)

lemma keeps_workers:
  "keeps False I (WebhookProcessWorker_Work (Some (WD_Process svc)) (Some rc) i)"
  "keeps False I (WebhookRetryWorker_Work (Some (WD_Process svc)) (Some rc))"
  unfolding WebhookProcessWorker_Work_def WebhookRetryWorker_Work_def WE_ListRetryable_def Let_def
  by (auto intro!: keeps_intros keeps_process keeps_retry_all)

lemma keeps_Create: "keeps False I (WE_Create svc p)"
  unfolding WE_Create_def Let_def
  by (intro keeps_intros keeps_exec) (auto simp: Let_def intro: add_dead_letter split: if_splits)

lemma keeps_Webhook:
  assumes "rt_Dispatch rt = Some svc" "rt_Events rt = Some rc"
  shows "keeps False I (Webhook rt r)"
  unfolding Webhook_def handleNMIWebhook_def ccbill_webhook_def accept_event_def queueOrProcessWebhook_def rt_process_def Let_def
  by (auto simp: assms intro!: keeps_intros keeps_Create keeps_process keeps_dead_letter)

lemma keeps_traffic: "traffic svc rc w w' \<Longrightarrow> w_tx w = None \<Longrightarrow> I (w_db w) \<Longrightarrow> w_tx w' = None \<and> I (w_db w')"
proof (induction rule: traffic.induct)
  case (traffic_job w w' i x w'')
  with wp_run[OF keepsD[OF keeps_workers(1)], of undefined w'] show ?case
    by (simp add: sane_def)
next
  case (traffic_retry w w' x w'')
  with wp_run[OF keepsD[OF keeps_workers(2)], of undefined w'] show ?case
    by (simp add: sane_def)
next
  case (traffic_request w w' rt r y w'')
  with wp_run[OF keepsD[OF keeps_Webhook], of rt svc rc undefined w' r] show ?case
    by (simp add: sane_def)
qed simp

end

interpretation traffic_schema: event_inv schema_ok
  by unfold_locales (simp_all add: schema_ok_def begin_event_def upd_event_def)

interpretation traffic_ids: event_inv "\<lambda>t. distinct (map wh_ID (t_events t))"
  by unfold_locales (simp_all add: del_nq_def map_update_where)

section \<open>Actions that move events along the machine\<close>

definition quiet :: "world \<Rightarrow> bool" where
  "quiet w \<longleftrightarrow> w_tx w = None \<and> distinct (map wh_ID (t_events (w_db w)))"

definition moved :: "int \<Rightarrow> world \<Rightarrow> world \<Rightarrow> bool" where
  "moved m w w' \<longleftrightarrow> (\<forall>i e. event_by_id (w_db w) i = Some e \<longrightarrow>
     (\<exists>e'. event_by_id (w_db w') i = Some e' \<and> wh_core e' = wh_core e \<and> wh_steps m (wh_state e) (wh_state e')))"

definition advances :: "int \<Rightarrow> (world, 'a) state \<Rightarrow> bool" where
  "advances m c \<longleftrightarrow> (\<forall>w. quiet w \<longrightarrow> wp c (\<lambda>_ w'. quiet w' \<and> moved m w w') w)"

lemma moved_refl: "moved m w w"
  by (auto simp: moved_def)

lemma moved_trans: "moved m w w' \<Longrightarrow> moved m w' w'' \<Longrightarrow> moved m w w''"
  unfolding moved_def by (metis rtranclp_trans)

lemma advances_bind: "advances m c \<Longrightarrow> (\<And>x. advances m (f x)) \<Longrightarrow> advances m (State_Monad.bind c f)"
  unfolding advances_def wp_bind by (fastforce elim!: wp_mono intro: moved_trans)

lemma advances_keeps:
  assumes "\<And>es. keeps False (events_grown es) c"
  shows "advances m c"
  unfolding advances_def
proof (intro allI impI)
  fix w
  assume q: "quiet w"
  then have "sane False (events_grown (t_events (w_db w))) undefined w"
    by (simp add: sane_def quiet_def events_grown_def)
  from keepsD[OF assms this] show "wp c (\<lambda>_ w'. quiet w' \<and> moved m w w') w"
    by (rule wp_mono) (auto simp: sane_def quiet_def moved_def events_grown_def event_by_id_def
        dest!: event_by_id_grown[unfolded events_grown_def event_by_id_def, OF conjI])
qed

lemma quiet_sane: "quiet w = sane False (\<lambda>t. distinct (map wh_ID (t_events t))) d w"
  by (simp add: quiet_def sane_def)

lemma advances_process: "advances (rc_MaxAttempts rc) (WP_Process (Some (WD_Process svc)) (Some rc) i)"
  unfolding advances_def
proof (intro allI impI)
  fix w
  assume q: "quiet w"
  show "wp (WP_Process (Some (WD_Process svc)) (Some rc) i) (\<lambda>_ w'. quiet w' \<and> moved (rc_MaxAttempts rc) w w') w"
  proof (rule wpI)
    fix x w'
    assume run: "run_state (WP_Process (Some (WD_Process svc)) (Some rc) i) w = (x, w')"
    have "quiet w'"
      using wp_run[OF keepsD[OF traffic_ids.keeps_process] run] q by (simp add: quiet_sane[of _ undefined])
    then show "quiet w' \<and> moved (rc_MaxAttempts rc) w w'"
      using dispatcher.runs_refine[OF wh_runs_step[OF wh_runs_none run]] q by (auto simp: quiet_def moved_def)
  qed
qed

lemma advances_basic: "advances m (State_Monad.return x)" "advances m (ok y)" "advances m (throw e)"
  by (auto intro!: advances_keeps keeps_intros)

lemma advances_Create: "advances m (WE_Create svc p)"
  unfolding WE_Create_def Let_def
  by (intro advances_keeps keeps_intros keeps_exec) (auto simp: Let_def intro: webhook_events.add_dead_letter split: if_splits)

lemma advances_list: "advances m (WE_ListRetryable svc n)"
  unfolding WE_ListRetryable_def Let_def by (intro advances_keeps keeps_intros)

lemmas advances_parts = advances_bind advances_basic advances_process

lemma advances_retry_all: "advances (rc_MaxAttempts rc) (retry_all (Some (WD_Process svc)) (Some rc) es first)"
  by (induction es arbitrary: first) (auto intro!: advances_parts split: option.split prod.split)

lemma advances_workers:
  "advances (rc_MaxAttempts rc) (WebhookProcessWorker_Work (Some (WD_Process svc)) (Some rc) i)"
  "advances (rc_MaxAttempts rc) (WebhookRetryWorker_Work (Some (WD_Process svc)) (Some rc))"
  unfolding WebhookProcessWorker_Work_def WebhookRetryWorker_Work_def
  by (auto intro!: advances_parts advances_list advances_retry_all split: option.split sum.split prod.split)

lemma advances_Webhook:
  assumes "rt_Dispatch rt = Some svc" "rt_Events rt = Some rc"
  shows "advances (rc_MaxAttempts rc) (Webhook rt r)"
proof -
  have dl: "advances m (LogUnknownEvent p t b h ip)" "advances m (LogInvalidPayload p b e h ip)" for m p t b h ip e
    by (intro advances_keeps webhook_events.keeps_dead_letter)+
  have q: "advances (rc_MaxAttempts rc) (queueOrProcessWebhook rt i)" for i
    unfolding queueOrProcessWebhook_def rt_process_def
    by (auto simp: assms intro!: advances_parts split: option.split prod.split)
  have a: "advances (rc_MaxAttempts rc) (accept_event rt p)" for p
    unfolding accept_event_def by (auto intro!: advances_bind advances_Create advances_basic q split: sum.split)
  have n: "advances (rc_MaxAttempts rc) (handleNMIWebhook rt p r)" for p
    unfolding handleNMIWebhook_def Let_def by (auto intro!: advances_basic a split: option.split sum.split prod.split)
  have c: "advances (rc_MaxAttempts rc) (ccbill_webhook rt r)"
    unfolding ccbill_webhook_def Let_def by (auto intro!: advances_bind advances_basic a dl split: option.split)
  show ?thesis
    unfolding Webhook_def by (auto intro!: advances_bind advances_basic n c dl split: option.split)
qed

lemma traffic_moves:
  assumes "traffic svc rc w w'" "quiet w"
  shows "quiet w' \<and> moved (rc_MaxAttempts rc) w w'"
  using assms
proof (induction rule: traffic.induct)
  case (traffic_job w w' i x w'')
  then show ?case
    using wp_run[of "WebhookProcessWorker_Work (Some (WD_Process svc)) (Some rc) i"] advances_workers(1)[of rc svc i]
    unfolding advances_def by (blast intro: moved_trans)
next
  case (traffic_retry w w' x w'')
  then show ?case
    using wp_run[of "WebhookRetryWorker_Work (Some (WD_Process svc)) (Some rc)"] advances_workers(2)[of rc svc]
    unfolding advances_def by (blast intro: moved_trans)
next
  case (traffic_request w w' rt r y w'')
  then show ?case
    using wp_run[of "Webhook rt r"] advances_Webhook[of rt svc rc r]
    unfolding advances_def by (blast intro: moved_trans)
qed (simp add: moved_refl)

section \<open>Events at rest\<close>

definition at_rest :: "uuid \<Rightarrow> webhook_event \<Rightarrow> world \<Rightarrow> bool" where
  "at_rest i e w \<longleftrightarrow> quiet w \<and> \<not> retryable e \<and> event_by_id (w_db w) i = Some e"

interpretation resting: world_inv "at_rest i e" for i e
  by unfold_locales (auto simp: at_rest_def quiet_def)

lemma resting_keeps:
  assumes "\<And>es. keeps False (events_grown es) c"
  shows "resting.stable i e c"
  unfolding resting.stable_def
proof (intro allI impI)
  fix w
  assume r: "at_rest i e w"
  then have "sane False (events_grown (t_events (w_db w))) undefined w"
    by (simp add: sane_def at_rest_def quiet_def events_grown_def)
  from keepsD[OF assms this] show "wp c (\<lambda>_. at_rest i e) w"
    by (rule wp_mono) (use r event_by_id_grown in \<open>auto simp: sane_def at_rest_def quiet_def events_grown_def event_by_id_def\<close>)
qed

text \<open>An attempt on the event itself finds no row to begin.\<close>

lemma resting_process: "resting.stable i e (WP_Process (Some (WD_Process svc)) (Some rc) j)"
  unfolding resting.stable_def
proof (intro allI impI)
  fix w
  assume r: "at_rest i e w"
  show "wp (WP_Process (Some (WD_Process svc)) (Some rc) j) (\<lambda>_. at_rest i e) w"
  proof (cases "j = i")
    case True
    then show ?thesis
      using r by (simp add: WP_Process_def wp_simps at_rest_def quiet_def wp_BeginProcessing event_by_id_begin split: option.split)
  next
    case False
    then show ?thesis
      using dispatcher.wp_process_other[of w i e j svc rc] r by (auto simp: at_rest_def quiet_def elim: wp_mono)
  qed
qed

lemma resting_retry_all: "resting.stable i e (retry_all (Some (WD_Process svc)) (Some rc) es first)"
  by (induction es arbitrary: first) (auto intro!: resting.stable_intros resting_process split: option.split prod.split)

lemma resting_actions:
  "resting.stable i e (WebhookProcessWorker_Work (Some (WD_Process svc)) (Some rc) j)"
  "resting.stable i e (WebhookRetryWorker_Work (Some (WD_Process svc)) (Some rc))"
  "rt_Dispatch rt = Some svc \<Longrightarrow> rt_Events rt = Some rc \<Longrightarrow> resting.stable i e (Webhook rt r)"
proof -
  have dl: "resting.stable i e (LogUnknownEvent p t b h ip)" "resting.stable i e (LogInvalidPayload p b x h ip)" for p t b h ip x
    by (intro resting_keeps webhook_events.keeps_dead_letter)+
  have cr: "resting.stable i e (WE_Create svc' p)" for svc' p
    unfolding WE_Create_def Let_def
    by (intro resting_keeps keeps_intros keeps_exec) (auto simp: Let_def intro: webhook_events.add_dead_letter split: if_splits)
  show "resting.stable i e (WebhookProcessWorker_Work (Some (WD_Process svc)) (Some rc) j)"
    "resting.stable i e (WebhookRetryWorker_Work (Some (WD_Process svc)) (Some rc))"
    unfolding WebhookProcessWorker_Work_def WebhookRetryWorker_Work_def WE_ListRetryable_def Let_def
    by (intro resting.stable_intros resting_process resting_retry_all)+
  show "resting.stable i e (Webhook rt r)" if "rt_Dispatch rt = Some svc" "rt_Events rt = Some rc"
    unfolding Webhook_def handleNMIWebhook_def ccbill_webhook_def accept_event_def queueOrProcessWebhook_def rt_process_def Let_def
      that option.map
    by (intro resting.stable_intros resting_process cr dl)
qed

lemma traffic_rests: "traffic svc rc w w' \<Longrightarrow> at_rest i e w \<Longrightarrow> at_rest i e w'"
  by (induction rule: traffic.induct) (auto intro: resting.stable_run resting_actions)

section \<open>Properties\<close>

text \<open>
  C1. Whatever requests, jobs and retries run, and whichever statements fail, every persisted event keeps its
  row and what was received, and its status and attempt counter move along the abstract machine: pending or
  failed, processing, and then processed, failed with attempts left, or given up.
\<close>

theorem webhook_events_follow_machine:
  assumes "traffic svc rc w w'" "quiet w" "event_by_id (w_db w) i = Some e"
  shows "\<exists>e'. event_by_id (w_db w') i = Some e' \<and> wh_core e' = wh_core e \<and> wh_steps (rc_MaxAttempts rc) (wh_state e) (wh_state e')"
  using traffic_moves[OF assms(1,2)] assms(3) by (auto simp: moved_def)

text \<open>
  A new event is attempted at most \<open>max 1 MaxAttempts\<close> times, and when its failures are recorded it is
  left retryable only while attempts remain.
\<close>

theorem webhook_attempts_bounded:
  assumes "traffic svc rc w w'" "quiet w" "event_by_id (w_db w) i = Some e" "wh_state e = (WebhookStatusPending, 0)"
    and "event_by_id (w_db w') i = Some e'"
  shows "wh_ProcessingAttempts e' \<le> max 1 (rc_MaxAttempts rc) \<and>
    (wh_Status e' = WebhookStatusFailed \<longrightarrow> wh_ProcessingAttempts e' < rc_MaxAttempts rc)"
proof -
  obtain e1 where "event_by_id (w_db w') i = Some e1" "wh_steps (rc_MaxAttempts rc) (wh_state e) (wh_state e1)"
    using traffic_moves[OF assms(1,2)] assms(3) by (auto simp: moved_def)
  moreover have "wh_inv (rc_MaxAttempts rc) (wh_state e)"
    by (simp add: assms(4) wh_inv_def)
  ultimately have "wh_inv (rc_MaxAttempts rc) (wh_state e')"
    using wh_inv_steps assms(5) by simp
  then show ?thesis
    by (simp add: wh_inv_def wh_state_def)
qed

text \<open>
  An event that is neither pending nor failed is never touched again, by any request, job or retry. For
  processed events this is what keeps a handler from running twice; it holds of an event in
  \<open>processing\<close> too, so one whose outcome could not be recorded (a crash, a failed update) is never retried.
\<close>

theorem events_at_rest_stay:
  assumes "traffic svc rc w w'" "quiet w" "event_by_id (w_db w) i = Some e"
    and "wh_Status e \<noteq> WebhookStatusPending" "wh_Status e \<noteq> WebhookStatusFailed"
  shows "event_by_id (w_db w') i = Some e"
  using traffic_rests[OF assms(1), of i e] assms by (simp add: at_rest_def retryable_def)

text \<open>
  Webhook traffic keeps the primary keys and unique indexes of \<open>schema_ok\<close>: in particular one active
  subscription per user, one payment per transaction and one idempotency record per key.
\<close>

theorem webhook_traffic_keeps_schema:
  assumes "traffic svc rc w w'" "w_tx w = None" "schema_ok (w_db w)"
  shows "w_tx w' = None \<and> schema_ok (w_db w') \<and>
    distinct (map (\<lambda>p. (pay_Processor p, pay_TransactionID p)) (t_payments (w_db w'))) \<and>
    distinct (map (\<lambda>r. (idem_Operation r, idem_Key r)) (t_idems (w_db w')))"
  using traffic_schema.keeps_traffic[OF assms] by (simp add: schema_ok_def pay_unique_def idem_unique_def)

text \<open>
  What the retry worker is given: events that are pending or failed and due by the clock of the
  statement, oldest first, no more than the batch size; an event that is left out is not due, or did not
  fit in the batch.
\<close>

theorem list_retryable_spec:
  assumes "run_state (WE_ListRetryable (Some rc) 0) w = (Inr es, w')" "0 < rc_BatchSize rc"
  shows "set es \<subseteq> {e \<in> set (t_events (w_db w)). retryable e \<and> due (clock_now w) e} \<and> sorted (map wh_ReceivedAt es) \<and>
    length es = min (nat (rc_BatchSize rc)) (length (filter (due (clock_now w)) (t_events (w_db w)))) \<and>
    (\<forall>e \<in> set (t_events (w_db w)). due (clock_now w) e \<longrightarrow> e \<notin> set es \<longrightarrow>
       length es = nat (rc_BatchSize rc) \<and> (\<forall>x \<in> set es. wh_ReceivedAt x \<le> wh_ReceivedAt e))"
proof -
  let ?all = "sort_key wh_ReceivedAt (filter (due (clock_now w)) (t_events (w_db w)))" and ?n = "nat (rc_BatchSize rc)"
  have es: "es = take ?n ?all"
    using assms by (auto simp: WE_ListRetryable_def db_query_def Let_def split: option.splits)
  have split: "?all = es @ drop ?n ?all"
    by (simp add: es)
  have sorted: "sorted (map wh_ReceivedAt es @ map wh_ReceivedAt (drop ?n ?all))"
    using sorted_sort_key[of wh_ReceivedAt] split by (metis map_append)
  have "x \<in> set (drop ?n ?all)" if "x \<in> set (t_events (w_db w))" "due (clock_now w) x" "x \<notin> set es" for x
  proof -
    have "x \<in> set ?all"
      using that by simp
    then show ?thesis
      using that(3) split by (metis UnE set_append)
  qed
  moreover have "length es = ?n" if "drop ?n ?all \<noteq> []"
    using that by (simp add: es)
  moreover have "set es \<subseteq> set ?all"
    unfolding es by (rule set_take_subset)
  ultimately show ?thesis
    using sorted by (fastforce simp: sorted_append es due_def)
qed

section \<open>Witnesses\<close>

definition sample_event :: "string \<Rightarrow> webhook_event" where
  "sample_event st = \<lparr>wh_ID = 9, wh_Processor = ''paypal'', wh_EventID = None, wh_EventType = ''e'', wh_Status = st, wh_ProcessedAt = None,
     wh_RawPayload = '''', wh_Headers = [], wh_IPAddress = ''ip'', wh_SignatureValid = None, wh_Signature = None,
     wh_ProcessingResult = None, wh_ErrorMessage = None, wh_SubscriptionID = None, wh_UserID = None, wh_ProcessingAttempts = 0,
     wh_LastAttemptAt = None, wh_NextAttemptAt = None, wh_ReceivedAt = 1, wh_CreatedAt = 1, wh_UpdatedAt = 1\<rparr>"

definition event_world :: "string \<Rightarrow> world" where
  "event_world st = sample_world\<lparr>w_db := sample_tables\<lparr>t_events := [sample_event st]\<rparr>\<rparr>"

definition sample_services :: wd_services where
  "sample_services = \<lparr>ws_Subs = True, ws_Mail = True, ws_Notif = True, ws_Billing = True, ws_Payment = True, ws_Dedup = True,
     ws_Alias = True, ws_CCBill = Some (''cc-1'', ''form''), ws_NMI = [''mobius'']\<rparr>"

text \<open>The world after a job on the event, in a world with the event in the given status.\<close>

definition after_job :: "string \<Rightarrow> world" where
  "after_job st = snd (run_state (WebhookProcessWorker_Work (Some (WD_Process sample_services)) (Some defaultWebhookRetryConfig) 9) (event_world st))"

lemma job_traffic: "traffic sample_services defaultWebhookRetryConfig (event_world st) (after_job st)"
  by (rule traffic_job[OF traffic_none]) (simp add: after_job_def prod_eq_iff)

lemma event_world_quiet: "quiet (event_world st)" "event_by_id (w_db (event_world st)) 9 = Some (sample_event st)"
  by (simp_all add: quiet_def event_world_def sample_world_def event_by_id_def sample_event_def)

theorem webhook_events_follow_machine_witness:
  "\<exists>e'. event_by_id (w_db (after_job ''pending'')) 9 = Some e' \<and> wh_state e' = (''failed'', 1) \<and>
     wh_steps 5 (''pending'', 0) (wh_state e')"
proof -
  have "wh_state (sample_event ''pending'') = (''pending'', 0)" "rc_MaxAttempts defaultWebhookRetryConfig = 5"
    by (simp_all add: wh_state_def sample_event_def defaultWebhookRetryConfig_def)
  moreover have "map_option wh_state (event_by_id (w_db (after_job ''pending'')) 9) = Some (''failed'', 1)"
    by code_simp
  ultimately show ?thesis
    using webhook_events_follow_machine[OF job_traffic event_world_quiet, of "''pending''"] by auto
qed

theorem webhook_attempts_bounded_witness:
  "\<exists>e'. event_by_id (w_db (after_job ''pending'')) 9 = Some e' \<and> wh_Status e' = ''failed'' \<and> wh_ProcessingAttempts e' < 5"
proof -
  have "wh_state (sample_event ''pending'') = (''pending'', 0)" "rc_MaxAttempts defaultWebhookRetryConfig = 5"
    by (simp_all add: wh_state_def sample_event_def defaultWebhookRetryConfig_def)
  moreover have "map_option wh_Status (event_by_id (w_db (after_job ''pending'')) 9) = Some ''failed''"
    by code_simp
  ultimately show ?thesis
    using webhook_attempts_bounded[OF job_traffic event_world_quiet, of "''pending''"] by auto
qed

theorem events_at_rest_stay_witness:
  "event_by_id (w_db (after_job ''processing'')) 9 = Some (sample_event ''processing'')"
  by (rule events_at_rest_stay[OF job_traffic event_world_quiet]) (simp_all add: sample_event_def)

theorem webhook_traffic_keeps_schema_witness:
  "schema_ok (w_db (after_job ''pending'')) \<and> w_db (after_job ''pending'') \<noteq> w_db (event_world ''pending'')"
proof -
  have "schema_ok (w_db (event_world ''pending''))"
    using sample_schema by (simp add: schema_ok_def event_world_def)
  moreover have "map_option wh_Status (event_by_id (w_db (after_job ''pending'')) 9) = Some ''failed''"
    "map_option wh_Status (event_by_id (w_db (event_world ''pending'')) 9) = Some ''pending''"
    by code_simp+
  moreover have "w_tx (event_world ''pending'') = None"
    by (simp add: event_world_def sample_world_def)
  ultimately show ?thesis
    using webhook_traffic_keeps_schema[OF job_traffic] by fastforce
qed

theorem list_retryable_spec_witness:
  "\<exists>es w'. run_state (WE_ListRetryable (Some defaultWebhookRetryConfig) 0) (event_world ''failed'') = (Inr es, w') \<and>
     length es = 1 \<and> set es \<subseteq> {e. retryable e}"
proof -
  let ?r = "run_state (WE_ListRetryable (Some defaultWebhookRetryConfig) 0) (event_world ''failed'')"
  have "map_sum id length (fst ?r) = Inr 1"
    by code_simp
  then obtain es where es: "?r = (Inr es, snd ?r)" "length es = 1"
    by (cases "fst ?r") (auto simp: prod_eq_iff)
  then show ?thesis
    using list_retryable_spec[OF es(1)] by (auto simp: defaultWebhookRetryConfig_def)
qed

end
