(* ===== verification/Encoding_Props.thy ===== *)
theory Encoding_Props
  imports Encoding
begin

text \<open>
  What is printed is read back: the round trip of a printed map through the JSON reader, and the decoding
  of such a document into a struct of strings, which is what a form-encoded webhook goes through.
\<close>

section \<open>Strings\<close>

lemma hex_digit_char: "k < 16 \<Longrightarrow> hex_digit (hex_char k) = Some k"
  by (auto simp: hex_digit_def hex_char_def Let_def)

lemma hex_digit_zero [simp]: "hex_digit (CHR ''0'') = Some 0"
  by code_simp

lemma json_string_esc:
  assumes "code c < 128"
  shows "json_string (Suc n) (escape_char c @ t) = map_option (\<lambda>(v, z). (c # v, z)) (json_string n t)"
proof (cases "code c < 32 \<or> c = CHR ''<'' \<or> c = CHR ''>'' \<or> c = CHR ''&''")
  case True
  have "hex4 (CHR ''0'' # CHR ''0'' # hex_char (code c div 16) # hex_char (code c mod 16) # t) = Some (code c, t)"
    using assms by (simp add: hex4_def hex_digit_char)
  with assms show ?thesis
    using True by (auto simp: escape_char_def unescape_unit_def utf8_def simple_escape_def)
next
  case False
  with assms show ?thesis
    by (auto simp: escape_char_def simple_escape_def)
qed

lemma rune_width_one: "rune_width (c # s) = 1 \<longleftrightarrow> code c < 128"
  by (auto simp: rune_width_def Let_def split: list.split)

lemma rune_widthE:
  assumes "rune_width (c # s) = Suc k"
  obtains "code c < 128" "k = 0"
  | b t where "s = b # t" "194 \<le> code c" "code c < 224" "second (code c) b" "k = 1"
  | b d t where "s = b # d # t" "224 \<le> code c" "code c < 240" "second (code c) b" "cont d" "k = 2"
  | b d e t where "s = b # d # e # t" "240 \<le> code c" "code c < 245" "second (code c) b" "cont d" "cont e" "k = 3"
proof -
  have "k = 0 \<or> k = 1 \<or> k = 2 \<or> k = 3"
    using assms by (auto simp: rune_width_def Let_def split: list.splits if_split_asm)
  then show thesis
    using assms that by (auto simp: rune_width_def Let_def split: list.splits if_split_asm)
qed

lemma rune_width_take:
  assumes "rune_width (c # s) = Suc k"
  shows "k \<le> length s" "rune_width (c # take k s @ t) = Suc k"
proof -
  have "k \<le> length s \<and> rune_width (c # take k s @ t) = Suc k"
    using assms by (cases rule: rune_widthE) (auto simp: rune_width_def)
  then show "k \<le> length s" "rune_width (c # take k s @ t) = Suc k"
    by auto
qed

lemma json_string_u:
  assumes "hex4 (u @ t) = Some (n, t)" "n < 55296 \<or> 57344 \<le> n"
  shows "json_string (Suc m) (CHR 0x5C # CHR ''u'' # u @ t) = map_option (\<lambda>(v, z). (utf8 n @ v, z)) (json_string m t)"
  using assms by (auto simp: unescape_unit_def)

lemma hex4_marks:
  "hex4 (''2028'' @ t) = Some (8232, t)" "hex4 (''2029'' @ t) = Some (8233, t)" "hex4 (''fffd'' @ t) = Some (65533, t)"
  by (simp_all add: hex4_def hex_digit_def Let_def)

lemma json_string_rune:
  assumes "rune_width (c # s) = Suc k"
  shows "json_string (Suc n) (escape_rune (True, c # take k s) @ t) =
    map_option (\<lambda>(v, z). (c # take k s @ v, z)) (json_string n t)"
proof (cases "k = 0 \<or> c # take k s = utf8 8232 \<or> c # take k s = utf8 8233")
  case True
  consider "k = 0" | "c # take k s = utf8 8232" | "c # take k s = utf8 8233"
    using True by blast
  then show ?thesis
  proof cases
    case 1
    then show ?thesis
      using assms rune_width_one[of c s] json_string_esc by (simp add: escape_rune_def)
  next
    case 2
    then show ?thesis
      using json_string_u[OF hex4_marks(1), of n t] by (simp add: escape_rune_def utf8_def split: list.splits)
  next
    case 3
    then show ?thesis
      using json_string_u[OF hex4_marks(2), of n t] by (simp add: escape_rune_def utf8_def split: list.splits)
  qed
next
  case False
  note w = rune_width_take[OF assms]
  have c: "\<not> code c < 128"
    using assms False rune_width_one[of c s] by auto
  have "length (c # take k s) = Suc k"
    using w(1) by simp
  with False have "escape_rune (True, c # take k s) = c # take k s"
    unfolding escape_rune_def by (simp del: length_Cons length_take)
  moreover have "c \<noteq> CHR 0x22" "c \<noteq> CHR 0x5C"
    using c by auto
  ultimately show ?thesis
    using c w by simp
qed

text \<open>What the reader makes of a string that the printer has printed: every byte that encodes no character becomes U+FFFD.\<close>

definition coerce_utf8 :: "string \<Rightarrow> string" where
  "coerce_utf8 s = concat (map (\<lambda>(valid, bs). if valid then bs else utf8 65533) (runes s))"

lemma json_string_quote:
  "length s < n \<Longrightarrow> json_string n (concat (map escape_rune (runes s)) @ CHR 0x22 # r) = Some (coerce_utf8 s, r)"
proof (induction s arbitrary: n rule: runes.induct)
  case 1
  then show ?case by (cases n) (auto simp: coerce_utf8_def)
next
  case (2 c s)
  from "2.prems" obtain m where n: "n = Suc m" "length s < m"
    by (cases n) auto
  show ?case
  proof (cases "rune_width (c # s)")
    case 0
    then show ?thesis
      using "2.IH"(1)[OF 0 n(2)] json_string_u[OF hex4_marks(3), of m]
      by (simp add: n(1) escape_rune_def coerce_utf8_def del: json_string.simps)
  next
    case (Suc k)
    have "length (drop k s) < m"
      using n(2) by simp
    from "2.IH"(2)[OF Suc this] show ?thesis
      using Suc json_string_rune[OF Suc, of m] by (simp add: n(1) coerce_utf8_def del: json_string.simps)
  qed
qed

lemma length_marks: "length (utf8 8232) = 3" "length (utf8 8233) = 3"
  by (simp_all add: utf8_def)

lemma length_escape: "length bs \<le> 4 \<Longrightarrow> length bs \<le> length (escape_rune (v, bs))"
  unfolding escape_rune_def escape_char_def using length_marks by (simp split: if_split)

lemma rune_width_le: "rune_width s \<le> 4"
  by (auto simp: rune_width_def Let_def split: list.split)

lemma length_escapes: "length s \<le> length (concat (map escape_rune (runes s)))"
proof (induction s rule: runes.induct)
  case (2 c s)
  show ?case
  proof (cases "rune_width (c # s)")
    case 0
    then show ?thesis
      using "2.IH"(1)[OF 0] by (simp add: escape_rune_def)
  next
    case (Suc k)
    have "length (c # take k s) \<le> length (escape_rune (True, c # take k s))"
      using length_escape[of "c # take k s" True] rune_width_le[of "c # s"] Suc by simp
    with "2.IH"(2)[OF Suc] rune_width_take(1)[OF Suc] show ?thesis
      by (simp add: Suc)
  qed
qed simp

lemma runes_ascii: "list_all (\<lambda>c. code c < 128) s \<Longrightarrow> runes s = map (\<lambda>c. (True, [c])) s"
proof (induction s)
  case (Cons c s)
  then have "rune_width (c # s) = Suc 0"
    using rune_width_one[of c s] by simp
  with Cons show ?case
    by simp
qed simp

lemma coerce_ascii: "list_all (\<lambda>c. code c < 128) s \<Longrightarrow> coerce_utf8 s = s"
  by (simp add: coerce_utf8_def runes_ascii comp_def concat_map_singleton)

lemma skip_ws_simps [simp]:
  "skip_ws (CHR 0x22 # s) = CHR 0x22 # s" "skip_ws (CHR ''{'' # s) = CHR ''{'' # s" "skip_ws (CHR ''}'' # s) = CHR ''}'' # s"
  "skip_ws (CHR '':'' # s) = CHR '':'' # s" "skip_ws (CHR '','' # s) = CHR '','' # s" "skip_ws [] = []"
  by (simp_all add: skip_ws_def)

lemma read_quoted:
  "json_string (length s' - Suc 0) (concat (map escape_rune (runes s)) @ CHR 0x22 # r) = Some (coerce_utf8 s, r)" if "s' = json_quote s @ r"
  using that length_escapes[of s] by (intro json_string_quote) (simp add: json_quote_def)

section \<open>Maps of strings\<close>

definition str_members :: "(string \<times> string) list \<Rightarrow> (string \<times> json) list" where
  "str_members m = map (\<lambda>(k, v). (k, JStr v)) m"

definition coerced :: "(string \<times> string) list \<Rightarrow> (string \<times> string) list" where
  "coerced m = map (map_prod coerce_utf8 coerce_utf8) m"

lemma json_value_quoted: "json_value (Suc n) (json_quote s @ r) = Some (JStr (coerce_utf8 s), r)"
  using read_quoted[of _ s r, OF refl] by (simp add: json_quote_def)

lemma json_member:
  "json_members (Suc (Suc n)) (json_quote k @ '':'' @ json_quote v @ r) =
    (case skip_ws r of [] \<Rightarrow> None | d # t \<Rightarrow> if d = CHR ''}'' then Some ([(coerce_utf8 k, JStr (coerce_utf8 v))], t)
       else if d = CHR '','' then map_option (\<lambda>(ms, z). ((coerce_utf8 k, JStr (coerce_utf8 v)) # ms, z)) (json_members (Suc n) t) else None)"
proof -
  have "json_members (Suc (Suc n)) (json_quote k @ z) = (case skip_ws z of [] \<Rightarrow> None
      | c # r2 \<Rightarrow> if c \<noteq> CHR '':'' then None else (case json_value (Suc n) r2 of None \<Rightarrow> None
        | Some (j, r3) \<Rightarrow> (case skip_ws r3 of [] \<Rightarrow> None | d # t \<Rightarrow> if d = CHR ''}'' then Some ([(coerce_utf8 k, j)], t)
            else if d = CHR '','' then map_option (\<lambda>(ms, z). ((coerce_utf8 k, j) # ms, z)) (json_members (Suc n) t) else None)))" for z
    using read_quoted[of _ k z, OF refl] by (simp add: json_quote_def)
  then show ?thesis
    using json_value_quoted by (simp del: json_value.simps json_members.simps)
qed

lemma json_members_printed:
  "m \<noteq> [] \<Longrightarrow> length m < n \<Longrightarrow> json_members n (print_members m @ r) = Some (str_members (coerced m), r)"
proof (induction m arbitrary: n rule: print_members.induct)
  case (2 k v)
  then obtain n' where "n = Suc (Suc n')"
    by (cases n; cases "n - 1") auto
  then show ?case
    using json_member[of n' k v "''}'' @ r"] by (simp add: str_members_def coerced_def del: json_members.simps)
next
  case (3 k v x m)
  then obtain n' where n: "n = Suc (Suc n')"
    by (cases n; cases "n - 1") auto
  with 3 have "json_members (Suc n') (print_members (x # m) @ r) = Some (str_members (coerced (x # m)), r)"
    by (simp del: json_members.simps)
  then show ?case
    using json_member[of n' k v "'','' @ print_members (x # m) @ r"] n by (simp add: str_members_def coerced_def del: json_members.simps)
qed simp

lemma print_members_head: "m \<noteq> [] \<Longrightarrow> \<exists>t. print_members m = CHR 0x22 # t"
  by (cases m rule: print_members.cases) (auto simp: json_quote_def)

lemma length_print_members: "2 * length m \<le> length (print_members m)"
  by (induction m rule: print_members.induct) (auto simp: json_quote_def)

lemma json_parse_printed: "json_parse (marshal_map m) = Some (JObj (str_members (coerced (sort_key fst m))))"
proof (cases "sort_key fst m = []")
  case True
  then show ?thesis
    by (simp add: json_parse_def marshal_map_def str_members_def coerced_def numeral_eq_Suc)
next
  case False
  let ?m = "sort_key fst m"
  obtain t where t: "print_members ?m = CHR 0x22 # t"
    using print_members_head[OF False] by blast
  obtain k where k: "2 * length (marshal_map m) + 2 = Suc k" "length ?m < k"
    using length_print_members[of ?m] by (auto simp: marshal_map_def)
  have "json_value (Suc k) (marshal_map m) = Some (JObj (str_members (coerced ?m)), [])"
    using json_members_printed[OF False k(2), of "[]"] by (simp add: marshal_map_def t)
  then show ?thesis
    unfolding json_parse_def k(1) by simp
qed

section \<open>Structs of strings\<close>

text \<open>
  A document of strings decodes into a struct whose fields are strings (or \<open>Stringish\<close>): each field holds
  the value of the key that is its tag, when the keys differ by more than case.
\<close>

definition string_fields :: "fields \<Rightarrow> bool" where
  "string_fields fs \<longleftrightarrow> list_all (\<lambda>(t, k). k = KString \<or> k = KStringish) fs"

lemma field_of_in: "field_of fs k = Some (t, kd) \<Longrightarrow> (t, kd) \<in> set fs \<and> fold_name t = fold_name k"
  by (auto simp: field_of_def dest!: find_Some_in split: option.splits)

lemma field_of_tag:
  assumes "k \<in> fst ` set fs"
  shows "\<exists>kd. field_of fs k = Some (k, kd)"
proof -
  have "\<exists>kd. find (\<lambda>(t, _). t = k) fs = Some (k, kd)"
    using assms by (induction fs) auto
  then show ?thesis
    by (auto simp: field_of_def)
qed

definition head_set :: "fields \<Rightarrow> string \<Rightarrow> string \<Rightarrow> struct \<Rightarrow> struct" where
  "head_set fs k v d = (case field_of fs k of None \<Rightarrow> d | Some (t, kd) \<Rightarrow> set_field t (GStr v) d)"

lemma decode_head:
  assumes "string_fields fs"
  shows "decode_members fs d (str_members ((k, v) # m)) = decode_members fs (head_set fs k v d) (str_members m)"
proof (cases "field_of fs k")
  case (Some f)
  then obtain t kd where f: "f = (t, kd)" "(t, kd) \<in> set fs"
    using field_of_in by (cases f) blast
  then have "kd = KString \<or> kd = KStringish"
    using assms by (auto simp: string_fields_def list_all_iff)
  with Some f show ?thesis
    by (auto simp: str_members_def head_set_def Stringish_Unmarshal_def)
qed (simp add: str_members_def head_set_def)

lemma head_set_other: "fold_name t \<noteq> fold_name k \<Longrightarrow> map_of (head_set fs k v d) t = map_of d t"
  by (auto simp: head_set_def set_field_def update_conv' dest!: field_of_in split: option.split)

lemma head_set_tag: "k \<in> fst ` set fs \<Longrightarrow> map_of (head_set fs k v d) k = Some (GStr v)"
  using field_of_tag[of k fs] by (auto simp: head_set_def set_field_def update_conv')

lemma decode_strings:
  assumes "string_fields fs" "distinct (map (\<lambda>(k, v). fold_name k) m)"
  shows "\<exists>d'. decode_members fs d (str_members m) = Some d' \<and>
    (\<forall>t. fold_name t \<notin> (\<lambda>(k, v). fold_name k) ` set m \<longrightarrow> map_of d' t = map_of d t) \<and>
    (\<forall>(t, v) \<in> set m. t \<in> fst ` set fs \<longrightarrow> map_of d' t = Some (GStr v))"
  using assms(2)
proof (induction m arbitrary: d)
  case Nil
  then show ?case by (simp add: str_members_def)
next
  case (Cons kv m)
  obtain k v where kv: "kv = (k, v)"
    by fastforce
  obtain d' where d': "decode_members fs (head_set fs k v d) (str_members m) = Some d'"
      "\<And>t. fold_name t \<notin> (\<lambda>(k, v). fold_name k) ` set m \<Longrightarrow> map_of d' t = map_of (head_set fs k v d) t"
      "\<And>t v kd. (t, v) \<in> set m \<Longrightarrow> (t, kd) \<in> set fs \<Longrightarrow> map_of d' t = Some (GStr v)"
    using Cons.IH[of "head_set fs k v d"] Cons.prems by fastforce
  have "map_of d' k = Some (GStr v)" if "k \<in> fst ` set fs"
    using d'(2)[of k] head_set_tag[OF that] Cons.prems by (simp add: kv)
  then show ?case
    using d' head_set_other[of _ k fs v d] by (auto simp: kv decode_head[OF assms(1)])
qed

lemma unmarshal_printed:
  assumes "string_fields fs" "distinct (map (\<lambda>(k, v). fold_name (coerce_utf8 k)) m)"
  shows "\<exists>d. unmarshal fs (marshal_map m) = Inr d \<and>
    (\<forall>(k, v) \<in> set m. coerce_utf8 k \<in> fst ` set fs \<longrightarrow> str_of d (coerce_utf8 k) = coerce_utf8 v)"
proof -
  have "distinct (map (\<lambda>(k, v). fold_name k) (coerced (sort_key fst m)))"
    using assms(2) by (simp add: coerced_def distinct_map inj_on_def case_prod_unfold)
  from decode_strings[OF assms(1) this, of "[]"] obtain d where
    d: "decode_members fs [] (str_members (coerced (sort_key fst m))) = Some d"
      "\<forall>(t, v) \<in> set (coerced m). t \<in> fst ` set fs \<longrightarrow> map_of d t = Some (GStr v)"
    by (auto simp: coerced_def)
  have "str_of d (coerce_utf8 k) = coerce_utf8 v" if "(k, v) \<in> set m" "coerce_utf8 k \<in> fst ` set fs" for k v
    using d(2) that by (force simp: coerced_def str_of_def)
  then show ?thesis
    using d(1) by (auto simp: unmarshal_def json_parse_printed unmarshal_doc_def)
qed

text \<open>The special case of ASCII keys and values, which pass unchanged.\<close>

lemma unmarshal_ascii:
  assumes "string_fields fs" "distinct (map (\<lambda>(k, v). fold_name k) m)"
    and "list_all (\<lambda>(k, v). list_all (\<lambda>c. code c < 128) (k @ v)) m"
  shows "\<exists>d. unmarshal fs (marshal_map m) = Inr d \<and> (\<forall>(t, v) \<in> set m. t \<in> fst ` set fs \<longrightarrow> str_of d t = v)"
proof -
  have c: "coerce_utf8 k = k \<and> coerce_utf8 v = v" if "(k, v) \<in> set m" for k v
    using assms(3) that by (auto simp: list_all_iff intro!: coerce_ascii)
  have "map (\<lambda>(k, v). fold_name (coerce_utf8 k)) m = map (\<lambda>(k, v). fold_name k) m"
    using c by auto
  with assms(2) have "distinct (map (\<lambda>(k, v). fold_name (coerce_utf8 k)) m)"
    by (simp only:)
  from unmarshal_printed[OF assms(1) this] obtain d where d: "unmarshal fs (marshal_map m) = Inr d"
      "\<forall>(k, v) \<in> set m. coerce_utf8 k \<in> fst ` set fs \<longrightarrow> str_of d (coerce_utf8 k) = coerce_utf8 v"
    by blast
  have "str_of d k = v" if "(k, v) \<in> set m" "k \<in> fst ` set fs" for k v
    using bspec[OF d(2) that(1)] c[OF that(1)] that(2) by simp
  with d(1) show ?thesis
    by blast
qed

end
