(* ===== verification/CCBill_Props.thy ===== *)
theory CCBill_Props
  imports Webhook_Traffic Lifecycle_Props Encoding_Props
begin

text \<open>
  The properties of the CCBill handlers: what the webhooks of a sale, a chargeback, a refund, a
  reactivation and an upgrade do to the subscription and to the access of its user.
\<close>

section \<open>What is written beside a transaction\<close>

text \<open>
  Analytics and notifications: they leave the open transaction alone, and write notifications on the
  pool only.
\<close>

definition with_notifs :: "notification list \<Rightarrow> tables \<Rightarrow> tables" where
  "with_notifs ns t = t\<lparr>t_notifs := ns\<rparr>"

definition beside :: "world \<Rightarrow> world \<Rightarrow> bool" where
  "beside w w' \<longleftrightarrow> (\<exists>ns. w_db w' = with_notifs ns (w_db w)) \<and> w_tx w' = w_tx w \<and> w_aborted w' = w_aborted w \<and>
     w_env w' = w_env w \<and> w_pc w \<le> w_pc w'"

definition writes_beside :: "(world, 'a) state \<Rightarrow> bool" where
  "writes_beside m \<longleftrightarrow> (\<forall>w. wp m (\<lambda>_. beside w) w)"

lemma with_notifs_simps [simp]:
  "with_notifs ns (with_notifs ms t) = with_notifs ns t" "t_notifs (with_notifs ns t) = ns"
  "t_subs (with_notifs ns t) = t_subs t" "t_ents (with_notifs ns t) = t_ents t" "t_prices (with_notifs ns t) = t_prices t"
  by (simp_all add: with_notifs_def)

lemma with_notifs_rows [row_simps]:
  "sub_by_id (with_notifs ns t) i = sub_by_id t i" "entitled (with_notifs ns t) u name tm = entitled t u name tm"
  by (simp_all add: sub_by_id_def entitled_def)

lemma notifs_as_is [simp]: "with_notifs (t_notifs t) t = t"
  by (simp add: with_notifs_def)

lemma nq_with_notifs: "add_nq n t = with_notifs (t_notifs t @ [n]) t" "del_nq i t = with_notifs (filter (\<lambda>n. nq_ID n \<noteq> i) (t_notifs t)) t"
  by (simp_all add: add_nq_def del_nq_def with_notifs_def)

lemma beside_trans: "beside w w' \<Longrightarrow> beside w' w'' \<Longrightarrow> beside w w''"
  unfolding beside_def by fastforce

lemma beside_refl: "w_db w' = w_db w \<Longrightarrow> w_tx w' = w_tx w \<Longrightarrow> w_aborted w' = w_aborted w \<Longrightarrow> w_env w' = w_env w \<Longrightarrow>
    w_pc w \<le> w_pc w' \<Longrightarrow> beside w w'"
  unfolding beside_def by (metis notifs_as_is)

lemma writes_beside_bind: "writes_beside m \<Longrightarrow> (\<And>x. writes_beside (f x)) \<Longrightarrow> writes_beside (State_Monad.bind m f)"
  unfolding writes_beside_def wp_bind by (blast intro: wp_mono beside_trans)

lemma writes_beside_basic:
  "writes_beside (State_Monad.return x)" "writes_beside (ok y)" "writes_beside (throw e)" "writes_beside now_m"
  "writes_beside new_uuid" "writes_beside (log_event b)" "writes_beside (deliver_mail n)"
  "writes_beside (db_query Pool f)"
  by (simp_all add: writes_beside_def wp_simps beside_refl split: option.split)

lemma writes_beside_exec:
  assumes "\<And>now t x u. f now t = Inr (x, u) \<Longrightarrow> \<exists>ns. \<forall>t. u t = with_notifs (ns (t_notifs t)) t"
  shows "writes_beside (db_exec Pool f)"
proof -
  have "beside w (db_write Pool u (tick w))" if "f now t = Inr (x, u)" for w now t x u
    using assms[OF that] by (fastforce simp: beside_def)
  then show ?thesis
    by (auto simp: writes_beside_def wp_simps beside_refl split: option.split sum.split)
qed

lemma writes_beside_cases:
  "writes_beside m \<Longrightarrow> writes_beside n \<Longrightarrow> writes_beside (if c then m else n)"
  "writes_beside (f z) \<Longrightarrow> writes_beside (Let z f)"
  "writes_beside m \<Longrightarrow> (\<And>y. writes_beside (g y)) \<Longrightarrow> writes_beside (case x of None \<Rightarrow> m | Some y \<Rightarrow> g y)"
  "(\<And>e. writes_beside (h e)) \<Longrightarrow> (\<And>y. writes_beside (k y)) \<Longrightarrow> writes_beside (case r of Inl e \<Rightarrow> h e | Inr y \<Rightarrow> k y)"
  "(\<And>a b. writes_beside (l a b)) \<Longrightarrow> writes_beside (case p of (a, b) \<Rightarrow> l a b)"
  by (auto split: option.split sum.split prod.split)

lemmas writes_beside_intros = writes_beside_bind writes_beside_basic writes_beside_cases

lemma notif_statements_beside:
  "writes_beside (NQRepo_Create Pool n)" "writes_beside (NQRepo_Delete Pool i)"
  unfolding NQRepo_Create_def NQRepo_Delete_def
  by (intro writes_beside_intros writes_beside_exec, auto simp: Let_def nq_with_notifs split: if_splits)+

lemma delete_obsolete_beside: "writes_beside (delete_obsolete Pool types ns n)"
  by (induction ns arbitrary: n) (auto intro!: writes_beside_intros notif_statements_beside)

lemma notify_beside: "writes_beside (notify svc u ev d)"
  unfolding notify_def CreateAndDeliver_def cleanupObsoleteNotifications_def removeObsoleteNotifications_def NQRepo_GetNotifications_def
  by (intro writes_beside_intros notif_statements_beside delete_obsolete_beside)

lemma emit_beside: "writes_beside (emit svc e)"
  unfolding emit_def by (intro writes_beside_intros)

lemma wp_beside: "writes_beside m \<Longrightarrow> (\<And>x w'. beside w w' \<Longrightarrow> Q x w') \<Longrightarrow> wp m Q w"
  unfolding writes_beside_def by (blast intro: wp_mono)

text \<open>The end of a transaction that closes with analytics and notifications.\<close>

definition committed :: "world \<Rightarrow> tables \<Rightarrow> world \<Rightarrow> bool" where
  "committed w t w' \<longleftrightarrow> w_tx w' = None \<and> w_env w' = w_env w \<and> (\<exists>ns. w_db w' = with_notifs ns t)"

lemma beside_view:
  assumes "beside w w'" "w_tx w = Some p" "no_notifs p"
  shows "\<exists>ns. view Tx w' = with_notifs ns (view Tx w)"
  using assms by (auto simp: beside_def view_def no_notifs_def with_notifs_def)

text \<open>\<open>open_tx w t\<close>: a transaction that may commit, has written no notification and sees the tables \<open>t\<close> up to notifications.\<close>

definition open_tx :: "world \<Rightarrow> tables \<Rightarrow> world \<Rightarrow> bool" where
  "open_tx w0 t w \<longleftrightarrow> healthy w \<and> w_env w = w_env w0 \<and> w_pc w0 \<le> w_pc w \<and> (\<exists>p. w_tx w = Some p \<and> no_notifs p) \<and> (\<exists>ns. view Tx w = with_notifs ns t)"

lemma open_tx_beside: "open_tx w0 t w \<Longrightarrow> beside w w' \<Longrightarrow> open_tx w0 t w'"
proof -
  assume o: "open_tx w0 t w" and b: "beside w w'"
  obtain p ns where p: "w_tx w = Some p" "no_notifs p" "view Tx w = with_notifs ns t"
    using o unfolding open_tx_def by blast
  obtain ns' where "view Tx w' = with_notifs ns' t"
    using beside_view[OF b p(1,2)] p(3) by auto
  then show ?thesis
    using o b p unfolding open_tx_def healthy_def beside_def by auto
qed

lemma open_tx_start: "healthy w \<Longrightarrow> open_tx w (w_db w) (tx_open w)"
  unfolding open_tx_def using no_notifs_writes(3) by (simp; metis notifs_as_is)

lemma open_tx_tick: "open_tx w0 t w \<Longrightarrow> open_tx w0 t (tick w)"
  by (auto simp: open_tx_def)

lemma open_tx_write: "open_tx w0 t w \<Longrightarrow> no_notifs u \<Longrightarrow> open_tx w0 (u t) (db_write Tx u w)"
proof -
  assume o: "open_tx w0 t w" and u: "no_notifs u"
  obtain p ns where p: "w_tx w = Some p" "no_notifs p" "view Tx w = with_notifs ns t"
    using o unfolding open_tx_def by blast
  have "w_tx (db_write Tx u w) = Some (u \<circ> p)"
    using p by (simp add: db_write_def)
  moreover have "view Tx (db_write Tx u w) = with_notifs ns (u t)"
    using p(3) u by (simp add: no_notifs_def with_notifs_def)
  ultimately show ?thesis
    using o no_notifs_comp[OF p(2) u] unfolding open_tx_def by auto
qed

lemma open_tx_commit: "open_tx w0 t w \<Longrightarrow> committed w0 t (tx_commit (tick w))"
  by (auto simp: open_tx_def committed_def)

lemma run_in_tx_refused:
  assumes "wp m (\<lambda>r w'. (\<exists>e. r = Inl e) \<and> w_db w' = w_db w) (tx_open w)"
  shows "wp (run_in_tx m) (\<lambda>r w'. (\<exists>e. r = Inl e) \<and> w_db w' = w_db w) w"
  unfolding wp_run_in_tx by (auto intro!: wp_mono[OF assms] split: option.split sum.split)

section \<open>Chargebacks\<close>

lemma charged_back_ok:
  assumes "set_time (sub_CurrentPeriodEndsAt s)"
  shows "\<exists>s1. charged_back_sub now now2 reason s = Inr s1 \<and> sub_ID s1 = sub_ID s \<and> sub_UserID s1 = sub_UserID s \<and>
    sub_Status s1 = StatusCancelled \<and> sub_CancelType s1 = Some CancelTypeMerchant \<and> sub_CancelledAt s1 = Some now \<and>
    sub_EndedAt s1 = Some now"
proof -
  obtain s1 where "ResetCurrentPeriods now2 s = Inr s1"
    using assms ResetCurrentPeriods_ok_iff by blast
  then show ?thesis
    using ResetCurrentPeriods_frame[of now2 s s1] by (auto simp: charged_back_sub_def)
qed

lemma wp_run_in_tx_open:
  assumes "healthy w" "wp m (\<lambda>r w'. (\<exists>x t. r = Inr x \<and> open_tx w t w' \<and> (\<forall>w''. committed w t w'' \<longrightarrow> Q (Inr x) w''))) (tx_open w)"
  shows "wp (run_in_tx m) Q w"
  unfolding wp_run_in_tx using assms(1)
  by (auto intro!: wp_mono[OF assms(2)] open_tx_commit simp: open_tx_def split: sum.split option.split)

lemma wp_sub_update_open:
  assumes "open_tx w0 t w" "sub_unique (t_subs (put_sub s t))" "sub_ID s \<in> sub_ID ` set (t_subs t)"
    "\<And>w'. open_tx w0 (put_sub s t) w' \<Longrightarrow> Q (Inr ()) w'"
  shows "wp (SubRepo_Update Tx s) Q w"
proof -
  have "healthy w" "t_subs (view Tx w) = t_subs t"
    using assms(1) by (auto simp: open_tx_def)
  then show ?thesis
    using assms(2-) open_tx_write[OF open_tx_tick[OF assms(1)] no_notifs_writes(1)]
    by (simp add: wp_simps put_sub_subs)
qed

lemma wp_end_entitlements_open:
  assumes "open_tx w0 t w" "\<And>now w'. open_tx w0 (end_ents EntitlementSourceSubscription i tm now (Some EntitlementRevokeAdmin) t) w' \<Longrightarrow> Q () w'"
  shows "wp (end_entitlements i tm) Q w"
proof -
  have "healthy w"
    using assms(1) by (simp add: open_tx_def)
  then show ?thesis
    by (simp add: wp_end_entitlements assms(2)[OF open_tx_write[OF open_tx_tick[OF open_tx_tick[OF assms(1)]] no_notifs_writes(2)]])
qed

lemma wp_ccbill_sub_open:
  assumes "open_tx w0 t w" "sub_by_psid t ''ccbill'' '''' k = Some s" "\<And>w'. open_tx w0 t w' \<Longrightarrow> Q (Inr (with_details t s)) w'"
  shows "wp (ccbill_sub k) Q w"
proof -
  obtain ns where "view Tx w = with_notifs ns t" "healthy w"
    using assms(1) by (auto simp: open_tx_def)
  moreover have "with_details (with_notifs ns t) s = with_details t s"
    by (simp add: with_details_def with_notifs_def price_by_id_def split: option.split)
  ultimately show ?thesis
    using assms(2-) open_tx_tick[OF assms(1)] by (simp add: ccbill_sub_def wp_simps sub_by_psid_def)
qed

lemma wp_now_open:
  assumes "open_tx w0 t w" "\<And>x w'. open_tx w0 t w' \<Longrightarrow> reads w0 x \<Longrightarrow> Q x w'"
  shows "wp now_m Q w"
proof -
  have "reads w0 (clock_now w)"
    using assms(1) by (intro reads_clock) (auto simp: open_tx_def)
  then show ?thesis
    using assms open_tx_tick by (simp add: wp_simps)
qed

lemma wp_beside_open:
  assumes "open_tx w0 t w" "writes_beside m" "\<And>x w'. open_tx w0 t w' \<Longrightarrow> Q x w'"
  shows "wp m Q w"
  using assms open_tx_beside by (blast intro: wp_beside)

lemma unique_cancelled:
  assumes "sub_unique (t_subs t)" "sub_Status s \<noteq> StatusActive"
  shows "sub_unique (t_subs (put_sub s t))"
  using assms by (intro sub_unique_put) (simp_all add: is_active_sub_def)

definition chargeback_done :: "world \<Rightarrow> struct \<Rightarrow> subscription \<Rightarrow> world \<Rightarrow> bool" where
  "chargeback_done w data s w' \<longleftrightarrow> (\<exists>now now2 now3 s1. reads w now \<and>
     charged_back_sub now now2 (str_of data ''reason'') (with_details (w_db w) s) = Inr s1 \<and>
     committed w (end_ents EntitlementSourceSubscription (sub_ID s) now now3 (Some EntitlementRevokeAdmin) (put_sub s1 (w_db w))) w')"

lemma wp_charged_back:
  assumes "set_time (sub_CurrentPeriodEndsAt s)"
    "\<And>s1. charged_back_sub now now2 reason s = Inr s1 \<Longrightarrow> sub_ID s1 = sub_ID s \<Longrightarrow> sub_Status s1 = StatusCancelled \<Longrightarrow> wp (g s1) Q w"
  shows "wp (case charged_back_sub now now2 reason s of Inl e \<Rightarrow> f e | Inr s1 \<Rightarrow> g s1) Q w"
  using charged_back_ok[OF assms(1), of now now2 reason] assms(2) by auto

lemma chargeback_run:
  assumes g: "good w"
    and look: "sub_by_psid (w_db w) ''ccbill'' '''' (str_of data ''subscriptionId'') = Some s"
    and p: "set_time (sub_CurrentPeriodEndsAt s)"
  shows "wp (run_in_tx (chargeback_tx svc data amount)) (\<lambda>r w'. r = Inr () \<and> chargeback_done w data s w') w"
proof (rule wp_run_in_tx_open[OF goodD(1)[OF g]])
  have s: "set_time (sub_CurrentPeriodEndsAt (with_details (w_db w) s))" "sub_ID s \<in> sub_ID ` set (t_subs (w_db w))"
    using p sub_by_psid_exists[OF look] by simp_all
  show "wp (chargeback_tx svc data amount) (\<lambda>r w'. \<exists>x t. r = Inr x \<and> open_tx w t w' \<and>
      (\<forall>w''. committed w t w'' \<longrightarrow> Inr x = Inr () \<and> chargeback_done w data s w'')) (tx_open w)"
    unfolding chargeback_tx_def wp_bind
    apply (rule wp_ccbill_sub_open[OF open_tx_start[OF goodD(1)[OF g]] look])
    apply (simp only: sum.case wp_bind)
    apply (rule wp_now_open, assumption)
    apply (simp only: wp_bind)
    apply (rule wp_now_open, assumption)
    apply (rule wp_charged_back[OF s(1)])
    apply (simp only: wp_bind)
    apply (rule wp_sub_update_open, assumption)
      apply (simp add: unique_cancelled goodD(4)[OF g])
     apply (simp add: s(2))
    apply (simp only: sum.case wp_bind)
    apply (rule wp_end_entitlements_open, assumption)
    apply (simp only: wp_bind)
    apply (rule wp_beside_open[OF _ emit_beside], assumption)
    apply (simp only: wp_bind)
    apply (rule wp_beside_open[OF _ notify_beside], assumption)
    apply (simp add: wp_simps chargeback_done_def)
    apply (intro exI conjI, assumption)
    apply blast
    done
qed

lemma sub_by_id_end [row_simps]: "sub_by_id (end_ents src i tm now r t) j = sub_by_id t j"
  by (simp add: sub_by_id_def)

lemma sub_after_close:
  assumes "w_db w' = with_notifs ns (end_ents src i tm now r (put_sub s1 t))" "sub_ID s1 \<in> sub_ID ` set (t_subs t)"
  shows "sub_by_id (w_db w') (sub_ID s1) = Some (stored_sub s1)" "j \<noteq> sub_ID s1 \<Longrightarrow> sub_by_id (w_db w') j = sub_by_id t j"
  using assms(2) by (simp_all add: assms(1) row_simps)

text \<open>
  C12. When no statement fails, a chargeback of a subscription that CCBill knows and that has a period end
  succeeds: the subscription is cancelled (as a merchant cancellation) and ended at the instant of the
  webhook, every open window it granted loses effect, every other window keeps its effect, and no other
  subscription changes. That holds whichever optional services are configured.
\<close>

theorem chargeback_ends_access:
  assumes "good w" "run_state (handleChargeback svc body) w = (r, w')"
    and "unmarshal CCBillChargebackEvent_fields body = Inr data" "event_amount ''chargeback'' data = Inr amount"
    and "sub_by_psid (w_db w) ''ccbill'' '''' (str_of data ''subscriptionId'') = Some s"
    and "set_time (sub_CurrentPeriodEndsAt s)"
  shows "r = Inr () \<and> (\<exists>now s'. reads w now \<and> sub_by_id (w_db w') (sub_ID s) = Some s' \<and>
      sub_Status s' = StatusCancelled \<and> sub_CancelType s' = Some CancelTypeMerchant \<and>
      sub_CancelledAt s' = nz_time (Some now) \<and> sub_EndedAt s' = nz_time (Some now)) \<and>
    (\<forall>j. j \<noteq> sub_ID s \<longrightarrow> sub_by_id (w_db w') j = sub_by_id (w_db w) j) \<and>
    (\<forall>u name tm. entitled (w_db w') u name tm \<longleftrightarrow>
      (\<exists>e \<in> set (t_ents (w_db w)). ent_of u name e \<and> covers tm e \<and> ent_RevokedAt e = None \<and>
         \<not> open_by EntitlementSourceSubscription (sub_ID s) e))"
proof -
  have "run_state (run_in_tx (chargeback_tx svc data amount)) w = (r, w')"
    using assms(2-4) by (simp add: handleChargeback_def)
  then obtain now now2 now3 s1 ns where run: "r = Inr ()" "reads w now"
      "charged_back_sub now now2 (str_of data ''reason'') (with_details (w_db w) s) = Inr s1"
      "w_db w' = with_notifs ns (end_ents EntitlementSourceSubscription (sub_ID s) now now3 (Some EntitlementRevokeAdmin) (put_sub s1 (w_db w)))"
    using runs[OF chargeback_run[OF assms(1,5,6)]] unfolding chargeback_done_def committed_def by blast
  have "set_time (sub_CurrentPeriodEndsAt (with_details (w_db w) s))"
    using assms(6) by simp
  from charged_back_ok[OF this, of now now2 "str_of data ''reason''"] run(3)
  have s1: "sub_ID s1 = sub_ID s" "sub_Status s1 = StatusCancelled" "sub_CancelType s1 = Some CancelTypeMerchant"
      "sub_CancelledAt s1 = Some now" "sub_EndedAt s1 = Some now"
    by auto
  show ?thesis
    using run(1,2) sub_after_close[OF run(4)] sub_by_psid_exists[OF assms(5)] s1
    by (auto simp: run(4) row_simps stored_sub_def)
qed

text \<open>
  A chargeback of a subscription without a period end is refused, under every schedule of faults: the
  handler returns an error and the committed tables stay as they are, so the access of the user stays. That
  is what a repeated chargeback meets too, once the first one has found the period over and cleared it.
\<close>

theorem chargeback_without_period_refused:
  assumes "w_tx w = None" "run_state (handleChargeback svc body) w = (r, w')"
    and "unmarshal CCBillChargebackEvent_fields body = Inr data"
    and "sub_by_psid (w_db w) ''ccbill'' '''' (str_of data ''subscriptionId'') = Some s"
    and "\<not> set_time (sub_CurrentPeriodEndsAt s)"
  shows "(\<exists>e. r = Inl e) \<and> w_db w' = w_db w"
proof -
  have reset: "\<exists>e. charged_back_sub now now2 reason (with_details (w_db w) s) = Inl e" for now now2 reason
    using assms(5) ResetCurrentPeriods_ok_iff[of now2 "with_details (w_db w) s"]
    by (cases "ResetCurrentPeriods now2 (with_details (w_db w) s)") (auto simp: charged_back_sub_def)
  let ?Q = "\<lambda>r w'. (\<exists>e. r = Inl e) \<and> w_db w' = w_db w"
  have tx: "wp (chargeback_tx svc data amount) ?Q (tx_open w)" for amount
  proof (cases "db_fault Tx (tx_open w)")
    case None
    have step: "wp (case charged_back_sub now now2 z (with_details (w_db w) s) of Inl e \<Rightarrow> throw e | Inr s1 \<Rightarrow> g s1) ?Q w1"
      if "w_db w1 = w_db w" for now now2 z g w1
      using reset[of now now2 z] that by (auto simp: wp_simps)
    show ?thesis
      using None assms(4)
      by (simp add: chargeback_tx_def ccbill_sub_def SubRepo_GetByProcessorSubscriptionID_def wp_bind wp_db_query wp_now)
         (rule step, simp)
  next
    case (Some e)
    then have "\<not> err_is e ErrNoRows"
      using db_fault_DbErr[OF Some] by (auto simp: ErrNoRows_def)
    then show ?thesis
      using Some by (simp add: chargeback_tx_def ccbill_sub_def SubRepo_GetByProcessorSubscriptionID_def wp_simps)
  qed
  have "wp (handleChargeback svc body) ?Q w"
    using run_in_tx_refused[OF tx] assms(3)
    by (auto simp: handleChargeback_def wp_simps simp del: wp_run_in_tx split: sum.split)
  then show ?thesis
    using runs[OF _ assms(2)] by blast
qed

section \<open>Refunds\<close>

lemma wp_refunded:
  assumes "set_time (sub_CurrentPeriodEndsAt s)"
    "\<And>s1. sub_ID s1 = sub_ID s \<Longrightarrow> sub_UserID s1 = sub_UserID s \<Longrightarrow> sub_Status s1 = StatusCancelled \<Longrightarrow> sub_CancelType s1 = Some CancelTypeMerchant \<Longrightarrow>
       sub_CancelledAt s1 = Some now \<Longrightarrow> wp (g s1) Q w"
  shows "wp (case refunded_sub now now2 reason s of Inl e \<Rightarrow> f e | Inr s1 \<Rightarrow> g s1) Q w"
proof -
  obtain s1 where s1: "ResetCurrentPeriods now2 s = Inr s1"
    using assms(1) ResetCurrentPeriods_ok_iff by blast
  then show ?thesis
    using ResetCurrentPeriods_frame[OF s1] by (auto simp: refunded_sub_def Let_def intro!: assms(2))
qed

lemma unique_put_self:
  assumes "sub_unique (t_subs t)" "s0 \<in> set (t_subs t)" "sub_ID s = sub_ID s0" "sub_UserID s = sub_UserID s0"
    "sub_Status s = sub_Status s0"
  shows "sub_unique (t_subs (put_sub s t))"
  using assms by (intro sub_unique_put) (auto simp: sub_unique_iff other_active_def is_active_sub_def)

lemma wp_save_refunded_open:
  assumes "open_tx w0 t w" "sub_unique (t_subs (put_sub s t))" "sub_ID s \<in> sub_ID ` set (t_subs t)"
    "\<And>w'. open_tx w0 (put_sub s t) w' \<Longrightarrow> Q (Inr ()) w'"
  shows "wp (save_refunded svc data amount b s) Q w"
  unfolding save_refunded_def wp_bind
  apply (rule wp_sub_update_open[OF assms(1-3)])
  apply (simp only: sum.case wp_bind)
  apply (rule wp_beside_open[OF _ emit_beside], assumption)
  apply (simp add: wp_simps assms(4))
  done

lemma unique_closed: "sub_unique (t_subs (put_sub s t)) \<Longrightarrow> sub_unique (t_subs (put_sub s (end_ents src i tm now r t)))"
  by (simp add: put_sub_subs)

text \<open>The tables after a refund: the row put back, and for a terminating refund the windows closed before it.\<close>

definition refund_done :: "world \<Rightarrow> struct \<Rightarrow> fval \<Rightarrow> subscription \<Rightarrow> world \<Rightarrow> bool" where
  "refund_done w data amount s w' \<longleftrightarrow>
     (if refund_terminates amount (with_details (w_db w) s)
      then \<exists>now now3 s1. reads w now \<and> sub_ID s1 = sub_ID s \<and> sub_Status s1 = StatusCancelled \<and>
        sub_CancelType s1 = Some CancelTypeMerchant \<and> sub_CancelledAt s1 = Some now \<and>
        committed w (put_sub s1 (end_ents EntitlementSourceSubscription (sub_ID s) now now3 (Some EntitlementRevokeAdmin) (w_db w))) w'
      else committed w (put_sub (with_details (w_db w) s) (w_db w)) w')"

lemma refund_run:
  assumes g: "good w"
    and look: "sub_by_psid (w_db w) ''ccbill'' '''' (str_of data ''subscriptionId'') = Some s"
    and p: "set_time (sub_CurrentPeriodEndsAt s)"
  shows "wp (run_in_tx (refund_tx svc data amount)) (\<lambda>r w'. r = Inr () \<and> refund_done w data amount s w') w"
proof (rule wp_run_in_tx_open[OF goodD(1)[OF g]])
  let ?s = "with_details (w_db w) s"
  have s: "set_time (sub_CurrentPeriodEndsAt ?s)" "sub_ID s \<in> sub_ID ` set (t_subs (w_db w))"
    using p sub_by_psid_exists[OF look] by simp_all
  have self: "sub_unique (t_subs (put_sub ?s (w_db w)))"
    using goodD(4)[OF g] sub_by_psid_in[OF look] by (intro unique_put_self) simp_all
  have gone: "sub_unique (t_subs (put_sub s1 (end_ents src i tm now r (w_db w))))" if "sub_Status s1 = StatusCancelled" for s1 src i tm now r
    using unique_closed[OF unique_cancelled[OF goodD(4)[OF g]], of s1] that by simp
  let ?Q = "\<lambda>(r :: unit res) w'. \<exists>x t. r = Inr x \<and> open_tx w t w' \<and> (\<forall>w''. committed w t w'' \<longrightarrow> (Inr x :: unit res) = Inr () \<and> refund_done w data amount s w'')"
  show "wp (refund_tx svc data amount) ?Q (tx_open w)"
  proof (cases "refund_terminates amount ?s")
    case True
    show ?thesis
      unfolding refund_tx_def wp_bind Let_def
      apply (rule wp_ccbill_sub_open[OF open_tx_start[OF goodD(1)[OF g]] look])
      apply (simp only: sum.case wp_bind True if_True)
      apply (rule wp_now_open, assumption)
      apply (simp only: wp_bind)
      apply (rule wp_now_open, assumption)
      apply (rule wp_refunded[OF s(1)])
      apply (simp only: wp_bind)
      apply (rule wp_end_entitlements_open, assumption)
      apply (simp only: wp_bind)
      apply (rule wp_beside_open[OF _ notify_beside], assumption)
      apply (rule wp_save_refunded_open, assumption)
        apply (simp add: gone)
       apply (simp add: s(2))
      apply (auto simp: refund_done_def True)
      done
  next
    case False
    show ?thesis
      unfolding refund_tx_def wp_bind Let_def
      apply (rule wp_ccbill_sub_open[OF open_tx_start[OF goodD(1)[OF g]] look])
      apply (simp only: sum.case wp_bind False if_False)
      apply (rule wp_now_open, assumption)
      apply (rule wp_save_refunded_open[OF _ self], assumption)
       apply (simp add: s(2))
      apply (auto simp: refund_done_def False)
      done
  qed
qed

lemma stored_with_details [simp]: "stored_sub (with_details t s) = stored_sub s"
  by (simp add: stored_sub_def with_details_def)

text \<open>
  C13. When no statement fails, a refund of a subscription with a period end and a positive price succeeds. From
  80 percent of the price on it cancels the subscription and every open window it granted loses effect;
  below, the subscription is stored as it was and nobody's access changes. No other subscription changes.
\<close>

theorem refund_effect:
  assumes "good w" "run_state (handleRefund svc body) w = (r, w')"
    and "unmarshal CCBillRefundEvent_fields body = Inr data" "event_amount ''refund'' data = Inr (Fin a)"
    and "sub_by_psid (w_db w) ''ccbill'' '''' (str_of data ''subscriptionId'') = Some s" "set_time (sub_CurrentPeriodEndsAt s)"
    and "price_by_id (w_db w) (sub_PriceID s) = Some pr" "0 < price_Amount pr"
  shows "r = Inr () \<and> (\<forall>j. j \<noteq> sub_ID s \<longrightarrow> sub_by_id (w_db w') j = sub_by_id (w_db w) j) \<and>
    (if 8 / 10 * price_Amount pr \<le> a
     then (\<exists>now s'. reads w now \<and> sub_by_id (w_db w') (sub_ID s) = Some s' \<and> sub_Status s' = StatusCancelled \<and>
         sub_CancelType s' = Some CancelTypeMerchant \<and> sub_CancelledAt s' = nz_time (Some now)) \<and>
       (\<forall>u name tm. entitled (w_db w') u name tm \<longleftrightarrow>
         (\<exists>e \<in> set (t_ents (w_db w)). ent_of u name e \<and> covers tm e \<and> ent_RevokedAt e = None \<and>
            \<not> open_by EntitlementSourceSubscription (sub_ID s) e))
     else sub_by_id (w_db w') (sub_ID s) = Some (stored_sub s) \<and>
       (\<forall>u name tm. entitled (w_db w') u name tm = entitled (w_db w) u name tm))"
proof -
  have terminates: "refund_terminates (Fin a) (with_details (w_db w) s) \<longleftrightarrow> 8 / 10 * price_Amount pr \<le> a"
    using assms(7,8) by (auto simp: refund_terminates_def with_details_def fv_le_def field_simps)
  have "run_state (run_in_tx (refund_tx svc data (Fin a))) w = (r, w')"
    using assms(2-4) by (simp add: handleRefund_def)
  then have run: "r = Inr ()" "refund_done w data (Fin a) s w'"
    using runs[OF refund_run[OF assms(1,5,6)]] by blast+
  have mem: "sub_ID s \<in> sub_ID ` set (t_subs (w_db w))"
    by (rule sub_by_psid_exists[OF assms(5)])
  show ?thesis
  proof (cases "8 / 10 * price_Amount pr \<le> a")
    case True
    obtain now now3 s1 ns where d: "reads w now" "sub_ID s1 = sub_ID s" "sub_Status s1 = StatusCancelled"
        "sub_CancelType s1 = Some CancelTypeMerchant" "sub_CancelledAt s1 = Some now"
        "w_db w' = with_notifs ns (put_sub s1 (end_ents EntitlementSourceSubscription (sub_ID s) now now3 (Some EntitlementRevokeAdmin) (w_db w)))"
      using run(2) True by (auto simp: refund_done_def terminates committed_def)
    have "sub_by_id (w_db w') (sub_ID s) = Some (stored_sub s1)"
      using mem d(2) sub_by_id_put(1)[of s1] by (simp add: d(6) row_simps)
    then show ?thesis
      using run(1) True d(1-5) by (auto simp: d(6) row_simps stored_sub_def)
  next
    case False
    then obtain ns where "w_db w' = with_notifs ns (put_sub (with_details (w_db w) s) (w_db w))"
      using run(2) by (auto simp: refund_done_def terminates committed_def)
    then show ?thesis
      using run(1) False mem by (simp add: row_simps)
  qed
qed

section \<open>Upgrades\<close>

text \<open>
  Every upgrade event is rejected before the database is read: the amount that the handler checks is a
  field the decoding never sets.
\<close>

theorem upgrade_always_rejected:
  "\<exists>e. run_state (handleUpgradeSuccess svc body) w = (Inl e, w)"
  by (cases "unmarshal CCBillUpgradeSuccessEvent_fields body")
     (simp_all add: handleUpgradeSuccess_def upgrade_amount_def fv_le_def throw_def)

section \<open>Reactivations\<close>

lemma reactivated_simps [simp]:
  "sub_ID (reactivated now date s) = sub_ID s" "sub_UserID (reactivated now date s) = sub_UserID s"
  "sub_Status (reactivated now date s) = StatusActive" "sub_CancelledAt (reactivated now date s) = None"
  "sub_CancelType (reactivated now date s) = None" "sub_EndedAt (reactivated now date s) = None"
  by (auto simp: reactivated_def Let_def split: option.split)

lemma reactivation_run:
  assumes g: "good w"
    and look: "sub_by_psid (w_db w) ''ccbill'' '''' (str_of data ''subscriptionId'') = Some s"
    and one: "\<not> other_active (w_db w) s"
  shows "wp (run_in_tx (reactivation_tx svc data)) (\<lambda>r w'. r = Inr () \<and> (\<exists>now. reads w now \<and>
     committed w (put_sub (reactivated now (str_of data ''nextRenewalDate'') (with_details (w_db w) s)) (w_db w)) w')) w"
proof (rule wp_run_in_tx_open[OF goodD(1)[OF g]])
  have uni: "sub_unique (t_subs (put_sub (reactivated now d (with_details (w_db w) s)) (w_db w)))" for now d
    using one by (intro sub_unique_put[OF goodD(4)[OF g]]) (simp add: other_active_def)
  show "wp (reactivation_tx svc data) (\<lambda>r w'. \<exists>x t. r = Inr x \<and> open_tx w t w' \<and> (\<forall>w''. committed w t w'' \<longrightarrow>
      Inr x = Inr () \<and> (\<exists>now. reads w now \<and>
        committed w (put_sub (reactivated now (str_of data ''nextRenewalDate'') (with_details (w_db w) s)) (w_db w)) w''))) (tx_open w)"
    unfolding reactivation_tx_def wp_bind Let_def
    apply (rule wp_ccbill_sub_open[OF open_tx_start[OF goodD(1)[OF g]] look])
    apply (simp only: sum.case wp_bind)
    apply (rule wp_now_open, assumption)
    apply (simp only: wp_bind)
    apply (rule wp_sub_update_open[OF _ uni], assumption)
     apply (simp add: sub_by_psid_exists[OF look])
    apply (simp only: sum.case wp_bind)
    apply (rule wp_beside_open[OF _ emit_beside], assumption)
    apply (simp only: wp_bind)
    apply (rule wp_beside_open[OF _ notify_beside], assumption)
    apply (auto simp: wp_simps)
    done
qed

text \<open>
  When no statement fails, a reactivation of a subscription of a user without another active one
  succeeds and makes it active again, with every mark of its cancellation removed; but nobody's access changes
  at any instant: windows that the cancellation closed are not granted again.
\<close>

theorem reactivation_regrants_nothing:
  assumes "good w" "run_state (handleUserReactivation svc body) w = (r, w')"
    and "unmarshal CCBillUserReactivationEvent_fields body = Inr data"
    and "sub_by_psid (w_db w) ''ccbill'' '''' (str_of data ''subscriptionId'') = Some s" "\<not> other_active (w_db w) s"
  shows "r = Inr () \<and> (\<exists>s'. sub_by_id (w_db w') (sub_ID s) = Some s' \<and> sub_Status s' = StatusActive \<and>
      sub_CancelledAt s' = None \<and> sub_CancelType s' = None \<and> sub_EndedAt s' = None \<and>
      (\<forall>d. str_of data ''nextRenewalDate'' \<noteq> '''' \<longrightarrow> parse_date (str_of data ''nextRenewalDate'') = Some d \<longrightarrow>
         sub_CurrentPeriodEndsAt s' = nz_time (Some d))) \<and>
    (\<forall>u name tm. entitled (w_db w') u name tm = entitled (w_db w) u name tm)"
proof -
  have "run_state (run_in_tx (reactivation_tx svc data)) w = (r, w')"
    using assms(2,3) by (simp add: handleUserReactivation_def)
  then obtain now ns where run: "r = Inr ()"
      "w_db w' = with_notifs ns (put_sub (reactivated now (str_of data ''nextRenewalDate'') (with_details (w_db w) s)) (w_db w))"
    using runs[OF reactivation_run[OF assms(1,4,5)]] unfolding committed_def by blast
  show ?thesis
    using run(1) sub_by_psid_exists[OF assms(4)]
    by (auto simp: run(2) row_simps stored_sub_def) (simp add: reactivated_def Let_def)
qed

section \<open>New sales\<close>

definition ccbill_price :: "tables \<Rightarrow> string \<Rightarrow> price option" where
  "ccbill_price t k = find (\<lambda>p. price_CCBillPriceID p = Some k \<and> price_IsActive p) (t_prices t)"

lemma emit_db: "wp (emit svc e) (\<lambda>_ w'. w_db w' = w_db w) w"
  by (simp add: emit_def wp_simps)

text \<open>A sale that went through: the checks passed, and a membership was created in the tables of \<open>w\<close>.\<close>

definition sold :: "wd_services \<Rightarrow> struct \<Rightarrow> string \<Rightarrow> fval \<Rightarrow> world \<Rightarrow> world \<Rightarrow> bool" where
  "sold svc data user billed w w' \<longleftrightarrow> (\<exists>pr s w0 w2.
     ws_CCBill svc = Some (str_of data ''flexId'', str_of data ''formName'') \<and>
     ccbill_price (w_db w) (str_of data ''flexId'') = Some pr \<and> \<not> amount_mismatch billed (price_Amount pr) \<and>
     good w0 \<and> w_db w0 = w_db w \<and> run_state (CreateMembership (ws_Mail svc) (sale_create_params data user pr)) w0 = (Inr s, w2) \<and>
     w_db w' = w_db w2)"

lemma soldI:
  "ws_CCBill svc = Some (str_of data ''flexId'', str_of data ''formName'') \<Longrightarrow>
   ccbill_price (w_db w) (str_of data ''flexId'') = Some pr \<Longrightarrow> \<not> amount_mismatch billed (price_Amount pr) \<Longrightarrow>
   good w0 \<Longrightarrow> w_db w0 = w_db w \<Longrightarrow> run_state (CreateMembership (ws_Mail svc) (sale_create_params data user pr)) w0 = (Inr s, w2) \<Longrightarrow>
   w_db w' = w_db w2 \<Longrightarrow> sold svc data user billed w w'"
  unfolding sold_def by blast

lemma sell_run:
  assumes g: "good w"
  shows "wp (sell svc data user billed) (\<lambda>r w'. r = Inr () \<longrightarrow> sold svc data user billed w w') w"
proof (cases "ccbill_price (w_db w) (str_of data ''flexId'')")
  case None
  then show ?thesis
    using goodD(1)[OF g]
    by (auto simp: sell_def Price_GetByCCBillPriceID_def ccbill_price_def wp_simps split: option.split)
next
  case (Some pr)
  let ?c = "sale_create_params data user pr"
  have step: "wp (CreateMembership (ws_Mail svc) ?c) (\<lambda>x w2. case x of Inl e \<Rightarrow> True | Inr s \<Rightarrow>
      wp (emit svc (ev s)) (\<lambda>_. wp (ok ()) (\<lambda>r w'. r = Inr () \<longrightarrow> sold svc data user billed w w')) w2) (tick w)"
    if c: "ws_CCBill svc = Some (str_of data ''flexId'', str_of data ''formName'')" "\<not> amount_mismatch billed (price_Amount pr)" for ev
  proof (rule wpI)
    fix x w2
    assume run: "run_state (CreateMembership (ws_Mail svc) ?c) (tick w) = (x, w2)"
    have "wp (emit svc (ev s)) (\<lambda>_. wp (ok ()) (\<lambda>r w'. r = Inr () \<longrightarrow> sold svc data user billed w w')) w2" if "x = Inr s" for s
      using run that(1) soldI[OF c(1) Some c(2) good_tick[OF g]] by (intro wp_mono[OF emit_db]) (auto simp: wp_simps)
    then show "case x of Inl e \<Rightarrow> True | Inr s \<Rightarrow> wp (emit svc (ev s)) (\<lambda>_. wp (ok ()) (\<lambda>r w'. r = Inr () \<longrightarrow> sold svc data user billed w w')) w2"
      by (simp split: sum.split)
  qed
  show ?thesis
    using goodD(1)[OF g] Some
    by (auto simp: sell_def Price_GetByCCBillPriceID_def ccbill_price_def wp_simps intro!: wp_mono[OF step] split: option.split sum.split)
qed

lemma not_mismatch: "\<not> amount_mismatch billed x \<Longrightarrow> \<not> fv_le billed (Fin 0) \<Longrightarrow> billed = NaN \<or> (\<exists>b. billed = Fin b \<and> 0 < b \<and> 98 / 100 * x \<le> b \<and> b \<le> 102 / 100 * x)"
  by (cases billed) (auto simp: amount_mismatch_def Let_def fv_le_def)

lemma wp_resolve:
  assumes "healthy w"
  shows "wp (resolveUserID svc name) (\<lambda>r w'. w' = tick w \<or> (\<exists>e. r = Inl e)) w \<and>
    wp (resolveUserID svc name) (\<lambda>r w'. \<forall>u. r = Inr u \<longrightarrow> (\<exists>al. alias_by_name (w_db w) (trim_space name) = Some al \<and> al_UserID al = u)) w"
  using assms by (auto simp: resolveUserID_def Alias_Resolve_def AliasRepo_GetByAlias_def wp_simps Let_def split: option.split sum.split)

lemma sale_run:
  assumes g: "good w"
  shows "wp (handleNewSaleSuccess svc body) (\<lambda>r w'. r = Inr () \<longrightarrow> (\<exists>data al billed.
     unmarshal CCBillNewSaleSuccessEvent_fields body = Inr data \<and> alias_by_name (w_db w) (trim_space (str_of data ''username'')) = Some al \<and>
     ParseFloat (str_of data ''billedInitialPrice'') = Some billed \<and> \<not> fv_le billed (Fin 0) \<and> sold svc data (al_UserID al) billed w w')) w"
proof (cases "unmarshal CCBillNewSaleSuccessEvent_fields body")
  case (Inr data)
  have r: "run_state (resolveUserID svc name) w = (Inr u, w1) \<Longrightarrow> w1 = tick w \<and> (\<exists>al. alias_by_name (w_db w) (trim_space name) = Some al \<and> al_UserID al = u)"
    for name u w1
    using runs[of "resolveUserID svc name", OF conjunct1[OF wp_resolve[OF goodD(1)[OF g]]]]
      runs[of "resolveUserID svc name", OF conjunct2[OF wp_resolve[OF goodD(1)[OF g]]]] by blast
  have tick: "sold svc data u b (tick w) w' \<Longrightarrow> sold svc data u b w w'" for u b w'
    by (simp add: sold_def)
  show ?thesis
    unfolding handleNewSaleSuccess_def Inr sum.case wp_bind
  proof (rule wpI)
    fix x w1
    assume run: "run_state (resolveUserID svc (str_of data ''username'')) w = (x, w1)"
    show "wp (case x of Inl e \<Rightarrow> throw e | Inr userID \<Rightarrow> (case ParseFloat (str_of data ''billedInitialPrice'') of
            None \<Rightarrow> throw (ErrWrap (''failed to parse billedInitialPrice '' @ str_of data ''billedInitialPrice'') parse_err)
          | Some billed \<Rightarrow>
              if fv_le billed (Fin 0) then throw (ErrNew ''invalid billedAmount: must be greater than 0'')
              else sell svc data userID billed)) (\<lambda>r w'. r = Inr () \<longrightarrow> (\<exists>data' al billed.
     Inr data = Inr data' \<and> alias_by_name (w_db w) (trim_space (str_of data' ''username'')) = Some al \<and>
     ParseFloat (str_of data' ''billedInitialPrice'') = Some billed \<and> \<not> fv_le billed (Fin 0) \<and> sold svc data' (al_UserID al) billed w w')) w1"
    proof (cases x)
      case (Inr u)
      then obtain al where "w1 = tick w" "alias_by_name (w_db w) (trim_space (str_of data ''username'')) = Some al" "al_UserID al = u"
        using r run by blast
      then show ?thesis
        using tick by (auto simp: Inr wp_simps intro!: wp_mono[OF sell_run[OF good_tick[OF g]]] split: option.split)
    qed (simp add: wp_simps)
  qed
qed (simp add: handleNewSaleSuccess_def wp_simps)

lemma price_by_key:
  assumes "distinct (map price_ID (t_prices t))" "ccbill_price t k = Some pr"
  shows "price_by_id t (price_ID pr) = Some pr"
proof -
  have "pr \<in> set (t_prices t)"
    using assms(2) by (auto simp: ccbill_price_def dest: find_Some_in)
  then show ?thesis
    using assms(1) by (cases "price_by_id t (price_ID pr)")
      (auto simp: price_by_id_def find_None_iff find_Some_iff distinct_map inj_on_def)
qed

text \<open>
  C11. A sale event is accepted only for a user that the CCBill alias names, with the form of the
  configuration, an active price of that form and an amount that is within two percent of the price, or is
  not a number. What an accepted sale leaves when no statement fails: an active subscription of that user
  at that price, and access to every entitlement of the product from its start on, without end.
\<close>

theorem sale_effect:
  assumes "good w" "distinct (map price_ID (t_prices (w_db w)))"
    and "run_state (handleNewSaleSuccess svc body) w = (Inr (), w')"
  shows "\<exists>data al billed pr pd s. unmarshal CCBillNewSaleSuccessEvent_fields body = Inr data \<and>
    alias_by_name (w_db w) (trim_space (str_of data ''username'')) = Some al \<and>
    ws_CCBill svc = Some (str_of data ''flexId'', str_of data ''formName'') \<and>
    ccbill_price (w_db w) (str_of data ''flexId'') = Some pr \<and> product_by_id (w_db w) (price_ProductID pr) = Some pd \<and>
    ParseFloat (str_of data ''billedInitialPrice'') = Some billed \<and>
    (billed = NaN \<or> (\<exists>b. billed = Fin b \<and> 0 < b \<and> 98 / 100 * price_Amount pr \<le> b \<and> b \<le> 102 / 100 * price_Amount pr)) \<and>
    sub_by_id (w_db w') (sub_ID s) = Some (stored_sub s) \<and> sub_Status s = StatusActive \<and> sub_UserID s = al_UserID al \<and>
    sub_PriceID s = price_ID pr \<and>
    (\<forall>name \<in> set (ent_names pd). \<not> exists_by_source (w_db w) EntitlementSourceSubscription (sub_ID s) name \<longrightarrow>
       (\<forall>tm \<ge> sub_StartedAt s. entitled (w_db w') (al_UserID al) name tm))"
proof -
  obtain data al billed where d: "unmarshal CCBillNewSaleSuccessEvent_fields body = Inr data"
      "alias_by_name (w_db w) (trim_space (str_of data ''username'')) = Some al"
      "ParseFloat (str_of data ''billedInitialPrice'') = Some billed" "\<not> fv_le billed (Fin 0)" "sold svc data (al_UserID al) billed w w'"
    using runs[OF sale_run[OF assms(1)] assms(3)] by blast
  obtain pr s w0 w2 where c: "ws_CCBill svc = Some (str_of data ''flexId'', str_of data ''formName'')"
      "ccbill_price (w_db w) (str_of data ''flexId'') = Some pr" "\<not> amount_mismatch billed (price_Amount pr)"
      "good w0" "w_db w0 = w_db w" "run_state (CreateMembership (ws_Mail svc) (sale_create_params data (al_UserID al) pr)) w0 = (Inr s, w2)"
      "w_db w' = w_db w2"
    using d(5) unfolding sold_def by blast
  have pr: "price_by_id (w_db w0) (cp_PriceID (sale_create_params data (al_UserID al) pr)) = Some pr"
    using price_by_key[OF assms(2) c(2)] c(5) by (simp add: sale_create_params_def)
  show ?thesis
    using create_effect[OF c(4,6)] pr d(1-3) not_mismatch[OF c(3) d(4)] c(1,2,5,7)
    by (intro exI[of _ data] exI[of _ al] exI[of _ billed] exI[of _ pr]) (auto simp: sale_create_params_def)
qed

section \<open>Cancellations and expiries\<close>

text \<open>The lookup of the membership by its identifier is refused, so what these events ask for is never done.\<close>

lemma cancel_event_refused: "wp (handleCancel svc body) (\<lambda>r w'. (\<exists>e. r = Inl e) \<and> untouched w w') w"
  unfolding handleCancel_def ccbill_lookup_def sub_lookup_def
  by (auto simp: wp_simps Let_def ccbill_cancel_params_def scan_row_def split: sum.splits option.split
      intro!: wp_mono[OF cancel_by_id_refused])

lemma expiration_event_refused: "wp (handleExpiration svc body) (\<lambda>r w'. (\<exists>e. r = Inl e) \<and> untouched w w') w"
  unfolding handleExpiration_def ccbill_lookup_def sub_lookup_def
  by (auto simp: wp_simps Let_def scan_row_def split: sum.splits option.split
      intro!: wp_mono[OF expire_refused])

lemma delete_event_refused:
  "wp (handleDeleteSubscription svc prov ev) (\<lambda>r w'. untouched w w' \<and> (r = Inr () \<longrightarrow>
     (\<exists>body. parseRecurringEventBody ev = Inr body \<and>
        (\<forall>s. sub_by_psid (w_db w) ''nmi'' (nmi_provider prov) (trimmed body ''subscription_id'') = Some s \<longrightarrow>
           sub_Status s = StatusCancelled)))) w"
  unfolding handleDeleteSubscription_def sub_lookup_def
  by (auto simp: wp_simps Let_def scan_row_def ErrNoRows_def dest!: db_fault_DbErr split: sum.splits option.split
      intro!: wp_mono[OF cancel_by_id_refused])

text \<open>
  C9. No processor can end a membership by saying that it was cancelled: whatever the tables hold and whichever
  statement fails, the events for a cancellation and an expiration at CCBill end in an error, and the event
  for a deleted subscription at NMI ends in an error unless its subscription is unknown or already cancelled;
  none of the three changes a table, sends a mail or reports an event, so everybody's access stays.
\<close>

theorem cancellation_events_change_nothing:
  "(\<exists>e w'. run_state (handleCancel svc body) w = (Inl e, w') \<and> untouched w w') \<and>
   (\<exists>e w'. run_state (handleExpiration svc body) w = (Inl e, w') \<and> untouched w w') \<and>
   (\<exists>r w'. run_state (handleDeleteSubscription svc prov ev) w = (r, w') \<and> untouched w w' \<and>
      (r = Inr () \<longrightarrow> (\<exists>d. parseRecurringEventBody ev = Inr d \<and>
         (\<forall>s. sub_by_psid (w_db w) ''nmi'' (nmi_provider prov) (trimmed d ''subscription_id'') = Some s \<longrightarrow>
            sub_Status s = StatusCancelled))))"
  using wp_run[OF cancel_event_refused[of svc body w] surjective_pairing]
    wp_run[OF expiration_event_refused[of svc body w] surjective_pairing]
    wp_run[OF delete_event_refused[of svc prov ev w] surjective_pairing]
  by (metis (no_types, lifting) surjective_pairing)

section \<open>Runs on concrete tables\<close>

definition ccbill_world :: world where
  "ccbill_world = sample_world\<lparr>w_db := sample_tables\<lparr>t_subs := [sample_sub\<lparr>sub_Processor := ProcessorCCBill\<rparr>]\<rparr>\<rparr>"

definition event_body :: "string \<Rightarrow> string" where
  "event_body amount = marshal_map [(''subscriptionId'', ''psid''), (''amount'', amount)]"

lemma good_ccbill: "good ccbill_world"
  using good_sample by (simp add: good_def healthy_def ccbill_world_def sample_world_def used_ids_def schema_ok_def sample_tables_def
      sub_unique_def is_active_sub_def sample_sub_def)

lemma ccbill_rows [simp]:
  "sub_by_psid (w_db ccbill_world) ''ccbill'' '''' ''psid'' = Some (sample_sub\<lparr>sub_Processor := ProcessorCCBill\<rparr>)"
  "set_time (sub_CurrentPeriodEndsAt (sample_sub\<lparr>sub_Processor := ProcessorCCBill\<rparr>))"
  "price_by_id (w_db ccbill_world) 10 = Some sample_price" "t_ents (w_db ccbill_world) = [sample_ent]"
  by (simp_all add: ccbill_world_def sample_defs sub_by_psid_def match_processor_sub_def price_by_id_def equal_fold_def
      to_lower_def lower_char_def set_time_def is_zero_time_def)

lemma decoded:
  assumes "string_fields fs" "k1 \<in> fst ` set fs" "k2 \<in> fst ` set fs" "fold_name k1 \<noteq> fold_name k2"
    and "list_all (\<lambda>c. code c < 128) (k1 @ v1 @ k2 @ v2)"
  shows "\<exists>data. unmarshal fs (marshal_map [(k1, v1), (k2, v2)]) = Inr data \<and> str_of data k1 = v1 \<and> str_of data k2 = v2"
proof -
  obtain data where "unmarshal fs (marshal_map [(k1, v1), (k2, v2)]) = Inr data"
      "\<forall>(t, v) \<in> set [(k1, v1), (k2, v2)]. t \<in> fst ` set fs \<longrightarrow> str_of data t = v"
    using unmarshal_ascii[OF assms(1), of "[(k1, v1), (k2, v2)]"] assms(4,5) by auto
  then show ?thesis
    using assms(2,3) by (intro exI[of _ data]) (simp del: set_zip)
qed

lemma event_decoded:
  assumes "string_fields fs" "''subscriptionId'' \<in> fst ` set fs" "''amount'' \<in> fst ` set fs" "list_all (\<lambda>c. code c < 128) a"
  shows "\<exists>data. unmarshal fs (event_body a) = Inr data \<and> str_of data ''subscriptionId'' = ''psid'' \<and> str_of data ''amount'' = a"
  unfolding event_body_def by (rule decoded[OF assms(1-3)]) (use assms(4) in \<open>simp_all add: lower_char_def\<close>)

lemma ten_and_five: "ParseFloat ''10'' = Some (Fin 10) \<and> ParseFloat ''5'' = Some (Fin 5)"
  by code_simp

theorem chargeback_ends_access_witness:
  "\<exists>w'. run_state (handleChargeback sample_services (event_body ''10'')) ccbill_world = (Inr (), w') \<and>
     (\<forall>u name tm. \<not> entitled (w_db w') u name tm)"
proof -
  obtain data where d: "unmarshal CCBillChargebackEvent_fields (event_body ''10'') = Inr data"
      "str_of data ''subscriptionId'' = ''psid''" "str_of data ''amount'' = ''10''"
    using event_decoded[of CCBillChargebackEvent_fields "''10''"]
    by (auto simp: string_fields_def CCBillChargebackEvent_fields_def CCBillCommonFields_fields_def)
  have amount: "event_amount ''chargeback'' data = Inr (Fin 10)"
    by (simp add: event_amount_def d(3) ten_and_five fv_le_def)
  show ?thesis
    using chargeback_ends_access[OF good_ccbill surjective_pairing d(1) amount, where svc = sample_services, unfolded d(2), OF ccbill_rows(1,2)]
    by (simp add: prod_eq_iff open_by_def sample_ent_def sample_sub_def)
qed

theorem refund_effect_witness:
  "\<exists>w'. run_state (handleRefund sample_services (event_body ''5'')) ccbill_world = (Inr (), w') \<and>
     entitled (w_db w') ''alice'' ''premium'' 10 \<and> map_option sub_Status (sub_by_id (w_db w') 1) = Some StatusActive"
proof -
  obtain data where d: "unmarshal CCBillRefundEvent_fields (event_body ''5'') = Inr data"
      "str_of data ''subscriptionId'' = ''psid''" "str_of data ''amount'' = ''5''"
    using event_decoded[of CCBillRefundEvent_fields "''5''"]
    by (auto simp: string_fields_def CCBillRefundEvent_fields_def CCBillCommonFields_fields_def)
  have amount: "event_amount ''refund'' data = Inr (Fin 5)"
    by (simp add: event_amount_def d(3) ten_and_five fv_le_def)
  have "entitled (w_db ccbill_world) ''alice'' ''premium'' 10"
    by (simp add: ccbill_world_def sample_defs entitled_def ent_of_def covers_def)
  moreover have "price_by_id (w_db ccbill_world) (sub_PriceID (sample_sub\<lparr>sub_Processor := ProcessorCCBill\<rparr>)) = Some sample_price"
      "0 < price_Amount sample_price" "price_Amount sample_price = 10"
    by (simp_all add: sample_price_def)
  ultimately show ?thesis
    using refund_effect[OF good_ccbill surjective_pairing d(1) amount, where svc = sample_services, unfolded d(2), OF ccbill_rows(1,2)]
    by (simp add: prod_eq_iff) (simp add: sample_sub_def stored_sub_def)
qed

section \<open>Renewals\<close>

lemma good_later:
  assumes "good w" "w_db w' = w_db w" "w_tx w' = w_tx w" "w_aborted w' = w_aborted w" "w_env w' = w_env w" "w_pc w \<le> w_pc w'"
  shows "good w'"
  using assms unfolding good_def healthy_def by auto

definition ccbill_renew :: "string \<Rightarrow> renew_params" where
  "ccbill_renew k = \<lparr>rp_Processor = ProcessorCCBill, rp_ProcessorSubscriptionID = k, rp_ProcessorProvider = ''''\<rparr>"

text \<open>A subscription of CCBill that can be renewed, and the end of its period.\<close>

definition renewable :: "world \<Rightarrow> string \<Rightarrow> subscription \<Rightarrow> int \<Rightarrow> bool" where
  "renewable w k s d \<longleftrightarrow> sub_by_psid (w_db w) ''ccbill'' '''' k = Some s \<and> \<not> other_active (w_db w) s \<and>
     (\<exists>pr. price_by_id (w_db w) (sub_PriceID s) = Some pr \<and> price_BillingCycleDays pr = Some d)"

lemma ccbill_renew_simps: "processor_str (rp_Processor (ccbill_renew k)) = ''ccbill''" "rp_ProcessorSubscriptionID (ccbill_renew k) = k"
  by (simp_all add: ccbill_renew_def)

lemma ccbill_renew_then:
  assumes "good w" "renewable w k s d" "run_state (RenewMembership nsvc (ccbill_renew k)) w = (r, w')"
  shows "r = Inr () \<and> good w' \<and> (\<exists>s'. renewable w' k s' d \<and> sub_by_id (w_db w') (sub_ID s) = Some s' \<and> sub_ID s' = sub_ID s \<and>
    (set_time (sub_CurrentPeriodEndsAt s) \<longrightarrow>
       sub_CurrentPeriodEndsAt s' = nz_time (Some (time_add (the (sub_CurrentPeriodEndsAt s)) (days_dur d)))))"
proof -
  obtain pr where p: "sub_by_psid (w_db w) (processor_str (rp_Processor (ccbill_renew k))) '''' (rp_ProcessorSubscriptionID (ccbill_renew k)) = Some s"
      "'''' = op_provider (rp_Processor (ccbill_renew k)) (rp_ProcessorProvider (ccbill_renew k))"
      "price_by_id (w_db w) (sub_PriceID s) = Some pr" "price_BillingCycleDays pr = Some d" "\<not> other_active (w_db w) s"
    using assms(2) by (auto simp: renewable_def ccbill_renew_def op_provider_def)
  obtain s' where s': "r = Inr ()" "good w'" "sub_by_psid (w_db w') ''ccbill'' '''' k = Some s'" "sub_by_id (w_db w') (sub_ID s) = Some s'"
      "sub_ID s' = sub_ID s" "sub_PriceID s' = sub_PriceID s" "\<not> other_active (w_db w') s'" "t_prices (w_db w') = t_prices (w_db w)"
      "set_time (sub_CurrentPeriodEndsAt s) \<longrightarrow>
         sub_CurrentPeriodEndsAt s' = nz_time (Some (time_add (the (sub_CurrentPeriodEndsAt s)) (days_dur d)))"
    using renew_then[OF assms(1) p(2,1,3,4,5) assms(3)] unfolding ccbill_renew_simps by blast
  then have "renewable w' k s' d"
    using p(3,4) by (simp add: renewable_def price_by_id_def)
  with s' show ?thesis by blast
qed

lemma renewal_success_run:
  assumes g: "good w" and s: "renewable w (str_of data ''subscriptionId'') s d" "ws_Subs svc"
    and b: "unmarshal CCBillRenewalSuccessEvent_fields body = Inr data" "ParseFloat (str_of data ''billedAmount'') = Some billed"
      "\<not> fv_le billed (Fin 0)"
  shows "wp (handleRenewalSuccess svc body) (\<lambda>r w'. r = Inr () \<and> good w' \<and> (\<exists>s'. renewable w' (str_of data ''subscriptionId'') s' d \<and>
    sub_by_id (w_db w') (sub_ID s) = Some s' \<and> sub_ID s' = sub_ID s \<and> (set_time (sub_CurrentPeriodEndsAt s) \<longrightarrow>
       sub_CurrentPeriodEndsAt s' = nz_time (Some (time_add (the (sub_CurrentPeriodEndsAt s)) (days_dur d)))))) w"
    (is "wp _ (\<lambda>r w'. r = Inr () \<and> ?P w') w")
  unfolding handleRenewalSuccess_def b sum.case option.case Let_def wp_bind if_not_P[OF b(3)] ccbill_renew_def[symmetric]
proof (rule wpI, goal_cases)
  case (1 r w1)
  let ?k = "str_of data ''subscriptionId''"
  obtain s' where r: "r = Inr ()" "good w1" "renewable w1 ?k s' d" "?P w1"
    using ccbill_renew_then[OF g s(1) 1] by blast
  have later: "?P w2" if "w_db w2 = w_db w1" "w_tx w2 = w_tx w1" "w_aborted w2 = w_aborted w1" "w_env w2 = w_env w1" "w_pc w1 \<le> w_pc w2" for w2
    using r(4) that good_later[OF r(2)] by (simp add: renewable_def)
  have look: "sub_by_psid (w_db w1) ''ccbill'' '''' ?k = Some s'" "healthy w1"
    using r(2,3) by (simp_all add: renewable_def good_def)
  let ?frame = "\<lambda>w2. w_db w2 = w_db w1 \<and> w_tx w2 = w_tx w1 \<and> w_aborted w2 = w_aborted w1 \<and> w_env w2 = w_env w1 \<and> w_pc w1 \<le> w_pc w2"
  have "r' = Inr () \<and> ?frame w2 \<Longrightarrow> r' = Inr () \<and> ?P w2" for r' :: "unit res" and w2
    using later by blast
  then show ?case
    by (rule wp_mono[rotated]) (use s(2) look in \<open>auto simp: r(1) ccbill_lookup_def sub_lookup_def emit_def wp_simps\<close>)
qed

text \<open>
  A CCBill renewal is not deduplicated: delivered twice, the same event extends the period twice.
\<close>

theorem ccbill_renewal_counts_twice:
  assumes "good w" "renewable w (str_of data ''subscriptionId'') s d" "ws_Subs svc" "1 \<le> d" "d \<le> 106751"
    and "unmarshal CCBillRenewalSuccessEvent_fields body = Inr data" "ParseFloat (str_of data ''billedAmount'') = Some billed"
      "\<not> fv_le billed (Fin 0)" "sub_CurrentPeriodEndsAt s = Some e" "0 < e"
    and "run_state (handleRenewalSuccess svc body) w = (r1, w1)" "run_state (handleRenewalSuccess svc body) w1 = (r2, w2)"
  shows "r1 = Inr () \<and> r2 = Inr () \<and>
    map_option sub_CurrentPeriodEndsAt (sub_by_id (w_db w2) (sub_ID s)) = Some (Some (e + 2 * d * day_ns))"
proof -
  have add: "time_add x (days_dur d) = x + d * day_ns" "0 < d * day_ns" for x
    using assms(4,5) by (simp_all add: time_add_days) (simp add: day_ns_def)
  have nz: "nz_time (Some x) = Some x" "set_time (Some x)" if "0 < x" for x
    using that by (simp_all add: nz_time_def set_time_def is_zero_time_def)
  obtain s1 where s1: "r1 = Inr ()" "good w1" "renewable w1 (str_of data ''subscriptionId'') s1 d" "sub_ID s1 = sub_ID s"
      "sub_CurrentPeriodEndsAt s1 = Some (e + d * day_ns)"
    using runs[OF renewal_success_run[OF assms(1,2,3,6-8)] assms(11)] assms(9,10) nz add by auto
  have pos: "0 < e + d * day_ns" "0 < e + d * day_ns + d * day_ns"
    using add(2) assms(10) by linarith+
  obtain s2 where s2: "r2 = Inr ()" "sub_by_id (w_db w2) (sub_ID s1) = Some s2"
      "sub_CurrentPeriodEndsAt s2 = nz_time (Some (e + d * day_ns + d * day_ns))"
    using runs[OF renewal_success_run[OF s1(2,3) assms(3,6-8)] assms(12)] nz(2)[OF pos(1)] add(1) s1(5) by auto
  show ?thesis
    using s1(1,4) s2 nz(1)[OF pos(2)] by (simp add: algebra_simps)
qed

definition renewal_body :: string where
  "renewal_body = marshal_map [(''subscriptionId'', ''psid''), (''billedAmount'', ''10'')]"

theorem ccbill_renewal_counts_twice_witness:
  "\<exists>w2. w2 = snd (run_state (handleRenewalSuccess sample_services renewal_body)
       (snd (run_state (handleRenewalSuccess sample_services renewal_body) ccbill_world))) \<and>
     map_option sub_CurrentPeriodEndsAt (sub_by_id (w_db w2) 1) = Some (Some (5000 + 60 * day_ns))"
proof -
  have "string_fields CCBillRenewalSuccessEvent_fields" "''subscriptionId'' \<in> fst ` set CCBillRenewalSuccessEvent_fields"
      "''billedAmount'' \<in> fst ` set CCBillRenewalSuccessEvent_fields"
    by (auto simp: string_fields_def CCBillRenewalSuccessEvent_fields_def CCBillCommonFields_fields_def)
  then obtain data where d: "unmarshal CCBillRenewalSuccessEvent_fields renewal_body = Inr data"
      "str_of data ''subscriptionId'' = ''psid''" "str_of data ''billedAmount'' = ''10''"
    using decoded[of CCBillRenewalSuccessEvent_fields "''subscriptionId''" "''billedAmount''" "''psid''" "''10''"]
    unfolding renewal_body_def by (auto simp: lower_char_def)
  have r: "renewable ccbill_world (str_of data ''subscriptionId'') (sample_sub\<lparr>sub_Processor := ProcessorCCBill\<rparr>) 30"
    unfolding renewable_def d(2) by (simp add: other_active_def) (simp add: ccbill_world_def sample_tables_def)
  have p: "ParseFloat (str_of data ''billedAmount'') = Some (Fin 10)" "\<not> fv_le (Fin 10) (Fin 0)"
    by (simp_all add: d(3) ten_and_five fv_le_def)
  show ?thesis
    using ccbill_renewal_counts_twice[OF good_ccbill r _ _ _ d(1) p, of sample_services 5000, OF _ _ _ _ _ surjective_pairing surjective_pairing]
    by (simp add: sample_services_def sample_sub_def day_ns_def)
qed

theorem chargeback_without_period_refused_witness:
  "\<exists>w r w' e. run_state (handleChargeback sample_services (event_body ''10'')) w = (r, w') \<and> r = Inl e \<and>
     entitled (w_db w') ''alice'' ''premium'' 10"
proof -
  obtain data where d: "unmarshal CCBillChargebackEvent_fields (event_body ''10'') = Inr data"
      "str_of data ''subscriptionId'' = ''psid''"
    using event_decoded[of CCBillChargebackEvent_fields "''10''"]
    by (auto simp: string_fields_def CCBillChargebackEvent_fields_def CCBillCommonFields_fields_def)
  let ?s = "sample_sub\<lparr>sub_Processor := ProcessorCCBill, sub_CurrentPeriodEndsAt := None\<rparr>"
  let ?w = "sample_world\<lparr>w_db := sample_tables\<lparr>t_subs := [?s]\<rparr>\<rparr>"
  have "sub_by_psid (w_db ?w) ''ccbill'' '''' ''psid'' = Some ?s" "\<not> set_time (sub_CurrentPeriodEndsAt ?s)" "w_tx ?w = None"
      "entitled (w_db ?w) ''alice'' ''premium'' 10"
    by (simp_all add: sample_world_def sample_defs sub_by_psid_def match_processor_sub_def equal_fold_def to_lower_def lower_char_def
        set_time_def entitled_def ent_of_def covers_def)
  then show ?thesis
    using chargeback_without_period_refused[OF _ surjective_pairing d(1), of ?w ?s sample_services, unfolded d(2)]
    by (metis surjective_pairing)
qed

text \<open>The subscription and the window after a cancellation.\<close>

definition cancelled_world :: world where
  "cancelled_world = ccbill_world\<lparr>w_db := sample_tables\<lparr>
     t_subs := [sample_sub\<lparr>sub_Processor := ProcessorCCBill, sub_Status := StatusCancelled, sub_CancelledAt := Some 900\<rparr>],
     t_ents := [sample_ent\<lparr>ent_EndAt := Some 900, ent_RevokedAt := Some 900\<rparr>]\<rparr>\<rparr>"

definition reactivation_body :: string where
  "reactivation_body = marshal_map [(''subscriptionId'', ''psid''), (''transactionId'', ''t'')]"

theorem reactivation_regrants_nothing_witness:
  "\<exists>w'. run_state (handleUserReactivation sample_services reactivation_body) cancelled_world = (Inr (), w') \<and>
     map_option sub_Status (sub_by_id (w_db w') 1) = Some StatusActive \<and> (\<forall>u name tm. \<not> entitled (w_db w') u name tm)"
proof -
  let ?s = "sample_sub\<lparr>sub_Processor := ProcessorCCBill, sub_Status := StatusCancelled, sub_CancelledAt := Some 900\<rparr>"
  have g: "good cancelled_world"
    using good_sample by (simp add: good_def healthy_def cancelled_world_def ccbill_world_def sample_world_def used_ids_def schema_ok_def
        sample_tables_def sub_unique_def is_active_sub_def sample_sub_def ent_unique_def ent_open_def ent_live_def sample_ent_def)
  have "string_fields CCBillUserReactivationEvent_fields" "''subscriptionId'' \<in> fst ` set CCBillUserReactivationEvent_fields"
      "''transactionId'' \<in> fst ` set CCBillUserReactivationEvent_fields"
    by (auto simp: string_fields_def CCBillUserReactivationEvent_fields_def CCBillCommonFields_fields_def)
  then obtain data where d: "unmarshal CCBillUserReactivationEvent_fields reactivation_body = Inr data"
      "str_of data ''subscriptionId'' = ''psid''"
    using decoded[of CCBillUserReactivationEvent_fields "''subscriptionId''" "''transactionId''" "''psid''" "''t''"]
    unfolding reactivation_body_def by (auto simp: lower_char_def)
  have look: "sub_by_psid (w_db cancelled_world) ''ccbill'' '''' ''psid'' = Some ?s" "\<not> other_active (w_db cancelled_world) ?s"
    by (simp_all add: cancelled_world_def sample_defs sub_by_psid_def match_processor_sub_def equal_fold_def to_lower_def lower_char_def
        other_active_def)
  have "\<not> entitled (w_db cancelled_world) u name tm" for u name tm
    by (simp add: cancelled_world_def sample_defs entitled_def)
  then show ?thesis
    using reactivation_regrants_nothing[OF g surjective_pairing d(1), where svc = sample_services, unfolded d(2), OF look]
    by (auto simp: prod_eq_iff sample_sub_def)
qed

definition sale_body :: "string \<Rightarrow> string" where
  "sale_body amount = marshal_map [(''username'', ''al''), (''flexId'', ''cc-1''), (''formName'', ''form''),
     (''subscriptionId'', ''s7''), (''billedInitialPrice'', amount)]"

definition sale_world :: world where
  "sale_world = empty_world\<lparr>w_db := (w_db empty_world)\<lparr>
     t_aliases := [\<lparr>al_Alias = ''al'', al_UserID = ''alice'', al_CreatedAt = 1, al_UpdatedAt = 1\<rparr>]\<rparr>\<rparr>"

text \<open>The statuses of the subscriptions and the windows after a sale of the given amount.\<close>

definition after_sale :: "string \<Rightarrow> bool \<times> (string \<times> sub_status) list \<times> (string \<times> string \<times> time option) list" where
  "after_sale amount = (let (r, w') = run_state (handleNewSaleSuccess sample_services (sale_body amount)) sale_world in
     (r = Inr (), map (\<lambda>s. (sub_UserID s, sub_Status s)) (t_subs (w_db w')),
      map (\<lambda>e. (ent_UserID e, ent_Entitlement e, ent_EndAt e)) (t_ents (w_db w'))))"

lemma after_sale: "fst (after_sale ''10.1'')"
  by code_simp

text \<open>
  The amount checks let through what is not a number: at a price of 10, a sale billed \<open>NaN\<close> activates
  the membership and grants its entitlements without end, where a sale billed 5 is refused.
\<close>

theorem nan_sale_accepted:
  "after_sale ''NaN'' = (True, [(''alice'', StatusActive)], [(''alice'', ''premium'', None), (''alice'', ''downloads'', None)]) \<and>
   after_sale ''5'' = (False, [], [])"
  by code_simp

theorem sale_effect_witness:
  "\<exists>w' s. run_state (handleNewSaleSuccess sample_services (sale_body ''10.1'')) sale_world = (Inr (), w') \<and>
     sub_by_id (w_db w') (sub_ID s) = Some (stored_sub s) \<and> sub_UserID s = ''alice'' \<and>
     (\<forall>tm \<ge> sub_StartedAt s. entitled (w_db w') ''alice'' ''downloads'' tm)"
proof -
  have g: "good sale_world"
    using good_empty unfolding good_def healthy_def sale_world_def by (simp add: used_ids_def schema_ok_def)
  have rows: "distinct (map price_ID (t_prices (w_db sale_world)))" "t_ents (w_db sale_world) = []"
      "alias_by_name (w_db sale_world) a = Some al \<Longrightarrow> al_UserID al = ''alice''"
      "ccbill_price (w_db sale_world) k = Some pr \<Longrightarrow> pr = sample_price"
      "product_by_id (w_db sale_world) 20 = Some sample_product" for a al k pr
    by (auto simp: sale_world_def empty_world_def sample_world_def sample_tables_def alias_by_name_def ccbill_price_def product_by_id_def
        sample_product_def split: if_splits)
  obtain w' where run: "run_state (handleNewSaleSuccess sample_services (sale_body ''10.1'')) sale_world = (Inr (), w')"
    using after_sale by (auto simp: after_sale_def split: prod.splits)
  have prod: "price_ProductID sample_price = 20" "''downloads'' \<in> set (ent_names sample_product)"
      "\<not> exists_by_source (w_db sale_world) EntitlementSourceSubscription i name" for i name
    by (simp_all add: sample_price_def sample_product_def ent_names_def exists_by_source_def rows(2))
  obtain data al pr pd s where e: "alias_by_name (w_db sale_world) (trim_space (str_of data ''username'')) = Some al"
      "ccbill_price (w_db sale_world) (str_of data ''flexId'') = Some pr" "product_by_id (w_db sale_world) (price_ProductID pr) = Some pd"
      "sub_by_id (w_db w') (sub_ID s) = Some (stored_sub s)" "sub_UserID s = al_UserID al"
      "\<forall>name \<in> set (ent_names pd). \<not> exists_by_source (w_db sale_world) EntitlementSourceSubscription (sub_ID s) name \<longrightarrow>
         (\<forall>tm \<ge> sub_StartedAt s. entitled (w_db w') (al_UserID al) name tm)"
    using sale_effect[OF g rows(1) run] by blast
  have "pd = sample_product"
    using e(3) rows(4)[OF e(2)] rows(5) prod(1) by simp
  then show ?thesis
    using run e(4-6) rows(3)[OF e(1)] prod(2,3) by auto
qed

theorem cancellation_events_change_nothing_witness:
  "\<exists>e w'. run_state (handleCancel sample_services (event_body ''10'')) ccbill_world = (Inl e, w') \<and>
     entitled (w_db w') ''alice'' ''premium'' (10 ^ 40)"
proof -
  obtain e w' where "run_state (handleCancel sample_services (event_body ''10'')) ccbill_world = (Inl e, w')"
      "untouched ccbill_world w'"
    using cancellation_events_change_nothing[THEN conjunct1] by blast
  moreover have "entitled (w_db ccbill_world) ''alice'' ''premium'' (10 ^ 40)"
    by (simp add: ccbill_world_def sample_defs entitled_def ent_of_def covers_def)
  ultimately show ?thesis
    by (auto simp: untouched_def)
qed

end
