(* ===== verification/Reception_Props.thy ===== *)
theory Reception_Props
  imports Webhook_Traffic Encoding_Props
begin

text \<open>
  The properties of the reception of webhooks: who is refused, what an accepted request has persisted, and
  that a form arrives at the handlers as it was sent.
\<close>

section \<open>Forms\<close>

text \<open>
  C34. An ASCII form body that parses (its escapes may stand for any bytes) is persisted as a JSON document that
  decodes into the fields of the form: each string field of an event holds the first value the form gives
  for its tag, with U+FFFD for every byte of it that encodes no character, when the form's keys differ by
  more than case.
\<close>

theorem form_payload_decodes:
  assumes "list_all (\<lambda>c. code c < 128) body"
    and "trim_space body \<noteq> ''''" "hd (trim_space body) \<notin> {CHR ''{'', CHR ''[''}" "ParseQuery (trim_space body) = Some kvs"
    and "distinct (map (\<lambda>k. fold_name (coerce_utf8 k)) (remdups (map fst kvs)))" "string_fields fs"
  shows "\<exists>p d. normalizeCCBillPayload body = Some p \<and> unmarshal fs p = Inr d \<and>
    (\<forall>k v. map_of kvs k = Some v \<longrightarrow> coerce_utf8 k \<in> fst ` set fs \<longrightarrow> str_of d (coerce_utf8 k) = coerce_utf8 v)"
proof -
  let ?m = "map (\<lambda>k. (k, the (map_of kvs k))) (remdups (map fst kvs))"
  have "distinct (map (\<lambda>(k, v). fold_name (coerce_utf8 k)) ?m)"
    using assms(5) by (simp add: comp_def)
  from unmarshal_printed[OF assms(6) this] obtain d where d: "unmarshal fs (marshal_map ?m) = Inr d"
      "\<forall>(k, v) \<in> set ?m. coerce_utf8 k \<in> fst ` set fs \<longrightarrow> str_of d (coerce_utf8 k) = coerce_utf8 v"
    by blast
  have m: "(k, v) \<in> set ?m" if "map_of kvs k = Some v" for k v
    using map_of_SomeD[OF that] that by (auto simp: image_iff intro: bexI[of _ "(k, v)"])
  have "normalizeCCBillPayload body = Some (marshal_map ?m)"
    using assms(2-4) by (simp add: normalizeCCBillPayload_def Let_def)
  moreover have "str_of d (coerce_utf8 k) = coerce_utf8 v"
    if "map_of kvs k = Some v" "coerce_utf8 k \<in> fst ` set fs" for k v
    using bspec[OF d(2) m[OF that(1)]] that(2) by simp
  ultimately show ?thesis
    using d(1) by (intro exI[of _ "marshal_map ?m"] exI[of _ d]) simp
qed

section \<open>Refusals\<close>

lemma dead_letter_frame:
  "wp (LogInvalidPayload proc payload err h ip) (\<lambda>_ w'. w_db w' = w_db w \<or>
     (\<exists>e. w_db w' = add_event e (w_db w) \<and> \<not> retryable e \<and> wh_Status e = ''invalid_payload'')) w"
  by (auto simp: LogInvalidPayload_def LogDeadLetter_def DL_persist_def dead_letter_row_def retryable_def wp_simps split: option.split)

text \<open>
  Outside test mode a CCBill request from an address that is not CCBill's is answered 403, whichever
  statement fails; the tables stay as they are, but for a dead letter that no job or retry will process.
\<close>

theorem ccbill_address_refused:
  assumes "rq_Processor r = ''ccbill''" "\<not> rt_CCBillTest rt" "\<not> rt_ValidIP rt (rq_ClientIP r)"
    and "run_state (Webhook rt r) w = (resp, w')"
  shows "resp = Inr (403, ''Unauthorized webhook source'') \<and> (w_db w' = w_db w \<or>
    (\<exists>e. w_db w' = add_event e (w_db w) \<and> \<not> retryable e \<and> wh_Status e = ''invalid_payload''))"
proof -
  have "wp (Webhook rt r) (\<lambda>resp w'. resp = Inr (403, ''Unauthorized webhook source'') \<and> (w_db w' = w_db w \<or>
      (\<exists>e. w_db w' = add_event e (w_db w) \<and> \<not> retryable e \<and> wh_Status e = ''invalid_payload''))) w"
    using assms(1-3) by (simp add: Webhook_def ccbill_webhook_def wp_bind) (auto simp: wp_simps intro!: wp_mono[OF dead_letter_frame])
  then show ?thesis
    using wp_run[OF _ assms(4)] by blast
qed

text \<open>
  When the NMI client of the provider has a secret and is not in test mode, a request whose signature is
  missing or does not verify is answered 401, and nothing at all changes.
\<close>

theorem nmi_signature_refused:
  assumes "rq_Processor r = ''nmi''" "rq_Body r = Some body"
    and "map_of (rt_NMI rt) (nmi_provider (request_provider r)) = Some (False, secret)" "secret \<noteq> ''''"
    and "nmi_signature r = '''' \<or> \<not> rt_Verify rt secret body (nmi_signature r)"
  shows "\<exists>msg. run_state (Webhook rt r) w = (Inr (401, msg), w)"
  using assms by (auto simp: Webhook_def handleNMIWebhook_def nmi_authenticate_def Let_def ok_def)

section \<open>Acceptance\<close>

lemma wp_Create:
  assumes "quiet w"
  shows "wp (WE_Create svc p) (\<lambda>x w'. \<forall>e. x = Inr e \<longrightarrow> quiet w' \<and> event_by_id (w_db w) (wh_ID e) = None \<and>
     event_by_id (w_db w') (wh_ID e) = Some e \<and> wh_state e = (WebhookStatusPending, 0) \<and> wh_RawPayload e = we_Payload p \<and>
     wh_EventType e = we_EventType p \<and> wh_Processor e = trim_space (to_lower (we_Processor p)) \<and> wh_Headers e = we_Headers p \<and>
     wh_IPAddress e = we_IPAddress p) w"
proof -
  have new: "i \<notin> wh_ID ` set es \<Longrightarrow> find (\<lambda>e. wh_ID e = i) es = None" for i es
    by (auto simp: find_None_iff)
  show ?thesis
    using assms
    by (auto simp: WE_Create_def wp_simps Let_def quiet_def event_by_id_def new find_append wh_state_def split: option.split)
qed

lemma advances_queue:
  assumes "rt_Dispatch rt = Some svc" "rt_Events rt = Some rc"
  shows "advances (rc_MaxAttempts rc) (queueOrProcessWebhook rt i)"
  unfolding queueOrProcessWebhook_def rt_process_def
  by (auto simp: assms intro!: advances_parts split: option.split prod.split)

lemma wp_accept:
  assumes "quiet w" "rt_Dispatch rt = Some svc" "rt_Events rt = Some rc"
  shows "wp (accept_event rt p) (\<lambda>x w'. x = Inr (200, msg) \<longrightarrow> (\<exists>i e. event_by_id (w_db w) i = None \<and> event_by_id (w_db w') i = Some e \<and>
     wh_RawPayload e = we_Payload p \<and> wh_steps (rc_MaxAttempts rc) (WebhookStatusPending, 0) (wh_state e))) w"
  unfolding accept_event_def wp_bind
proof (rule wp_mono[OF wp_Create[OF assms(1)]])
  fix x w1
  assume c: "\<forall>e. x = Inr e \<longrightarrow> quiet w1 \<and> event_by_id (w_db w) (wh_ID e) = None \<and>
     event_by_id (w_db w1) (wh_ID e) = Some e \<and> wh_state e = (WebhookStatusPending, 0) \<and> wh_RawPayload e = we_Payload p \<and>
     wh_EventType e = we_EventType p \<and> wh_Processor e = trim_space (to_lower (we_Processor p)) \<and> wh_Headers e = we_Headers p \<and>
     wh_IPAddress e = we_IPAddress p"
  note q = advances_queue[OF assms(2,3)]
  have later: "\<exists>i e'. event_by_id (w_db w) i = None \<and> event_by_id (w_db w') i = Some e' \<and> wh_RawPayload e' = we_Payload p \<and>
      wh_steps (rc_MaxAttempts rc) (WebhookStatusPending, 0) (wh_state e')" if new: "x = Inr e" and m: "moved (rc_MaxAttempts rc) w1 w'" for e w'
  proof -
    have e: "event_by_id (w_db w) (wh_ID e) = None" "event_by_id (w_db w1) (wh_ID e) = Some e" "wh_state e = (WebhookStatusPending, 0)"
        "wh_RawPayload e = we_Payload p"
      using c new by auto
    then obtain e' where "event_by_id (w_db w') (wh_ID e) = Some e'" "wh_core e' = wh_core e"
        "wh_steps (rc_MaxAttempts rc) (wh_state e) (wh_state e')"
      using m unfolding moved_def by blast
    with e show ?thesis
      by (intro exI[of _ "wh_ID e"] exI[of _ e']) (simp add: wh_core_def)
  qed
  show "wp (case x of Inl e \<Rightarrow> ok (500, ''Failed to persist webhook event'')
      | Inr event \<Rightarrow> do {
          q \<leftarrow> queueOrProcessWebhook rt (wh_ID event);
          (case q of Inl e \<Rightarrow> if is_panic e then throw e else ok (200, ''accepted'') | Inr _ \<Rightarrow> ok (200, ''accepted''))
        }) (\<lambda>x w'. (x :: response res) = Inr (200, msg) \<longrightarrow> (\<exists>i e. event_by_id (w_db w) i = None \<and> event_by_id (w_db w') i = Some e \<and>
     wh_RawPayload e = we_Payload p \<and> wh_steps (rc_MaxAttempts rc) (WebhookStatusPending, 0) (wh_state e))) w1"
  proof (cases x)
    case (Inr e)
    then have "wp (queueOrProcessWebhook rt (wh_ID e)) (\<lambda>_ w'. quiet w' \<and> moved (rc_MaxAttempts rc) w1 w') w1"
      using q c unfolding advances_def by blast
    then show ?thesis
      unfolding Inr sum.case wp_bind
      by (rule wp_mono) (use later[OF Inr] in \<open>auto simp: wp_simps split: sum.split\<close>)
  qed (simp add: wp_simps)
qed

text \<open>
  C3. A request that is answered 200 has left a new persisted event that holds the payload (of CCBill: the
  normalised one), whatever fails afterwards; and its status is one that the retry machine reaches from a
  pending event without attempts.
\<close>

theorem accepted_webhook_is_persisted:
  assumes "quiet w" "rt_Dispatch rt = Some svc" "rt_Events rt = Some rc" "run_state (Webhook rt r) w = (Inr (200, msg), w')"
  shows "\<exists>i e. event_by_id (w_db w) i = None \<and> event_by_id (w_db w') i = Some e \<and>
    Some (wh_RawPayload e) = Option.bind (rq_Body r) (if rq_Processor r = ''ccbill'' then normalizeCCBillPayload else Some) \<and>
    wh_steps (rc_MaxAttempts rc) (WebhookStatusPending, 0) (wh_state e)"
proof -
  let ?Q = "\<lambda>p x w'. x = Inr (200, msg) \<longrightarrow> (\<exists>i e. event_by_id (w_db w) i = None \<and> event_by_id (w_db w') i = Some e \<and>
     wh_RawPayload e = p \<and> wh_steps (rc_MaxAttempts rc) (WebhookStatusPending, 0) (wh_state e))"
  note a = wp_accept[OF assms(1-3), of _ msg]
  have n: "wp (handleNMIWebhook rt prov r) (\<lambda>x w'. x = Inr (200, msg) \<longrightarrow> (\<exists>b. rq_Body r = Some b \<and> ?Q b x w')) w" for prov
    unfolding handleNMIWebhook_def
    by (auto simp: Let_def wp_simps nmi_authenticate_def split: option.split sum.split prod.split intro!: wp_mono[OF a])
  have c: "wp (ccbill_webhook rt r) (\<lambda>x w'. x = Inr (200, msg) \<longrightarrow> (\<exists>b p. rq_Body r = Some b \<and> normalizeCCBillPayload b = Some p \<and> ?Q p x w')) w"
    unfolding ccbill_webhook_def
    by (auto simp: Let_def wp_simps split: option.split intro!: wp_mono[OF a] wp_mono[OF dead_letter_frame])
  have u: "wp (do { d \<leftarrow> LogUnknownEvent p t b h ip; ok (400, ''Invalid processor'') }) (\<lambda>x _. x = Inr (400, ''Invalid processor'')) w" for p t b h ip
    by (rule wpI) (auto simp: ok_def split: prod.splits)
  show ?thesis
  proof (cases "rq_Processor r = ''ccbill''")
    case True
    then show ?thesis
      using wp_run[OF c] assms(4) by (fastforce simp: Webhook_def)
  next
    case False
    then have "rq_Processor r = ''nmi''"
      using wp_run[OF u] assms(4) by (fastforce simp: Webhook_def)
    then show ?thesis
      using wp_run[OF n] assms(4) by (fastforce simp: Webhook_def)
  qed
qed

section \<open>Witnesses\<close>

definition sample_runtime :: runtime where
  "sample_runtime = \<lparr>rt_CCBillTest = False, rt_NMI = [(''mobius'', False, ''key'')], rt_Events = Some defaultWebhookRetryConfig,
     rt_Dispatch = Some sample_services, rt_ValidIP = (\<lambda>ip. ip = ''ccbill-ip''), rt_Verify = (\<lambda>secret body s. s = secret @ ''!''),
     rt_Enqueue = None\<rparr>"

definition sample_form :: string where
  "sample_form = ''subscriptionId=psid&billedAmount=10''"

definition ccbill_request :: "string \<Rightarrow> webhook_request" where
  "ccbill_request ip = \<lparr>rq_Processor = ''ccbill'', rq_Provider = '''', rq_QueryProvider = '''', rq_QueryEventType = ''RenewalSuccess'',
     rq_Headers = [], rq_ClientIP = ip, rq_Body = Some sample_form\<rparr>"

theorem form_payload_decodes_witness:
  "\<exists>p d. normalizeCCBillPayload sample_form = Some p \<and> unmarshal CCBillRenewalSuccessEvent_fields p = Inr d \<and>
    str_of d ''subscriptionId'' = ''psid'' \<and> str_of d ''billedAmount'' = ''10''"
proof -
  let ?kvs = "[(''subscriptionId'', ''psid''), (''billedAmount'', ''10'')]"
  have form: "list_all (\<lambda>c. code c < 128) sample_form"
      "trim_space sample_form \<noteq> ''''" "hd (trim_space sample_form) \<notin> {CHR ''{'', CHR ''[''}"
      "ParseQuery (trim_space sample_form) = Some ?kvs" "distinct (map (\<lambda>k. fold_name (coerce_utf8 k)) (remdups (map fst ?kvs)))"
    by code_simp+
  have plain: "coerce_utf8 ''subscriptionId'' = ''subscriptionId''" "coerce_utf8 ''billedAmount'' = ''billedAmount''"
      "coerce_utf8 ''psid'' = ''psid''" "coerce_utf8 ''10'' = ''10''"
    by (simp_all add: coerce_ascii)
  have fields: "string_fields CCBillRenewalSuccessEvent_fields" "''subscriptionId'' \<in> fst ` set CCBillRenewalSuccessEvent_fields"
      "''billedAmount'' \<in> fst ` set CCBillRenewalSuccessEvent_fields"
    by (auto simp: string_fields_def CCBillRenewalSuccessEvent_fields_def CCBillCommonFields_fields_def)
  obtain p d where pd: "normalizeCCBillPayload sample_form = Some p" "unmarshal CCBillRenewalSuccessEvent_fields p = Inr d"
      "\<forall>k v. map_of ?kvs k = Some v \<longrightarrow> coerce_utf8 k \<in> fst ` set CCBillRenewalSuccessEvent_fields \<longrightarrow>
         str_of d (coerce_utf8 k) = coerce_utf8 v"
    using form_payload_decodes[OF form fields(1)] by blast
  have "str_of d ''subscriptionId'' = ''psid''" "str_of d ''billedAmount'' = ''10''"
    using pd(3)[rule_format, of "''subscriptionId''", unfolded plain, OF _ fields(2)]
      pd(3)[rule_format, of "''billedAmount''", unfolded plain, OF _ fields(3)] by (simp_all add: plain)
  then show ?thesis
    using pd(1,2) by blast
qed

theorem ccbill_address_refused_witness:
  "\<exists>w'. run_state (Webhook sample_runtime (ccbill_request ''elsewhere'')) sample_world = (Inr (403, ''Unauthorized webhook source''), w') \<and>
     t_subs (w_db w') = t_subs (w_db sample_world)"
proof -
  have "rq_Processor (ccbill_request ''elsewhere'') = ''ccbill''" "\<not> rt_CCBillTest sample_runtime"
      "\<not> rt_ValidIP sample_runtime (rq_ClientIP (ccbill_request ''elsewhere''))"
    by (simp_all add: ccbill_request_def sample_runtime_def)
  from ccbill_address_refused[OF this surjective_pairing] show ?thesis
    by (intro exI[of _ "snd (run_state (Webhook sample_runtime (ccbill_request ''elsewhere'')) sample_world)"])
      (auto simp: add_event_def prod_eq_iff dest!: spec[where x = sample_world] meta_spec[where x = sample_world])
qed

definition nmi_request :: "string \<Rightarrow> webhook_request" where
  "nmi_request s = \<lparr>rq_Processor = ''nmi'', rq_Provider = '''', rq_QueryProvider = '''', rq_QueryEventType = '''',
     rq_Headers = [(''X-Signature'', s)], rq_ClientIP = ''ip'', rq_Body = Some ''{}''\<rparr>"

theorem nmi_signature_refused_witness:
  "\<exists>msg. run_state (Webhook sample_runtime (nmi_request ''forged'')) sample_world = (Inr (401, msg), sample_world)"
  by (rule nmi_signature_refused[where body = "''{}''" and secret = "''key''"])
    (simp_all add: nmi_request_def sample_runtime_def nmi_signature_def header_def nmi_provider_def request_provider_def
      trim_char_def trim_space_def is_space_def to_lower_def lower_char_def)

text \<open>The statuses of the events after a request.\<close>

definition after_request :: "webhook_request \<Rightarrow> response res \<times> (string \<times> int) list" where
  "after_request r = (let (x, w') = run_state (Webhook sample_runtime r) sample_world in (x, map wh_state (t_events (w_db w'))))"

theorem accepted_webhook_is_persisted_witness:
  "\<exists>w' i e. run_state (Webhook sample_runtime (ccbill_request ''ccbill-ip'')) sample_world = (Inr (200, ''accepted''), w') \<and>
     event_by_id (w_db w') i = Some e \<and> Some (wh_RawPayload e) = normalizeCCBillPayload sample_form"
proof -
  have "quiet sample_world" "rt_Dispatch sample_runtime = Some sample_services" "rt_Events sample_runtime = Some defaultWebhookRetryConfig"
    by (simp_all add: quiet_def sample_world_def sample_tables_def sample_runtime_def)
  moreover have "after_request (ccbill_request ''ccbill-ip'') = (Inr (200, ''accepted''), [(''failed'', 1)])"
    by code_simp
  then obtain w' where "run_state (Webhook sample_runtime (ccbill_request ''ccbill-ip'')) sample_world = (Inr (200, ''accepted''), w')"
    by (auto simp: after_request_def split: prod.splits)
  ultimately show ?thesis
    using accepted_webhook_is_persisted[of sample_world sample_runtime] by (fastforce simp: ccbill_request_def)
qed

end
