(* ===== verification/NMI_Props.thy ===== *)
theory NMI_Props
  imports CCBill_Props
begin

text \<open>
  The properties of the NMI events: which transactions count, what a renewal writes, and that a renewal
  delivered twice counts once.
\<close>

section \<open>The payment record\<close>

lemma scan_none [simp]: "scan_row None = Inl ErrNoRows" "scan_row (Some x) = Inr x"
  by (simp_all add: scan_row_def)

text \<open>The identifiers of payments and idempotency records, like those of the rows of \<open>good\<close>, are not drawn again.\<close>

definition ids_unused :: "world \<Rightarrow> bool" where
  "ids_unused w \<longleftrightarrow> (\<forall>n \<ge> w_pc w. env_uuid (w_env w) n \<notin> pay_ID ` set (t_payments (w_db w)) \<union> idem_ID ` set (t_idems (w_db w)))"

definition paid :: "string \<Rightarrow> struct \<Rightarrow> float64 \<Rightarrow> subscription \<Rightarrow> payment \<Rightarrow> bool" where
  "paid txn body a s p \<longleftrightarrow> pay_Processor p = ProcessorNMI \<and> pay_TransactionID p = txn \<and> pay_Amount p = a \<and>
     pay_SubscriptionID p = Some (sub_ID s) \<and> pay_UserID p = sub_UserID s \<and> pay_RefundedPaymentID p = None"

lemma stored_payment_owner [simp]:
  "pay_SubscriptionID (stored_payment now p) = pay_SubscriptionID p" "pay_UserID (stored_payment now p) = pay_UserID p"
  by (simp_all add: stored_payment_def)

lemma paid_stored: "paid txn body a s (stored_payment now p) = paid txn body a s p"
  by (simp add: paid_def stored_payment_def)

lemma insert_payment_run:
  assumes w: "healthy w" "pay_unique (t_payments (w_db w))" "ids_unused w" and txn: "payment_by_txn (w_db w) ProcessorNMI txn = None"
  shows "wp (insert_payment provider txn (Fin a) currency s) (\<lambda>_ w'. healthy w' \<and> w_pc w \<le> w_pc w' \<and> w_env w' = w_env w \<and> w_tx w' = w_tx w \<and>
     (\<exists>p. paid txn body a s p \<and> w_db w' = add_payment p (w_db w))) w"
proof -
  have none: "(ProcessorNMI, txn) \<notin> (\<lambda>p. (pay_Processor p, pay_TransactionID p)) ` set (t_payments (w_db w))"
    using txn by (auto simp: payment_by_txn_def find_None_iff eq_commute[of ProcessorNMI])
  have new: "pay_unique (t_payments (w_db w) @ [p])" if "pay_ID p = env_uuid (w_env w) n" "w_pc w \<le> n" "pay_Processor p = ProcessorNMI"
      "pay_TransactionID p = txn" for p n
    using w(2,3) none that by (simp add: pay_unique_def ids_unused_def)
  show ?thesis
    unfolding insert_payment_def wp_bind wp_new_uuid wp_now fval.case wp_PayStore_Create
    using w(1) by (subst if_P) (auto simp: new paid_stored intro!: exI conjI[rotated, OF refl] simp: paid_def)
qed

lemma record_payment_run:
  assumes w: "healthy w" "pay_unique (t_payments (w_db w))" "ids_unused w" and svc: "ws_Payment svc"
    and txn: "transactionID body = txn" "txn \<noteq> ''''" "payment_by_txn (w_db w) ProcessorNMI txn = None"
    and a: "transactionAmount body = Some (Fin a)" "0 < a"
  shows "wp (record_payment svc provider body s) (\<lambda>r w'. r = Inr () \<and> healthy w' \<and> w_pc w \<le> w_pc w' \<and> w_env w' = w_env w \<and> w_tx w' = w_tx w \<and>
     (\<exists>p. paid txn body a s p \<and> w_db w' = add_payment p (w_db w))) w"
proof -
  have t: "healthy (tick w)" "pay_unique (t_payments (w_db (tick w)))" "ids_unused (tick w)" "payment_by_txn (w_db (tick w)) ProcessorNMI (transactionID body) = None"
    using w txn by (simp_all add: ids_unused_def)
  show ?thesis
    using w(1) svc txn a
    by (auto simp: record_payment_def wp_simps PayStore_GetByTransactionID_def Let_def payment_amount_def
        intro!: wp_mono[OF insert_payment_run[OF t, where body = body and a = a and s = s]])
qed
section \<open>Renewals\<close>

text \<open>
  The conditions of a renewal: the event is a recurring transaction \<open>txn\<close> of amount \<open>a\<close> for the subscription
  \<open>s\<close>, which is not pending and can be renewed, and no payment of that transaction is recorded.
\<close>

definition nmi_renewal :: "string \<Rightarrow> nmi_event \<Rightarrow> tables \<Rightarrow> struct \<Rightarrow> string \<Rightarrow> float64 \<Rightarrow> subscription \<Rightarrow> int \<Rightarrow> bool" where
  "nmi_renewal v ev t body txn a s d \<longleftrightarrow>
     parseTransactionEventBody ev = Inr body \<and> transactionSubscriptionID body \<noteq> '''' \<and> isRecurringSource (transactionActionSource body) \<and>
     transactionID body = txn \<and> txn \<noteq> '''' \<and> transactionAmount body = Some (Fin a) \<and> 0 < a \<and> payment_by_txn t ProcessorNMI txn = None \<and>
     sub_by_psid t ''nmi'' v (transactionSubscriptionID body) = Some s \<and> sub_Status s \<noteq> StatusPending \<and>
     (\<exists>pr. price_by_id t (sub_PriceID s) = Some pr \<and> price_BillingCycleDays pr = Some d) \<and>
     \<not> other_active t s"

lemma wp_RenewMembership_nmi:
  assumes g: "good w" "ids_unused w" "v = op_provider ProcessorNMI v" and n: "nmi_renewal v ev (w_db w) body txn a s d"
  shows "wp (RenewMembership b \<lparr>rp_Processor = ProcessorNMI, rp_ProcessorSubscriptionID = transactionSubscriptionID body, rp_ProcessorProvider = v\<rparr>)
    (\<lambda>r w'. r = Inr () \<and> healthy w' \<and> ids_unused w' \<and> t_payments (w_db w') = t_payments (w_db w) \<and>
      (\<exists>start n. w_db w' = add_nq n (put_sub (renewed_sub start d (set_provider v (with_details (w_db w) s))) (w_db w)) \<and>
        (set_time (sub_CurrentPeriodEndsAt s) \<longrightarrow> sub_CurrentPeriodEndsAt s = Some start))) w"
proof -
  obtain pr where pr: "price_by_id (w_db w) (sub_PriceID s) = Some pr" "price_BillingCycleDays pr = Some d"
    using n by (auto simp: nmi_renewal_def)
  have r: "healthy w' \<and> ids_unused w' \<and> t_payments (w_db w') = t_payments (w_db w)"
    if "ran w w' m" "w_db w' = add_nq m (put_sub x (w_db w))" for w' m x
  proof -
    have "t_payments (w_db w') = t_payments (w_db w)" "t_idems (w_db w') = t_idems (w_db w)"
      by (simp_all add: that(2) add_nq_def put_sub_def)
    moreover have e: "w_env w' = w_env w" "\<not> w_aborted w'" "w_pc w \<le> w_pc w'"
      using that(1) unfolding ran_def by linarith+
    moreover have "healthy w'"
      using goodD(1)[OF g(1)] e(2) unfolding healthy_def e(1) by blast
    ultimately show ?thesis
      using g(2) by (simp add: ids_unused_def)
  qed
  let ?p = "\<lparr>rp_Processor = ProcessorNMI, rp_ProcessorSubscriptionID = transactionSubscriptionID body, rp_ProcessorProvider = v\<rparr>"
  have p: "sub_by_psid (w_db w) (processor_str (rp_Processor ?p)) v (rp_ProcessorSubscriptionID ?p) = Some s" "\<not> other_active (w_db w) s"
      "v = op_provider (rp_Processor ?p) (rp_ProcessorProvider ?p)"
    using n g(3) by (simp_all add: nmi_renewal_def)
  show ?thesis
  proof (rule wp_mono[OF renew_run[OF g(1) p(1,3) pr p(2)]], elim conjE exE, intro conjI, goal_cases)
    case (5 x w' start n)
    then show ?case
      by (metis option.inject)
  qed (use r in blast)+
qed

lemma emit_frame: "healthy w \<Longrightarrow> wp (emit svc e) (\<lambda>_ w'. w_db w' = w_db w \<and> healthy w') w"
  by (simp add: emit_def wp_simps)

lemma provider_itself: "nmi_provider v = v \<Longrightarrow> op_provider ProcessorNMI v = v"
  by (auto simp: nmi_provider_def op_provider_def norm_provider_def Let_def split: if_splits)

lemma nmi_renewal_run:
  assumes g: "good w" "ids_unused w" "nmi_provider v = v" and n: "nmi_renewal v ev (w_db w) body txn a s d"
    and svc: "ws_Subs svc" "ws_Payment svc"
  shows "wp (handleTransactionSaleSuccess svc v ev) (\<lambda>r w'. r = Inr () \<and> healthy w' \<and>
    (\<exists>start n p. w_db w' = add_payment p (add_nq n (put_sub (renewed_sub start d (set_provider v (with_details (w_db w) s))) (w_db w))) \<and>
       paid txn body a s p \<and> (set_time (sub_CurrentPeriodEndsAt s) \<longrightarrow> sub_CurrentPeriodEndsAt s = Some start))) w"
    (is "wp _ ?Q w")
proof -
  let ?s = "with_details (w_db w) s"
  have t: "good (tick w)" "ids_unused (tick w)" "v = op_provider ProcessorNMI v" "nmi_renewal v ev (w_db (tick w)) body txn a s d"
    using g n provider_itself[OF g(3)] by (simp_all add: ids_unused_def good_tick)
  have body: "parseTransactionEventBody ev = Inr body" "transactionSubscriptionID body \<noteq> ''''" "isRecurringSource (transactionActionSource body)"
      "sub_by_psid (w_db w) ''nmi'' v (transactionSubscriptionID body) = Some s" "sub_Status ?s \<noteq> StatusPending" "transactionID body \<noteq> ''''"
    using n by (simp_all add: nmi_renewal_def with_details_def)
  have pay: "wp (record_payment svc v body ?s) (\<lambda>r w'. r = Inr () \<and> healthy w' \<and> (\<exists>p. paid txn body a s p \<and> w_db w' = add_payment p (w_db w1))) w1"
    if "healthy w1" "ids_unused w1" "t_payments (w_db w1) = t_payments (w_db w)" for w1
    using record_payment_run[OF that(1) _ that(2) svc(2), where body = body and txn = txn and a = a and s = ?s and provider = v]
      goodD(3)[OF g(1)] n that(3)
    by (simp add: nmi_renewal_def schema_ok_def payment_by_txn_def) (auto simp: paid_def with_details_def elim!: wp_mono)
  show ?thesis
    using body svc(1) goodD(1)[OF g(1)]
    apply (simp add: handleTransactionSaleSuccess_def g(3) sub_lookup_def activate_or_renew_def wp_bind wp_simps Let_def)
    apply (rule wp_mono[OF wp_RenewMembership_nmi[OF t]])
    apply (elim conjE exE)
    apply (simp only: wp_bind sum.case wp_ok)
    apply (rule wp_mono[OF pay], (simp; fail)+)
    apply (elim conjE exE)
    apply (simp only: wp_bind sum.case)
    apply (rule wp_mono[OF emit_frame], (simp; fail)+)
    apply (simp add: wp_simps)
    apply blast
    done
qed

lemma idems_only [simp]:
  "used_ids (add_idem r t) = used_ids t" "schema_ok (add_idem r t) = (schema_ok t \<and> idem_unique (t_idems (add_idem r t)))"
  "idem_unique (t_idems (add_idem r t)) \<Longrightarrow> schema_ok t \<Longrightarrow> schema_ok (add_idem r t)"
  by (auto simp: used_ids_def schema_ok_def idem_unique_def)

lemma begun_good:
  assumes "good w" "ids_unused w" "idem_by_key (w_db w) (webhook_key et proc) (trim_space k) = None"
  shows "idem_fresh w et proc k" "good (begun_world w et proc k)" "ids_unused (begun_world w et proc k)"
proof -
  have u: "inj (env_uuid (w_env w))" "env_uuid (w_env w) (Suc (w_pc w)) \<notin> idem_ID ` set (t_idems (w_db w))" "idem_unique (t_idems (w_db w))"
    using assms(1,2) by (auto simp: good_def schema_ok_def ids_unused_def)
  show f: "idem_fresh w et proc k"
    using u(2,3) assms(3) by (simp add: idem_fresh_def)
  show "good (begun_world w et proc k)"
    using assms(1) idem_fresh_unique[OF f] unfolding good_def begun_world_def by simp
  show "ids_unused (begun_world w et proc k)"
    using assms(2) u(1) by (auto simp: ids_unused_def begun_world_def add_idem_def new_idem_def inj_eq)
qed

text \<open>
  C22. An NMI renewal counts once: delivered twice, the event extends the period by one cycle and leaves one
  payment of its transaction; the second delivery changes nothing.
\<close>

theorem nmi_renewal_counts_once:
  assumes w: "good w" "ids_unused w" "nmi_provider v = v" and svc: "ws_Dedup svc" "ws_Subs svc" "ws_Payment svc"
    and ev: "ne_EventType ev = EventTypeNMITransactionSuccess" "trim_space (ne_EventID ev) \<noteq> ''''"
      "idem_by_key (w_db w) (webhook_key (ne_EventType ev) ProcessorNMI) (trim_space (ne_EventID ev)) = None"
    and n: "nmi_renewal v ev (w_db w) body txn a s d" "1 \<le> d" "d \<le> 106751" "sub_CurrentPeriodEndsAt s = Some e" "0 < e"
    and run: "run_state (HandleNMIWebhook svc v payload ev) w = (r1, w1)" "run_state (HandleNMIWebhook svc v payload' ev) w1 = (r2, w2)"
  shows "r1 = Inr () \<and> r2 = Inr () \<and> w2 = tick w1 \<and>
    map_option sub_CurrentPeriodEndsAt (sub_by_id (w_db w1) (sub_ID s)) = Some (Some (e + d * day_ns)) \<and>
    (\<exists>p. t_payments (w_db w1) = t_payments (w_db w) @ [p] \<and> paid txn body a s p)"
proof -
  let ?b = "begun_world w (ne_EventType ev) ProcessorNMI (ne_EventID ev)" and ?f = "\<lambda>payload. nmi_handleWebhook svc v payload ev"
  note b = begun_good[OF w(1,2) ev(3)]
  have rows: "t_payments (w_db ?b) = t_payments (w_db w)" "t_idems (w_db (begun_world w et proc k)) \<noteq> []" for et proc k
    by (simp_all add: begun_world_def add_idem_def)
  have "nmi_renewal v ev (w_db ?b) body txn a s d"
    using n(1) by (simp add: nmi_renewal_def begun_world_def add_idem_def payment_by_txn_def sub_by_psid_def price_by_id_def other_active_def)
  note go = nmi_renewal_run[OF b(2,3) w(3) this svc(2,3)]
  have f: "?f pl = handleTransactionSaleSuccess svc v ev" for pl
    by (simp add: nmi_handleWebhook_def ev(1))
  obtain x b1 where f1: "run_state (?f payload) ?b = (x, b1)"
    by (metis surj_pair)
  from runs[OF go this[unfolded f]] obtain start m p where q: "x = Inr ()" "healthy b1" "paid txn body a s p"
      "w_db b1 = add_payment p (add_nq m (put_sub (renewed_sub start d (set_provider v (with_details (w_db ?b) s))) (w_db ?b)))"
      "set_time (sub_CurrentPeriodEndsAt s) \<longrightarrow> sub_CurrentPeriodEndsAt s = Some start"
    by blast
  have idems: "t_idems (w_db b1) = t_idems (w_db ?b)"
    by (simp add: q(4) add_nq_def put_sub_def)
  have h: "HandleNMIWebhook svc v pl ev = ProcessWebhook (ne_EventID ev) (ne_EventType ev) ProcessorNMI (Some pl) (?f pl)" for pl
    by (simp add: HandleNMIWebhook_def svc)
  obtain i where once: "r1 = Inr ()" "w_db w1 = set_idem i ''success'' (Some payload) (clock_now b1) (w_db b1)"
      "run_state (HandleNMIWebhook svc v payload' ev) w1 = (Inr (), tick w1)"
    using first_then_skip[OF goodD(1)[OF w(1)] ev(2) b(1) f1[unfolded q(1)] q(2) idems run(1)[unfolded h], of "Some payload'" "?f payload'"]
    unfolding h by blast
  have start: "start = e"
    using q(5) n(4,5) by (simp add: set_time_def is_zero_time_def)
  show ?thesis
  proof (intro conjI)
    show "r1 = Inr ()" "r2 = Inr ()" "w2 = tick w1"
      using once run(2) by simp_all
    show "\<exists>p. t_payments (w_db w1) = t_payments (w_db w) @ [p] \<and> paid txn body a s p"
      using q(3) rows by (simp add: once(2) q(4) set_idem_def)
    let ?s1 = "renewed_sub e d (set_provider v (with_details (w_db ?b) s))"
    have "s \<in> set (t_subs (w_db w))"
      using n(1) by (auto simp: nmi_renewal_def sub_by_psid_def dest: find_Some_in)
    then have "sub_ID ?s1 \<in> sub_ID ` set (t_subs (w_db ?b))"
      by (simp add: begun_world_def add_idem_def renewed_sub_def set_provider_def)
    then have "sub_by_id (put_sub ?s1 (w_db ?b)) (sub_ID ?s1) = Some (stored_sub ?s1)"
      by (simp add: sub_by_id_put)
    moreover have "sub_ID ?s1 = sub_ID s" "t_subs (w_db w1) = t_subs (put_sub ?s1 (w_db ?b))"
      by (simp_all add: renewed_sub_def set_provider_def once(2) q(4) start)
    ultimately have "sub_by_id (w_db w1) (sub_ID s) = Some (stored_sub ?s1)"
      by (simp add: sub_by_id_def)
    moreover have "time_add e (days_dur d) = e + d * day_ns" "0 < d * day_ns"
      using n(2,3) by (simp_all add: time_add_days) (simp add: day_ns_def)
    ultimately show "map_option sub_CurrentPeriodEndsAt (sub_by_id (w_db w1) (sub_ID s)) = Some (Some (e + d * day_ns))"
      using n(5) by (simp add: stored_sub_def set_provider_def renewed_sub_def nz_time_def is_zero_time_def)
  qed
qed

text \<open>
  An NMI transaction that is not part of a subscription's schedule (its source is neither \<open>recurring\<close> nor
  \<open>retry\<close>), successful or failed, is acknowledged and changes nothing.
\<close>

theorem one_off_transaction_ignored:
  assumes "parseTransactionEventBody ev = Inr body" "transactionSubscriptionID body \<noteq> ''''"
    and "to_lower (trim_space (transactionActionSource body)) \<notin> {''recurring'', ''retry''}"
    and "ne_EventType ev \<in> {EventTypeNMITransactionSuccess, EventTypeNMITransactionFailure}"
  shows "run_state (nmi_handleWebhook svc v payload ev) w = (Inr (), w)"
  using assms by (auto simp: nmi_handleWebhook_def handleTransactionSaleSuccess_def handleTransactionSaleFailure_def isRecurringSource_def
      Let_def ok_def)

section \<open>Witnesses\<close>

definition sample_transaction :: "string \<Rightarrow> nmi_event" where
  "sample_transaction source = \<lparr>ne_EventID = ''e1'', ne_EventType = EventTypeNMITransactionSuccess,
     ne_EventBody = Some (JObj [(''transaction_id'', JStr ''t1''), (''amount'', JStr ''10''),
       (''subscription'', JObj [(''subscription_id'', JStr ''psid'')]), (''action'', JObj [(''source'', JStr source)])])\<rparr>"

text \<open>What the handler reads of an event.\<close>

definition transaction_facts :: "nmi_event \<Rightarrow> (string \<times> string \<times> string \<times> fval option) option" where
  "transaction_facts ev = (case parseTransactionEventBody ev of Inl e \<Rightarrow> None | Inr body \<Rightarrow>
     Some (transactionSubscriptionID body, transactionActionSource body, transactionID body, transactionAmount body))"

lemma sample_facts:
  "transaction_facts (sample_transaction ''Recurring'') = Some (''psid'', ''recurring'', ''t1'', Some (Fin 10))"
  "transaction_facts (sample_transaction ''api'') = Some (''psid'', ''api'', ''t1'', Some (Fin 10))"
  by code_simp+

lemma transaction_factsD:
  assumes "transaction_facts ev = Some (k, src, txn, a)"
  shows "\<exists>body. parseTransactionEventBody ev = Inr body \<and> transactionSubscriptionID body = k \<and> transactionActionSource body = src \<and>
    transactionID body = txn \<and> transactionAmount body = a"
  using assms by (auto simp: transaction_facts_def split: sum.splits)

theorem one_off_transaction_ignored_witness:
  "run_state (nmi_handleWebhook sample_services ''mobius'' '''' (sample_transaction ''api'')) sample_world = (Inr (), sample_world)"
proof -
  obtain body where "parseTransactionEventBody (sample_transaction ''api'') = Inr body" "transactionSubscriptionID body = ''psid''"
      "transactionActionSource body = ''api''"
    using transaction_factsD[OF sample_facts(2)] by blast
  then show ?thesis
    using one_off_transaction_ignored[of "sample_transaction ''api''" body]
    by (simp add: sample_transaction_def to_lower_def lower_char_def trim_space_def is_space_def)
qed

theorem nmi_renewal_counts_once_witness:
  "\<exists>w1 p. run_state (HandleNMIWebhook sample_services ''mobius'' ''x'' (sample_transaction ''Recurring'')) sample_world = (Inr (), w1) \<and>
     run_state (HandleNMIWebhook sample_services ''mobius'' ''x'' (sample_transaction ''Recurring'')) w1 = (Inr (), tick w1) \<and>
     map_option sub_CurrentPeriodEndsAt (sub_by_id (w_db w1) 1) = Some (Some (5000 + 30 * day_ns)) \<and>
     t_payments (w_db w1) = [p] \<and> pay_Amount p = 10"
proof -
  let ?ev = "sample_transaction ''Recurring''"
  obtain body where b: "parseTransactionEventBody ?ev = Inr body" "transactionSubscriptionID body = ''psid''"
      "transactionActionSource body = ''recurring''" "transactionID body = ''t1''" "transactionAmount body = Some (Fin 10)"
    using transaction_factsD[OF sample_facts(1)] by blast
  have "ids_unused sample_world" "nmi_provider ''mobius'' = ''mobius''" "ws_Dedup sample_services" "ws_Subs sample_services"
      "ws_Payment sample_services"
    by (simp_all add: ids_unused_def sample_world_def sample_tables_def nmi_provider_def to_lower_def lower_char_def trim_space_def is_space_def
        sample_services_def)
  moreover have "ne_EventType ?ev = EventTypeNMITransactionSuccess" "trim_space (ne_EventID ?ev) \<noteq> ''''"
      "idem_by_key (w_db sample_world) (webhook_key (ne_EventType ?ev) ProcessorNMI) (trim_space (ne_EventID ?ev)) = None"
    by (simp_all add: sample_transaction_def trim_space_def is_space_def idem_by_key_def sample_world_def sample_tables_def)
  moreover have "nmi_renewal ''mobius'' ?ev (w_db sample_world) body ''t1'' 10 sample_sub 30"
    unfolding nmi_renewal_def b
    by (simp add: isRecurringSource_def to_lower_def lower_char_def trim_space_def is_space_def)
      (simp add: payment_by_txn_def other_active_def sample_world_def sample_tables_def, simp add: sample_sub_def)
  moreover have "sub_CurrentPeriodEndsAt sample_sub = Some 5000"
    by (simp add: sample_sub_def)
  moreover obtain r1 w1 r2 w2 where run: "run_state (HandleNMIWebhook sample_services ''mobius'' ''x'' ?ev) sample_world = (r1, w1)"
      "run_state (HandleNMIWebhook sample_services ''mobius'' ''x'' ?ev) w1 = (r2, w2)"
    by (metis surj_pair)
  ultimately have "r1 = Inr () \<and> r2 = Inr () \<and> w2 = tick w1 \<and>
      map_option sub_CurrentPeriodEndsAt (sub_by_id (w_db w1) (sub_ID sample_sub)) = Some (Some (5000 + 30 * day_ns)) \<and>
      (\<exists>p. t_payments (w_db w1) = t_payments (w_db sample_world) @ [p] \<and> paid ''t1'' body 10 sample_sub p)"
    by (intro nmi_renewal_counts_once[OF good_sample]) simp_all
  then show ?thesis
    using run by (auto simp: paid_def sample_world_def sample_tables_def)
qed

section \<open>Refunds\<close>

definition sample_payment :: payment where
  "sample_payment = \<lparr>pay_ID = 5, pay_UserID = ''alice'', pay_PriceID = 10, pay_SubscriptionID = Some 1, pay_RefundedPaymentID = None,
     pay_Processor = ProcessorNMI, pay_ProcessorProvider = None, pay_TransactionID = ''t0'', pay_Amount = 10, pay_Currency = ''USD'',
     pay_PurchasedAt = 1, pay_CreatedAt = 1\<rparr>"

definition paid_world :: world where
  "paid_world = sample_world\<lparr>w_db := sample_tables\<lparr>t_payments := [sample_payment]\<rparr>\<rparr>"

text \<open>The worlds after a refund of 6 and after another of 5, which is refused.\<close>

definition after_refunds :: "world \<times> world" where
  "after_refunds = (let (x, w1) = run_state (PaymentService_Refund Pool 5 ''r1'' 6) paid_world;
     (y, w2) = run_state (PaymentService_Refund Pool 5 ''r2'' 5) w1 in (w1, w2))"

theorem refunds_never_exceed_payment_witness:
  "- refund_sum (w_db (snd after_refunds)) 5 = 6 \<and> 6 \<le> pay_Amount sample_payment + refundEpsilon"
proof -
  have r: "pay_runs paid_world (snd after_refunds)"
    unfolding after_refunds_def Let_def
    by (auto split: prod.split intro: pay_refund[OF pay_refund[OF pay_none]])
  have ok: "refunds_ok (w_db paid_world)"
    by (simp add: refunds_ok_def paid_world_def sample_payment_def refund_sum_def)
  have "map_option pay_Amount (payment_by_id (w_db (snd after_refunds)) 5) = Some 10" "- refund_sum (w_db (snd after_refunds)) 5 = 6"
    by code_simp+
  moreover from this(1) obtain p where "payment_by_id (w_db (snd after_refunds)) 5 = Some p" "pay_Amount p = 10"
    by auto
  ultimately show ?thesis
    using refunds_never_exceed_payment[OF r ok] by (simp add: sample_payment_def refundEpsilon_def)
qed

end
