(* ===== verification/Config.thy ===== *)
theory Config
  imports Encoding Webhook_Events
begin

text \<open>
  \<open>config/config.go\<close>: the sections of the configuration that the components read, their validation and
  defaults, the database URL, and the names of the environment variables. A map is a list of its entries.
  \<open>urlerr\<close> is the error, if any, of \<open>net/url.Parse\<close>; the logging is left out.
\<close>

section \<open>The sections\<close>

record nmi_provider_config =
  np_SecurityKey :: string
  np_TokenizationKey :: string
  np_WebhookSecret :: string
  np_TestMode :: "bool option"
  np_DirectPostURL :: string
  np_QueryURL :: string

record nmi_config =
  nmi_SecurityKey :: string
  nmi_TokenizationKey :: string
  nmi_WebhookSecret :: string
  nmi_TestMode :: bool
  nmi_DirectPostURL :: string
  nmi_QueryURL :: string
  nmi_Providers :: "(string \<times> nmi_provider_config option) list"

record nmi_settings =
  ns_Name :: string
  ns_SecurityKey :: string
  ns_TokenizationKey :: string
  ns_WebhookSecret :: string
  ns_TestMode :: bool
  ns_DirectPostURL :: string
  ns_QueryURL :: string

record ccbill_config =
  cb_FormID :: string
  cb_FormName :: string
  cb_ClientSubAcc :: string
  cb_ClientAccNum :: string
  cb_BaseFlexFormURL :: string
  cb_SuccessURL :: string
  cb_DeclineURL :: string
  cb_DataLinkURL :: string
  cb_DataLinkUsername :: string
  cb_DataLinkPassword :: string

record db_config =
  db_URL :: string
  db_Host :: string
  db_Port :: string
  db_Database :: string
  db_Username :: string
  db_Password :: string
  db_SSLMode :: string

record config =
  cfg_Env :: string
  cfg_NMI :: "nmi_config option"
  cfg_CCBill :: "ccbill_config option"
  cfg_Webhooks :: "retry_config option"
  cfg_DB :: "db_config option"

section \<open>Ports\<close>

text \<open>\<open>strconv.ParseInt(s, 10, 16)\<close>, after trimming.\<close>

definition UnmarshalPort :: "string \<Rightarrow> 16 word res" where
  "UnmarshalPort text = (let s = trim_space text in
     if s = '''' then Inr 0
     else (case atoi s of
         Some v \<Rightarrow> if - 32768 \<le> v \<and> v \<le> 32767 then Inr (word_of_int v) else Inl (ErrWrap ''invalid port value'' (ErrNew ''value out of range''))
       | None \<Rightarrow> Inl (ErrWrap ''invalid port value'' (ErrNew ''invalid syntax''))))"

section \<open>The database\<close>

definition dsn :: "db_config \<Rightarrow> string \<Rightarrow> string" where
  "dsn c ssl = ''postgresql://'' @ db_Username c @ '':'' @ db_Password c @ ''@'' @ db_Host c @ '':'' @ db_Port c @ ''/'' @
     db_Database c @ ''?sslmode='' @ ssl"

definition GetConnectionString :: "db_config \<Rightarrow> string" where
  "GetConnectionString c =
     (if db_URL c \<noteq> '''' then db_URL c
      else if db_Host c \<noteq> '''' \<and> db_Port c \<noteq> '''' \<and> db_Database c \<noteq> '''' \<and> db_Username c \<noteq> ''''
        then dsn c (if db_SSLMode c = '''' then ''disable'' else db_SSLMode c)
      else '''')"

definition assembleDBURL :: "config \<Rightarrow> config" where
  "assembleDBURL cfg = (case cfg_DB cfg of
     None \<Rightarrow> cfg
   | Some c \<Rightarrow> if db_URL c \<noteq> '''' then cfg else cfg\<lparr>cfg_DB := Some (c\<lparr>db_URL := dsn c (db_SSLMode c)\<rparr>)\<rparr>)"

definition validateDatabase :: "db_config option \<Rightarrow> unit res" where
  "validateDatabase cfg = (case cfg of
     None \<Rightarrow> Inl (ErrNew ''database configuration is required'')
   | Some c \<Rightarrow> if db_URL c = '''' then Inl (ErrNew ''database URL could not be determined'') else Inr ())"

section \<open>NMI\<close>

text \<open>A name in the single quotes of the messages.\<close>

definition quoted :: "string \<Rightarrow> string" where
  "quoted s = [CHR 0x27] @ s @ [CHR 0x27]"

fun firstNonEmpty :: "string list \<Rightarrow> string" where
  "firstNonEmpty [] = ''''"
| "firstNonEmpty (v # vs) = (if trim_space v \<noteq> '''' then trim_space v else firstNonEmpty vs)"

definition provider_key :: "string \<Rightarrow> string" where
  "provider_key name = (let k = trim_space (to_lower name) in if k = '''' then ''mobius'' else k)"

definition ProviderSettings :: "nmi_config option \<Rightarrow> string \<Rightarrow> nmi_settings res" where
  "ProviderSettings cfg name = (case cfg of
     None \<Rightarrow> Inl (ErrNew ''nmi configuration is missing'')
   | Some c \<Rightarrow> let providerKey = provider_key name in
       (case map_of (nmi_Providers c) providerKey of
          Some (Some p) \<Rightarrow>
            let settings = \<lparr>ns_Name = providerKey, ns_SecurityKey = firstNonEmpty [np_SecurityKey p, nmi_SecurityKey c],
                  ns_TokenizationKey = firstNonEmpty [np_TokenizationKey p, nmi_TokenizationKey c],
                  ns_WebhookSecret = firstNonEmpty [np_WebhookSecret p, nmi_WebhookSecret c],
                  ns_TestMode = (case np_TestMode p of Some b \<Rightarrow> b | None \<Rightarrow> nmi_TestMode c),
                  ns_DirectPostURL = firstNonEmpty [np_DirectPostURL p, nmi_DirectPostURL c],
                  ns_QueryURL = firstNonEmpty [np_QueryURL p, nmi_QueryURL c]\<rparr>
            in if ns_SecurityKey settings = ''''
               then Inl (ErrNew (''nmi provider '' @ quoted providerKey @ '' security key is required'')) else Inr settings
        | _ \<Rightarrow> Inl (ErrNew (''nmi provider '' @ quoted providerKey @ '' is not configured''))))"

definition url_check :: "(string \<Rightarrow> go_err option) \<Rightarrow> string \<Rightarrow> string \<Rightarrow> unit res" where
  "url_check urlerr what u = (if u = '''' then Inr () else (case urlerr u of Some e \<Rightarrow> Inl (ErrWrap what e) | None \<Rightarrow> Inr ()))"

text \<open>The checks in turn: the first failure counts.\<close>

fun all_ok :: "unit res list \<Rightarrow> unit res" where
  "all_ok [] = Inr ()"
| "all_ok (Inl e # rs) = Inl e"
| "all_ok (Inr _ # rs) = all_ok rs"

definition require :: "bool \<Rightarrow> string \<Rightarrow> unit res" where
  "require b m = (if b then Inr () else Inl (ErrNew m))"

definition validateProvider :: "(string \<Rightarrow> go_err option) \<Rightarrow> nmi_config \<Rightarrow> string \<times> nmi_provider_config option \<Rightarrow> unit res" where
  "validateProvider urlerr cfg e = (case e of (name, None) \<Rightarrow> Inl (ErrNew (''nmi provider '' @ quoted name @ '' configuration is missing''))
     | (name, Some p) \<Rightarrow> all_ok [
         require (np_SecurityKey p \<noteq> '''' \<or> nmi_SecurityKey cfg \<noteq> '''') (''nmi provider '' @ quoted name @ '' security key is required''),
         require (np_WebhookSecret p \<noteq> '''' \<or> nmi_WebhookSecret cfg \<noteq> '''')
           (''nmi provider '' @ quoted name @ '' webhook secret is recommended for security''),
         url_check urlerr (''invalid nmi provider '' @ quoted name @ '' direct_post_url'') (np_DirectPostURL p),
         url_check urlerr (''invalid nmi provider '' @ quoted name @ '' query_url'') (np_QueryURL p)])"

definition validateNMI :: "(string \<Rightarrow> go_err option) \<Rightarrow> nmi_config option \<Rightarrow> unit res" where
  "validateNMI urlerr cfg = (case cfg of
     None \<Rightarrow> Inl (ErrNew ''nmi configuration is required'')
   | Some c \<Rightarrow> all_ok ([url_check urlerr ''invalid nmi direct_post_url'' (nmi_DirectPostURL c),
       url_check urlerr ''invalid nmi query_url'' (nmi_QueryURL c),
       require (nmi_Providers c \<noteq> []) ''at least one nmi provider must be configured''] @
       map (validateProvider urlerr c) (nmi_Providers c)))"

text \<open>The loop of \<open>Load\<close> over the providers: trimmed lower-case names, empty ones ignored, a later one overrides.\<close>

definition normalizeProviders :: "(string \<times> nmi_provider_config option) list \<Rightarrow> (string \<times> nmi_provider_config option) list" where
  "normalizeProviders ps = fold (\<lambda>(name, p) m. let k = trim_space (to_lower name) in if k = '''' then m else AList.update k p m) ps []"

section \<open>CCBill\<close>

definition validateCCBill :: "(string \<Rightarrow> go_err option) \<Rightarrow> ccbill_config option \<Rightarrow> unit res" where
  "validateCCBill urlerr cfg = (case cfg of
     None \<Rightarrow> Inl (ErrNew ''ccbill configuration is required'')
   | Some c \<Rightarrow> all_ok ([
       require (cb_ClientAccNum c \<noteq> '''') ''ccbill client account number is required'',
       require (cb_ClientSubAcc c \<noteq> '''') ''ccbill client sub account is required'',
       require (cb_FormName c \<noteq> '''' \<or> cb_FormID c \<noteq> '''') ''ccbill form name or form ID is required'',
       url_check urlerr ''invalid ccbill base flexform URL'' (cb_BaseFlexFormURL c),
       url_check urlerr ''invalid ccbill success URL'' (cb_SuccessURL c),
       url_check urlerr ''invalid ccbill decline URL'' (cb_DeclineURL c)] @
       (if cb_DataLinkURL c = '''' then [] else [
         url_check urlerr ''invalid ccbill datalink URL'' (cb_DataLinkURL c),
         require (cb_DataLinkUsername c \<noteq> '''' \<and> cb_DataLinkPassword c \<noteq> '''')
           ''datalink username and password are required when datalink URL is provided'',
         require (cb_ClientAccNum c \<noteq> '''') ''client account number is required when datalink URL is provided''])))"

section \<open>The whole\<close>

definition wrap_res :: "string \<Rightarrow> unit res \<Rightarrow> unit res" where
  "wrap_res m r = (case r of Inl e \<Rightarrow> Inl (ErrWrap m e) | Inr _ \<Rightarrow> Inr ())"

definition isDev :: "config \<Rightarrow> bool" where
  "isDev cfg \<longleftrightarrow> cfg_Env cfg \<in> {''development'', ''dev'', ''''}"

definition Validate :: "(string \<Rightarrow> go_err option) \<Rightarrow> config \<Rightarrow> unit res" where
  "Validate urlerr cfg = all_ok (
     (if isDev cfg then [] else [
        wrap_res ''nmi config validation failed'' (validateNMI urlerr (cfg_NMI cfg)),
        wrap_res ''ccbill config validation failed'' (validateCCBill urlerr (cfg_CCBill cfg))]) @
     [wrap_res ''database config validation failed'' (validateDatabase (cfg_DB cfg)),
      wrap_res ''webhook config validation failed'' (validateWebhookConfig (cfg_Webhooks cfg))])"

text \<open>The key of the configuration that an environment variable sets: the callback of \<open>Load\<close>.\<close>

fun split_n :: "nat \<Rightarrow> char \<Rightarrow> string \<Rightarrow> string list" where
  "split_n 0 c s = []"
| "split_n (Suc 0) c s = [s]"
| "split_n (Suc n) c s = (if c \<in> set s then fst (cut c s) # split_n n c (snd (cut c s)) else [s])"

definition envKey :: "string \<Rightarrow> string" where
  "envKey name = (let s = to_lower name; parts = split_n 4 (CHR ''_'') s in
     if s = ''environment'' then ''env''
     else if s = ''billing_api_key'' then ''billing_api_key''
     else if has_prefix s ''nmi_providers_'' \<and> length parts = 4 then ''nmi.providers.'' @ parts ! 2 @ ''.'' @ parts ! 3
     else if CHR ''_'' \<notin> set s then s
     else fst (cut (CHR ''_'') s) @ ''.'' @ snd (cut (CHR ''_'') s))"

section \<open>What a valid configuration has\<close>

lemma all_ok_iff: "all_ok rs = Inr () \<longleftrightarrow> (\<forall>r \<in> set rs. r = Inr ())"
  by (induction rs rule: all_ok.induct) auto

lemma wrap_res_ok [simp]: "wrap_res m r = Inr () \<longleftrightarrow> r = Inr ()"
  by (auto simp: wrap_res_def split: sum.split)

lemma require_ok [simp]: "require b m = Inr () \<longleftrightarrow> b"
  by (simp add: require_def)

lemma trim_nonblank: "trim_space s \<noteq> '''' \<Longrightarrow> s \<noteq> ''''"
  by (auto simp: trim_space_def)

lemma firstNonEmpty_nonblank: "firstNonEmpty vs \<noteq> '''' \<longleftrightarrow> (\<exists>v \<in> set vs. trim_space v \<noteq> '''')"
  by (induction vs) auto

lemma Validate_ok:
  assumes "Validate urlerr cfg = Inr ()" "\<not> isDev cfg"
  shows "validateNMI urlerr (cfg_NMI cfg) = Inr ()" "validateCCBill urlerr (cfg_CCBill cfg) = Inr ()"
    "validateDatabase (cfg_DB cfg) = Inr ()"
  using assms by (simp_all add: Validate_def all_ok_iff)

lemma validateProvider_ok: "validateProvider urlerr c (name, p) = Inr () \<Longrightarrow> \<exists>q. p = Some q \<and>
    (np_SecurityKey q \<noteq> [] \<or> nmi_SecurityKey c \<noteq> []) \<and> (np_WebhookSecret q \<noteq> [] \<or> nmi_WebhookSecret c \<noteq> [])"
  by (cases p) (simp_all add: validateProvider_def all_ok_iff)

lemma validateNMI_ok:
  assumes "validateNMI urlerr cfg = Inr ()"
  shows "\<exists>c. cfg = Some c \<and> nmi_Providers c \<noteq> [] \<and> (\<forall>(name, p) \<in> set (nmi_Providers c). \<exists>q. p = Some q \<and>
    (np_SecurityKey q \<noteq> [] \<or> nmi_SecurityKey c \<noteq> []) \<and> (np_WebhookSecret q \<noteq> [] \<or> nmi_WebhookSecret c \<noteq> []))"
proof (cases cfg)
  case (Some c)
  then have "nmi_Providers c \<noteq> []" "\<forall>e \<in> set (nmi_Providers c). validateProvider urlerr c e = Inr ()"
    using assms by (simp_all add: validateNMI_def all_ok_iff)
  then show ?thesis
    using Some validateProvider_ok by blast
qed (use assms in \<open>simp add: validateNMI_def\<close>)

end
