(* ===== verification/NMI_Client.thy ===== *)
theory NMI_Client
  imports Config Webhook_NMI
begin

text \<open>
  \<open>pkg/nmi/nmi.go\<close>: the client of the NMI gateway. An operation checks its arguments, posts a form and reads
  the gateway's answer; the form is the list of its fields in the order the code sets them. \<open>getenv\<close> is the
  process environment, \<open>hmac_hex\<close> the hexadecimal HMAC-SHA256 of a text under a key.
\<close>

section \<open>The client\<close>

record nmi_client =
  nc_Provider :: string
  nc_SecurityKey :: string
  nc_WebhookSecret :: string
  nc_DirectPostURL :: string
  nc_QueryURL :: string
  nc_IsProd :: bool

definition DefaultDirectPostURL :: string where
  "DefaultDirectPostURL = ''https://secure.networkmerchants.com/api/transact.php''"

definition DefaultQueryAPIURL :: string where
  "DefaultQueryAPIURL = ''https://secure.nmi.com/api/query.php''"

definition resolveWebhookSecret :: "(string \<Rightarrow> string) \<Rightarrow> string \<Rightarrow> nmi_settings option \<Rightarrow> string" where
  "resolveWebhookSecret getenv provider cfg =
     (let secrets = [trim_space (getenv (''NMI_'' @ to_upper provider @ ''_WEBHOOK_SECRET''))] @
        (if equal_fold provider ''mobius'' then [trim_space (getenv ''MOBIUS_WEBHOOK_SECRET'')] else []) @
        [trim_space (getenv ''NMI_WEBHOOK_SECRET'')]
      in case first_nonempty secrets of
           [] \<Rightarrow> (case cfg of Some c \<Rightarrow> trim_space (ns_WebhookSecret c) | None \<Rightarrow> '''')
         | s \<Rightarrow> s)"

definition resolveEndpoint :: "(string \<Rightarrow> string) \<Rightarrow> string \<Rightarrow> string \<Rightarrow> string list \<Rightarrow> string" where
  "resolveEndpoint getenv defaultURL cfgValue envKeys =
     (case first_nonempty (map (\<lambda>k. trim_space (getenv k)) envKeys) of
        [] \<Rightarrow> if trim_space cfgValue \<noteq> '''' then trim_space cfgValue else defaultURL
      | v \<Rightarrow> v)"

definition resolveSecurityKey :: "(string \<Rightarrow> string) \<Rightarrow> string \<Rightarrow> nmi_settings \<Rightarrow> string" where
  "resolveSecurityKey getenv provider cfg =
     (let k1 = trim_space (firstNonEmpty [getenv (''NMI_'' @ to_upper provider @ ''_SECURITY_KEY''), ns_SecurityKey cfg]);
          k2 = (if equal_fold provider ''mobius'' \<and> k1 = '''' then trim_space (getenv ''MOBIUS_SECURITY_KEY'') else k1)
      in if k2 = '''' \<and> ns_SecurityKey cfg \<noteq> '''' then trim_space (ns_SecurityKey cfg) else k2)"

definition NewClient :: "(string \<Rightarrow> string) \<Rightarrow> string \<Rightarrow> nmi_settings option \<Rightarrow> bool \<Rightarrow> nmi_client res" where
  "NewClient getenv provider settings isProd = (case settings of
     None \<Rightarrow> Inl (ErrNew ''nmi provider configuration is required'')
   | Some cfg \<Rightarrow>
       let webhookSecret = resolveWebhookSecret getenv provider (Some cfg);
           securityKey = resolveSecurityKey getenv provider cfg
       in if isProd \<and> securityKey = ''''
          then Inl (ErrNew (''nmi provider '' @ quoted provider @ '' security key is required in production mode''))
          else
            let direct = resolveEndpoint getenv (firstNonEmpty [ns_DirectPostURL cfg, DefaultDirectPostURL]) (ns_DirectPostURL cfg)
                  [''NMI_'' @ to_upper provider @ ''_DIRECT_POST_URL''];
                direct2 = (if equal_fold provider ''mobius''
                  then resolveEndpoint getenv direct (ns_DirectPostURL cfg) [''MOBIUS_DIRECT_POST_URL''] else direct);
                query = resolveEndpoint getenv (firstNonEmpty [ns_QueryURL cfg, DefaultQueryAPIURL]) (ns_QueryURL cfg)
                  [''NMI_'' @ to_upper provider @ ''_QUERY_URL''];
                query2 = (if equal_fold provider ''mobius''
                  then resolveEndpoint getenv query (ns_QueryURL cfg) [''MOBIUS_QUERY_URL''] else query)
            in Inr \<lparr>nc_Provider = provider, nc_SecurityKey = securityKey, nc_WebhookSecret = webhookSecret,
                 nc_DirectPostURL = direct2, nc_QueryURL = query2, nc_IsProd = isProd\<rparr>)"

definition checkConfiguration :: "nmi_client \<Rightarrow> unit res" where
  "checkConfiguration c = (if nc_SecurityKey c \<noteq> '''' then Inr ()
     else Inl (ErrNew (''nmi provider '' @ quoted (nc_Provider c) @
       '' payment processing is not configured - this feature is disabled in development mode'')))"

section \<open>Requests\<close>

type_synonym form = "(string \<times> string) list"

definition post_form :: "string \<Rightarrow> string \<Rightarrow> string \<Rightarrow> form \<Rightarrow> string go" where
  "post_form sendErr readErr url data = do {
     r \<leftarrow> http_post url data;
     (case r of
        HttpRefused m \<Rightarrow> throw (ErrWrap sendErr (ErrNew m))
      | HttpResponse status body close \<Rightarrow>
          if status \<noteq> 200 then throw (ErrNew (''unexpected status code: '' @ show_nat status))
          else (case body of
              Inl m \<Rightarrow> throw (ErrWrap readErr (ErrNew m))
            | Inr b \<Rightarrow> (case close of Some m \<Rightarrow> throw (ErrNew m) | None \<Rightarrow> ok b)))
   }"

definition sendDirectRequest :: "nmi_client \<Rightarrow> form \<Rightarrow> string go" where
  "sendDirectRequest c data = post_form ''failed to send request'' ''failed to read response'' (nc_DirectPostURL c) data"

definition sendQueryRequest :: "nmi_client \<Rightarrow> form \<Rightarrow> string go" where
  "sendQueryRequest c data = post_form ''failed to send query request'' ''failed to read query response'' (nc_QueryURL c) data"

text \<open>\<open>url.Values.Get\<close> of a parsed answer, the optional fields of a form, and the test mode.\<close>

definition get :: "form \<Rightarrow> string \<Rightarrow> string" where
  "get kvs k = (case map_of kvs k of Some v \<Rightarrow> v | None \<Rightarrow> '''')"

definition opt_field :: "string \<Rightarrow> string \<Rightarrow> form" where
  "opt_field k v = (if v \<noteq> '''' then [(k, v)] else [])"

definition test_mode :: "nmi_client \<Rightarrow> form" where
  "test_mode c = (if \<not> nc_IsProd c then [(''test_mode'', ''enabled'')] else [])"

definition query_err :: go_err where
  "query_err = ErrNew ''invalid URL escape''"

text \<open>\<open>strconv.FormatFloat(x, 'f', 2, 64)\<close>: two decimals, half to even.\<close>

definition round_even :: "rat \<Rightarrow> int" where
  "round_even x = (let n = \<lfloor>x\<rfloor>; f = x - of_int n in
     if f < 1 / 2 \<or> (f = 1 / 2 \<and> even n) then n else n + 1)"

definition format_cents :: "int \<Rightarrow> string" where
  "format_cents n = show_int (n div 100) @ ''.'' @ show_int (n mod 100 div 10) @ show_int (n mod 10)"

definition format2 :: "float64 \<Rightarrow> string" where
  "format2 x = (if x < 0 then ''-'' @ format_cents (round_even (- x * 100)) else format_cents (round_even (x * 100)))"

section \<open>The customer vault\<close>

record vault_data =
  vd_PaymentToken :: string
  vd_FirstName :: string
  vd_LastName :: string
  vd_Address1 :: string
  vd_City :: string
  vd_State :: string
  vd_Zip :: string
  vd_Country :: string
  vd_Phone :: string
  vd_Email :: string
  vd_Company :: string
  vd_Address2 :: string

definition vault_person :: "vault_data \<Rightarrow> form" where
  "vault_person d = opt_field ''first_name'' (vd_FirstName d) @ opt_field ''last_name'' (vd_LastName d) @
     opt_field ''address1'' (vd_Address1 d) @ opt_field ''city'' (vd_City d) @ opt_field ''state'' (vd_State d) @
     opt_field ''zip'' (vd_Zip d) @ opt_field ''country'' (vd_Country d) @ opt_field ''phone'' (vd_Phone d) @
     opt_field ''email'' (vd_Email d)"

definition create_vault_form :: "nmi_client \<Rightarrow> vault_data \<Rightarrow> form" where
  "create_vault_form c d = [(''customer_vault'', ''add_customer''), (''security_key'', nc_SecurityKey c),
     (''payment_token'', trim_space (vd_PaymentToken d))] @ vault_person d @ test_mode c"

text \<open>The identifier of the new vault.\<close>

definition CreateCustomerVault :: "nmi_client \<Rightarrow> vault_data \<Rightarrow> string go" where
  "CreateCustomerVault c d = (case checkConfiguration c of
     Inl e \<Rightarrow> throw e
   | Inr _ \<Rightarrow> do {
       r \<leftarrow> sendDirectRequest c (create_vault_form c d);
       (case r of
          Inl e \<Rightarrow> throw e
        | Inr response \<Rightarrow>
            if \<not> contains response ''response=1'' then throw (ErrNew (''failed to create customer vault: '' @ response))
            else (case ParseQuery response of
                None \<Rightarrow> throw query_err
              | Some output \<Rightarrow>
                  if get output ''response'' \<noteq> ''1'' \<or> get output ''customer_vault_id'' = ''''
                  then throw (ErrNew (''failed to create customer vault: '' @ get output ''response_message''))
                  else ok (get output ''customer_vault_id'')))
     })"

definition update_vault_form :: "nmi_client \<Rightarrow> string \<Rightarrow> vault_data \<Rightarrow> form" where
  "update_vault_form c i d = [(''customer_vault'', ''update_customer''), (''security_key'', nc_SecurityKey c),
     (''customer_vault_id'', i)] @ opt_field ''payment_token'' (trim_space (vd_PaymentToken d)) @ vault_person d @
     opt_field ''company'' (vd_Company d) @ opt_field ''address2'' (vd_Address2 d) @ test_mode c"

text \<open>A request whose answer need only contain \<open>response=1\<close>.\<close>

definition simple_request :: "nmi_client \<Rightarrow> string \<Rightarrow> form \<Rightarrow> string go" where
  "simple_request c what form = do {
     r \<leftarrow> sendDirectRequest c form;
     (case r of
        Inl e \<Rightarrow> throw e
      | Inr response \<Rightarrow> if \<not> contains response ''response=1'' then throw (ErrNew (what @ response)) else ok response)
   }"

definition done_m :: "string go \<Rightarrow> unit go" where
  "done_m m = do { r \<leftarrow> m; (case r of Inl e \<Rightarrow> throw e | Inr _ \<Rightarrow> ok ()) }"

definition UpdateCustomerVault :: "nmi_client \<Rightarrow> string \<Rightarrow> vault_data \<Rightarrow> unit go" where
  "UpdateCustomerVault c i d = (case checkConfiguration c of
     Inl e \<Rightarrow> throw e
   | Inr _ \<Rightarrow> if i = '''' then throw (ErrNew ''customer vault ID is required'')
       else done_m (simple_request c ''failed to update customer vault: '' (update_vault_form c i d)))"

definition DeleteCustomerVault :: "nmi_client \<Rightarrow> string \<Rightarrow> unit go" where
  "DeleteCustomerVault c i = (case checkConfiguration c of
     Inl e \<Rightarrow> throw e
   | Inr _ \<Rightarrow> if i = '''' then throw (ErrNew ''customer vault ID is required'')
       else done_m (simple_request c ''failed to delete customer vault: ''
         ([(''customer_vault'', ''delete_customer''), (''security_key'', nc_SecurityKey c), (''customer_vault_id'', i)] @ test_mode c)))"

section \<open>Recurring subscriptions\<close>

record recurring_data =
  rd_FirstName :: string
  rd_LastName :: string
  rd_Address1 :: string
  rd_City :: string
  rd_State :: string
  rd_Zip :: string
  rd_Country :: string
  rd_PlanID :: string
  rd_CustomerVaultID :: string
  rd_Email :: string
  rd_Currency :: string
  rd_PaymentToken :: string
  rd_Amount :: float64
  rd_OrderID :: string
  rd_PONumber :: string
  rd_CustomerID :: string

record add_response =
  ar_Type :: string
  ar_SubscriptionID :: string
  ar_TransactionID :: string
  ar_Authcode :: string

definition add_form :: "nmi_client \<Rightarrow> recurring_data \<Rightarrow> form" where
  "add_form c d = [(''type'', ''sale''), (''amount'', format2 (rd_Amount d)), (''email'', rd_Email d), (''plan_id'', rd_PlanID d),
     (''billing_method'', ''recurring''), (''security_key'', nc_SecurityKey c), (''currency'', rd_Currency d),
     (''recurring'', ''add_subscription''), (''order_description'', ''Doujins Subscription''), (''first_name'', rd_FirstName d),
     (''last_name'', rd_LastName d), (''address1'', rd_Address1 d), (''city'', rd_City d), (''state'', rd_State d),
     (''zip'', rd_Zip d), (''country'', rd_Country d)] @
     opt_field ''orderid'' (trim_space (rd_OrderID d)) @ opt_field ''ponumber'' (trim_space (rd_PONumber d)) @
     (if trim_space (rd_CustomerVaultID d) = '''' then opt_field ''customerid'' (trim_space (rd_CustomerID d)) else []) @
     opt_field ''payment_token'' (rd_PaymentToken d) @ opt_field ''customer_vault_id'' (rd_CustomerVaultID d) @ test_mode c"

definition AddRecurringSubscription :: "nmi_client \<Rightarrow> recurring_data \<Rightarrow> add_response go" where
  "AddRecurringSubscription c d = (case checkConfiguration c of
     Inl e \<Rightarrow> throw e
   | Inr _ \<Rightarrow>
       if rd_PlanID d = '''' then throw (ErrNew ''PlanID is required'')
       else if rd_CustomerVaultID d = '''' \<and> rd_PaymentToken d = '''' then throw (ErrNew ''either customer vault or payment token is required'')
       else do {
         r \<leftarrow> sendDirectRequest c (add_form c d);
         (case r of
            Inl e \<Rightarrow> throw e
          | Inr response \<Rightarrow> (case ParseQuery response of
              None \<Rightarrow> throw (ErrNew (''failed to parse response: '' @ response))
            | Some output \<Rightarrow>
                if get output ''response'' \<noteq> ''1'' then throw (ErrNew (''failed to add subscription: '' @ get output ''responsetext''))
                else ok \<lparr>ar_Type = get output ''type'', ar_SubscriptionID = get output ''subscription_id'',
                  ar_TransactionID = get output ''transactionid'', ar_Authcode = get output ''authcode''\<rparr>))
       })"

definition UpdateRecurringSubscription :: "nmi_client \<Rightarrow> string \<Rightarrow> string \<Rightarrow> int \<Rightarrow> string go" where
  "UpdateRecurringSubscription c subscriptionID planAmount planPayments = (case checkConfiguration c of
     Inl e \<Rightarrow> throw e
   | Inr _ \<Rightarrow>
       if subscriptionID = '''' \<or> planAmount = '''' then throw (ErrNew ''missing required fields: subscriptionID, planAmount'')
       else simple_request c ''failed to update subscription: '' ([(''recurring'', ''update_subscription''), (''security_key'', nc_SecurityKey c),
         (''subscription_id'', subscriptionID), (''plan_amount'', planAmount), (''plan_payments'', show_int planPayments)] @ test_mode c))"

definition DeleteRecurringSubscription :: "nmi_client \<Rightarrow> string \<Rightarrow> unit go" where
  "DeleteRecurringSubscription c subscriptionID = (case checkConfiguration c of
     Inl e \<Rightarrow> throw e
   | Inr _ \<Rightarrow>
       if subscriptionID = '''' then throw (ErrNew ''subscriptionID is required'')
       else done_m (simple_request c ''failed to delete subscription: '' ([(''recurring'', ''delete_subscription''),
         (''security_key'', nc_SecurityKey c), (''subscription_id'', subscriptionID)] @ test_mode c)))"

section \<open>Rebills\<close>

record rebill_params =
  rb_VaultID :: string
  rb_BillingID :: string
  rb_SubscriptionID :: string

record rebill_response =
  rr_Success :: bool
  rr_TransactionID :: string
  rr_ErrorMessage :: string

definition rebill_failed :: "string \<Rightarrow> rebill_response" where
  "rebill_failed m = \<lparr>rr_Success = False, rr_TransactionID = '''', rr_ErrorMessage = m\<rparr>"

definition rebill_form :: "nmi_client \<Rightarrow> rebill_params \<Rightarrow> form" where
  "rebill_form c p = [(''type'', ''sale''), (''security_key'', nc_SecurityKey c), (''customer_vault_id'', rb_VaultID p),
     (''billing_id'', rb_BillingID p), (''subscription_id'', rb_SubscriptionID p), (''recurring'', ''rebill_subscription''),
     (''order_description'', ''Manual Rebill - Doujins Subscription'')] @ test_mode c"

definition rebill_answer :: "string \<Rightarrow> rebill_response \<times> go_err option" where
  "rebill_answer response = (case ParseQuery response of
     None \<Rightarrow> (rebill_failed (''failed to parse response: '' @ response), Some query_err)
   | Some output \<Rightarrow>
       if get output ''response'' = ''1''
       then (\<lparr>rr_Success = True, rr_TransactionID = get output ''transactionid'', rr_ErrorMessage = ''''\<rparr>, None)
       else (rebill_failed (if get output ''responsetext'' = '''' then ''Unknown error'' else get output ''responsetext''), None))"

text \<open>The response and the error: a response is returned with an error as well.\<close>

definition AttemptManualRebill :: "nmi_client \<Rightarrow> rebill_params \<Rightarrow> (world, rebill_response \<times> go_err option) state" where
  "AttemptManualRebill c p = (case checkConfiguration c of
     Inl e \<Rightarrow> State_Monad.return (rebill_failed (err_text e), Some e)
   | Inr _ \<Rightarrow>
       if rb_VaultID p = '''' \<or> rb_BillingID p = '''' \<or> rb_SubscriptionID p = ''''
       then (let e = ErrNew ''vault ID, billing ID, and subscription ID are required''
             in State_Monad.return (rebill_failed (err_text e), Some e))
       else do {
         r \<leftarrow> sendDirectRequest c (rebill_form c p);
         State_Monad.return (case r of
            Inl e \<Rightarrow> (rebill_failed (''request failed: '' @ err_text e), Some e)
          | Inr response \<Rightarrow> rebill_answer response)
       })"

section \<open>Queries\<close>

definition query_request :: "nmi_client \<Rightarrow> form \<Rightarrow> string go" where
  "query_request c form = (case checkConfiguration c of Inl e \<Rightarrow> throw e | Inr _ \<Rightarrow> sendQueryRequest c form)"

definition service_form :: "nmi_client \<Rightarrow> string \<Rightarrow> form" where
  "service_form c t = [(''Servicert_type'', t), (''security_key'', nc_SecurityKey c)]"

definition GetTransactionDetails :: "nmi_client \<Rightarrow> string \<Rightarrow> string go" where
  "GetTransactionDetails c i = (case checkConfiguration c of
     Inl e \<Rightarrow> throw e
   | Inr _ \<Rightarrow> if i = '''' then throw (ErrNew ''transactionID is required'')
       else sendQueryRequest c (service_form c ''transaction'' @ [(''transaction_id'', i)] @ test_mode c))"

definition GetCustomerVaultData :: "nmi_client \<Rightarrow> string \<Rightarrow> string go" where
  "GetCustomerVaultData c i = query_request c (service_form c ''customer_vault'' @ opt_field ''customer_vault_id'' i @ test_mode c)"

definition GetSubscriptionData :: "nmi_client \<Rightarrow> string \<Rightarrow> string go" where
  "GetSubscriptionData c i = query_request c (service_form c ''recurring'' @ opt_field ''subscription_id'' i @ test_mode c)"

definition GetRecurringPlanData :: "nmi_client \<Rightarrow> string go" where
  "GetRecurringPlanData c = query_request c (service_form c ''recurring_plans'' @ test_mode c)"

record query_filter =
  qf_StartDate :: string
  qf_EndDate :: string
  qf_Condition :: string
  qf_ActionType :: string
  qf_PageNumber :: int
  qf_ResultLimit :: int

definition SearchTransactions :: "nmi_client \<Rightarrow> query_filter \<Rightarrow> string go" where
  "SearchTransactions c f = query_request c (service_form c ''transaction'' @ test_mode c @
     opt_field ''start_date'' (qf_StartDate f) @ opt_field ''end_date'' (qf_EndDate f) @ opt_field ''condition'' (qf_Condition f) @
     opt_field ''action_type'' (qf_ActionType f) @
     (if qf_PageNumber f > 0 then [(''page_number'', show_int (qf_PageNumber f))] else []) @
     (if qf_ResultLimit f > 0 then [(''result_limit'', show_int (qf_ResultLimit f))] else []))"

section \<open>Signatures\<close>

definition trim_prefix :: "string \<Rightarrow> string \<Rightarrow> string" where
  "trim_prefix p s = (if has_prefix s p then drop (length p) s else s)"

definition VerifyWebhookSignature :: "(string \<Rightarrow> string \<Rightarrow> string) \<Rightarrow> nmi_client \<Rightarrow> string \<Rightarrow> string \<Rightarrow> unit res" where
  "VerifyWebhookSignature hmac_hex c body signature =
     (if nc_WebhookSecret c = '''' then Inl (ErrNew ''webhook secret not configured'')
      else if trim_prefix ''sha256='' signature \<noteq> hmac_hex (nc_WebhookSecret c) body
        then Inl (ErrNew ''webhook signature verification failed'')
      else Inr ())"

section \<open>Executing a request\<close>

text \<open>What the gateway gives back for a request, as the client reads it.\<close>

definition answer :: "string \<Rightarrow> string \<Rightarrow> http_result \<Rightarrow> string res" where
  "answer sendErr readErr r = (case r of
     HttpRefused m \<Rightarrow> Inl (ErrWrap sendErr (ErrNew m))
   | HttpResponse status body close \<Rightarrow>
       if status \<noteq> 200 then Inl (ErrNew (''unexpected status code: '' @ show_nat status))
       else (case body of Inl m \<Rightarrow> Inl (ErrWrap readErr (ErrNew m))
         | Inr b \<Rightarrow> (case close of Some m \<Rightarrow> Inl (ErrNew m) | None \<Rightarrow> Inr b)))"

definition sent :: "string \<Rightarrow> form \<Rightarrow> world \<Rightarrow> world" where
  "sent url form w = (tick w)\<lparr>w_sent := w_sent w @ [(url, form)]\<rparr>"

lemma sent_simps [simp]:
  "w_db (sent url f w) = w_db w" "w_tx (sent url f w) = w_tx w" "w_env (sent url f w) = w_env w"
  "w_sent (sent url f w) = w_sent w @ [(url, f)]" "w_pc (sent url f w) = Suc (w_pc w)" "w_aborted (sent url f w) = w_aborted w"
  "healthy (sent url f w) = healthy w"
  by (simp_all add: sent_def)

lemma wp_post_form:
  "wp (post_form sendErr readErr url f) Q w = Q (answer sendErr readErr (env_http (w_env w) (w_pc w) url f)) (sent url f w)"
  by (simp add: post_form_def answer_def sent_def wp_simps split: http_result.split sum.split option.split)

lemma keeps_post_form [keeps_intros]: "keeps b I (post_form sendErr readErr url f)"
  unfolding post_form_def by (intro keeps_intros) (auto intro!: keeps_intros split: http_result.split sum.split option.split)

lemma keeps_client [keeps_intros]:
  "keeps b I (AttemptManualRebill c p)" "keeps b I (CreateCustomerVault c d)" "keeps b I (DeleteCustomerVault c i)"
  "keeps b I (UpdateCustomerVault c i d)" "keeps b I (AddRecurringSubscription c rd)" "keeps b I (DeleteRecurringSubscription c i)"
  unfolding AttemptManualRebill_def CreateCustomerVault_def DeleteCustomerVault_def UpdateCustomerVault_def AddRecurringSubscription_def
    DeleteRecurringSubscription_def sendDirectRequest_def simple_request_def done_m_def Let_def
  by (auto intro!: keeps_intros split: sum.split option.split)

end

