(* ===== verification/Payment_Methods.thy ===== *)
theory Payment_Methods
  imports NMI_Client
begin

text \<open>
  \<open>internal/manager/data/repo/payment_method.go\<close> and \<open>internal/manager/api/payment/payment_method.go\<close> (the stored
  payment methods), and \<open>internal/manager/data/vault/vault_service.go\<close> (the customer vaults of the NMI gateway
  behind them).
\<close>

section \<open>PaymentMethodRepo\<close>

definition pm_unique :: "payment_method list \<Rightarrow> bool" where
  "pm_unique rs \<longleftrightarrow> distinct (map pm_ID rs) \<and>
     distinct (map (\<lambda>p. (pm_Processor p, case pm_Provider p of Some v \<Rightarrow> v | None \<Rightarrow> '''', pm_VaultID p)) rs) \<and>
     distinct (map (\<lambda>p. (pm_UserID p, pm_VaultID p)) rs)"

definition add_pm :: "payment_method \<Rightarrow> tables \<Rightarrow> tables" where
  "add_pm p t = t\<lparr>t_pms := t_pms t @ [p]\<rparr>"

definition upd_pms :: "(payment_method \<Rightarrow> bool) \<Rightarrow> (payment_method \<Rightarrow> payment_method) \<Rightarrow> tables \<Rightarrow> tables" where
  "upd_pms P f t = t\<lparr>t_pms := update_where P f (t_pms t)\<rparr>"

text \<open>The foreign key of the subscriptions is set to null.\<close>

definition del_pm :: "uuid \<Rightarrow> tables \<Rightarrow> tables" where
  "del_pm i t = t\<lparr>t_pms := filter (\<lambda>p. pm_ID p \<noteq> i) (t_pms t),
     t_subs := update_where (\<lambda>s. sub_PaymentMethodID s = Some i) (\<lambda>s. s\<lparr>sub_PaymentMethodID := None\<rparr>) (t_subs t)\<rparr>"

definition pm_by_id :: "tables \<Rightarrow> uuid \<Rightarrow> payment_method option" where
  "pm_by_id t i = find (\<lambda>p. pm_ID p = i) (t_pms t)"

text \<open>An inserted row: zero values of columns with a default are given the default.\<close>

definition stored_pm :: "time \<Rightarrow> payment_method \<Rightarrow> payment_method" where
  "stored_pm now p = p\<lparr>pm_IsActive := True,
     pm_CreatedAt := (if is_zero_time (pm_CreatedAt p) then now else pm_CreatedAt p),
     pm_UpdatedAt := (if is_zero_time (pm_UpdatedAt p) then now else pm_UpdatedAt p)\<rparr>"

definition RepoErrPaymentMethodNotFound :: go_err where
  "RepoErrPaymentMethodNotFound = Sentinel ''payment method not found''"

definition PMRepo_Create :: "handle \<Rightarrow> payment_method \<Rightarrow> unit go" where
  "PMRepo_Create h p = do {
     r \<leftarrow> db_exec h (\<lambda>now t. if pm_unique (t_pms (add_pm (stored_pm now p) t)) then Inr (1 :: nat, add_pm (stored_pm now p)) else Inl duplicate_key);
     (case r of Inl e \<Rightarrow> throw e | Inr rows \<Rightarrow> if rows < 1 then throw no_rows_affected else ok ())
   }"

definition pm_missing :: "uuid \<Rightarrow> go_err \<Rightarrow> go_err" where
  "pm_missing i e = (if err_is e ErrNoRows then ErrWrap (''payment method '' @ show_nat i) RepoErrPaymentMethodNotFound else e)"

definition PMRepo_GetByID :: "handle \<Rightarrow> uuid \<Rightarrow> payment_method go" where
  "PMRepo_GetByID h i = do {
     r \<leftarrow> db_query h (\<lambda>now t. scan_row (pm_by_id t i));
     (case r of Inl e \<Rightarrow> throw (pm_missing i e) | Inr p \<Rightarrow> ok p)
   }"

text \<open>A statement that must hit a row.\<close>

definition pm_exec :: "handle \<Rightarrow> (payment_method \<Rightarrow> bool) \<Rightarrow> (tables \<Rightarrow> tables) \<Rightarrow> unit go" where
  "pm_exec h P u = do {
     r \<leftarrow> db_exec h (\<lambda>now t. if pm_unique (t_pms (u t)) then Inr (length (filter P (t_pms t)), u) else Inl duplicate_key);
     (case r of Inl e \<Rightarrow> throw e | Inr rows \<Rightarrow> if rows < 1 then throw RepoErrPaymentMethodNotFound else ok ())
   }"

definition PMRepo_Delete :: "handle \<Rightarrow> uuid \<Rightarrow> unit go" where
  "PMRepo_Delete h i = pm_exec h (\<lambda>p. pm_ID p = i) (del_pm i)"

definition pm_list :: "handle \<Rightarrow> (payment_method \<Rightarrow> bool) \<Rightarrow> payment_method list go" where
  "pm_list h P = db_query h (\<lambda>now t. Inr (sort_desc pm_CreatedAt (filter P (t_pms t))))"

definition PMRepo_GetByUserID :: "handle \<Rightarrow> string \<Rightarrow> payment_method list go" where
  "PMRepo_GetByUserID h u = pm_list h (\<lambda>p. pm_UserID p = u)"

definition PMRepo_GetActiveByUserID :: "handle \<Rightarrow> string \<Rightarrow> payment_method list go" where
  "PMRepo_GetActiveByUserID h u = pm_list h (\<lambda>p. pm_UserID p = u \<and> pm_IsActive p)"

definition PMRepo_ListByUserID :: "handle \<Rightarrow> string \<Rightarrow> bool \<Rightarrow> int \<Rightarrow> int \<Rightarrow> (payment_method list \<times> nat) go" where
  "PMRepo_ListByUserID h u includeInactive limit offset = do {
     c \<leftarrow> db_query h (\<lambda>now t. Inr (length (filter (\<lambda>p. pm_UserID p = u \<and> (includeInactive \<or> pm_IsActive p)) (t_pms t))));
     (case c of
        Inl e \<Rightarrow> throw e
      | Inr n \<Rightarrow> do {
          r \<leftarrow> db_query h (\<lambda>now t. Inr (slice limit offset
            (sort_desc pm_CreatedAt (filter (\<lambda>p. pm_UserID p = u \<and> (includeInactive \<or> pm_IsActive p)) (t_pms t)))));
          (case r of Inl e \<Rightarrow> throw e | Inr ms \<Rightarrow> ok (ms, n))
        })
   }"

text \<open>The conditions on the provider that the three lookups of NMI methods share.\<close>

definition pm_of_provider :: "string \<Rightarrow> payment_method \<Rightarrow> bool" where
  "pm_of_provider prov p \<longleftrightarrow> (let provider = provider_key prov in pm_Processor p = ProcessorNMI \<and>
     (if provider = ''mobius'' then pm_Provider p \<in> {Some provider, None, Some ''''} else pm_Provider p = Some provider))"

definition pm_scan :: "handle \<Rightarrow> (payment_method \<Rightarrow> bool) \<Rightarrow> payment_method go" where
  "pm_scan h P = do {
     r \<leftarrow> db_query h (\<lambda>now t. scan_row (find P (t_pms t)));
     (case r of Inl e \<Rightarrow> throw (if err_is e ErrNoRows then RepoErrPaymentMethodNotFound else e) | Inr p \<Rightarrow> ok p)
   }"

definition PMRepo_GetByVaultID :: "handle \<Rightarrow> string \<Rightarrow> string \<Rightarrow> payment_method go" where
  "PMRepo_GetByVaultID h prov v = pm_scan h (\<lambda>p. pm_of_provider prov p \<and> pm_VaultID p = v)"

definition PMRepo_GetByBillingID :: "handle \<Rightarrow> string \<Rightarrow> string \<Rightarrow> payment_method go" where
  "PMRepo_GetByBillingID h prov v = pm_scan h (\<lambda>p. pm_of_provider prov p \<and> pm_BillingID p = Some v)"

definition PMRepo_GetByInitialTransactionID :: "handle \<Rightarrow> string \<Rightarrow> string \<Rightarrow> payment_method go" where
  "PMRepo_GetByInitialTransactionID h prov v = pm_scan h (\<lambda>p. pm_of_provider prov p \<and> pm_InitialTransactionID p = v)"

definition PMRepo_Update :: "handle \<Rightarrow> payment_method \<Rightarrow> unit go" where
  "PMRepo_Update h p = pm_exec h (\<lambda>q. pm_ID q = pm_ID p) (upd_pms (\<lambda>q. pm_ID q = pm_ID p) (\<lambda>_. p))"

definition PMRepo_DeactivateByUserID :: "handle \<Rightarrow> string \<Rightarrow> unit go" where
  "PMRepo_DeactivateByUserID h u = db_exec h (\<lambda>now t. Inr ((), upd_pms (\<lambda>p. pm_UserID p = u) (\<lambda>p. p\<lparr>pm_IsActive := False\<rparr>)))"

definition PMRepo_ActivateByID :: "handle \<Rightarrow> uuid \<Rightarrow> unit go" where
  "PMRepo_ActivateByID h i = pm_exec h (\<lambda>p. pm_ID p = i) (upd_pms (\<lambda>p. pm_ID p = i) (\<lambda>p. p\<lparr>pm_IsActive := True\<rparr>))"

definition PMRepo_GetAllNMI :: "handle \<Rightarrow> payment_method list go" where
  "PMRepo_GetAllNMI h = pm_list h (\<lambda>p. pm_Processor p = ProcessorNMI)"

definition PMRepo_GetActiveNMI :: "handle \<Rightarrow> payment_method list go" where
  "PMRepo_GetActiveNMI h = pm_list h (\<lambda>p. pm_Processor p = ProcessorNMI \<and> pm_IsActive p)"

definition PMRepo_GetNMIByUserID :: "handle \<Rightarrow> string \<Rightarrow> payment_method list go" where
  "PMRepo_GetNMIByUserID h u = pm_list h (\<lambda>p. pm_UserID p = u \<and> pm_Processor p = ProcessorNMI)"

definition PMRepo_GetActiveNMIByUserID :: "handle \<Rightarrow> string \<Rightarrow> payment_method list go" where
  "PMRepo_GetActiveNMIByUserID h u = pm_list h (\<lambda>p. pm_UserID p = u \<and> pm_Processor p = ProcessorNMI \<and> pm_IsActive p)"

definition PMRepo_ExistsForUser :: "handle \<Rightarrow> uuid \<Rightarrow> string \<Rightarrow> bool go" where
  "PMRepo_ExistsForUser h i u = db_query h (\<lambda>now t. Inr (0 < length (filter (\<lambda>p. pm_ID p = i \<and> pm_UserID p = u) (t_pms t))))"

definition PMRepo_GetByProcessor :: "handle \<Rightarrow> processor \<Rightarrow> payment_method list go" where
  "PMRepo_GetByProcessor h proc = pm_list h (\<lambda>p. pm_Processor p = proc)"

definition PMRepo_GetActiveByProcessor :: "handle \<Rightarrow> processor \<Rightarrow> payment_method list go" where
  "PMRepo_GetActiveByProcessor h proc = pm_list h (\<lambda>p. pm_Processor p = proc \<and> pm_IsActive p)"

section \<open>PaymentMethodService\<close>

definition ErrPaymentMethodNotFound :: go_err where
  "ErrPaymentMethodNotFound = Sentinel ''payment method not found''"

definition ErrPaymentMethodAccessDenied :: go_err where
  "ErrPaymentMethodAccessDenied = Sentinel ''payment method access denied''"

definition ErrPaymentMethodInactive :: go_err where
  "ErrPaymentMethodInactive = Sentinel ''payment method is inactive''"

text \<open>The repository's error of a missing row becomes the service's.\<close>

definition pm_service :: "'a go \<Rightarrow> 'a go" where
  "pm_service m = do {
     r \<leftarrow> m;
     (case r of Inl e \<Rightarrow> throw (if err_is e RepoErrPaymentMethodNotFound then ErrPaymentMethodNotFound else e) | Inr x \<Rightarrow> ok x)
   }"

definition PMService_GetByID :: "uuid \<Rightarrow> payment_method go" where
  "PMService_GetByID i = pm_service (PMRepo_GetByID Pool i)"

definition PMService_Update :: "payment_method \<Rightarrow> unit go" where
  "PMService_Update p = pm_service (PMRepo_Update Pool p)"

definition PMService_Delete :: "uuid \<Rightarrow> unit go" where
  "PMService_Delete i = pm_service (PMRepo_Delete Pool i)"

definition PMService_ActivateByID :: "uuid \<Rightarrow> unit go" where
  "PMService_ActivateByID i = pm_service (PMRepo_ActivateByID Pool i)"

definition PMService_ListByUserID :: "string \<Rightarrow> bool \<Rightarrow> int \<Rightarrow> int \<Rightarrow> (payment_method list \<times> nat) go" where
  "PMService_ListByUserID u includeInactive page pageSize =
     (if u = '''' then throw (ErrNew ''user ID is required'')
      else let p = (if page < 1 then 1 else page); n = (if pageSize < 1 then 20 else pageSize)
        in PMRepo_ListByUserID Pool u includeInactive n ((p - 1) * n))"

definition ValidateOwnership :: "uuid \<Rightarrow> string \<Rightarrow> unit go" where
  "ValidateOwnership i u =
     (if i = 0 then throw (ErrNew ''invalid payment method ID'')
      else if u = '''' then throw (ErrNew ''user ID is required'')
      else do {
        r \<leftarrow> PMRepo_ExistsForUser Pool i u;
        (case r of
           Inl e \<Rightarrow> throw (ErrWrap ''failed to validate ownership'' e)
         | Inr exists \<Rightarrow> if \<not> exists then throw ErrPaymentMethodAccessDenied else ok ())
      })"

definition ValidatePaymentMethodOperation :: "uuid \<Rightarrow> string \<Rightarrow> payment_method go" where
  "ValidatePaymentMethodOperation i u =
     (if i = 0 then throw (ErrNew ''invalid payment method ID'')
      else if u = '''' then throw (ErrNew ''user ID is required'')
      else do {
        r \<leftarrow> PMService_GetByID i;
        (case r of
           Inl e \<Rightarrow> throw (if err_is e ErrPaymentMethodNotFound then ErrPaymentMethodNotFound
                           else ErrWrap ''failed to get payment method'' e)
         | Inr p \<Rightarrow> do {
             v \<leftarrow> ValidateOwnership i u;
             (case v of
                Inl e \<Rightarrow> throw (if err_is e ErrPaymentMethodAccessDenied then ErrPaymentMethodAccessDenied else e)
              | Inr _ \<Rightarrow>
                  if \<not> pm_IsActive p then throw (case pm_FailureReason p of
                      Some m \<Rightarrow> if trim_space m \<noteq> '''' then ErrWrap2 ErrPaymentMethodInactive (ErrNew (trim_space m)) else ErrPaymentMethodInactive
                    | None \<Rightarrow> ErrPaymentMethodInactive)
                  else ok p)
           })
      })"

end
