(* ===== verification/Vault.thy ===== *)
theory Vault
  imports Payment_Methods
begin

text \<open>
  \<open>internal/manager/data/vault/vault_service.go\<close>: the customer vaults at the NMI gateway and the payment methods
  stored for them. \<open>clients\<close> is the map of the configured gateway clients.
\<close>

type_synonym nmi_clients = "(string \<times> nmi_client) list"

record user_identity =
  ui_ID :: string
  ui_Email :: "string option"
  ui_Username :: string

record create_vault_request =
  cvr_PaymentToken :: string
  cvr_Provider :: string
  cvr_FirstName :: string
  cvr_LastName :: string
  cvr_Address1 :: string
  cvr_City :: string
  cvr_State :: string
  cvr_Zip :: string
  cvr_Country :: string
  cvr_Phone :: string
  cvr_Email :: string
  cvr_Company :: string
  cvr_Address2 :: string

record update_vault_request =
  uvr_PaymentToken :: "string option"
  uvr_Provider :: "string option"
  uvr_FirstName :: "string option"
  uvr_LastName :: "string option"
  uvr_Address1 :: "string option"
  uvr_City :: "string option"
  uvr_State :: "string option"
  uvr_Zip :: "string option"
  uvr_Country :: "string option"
  uvr_Phone :: "string option"
  uvr_Email :: "string option"
  uvr_Company :: "string option"
  uvr_Address2 :: "string option"

section \<open>CreateVault\<close>

definition not_configured :: "string \<Rightarrow> go_err" where
  "not_configured provider = ErrNew (''nmi provider '' @ quoted provider @ '' is not configured'')"

definition create_vault_data :: "create_vault_request \<Rightarrow> vault_data" where
  "create_vault_data r = \<lparr>vd_PaymentToken = cvr_PaymentToken r, vd_FirstName = cvr_FirstName r, vd_LastName = cvr_LastName r,
     vd_Address1 = cvr_Address1 r, vd_City = cvr_City r, vd_State = cvr_State r, vd_Zip = cvr_Zip r, vd_Country = cvr_Country r,
     vd_Phone = cvr_Phone r, vd_Email = cvr_Email r, vd_Company = cvr_Company r, vd_Address2 = cvr_Address2 r\<rparr>"

definition new_vault_method :: "uuid \<Rightarrow> string \<Rightarrow> string \<Rightarrow> string \<Rightarrow> time \<Rightarrow> time \<Rightarrow> payment_method" where
  "new_vault_method i u provider vault now1 now2 = \<lparr>pm_ID = i, pm_UserID = u, pm_Processor = ProcessorNMI, pm_Provider = Some provider,
     pm_VaultID = vault, pm_BillingID = None, pm_InitialTransactionID = '''', pm_IsActive = True, pm_LastFour = None,
     pm_CardType = None, pm_ExpiryDate = None, pm_FailureReason = None, pm_CreatedAt = now1, pm_UpdatedAt = now2\<rparr>"

text \<open>The error of the remote clean-up is dropped.\<close>

definition CreateVault :: "nmi_clients \<Rightarrow> user_identity \<Rightarrow> create_vault_request \<Rightarrow> payment_method go" where
  "CreateVault clients user req = (let provider = provider_key (cvr_Provider req) in
     (case map_of clients provider of
        None \<Rightarrow> throw (not_configured provider)
      | Some client \<Rightarrow> do {
          r \<leftarrow> CreateCustomerVault client (create_vault_data req);
          (case r of
             Inl e \<Rightarrow> throw (wrap_err ''failed to create payment vault'' e)
           | Inr vault \<Rightarrow> do {
               i \<leftarrow> new_uuid;
               now1 \<leftarrow> now_m;
               now2 \<leftarrow> now_m;
               let pm = new_vault_method i (ui_ID user) provider vault now1 now2;
               c \<leftarrow> PMRepo_Create Pool pm;
               (case c of
                  Inl e \<Rightarrow> do {
                    DeleteCustomerVault client vault;
                    throw (wrap_err ''failed to store vault locally'' e)
                  }
                | Inr _ \<Rightarrow> ok pm)
             })
        }))"

section \<open>UpdateVault\<close>

definition method_provider :: "payment_method \<Rightarrow> string" where
  "method_provider pm = (case pm_Provider pm of
     Some p \<Rightarrow> if trim_space p \<noteq> '''' then trim_space (to_lower p) else ''mobius'' | None \<Rightarrow> ''mobius'')"

definition update_provider :: "payment_method \<Rightarrow> update_vault_request \<Rightarrow> string" where
  "update_provider pm req = (case uvr_Provider req of
     Some p \<Rightarrow> if trim_space p \<noteq> '''' then trim_space (to_lower p) else method_provider pm | None \<Rightarrow> method_provider pm)"

definition given :: "string option \<Rightarrow> string" where
  "given x = (case x of Some v \<Rightarrow> v | None \<Rightarrow> '''')"

definition update_vault_data :: "update_vault_request \<Rightarrow> vault_data" where
  "update_vault_data r = \<lparr>vd_PaymentToken = trim_space (given (uvr_PaymentToken r)), vd_FirstName = given (uvr_FirstName r),
     vd_LastName = given (uvr_LastName r), vd_Address1 = given (uvr_Address1 r), vd_City = given (uvr_City r),
     vd_State = given (uvr_State r), vd_Zip = given (uvr_Zip r), vd_Country = given (uvr_Country r), vd_Phone = given (uvr_Phone r),
     vd_Email = given (uvr_Email r), vd_Company = given (uvr_Company r), vd_Address2 = given (uvr_Address2 r)\<rparr>"

definition updated_vault_method :: "string \<Rightarrow> time \<Rightarrow> payment_method \<Rightarrow> payment_method" where
  "updated_vault_method provider now pm = pm\<lparr>pm_Provider := Some provider, pm_IsActive := True, pm_FailureReason := None, pm_UpdatedAt := now\<rparr>"

definition UpdateVault :: "nmi_clients \<Rightarrow> payment_method \<Rightarrow> update_vault_request \<Rightarrow> payment_method go" where
  "UpdateVault clients pm req = (let provider = update_provider pm req in
     (case map_of clients provider of
        None \<Rightarrow> throw (not_configured provider)
      | Some client \<Rightarrow> do {
          r \<leftarrow> UpdateCustomerVault client (pm_VaultID pm) (update_vault_data req);
          (case r of
             Inl e \<Rightarrow> throw (wrap_err ''failed to update payment vault'' e)
           | Inr _ \<Rightarrow> do {
               now \<leftarrow> now_m;
               let pm' = updated_vault_method provider now pm;
               u \<leftarrow> PMService_Update pm';
               (case u of Inl e \<Rightarrow> throw (wrap_err ''failed to update local vault record'' e) | Inr _ \<Rightarrow> ok pm')
             })
        }))"

section \<open>DeleteVault\<close>

definition uses_method :: "uuid \<Rightarrow> subscription \<Rightarrow> bool" where
  "uses_method i s \<longleftrightarrow> (sub_Status s = StatusActive \<or> sub_Status s = StatusPastDue) \<and> sub_PaymentMethodID s = Some i"

definition vault_in_use :: "nat \<Rightarrow> go_err" where
  "vault_in_use n = ErrNew (''cannot delete vault: '' @ show_nat n @ '' active subscription(s) are using this payment method'')"

definition DeleteVault :: "nmi_clients \<Rightarrow> payment_method \<Rightarrow> unit go" where
  "DeleteVault clients pm = do {
     r \<leftarrow> SubRepo_GetPaginatedByUserID Pool (pm_UserID pm) 1 1000;
     (case r of
        Inl e \<Rightarrow> throw (wrap_err ''failed to check vault usage'' e)
      | Inr (subs, n) \<Rightarrow>
          let active = length (filter (uses_method (pm_ID pm)) subs); provider = method_provider pm
          in if active > 0 then throw (vault_in_use active)
             else (case map_of clients provider of
                 None \<Rightarrow> throw (not_configured provider)
               | Some client \<Rightarrow> do {
                   d \<leftarrow> DeleteCustomerVault client (pm_VaultID pm);
                   (case d of
                      Inl e \<Rightarrow> throw (wrap_err ''failed to delete payment vault'' e)
                    | Inr _ \<Rightarrow> do {
                        now \<leftarrow> now_m;
                        u \<leftarrow> PMService_Update (pm\<lparr>pm_IsActive := False, pm_UpdatedAt := now\<rparr>);
                        (case u of Inl e \<Rightarrow> throw (wrap_err ''failed to deactivate local vault record'' e) | Inr _ \<Rightarrow> ok ())
                      })
                 }))
   }"

section \<open>ActivateVault and the listings\<close>

definition ActivateVault :: "payment_method \<Rightarrow> payment_method go" where
  "ActivateVault pm = (if \<not> pm_IsActive pm then throw (ErrNew ''cannot activate inactive vault'') else do {
     d \<leftarrow> PMRepo_DeactivateByUserID Pool (pm_UserID pm);
     (case d of
        Inl e \<Rightarrow> throw (wrap_err ''failed to deactivate other payment methods'' e)
      | Inr _ \<Rightarrow> do {
          a \<leftarrow> PMService_ActivateByID (pm_ID pm);
          (case a of
             Inl e \<Rightarrow> throw (wrap_err ''failed to activate payment method'' e)
           | Inr _ \<Rightarrow> do {
               r \<leftarrow> PMService_GetByID (pm_ID pm);
               (case r of Inl e \<Rightarrow> throw (wrap_err ''failed to refresh vault'' e) | Inr p \<Rightarrow> ok p)
             })
        })
   })"

definition GetUserVaults :: "string \<Rightarrow> bool \<Rightarrow> payment_method list go" where
  "GetUserVaults u includeInactive = (if includeInactive then PMRepo_GetByUserID Pool u else PMRepo_GetActiveByUserID Pool u)"

definition GetUserActiveVault :: "string \<Rightarrow> payment_method go" where
  "GetUserActiveVault u = do {
     r \<leftarrow> PMRepo_GetActiveByUserID Pool u;
     (case r of
        Inl e \<Rightarrow> throw e
      | Inr vaults \<Rightarrow> (case vaults of [] \<Rightarrow> throw (ErrNew ''no active payment method found'') | v # _ \<Rightarrow> ok v))
   }"

end
