(* ===== verification/Method_API.thy ===== *)
theory Method_API
  imports Vault
begin

text \<open>
  \<open>internal/manager/api/payment/payment_methods.go\<close>: the HTTP handlers of a user's payment methods. A handler
  yields the response it writes. Of the request they see the authenticated user (\<open>None\<close>: none) and what
  binding gives: a message (the handler has answered 400 with it) or the bound value. \<open>uuid.Parse\<close> of a path
  parameter is \<open>None\<close> when it fails.
\<close>

datatype 'a reply = ErrorJSON nat string | SuccessJSON 'a

type_synonym 'a handler = "(world, 'a reply) state"

definition refuse :: "nat \<Rightarrow> string \<Rightarrow> 'a handler" where
  "refuse status msg = State_Monad.return (ErrorJSON status msg)"

definition reply :: "'a \<Rightarrow> 'a handler" where
  "reply x = State_Monad.return (SuccessJSON x)"

definition bound :: "string + 'b \<Rightarrow> ('b \<Rightarrow> 'a handler) \<Rightarrow> 'a handler" where
  "bound b f = (case b of Inl msg \<Rightarrow> refuse 400 msg | Inr x \<Rightarrow> f x)"

definition with_user :: "user_identity option \<Rightarrow> (user_identity \<Rightarrow> 'a handler) \<Rightarrow> 'a handler" where
  "with_user user f = (case user of None \<Rightarrow> refuse 401 ''Authentication required'' | Some u \<Rightarrow> f u)"

definition parsed_id :: "uuid option \<Rightarrow> (uuid \<Rightarrow> 'a handler) \<Rightarrow> 'a handler" where
  "parsed_id i f = (case i of None \<Rightarrow> refuse 400 ''Invalid payment method ID format'' | Some x \<Rightarrow> f x)"

lemma keeps_handlers [keeps_intros]:
  "keeps b I (refuse c m)" "keeps b I (reply x)"
  "(\<And>y. z = Inr y \<Longrightarrow> keeps b I (f y)) \<Longrightarrow> keeps b I (bound z f)"
  "(\<And>u. user = Some u \<Longrightarrow> keeps b I (g u)) \<Longrightarrow> keeps b I (with_user user g)"
  "(\<And>k. i = Some k \<Longrightarrow> keeps b I (g' k)) \<Longrightarrow> keeps b I (parsed_id i g')"
  unfolding refuse_def reply_def bound_def with_user_def parsed_id_def by (auto intro!: keeps_intros split: sum.split option.split)

section \<open>CreatePaymentMethod\<close>

definition method_email :: "create_vault_request \<Rightarrow> user_identity \<Rightarrow> string" where
  "method_email req user = (if cvr_Email req \<noteq> '''' then cvr_Email req
     else case ui_Email user of Some e \<Rightarrow> trim_space e | None \<Rightarrow> '''')"

text \<open>\<open>clients\<close> is \<open>None\<close> when there is no vault service.\<close>

definition CreatePaymentMethod :: "nmi_clients option \<Rightarrow> user_identity option \<Rightarrow> string + create_vault_request \<Rightarrow> payment_method handler" where
  "CreatePaymentMethod clients user body = (case clients of
     None \<Rightarrow> refuse 503 ''payment vault unavailable''
   | Some cs \<Rightarrow> with_user user (\<lambda>u. bound body (\<lambda>req.
       if trim_space (cvr_PaymentToken req) = '''' then refuse 400 ''payment_token is required''
       else do {
         r \<leftarrow> CreateVault cs u (req\<lparr>cvr_Email := method_email req u\<rparr>);
         (case r of Inl e \<Rightarrow> refuse 400 (err_text e) | Inr pm \<Rightarrow> reply pm)
       })))"

section \<open>The ownership check of the other handlers\<close>

definition owned_method :: "uuid \<Rightarrow> user_identity \<Rightarrow> (payment_method \<Rightarrow> 'a handler) \<Rightarrow> 'a handler" where
  "owned_method i u f = do {
     r \<leftarrow> ValidatePaymentMethodOperation i (ui_ID u);
     (case r of
        Inl e \<Rightarrow>
          if err_is e ErrPaymentMethodNotFound then refuse 404 ''Payment method not found''
          else if err_is e ErrPaymentMethodAccessDenied then refuse 403 ''Access denied - you don't own this payment method''
          else refuse 500 ''Failed to validate payment method''
      | Inr pm \<Rightarrow> f pm)
   }"

section \<open>UpdatePaymentMethod\<close>

definition UpdatePaymentMethod ::
  "nmi_clients option \<Rightarrow> user_identity option \<Rightarrow> string + uuid option \<Rightarrow> string + update_vault_request \<Rightarrow> payment_method handler" where
  "UpdatePaymentMethod clients user path body = (case clients of
     None \<Rightarrow> refuse 503 ''payment vault unavailable''
   | Some cs \<Rightarrow> bound path (\<lambda>i. bound body (\<lambda>req. with_user user (\<lambda>u. parsed_id i (\<lambda>methodID.
       let token = trim_space (given (uvr_PaymentToken req)) in
       if token = '''' then refuse 400 ''payment_token is required''
       else owned_method methodID u (\<lambda>pm.
         if pm_Processor pm \<noteq> ProcessorNMI then refuse 400 ''Only NMI payment methods can be updated''
         else do {
           r \<leftarrow> UpdateVault cs pm (req\<lparr>uvr_PaymentToken := Some token\<rparr>);
           (case r of Inl e \<Rightarrow> refuse 400 (err_text e) | Inr pm' \<Rightarrow> reply pm')
         }))))))"

section \<open>ListPaymentMethods\<close>

text \<open>
  The query as it was bound, with the raw \<open>page\<close> and \<open>page_size\<close> parameters (empty when absent).
\<close>

record list_query =
  lq_Page :: int
  lq_PageSize :: int
  lq_IncludeInactive :: bool
  lq_RawPage :: string
  lq_RawPageSize :: string

definition SetDefaults :: "list_query \<Rightarrow> list_query" where
  "SetDefaults q = q\<lparr>lq_Page := 1, lq_PageSize := 20\<rparr>"

definition raw_page :: "list_query \<Rightarrow> string + list_query" where
  "raw_page q = (if lq_RawPage q = '''' then Inr q else case atoi (lq_RawPage q) of
     None \<Rightarrow> Inl ''Invalid page parameter - must be a positive integer''
   | Some v \<Rightarrow> Inr (if v > 0 then q\<lparr>lq_Page := v\<rparr> else q))"

definition raw_page_size :: "list_query \<Rightarrow> string + list_query" where
  "raw_page_size q = (if lq_RawPageSize q = '''' then Inr q else case atoi (lq_RawPageSize q) of
     None \<Rightarrow> Inl ''Invalid page_size parameter - must be a positive integer''
   | Some v \<Rightarrow> if v > 500 then Inl ''Page size cannot exceed 500'' else Inr (if v > 0 then q\<lparr>lq_PageSize := v\<rparr> else q))"

record 'r paginated =
  pg_Data :: "'r list"
  pg_TotalItems :: int
  pg_Page :: int
  pg_PageSize :: int
  pg_TotalPages :: int

definition ListPaymentMethods :: "user_identity option \<Rightarrow> string + list_query \<Rightarrow> payment_method paginated handler" where
  "ListPaymentMethods user query = bound query (\<lambda>q0. bound (raw_page q0) (\<lambda>q1. bound (raw_page_size q1) (\<lambda>q2.
     let q = SetDefaults q2 in
     with_user user (\<lambda>u.
       if lq_Page q < 1 then refuse 400 ''Page must be greater than 0''
       else if lq_PageSize q < 1 \<or> lq_PageSize q > 500 then refuse 400 ''Page size must be between 1 and 500''
       else do {
         r \<leftarrow> PMService_ListByUserID (ui_ID u) (lq_IncludeInactive q) (lq_Page q) (lq_PageSize q);
         (case r of
            Inl e \<Rightarrow> refuse 500 ''Failed to retrieve payment methods''
          | Inr (ms, n) \<Rightarrow> reply \<lparr>pg_Data = ms, pg_TotalItems = int n, pg_Page = lq_Page q, pg_PageSize = lq_PageSize q,
              pg_TotalPages = (if lq_PageSize q > 0 then (int n + lq_PageSize q - 1) div lq_PageSize q else 0)\<rparr>)
       }))))"

section \<open>DeletePaymentMethod\<close>

definition DeletePaymentMethod :: "user_identity option \<Rightarrow> string + uuid option \<Rightarrow> string handler" where
  "DeletePaymentMethod user path = bound path (\<lambda>i. parsed_id i (\<lambda>methodID. with_user user (\<lambda>u.
     owned_method methodID u (\<lambda>pm. do {
       r \<leftarrow> PMService_Delete methodID;
       (case r of
          Inl e \<Rightarrow> if err_is e ErrPaymentMethodNotFound then refuse 404 ''Payment method not found''
                   else refuse 500 ''Failed to delete payment method''
        | Inr _ \<Rightarrow> reply ''Payment method deleted successfully'')
     }))))"

section \<open>ActivatePaymentMethod\<close>

definition ActivatePaymentMethod :: "user_identity option \<Rightarrow> string + uuid option \<Rightarrow> string handler" where
  "ActivatePaymentMethod user path = bound path (\<lambda>i. parsed_id i (\<lambda>methodID. with_user user (\<lambda>u.
     owned_method methodID u (\<lambda>pm.
       if pm_IsActive pm then reply ''Payment method is already active''
       else if given (pm_FailureReason pm) \<noteq> '''' then refuse 409 (''Cannot activate payment method: '' @ given (pm_FailureReason pm))
       else do {
         r \<leftarrow> PMService_ActivateByID methodID;
         (case r of
            Inl e \<Rightarrow> if err_is e ErrPaymentMethodNotFound then refuse 404 ''Payment method not found''
                     else refuse 500 ''Failed to activate payment method''
          | Inr _ \<Rightarrow> reply ''Payment method activated successfully'')
       }))))"

end
