(* ===== verification/Dunning.thy ===== *)
theory Dunning
  imports Vault Payments
begin

text \<open>
  \<open>internal/manager/data/river/jobs_dunning.go\<close>: the sweep that finds the subscriptions whose next retry is due
  and the job that retries one of them at the NMI gateway. Inserting a job is the queue's: \<open>insert_err\<close> says for
  which subscription it fails, and the sweep yields the subscriptions whose job was inserted.
\<close>

section \<open>The provider of a subscription\<close>

definition normalizeProvider :: "string option \<Rightarrow> string" where
  "normalizeProvider v = (case v of None \<Rightarrow> '''' | Some p \<Rightarrow> trim_space (to_lower p))"

definition resolveSubscriptionProvider :: "subscription \<Rightarrow> string" where
  "resolveSubscriptionProvider s =
     (if normalizeProvider (sub_ProcessorProvider s) \<noteq> '''' then normalizeProvider (sub_ProcessorProvider s)
      else case (case sub_PaymentMethod s of Some m \<Rightarrow> normalizeProvider (pm_Provider m) | None \<Rightarrow> '''') of
        [] \<Rightarrow> (case (case sub_Price s of Some p \<Rightarrow> normalizeProvider (price_NMIProvider p) | None \<Rightarrow> '''') of
            [] \<Rightarrow> ''mobius'' | p \<Rightarrow> p)
      | p \<Rightarrow> p)"

section \<open>DunningAttemptWorker\<close>

definition fail_params_for :: "string \<Rightarrow> subscription \<Rightarrow> string \<Rightarrow> fail_params" where
  "fail_params_for provider s reason = \<lparr>fp_Processor = ProcessorNMI, fp_ProcessorSubscriptionID = sub_ProcessorSubscriptionID s,
     fp_ProcessorProvider = provider, fp_FailureReason = Some reason, fp_FailureCode = None\<rparr>"

text \<open>A failed attempt: the error of \<open>FailMembership\<close> is logged only, but a panic escapes.\<close>

definition fail_attempt :: "string \<Rightarrow> subscription \<Rightarrow> string \<Rightarrow> unit go" where
  "fail_attempt provider s reason = do {
     r \<leftarrow> FailMembership False (fail_params_for provider s reason);
     (case r of Inl e \<Rightarrow> if is_panic e then throw e else ok () | Inr _ \<Rightarrow> ok ())
   }"

definition usable_method :: "subscription \<Rightarrow> (string \<times> string) option" where
  "usable_method s = (case sub_PaymentMethod s of
     None \<Rightarrow> None
   | Some m \<Rightarrow> (case pm_BillingID m of
       None \<Rightarrow> None
     | Some b \<Rightarrow> if \<not> pm_IsActive m \<or> pm_VaultID m = '''' \<or> b = '''' then None else Some (pm_VaultID m, b)))"

definition dunning_payment :: "string \<Rightarrow> subscription \<Rightarrow> string \<Rightarrow> float64 \<times> string \<Rightarrow> uuid \<Rightarrow> time \<Rightarrow> time \<Rightarrow> payment" where
  "dunning_payment provider s txn ac i now1 now2 = \<lparr>pay_ID = i, pay_UserID = sub_UserID s, pay_PriceID = sub_PriceID s,
     pay_SubscriptionID = Some (sub_ID s), pay_RefundedPaymentID = None, pay_Processor = ProcessorNMI,
     pay_ProcessorProvider = (if provider \<noteq> '''' then Some provider else None), pay_TransactionID = txn,
     pay_Amount = fst ac, pay_Currency = snd ac, pay_PurchasedAt = now1, pay_CreatedAt = now2\<rparr>"

text \<open>The amount: the price of the subscription, else the one looked up, else nothing.\<close>

definition dunning_amount :: "subscription \<Rightarrow> (world, float64 \<times> string) state" where
  "dunning_amount s = (case sub_Price s of
     Some p \<Rightarrow> State_Monad.return (price_Amount p, price_Currency p)
   | None \<Rightarrow> do {
       r \<leftarrow> Price_GetByID Pool (sub_PriceID s);
       State_Monad.return (case r of Inr p \<Rightarrow> (price_Amount p, price_Currency p) | Inl _ \<Rightarrow> (0, ''USD''))
     })"

text \<open>A rebill that succeeded: the errors of the renewal and of the payment record are logged only.\<close>

definition settle_rebill :: "string \<Rightarrow> subscription \<Rightarrow> string \<Rightarrow> unit go" where
  "settle_rebill provider s txn = do {
     r \<leftarrow> RenewMembership False \<lparr>rp_Processor = ProcessorNMI, rp_ProcessorSubscriptionID = sub_ProcessorSubscriptionID s,
            rp_ProcessorProvider = provider\<rparr>;
     (case r of
        Inl e \<Rightarrow> if is_panic e then throw e else ok ()
      | Inr _ \<Rightarrow> do {
          ac \<leftarrow> dunning_amount s;
          i \<leftarrow> new_uuid;
          now1 \<leftarrow> now_m;
          now2 \<leftarrow> now_m;
          PayStore_Create Pool (dunning_payment provider s txn ac i now1 now2);
          ok ()
        })
   }"

definition attempt_rebill :: "nmi_client \<Rightarrow> string \<Rightarrow> subscription \<Rightarrow> string \<Rightarrow> string \<Rightarrow> unit go" where
  "attempt_rebill client provider s vault billing = do {
     (resp, err) \<leftarrow> AttemptManualRebill client \<lparr>rb_VaultID = vault, rb_BillingID = billing,
        rb_SubscriptionID = sub_ProcessorSubscriptionID s\<rparr>;
     (case err of
        Some e \<Rightarrow> fail_attempt provider s (''manual rebill request failed: '' @ err_text e)
      | None \<Rightarrow>
          if \<not> rr_Success resp
          then fail_attempt provider s (if rr_ErrorMessage resp \<noteq> '''' then rr_ErrorMessage resp else ''rebill declined'')
          else settle_rebill provider s (rr_TransactionID resp))
   }"

text \<open>The attempt on a subscription that has been loaded with its price and its payment method.\<close>

definition dunning_attempt :: "nmi_clients \<Rightarrow> subscription \<Rightarrow> unit go" where
  "dunning_attempt cs s =
     (if sub_Processor s \<noteq> ProcessorNMI then ok ()
      else (let provider = resolveSubscriptionProvider s in
        (case map_of cs provider of
           None \<Rightarrow> ok ()
         | Some client \<Rightarrow> (case usable_method s of
             None \<Rightarrow> fail_attempt provider s ''payment method unavailable for rebill''
           | Some (vault, billing) \<Rightarrow> attempt_rebill client provider s vault billing))))"

text \<open>
  The job. \<open>clients\<close> is \<open>None\<close> for a nil map. The query that loads the subscription joins the two tables and has the
  condition \<open>id = ?\<close>, so PostgreSQL refuses it and the attempt is never reached.
\<close>

definition DunningAttemptWorker_Work :: "nmi_clients option \<Rightarrow> uuid \<Rightarrow> unit go" where
  "DunningAttemptWorker_Work clients i = (case clients of
     None \<Rightarrow> ok ()
   | Some cs \<Rightarrow> do {
       r \<leftarrow> db_refused Pool (ambiguous ''id'');
       (case r of Inl e \<Rightarrow> throw (wrap_err ''load subscription'' e) | Inr s \<Rightarrow> dunning_attempt cs s)
     })"

section \<open>DunningSweepWorker\<close>

definition retry_due :: "time \<Rightarrow> subscription \<Rightarrow> bool" where
  "retry_due now s \<longleftrightarrow> sub_Processor s = ProcessorNMI \<and> sub_Status s = StatusPastDue \<and>
     (case sub_NextRetryAt s of None \<Rightarrow> False | Some x \<Rightarrow> x \<le> now)"

definition DunningSweepWorker_Work :: "(uuid \<Rightarrow> string option) option \<Rightarrow> uuid list go" where
  "DunningSweepWorker_Work inserter = (case inserter of
     None \<Rightarrow> throw (ErrNew ''job inserter is required'')
   | Some insert_err \<Rightarrow> do {
       r \<leftarrow> db_query Pool (\<lambda>now t. Inr (map sub_ID (filter (retry_due now) (t_subs t))));
       (case r of
          Inl e \<Rightarrow> throw (wrap_err ''query due subscriptions'' e)
        | Inr ids \<Rightarrow> ok (filter (\<lambda>i. insert_err i = None) ids))
     })"

end
