(* ===== verification/Gateway_Laws.thy ===== *)
theory Gateway_Laws
  imports Method_API Dunning Webhook_Laws
begin

text \<open>
  What an operation posts to the gateway: \<open>sends P m\<close> says that every form it posts satisfies \<open>P\<close>, under any
  schedule of faults and whatever the gateway answers. The rules execute an operation like those of \<open>keeps\<close>.
\<close>

section \<open>The forms that an operation posts\<close>

definition posted :: "(form \<Rightarrow> bool) \<Rightarrow> world \<Rightarrow> world \<Rightarrow> bool" where
  "posted P w w' \<longleftrightarrow> (\<exists>fs. w_sent w' = w_sent w @ fs \<and> (\<forall>f \<in> set fs. P (snd f)))"

definition sends :: "(form \<Rightarrow> bool) \<Rightarrow> (world, 'a) state \<Rightarrow> bool" where
  "sends P m \<longleftrightarrow> (\<forall>w. wp m (\<lambda>_. posted P w) w)"

abbreviation silent :: "(world, 'a) state \<Rightarrow> bool" where
  "silent \<equiv> sends (\<lambda>_. False)"

named_theorems sends_intros \<open>operations that post only forms of a kind\<close>

lemma posted_same: "w_sent w' = w_sent w \<Longrightarrow> posted P w w'"
  by (simp add: posted_def)

lemma posted_trans: "posted P w w' \<Longrightarrow> posted P w' w'' \<Longrightarrow> posted P w w''"
  unfolding posted_def by (elim exE conjE) (rule exI[of _ "_ @ _"], auto)

lemma posted_none: "posted (\<lambda>_. False) w w' \<longleftrightarrow> w_sent w' = w_sent w"
proof
  assume "posted (\<lambda>_. False) w w'"
  then obtain fs where "w_sent w' = w_sent w @ fs" "\<forall>f \<in> set fs. False"
    by (auto simp: posted_def)
  moreover from this(2) have "fs = []"
    by (metis list.set_intros(1) neq_Nil_conv)
  ultimately show "w_sent w' = w_sent w"
    by simp
qed (simp add: posted_same)

lemma posted_tx [simp]:
  "posted P (tx_open w) = posted P w" "posted P w (tx_close w') = posted P w w'" "posted P w (tx_commit w') = posted P w w'"
  "posted P w (tick w') = posted P w w'"
  by (simp_all add: posted_def fun_eq_iff)

lemma silent_run: "silent m \<Longrightarrow> run_state m w = (x, w') \<Longrightarrow> w_sent w' = w_sent w"
  unfolding sends_def posted_none by (drule spec) (erule wp_run)

lemma sends_bind [sends_intros]: "sends P m \<Longrightarrow> (\<And>x. sends P (f x)) \<Longrightarrow> sends P (State_Monad.bind m f)"
  unfolding sends_def wp_bind by (blast intro: wp_mono posted_trans)

lemma sends_basic [sends_intros]:
  "sends P (State_Monad.return x)" "sends P (ok y)" "sends P (throw e)" "sends P now_m" "sends P new_uuid"
  "sends P (log_event b)" "sends P (deliver_mail n)"
  by (simp_all add: sends_def wp_simps posted_same)

lemma sends_statement [sends_intros]: "sends P (db_query h f)" "sends P (db_exec h g)"
  by (auto simp: sends_def wp_simps posted_same split: option.split sum.split)

lemma sends_if [sends_intros]: "(c \<Longrightarrow> sends P m) \<Longrightarrow> (\<not> c \<Longrightarrow> sends P n) \<Longrightarrow> sends P (if c then m else n)"
  by simp

lemma sends_Let [sends_intros]: "sends P (f x) \<Longrightarrow> sends P (Let x f)"
  by simp

lemma sends_case_option [sends_intros]:
  "(x = None \<Longrightarrow> sends P m) \<Longrightarrow> (\<And>y. x = Some y \<Longrightarrow> sends P (f y)) \<Longrightarrow> sends P (case x of None \<Rightarrow> m | Some y \<Rightarrow> f y)"
  by (simp split: option.split)

lemma sends_case_sum [sends_intros]:
  "(\<And>e. x = Inl e \<Longrightarrow> sends P (f e)) \<Longrightarrow> (\<And>y. x = Inr y \<Longrightarrow> sends P (g y)) \<Longrightarrow> sends P (case x of Inl e \<Rightarrow> f e | Inr y \<Rightarrow> g y)"
  by (simp split: sum.split)

lemma sends_case_prod [sends_intros]:
  "(\<And>u v. x = (u, v) \<Longrightarrow> sends P (f u v)) \<Longrightarrow> sends P (case x of (u, v) \<Rightarrow> f u v)"
  by (simp split: prod.split)

lemma sends_for_all_do [sends_intros]: "(\<And>x. sends P (f x)) \<Longrightarrow> sends P (for_all_do xs f)"
  by (induction xs) (auto intro!: sends_intros)

lemma sends_run_in_tx [sends_intros]:
  assumes "sends P m"
  shows "sends P (run_in_tx m)"
  unfolding sends_def wp_run_in_tx
proof
  fix w
  have "wp m (\<lambda>_. posted P w) (tx_open w)"
    using assms[unfolded sends_def, rule_format, of "tx_open w"] by simp
  then show "case db_fault Pool w of Some e \<Rightarrow> posted P w (tick w)
      | None \<Rightarrow> wp m (\<lambda>r w'. case r of Inl e \<Rightarrow> posted P w (tx_close w')
        | Inr x \<Rightarrow> (case env_fault (w_env w') (w_pc w') of Some msg \<Rightarrow> posted P w (tx_close (tick w'))
          | None \<Rightarrow> if w_aborted w' then (case env_commit_aborted (w_env w') of Some msg \<Rightarrow> posted P w (tx_close (tick w'))
                | None \<Rightarrow> posted P w (tx_close (tick w')))
              else posted P w (tx_commit (tick w')))) (tx_open w)"
    by (auto simp: posted_same elim: wp_mono split: option.split sum.split)
qed

lemma sends_post_form: "P f \<Longrightarrow> sends P (post_form sendErr readErr url f)"
  by (simp add: sends_def posted_def wp_post_form)

lemma sends_direct: "P f \<Longrightarrow> sends P (sendDirectRequest c f)"
  unfolding sendDirectRequest_def by (rule sends_post_form)

section \<open>The operations on the database post nothing\<close>

lemma silent_statements [sends_intros]:
  "sends P (SubRepo_GetByProcessorSubscriptionID h a b c)" "sends P (SubRepo_Update h s)" "sends P (SubRepo_GetPaginatedByUserID h u i j)"
  "sends P (Price_GetByID h k)" "sends P (NQRepo_Create h n)" "sends P (PayStore_Create h p)"
  "sends P (PMRepo_Create h m)" "sends P (PMService_Update m)" "sends P (PMService_ActivateByID k)" "sends P (PMService_Delete k)"
  "sends P (PMService_GetByID k)" "sends P (PMRepo_DeactivateByUserID h u)"
  unfolding SubRepo_GetByProcessorSubscriptionID_def SubRepo_Update_def SubRepo_GetPaginatedByUserID_def Price_GetByID_def NQRepo_Create_def
    PayStore_Create_def PMRepo_Create_def PMService_Update_def PMService_ActivateByID_def PMService_Delete_def PMService_GetByID_def
    PMRepo_DeactivateByUserID_def pm_service_def PMRepo_Update_def PMRepo_ActivateByID_def PMRepo_Delete_def PMRepo_GetByID_def pm_exec_def Let_def
  by (intro sends_intros)+

lemma silent_ValidatePaymentMethodOperation [sends_intros]: "sends P (ValidatePaymentMethodOperation i u)"
  unfolding ValidatePaymentMethodOperation_def ValidateOwnership_def PMRepo_ExistsForUser_def by (intro sends_intros)

lemma sends_tx_then_dispatch: "sends P m \<Longrightarrow> sends P (tx_then_dispatch nsvc m)"
  unfolding tx_then_dispatch_def dispatchNotifications_def by (intro sends_intros)

lemma silent_FailMembership [sends_intros]: "sends P (FailMembership nsvc p)"
  unfolding FailMembership_def fail_tx_def end_entitlements_def EntRepo_EndActiveBySubscription_def queue_notification_def Let_def
  by (intro sends_tx_then_dispatch sends_intros)

lemma silent_RenewMembership [sends_intros]: "sends P (RenewMembership nsvc p)"
  unfolding RenewMembership_def renew_tx_def queue_notification_def Let_def
  by (intro sends_tx_then_dispatch sends_intros)

lemma silent_settle [sends_intros]: "sends P (fail_attempt v s reason)" "sends P (settle_rebill v s txn)"
  unfolding fail_attempt_def settle_rebill_def dunning_amount_def by (intro sends_intros)+

end
