(* ===== verification/Dunning_Props.thy ===== *)
theory Dunning_Props
  imports Gateway_Laws Lifecycle_Props
begin

text \<open>
  The handlers of the payment methods, the customer vaults behind them and the dunning jobs as one system:
  which methods a rebill can charge, and what a dunning attempt leaves.
\<close>

section \<open>Methods without a billing identifier\<close>

definition unbilled :: "tables \<Rightarrow> bool" where
  "unbilled t \<longleftrightarrow> (\<forall>m \<in> set (t_pms t). pm_BillingID m = None)"

lemma unbilled_simps [simp]:
  "unbilled (put_sub s t) = unbilled t" "unbilled (add_sub s t) = unbilled t" "unbilled (add_ent e t) = unbilled t"
  "unbilled (end_ents src i tm now r t) = unbilled t" "unbilled (add_nq n t) = unbilled t"
  by (simp_all add: unbilled_def put_sub_def add_sub_def add_ent_def end_ents_def add_nq_def)

interpretation unbilled_tables: table_inv unbilled
  by unfold_locales simp_all

lemma pm_by_id_unbilled: "unbilled t \<Longrightarrow> pm_by_id t i = Some m \<Longrightarrow> pm_BillingID m = None"
  unfolding pm_by_id_def unbilled_def by (auto dest: find_Some_in)

lemma unusable_method: "unbilled t \<Longrightarrow> usable_method (with_details t s) = None"
  unfolding usable_method_def with_details_def unbilled_def
  by (auto split: option.split dest: find_Some_in)

lemma keeps_pm_exec: "(\<And>t. unbilled t \<Longrightarrow> unbilled (u t)) \<Longrightarrow> keeps False unbilled (pm_exec Pool P u)"
  unfolding pm_exec_def by (intro keeps_intros keeps_exec) (auto split: if_splits)

lemma unbilled_upd: "unbilled t \<Longrightarrow> (\<And>m. pm_BillingID m = None \<Longrightarrow> pm_BillingID (f m) = None) \<Longrightarrow> unbilled (upd_pms P f t)"
  by (auto simp: unbilled_def upd_pms_def set_update_where)

lemma keeps_unbilled [keeps_intros]:
  "keeps False unbilled (PMService_ActivateByID i)" "keeps False unbilled (PMService_Delete i)"
  unfolding PMService_ActivateByID_def PMService_Delete_def pm_service_def PMRepo_ActivateByID_def PMRepo_Delete_def
  by (intro keeps_intros keeps_pm_exec unbilled_upd; simp add: unbilled_def del_pm_def)+

lemma keeps_unbilled_row:
  assumes "pm_BillingID m = None"
  shows "keeps False unbilled (PMService_Update m)" "keeps False unbilled (PMRepo_Create Pool m)"
proof -
  show "keeps False unbilled (PMService_Update m)"
    unfolding PMService_Update_def pm_service_def PMRepo_Update_def
    by (intro keeps_intros keeps_pm_exec unbilled_upd) (simp_all add: assms)
  show "keeps False unbilled (PMRepo_Create Pool m)"
    unfolding PMRepo_Create_def
    by (intro keeps_intros keeps_exec) (auto simp: unbilled_def add_pm_def stored_pm_def assms split: if_splits)
qed

lemma keeps_CreateVault [keeps_intros]: "keeps False unbilled (CreateVault cs u req)"
  unfolding CreateVault_def Let_def by (intro keeps_intros keeps_unbilled_row) (simp add: new_vault_method_def)

lemma keeps_UpdateVault: "pm_BillingID m = None \<Longrightarrow> keeps False unbilled (UpdateVault cs m req)"
  unfolding UpdateVault_def Let_def by (intro keeps_intros keeps_unbilled_row) (simp add: updated_vault_method_def)

text \<open>The handlers act on a row of the table.\<close>

lemma wp_owned_method:
  assumes "sane False unbilled d w" "\<And>m. pm_BillingID m = None \<Longrightarrow> keeps False unbilled (f m)"
  shows "wp (owned_method i u f) (\<lambda>_. sane False unbilled d) w"
proof -
  have q: "unbilled (w_db w)"
    using assms(1) by (simp add: sane_def)
  have f: "wp (f m) (\<lambda>_. sane False unbilled d) w1" if "pm_by_id (w_db w) i = Some m" "sane False unbilled d w1" for m w1
    using assms(2)[OF pm_by_id_unbilled[OF q that(1)]] that(2) by (rule keepsD)
  have "wp (ValidatePaymentMethodOperation i (ui_ID u))
      (\<lambda>r w'. sane False unbilled d w' \<and> (\<forall>m. r = Inr m \<longrightarrow> pm_by_id (w_db w) i = Some m)) w"
    using assms(1)
    by (simp add: ValidatePaymentMethodOperation_def ValidateOwnership_def PMRepo_ExistsForUser_def PMService_GetByID_def pm_service_def
        PMRepo_GetByID_def wp_simps split: option.split sum.split)
  then show ?thesis
    unfolding owned_method_def wp_bind
    by (rule wp_mono) (auto simp: refuse_def wp_simps f split: sum.split)
qed

lemma keeps_owned_method:
  "(\<And>m. pm_BillingID m = None \<Longrightarrow> keeps False unbilled (f m)) \<Longrightarrow> keeps False unbilled (owned_method i u f)"
  unfolding keeps_def[of False unbilled "owned_method i u f"] by (blast intro: wp_owned_method)

lemma keeps_method_handlers:
  "keeps False unbilled (CreatePaymentMethod clients user body)" "keeps False unbilled (UpdatePaymentMethod clients user path body')"
  "keeps False unbilled (DeletePaymentMethod user path)" "keeps False unbilled (ActivatePaymentMethod user path)"
  unfolding CreatePaymentMethod_def UpdatePaymentMethod_def DeletePaymentMethod_def ActivatePaymentMethod_def Let_def
  by (intro keeps_intros keeps_owned_method keeps_UpdateVault; assumption?)+

section \<open>Rebills\<close>

definition is_rebill :: "form \<Rightarrow> bool" where
  "is_rebill f \<longleftrightarrow> map_of f ''recurring'' = Some ''rebill_subscription''"

lemma map_of_opt_field: "map_of (opt_field k v) j = (if v \<noteq> '''' \<and> j = k then Some v else None)"
  by (simp add: opt_field_def)

lemma vault_forms_no_rebill [simp]:
  "\<not> is_rebill (create_vault_form c d)" "\<not> is_rebill (update_vault_form c i d)"
  "\<not> is_rebill ([(''customer_vault'', ''delete_customer''), (''security_key'', k), (''customer_vault_id'', i)] @ test_mode c)"
  by (simp_all add: is_rebill_def create_vault_form_def update_vault_form_def vault_person_def test_mode_def map_of_opt_field map_add_def)

abbreviation no_rebill :: "(world, 'a) state \<Rightarrow> bool" where
  "no_rebill \<equiv> sends (\<lambda>f. \<not> is_rebill f)"

lemma no_rebill_vault [sends_intros]:
  "no_rebill (CreateCustomerVault c d)" "no_rebill (UpdateCustomerVault c i d)" "no_rebill (DeleteCustomerVault c i)"
  unfolding CreateCustomerVault_def UpdateCustomerVault_def DeleteCustomerVault_def simple_request_def done_m_def Let_def
  by (intro sends_intros sends_direct; (rule vault_forms_no_rebill)?)+

lemma sends_handlers [sends_intros]:
  "sends P (refuse c m)" "sends P (reply x)"
  "(\<And>y. z = Inr y \<Longrightarrow> sends P (f y)) \<Longrightarrow> sends P (bound z f)"
  "(\<And>u. user = Some u \<Longrightarrow> sends P (g u)) \<Longrightarrow> sends P (with_user user g)"
  "(\<And>k. i = Some k \<Longrightarrow> sends P (g' k)) \<Longrightarrow> sends P (parsed_id i g')"
  "(\<And>m. sends P (h m)) \<Longrightarrow> sends P (owned_method j u h)"
  unfolding refuse_def reply_def bound_def with_user_def parsed_id_def owned_method_def
  by (auto intro!: sends_intros split: sum.split option.split)

lemma no_rebill_handlers:
  "no_rebill (CreatePaymentMethod clients user body)" "no_rebill (UpdatePaymentMethod clients user path body')"
  "no_rebill (DeletePaymentMethod user path)" "no_rebill (ActivatePaymentMethod user path)"
  unfolding CreatePaymentMethod_def UpdatePaymentMethod_def DeletePaymentMethod_def ActivatePaymentMethod_def
    CreateVault_def UpdateVault_def Let_def
  by (intro sends_intros)+

section \<open>A dunning attempt\<close>

lemma wp_dunning_attempt:
  assumes "sub_Processor s = ProcessorNMI" "map_of cs (resolveSubscriptionProvider s) = Some c"
  shows "wp (dunning_attempt cs s) Q w = wp (case usable_method s of
      None \<Rightarrow> fail_attempt (resolveSubscriptionProvider s) s ''payment method unavailable for rebill''
    | Some (vault, billing) \<Rightarrow> attempt_rebill c (resolveSubscriptionProvider s) s vault billing) Q w"
  using assms by (simp add: dunning_attempt_def Let_def)

lemma attempt_unbilled:
  assumes "sane False unbilled d w" "usable_method s = None"
  shows "wp (dunning_attempt cs s) (\<lambda>_ w'. sane False unbilled d w' \<and> w_sent w' = w_sent w) w"
proof -
  have "wp (fail_attempt v s m) (\<lambda>_ w'. sane False unbilled d w' \<and> w_sent w' = w_sent w) w" for v m
  proof (rule wp_conj)
    have "keeps False unbilled (fail_attempt v s m)"
      unfolding fail_attempt_def by (intro keeps_intros unbilled_tables.keeps_FailMembership)
    then show "wp (fail_attempt v s m) (\<lambda>_. sane False unbilled d) w"
      by (rule keepsD) (simp add: assms)
    show "wp (fail_attempt v s m) (\<lambda>_ w'. w_sent w' = w_sent w) w"
      using silent_settle(1)[of "\<lambda>_. False" v s m] unfolding sends_def posted_none by metis
  qed
  then show ?thesis
    using assms by (auto simp: dunning_attempt_def Let_def wp_simps split: option.split)
qed

text \<open>
  An attempt on a stored subscription: it is read with its relations, as the job means to read it, and the attempt
  follows. The job itself gets no further than its refused query.
\<close>

definition attempt_stored :: "nmi_clients option \<Rightarrow> uuid \<Rightarrow> unit go" where
  "attempt_stored clients i = (case clients of
     None \<Rightarrow> ok ()
   | Some cs \<Rightarrow> do {
       r \<leftarrow> db_query Pool (\<lambda>now t. scan_row (map_option (with_details t) (sub_by_id t i)));
       (case r of Inl e \<Rightarrow> throw e | Inr s \<Rightarrow> dunning_attempt cs s)
     })"

lemma attempt_stored_unbilled:
  assumes "sane False unbilled d w"
  shows "wp (attempt_stored clients i) (\<lambda>_ w'. sane False unbilled d w' \<and> w_sent w' = w_sent w) w"
proof -
  have u: "unbilled (w_db w)"
    using assms by (simp add: sane_def)
  have "wp (dunning_attempt cs (with_details (w_db w) s)) (\<lambda>_ w'. sane False unbilled d w' \<and> w_sent w' = w_sent w) (tick w)" for cs s
    using attempt_unbilled[of d "tick w", OF _ unusable_method[OF u]] assms by simp
  then show ?thesis
    using assms by (cases "sub_by_id (w_db w) i") (auto simp: attempt_stored_def scan_row_def wp_simps split: option.split)
qed

lemma job_unbilled:
  assumes "sane False unbilled d w"
  shows "wp (DunningAttemptWorker_Work clients i) (\<lambda>_ w'. sane False unbilled d w' \<and> w_sent w' = w_sent w) w"
  using assms by (auto simp: DunningAttemptWorker_Work_def wp_simps split: option.split)

section \<open>No stored method is ever charged\<close>

text \<open>The calls of the interface, the dunning jobs and the attempts on a stored subscription, in any order and under any schedule of faults.\<close>

datatype method_call =
    CallCreateMethod "user_identity option" "string + create_vault_request"
  | CallUpdateMethod "user_identity option" "string + uuid option" "string + update_vault_request"
  | CallDeleteMethod "user_identity option" "string + uuid option"
  | CallActivateMethod "user_identity option" "string + uuid option"
  | CallDunning uuid
  | CallAttempt uuid

definition completed :: "(world, 'a) state \<Rightarrow> (world, unit) state" where
  "completed m = do { m; State_Monad.return () }"

fun run_method_call :: "nmi_clients option \<Rightarrow> method_call \<Rightarrow> (world, unit) state" where
  "run_method_call cs (CallCreateMethod u b) = completed (CreatePaymentMethod cs u b)"
| "run_method_call cs (CallUpdateMethod u p b) = completed (UpdatePaymentMethod cs u p b)"
| "run_method_call cs (CallDeleteMethod u p) = completed (DeletePaymentMethod u p)"
| "run_method_call cs (CallActivateMethod u p) = completed (ActivatePaymentMethod u p)"
| "run_method_call cs (CallDunning i) = completed (DunningAttemptWorker_Work cs i)"
| "run_method_call cs (CallAttempt i) = completed (attempt_stored cs i)"

inductive method_traffic :: "nmi_clients option \<Rightarrow> world \<Rightarrow> world \<Rightarrow> bool" for cs where
  method_none: "method_traffic cs w w"
| method_step: "method_traffic cs w w' \<Longrightarrow> run_state (run_method_call cs c) w' = (x, w'') \<Longrightarrow> method_traffic cs w w''"

lemma wp_completed: "wp (completed m) Q w = wp m (\<lambda>_. Q ()) w"
  by (simp add: completed_def wp_def split: prod.split)

lemma method_call_step:
  assumes "sane False unbilled d w"
  shows "wp (run_method_call cs c) (\<lambda>_ w'. sane False unbilled d w' \<and> posted (\<lambda>f. \<not> is_rebill f) w w') w"
proof (cases c)
  case (CallDunning i)
  show ?thesis
    unfolding CallDunning run_method_call.simps wp_completed
    by (rule wp_mono[OF job_unbilled[OF assms]]) (simp add: posted_same)
next
  case (CallAttempt i)
  show ?thesis
    unfolding CallAttempt run_method_call.simps wp_completed
    by (rule wp_mono[OF attempt_stored_unbilled[OF assms]]) (simp add: posted_same)
qed (auto simp: wp_completed intro!: wp_conj keepsD[OF keeps_method_handlers(1) assms] keepsD[OF keeps_method_handlers(2) assms]
    keepsD[OF keeps_method_handlers(3) assms] keepsD[OF keeps_method_handlers(4) assms] no_rebill_handlers[unfolded sends_def, rule_format])

text \<open>
  C15. A payment method that the interface stored is never charged by dunning: from a database whose methods
  carry no billing identifier, whatever sequence of creations, updates, deletions and activations of payment
  methods, of dunning jobs and of the attempts they mean to make runs, and whatever fails, no rebill is ever posted to the gateway, and the
  methods still carry none.
\<close>

theorem stored_methods_never_charged:
  assumes "unbilled (w_db w)" "w_tx w = None" "method_traffic cs w w'"
  shows "posted (\<lambda>f. \<not> is_rebill f) w w' \<and> unbilled (w_db w')"
proof -
  have "posted (\<lambda>f. \<not> is_rebill f) w w' \<and> sane False unbilled d w'" if "sane False unbilled d w" for d
    using assms(3) that
  proof induction
    case (method_step w w' c x w'')
    then show ?case
      using wp_run[OF method_call_step method_step.hyps(2)] posted_trans by blast
  qed (simp add: posted_same)
  then show ?thesis
    using assms(1,2) by (simp add: sane_def)
qed

section \<open>Dunning of a subscription that cannot be charged\<close>

lemma normalizeProvider_idem: "normalizeProvider (Some (normalizeProvider v)) = normalizeProvider v"
  by (simp add: normalizeProvider_def trim_lower split: option.split)

lemma mobius_normal: "normalizeProvider (Some ''mobius'') = ''mobius''"
  by code_simp

lemma normalizeProvider_fix: "normalizeProvider v = x \<Longrightarrow> normalizeProvider (Some x) = x"
  using normalizeProvider_idem by blast

lemma resolved_normal: "normalizeProvider (Some (resolveSubscriptionProvider s)) = resolveSubscriptionProvider s"
  by (auto simp: resolveSubscriptionProvider_def normalizeProvider_idem mobius_normal intro: normalizeProvider_fix split: list.split option.split)

lemma resolved_provider: "op_provider ProcessorNMI (resolveSubscriptionProvider s) = resolveSubscriptionProvider s \<and> resolveSubscriptionProvider s \<noteq> ''''"
proof -
  have ne: "resolveSubscriptionProvider s \<noteq> ''''"
    by (auto simp: resolveSubscriptionProvider_def split: list.split)
  with resolved_normal[of s] show ?thesis
    by (simp add: op_provider_def norm_provider_def normalizeProvider_def Let_def)
qed

lemma resolve_stored:
  assumes "sub_ProcessorProvider s' = Some (resolveSubscriptionProvider s)"
  shows "resolveSubscriptionProvider (with_details t s') = resolveSubscriptionProvider s"
  using resolved_normal[of s] resolved_provider[of s] assms
  unfolding resolveSubscriptionProvider_def[of "with_details t s'"] by (simp add: with_details_def)

section \<open>A rebill\<close>

definition rebill_of :: "string \<Rightarrow> string \<Rightarrow> subscription \<Rightarrow> rebill_params" where
  "rebill_of vault billing s = \<lparr>rb_VaultID = vault, rb_BillingID = billing, rb_SubscriptionID = sub_ProcessorSubscriptionID s\<rparr>"

text \<open>What the gateway answers to a rebill posted now.\<close>

definition gateway_says :: "nmi_client \<Rightarrow> rebill_params \<Rightarrow> world \<Rightarrow> rebill_response \<times> go_err option" where
  "gateway_says c p w = (case answer ''failed to send request'' ''failed to read response''
       (env_http (w_env w) (w_pc w) (nc_DirectPostURL c) (rebill_form c p)) of
     Inl e \<Rightarrow> (rebill_failed (''request failed: '' @ err_text e), Some e) | Inr response \<Rightarrow> rebill_answer response)"

definition approved :: "string \<Rightarrow> rebill_response \<times> go_err option" where
  "approved txn = (\<lparr>rr_Success = True, rr_TransactionID = txn, rr_ErrorMessage = ''''\<rparr>, None)"

lemma wp_AttemptManualRebill:
  assumes "nc_SecurityKey c \<noteq> ''''" "rb_VaultID p \<noteq> ''''" "rb_BillingID p \<noteq> ''''" "rb_SubscriptionID p \<noteq> ''''"
  shows "wp (AttemptManualRebill c p) Q w = Q (gateway_says c p w) (sent (nc_DirectPostURL c) (rebill_form c p) w)"
  using assms by (simp add: AttemptManualRebill_def checkConfiguration_def sendDirectRequest_def wp_bind wp_post_form gateway_says_def wp_return)

text \<open>A subscription that can be charged: its method, its client, and nothing that stops the renewal.\<close>

definition chargeable :: "tables \<Rightarrow> nmi_clients \<Rightarrow> nmi_client \<Rightarrow> rebill_params \<Rightarrow> uuid \<Rightarrow> subscription \<Rightarrow> bool" where
  "chargeable t cs c p i s \<longleftrightarrow> sub_by_id t i = Some s \<and> sub_Processor s = ProcessorNMI \<and> sub_ProcessorSubscriptionID s \<noteq> '''' \<and>
     (let v = resolveSubscriptionProvider (with_details t s)
      in map_of cs v = Some c \<and> sub_by_psid t ''nmi'' v (sub_ProcessorSubscriptionID s) = Some s) \<and>
     nc_SecurityKey c \<noteq> '''' \<and> usable_method (with_details t s) = Some (rb_VaultID p, rb_BillingID p) \<and>
     p = rebill_of (rb_VaultID p) (rb_BillingID p) s"

lemma usable_methodD: "usable_method s = Some (v, b) \<Longrightarrow> v \<noteq> '''' \<and> b \<noteq> ''''"
  by (auto simp: usable_method_def split: option.splits if_splits)

lemma wp_attempt_rebill:
  assumes "nc_SecurityKey c \<noteq> ''''" "rb_VaultID p \<noteq> ''''" "rb_BillingID p \<noteq> ''''" "rb_SubscriptionID p \<noteq> ''''"
    and "\<lparr>rb_VaultID = rb_VaultID p, rb_BillingID = rb_BillingID p, rb_SubscriptionID = sub_ProcessorSubscriptionID s\<rparr> = p"
    and "gateway_says c p w = approved txn"
  shows "wp (attempt_rebill c v s (rb_VaultID p) (rb_BillingID p)) Q w =
    wp (settle_rebill v s txn) Q (sent (nc_DirectPostURL c) (rebill_form c p) w)"
  unfolding attempt_rebill_def wp_bind assms(5) wp_AttemptManualRebill[OF assms(1-4)] assms(6) approved_def prod.case by simp

lemma with_details_nmi: "sub_Processor (with_details t s) = sub_Processor s"
  by (simp add: with_details_def)

lemma charge_run:
  assumes "chargeable (w_db w) cs c p i s" "gateway_says c p w = approved txn"
  shows "wp (dunning_attempt cs (with_details (w_db w) s)) Q w =
    wp (settle_rebill (resolveSubscriptionProvider (with_details (w_db w) s)) (with_details (w_db w) s) txn) Q
      (sent (nc_DirectPostURL c) (rebill_form c p) w)"
proof -
  let ?s = "with_details (w_db w) s"
  have c: "sub_by_id (w_db w) i = Some s" "sub_Processor s = ProcessorNMI" "map_of cs (resolveSubscriptionProvider ?s) = Some c"
      "usable_method ?s = Some (rb_VaultID p, rb_BillingID p)" "nc_SecurityKey c \<noteq> ''''" "p = rebill_of (rb_VaultID p) (rb_BillingID p) s"
      "rb_SubscriptionID p \<noteq> ''''" "rb_VaultID p \<noteq> ''''" "rb_BillingID p \<noteq> ''''"
    using assms(1) usable_methodD[of ?s] by (auto simp: chargeable_def Let_def) (metis rebill_of_def rebill_params.select_convs(3))
  have p: "\<lparr>rb_VaultID = rb_VaultID p, rb_BillingID = rb_BillingID p, rb_SubscriptionID = sub_ProcessorSubscriptionID ?s\<rparr> = p"
    using c(6) by (simp add: rebill_of_def with_details_def)
  show ?thesis
    unfolding wp_dunning_attempt[of ?s, OF _ c(3), unfolded with_details_nmi, OF c(2)] c(4) option.case prod.case
    by (rule wp_attempt_rebill[OF c(5,8,9,7) p assms(2)])
qed

text \<open>
  A charge without a trace: when the gateway has approved the rebill of an attempt and the renewal then fails (any of
  its statements, or its commit), the attempt reports success, and the database is as if the charge had not happened:
  no payment is recorded and the subscription is as it was.
\<close>

theorem approved_rebill_lost:
  assumes "chargeable (w_db w) cs c p i s" "gateway_says c p w = approved txn" "w_tx w = None"
    and "rp = \<lparr>rp_Processor = ProcessorNMI, rp_ProcessorSubscriptionID = sub_ProcessorSubscriptionID s,
           rp_ProcessorProvider = resolveSubscriptionProvider (with_details (w_db w) s)\<rparr>"
    and "fst (run_state (RenewMembership False rp) (sent (nc_DirectPostURL c) (rebill_form c p) w)) = Inl e" "\<not> is_panic e"
    and "run_state (dunning_attempt cs (with_details (w_db w) s)) w = (r, w')"
  shows "r = Inr () \<and> w_db w' = w_db w \<and> w_sent w' = w_sent w @ [(nc_DirectPostURL c, rebill_form c p)] \<and> is_rebill (rebill_form c p)"
proof -
  let ?s = "with_details (w_db w) s" let ?w = "sent (nc_DirectPostURL c) (rebill_form c p) w"
  obtain w1 where R: "run_state (RenewMembership False rp) ?w = (Inl e, w1)"
    using assms(5) by (metis prod.collapse)
  have rp: "\<lparr>rp_Processor = ProcessorNMI, rp_ProcessorSubscriptionID = sub_ProcessorSubscriptionID ?s,
           rp_ProcessorProvider = resolveSubscriptionProvider ?s\<rparr> = rp"
    by (simp add: assms(4) with_details_def)
  have "wp (dunning_attempt cs (with_details (w_db w) s)) Q w = Q (Inr ()) w1" for Q
    using assms(6) unfolding charge_run[OF assms(1-2)] settle_rebill_def wp_bind rp wp_of_run[OF R] by (simp add: wp_simps)
  then have w': "r = Inr ()" "w' = w1"
    using assms(7) run_state_wp by (metis Pair_inject)+
  have "wp (RenewMembership False rp) (undone_on_error ?w) ?w"
    using assms(3) unfolding RenewMembership_def by (intro tx_then_dispatch_undone anything.keeps_renew_tx) simp
  then have "w_db w1 = w_db w"
    using wp_run[OF _ R] by (fastforce simp: undone_on_error_def)
  moreover have "w_sent w1 = w_sent w @ [(nc_DirectPostURL c, rebill_form c p)]"
    using silent_run[OF silent_RenewMembership R] by simp
  ultimately show ?thesis
    using w' by (simp add: is_rebill_def rebill_form_def)
qed

section \<open>A rebill that is approved\<close>

lemma renew_frame:
  assumes "good w" "v = op_provider (rp_Processor p) (rp_ProcessorProvider p)"
    and "sub_by_psid (w_db w) (processor_str (rp_Processor p)) v (rp_ProcessorSubscriptionID p) = Some s"
    and "price_by_id (w_db w) (sub_PriceID s) = Some pr" "price_BillingCycleDays pr = Some d" "\<not> other_active (w_db w) s"
    and "run_state (RenewMembership nsvc p) w = (r, w')"
  shows "w_env w' = w_env w \<and> w_pc w \<le> w_pc w' \<and> t_payments (w_db w') = t_payments (w_db w) \<and> t_pms (w_db w') = t_pms (w_db w) \<and>
    (\<exists>s'. sub_by_id (w_db w') (sub_ID s) = Some s' \<and> sub_Processor s' = sub_Processor s \<and> sub_UserID s' = sub_UserID s \<and>
      sub_ProcessorSubscriptionID s' = sub_ProcessorSubscriptionID s \<and> sub_PaymentMethodID s' = sub_PaymentMethodID s \<and>
      sub_ProcessorProvider s' = (if v \<noteq> '''' then Some v else sub_ProcessorProvider s))"
proof -
  define s1 where "s1 = (\<lambda>start. renewed_sub start d (set_provider v (with_details (w_db w) s)))"
  obtain start n where run: "ran w w' n" "w_db w' = add_nq n (put_sub (s1 start) (w_db w))"
    using runs[OF renew_run[OF assms(1,3,2,4,5,6)] assms(7)] unfolding s1_def by blast
  have "sub_by_id (w_db w') (sub_ID s) = Some (stored_sub (s1 start))"
    using sub_by_psid_exists[OF assms(3)] by (simp add: run(2) row_simps s1_def)
  moreover have "w_env w' = w_env w" "w_pc w \<le> w_pc w'"
    using run(1) by (auto simp: ran_def)
  moreover have "t_payments (w_db w') = t_payments (w_db w)" "t_pms (w_db w') = t_pms (w_db w)"
    by (simp_all add: run(2) put_sub_def add_nq_def)
  ultimately show ?thesis
    by (auto simp: s1_def stored_sub_def renewed_sub_def set_provider_def with_details_def)
qed

definition pay_ids_unused :: "world \<Rightarrow> bool" where
  "pay_ids_unused w \<longleftrightarrow> (\<forall>n \<ge> w_pc w. env_uuid (w_env w) n \<notin> pay_ID ` set (t_payments (w_db w)))"

definition charge_paid :: "subscription \<Rightarrow> price \<Rightarrow> string \<Rightarrow> payment \<Rightarrow> bool" where
  "charge_paid s pr txn p \<longleftrightarrow> pay_UserID p = sub_UserID s \<and> pay_PriceID p = sub_PriceID s \<and> pay_SubscriptionID p = Some (sub_ID s) \<and>
     pay_Processor p = ProcessorNMI \<and> pay_TransactionID p = txn \<and> pay_Amount p = price_Amount pr \<and> pay_RefundedPaymentID p = None \<and>
     pay_Currency p = (if price_Currency pr = '''' then ''USD'' else price_Currency pr)"

definition txn_unused :: "string \<Rightarrow> tables \<Rightarrow> bool" where
  "txn_unused txn t \<longleftrightarrow> (\<forall>q \<in> set (t_payments t). pay_Processor q = ProcessorNMI \<longrightarrow> pay_TransactionID q \<noteq> txn)"

text \<open>What is needed of the tables for the renewal and the record of the payment.\<close>

definition renewable :: "world \<Rightarrow> subscription \<Rightarrow> price \<Rightarrow> int \<Rightarrow> bool" where
  "renewable w s pr d \<longleftrightarrow> price_by_id (w_db w) (sub_PriceID s) = Some pr \<and> price_BillingCycleDays pr = Some d \<and>
     \<not> other_active (w_db w) s \<and> pay_ids_unused w"

definition renewed_by_charge :: "int \<Rightarrow> subscription \<Rightarrow> subscription \<Rightarrow> bool" where
  "renewed_by_charge d s s' \<longleftrightarrow> sub_ID s' = sub_ID s \<and> sub_UserID s' = sub_UserID s \<and> sub_PriceID s' = sub_PriceID s \<and>
     sub_Status s' = StatusActive \<and> sub_RetryAttempts s' = sub_RetryAttempts s \<and>
     (set_time (sub_CurrentPeriodEndsAt s) \<longrightarrow>
        sub_CurrentPeriodEndsAt s' = nz_time (Some (time_add (the (sub_CurrentPeriodEndsAt s)) (days_dur d))))"

lemma recorded:
  assumes g: "good w" and unused: "pay_ids_unused w" "txn_unused txn (w_db w)" and pr: "sub_Price s = Some pr"
  shows "wp (do { ac \<leftarrow> dunning_amount s; i \<leftarrow> new_uuid; now1 \<leftarrow> now_m; now2 \<leftarrow> now_m;
      PayStore_Create Pool (dunning_payment v s txn ac i now1 now2); ok () })
    (\<lambda>r w'. r = Inr () \<and> (\<exists>p. charge_paid s pr txn p \<and> w_db w' = add_payment p (w_db w) \<and> pay_ID p = env_uuid (w_env w) (w_pc w)) \<and>
       w_env w' = w_env w \<and> Suc (w_pc w) \<le> w_pc w' \<and> w_tx w' = None \<and> \<not> w_aborted w' \<and> w_sent w' = w_sent w) w"
proof -
  let ?p = "dunning_payment v s txn (price_Amount pr, price_Currency pr) (env_uuid (w_env w) (w_pc w))"
  have paid: "charge_paid s pr txn (stored_payment now (?p a b))" "pay_ID (stored_payment now (?p a b)) = env_uuid (w_env w) (w_pc w)" for now a b
    by (simp_all add: charge_paid_def dunning_payment_def stored_payment_def)
  have "pay_unique (t_payments (w_db w))"
    using goodD(3)[OF g] by (simp add: schema_ok_def)
  then have "pay_unique (t_payments (add_payment (stored_payment now (?p a b)) (w_db w)))" for now a b
    using unused paid[of now a b] by (auto simp: pay_unique_def add_payment_def pay_ids_unused_def txn_unused_def charge_paid_def)
  then show ?thesis
    using g goodD(1,2)[OF g] paid
    by (simp add: dunning_amount_def pr wp_simps wp_PayStore_Create) (rule exI, rule conjI, rule paid(1), simp)
qed

lemma good_after_payment:
  assumes "good w" "pay_ids_unused w" "w_db w' = add_payment p (w_db w)" "charge_paid s pr txn p" "txn_unused txn (w_db w)"
    and "pay_ID p = env_uuid (w_env w) (w_pc w)" "w_env w' = w_env w" "Suc (w_pc w) \<le> w_pc w'" "w_tx w' = None" "\<not> w_aborted w'"
  shows "good w' \<and> pay_ids_unused w'"
proof -
  have inj: "inj (env_uuid (w_env w))"
    using assms(1) by (simp add: good_def)
  have "env_uuid (w_env w) n \<noteq> pay_ID p" if "w_pc w' \<le> n" for n
    using injD[OF inj, of n "w_pc w"] assms(6,8) that by auto
  moreover have "env_uuid (w_env w) n \<notin> pay_ID ` set (t_payments (w_db w))" if "w_pc w' \<le> n" for n
    using assms(2,8) that by (simp add: pay_ids_unused_def)
  ultimately have "pay_ids_unused w'"
    unfolding pay_ids_unused_def assms(3,7) add_payment_def by auto
  moreover have "pay_unique (t_payments (w_db w'))"
    using assms(2-6) goodD(3)[OF assms(1)]
    by (auto simp: schema_ok_def pay_unique_def add_payment_def pay_ids_unused_def txn_unused_def charge_paid_def)
  ultimately show ?thesis
    using assms(1,8-10) unfolding good_def healthy_def schema_ok_def assms(3,7) by (simp add: add_payment_def used_ids_def)
qed

lemma charge_effect:
  assumes g: "good w" and c: "chargeable (w_db w) cs c p i s" "gateway_says c p w = approved txn"
    and r: "renewable w s pr d" "txn_unused txn (w_db w)"
  shows "wp (dunning_attempt cs (with_details (w_db w) s)) (\<lambda>r w'. r = Inr () \<and> good w' \<and> w_env w' = w_env w \<and>
    w_sent w' = w_sent w @ [(nc_DirectPostURL c, rebill_form c p)] \<and>
    (\<exists>s' pay. renewed_by_charge d s s' \<and> charge_paid s pr txn pay \<and> t_payments (w_db w') = t_payments (w_db w) @ [pay] \<and>
       chargeable (w_db w') cs c p i s' \<and> renewable w' s' pr d)) w"
proof -
  let ?s = "with_details (w_db w) s" let ?v = "resolveSubscriptionProvider ?s"
  let ?w = "sent (nc_DirectPostURL c) (rebill_form c p) w"
  define rp where "rp = \<lparr>rp_Processor = ProcessorNMI, rp_ProcessorSubscriptionID = sub_ProcessorSubscriptionID s, rp_ProcessorProvider = ?v\<rparr>"
  have s: "sub_by_id (w_db w) i = Some s" "sub_ID s = i" "sub_Processor s = ProcessorNMI" "map_of cs ?v = Some c"
      "sub_by_psid (w_db w) ''nmi'' ?v (sub_ProcessorSubscriptionID s) = Some s" "sub_ProcessorSubscriptionID s \<noteq> ''''"
      "nc_SecurityKey c \<noteq> ''''" "usable_method ?s = Some (rb_VaultID p, rb_BillingID p)" "p = rebill_of (rb_VaultID p) (rb_BillingID p) s"
    using c(1) by (auto simp: chargeable_def Let_def sub_by_id_def dest: find_Some_in)
  note pr = r(1)[unfolded renewable_def]
  have look: "sub_by_psid (w_db ?w) (processor_str (rp_Processor rp)) ?v (rp_ProcessorSubscriptionID rp) = Some s"
      "?v = op_provider (rp_Processor rp) (rp_ProcessorProvider rp)" and ne: "?v \<noteq> ''''"
    using s(5) resolved_provider[of ?s] by (simp_all add: rp_def)
  have gw: "good ?w"
    using g by (simp add: good_def)
  obtain r1 w1 where R: "run_state (RenewMembership False rp) ?w = (r1, w1)"
    by fastforce
  have p1: "price_by_id (w_db ?w) (sub_PriceID s) = Some pr" "price_BillingCycleDays pr = Some d" "\<not> other_active (w_db ?w) s"
    using pr by simp_all
  note T = renew_then[OF gw look(2,1) p1 R] and F = renew_frame[OF gw look(2,1) p1 R]
  obtain s' where s': "sub_by_psid (w_db w1) ''nmi'' ?v (sub_ProcessorSubscriptionID s) = Some s'" "sub_by_id (w_db w1) i = Some s'"
      "renewed_by_charge d s s'" "\<not> other_active (w_db w1) s'" "sub_Processor s' = ProcessorNMI"
      "sub_ProcessorSubscriptionID s' = sub_ProcessorSubscriptionID s" "sub_PaymentMethodID s' = sub_PaymentMethodID s"
      "sub_ProcessorProvider s' = Some ?v"
    using T F s(2,3) ne by (auto simp: rp_def renewed_by_charge_def)
  have g1: "r1 = Inr ()" "good w1" "t_prices (w_db w1) = t_prices (w_db w)"
    using T by auto
  have f1: "w_env w1 = w_env w" "w_pc w \<le> w_pc w1" "t_payments (w_db w1) = t_payments (w_db w)" "t_pms (w_db w1) = t_pms (w_db w)"
    using F by auto
  have u1: "pay_ids_unused w1" "txn_unused txn (w_db w1)"
    using pr r(2) f1 by (auto simp: pay_ids_unused_def txn_unused_def)
  have sp: "sub_Price ?s = Some pr"
    using pr by (simp add: with_details_def)
  have sent1: "w_sent w1 = w_sent w @ [(nc_DirectPostURL c, rebill_form c p)]"
    using silent_run[OF silent_RenewMembership R] by simp
  have pm: "sub_PaymentMethod (with_details t s') = sub_PaymentMethod ?s" if "t_pms t = t_pms (w_db w)" for t
    using that s'(7) by (simp add: with_details_def split: option.split)
  have res: "resolveSubscriptionProvider (with_details t s') = ?v" for t
    using resolve_stored[of s' ?s t] s'(8) by simp
  have "wp (settle_rebill ?v ?s txn) (\<lambda>r w'. r = Inr () \<and> good w' \<and> w_env w' = w_env w \<and>
    w_sent w' = w_sent w @ [(nc_DirectPostURL c, rebill_form c p)] \<and>
    (\<exists>s' pay. renewed_by_charge d s s' \<and> charge_paid s pr txn pay \<and> t_payments (w_db w') = t_payments (w_db w) @ [pay] \<and>
       chargeable (w_db w') cs c p i s' \<and> renewable w' s' pr d)) ?w"
  proof -
    have rp': "\<lparr>rp_Processor = ProcessorNMI, rp_ProcessorSubscriptionID = sub_ProcessorSubscriptionID ?s, rp_ProcessorProvider = ?v\<rparr> = rp"
      by (simp add: rp_def with_details_def)
    show ?thesis
      unfolding settle_rebill_def rp' wp_bind wp_of_run[OF R] g1(1) sum.case
    proof (rule wp_mono[OF recorded[OF g1(2) u1 sp], unfolded wp_bind], elim conjE exE, intro conjI)
      fix r2 :: "unit res" and w2 :: world and pay
      assume a: "charge_paid ?s pr txn pay" "w_db w2 = add_payment pay (w_db w1)" "pay_ID pay = env_uuid (w_env w1) (w_pc w1)"
        "w_env w2 = w_env w1" "Suc (w_pc w1) \<le> w_pc w2" "w_tx w2 = None" "\<not> w_aborted w2" "w_sent w2 = w_sent w1"
      have g2: "good w2" "pay_ids_unused w2"
        using good_after_payment[OF g1(2) u1(1) a(2,1) u1(2) a(3-7)] by blast+
      have rows: "sub_by_id (w_db w2) = sub_by_id (w_db w1)" "sub_by_psid (w_db w2) = sub_by_psid (w_db w1)"
          "other_active (w_db w2) = other_active (w_db w1)" "t_pms (w_db w2) = t_pms (w_db w)" "t_prices (w_db w2) = t_prices (w_db w)"
        using f1(4) g1(3) by (simp_all add: a(2) add_payment_def sub_by_id_def sub_by_psid_def other_active_def fun_eq_iff)
      have "chargeable (w_db w2) cs c p i s'"
        using s s' res[of "w_db w2"] pm[of "w_db w2"] rows
        by (simp add: chargeable_def Let_def rebill_of_def usable_method_def)
      moreover have "renewable w2 s' pr d"
        using pr s'(3,4) rows g2(2) by (simp add: renewable_def price_by_id_def renewed_by_charge_def)
      moreover have "charge_paid s pr txn pay"
        using a(1) by (simp add: charge_paid_def with_details_def)
      moreover have "t_payments (w_db w2) = t_payments (w_db w) @ [pay]"
        by (simp add: a(2) add_payment_def f1(3))
      ultimately show "\<exists>s' pay. renewed_by_charge d s s' \<and> charge_paid s pr txn pay \<and> t_payments (w_db w2) = t_payments (w_db w) @ [pay] \<and>
         chargeable (w_db w2) cs c p i s' \<and> renewable w2 s' pr d"
        using s'(3) by blast
      show "good w2" by (rule g2(1))
      show "w_env w2 = w_env w" using a(4) f1(1) by simp
      show "w_sent w2 = w_sent w @ [(nc_DirectPostURL c, rebill_form c p)]" using a(8) sent1 by simp
    qed simp
  qed
  then show ?thesis
    unfolding charge_run[OF c] by blast
qed

text \<open>
  What an attempt does when the gateway approves: it posts one rebill of the stored method, makes the
  subscription active and extends its period by the cycle, and records one payment of the price under the
  gateway's transaction. The retry counter is left as it was.
\<close>

theorem dunning_charge_effect:
  assumes "good w" "chargeable (w_db w) cs c p i s" "gateway_says c p w = approved txn"
    and "renewable w s pr d" "txn_unused txn (w_db w)" "run_state (dunning_attempt cs (with_details (w_db w) s)) w = (r, w')"
  shows "r = Inr () \<and> w_sent w' = w_sent w @ [(nc_DirectPostURL c, rebill_form c p)] \<and>
    (\<exists>s' pay. sub_by_id (w_db w') i = Some s' \<and> renewed_by_charge d s s' \<and>
       t_payments (w_db w') = t_payments (w_db w) @ [pay] \<and> charge_paid s pr txn pay)"
  using wp_run[OF charge_effect[OF assms(1-5)] assms(6)] by (auto simp: chargeable_def)

section \<open>Concrete instances\<close>

definition sample_client :: nmi_client where
  "sample_client = \<lparr>nc_Provider = ''mobius'', nc_SecurityKey = ''key'', nc_WebhookSecret = '''', nc_DirectPostURL = ''gw'', nc_QueryURL = ''q'', nc_IsProd = True\<rparr>"

abbreviation sample_clients :: nmi_clients where
  "sample_clients \<equiv> [(''mobius'', sample_client)]"

definition sample_method :: "string option \<Rightarrow> payment_method" where
  "sample_method b = \<lparr>pm_ID = 30, pm_UserID = ''alice'', pm_Processor = ProcessorNMI, pm_Provider = Some ''mobius'', pm_VaultID = ''vault'',
     pm_BillingID = b, pm_InitialTransactionID = '''', pm_IsActive = True, pm_LastFour = None, pm_CardType = None, pm_ExpiryDate = None,
     pm_FailureReason = None, pm_CreatedAt = 1, pm_UpdatedAt = 1\<rparr>"

definition due_sub :: subscription where
  "due_sub = sample_sub\<lparr>sub_Status := StatusPastDue, sub_PaymentMethodID := Some 30\<rparr>"

definition due_world :: "string option \<Rightarrow> world" where
  "due_world b = sample_world\<lparr>w_db := sample_tables\<lparr>t_subs := [due_sub], t_pms := [sample_method b]\<rparr>,
     w_env := sample_env\<lparr>env_http := \<lambda>n _ _. HttpResponse 200 (Inr (''response=1&transactionid=t'' @ show_nat n)) None\<rparr>\<rparr>"

lemma due_sub_simps [simp]:
  "sub_ID due_sub = 1" "sub_UserID due_sub = ''alice''" "sub_PriceID due_sub = 10" "sub_Processor due_sub = ProcessorNMI"
  "sub_ProcessorSubscriptionID due_sub = ''psid''" "sub_ProcessorProvider due_sub = Some ''mobius''" "sub_Status due_sub = StatusPastDue"
  "sub_RetryAttempts due_sub = None" "sub_PaymentMethodID due_sub = Some 30" "sub_CurrentPeriodEndsAt due_sub = Some 5000"
  by (simp_all add: due_sub_def sample_sub_def)

lemma due_world_simps [simp]:
  "t_subs (w_db (due_world b)) = [due_sub]" "t_pms (w_db (due_world b)) = [sample_method b]" "w_tx (due_world b) = None"
  "w_sent (due_world b) = []" "t_payments (w_db (due_world b)) = []" "t_prices (w_db (due_world b)) = [sample_price]"
  by (simp_all add: due_world_def sample_world_def sample_tables_def)

lemma good_due: "good (due_world b)"
proof -
  have "schema_ok (w_db (due_world b))"
    using sample_schema by (simp add: schema_ok_def sub_unique_def is_active_sub_def) (simp add: due_world_def sample_tables_def)
  then show ?thesis
    using good_sample unfolding good_def healthy_def due_world_def
    by (simp add: sample_world_def sample_env_def used_ids_def sample_tables_def sample_sub_def)
qed

lemma due_unbilled: "unbilled (w_db (due_world None))"
  by (simp add: unbilled_def sample_method_def)

lemma due_found: "sub_by_id (w_db (due_world b)) 1 = Some due_sub"
  "resolveSubscriptionProvider (with_details (w_db (due_world b)) due_sub) = ''mobius''"
  "sub_by_psid (w_db (due_world b)) ''nmi'' ''mobius'' ''psid'' = Some due_sub"
proof -
  show "sub_by_id (w_db (due_world b)) 1 = Some due_sub"
    by (simp add: sub_by_id_def)
  show "resolveSubscriptionProvider (with_details (w_db (due_world b)) due_sub) = ''mobius''"
    using mobius_normal by (simp add: resolveSubscriptionProvider_def with_details_def)
  have "norm_provider ''mobius'' = ''mobius''"
    by code_simp
  then show "sub_by_psid (w_db (due_world b)) ''nmi'' ''mobius'' ''psid'' = Some due_sub"
    by (simp add: sub_by_psid_def match_processor_sub_def provider_matches_def)
qed

theorem stored_methods_never_charged_witness:
  "unbilled (w_db (snd (run_state (run_method_call (Some sample_clients) (CallAttempt 1)) (due_world None)))) \<and>
   posted (\<lambda>f. \<not> is_rebill f) (due_world None) (snd (run_state (run_method_call (Some sample_clients) (CallAttempt 1)) (due_world None)))"
  using stored_methods_never_charged[OF due_unbilled due_world_simps(3) method_step[OF method_none surjective_pairing],
      of "Some sample_clients" "CallAttempt 1"] by blast

definition sample_rebill :: rebill_params where
  "sample_rebill = \<lparr>rb_VaultID = ''vault'', rb_BillingID = ''bill'', rb_SubscriptionID = ''psid''\<rparr>"

lemma due_chargeable: "chargeable (w_db (due_world (Some ''bill''))) sample_clients sample_client sample_rebill 1 due_sub"
  using due_found[of "Some ''bill''"]
  by (simp add: chargeable_def Let_def rebill_of_def sample_rebill_def sample_client_def)
    (simp add: usable_method_def with_details_def sample_method_def)

lemma due_approved: "gateway_says sample_client sample_rebill (due_world (Some ''bill'')) = approved ''t0''"
  by code_simp

lemma due_renewable: "renewable (due_world (Some ''bill'')) due_sub sample_price 30" "txn_unused txn (w_db (due_world (Some ''bill'')))"
  by (simp_all add: renewable_def price_by_id_def other_active_def pay_ids_unused_def txn_unused_def)
    (simp add: sample_price_def)

abbreviation due_job :: "unit go" where
  "due_job \<equiv> dunning_attempt sample_clients (with_details (w_db (due_world (Some ''bill''))) due_sub)"

theorem dunning_charge_effect_witness:
  "\<exists>s' pay. sub_by_id (w_db (snd (run_state due_job (due_world (Some ''bill''))))) 1 = Some s' \<and> sub_Status s' = StatusActive \<and>
     t_payments (w_db (snd (run_state due_job (due_world (Some ''bill''))))) = [pay] \<and> pay_Amount pay = 10 \<and> pay_TransactionID pay = ''t0''"
  using dunning_charge_effect[OF good_due due_chargeable due_approved due_renewable surjective_pairing]
  by (auto simp: renewed_by_charge_def charge_paid_def sample_price_def)

definition broken_world :: world where
  "broken_world = (due_world (Some ''bill''))\<lparr>w_env := (w_env (due_world (Some ''bill'')))\<lparr>env_fault := \<lambda>n. if n = 1 then Some ''connection reset'' else None\<rparr>\<rparr>"

theorem approved_rebill_lost_witness:
  "fst (run_state due_job broken_world) = Inr () \<and> w_db (snd (run_state due_job broken_world)) = w_db broken_world \<and>
   w_sent (snd (run_state due_job broken_world)) = [(''gw'', rebill_form sample_client sample_rebill)]"
proof -
  let ?rp = "\<lparr>rp_Processor = ProcessorNMI, rp_ProcessorSubscriptionID = ''psid'', rp_ProcessorProvider = ''mobius''\<rparr>"
  have w: "w_db broken_world = w_db (due_world (Some ''bill''))" "w_tx broken_world = None" "w_sent broken_world = []"
    by (simp_all add: broken_world_def) (simp add: due_world_def sample_world_def)?
  have g: "gateway_says sample_client sample_rebill broken_world = approved ''t0''"
    by code_simp
  have f: "fst (run_state (RenewMembership False ?rp) (sent (nc_DirectPostURL sample_client) (rebill_form sample_client sample_rebill) broken_world))
      = Inl (DbErr ''connection reset'')"
    by code_simp
  have c: "chargeable (w_db broken_world) sample_clients sample_client sample_rebill 1 due_sub"
    using due_chargeable w(1) by simp
  show ?thesis
    using approved_rebill_lost[OF c g w(2) _ f _ surjective_pairing] due_found(2)[of "Some ''bill''"] w(1,3)
    by (simp add: sample_client_def)
qed

end
