(* ===== verification/Catalogue.thy ===== *)
theory Catalogue
  imports Subscription_Repo
begin

text \<open>
  \<open>internal/manager/data/repo/product.go\<close> and \<open>repo/price.go\<close>: the products and their prices, with the unique
  indexes and the foreign keys of their tables. The services of \<open>api/product\<close> and \<open>api/price\<close> pass every call
  on unchanged.
\<close>

section \<open>The tables\<close>

definition product_unique :: "product list \<Rightarrow> bool" where
  "product_unique rs \<longleftrightarrow> distinct (map prod_ID rs) \<and> distinct (map prod_Slug rs)"

text \<open>\<open>unique_prices_product_amount_cycle\<close>; rows without a cycle do not collide.\<close>

definition price_unique :: "price list \<Rightarrow> bool" where
  "price_unique rs \<longleftrightarrow> distinct (map price_ID rs) \<and>
     distinct (map (\<lambda>p. (price_ProductID p, price_Amount p, price_Currency p, price_BillingCycleDays p))
       (filter (\<lambda>p. price_BillingCycleDays p \<noteq> None) rs))"

definition fk_violation :: string where
  "fk_violation = ''ERROR: insert, update or delete violates foreign key constraint''"

text \<open>A price that a subscription or a payment names cannot be deleted.\<close>

definition price_used :: "tables \<Rightarrow> uuid \<Rightarrow> bool" where
  "price_used t i \<longleftrightarrow> i \<in> sub_PriceID ` set (t_subs t) \<or> i \<in> pay_PriceID ` set (t_payments t)"

text \<open>A row as it is inserted: the columns with a default that are zero are given it.\<close>

definition stored_product :: "time \<Rightarrow> product \<Rightarrow> product" where
  "stored_product now p = p\<lparr>prod_IsActive := True,
     prod_CreatedAt := (if is_zero_time (prod_CreatedAt p) then now else prod_CreatedAt p),
     prod_UpdatedAt := (if is_zero_time (prod_UpdatedAt p) then now else prod_UpdatedAt p)\<rparr>"

definition stored_price :: "time \<Rightarrow> price \<Rightarrow> price" where
  "stored_price now p = p\<lparr>price_IsActive := True,
     price_CreatedAt := (if is_zero_time (price_CreatedAt p) then now else price_CreatedAt p),
     price_UpdatedAt := (if is_zero_time (price_UpdatedAt p) then now else price_UpdatedAt p)\<rparr>"

definition add_product :: "product \<Rightarrow> tables \<Rightarrow> tables" where
  "add_product p t = t\<lparr>t_products := t_products t @ [p]\<rparr>"

definition put_product :: "product \<Rightarrow> tables \<Rightarrow> tables" where
  "put_product p t = t\<lparr>t_products := replace_row prod_ID p (t_products t)\<rparr>"

definition add_price :: "price \<Rightarrow> tables \<Rightarrow> tables" where
  "add_price p t = t\<lparr>t_prices := t_prices t @ [p]\<rparr>"

definition put_price :: "price \<Rightarrow> tables \<Rightarrow> tables" where
  "put_price p t = t\<lparr>t_prices := replace_row price_ID p (t_prices t)\<rparr>"

text \<open>Deleting a product deletes its prices (\<open>ON DELETE CASCADE\<close>).\<close>

definition del_product :: "uuid \<Rightarrow> tables \<Rightarrow> tables" where
  "del_product i t = t\<lparr>t_products := filter (\<lambda>p. prod_ID p \<noteq> i) (t_products t),
     t_prices := filter (\<lambda>p. price_ProductID p \<noteq> i) (t_prices t)\<rparr>"

definition del_price :: "uuid \<Rightarrow> tables \<Rightarrow> tables" where
  "del_price i t = t\<lparr>t_prices := filter (\<lambda>p. price_ID p \<noteq> i) (t_prices t)\<rparr>"

text \<open>\<open>RowsAffected\<close> below one is an error.\<close>

definition must_hit :: "nat go \<Rightarrow> unit go" where
  "must_hit m = do { r \<leftarrow> m; (case r of Inl e \<Rightarrow> throw e | Inr rows \<Rightarrow> if rows < 1 then throw no_rows_affected else ok ()) }"

section \<open>ProductRepo\<close>

definition Product_Create :: "handle \<Rightarrow> product \<Rightarrow> unit go" where
  "Product_Create h p = must_hit (db_exec h (\<lambda>now t.
     if product_unique (t_products (add_product (stored_product now p) t)) then Inr (1, add_product (stored_product now p))
     else Inl duplicate_key))"

definition Product_GetActive :: "handle \<Rightarrow> product list go" where
  "Product_GetActive h = db_query h (\<lambda>now t. Inr (filter prod_IsActive (t_products t)))"

definition Product_Update :: "handle \<Rightarrow> product \<Rightarrow> unit go" where
  "Product_Update h p = must_hit (db_exec h (\<lambda>now t.
     if product_unique (t_products (put_product p t)) then Inr (length (filter (\<lambda>x. prod_ID x = prod_ID p) (t_products t)), put_product p)
     else Inl duplicate_key))"

definition Product_Delete :: "handle \<Rightarrow> uuid \<Rightarrow> unit go" where
  "Product_Delete h i = must_hit (db_exec h (\<lambda>now t.
     if \<exists>p \<in> set (t_prices t). price_ProductID p = i \<and> price_used t (price_ID p) then Inl fk_violation
     else Inr (length (filter (\<lambda>x. prod_ID x = i) (t_products t)), del_product i)))"

definition Product_GetBySlug :: "handle \<Rightarrow> string \<Rightarrow> product go" where
  "Product_GetBySlug h slug = db_query h (\<lambda>now t. scan_row (find (\<lambda>p. prod_Slug p = slug) (t_products t)))"

section \<open>PriceRepo\<close>

definition Price_Create :: "handle \<Rightarrow> price \<Rightarrow> unit go" where
  "Price_Create h p = must_hit (db_exec h (\<lambda>now t.
     if product_by_id t (price_ProductID p) = None then Inl fk_violation
     else if price_unique (t_prices (add_price (stored_price now p) t)) then Inr (1, add_price (stored_price now p))
     else Inl duplicate_key))"

definition Price_GetByProductID :: "handle \<Rightarrow> uuid \<Rightarrow> price list go" where
  "Price_GetByProductID h i = db_query h (\<lambda>now t. Inr (filter (\<lambda>p. price_ProductID p = i \<and> price_IsActive p) (t_prices t)))"

definition Price_GetActiveByProductID :: "handle \<Rightarrow> uuid \<Rightarrow> price list go" where
  "Price_GetActiveByProductID h i = db_query h (\<lambda>now t.
     Inr (sort_key price_Amount (filter (\<lambda>p. price_ProductID p = i \<and> price_IsActive p) (t_prices t))))"

definition Price_Update :: "handle \<Rightarrow> price \<Rightarrow> unit go" where
  "Price_Update h p = must_hit (db_exec h (\<lambda>now t.
     if product_by_id t (price_ProductID p) = None then Inl fk_violation
     else if price_unique (t_prices (put_price p t)) then Inr (length (filter (\<lambda>x. price_ID x = price_ID p) (t_prices t)), put_price p)
     else Inl duplicate_key))"

definition Price_Delete :: "handle \<Rightarrow> uuid \<Rightarrow> unit go" where
  "Price_Delete h i = must_hit (db_exec h (\<lambda>now t.
     if price_used t i then Inl fk_violation
     else Inr (length (filter (\<lambda>x. price_ID x = i) (t_prices t)), del_price i)))"

section \<open>References into the catalogue\<close>

text \<open>Every price has its product, and every subscription and payment its price.\<close>

definition catalogue_ok :: "tables \<Rightarrow> bool" where
  "catalogue_ok t \<longleftrightarrow> product_unique (t_products t) \<and> price_unique (t_prices t) \<and>
     price_ProductID ` set (t_prices t) \<subseteq> prod_ID ` set (t_products t) \<and>
     sub_PriceID ` set (t_subs t) \<subseteq> price_ID ` set (t_prices t) \<and> pay_PriceID ` set (t_payments t) \<subseteq> price_ID ` set (t_prices t)"

lemma keeps_must_hit [keeps_intros]: "keeps b I m \<Longrightarrow> keeps b I (must_hit m)"
  unfolding must_hit_def by (intro keeps_intros)

lemma product_found: "product_by_id t i = Some p \<Longrightarrow> i \<in> prod_ID ` set (t_products t)"
  by (auto simp: product_by_id_def find_Some_iff image_iff in_set_conv_nth Bex_def)

lemma distinct_map_filter_sub: "distinct (map f (filter P rs)) \<Longrightarrow> distinct (map f (filter (\<lambda>x. Q x \<and> P x) rs))"
  by (induction rs) (auto split: if_splits)

lemma price_unique_filter: "price_unique rs \<Longrightarrow> price_unique (filter Q rs)"
  by (simp add: price_unique_def distinct_map_filter distinct_map_filter_sub del: not_None_eq)

lemma keys_replace_row: "key ` set (replace_row key r rs) = key ` set rs"
  by (metis list.set_map map_replace_row)

lemma kept_refs: "A \<subseteq> f ` set rs \<Longrightarrow> i \<notin> A \<Longrightarrow> A \<subseteq> f ` set (filter (\<lambda>p. f p \<noteq> i) rs)"
  by (force simp: subset_iff)

lemma catalogue_kept:
  "keeps False catalogue_ok (Product_Create Pool p)" "keeps False catalogue_ok (Product_Update Pool p)"
  "keeps False catalogue_ok (Product_Delete Pool i)" "keeps False catalogue_ok (Price_Create Pool q)"
  "keeps False catalogue_ok (Price_Update Pool q)" "keeps False catalogue_ok (Price_Delete Pool i)"
proof -
  show "keeps False catalogue_ok (Product_Create Pool p)"
    unfolding Product_Create_def by (intro keeps_intros keeps_exec) (auto simp: catalogue_ok_def add_product_def split: if_splits)
  show "keeps False catalogue_ok (Product_Update Pool p)"
    unfolding Product_Update_def
    by (intro keeps_intros keeps_exec) (auto simp: catalogue_ok_def put_product_def keys_replace_row split: if_splits)
  show "keeps False catalogue_ok (Product_Delete Pool i)"
    unfolding Product_Delete_def
  proof (intro keeps_intros keeps_exec)
    fix now t x u
    assume c: "catalogue_ok t"
      "(if \<exists>p \<in> set (t_prices t). price_ProductID p = i \<and> price_used t (price_ID p) then Inl fk_violation
        else Inr (length (filter (\<lambda>x. prod_ID x = i) (t_products t)), del_product i)) = Inr (x, u)"
    then have u: "u = del_product i" and unused: "\<And>p. p \<in> set (t_prices t) \<Longrightarrow> price_ProductID p = i \<Longrightarrow> \<not> price_used t (price_ID p)"
      by (auto split: if_splits)
    have "k \<in> price_ID ` {p \<in> set (t_prices t). price_ProductID p \<noteq> i}" if "price_used t k" for k
    proof -
      have "k \<in> price_ID ` set (t_prices t)"
        using that c(1) unfolding catalogue_ok_def price_used_def by blast
      then obtain p where "p \<in> set (t_prices t)" "price_ID p = k"
        by blast
      with unused that show ?thesis by auto
    qed
    then show "catalogue_ok (u t)"
      using c(1) unfolding u by (auto simp: catalogue_ok_def del_product_def price_used_def product_unique_def price_unique_filter distinct_map_filter)
  qed simp
  show "keeps False catalogue_ok (Price_Create Pool q)"
    unfolding Price_Create_def
    by (intro keeps_intros keeps_exec)
      (auto simp: catalogue_ok_def add_price_def stored_price_def dest: product_found split: if_splits)
  show "keeps False catalogue_ok (Price_Update Pool q)"
    unfolding Price_Update_def
  proof (intro keeps_intros keeps_exec)
    fix now t x u
    assume c: "catalogue_ok t"
      "(if product_by_id t (price_ProductID q) = None then Inl fk_violation
        else if price_unique (t_prices (put_price q t)) then Inr (length (filter (\<lambda>x. price_ID x = price_ID q) (t_prices t)), put_price q)
        else Inl duplicate_key) = Inr (x, u)"
    then have u: "u = put_price q" "price_unique (t_prices (put_price q t))" "price_ProductID q \<in> prod_ID ` set (t_products t)"
      by (auto dest: product_found split: if_splits)
    have "price_ProductID ` set (replace_row price_ID q (t_prices t)) \<subseteq> prod_ID ` set (t_products t)"
      using c(1) u(3) unfolding catalogue_ok_def image_subset_iff by (metis set_replace_row)
    then show "catalogue_ok (u t)"
      using c(1) u(2) unfolding u(1) by (simp add: catalogue_ok_def put_price_def keys_replace_row)
  qed simp
  show "keeps False catalogue_ok (Price_Delete Pool i)"
    unfolding Price_Delete_def
  proof (intro keeps_intros keeps_exec)
    fix now t x u
    assume c: "catalogue_ok t" "(if price_used t i then Inl fk_violation
        else Inr (length (filter (\<lambda>x. price_ID x = i) (t_prices t)), del_price i)) = Inr (x, u)"
    then have u: "u = del_price i" "i \<notin> sub_PriceID ` set (t_subs t)" "i \<notin> pay_PriceID ` set (t_payments t)"
      by (simp_all add: price_used_def split: if_splits)
    have "price_ProductID ` set (filter (\<lambda>p. price_ID p \<noteq> i) (t_prices t)) \<subseteq> prod_ID ` set (t_products t)"
      using c(1) unfolding catalogue_ok_def by auto
    then show "catalogue_ok (u t)"
      using c(1) u(2,3) kept_refs[of _ price_ID "t_prices t" i]
      unfolding u(1) catalogue_ok_def by (simp add: del_price_def price_unique_filter)
  qed simp
qed

end
