(* ===== verification/Subscribe.thy ===== *)
theory Subscribe
  imports Vault Idempotency Lifecycle Catalogue
begin

text \<open>
  \<open>internal/manager/api/subscription/subscription.go\<close>: a user subscribes to a price, and cancels. The services
  that may be absent and the text form of identifiers (\<open>uuid.Parse\<close>, whose error is a message, and \<open>uuid.String\<close>)
  are the fields of \<open>subscription_service\<close>.
\<close>

record subscribe_data =
  sd_Email :: string
  sd_FirstName :: string
  sd_LastName :: string
  sd_Address1 :: string
  sd_City :: string
  sd_State :: string
  sd_Zip :: string
  sd_Country :: string
  sd_PriceID :: string
  sd_Processor :: string
  sd_Provider :: string
  sd_PaymentToken :: string
  sd_PaymentMethodID :: string

record subscription_service =
  ss_ParseID :: "string \<Rightarrow> string + uuid"
  ss_IDString :: "uuid \<Rightarrow> string"
  ss_Products :: bool
  ss_NMIClients :: "nmi_clients option"
  ss_Methods :: bool
  ss_Vault :: "nmi_clients option"
  ss_Idempotency :: bool

text \<open>The answers of \<open>Subscribe\<close>: the fixed instructions for CCBill, or the gateway's response.\<close>

datatype subscribe_result = RedirectRequired | Subscribed add_response

definition parse_id :: "subscription_service \<Rightarrow> string \<Rightarrow> string \<Rightarrow> uuid res" where
  "parse_id svc what s = (case ss_ParseID svc s of Inl m \<Rightarrow> Inl (ErrWrap what (ErrNew m)) | Inr i \<Rightarrow> Inr i)"

section \<open>What is bought\<close>

definition available_product :: "price \<Rightarrow> price go" where
  "available_product p = do {
     r \<leftarrow> Product_GetByID Pool (price_ProductID p);
     (case r of
        Inl e \<Rightarrow> throw (wrap_err ''product not found'' e)
      | Inr pr \<Rightarrow> if \<not> prod_IsActive pr then throw (ErrNew ''product is not available for purchase'') else ok p)
   }"

definition available_price :: "subscription_service \<Rightarrow> uuid \<Rightarrow> price go" where
  "available_price svc i = do {
     r \<leftarrow> Price_GetByID Pool i;
     (case r of
        Inl e \<Rightarrow> throw (wrap_err ''price not found'' e)
      | Inr p \<Rightarrow>
          if \<not> price_IsActive p then throw (ErrNew ''price is not available for purchase'')
          else if ss_Products svc then available_product p else ok p)
   }"

definition no_active_subscription :: "string \<Rightarrow> unit go" where
  "no_active_subscription u = do {
     r \<leftarrow> SubRepo_GetLatestByUserID Pool u;
     (case r of
        Inl e \<Rightarrow> if err_is e ErrNoRows then ok () else throw (wrap_err ''failed to check existing subscription'' e)
      | Inr s \<Rightarrow> if sub_Status s = StatusActive then throw (ErrNew ''user already has an active subscription'') else ok ())
   }"

section \<open>The gateway and the payment method\<close>

definition nmiClientForProvider :: "subscription_service \<Rightarrow> string \<Rightarrow> nmi_client res" where
  "nmiClientForProvider svc provider = (let k = provider_key provider in
     (case ss_NMIClients svc of
        None \<Rightarrow> Inl (not_configured k)
      | Some cs \<Rightarrow> (case map_of cs k of None \<Rightarrow> Inl (not_configured k) | Some c \<Rightarrow> Inr c)))"

definition subscribe_provider :: "subscribe_data \<Rightarrow> price \<Rightarrow> string res" where
  "subscribe_provider d p = (let provider = trim_space (to_lower (sd_Provider d)) in
     (case price_NMIProvider p of
        Some x \<Rightarrow> let expected = trim_space (to_lower x) in
          if provider \<noteq> '''' \<and> provider \<noteq> expected
          then Inl (ErrNew (''provider '' @ provider @ '' does not match price provider '' @ expected))
          else Inr (if expected = '''' then ''mobius'' else expected)
      | None \<Rightarrow> Inr (if provider = '''' then ''mobius'' else provider)))"

definition missing_plan :: "price \<Rightarrow> bool" where
  "missing_plan p = (case price_NMIPlanID p of None \<Rightarrow> True | Some x \<Rightarrow> trim_space x = '''')"

text \<open>The vault and the provider of the saved method, if one is named.\<close>

definition saved_method :: "subscription_service \<Rightarrow> string \<Rightarrow> string \<Rightarrow> string \<Rightarrow> (string \<times> string) go" where
  "saved_method svc u provider methodID =
     (if methodID = '''' then ok ('''', provider)
      else if \<not> ss_Methods svc then throw (ErrNew ''payment method service unavailable'')
      else (case parse_id svc ''invalid payment method ID'' methodID of
          Inl e \<Rightarrow> throw e
        | Inr i \<Rightarrow> do {
            r \<leftarrow> ValidatePaymentMethodOperation i u;
            (case r of
               Inl e \<Rightarrow> throw (wrap_err ''unable to use saved payment method'' e)
             | Inr m \<Rightarrow>
                 if pm_Processor m \<noteq> ProcessorNMI then throw (ErrNew ''saved payment method is not compatible with NMI subscriptions'')
                 else ok (pm_VaultID m, case pm_Provider m of Some x \<Rightarrow> trim_space (to_lower x) | None \<Rightarrow> provider))
          }))"

definition buildNMIIdempotencyKey :: "subscription_service \<Rightarrow> string \<Rightarrow> uuid \<Rightarrow> string \<Rightarrow> string \<Rightarrow> string" where
  "buildNMIIdempotencyKey svc userID priceID paymentToken paymentMethodID =
     (let token = trim_space paymentToken; meth = trim_space paymentMethodID in
      ''user:'' @ trim_space userID @ '':price:'' @ ss_IDString svc priceID @
      '':token:'' @ (if token = '''' then ''none'' else token) @ '':method:'' @ (if meth = '''' then ''none'' else meth))"

definition begin_window :: "subscription_service \<Rightarrow> string \<Rightarrow> string \<Rightarrow> idempotency_request option go" where
  "begin_window svc key u = (if \<not> ss_Idempotency svc then ok None else do {
     r \<leftarrow> Idem_Begin ''nmi_subscription'' key (Some u);
     (case r of
        Inl e \<Rightarrow> throw (wrap_err ''start idempotency window'' e)
      | Inr (req, exists) \<Rightarrow> if exists then throw (ErrNew ''duplicate subscription request detected'') else ok (Some req))
   })"

definition or_else :: "string \<Rightarrow> string \<Rightarrow> string" where
  "or_else s d = (if trim_space s = '''' then d else s)"

definition subscribe_params :: "subscription_service \<Rightarrow> subscribe_data \<Rightarrow> user_identity \<Rightarrow> price \<Rightarrow> uuid \<Rightarrow> recurring_data" where
  "subscribe_params svc d user p i = \<lparr>rd_FirstName = or_else (sd_FirstName d) (ui_Username user),
     rd_LastName = or_else (sd_LastName d) ''Member'', rd_Address1 = or_else (sd_Address1 d) ''N/A'',
     rd_City = or_else (sd_City d) ''N/A'', rd_State = or_else (sd_State d) ''N/A'', rd_Zip = or_else (sd_Zip d) ''00000'',
     rd_Country = or_else (sd_Country d) ''US'',
     rd_PlanID = (case price_NMIPlanID p of Some x \<Rightarrow> trim_space x | None \<Rightarrow> ''''), rd_CustomerVaultID = '''',
     rd_Email = trim_space (sd_Email d), rd_Currency = price_Currency p, rd_PaymentToken = '''', rd_Amount = price_Amount p,
     rd_OrderID = ss_IDString svc i, rd_PONumber = ss_IDString svc i, rd_CustomerID = ui_ID user\<rparr>"

definition vault_request :: "string \<Rightarrow> string \<Rightarrow> recurring_data \<Rightarrow> create_vault_request" where
  "vault_request token provider p = \<lparr>cvr_PaymentToken = token, cvr_Provider = provider, cvr_FirstName = rd_FirstName p,
     cvr_LastName = rd_LastName p, cvr_Address1 = rd_Address1 p, cvr_City = rd_City p, cvr_State = rd_State p,
     cvr_Zip = rd_Zip p, cvr_Country = rd_Country p, cvr_Phone = '''', cvr_Email = rd_Email p, cvr_Company = '''', cvr_Address2 = ''''\<rparr>"

text \<open>With a token and no saved vault a payment method is created: its vault, its provider, and the method itself.\<close>

definition obtain_vault ::
  "subscription_service \<Rightarrow> user_identity \<Rightarrow> string \<Rightarrow> string \<Rightarrow> string \<Rightarrow> recurring_data \<Rightarrow> (string \<times> string \<times> payment_method option) go" where
  "obtain_vault svc user token vault provider p =
     (if token = '''' \<or> vault \<noteq> '''' then ok (vault, provider, None)
      else (case ss_Vault svc of
          None \<Rightarrow> throw (ErrNew ''vault service unavailable'')
        | Some cs \<Rightarrow> do {
            r \<leftarrow> CreateVault cs user (vault_request token provider p);
            (case r of
               Inl e \<Rightarrow> throw (wrap_err ''failed to create payment method'' e)
             | Inr m \<Rightarrow>
                 if trim_space (pm_VaultID m) = '''' then throw (ErrNew ''failed to create payment method vault: empty customer vault ID'')
                 else ok (trim_space (pm_VaultID m),
                          (case pm_Provider m of Some x \<Rightarrow> trim_space (to_lower x) | None \<Rightarrow> provider), Some m))
          }))"

section \<open>Subscribe\<close>

text \<open>\<open>json.Marshal\<close> of the response.\<close>

definition marshal_response :: "add_response \<Rightarrow> string" where
  "marshal_response r = CHR ''{'' # print_members [(''Type'', ar_Type r), (''SubscriptionID'', ar_SubscriptionID r),
     (''TransactionID'', ar_TransactionID r), (''Authcode'', ar_Authcode r)]"

definition pending_subscription ::
  "subscribe_data \<Rightarrow> user_identity \<Rightarrow> uuid \<Rightarrow> uuid \<Rightarrow> string \<Rightarrow> string \<Rightarrow> uuid option \<Rightarrow> subscription" where
  "pending_subscription d user priceID i psid provider methodID = \<lparr>sub_ID = i, sub_UserID = ui_ID user, sub_PriceID = priceID,
     sub_Status = StatusPending, sub_StartedAt = 0, sub_EndedAt = None, sub_CurrentPeriodStartsAt = None,
     sub_CurrentPeriodEndsAt = None, sub_Processor = ProcessorNMI,
     sub_ProcessorProvider = (if provider = '''' then None else Some provider), sub_ProcessorSubscriptionID = psid,
     sub_UserEmail = (if trim_space (sd_Email d) = '''' then None else Some (trim_space (sd_Email d))),
     sub_PaymentMethodID = methodID, sub_LastRetryAt = None, sub_RetryAttempts = None, sub_NextRetryAt = None,
     sub_CancelFeedback = None, sub_CancelType = None, sub_CancelledAt = None, sub_Price = None, sub_PaymentMethod = None,
     sub_Metadata = None, sub_CreatedAt = 0, sub_UpdatedAt = 0\<rparr>"

definition chosen_method :: "subscription_service \<Rightarrow> subscribe_data \<Rightarrow> payment_method option \<Rightarrow> uuid option" where
  "chosen_method svc d created = (let t = trim_space (sd_PaymentMethodID d) in
     if t \<noteq> '''' then Some (case ss_ParseID svc t of Inl _ \<Rightarrow> 0 | Inr i \<Rightarrow> i) else map_option pm_ID created)"

text \<open>A refused request: the window is marked failed and a vault created for it is removed; both errors are dropped.\<close>

definition abandon :: "subscription_service \<Rightarrow> idempotency_request option \<Rightarrow> payment_method option \<Rightarrow> go_err \<Rightarrow> 'a go" where
  "abandon svc window created e = do {
     (case window of Some req \<Rightarrow> Idem_Fail (idem_ID req) (Some e) | None \<Rightarrow> ok ());
     (case (created, ss_Vault svc) of (Some m, Some cs) \<Rightarrow> DeleteVault cs m | _ \<Rightarrow> ok ());
     throw e
   }"

definition request_subscription ::
  "subscription_service \<Rightarrow> subscribe_data \<Rightarrow> user_identity \<Rightarrow> uuid \<Rightarrow> nmi_client \<Rightarrow> uuid \<Rightarrow> recurring_data \<Rightarrow> string \<Rightarrow>
    idempotency_request option \<Rightarrow> payment_method option \<Rightarrow> subscribe_result go" where
  "request_subscription svc d user priceID client i p provider window created = do {
     r \<leftarrow> AddRecurringSubscription client p;
     (case r of
        Inl e \<Rightarrow> abandon svc window created e
      | Inr resp \<Rightarrow> do {
          (case window of Some req \<Rightarrow> Idem_Complete (idem_ID req) (Some (marshal_response resp)) | None \<Rightarrow> ok ());
          c \<leftarrow> SubRepo_Create Pool (pending_subscription d user priceID i (ar_SubscriptionID resp) provider (chosen_method svc d created));
          (case c of Inl e \<Rightarrow> throw (wrap_err ''failed to create subscription'' e) | Inr _ \<Rightarrow> ok (Subscribed resp))
        })
   }"

definition subscribe_nmi :: "subscription_service \<Rightarrow> subscribe_data \<Rightarrow> user_identity \<Rightarrow> uuid \<Rightarrow> price \<Rightarrow> subscribe_result go" where
  "subscribe_nmi svc d user priceID price =
     (case subscribe_provider d price of
        Inl e \<Rightarrow> throw e
      | Inr provider0 \<Rightarrow> (case nmiClientForProvider svc provider0 of
          Inl e \<Rightarrow> throw e
        | Inr client \<Rightarrow>
            if missing_plan price
            then throw (ErrNew (''price '' @ ss_IDString svc (price_ID price) @ '' is missing an NMI plan configuration''))
            else do {
              i \<leftarrow> new_uuid;
              let methodID = trim_space (sd_PaymentMethodID d);
              m \<leftarrow> saved_method svc (ui_ID user) provider0 methodID;
              (case m of
                 Inl e \<Rightarrow> throw e
               | Inr (vault0, provider1) \<Rightarrow>
                   let token = trim_space (sd_PaymentToken d) in
                   if token = '''' \<and> vault0 = '''' then throw (ErrNew ''payment token or payment method ID is required'')
                   else do {
                     b \<leftarrow> begin_window svc (buildNMIIdempotencyKey svc (ui_ID user) priceID token methodID) (ui_ID user);
                     (case b of
                        Inl e \<Rightarrow> throw e
                      | Inr window \<Rightarrow> do {
                          let p = subscribe_params svc d user price i;
                          v \<leftarrow> obtain_vault svc user token vault0 provider1 p;
                          (case v of
                             Inl e \<Rightarrow> throw e
                           | Inr (vault, provider, created) \<Rightarrow>
                               request_subscription svc d user priceID client i
                                 (if vault \<noteq> '''' then p\<lparr>rd_CustomerVaultID := vault\<rparr> else p\<lparr>rd_PaymentToken := token\<rparr>)
                                 provider window created)
                        })
                   })
            }))"

definition Subscribe :: "subscription_service \<Rightarrow> subscribe_data \<Rightarrow> user_identity \<Rightarrow> subscribe_result go" where
  "Subscribe svc d user = (case parse_id svc ''invalid price ID'' (sd_PriceID d) of
     Inl e \<Rightarrow> throw e
   | Inr priceID \<Rightarrow> do {
       r \<leftarrow> available_price svc priceID;
       (case r of
          Inl e \<Rightarrow> throw e
        | Inr price \<Rightarrow> do {
            a \<leftarrow> no_active_subscription (ui_ID user);
            (case a of
               Inl e \<Rightarrow> throw e
             | Inr _ \<Rightarrow>
                 if sd_Processor d = '''' \<or> sd_Processor d = ''ccbill'' then ok RedirectRequired
                 else if sd_Processor d = ''nmi'' then subscribe_nmi svc d user priceID price
                 else throw (ErrNew ''invalid payment processor''))
          })
     })"

section \<open>The other operations of the service\<close>

definition user_cancelled :: "time \<Rightarrow> string \<Rightarrow> subscription \<Rightarrow> subscription" where
  "user_cancelled now feedback s = (let s1 = s\<lparr>sub_Status := StatusCancelled, sub_CancelledAt := Some now, sub_CancelType := Some CancelTypeUser\<rparr>
     in if feedback \<noteq> '''' then s1\<lparr>sub_CancelFeedback := Some feedback\<rparr> else s1)"

definition CancelUserSubscription :: "string \<Rightarrow> string \<Rightarrow> unit go" where
  "CancelUserSubscription u feedback = do {
     r \<leftarrow> SubRepo_GetLatestByUserID Pool u;
     (case r of
        Inl e \<Rightarrow> throw (wrap_err ''subscription not found'' e)
      | Inr s \<Rightarrow>
          if sub_Status s \<noteq> StatusActive then throw (ErrNew ''subscription is not active'')
          else do {
            now \<leftarrow> now_m;
            c \<leftarrow> SubRepo_Update Pool (user_cancelled now feedback s);
            (case c of
               Inl e \<Rightarrow> throw (wrap_err ''failed to update subscription'' e)
             | Inr _ \<Rightarrow> do {
                 queue_notification Pool u NotificationPremiumEnded (reason_data PremiumEndReasonUserCancel);
                 ok ()
               })
          })
   }"

text \<open>A product whose prices could not be loaded is listed without any.\<close>

fun load_prices :: "product list \<Rightarrow> (world, (product \<times> price list) list) state" where
  "load_prices [] = State_Monad.return []"
| "load_prices (pr # prs) = do {
     r \<leftarrow> Price_GetActiveByProductID Pool (prod_ID pr);
     rest \<leftarrow> load_prices prs;
     State_Monad.return ((pr, case r of Inl _ \<Rightarrow> [] | Inr ps \<Rightarrow> ps) # rest)
   }"

definition GetAvailableProducts :: "(product \<times> price list) list go" where
  "GetAvailableProducts = do {
     r \<leftarrow> Product_GetActive Pool;
     (case r of
        Inl e \<Rightarrow> throw (wrap_err ''failed to get active products'' e)
      | Inr prs \<Rightarrow> do { ps \<leftarrow> load_prices prs; ok ps })
   }"

text \<open>Of the options only the filters, the limit and the offset are passed on.\<close>

definition GetSubscribers :: "sub_filters \<Rightarrow> query_options \<Rightarrow> (subscription list \<times> nat) go" where
  "GetSubscribers f o' = SubRepo_GetSubscribers Pool f \<lparr>qo_Page = 0, qo_PageSize = 0,
      qo_Limit = qo_Limit o', qo_Offset = qo_Offset o', qo_TotalItems = 0, qo_All = False\<rparr>"

end
