(* ===== verification/Accounts.thy ===== *)
theory Accounts
  imports Subscribe Encoding Payments
begin

text \<open>
  What users and administrators do with a membership outside the payment processors:
  \<open>internal/manager/api/subscription/manage_subscription.go\<close>,
  \<open>internal/manager/api/admin/admin_subscription_service.go\<close> and
  \<open>internal/manager/api/user/user_subscription_service.go\<close>. An entitlement service that may be absent is a \<open>bool\<close>.
\<close>

section \<open>ManageSubscriptionService\<close>

record status_params =
  st_SubscriptionID :: string
  st_Status :: sub_status
  st_CancelFeedback :: string
  st_CancelType :: "cancel_type option"

text \<open>\<open>uuid.MustParse\<close> panics on a text that does not parse.\<close>

definition must_parse :: "(string \<Rightarrow> string + uuid) \<Rightarrow> string \<Rightarrow> uuid res" where
  "must_parse parse s = (case parse s of Inl m \<Rightarrow> Inl (GoPanic m) | Inr i \<Rightarrow> Inr i)"

definition premium_ended :: "string \<Rightarrow> end_reason \<Rightarrow> unit go" where
  "premium_ended u reason = do { queue_notification Pool u NotificationPremiumEnded (reason_data reason); ok () }"

definition started :: "time \<Rightarrow> subscription \<Rightarrow> subscription" where
  "started now s = (if is_zero_time (sub_StartedAt s) then s\<lparr>sub_StartedAt := now\<rparr> else s)"

definition status_cancelled :: "status_params \<Rightarrow> time \<Rightarrow> subscription \<Rightarrow> subscription" where
  "status_cancelled p now s =
     (let s1 = (if st_CancelFeedback p \<noteq> '''' then s\<lparr>sub_CancelFeedback := Some (st_CancelFeedback p)\<rparr> else s);
          s2 = (case st_CancelType p of Some c \<Rightarrow> s1\<lparr>sub_CancelType := Some c\<rparr> | None \<Rightarrow> s1)
      in s2\<lparr>sub_CancelledAt := Some now, sub_EndedAt := Some now\<rparr>)"

definition UpdateStatus :: "(string \<Rightarrow> string + uuid) \<Rightarrow> status_params \<Rightarrow> unit go" where
  "UpdateStatus parse p = (case must_parse parse (st_SubscriptionID p) of
     Inl e \<Rightarrow> throw e
   | Inr i \<Rightarrow> do {
       r \<leftarrow> SubRepo_GetByID Pool i;
       (case r of
          Inl e \<Rightarrow> throw e
        | Inr s0 \<Rightarrow> do {
            now \<leftarrow> now_m;
            now2 \<leftarrow> now_m;
            let s = s0\<lparr>sub_Status := st_Status p, sub_UpdatedAt := now\<rparr>;
            u \<leftarrow> SubRepo_Update Pool
              (if st_Status p = StatusActive then started now2 s
               else if st_Status p = StatusCancelled then status_cancelled p now2 s else s);
            (case u of
               Inl e \<Rightarrow> throw e
             | Inr _ \<Rightarrow>
                 if st_Status p = StatusCancelled \<or> st_Status p = StatusPastDue
                 then premium_ended (sub_UserID s) PremiumEndReasonAdmin else ok ())
          })
     })"

definition extended_sub :: "duration \<Rightarrow> subscription \<Rightarrow> (world, subscription) state" where
  "extended_sub d s = (case sub_CurrentPeriodEndsAt s of
     Some e \<Rightarrow> State_Monad.return (s\<lparr>sub_CurrentPeriodEndsAt := Some (time_add e d)\<rparr>)
   | None \<Rightarrow> do {
       now \<leftarrow> now_m;
       now2 \<leftarrow> now_m;
       State_Monad.return (s\<lparr>sub_CurrentPeriodEndsAt := Some (time_add now d), sub_CurrentPeriodStartsAt := Some now2\<rparr>)
     })"

text \<open>
  Look up, check that it is active, change, store: the subscription as changed. \<open>wrap_get\<close> and \<open>wrap_put\<close> say how
  the errors of the two statements are wrapped.
\<close>

definition change_active ::
  "(go_err \<Rightarrow> go_err) \<Rightarrow> (go_err \<Rightarrow> go_err) \<Rightarrow> go_err \<Rightarrow> subscription go \<Rightarrow> (subscription \<Rightarrow> (world, subscription) state) \<Rightarrow> subscription go" where
  "change_active wrap_get wrap_put inactive found change = do {
     r \<leftarrow> found;
     (case r of
        Inl e \<Rightarrow> throw (wrap_get e)
      | Inr s \<Rightarrow>
          if sub_Status s \<noteq> StatusActive then throw inactive
          else do {
            s' \<leftarrow> change s;
            u \<leftarrow> SubRepo_Update Pool s';
            (case u of Inl e \<Rightarrow> throw (wrap_put e) | Inr _ \<Rightarrow> ok s')
          })
   }"

definition forget_result :: "'a go \<Rightarrow> unit go" where
  "forget_result m = do { r \<leftarrow> m; (case r of Inl e \<Rightarrow> throw e | Inr _ \<Rightarrow> ok ()) }"

definition Manage_ExtendSubscription :: "(string \<Rightarrow> string + uuid) \<Rightarrow> string \<Rightarrow> duration \<Rightarrow> unit go" where
  "Manage_ExtendSubscription parse i d = (case must_parse parse i of
     Inl e \<Rightarrow> throw e
   | Inr i \<Rightarrow> forget_result (change_active (\<lambda>e. e) (\<lambda>e. e) (ErrNew ''subscription is not active'') (SubRepo_GetByID Pool i) (extended_sub d)))"

section \<open>AdminSubscriptionService: subscriptions\<close>

record 'a enriched =
  en_Subscription :: 'a
  en_Product :: "product option"
  en_Price :: "price option"

definition enrich :: "subscription \<Rightarrow> (world, subscription enriched) state" where
  "enrich s = do {
     r \<leftarrow> Price_GetByID Pool (sub_PriceID s);
     (case r of
        Inl _ \<Rightarrow> State_Monad.return \<lparr>en_Subscription = s, en_Product = None, en_Price = None\<rparr>
      | Inr p \<Rightarrow> do {
          q \<leftarrow> Product_GetByID Pool (price_ProductID p);
          State_Monad.return \<lparr>en_Subscription = s, en_Product = (case q of Inl _ \<Rightarrow> None | Inr x \<Rightarrow> Some x), en_Price = Some p\<rparr>
        })
   }"

fun map_m :: "('a \<Rightarrow> (world, 'b) state) \<Rightarrow> 'a list \<Rightarrow> (world, 'b list) state" where
  "map_m f [] = State_Monad.return []"
| "map_m f (x # xs) = do { y \<leftarrow> f x; ys \<leftarrow> map_m f xs; State_Monad.return (y # ys) }"

definition GetAllSubscriptions :: "sub_filters \<Rightarrow> query_options \<Rightarrow> (subscription enriched list \<times> nat) go" where
  "GetAllSubscriptions f o' = do {
     r \<leftarrow> GetSubscribers f o';
     (case r of
        Inl e \<Rightarrow> throw (wrap_err ''failed to get subscriptions'' e)
      | Inr (ss, n) \<Rightarrow> do { es \<leftarrow> map_m enrich ss; ok (es, n) })
   }"

definition GetSubscriptionByID :: "uuid \<Rightarrow> subscription enriched go" where
  "GetSubscriptionByID i = do {
     r \<leftarrow> SubRepo_GetByID Pool i;
     (case r of
        Inl e \<Rightarrow> throw (wrap_err ''subscription not found'' e)
      | Inr s \<Rightarrow> do { e \<leftarrow> enrich s; ok e })
   }"

text \<open>
  A value of the map of updates, by its dynamic type. The notes go into the JSON of the metadata: a document that is
  not an object is replaced, but a stored \<open>null\<close> unmarshals to a nil map, and the assignment to it panics. Numbers
  are printed as \<open>number_text\<close> does, and of two members with one name the last stays.
\<close>

datatype any = AStatus sub_status | AStr string | ABool bool | AOther

fun marshal_any :: "json \<Rightarrow> string" where
  "marshal_any JNull = ''null''"
| "marshal_any (JBool b) = (if b then ''true'' else ''false'')"
| "marshal_any (JNum l) = number_text l"
| "marshal_any (JStr s) = json_quote s"
| "marshal_any (JArr js) = ''['' @ join '','' (map marshal_any js) @ '']''"
| "marshal_any (JObj kvs) = ''{'' @ join '','' (map (\<lambda>(k, v). json_quote k @ '':'' @ v)
     (sort_key fst (AList.clearjunk (rev (map (\<lambda>(k, j). (k, marshal_any j)) kvs))))) @ ''}''"

definition admin_notes :: "string option \<Rightarrow> string \<Rightarrow> string res" where
  "admin_notes metadata notes =
     (let note = (''admin_notes'', JStr notes) in
      (case metadata of
         None \<Rightarrow> Inr (marshal_any (JObj [note]))
       | Some m \<Rightarrow> (case json_parse m of
           Some (JObj kvs) \<Rightarrow> Inr (marshal_any (JObj (kvs @ [note])))
         | Some JNull \<Rightarrow> Inl (GoPanic ''assignment to entry in nil map'')
         | _ \<Rightarrow> Inr (marshal_any (JObj [note])))))"

fun apply_sub_updates :: "(string \<times> any) list \<Rightarrow> subscription \<Rightarrow> subscription res" where
  "apply_sub_updates [] s = Inr s"
| "apply_sub_updates ((field, v) # us) s =
     (if field = ''status'' then (case v of AStatus st \<Rightarrow> apply_sub_updates us (s\<lparr>sub_Status := st\<rparr>) | _ \<Rightarrow> apply_sub_updates us s)
      else if field = ''notes'' then (case v of
          AStr notes \<Rightarrow> (case admin_notes (sub_Metadata s) notes of
            Inl e \<Rightarrow> Inl e | Inr m \<Rightarrow> apply_sub_updates us (s\<lparr>sub_Metadata := Some m\<rparr>))
        | _ \<Rightarrow> apply_sub_updates us s)
      else apply_sub_updates us s)"

definition UpdateSubscription :: "uuid \<Rightarrow> (string \<times> any) list \<Rightarrow> unit go" where
  "UpdateSubscription i updates = do {
     r \<leftarrow> SubRepo_GetByID Pool i;
     (case r of
        Inl e \<Rightarrow> throw (wrap_err ''subscription not found'' e)
      | Inr s \<Rightarrow> (case apply_sub_updates updates s of
          Inl e \<Rightarrow> throw e
        | Inr s' \<Rightarrow> do {
            u \<leftarrow> SubRepo_Update Pool s';
            (case u of Inl e \<Rightarrow> throw (wrap_err ''failed to update subscription'' e) | Inr _ \<Rightarrow> ok ())
          }))
   }"

definition merchant_cancelled :: "string \<Rightarrow> time \<Rightarrow> subscription \<Rightarrow> subscription" where
  "merchant_cancelled reason now s =
     (let s1 = s\<lparr>sub_Status := StatusCancelled, sub_CancelledAt := Some now, sub_CancelType := Some CancelTypeMerchant\<rparr>
      in if reason \<noteq> '''' then s1\<lparr>sub_CancelFeedback := Some reason\<rparr> else s1)"

text \<open>The two cancellations; the error that ending the entitlements gives is logged only.\<close>

definition end_and_notify :: "bool \<Rightarrow> subscription \<Rightarrow> time \<Rightarrow> unit go" where
  "end_and_notify ents s now = do {
     (if ents then EndActiveBySubscription Pool (sub_ID s) now (Some EntitlementRevokeAdmin) else ok ());
     premium_ended (sub_UserID s) PremiumEndReasonAdmin
   }"

definition ErrSubscriptionNotFound :: go_err where
  "ErrSubscriptionNotFound = Sentinel ''subscription not found''"

definition ErrSubscriptionNotActive :: go_err where
  "ErrSubscriptionNotActive = Sentinel ''subscription is not active''"

definition wrap_both :: "go_err \<Rightarrow> go_err \<Rightarrow> go_err" where
  "wrap_both s e = (if is_panic e then e else ErrWrap2 s e)"

definition merchant_cancel :: "(go_err \<Rightarrow> go_err) \<Rightarrow> go_err \<Rightarrow> subscription go \<Rightarrow> bool \<Rightarrow> string \<Rightarrow> unit go" where
  "merchant_cancel wrap_get inactive found ents reason = do {
     r \<leftarrow> found;
     (case r of
        Inl e \<Rightarrow> throw (wrap_get e)
      | Inr s \<Rightarrow>
          if sub_Status s \<noteq> StatusActive then throw inactive
          else do {
            now \<leftarrow> now_m;
            u \<leftarrow> SubRepo_Update Pool (merchant_cancelled reason now s);
            (case u of Inl e \<Rightarrow> throw (wrap_err ''failed to update subscription'' e) | Inr _ \<Rightarrow> end_and_notify ents s now)
          })
   }"

definition Admin_CancelSubscription :: "bool \<Rightarrow> uuid \<Rightarrow> string \<Rightarrow> unit go" where
  "Admin_CancelSubscription ents i reason =
     merchant_cancel (wrap_err ''subscription not found'') (ErrNew ''subscription is not active'') (SubRepo_GetByID Pool i) ents reason"

definition Admin_CancelUserSubscription :: "bool \<Rightarrow> string \<Rightarrow> string \<Rightarrow> unit go" where
  "Admin_CancelUserSubscription ents u reason =
     merchant_cancel (wrap_both ErrSubscriptionNotFound) ErrSubscriptionNotActive (SubRepo_GetLatestByUserID Pool u) ents reason"

definition Admin_ExtendSubscription :: "uuid \<Rightarrow> int \<Rightarrow> string \<Rightarrow> unit go" where
  "Admin_ExtendSubscription i days reason = forget_result (change_active (wrap_err ''subscription not found'')
     (wrap_err ''failed to update subscription'') (ErrNew ''subscription is not active'') (SubRepo_GetByID Pool i)
     (extended_sub (days_dur days)))"


section \<open>AdminSubscriptionService: catalogue, purchases and notifications\<close>

definition CreateProduct :: "product \<Rightarrow> unit go" where
  "CreateProduct pr = do { i \<leftarrow> new_uuid; forget_result (Product_Create Pool (pr\<lparr>prod_ID := i\<rparr>)) }"

fun apply_product_updates :: "(string \<times> any) list \<Rightarrow> product \<Rightarrow> product" where
  "apply_product_updates [] pr = pr"
| "apply_product_updates ((field, v) # us) pr = apply_product_updates us
     (case v of
        AStr s \<Rightarrow> if field = ''name'' then pr\<lparr>prod_DisplayName := s\<rparr>
                 else if field = ''description'' then pr\<lparr>prod_Description := s\<rparr> else pr
      | ABool b \<Rightarrow> if field = ''is_active'' then pr\<lparr>prod_IsActive := b\<rparr> else pr
      | _ \<Rightarrow> pr)"

definition UpdateProduct :: "uuid \<Rightarrow> (string \<times> any) list \<Rightarrow> unit go" where
  "UpdateProduct i updates = do {
     r \<leftarrow> Product_GetByID Pool i;
     (case r of
        Inl e \<Rightarrow> throw (wrap_err ''product not found'' e)
      | Inr pr \<Rightarrow> Product_Update Pool (apply_product_updates updates pr))
   }"

definition CreatePrice :: "price \<Rightarrow> unit go" where
  "CreatePrice p = do { i \<leftarrow> new_uuid; forget_result (Price_Create Pool (p\<lparr>price_ID := i\<rparr>)) }"

definition CreateManualRoleGrant :: "bool \<Rightarrow> string \<Rightarrow> int option \<Rightarrow> unit go" where
  "CreateManualRoleGrant ents u durationDays = (if \<not> ents then ok () else do {
     now \<leftarrow> now_m;
     forget_result (GrantWindow Pool u ''premium'' now
       (case durationDays of Some d \<Rightarrow> if d > 0 then Some (time_add now (days_dur d)) else None | None \<Rightarrow> None)
       EntitlementSourceAdmin None)
   })"

text \<open>The entitlements a one-off purchase grants, with their days.\<close>

definition one_off_grants :: "product \<Rightarrow> (string \<times> int) list" where
  "one_off_grants pr = (if prod_EntitlementsSpec pr = [] then [(''premium'', 30)]
     else map (\<lambda>(name, d). (name, case d of Some n \<Rightarrow> if n \<le> 0 then 30 else n | None \<Rightarrow> 30)) (prod_EntitlementsSpec pr))"

definition not_entitled_indefinitely :: "string \<Rightarrow> string \<times> int \<Rightarrow> unit go" where
  "not_entitled_indefinitely u g = do {
     now \<leftarrow> now_m;
     r \<leftarrow> EntRepo_HasActiveIndefinite Pool u (fst g) now;
     (case r of
        Inl e \<Rightarrow> throw (wrap_err ''failed entitlement check'' e)
      | Inr exists \<Rightarrow>
          if exists then throw (ErrNew (''one-off purchase not allowed while subscription entitlement '' @ quoted (fst g) @ '' is active''))
          else ok ())
   }"

definition paypal_purchase :: "string \<Rightarrow> uuid \<Rightarrow> string \<Rightarrow> price \<Rightarrow> uuid \<Rightarrow> time \<Rightarrow> time \<Rightarrow> payment" where
  "paypal_purchase u priceID txn p i now1 now2 = \<lparr>pay_ID = i, pay_UserID = u, pay_PriceID = priceID, pay_SubscriptionID = None,
     pay_RefundedPaymentID = None, pay_Processor = ProcessorPayPal, pay_ProcessorProvider = None, pay_TransactionID = txn,
     pay_Amount = price_Amount p, pay_Currency = price_Currency p, pay_PurchasedAt = now1, pay_CreatedAt = now2\<rparr>"

definition append_grant :: "string \<Rightarrow> uuid \<Rightarrow> string \<times> int \<Rightarrow> unit go" where
  "append_grant u purchaseID g = do {
     r \<leftarrow> AppendEntitlementDays Pool u (fst g) (snd g) EntitlementSourceOneOff (Some purchaseID);
     (case r of Inl e \<Rightarrow> throw (wrap_err (''failed to grant entitlement '' @ fst g) e) | Inr _ \<Rightarrow> ok ())
   }"

definition record_purchase :: "bool \<Rightarrow> string \<Rightarrow> uuid \<Rightarrow> string \<Rightarrow> price \<Rightarrow> (string \<times> int) list \<Rightarrow> unit go" where
  "record_purchase ents u priceID txn p grants = do {
     i \<leftarrow> new_uuid;
     now1 \<leftarrow> now_m;
     now2 \<leftarrow> now_m;
     c \<leftarrow> Payment_Create Pool (paypal_purchase u priceID txn p i now1 now2);
     (case c of
        Inl e \<Rightarrow> throw (wrap_err ''failed to create purchase record'' e)
      | Inr _ \<Rightarrow> if ents then for_each grants (append_grant u i) else ok ())
   }"

definition VerifyPayPalPurchase :: "bool \<Rightarrow> string \<Rightarrow> uuid \<Rightarrow> string \<Rightarrow> unit go" where
  "VerifyPayPalPurchase ents u priceID txn = do {
     r \<leftarrow> Price_GetByID Pool priceID;
     (case r of
        Inl e \<Rightarrow> throw (wrap_err ''failed to get price'' e)
      | Inr p \<Rightarrow> do {
          q \<leftarrow> Product_GetByID Pool (price_ProductID p);
          (case q of
             Inl e \<Rightarrow> throw (wrap_err ''failed to get product'' e)
           | Inr pr \<Rightarrow> do {
               let grants = one_off_grants pr;
               c \<leftarrow> (if ents then for_each grants (not_entitled_indefinitely u) else ok ());
               (case c of Inl e \<Rightarrow> throw e | Inr _ \<Rightarrow> record_purchase ents u priceID txn p grants)
             })
        })
   }"

definition GetAllPurchases :: "payment_filters \<Rightarrow> query_options \<Rightarrow> (payment list \<times> nat) go" where
  "GetAllPurchases f o' = do {
     r \<leftarrow> PayStore_GetPayments Pool f o';
     (case r of Inl e \<Rightarrow> throw (wrap_err ''failed to get purchases'' e) | Inr x \<Rightarrow> ok x)
   }"

definition GetAllNotifications :: "nq_filters \<Rightarrow> query_options \<Rightarrow> (notification list \<times> nat) go" where
  "GetAllNotifications f o' = do {
     r \<leftarrow> NQRepo_GetNotifications Pool f o';
     (case r of Inl e \<Rightarrow> throw (wrap_err ''failed to get notifications'' e) | Inr x \<Rightarrow> ok x)
   }"

definition SendManualNotification :: "string \<Rightarrow> notif_event \<Rightarrow> string \<Rightarrow> unit go" where
  "SendManualNotification u ev msg = do {
     i \<leftarrow> new_uuid;
     forget_result (NQRepo_Create Pool (new_notification i u ev [(''message'', MStr msg), (''source'', MStr ''admin_manual'')]))
   }"

section \<open>UserSubscriptionService: access\<close>

record access_grant =
  ag_Kind :: string
  ag_Entitlement :: string
  ag_SourceType :: "source_type option"
  ag_SourceID :: "uuid option"
  ag_SubscriptionID :: "uuid option"
  ag_Processor :: string
  ag_ProcessorSubscriptionID :: "string option"
  ag_StartAt :: time
  ag_EndAt :: "time option"

definition accessFromSubscription :: "subscription \<Rightarrow> access_grant" where
  "accessFromSubscription s = \<lparr>ag_Kind = ''subscription'', ag_Entitlement = ''premium'', ag_SourceType = None, ag_SourceID = None,
     ag_SubscriptionID = (if sub_ID s \<noteq> 0 then Some (sub_ID s) else None), ag_Processor = processor_str (sub_Processor s),
     ag_ProcessorSubscriptionID = (if sub_ProcessorSubscriptionID s \<noteq> '''' then Some (sub_ProcessorSubscriptionID s) else None),
     ag_StartAt = (if set_time (sub_CurrentPeriodStartsAt s) then the (sub_CurrentPeriodStartsAt s) else sub_StartedAt s),
     ag_EndAt = (if set_time (sub_CurrentPeriodEndsAt s) then sub_CurrentPeriodEndsAt s else None)\<rparr>"

definition skipped :: "uuid list \<Rightarrow> entitlement \<Rightarrow> bool" where
  "skipped skip e \<longleftrightarrow> ent_Entitlement e = '''' \<or>
     (ent_SourceType e = EntitlementSourceSubscription \<and> (case ent_SourceID e of Some i \<Rightarrow> i \<in> set skip | None \<Rightarrow> False))"

definition grant_of :: "entitlement \<Rightarrow> access_grant" where
  "grant_of e = \<lparr>ag_Kind = ''entitlement'', ag_Entitlement = ent_Entitlement e, ag_SourceType = Some (ent_SourceType e),
     ag_SourceID = ent_SourceID e,
     ag_SubscriptionID = (if ent_SourceType e = EntitlementSourceSubscription then ent_SourceID e else None),
     ag_Processor = '''', ag_ProcessorSubscriptionID = None, ag_StartAt = ent_StartAt e, ag_EndAt = ent_EndAt e\<rparr>"

definition entitlementAccessGrants :: "bool \<Rightarrow> string \<Rightarrow> uuid list \<Rightarrow> access_grant list go" where
  "entitlementAccessGrants ents u skip = (if \<not> ents then ok [] else do {
     now \<leftarrow> now_m;
     r \<leftarrow> EntRepo_ListActiveRecords Pool u now;
     (case r of
        Inl e \<Rightarrow> throw (wrap_err ''failed to list entitlements'' e)
      | Inr es \<Rightarrow> ok (map grant_of (filter (\<lambda>e. \<not> skipped skip e) es)))
   })"

definition activeEntitlementAccess :: "bool \<Rightarrow> string \<Rightarrow> access_grant option go" where
  "activeEntitlementAccess ents u = do {
     r \<leftarrow> entitlementAccessGrants ents u [];
     (case r of Inl e \<Rightarrow> throw e | Inr gs \<Rightarrow> ok (case gs of [] \<Rightarrow> None | g # _ \<Rightarrow> Some g))
   }"

record user_subscription =
  us_Subscription :: "subscription option"
  us_Product :: "product option"
  us_Price :: "price option"
  us_Access :: "access_grant option"

text \<open>A subscription without a price (\<open>uuid.Nil\<close>) is not enriched.\<close>

definition user_enrich :: "subscription \<Rightarrow> access_grant option \<Rightarrow> (world, user_subscription) state" where
  "user_enrich s access =
     (if sub_PriceID s = 0 then State_Monad.return \<lparr>us_Subscription = Some s, us_Product = None, us_Price = None, us_Access = access\<rparr>
      else do {
        e \<leftarrow> enrich s;
        State_Monad.return \<lparr>us_Subscription = Some s, us_Product = en_Product e, us_Price = en_Price e, us_Access = access\<rparr>
      })"

definition GetUserSubscription :: "bool \<Rightarrow> string \<Rightarrow> user_subscription go" where
  "GetUserSubscription ents u = do {
     r \<leftarrow> SubRepo_GetActiveSubscription Pool u;
     (case r of
        Inr s \<Rightarrow> do { x \<leftarrow> user_enrich s (Some (accessFromSubscription s)); ok x }
      | Inl e \<Rightarrow>
          if err_is e ErrNoRows then do {
            a \<leftarrow> activeEntitlementAccess ents u;
            (case a of
               Inl e \<Rightarrow> throw e
             | Inr (Some g) \<Rightarrow> ok \<lparr>us_Subscription = None, us_Product = None, us_Price = None, us_Access = Some g\<rparr>
             | Inr None \<Rightarrow> throw ErrNoRows)
          } else throw (wrap_err ''failed to get subscription'' e))
   }"

text \<open>\<open>subs\<close>: there is a subscription service.\<close>

definition GetUserAccessStatus :: "bool \<Rightarrow> bool \<Rightarrow> string \<Rightarrow> access_grant list go" where
  "GetUserAccessStatus subs ents u = do {
     r \<leftarrow> (if subs then SubRepo_GetActiveSubscription Pool u else throw ErrNoRows);
     (case (case r of
          Inr s \<Rightarrow> Inr ([accessFromSubscription s], [sub_ID s])
        | Inl e \<Rightarrow> if err_is e ErrNoRows then Inr ([], []) else Inl (wrap_err ''failed to fetch subscription access'' e)) of
        Inl e \<Rightarrow> throw e
      | Inr (gs, skip) \<Rightarrow> do {
          x \<leftarrow> entitlementAccessGrants ents u skip;
          (case x of Inl e \<Rightarrow> throw e | Inr es \<Rightarrow> if gs @ es = [] then throw ErrNoRows else ok (gs @ es))
        })
   }"

section \<open>UserSubscriptionService: listings, notifications and cancellation\<close>

definition GetUserSubscriptionHistory :: "string \<Rightarrow> sub_filters \<Rightarrow> query_options \<Rightarrow> (user_subscription list \<times> nat) go" where
  "GetUserSubscriptionHistory u f o' = do {
     r \<leftarrow> GetSubscribers (if sf_UserID f = '''' then f\<lparr>sf_UserID := u\<rparr> else f) o';
     (case r of
        Inl e \<Rightarrow> throw (wrap_err ''failed to get subscription history'' e)
      | Inr (ss, n) \<Rightarrow> do { es \<leftarrow> map_m (\<lambda>s. user_enrich s None) ss; ok (es, n) })
   }"

definition GetUserPayments :: "string \<Rightarrow> payment_filters \<Rightarrow> query_options \<Rightarrow> (payment list \<times> nat) go" where
  "GetUserPayments u f o' = GetAllPurchases (if pf_UserID f = '''' then f\<lparr>pf_UserID := u\<rparr> else f) o'"

definition GetUserNotifications :: "string \<Rightarrow> nq_filters \<Rightarrow> query_options \<Rightarrow> (notification list \<times> nat) go" where
  "GetUserNotifications u f o' = GetAllNotifications (if nf_UserID f = '''' then f\<lparr>nf_UserID := u\<rparr> else f) o'"

definition ErrNotificationNotFound :: go_err where
  "ErrNotificationNotFound = Sentinel ''notification not found''"

definition ErrNotificationAccessDenied :: go_err where
  "ErrNotificationAccessDenied = Sentinel ''notification does not belong to user''"

definition MarkNotificationRead :: "string \<Rightarrow> uuid \<Rightarrow> unit go" where
  "MarkNotificationRead u i = do {
     r \<leftarrow> NQRepo_GetByID Pool i;
     (case r of
        Inl e \<Rightarrow> throw (wrap_both ErrNotificationNotFound e)
      | Inr n \<Rightarrow> if nq_UserID n \<noteq> u then throw ErrNotificationAccessDenied else NQRepo_Update Pool (MarkAsSeen n))
   }"

definition cancel_gateway :: "subscription \<Rightarrow> string" where
  "cancel_gateway s =
     (let p1 = (case sub_ProcessorProvider s of Some p \<Rightarrow> to_lower (trim_space p) | None \<Rightarrow> '''');
          p2 = (if p1 = '''' then (case sub_Price s of
                  Some pr \<Rightarrow> (case price_NMIProvider pr of Some p \<Rightarrow> to_lower (trim_space p) | None \<Rightarrow> '''') | None \<Rightarrow> '''') else p1)
      in if p2 = '''' then ''mobius'' else p2)"

text \<open>The recurring payment is deleted at the gateway, by the identifier of the plan.\<close>

definition cancel_recurring :: "nmi_clients option \<Rightarrow> subscription \<Rightarrow> unit go" where
  "cancel_recurring clients s = (case clients of
     None \<Rightarrow> ok ()
   | Some cs \<Rightarrow> (case (map_of cs (cancel_gateway s), sub_Price s) of
       (Some client, Some pr) \<Rightarrow> (case price_NMIPlanID pr of
           Some plan \<Rightarrow> do {
             r \<leftarrow> DeleteRecurringSubscription client plan;
             (case r of
                Inl e \<Rightarrow> throw (wrap_err (''failed to cancel subscription with NMI provider '' @ quoted (cancel_gateway s)) e)
              | Inr _ \<Rightarrow> ok ())
           }
         | None \<Rightarrow> ok ())
     | _ \<Rightarrow> ok ()))"

definition User_CancelUserSubscription :: "nmi_clients option \<Rightarrow> string \<Rightarrow> string \<Rightarrow> unit go" where
  "User_CancelUserSubscription clients u feedback = do {
     r \<leftarrow> SubRepo_GetActiveSubscription Pool u;
     (case r of
        Inl e \<Rightarrow> throw (wrap_both ErrSubscriptionNotFound e)
      | Inr s \<Rightarrow>
          if sub_Processor s \<noteq> ProcessorNMI
          then throw (ErrNew (''unable to cancel subscription for processor '' @ processor_str (sub_Processor s)))
          else do {
            c \<leftarrow> cancel_recurring clients s;
            (case c of Inl e \<Rightarrow> throw e | Inr _ \<Rightarrow> premium_ended u PremiumEndReasonUserCancel)
          })
   }"

end
