(* ===== verification/Solana_Chain.thy ===== *)
theory Solana_Chain
  imports Encoding
begin

text \<open>
  \<open>internal/manager/api/solana/solana_transaction.go\<close>, the verification of a transaction on the chain. What the
  \<open>solana-go\<close> library says of a transaction is data: its keys by their base58 text, and of an instruction the
  program and the accounts it resolves to and what its decoder makes of it (\<open>None\<close>: an error). \<open>sol_lib\<close> holds
  the functions of the library on keys, \<open>PublicKeyFromBase58\<close> and \<open>FindAssociatedTokenAddress\<close>, and on transactions: \<open>sl_Parse\<close>
  gives the account keys and signatures of a transaction in base64 (\<open>None\<close>: it is not one), \<open>sl_Build\<close> makes a transaction of
  an instruction, a block hash and a payer (\<open>NewTransaction\<close>), and \<open>sl_Marshal\<close> writes it in base64.
\<close>

datatype sol_decoded =
    SysTransfer "64 word option" "string option" "string option"
  | TokTransfer "64 word option"
  | TokTransferChecked "64 word option"
  | OtherInstruction

record sol_instruction =
  si_Program :: "string option"
  si_AccountIndexes :: "nat list"
  si_Accounts :: "string list option"
  si_Data :: string
  si_Decoded :: "sol_decoded option"

record sol_message =
  sm_AccountKeys :: "string list"
  sm_Instructions :: "sol_instruction list"

record sol_token_balance =
  tb_AccountIndex :: nat
  tb_Mint :: string
  tb_Amount :: "string option"

record sol_meta =
  mt_Err :: "string option"
  mt_PreBalances :: "64 word list"
  mt_PostBalances :: "64 word list"
  mt_PreTokenBalances :: "sol_token_balance list"
  mt_PostTokenBalances :: "sol_token_balance list"
  mt_LoadedWritable :: "string list"
  mt_LoadedReadOnly :: "string list"

text \<open>\<open>GetTransactionResult\<close>: \<open>rs_Transaction\<close> is \<open>None\<close> for nil, \<open>Inl\<close> when it does not decode.\<close>

record sol_result =
  rs_Slot :: nat
  rs_BlockTime :: "int option"
  rs_Meta :: "sol_meta option"
  rs_Transaction :: "(string + sol_message) option"

text \<open>An instruction to build: a native transfer, or one between the token accounts of two wallets.\<close>

datatype sol_transfer =
    NativeTransfer "64 word" string string
  | TokenTransfer "64 word" string string string

record sol_lib =
  sl_SystemProgram :: string
  sl_TokenProgram :: string
  sl_MemoProgram :: string
  sl_Key :: "string \<Rightarrow> string + string"
  sl_ATA :: "string \<Rightarrow> string \<Rightarrow> string + string"
  sl_Parse :: "string \<Rightarrow> (string list \<times> string list) option"
  sl_Build :: "sol_transfer \<Rightarrow> string \<Rightarrow> string \<Rightarrow> string + string"
  sl_Marshal :: "string \<Rightarrow> string + string"

section \<open>Mints\<close>

definition normalizeMint :: "string \<Rightarrow> string" where
  "normalizeMint m = to_upper (trim_space m)"

definition wrappedSOLMint :: string where
  "wrappedSOLMint = ''So11111111111111111111111111111111111111112''"

definition isNativeSOLMint :: "string \<Rightarrow> bool" where
  "isNativeSOLMint m \<longleftrightarrow> to_upper (trim_space m) \<in> {'''', to_upper wrappedSOLMint}"

definition mintMatches :: "string \<Rightarrow> string \<Rightarrow> bool" where
  "mintMatches expected actual \<longleftrightarrow> (let e = normalizeMint expected; a = normalizeMint actual in
     if e = '''' \<or> a = '''' then e = a else (isNativeSOLMint e \<and> isNativeSOLMint a) \<or> e = a)"

definition mintForAccount :: "sol_meta \<Rightarrow> nat \<Rightarrow> string" where
  "mintForAccount m i = (case find (\<lambda>b. tb_AccountIndex b = i) (mt_PostTokenBalances m) of Some b \<Rightarrow> tb_Mint b | None \<Rightarrow> '''')"

section \<open>Transfers\<close>

record transfer_match =
  tm_Program :: string
  tm_Amount :: "64 word"
  tm_Source :: string
  tm_Destination :: string
  tm_Mint :: string
  tm_AccountIndex :: nat

definition accountIndexFromInstruction :: "sol_instruction \<Rightarrow> nat \<Rightarrow> nat option" where
  "accountIndexFromInstruction i pos = (if pos \<ge> length (si_AccountIndexes i) then None else Some (si_AccountIndexes i ! pos))"

definition evaluateSystemTransfer ::
  "64 word option \<Rightarrow> string option \<Rightarrow> string option \<Rightarrow> nat option \<Rightarrow> string list \<Rightarrow> 64 word \<Rightarrow> string \<Rightarrow> transfer_match option" where
  "evaluateSystemTransfer lamports source dest idx candidates expectedAmount expectedPayer =
     (case (lamports, idx, source, dest) of
        (Some l, Some i, Some s, Some d) \<Rightarrow>
          if (expectedPayer \<noteq> '''' \<and> s \<noteq> expectedPayer) \<or> d \<notin> set candidates \<or> l < expectedAmount then None
          else Some \<lparr>tm_Program = ''system'', tm_Amount = l, tm_Source = s, tm_Destination = d, tm_Mint = '''', tm_AccountIndex = i\<rparr>
      | _ \<Rightarrow> None)"

definition evaluateTokenTransfer ::
  "sol_meta \<Rightarrow> string list \<Rightarrow> 64 word option \<Rightarrow> nat option \<Rightarrow> string list \<Rightarrow> string \<Rightarrow> 64 word \<Rightarrow> string \<Rightarrow> transfer_match option" where
  "evaluateTokenTransfer m accounts amount idx candidates expectedMint expectedAmount expectedPayer =
     (case (amount, idx) of
        (Some a, Some i) \<Rightarrow>
          if length accounts < 3 \<or> accounts ! 1 \<notin> set candidates \<or> (expectedPayer \<noteq> '''' \<and> accounts ! 2 \<noteq> expectedPayer) then None
          else let mint = mintForAccount m i in
            if (expectedMint \<noteq> '''' \<and> mint \<noteq> '''' \<and> \<not> mintMatches expectedMint mint) \<or> a < expectedAmount then None
            else Some \<lparr>tm_Program = ''token'', tm_Amount = a, tm_Source = accounts ! 0, tm_Destination = accounts ! 1,
              tm_Mint = mint, tm_AccountIndex = i\<rparr>
      | _ \<Rightarrow> None)"

definition evaluateTokenTransferChecked ::
  "sol_meta \<Rightarrow> string list \<Rightarrow> 64 word option \<Rightarrow> nat option \<Rightarrow> string list \<Rightarrow> string \<Rightarrow> 64 word \<Rightarrow> string \<Rightarrow> transfer_match option" where
  "evaluateTokenTransferChecked m accounts amount idx candidates expectedMint expectedAmount expectedPayer =
     (case (amount, idx) of
        (Some a, Some i) \<Rightarrow>
          if length accounts < 4 \<or> accounts ! 2 \<notin> set candidates \<or> (expectedPayer \<noteq> '''' \<and> accounts ! 3 \<noteq> expectedPayer) then None
          else let mint = (if accounts ! 1 = '''' then mintForAccount m i else accounts ! 1) in
            if (expectedMint \<noteq> '''' \<and> mint \<noteq> '''' \<and> \<not> mintMatches expectedMint mint) \<or> a < expectedAmount then None
            else Some \<lparr>tm_Program = ''token'', tm_Amount = a, tm_Source = accounts ! 0, tm_Destination = accounts ! 2,
              tm_Mint = mint, tm_AccountIndex = i\<rparr>
      | _ \<Rightarrow> None)"

definition pickBetterMatch :: "transfer_match option \<Rightarrow> transfer_match option \<Rightarrow> transfer_match option" where
  "pickBetterMatch current candidate = (case candidate of
     None \<Rightarrow> current
   | Some c \<Rightarrow> (case current of None \<Rightarrow> candidate | Some b \<Rightarrow> if tm_Amount c > tm_Amount b then candidate else current))"

text \<open>One instruction: the transfer it makes to a candidate, if it is one that qualifies.\<close>

definition instruction_match ::
  "sol_lib \<Rightarrow> sol_meta \<Rightarrow> string list \<Rightarrow> string \<Rightarrow> 64 word \<Rightarrow> string \<Rightarrow> sol_instruction \<Rightarrow> transfer_match option" where
  "instruction_match lib m candidates mint amount payer i =
     (case (si_Program i, si_Accounts i, si_Decoded i) of
        (Some p, Some accounts, Some dec) \<Rightarrow>
          if p = sl_SystemProgram lib then
            (case dec of
               SysTransfer l s d \<Rightarrow> evaluateSystemTransfer l s d (accountIndexFromInstruction i 1) candidates amount payer
             | _ \<Rightarrow> None)
          else if p = sl_TokenProgram lib then
            (case dec of
               TokTransfer a \<Rightarrow> evaluateTokenTransfer m accounts a (accountIndexFromInstruction i 1) candidates mint amount payer
             | TokTransferChecked a \<Rightarrow> evaluateTokenTransferChecked m accounts a (accountIndexFromInstruction i 2) candidates mint amount payer
             | _ \<Rightarrow> None)
          else None
      | _ \<Rightarrow> None)"

fun invalid_candidate :: "sol_lib \<Rightarrow> string list \<Rightarrow> go_err option" where
  "invalid_candidate lib [] = None"
| "invalid_candidate lib (c # cs) = (case sl_Key lib c of
     Inl e \<Rightarrow> Some (ErrWrap (''invalid recipient candidate '' @ c) (ErrNew e)) | Inr _ \<Rightarrow> invalid_candidate lib cs)"

definition findTransferMatch ::
  "sol_lib \<Rightarrow> sol_meta \<Rightarrow> sol_message \<Rightarrow> string list \<Rightarrow> string \<Rightarrow> 64 word \<Rightarrow> string \<Rightarrow> transfer_match option res" where
  "findTransferMatch lib m msg candidates mint amount payer =
     (if candidates = [] then Inl (ErrNew ''no recipient candidates provided'')
      else (case invalid_candidate lib candidates of
          Some e \<Rightarrow> Inl e
        | None \<Rightarrow> Inr (foldl (\<lambda>best i. pickBetterMatch best (instruction_match lib m candidates (normalizeMint mint) amount payer i))
            None (sm_Instructions msg))))"

section \<open>Balances\<close>

definition parse_uint64 :: "string \<Rightarrow> 64 word option" where
  "parse_uint64 s = (if s = [] \<or> \<not> list_all is_digit s then None
     else let n = digits_int s in if n < 2 ^ 64 then Some (word_of_int n) else None)"

text \<open>The error of \<open>ParseUint\<close> is not modelled beyond its being one.\<close>

definition token_amount :: "string \<Rightarrow> sol_token_balance \<Rightarrow> 64 word res" where
  "token_amount missing b = (case tb_Amount b of
     None \<Rightarrow> Inl (ErrNew missing)
   | Some s \<Rightarrow> (case parse_uint64 s of None \<Rightarrow> Inl (ErrNew (''strconv.ParseUint: parsing '' @ s)) | Some n \<Rightarrow> Inr n))"

definition tokenBalanceDelta :: "sol_meta \<Rightarrow> nat \<Rightarrow> (64 word \<times> 64 word) res" where
  "tokenBalanceDelta m i = (case find (\<lambda>b. tb_AccountIndex b = i) (mt_PostTokenBalances m) of
     None \<Rightarrow> Inl (ErrNew ''token balance not found'')
   | Some b \<Rightarrow> (case token_amount ''post token amount missing'' b of
       Inl e \<Rightarrow> Inl e
     | Inr post \<Rightarrow> (case find (\<lambda>b. tb_AccountIndex b = i) (mt_PreTokenBalances m) of
         None \<Rightarrow> Inr (post, 0)
       | Some p \<Rightarrow> (case token_amount ''pre token amount missing'' p of Inl e \<Rightarrow> Inl e | Inr pre \<Rightarrow> Inr (post, pre)))))"

definition lamports_received :: "sol_meta \<Rightarrow> nat \<Rightarrow> 64 word \<Rightarrow> bool" where
  "lamports_received m i expected \<longleftrightarrow> i < length (mt_PostBalances m) \<and> i < length (mt_PreBalances m) \<and>
     mt_PreBalances m ! i \<le> mt_PostBalances m ! i \<and> expected \<le> mt_PostBalances m ! i - mt_PreBalances m ! i"

definition verifyBalanceChanges :: "sol_meta \<Rightarrow> nat \<Rightarrow> string \<Rightarrow> 64 word \<Rightarrow> unit res" where
  "verifyBalanceChanges m i account expected =
     (if lamports_received m i expected then Inr ()
      else (case tokenBalanceDelta m i of
          Inl e \<Rightarrow> Inl (wrap_err (''unable to confirm balance change for account '' @ account) e)
        | Inr (post, pre) \<Rightarrow>
            if post < pre then Inl (ErrNew (''token balance decreased for account '' @ account))
            else if post - pre < expected then Inl (ErrNew ''token transfer amount insufficient'')
            else Inr ()))"

section \<open>validateTransactionContent\<close>

definition messageContainsKey :: "sol_message \<Rightarrow> sol_meta \<Rightarrow> string \<Rightarrow> bool" where
  "messageContainsKey msg m k \<longleftrightarrow> k \<in> set (sm_AccountKeys msg) \<or> k \<in> set (mt_LoadedWritable m) \<or> k \<in> set (mt_LoadedReadOnly m)"

definition deriveRecipientTokenAccount :: "sol_lib \<Rightarrow> string \<Rightarrow> string \<Rightarrow> string res" where
  "deriveRecipientTokenAccount lib recipient mint =
     (if trim_space mint = '''' then Inr ''''
      else (case sl_Key lib recipient of
          Inl e \<Rightarrow> Inl (ErrNew e)
        | Inr r \<Rightarrow> (case sl_Key lib mint of
            Inl e \<Rightarrow> Inl (ErrNew e)
          | Inr k \<Rightarrow> (case sl_ATA lib r k of Inl e \<Rightarrow> Inl (ErrNew e) | Inr a \<Rightarrow> Inr a))))"

definition recipient_candidates :: "sol_lib \<Rightarrow> string \<Rightarrow> string \<Rightarrow> string list" where
  "recipient_candidates lib recipient mint = (case deriveRecipientTokenAccount lib recipient mint of
     Inr d \<Rightarrow> if d \<noteq> '''' then [recipient, d] else [recipient] | Inl _ \<Rightarrow> [recipient])"

definition payer_ok :: "sol_lib \<Rightarrow> sol_message \<Rightarrow> string \<Rightarrow> unit res" where
  "payer_ok lib msg payer = (if payer = '''' then Inr ()
     else (case sl_Key lib payer of
         Inl e \<Rightarrow> Inl (ErrWrap ''invalid expected payer'' (ErrNew e))
       | Inr k \<Rightarrow> (case sm_AccountKeys msg of
           k0 # _ \<Rightarrow> if k0 = k then Inr () else Inl (ErrNew ''transaction fee payer does not match expected wallet'')
         | [] \<Rightarrow> Inl (ErrNew ''transaction fee payer does not match expected wallet''))))"

definition reference_ok :: "sol_lib \<Rightarrow> sol_message \<Rightarrow> sol_meta \<Rightarrow> string option \<Rightarrow> unit res" where
  "reference_ok lib msg m reference = (case reference of
     None \<Rightarrow> Inr ()
   | Some r \<Rightarrow> if r = '''' then Inr ()
       else (case sl_Key lib r of
           Inl e \<Rightarrow> Inl (ErrWrap ''invalid reference key'' (ErrNew e))
         | Inr k \<Rightarrow> if messageContainsKey msg m k then Inr () else Inl (ErrNew ''reference key not included in transaction'')))"

text \<open>The metadata is not nil: \<open>fetchConfirmedTransaction\<close> has checked it.\<close>

definition validateTransactionContent ::
  "sol_lib \<Rightarrow> sol_result \<Rightarrow> sol_meta \<Rightarrow> 64 word \<Rightarrow> string \<Rightarrow> string \<Rightarrow> string \<Rightarrow> string option \<Rightarrow> unit res" where
  "validateTransactionContent lib r m amount recipient mint payer reference = (case rs_Transaction r of
     None \<Rightarrow> Inl (ErrNew ''transaction data not available'')
   | Some (Inl e) \<Rightarrow> Inl (ErrWrap ''failed to decode transaction'' (ErrNew e))
   | Some (Inr msg) \<Rightarrow> (case payer_ok lib msg payer of
       Inl e \<Rightarrow> Inl e
     | Inr _ \<Rightarrow> (case reference_ok lib msg m reference of
         Inl e \<Rightarrow> Inl e
       | Inr _ \<Rightarrow> (case findTransferMatch lib m msg (recipient_candidates lib recipient mint) mint amount payer of
           Inl e \<Rightarrow> Inl e
         | Inr None \<Rightarrow> Inl (ErrNew (''no qualifying transfer found for recipient '' @ recipient))
         | Inr (Some x) \<Rightarrow> verifyBalanceChanges m (tm_AccountIndex x) (tm_Destination x) amount))))"

section \<open>The chain\<close>

text \<open>
  The answers of the RPC client during one request: the polls of the status of a signature before the context of
  \<open>ConfirmTransaction\<close> ends, the answers of the attempts at \<open>GetTransaction\<close>, and whether the context is done
  after one; and those to a transaction sent (the signature), to the search for the signatures of an address and for the
  latest block hash.
\<close>

datatype poll = PollFailed | NoStatus | Polled "string option" string

record sol_rpc =
  rpc_Signature :: "string \<Rightarrow> string + string"
  rpc_Polls :: "string \<Rightarrow> poll list"
  rpc_Get :: "string \<Rightarrow> nat \<Rightarrow> sol_result res"
  rpc_Done :: "nat \<Rightarrow> go_err option"
  rpc_Send :: "string \<Rightarrow> string + string"
  rpc_SignaturesFor :: "string \<Rightarrow> string list res"
  rpc_Blockhash :: "string + string"

fun confirmed_by :: "string \<Rightarrow> poll list \<Rightarrow> unit res" where
  "confirmed_by sig [] = Inl (ErrNew (''transaction confirmation timeout for '' @ sig))"
| "confirmed_by sig (p # ps) = (case p of
     Polled (Some e) _ \<Rightarrow> Inl (ErrNew (''transaction failed: '' @ e))
   | Polled None level \<Rightarrow> if level = ''confirmed'' \<or> level = ''finalized'' then Inr () else confirmed_by sig ps
   | _ \<Rightarrow> confirmed_by sig ps)"

definition isNotFoundError :: "go_err \<Rightarrow> bool" where
  "isNotFoundError e \<longleftrightarrow> contains (to_lower (err_text e)) ''not found''"

text \<open>\<open>left\<close> attempts are left, this is attempt \<open>i\<close>; an error that is not \<open>not found\<close> ends them.\<close>

fun GetTransactionWithRetry :: "sol_rpc \<Rightarrow> string \<Rightarrow> nat \<Rightarrow> nat \<Rightarrow> go_err \<Rightarrow> sol_result res" where
  "GetTransactionWithRetry c sig i 0 lastErr = Inl lastErr"
| "GetTransactionWithRetry c sig i (Suc n) lastErr = (case rpc_Get c sig i of
     Inr r \<Rightarrow> Inr r
   | Inl e \<Rightarrow>
       if \<not> isNotFoundError e then Inl e
       else (case rpc_Done c i of Some d \<Rightarrow> Inl d | None \<Rightarrow> GetTransactionWithRetry c sig (Suc i) n e))"

definition fetchConfirmedTransaction :: "sol_rpc \<Rightarrow> string \<Rightarrow> (sol_result \<times> sol_meta) res" where
  "fetchConfirmedTransaction c signature = (case rpc_Signature c signature of
     Inl e \<Rightarrow> Inl (ErrWrap ''invalid signature format'' (ErrNew e))
   | Inr sig \<Rightarrow> (case confirmed_by sig (rpc_Polls c sig) of
       Inl e \<Rightarrow> Inl (wrap_err ''transaction confirmation failed'' e)
     | Inr _ \<Rightarrow> (case GetTransactionWithRetry c sig 0 5 (ErrNew '''') of
         Inl e \<Rightarrow> Inl (wrap_err ''failed to get transaction'' e)
       | Inr r \<Rightarrow> (case rs_Meta r of
           None \<Rightarrow> Inl (ErrNew ''transaction metadata not available'')
         | Some m \<Rightarrow> (case mt_Err m of
             Some e \<Rightarrow> Inl (ErrNew (''transaction failed on-chain: '' @ e)) | None \<Rightarrow> Inr (r, m))))))"

definition VerifyTransactionWithContent ::
  "sol_lib \<Rightarrow> sol_rpc \<Rightarrow> string \<Rightarrow> 64 word \<Rightarrow> string \<Rightarrow> string \<Rightarrow> string \<Rightarrow> string option \<Rightarrow> sol_result res" where
  "VerifyTransactionWithContent lib c signature amount recipient mint payer reference =
     (case fetchConfirmedTransaction c signature of
        Inl e \<Rightarrow> Inl e
      | Inr (r, m) \<Rightarrow>
          if amount > 0 \<and> recipient \<noteq> '''' then
            (case validateTransactionContent lib r m amount recipient mint payer reference of
               Inl e \<Rightarrow> Inl (wrap_err ''transaction content validation failed'' e) | Inr _ \<Rightarrow> Inr r)
          else Inr r)"

end
