(* ===== verification/Solana_Wallet.thy ===== *)
theory Solana_Wallet
  imports Solana_Chain Method_API
begin

text \<open>
  The wallets of a user and the proof that a wallet is theirs: \<open>internal/utils/solana/signature.go\<close>, the repositories
  \<open>internal/manager/data/repo/solana_wallet.go\<close> and \<open>solana_challenge.go\<close>, and of \<open>internal/manager/api/solana\<close> the files
  \<open>solana_wallet.go\<close>, \<open>solana_verification.go\<close>, \<open>wallet_solana.go\<close> and \<open>wallet_store.go\<close>. Of \<open>crypto/rand\<close>, \<open>crypto/ed25519\<close> and
  the base58 package the model sees their results: \<open>sv_Rand\<close> (at a step, that many bytes), \<open>sv_Verify\<close> (key, message,
  signature), \<open>sv_Encode58\<close> and \<open>sv_Decode58\<close>.
\<close>

section \<open>Addresses and signatures\<close>

definition is_base58 :: "char \<Rightarrow> bool" where
  "is_base58 c \<longleftrightarrow> c \<in> set ''123456789ABCDEFGHJKLMNPQRSTUVWXYZabcdefghijkmnopqrstuvwxyz''"

definition base58_text :: "nat \<Rightarrow> nat \<Rightarrow> string \<Rightarrow> bool" where
  "base58_text lo hi s \<longleftrightarrow> lo \<le> length s \<and> length s \<le> hi \<and> list_all is_base58 s"

definition ErrInvalidAddress :: go_err where "ErrInvalidAddress = Sentinel ''invalid Solana address''"
definition ErrInvalidSignature :: go_err where "ErrInvalidSignature = Sentinel ''invalid Solana signature''"

text \<open>\<open>fmt.Errorf\<close> of a sentinel followed by a text wraps the sentinel.\<close>

definition sentinel_with :: "go_err \<Rightarrow> string \<Rightarrow> go_err" where
  "sentinel_with e m = ErrWrap2 e (ErrNew m)"

definition ValidateAddress :: "string \<Rightarrow> unit res" where
  "ValidateAddress a = (if a = '''' then Inl (sentinel_with ErrInvalidAddress ''address cannot be empty'')
     else if \<not> base58_text 32 44 a then Inl (sentinel_with ErrInvalidAddress ''address format invalid'') else Inr ())"

definition ValidateSignature :: "string \<Rightarrow> unit res" where
  "ValidateSignature s = (if s = '''' then Inl (sentinel_with ErrInvalidSignature ''signature cannot be empty'')
     else if \<not> base58_text 87 88 s then Inl (sentinel_with ErrInvalidSignature ''signature format invalid'') else Inr ())"

definition IsValidAddress :: "string \<Rightarrow> bool" where
  "IsValidAddress a \<longleftrightarrow> (case ValidateAddress a of Inl _ \<Rightarrow> False | Inr _ \<Rightarrow> True)"

definition IsValidSignature :: "string \<Rightarrow> bool" where
  "IsValidSignature s \<longleftrightarrow> (case ValidateSignature s of Inl _ \<Rightarrow> False | Inr _ \<Rightarrow> True)"

section \<open>SolanaWalletRepo\<close>

definition wallet_of :: "string \<Rightarrow> string \<Rightarrow> sol_wallet \<Rightarrow> bool" where
  "wallet_of u a w \<longleftrightarrow> sw_UserID w = u \<and> sw_Address w = a"

text \<open>The primary key and \<open>uq_solana_wallets_address\<close>, which makes the index on user and address redundant.\<close>

definition wallets_unique :: "sol_wallet list \<Rightarrow> bool" where
  "wallets_unique ws \<longleftrightarrow> distinct (map sw_ID ws) \<and> distinct (map sw_Address ws)"

definition Wallet_GetByUserAndAddress :: "string \<Rightarrow> string \<Rightarrow> sol_wallet go" where
  "Wallet_GetByUserAndAddress u a = db_query Pool (\<lambda>now t. scan_row (find (wallet_of u a) (t_wallets t)))"

definition stored_wallet :: "time \<Rightarrow> sol_wallet \<Rightarrow> sol_wallet" where
  "stored_wallet now w = w\<lparr>sw_VerifiedAt := nz_time (sw_VerifiedAt w),
     sw_CreatedAt := (if is_zero_time (sw_CreatedAt w) then now else sw_CreatedAt w),
     sw_UpdatedAt := (if is_zero_time (sw_UpdatedAt w) then now else sw_UpdatedAt w)\<rparr>"

definition add_wallet :: "sol_wallet \<Rightarrow> tables \<Rightarrow> tables" where
  "add_wallet w t = t\<lparr>t_wallets := t_wallets t @ [w]\<rparr>"

definition ErrNoRowsAffected :: go_err where "ErrNoRowsAffected = Sentinel ''no rows affected''"

definition Wallet_Insert :: "sol_wallet \<Rightarrow> unit go" where
  "Wallet_Insert w = do {
     r \<leftarrow> db_exec Pool (\<lambda>now t. let row = stored_wallet now w in
       if wallets_unique (t_wallets (add_wallet row t)) then Inr (1 :: nat, add_wallet row) else Inl duplicate_key);
     (case r of Inl e \<Rightarrow> throw e | Inr rows \<Rightarrow> if rows < 1 then throw ErrNoRowsAffected else ok ())
   }"

definition Wallet_ListByUser :: "string \<Rightarrow> sol_wallet list go" where
  "Wallet_ListByUser u = db_query Pool (\<lambda>now t.
     Inr (sort_desc sw_CreatedAt (filter (\<lambda>w. sw_UserID w = u) (t_wallets t))))"

definition verify_wallet :: "time \<Rightarrow> sol_wallet \<Rightarrow> sol_wallet" where
  "verify_wallet now w = w\<lparr>sw_IsVerified := True, sw_VerifiedAt := Some now, sw_UpdatedAt := now\<rparr>"

definition Wallet_MarkVerified :: "string \<Rightarrow> string \<Rightarrow> time \<Rightarrow> nat go" where
  "Wallet_MarkVerified u a at' = db_exec Pool (\<lambda>now t. Inr (length (filter (wallet_of u a) (t_wallets t)),
     \<lambda>t. t\<lparr>t_wallets := update_where (wallet_of u a) (verify_wallet at') (t_wallets t)\<rparr>))"

definition Wallet_Delete :: "string \<Rightarrow> string \<Rightarrow> nat go" where
  "Wallet_Delete u a = db_exec Pool (\<lambda>now t. Inr (length (filter (wallet_of u a) (t_wallets t)),
     \<lambda>t. t\<lparr>t_wallets := filter (\<lambda>w. \<not> wallet_of u a w) (t_wallets t)\<rparr>))"

definition Wallet_GetLatest :: "string \<Rightarrow> string \<Rightarrow> sol_wallet go" where
  "Wallet_GetLatest u a = db_query Pool (\<lambda>now t. scan_row (newest sw_UpdatedAt (filter (wallet_of u a) (t_wallets t))))"

text \<open>Verified wallets sort before the others.\<close>

definition primary_wallet :: "sol_wallet list \<Rightarrow> sol_wallet option" where
  "primary_wallet ws = (case newest sw_UpdatedAt (filter sw_IsVerified ws) of
     Some w \<Rightarrow> Some w | None \<Rightarrow> newest sw_UpdatedAt ws)"

definition Wallet_GetPrimary :: "string \<Rightarrow> sol_wallet go" where
  "Wallet_GetPrimary u = db_query Pool (\<lambda>now t. scan_row (primary_wallet (filter (\<lambda>w. sw_UserID w = u) (t_wallets t))))"

section \<open>SolanaChallengeRepo\<close>

definition challenge_of :: "string \<Rightarrow> string \<Rightarrow> sol_challenge \<Rightarrow> bool" where
  "challenge_of u a c \<longleftrightarrow> swc_UserID c = u \<and> swc_Address c = a"

definition upsert_challenge :: "sol_challenge \<Rightarrow> sol_challenge list \<Rightarrow> sol_challenge list" where
  "upsert_challenge c cs = (if \<exists>x \<in> set cs. challenge_of (swc_UserID c) (swc_Address c) x
     then update_where (challenge_of (swc_UserID c) (swc_Address c))
       (\<lambda>x. x\<lparr>swc_Message := swc_Message c, swc_Nonce := swc_Nonce c, swc_ExpiresAt := swc_ExpiresAt c,
          swc_UpdatedAt := swc_UpdatedAt c\<rparr>) cs
     else cs @ [c])"

definition Challenge_Upsert :: "sol_challenge \<Rightarrow> unit go" where
  "Challenge_Upsert c = db_exec Pool (\<lambda>now t. Inr ((), \<lambda>t. t\<lparr>t_challenges := upsert_challenge c (t_challenges t)\<rparr>))"

definition Challenge_Get :: "string \<Rightarrow> string \<Rightarrow> sol_challenge go" where
  "Challenge_Get u a = db_query Pool (\<lambda>now t. scan_row (find (challenge_of u a) (t_challenges t)))"

definition Challenge_Delete :: "string \<Rightarrow> string \<Rightarrow> unit go" where
  "Challenge_Delete u a = db_exec Pool (\<lambda>now t. Inr ((),
     \<lambda>t. t\<lparr>t_challenges := filter (\<lambda>c. \<not> challenge_of u a c) (t_challenges t)\<rparr>))"

definition Challenge_DeleteExpired :: "time \<Rightarrow> unit go" where
  "Challenge_DeleteExpired cutoff = db_exec Pool (\<lambda>now t. Inr ((),
     \<lambda>t. t\<lparr>t_challenges := filter (\<lambda>c. \<not> swc_ExpiresAt c < cutoff) (t_challenges t)\<rparr>))"

section \<open>SolanaWalletService\<close>

definition ErrWalletNotFound :: go_err where "ErrWalletNotFound = Sentinel ''wallet not found''"
definition ErrWalletAlreadyExists :: go_err where "ErrWalletAlreadyExists = Sentinel ''wallet already exists''"

text \<open>The checks the operations on one wallet begin with.\<close>

definition for_wallet :: "string \<Rightarrow> string \<Rightarrow> 'a go \<Rightarrow> 'a go" where
  "for_wallet u a m = (if u = '''' then throw (ErrNew ''userID cannot be empty'')
     else (case ValidateAddress a of Inl e \<Rightarrow> throw (wrap_err ''address validation failed'' e) | Inr _ \<Rightarrow> m))"

definition wallet_missing :: "string \<Rightarrow> string \<Rightarrow> go_err" where
  "wallet_missing u a = sentinel_with ErrWalletNotFound (''wallet '' @ a @ '' for user '' @ u)"

definition new_wallet :: "string \<Rightarrow> string \<Rightarrow> time \<Rightarrow> uuid \<Rightarrow> sol_wallet" where
  "new_wallet u a now i = \<lparr>sw_ID = i, sw_UserID = u, sw_Address = a, sw_IsVerified = False, sw_VerifiedAt = None,
     sw_CreatedAt = now, sw_UpdatedAt = now\<rparr>"

definition Link :: "string \<Rightarrow> string \<Rightarrow> sol_wallet go" where
  "Link u a = for_wallet u a (do {
     r \<leftarrow> Wallet_GetByUserAndAddress u a;
     (case r of
        Inr w \<Rightarrow> ok w
      | Inl e \<Rightarrow>
          if \<not> err_is e ErrNoRows then throw (wrap_err ''failed to check existing wallet'' e)
          else do {
            now \<leftarrow> now_m;
            i \<leftarrow> new_uuid;
            c \<leftarrow> Wallet_Insert (new_wallet u a now i);
            (case c of
               Inl e \<Rightarrow> throw (if err_is e ErrNoRowsAffected then ErrWalletAlreadyExists else wrap_err ''failed to insert wallet'' e)
             | Inr _ \<Rightarrow> ok (new_wallet u a now i))
          })
   })"

definition Wallet_List :: "string \<Rightarrow> sol_wallet list go" where
  "Wallet_List u = (if u = '''' then throw (ErrNew ''userID cannot be empty'') else do {
     r \<leftarrow> Wallet_ListByUser u;
     (case r of Inl e \<Rightarrow> throw (wrap_err (''failed to list wallets for user '' @ u) e) | Inr ws \<Rightarrow> ok ws)
   })"

text \<open>An update or deletion of one wallet: an error, or that there is none, is reported.\<close>

definition one_wallet :: "string \<Rightarrow> string \<Rightarrow> string \<Rightarrow> nat go \<Rightarrow> unit go" where
  "one_wallet what u a m = do {
     r \<leftarrow> m;
     (case r of
        Inl e \<Rightarrow> throw (wrap_err (what @ a @ '' for user '' @ u) e)
      | Inr rows \<Rightarrow> if rows < 1 then throw (wallet_missing u a) else ok ())
   }"

definition Wallet_Verify :: "string \<Rightarrow> string \<Rightarrow> unit go" where
  "Wallet_Verify u a = for_wallet u a (do {
     now \<leftarrow> now_m;
     one_wallet ''failed to verify wallet '' u a (Wallet_MarkVerified u a now)
   })"

definition WalletService_Delete :: "string \<Rightarrow> string \<Rightarrow> unit go" where
  "WalletService_Delete u a = for_wallet u a (one_wallet ''failed to delete wallet '' u a (Wallet_Delete u a))"

definition WalletService_Get :: "string \<Rightarrow> string \<Rightarrow> sol_wallet go" where
  "WalletService_Get u a = for_wallet u a (do {
     r \<leftarrow> Wallet_GetLatest u a;
     (case r of
        Inl e \<Rightarrow> throw (if err_is e ErrNoRows then wallet_missing u a
                       else wrap_err (''failed to get wallet '' @ a @ '' for user '' @ u) e)
      | Inr w \<Rightarrow> ok w)
   })"

definition WalletService_GetPrimary :: "string \<Rightarrow> sol_wallet go" where
  "WalletService_GetPrimary u = (if u = '''' then throw (ErrNew ''userID cannot be empty'') else do {
     r \<leftarrow> Wallet_GetPrimary u;
     (case r of
        Inl e \<Rightarrow> throw (if err_is e ErrNoRows then sentinel_with ErrWalletNotFound (''no wallet for user '' @ u)
                       else wrap_err (''failed to get primary wallet for user '' @ u) e)
      | Inr w \<Rightarrow> ok w)
   })"

section \<open>SolanaVerificationService\<close>

record sol_crypto =
  sv_Lib :: sol_lib
  sv_Rand :: "nat \<Rightarrow> nat \<Rightarrow> string + string"
  sv_Verify :: "string \<Rightarrow> string \<Rightarrow> string \<Rightarrow> bool"
  sv_Encode58 :: "string \<Rightarrow> string"
  sv_Decode58 :: "string \<Rightarrow> string + string"

record verification_challenge =
  vc_UserID :: string
  vc_Address :: string
  vc_Message :: string
  vc_ExpiresAt :: time
  vc_Nonce :: string

definition rand_m :: "sol_crypto \<Rightarrow> nat \<Rightarrow> (world, string + string) state" where
  "rand_m sv n = State (\<lambda>w. (sv_Rand sv (w_pc w) n, tick w))"

definition hex_encode :: "string \<Rightarrow> string" where
  "hex_encode s = concat (map (\<lambda>c. [hex_char (of_char c div 16), hex_char (of_char c mod 16)]) s)"

definition challengeTTL :: duration where "challengeTTL = 10 * minute"

text \<open>\<open>t.Unix()\<close>: seconds since 1970.\<close>

definition unix_time :: "time \<Rightarrow> int" where
  "unix_time t = t div 1000000000 - 62135596800"

definition challenge_message :: "string \<Rightarrow> string \<Rightarrow> string \<Rightarrow> time \<Rightarrow> string" where
  "challenge_message key u nonce now =
     ''Verify wallet ownership for Doujins billing system.'' @ [CHR 0x0A] @ ''Wallet: '' @ key @ [CHR 0x0A] @ ''User: '' @ u @
     [CHR 0x0A] @ ''Nonce: '' @ nonce @ [CHR 0x0A] @ ''Timestamp: '' @ show_int (unix_time now)"

definition GenerateChallenge :: "sol_crypto \<Rightarrow> string \<Rightarrow> string \<Rightarrow> verification_challenge go" where
  "GenerateChallenge sv u a = for_wallet u a (case sl_Key (sv_Lib sv) a of
     Inl e \<Rightarrow> throw (ErrWrap ''invalid solana address'' (ErrNew e))
   | Inr key \<Rightarrow> do {
       b \<leftarrow> rand_m sv 16;
       (case b of
          Inl e \<Rightarrow> throw (ErrWrap ''failed to generate nonce'' (ErrNew e))
        | Inr bytes \<Rightarrow> do {
            now \<leftarrow> now_m;
            let nonce = hex_encode bytes;
            let expires = time_add now challengeTTL;
            let msg = challenge_message key u nonce now;
            r \<leftarrow> Challenge_Upsert \<lparr>swc_UserID = u, swc_Address = key, swc_Message = msg, swc_Nonce = nonce,
              swc_ExpiresAt = expires, swc_UpdatedAt = now\<rparr>;
            (case r of
               Inl e \<Rightarrow> throw (wrap_err ''failed to persist verification challenge'' e)
             | Inr _ \<Rightarrow> ok \<lparr>vc_UserID = u, vc_Address = key, vc_Message = msg, vc_ExpiresAt = expires, vc_Nonce = nonce\<rparr>)
          })
     })"

text \<open>The signature signs the message of the challenge with the key of its address.\<close>

definition signature_valid :: "sol_crypto \<Rightarrow> sol_challenge \<Rightarrow> string \<Rightarrow> unit res" where
  "signature_valid sv c sig = (case sl_Key (sv_Lib sv) (swc_Address c) of
     Inl e \<Rightarrow> Inl (ErrWrap ''invalid challenge address'' (ErrNew e))
   | Inr key \<Rightarrow> (case sv_Decode58 sv sig of
       Inl e \<Rightarrow> Inl (ErrWrap ''failed to decode signature'' (ErrNew e))
     | Inr bytes \<Rightarrow>
         if length bytes \<noteq> 64 then
           Inl (ErrNew (''invalid signature length: expected 64 bytes got '' @ show_nat (length bytes)))
         else if \<not> sv_Verify sv key (swc_Message c) bytes then Inl (ErrNew ''signature verification failed'') else Inr ()))"

definition confirm_wallet :: "string \<Rightarrow> sol_challenge \<Rightarrow> sol_wallet go" where
  "confirm_wallet u c = do {
     l \<leftarrow> Link u (swc_Address c);
     (case l of
        Inl e \<Rightarrow> throw (wrap_err ''failed to link wallet prior to verification'' e)
      | Inr _ \<Rightarrow> do {
          v \<leftarrow> Wallet_Verify u (swc_Address c);
          (case v of
             Inl e \<Rightarrow> throw (wrap_err ''failed to mark wallet verified'' e)
           | Inr _ \<Rightarrow> do {
               Challenge_Delete (swc_UserID c) (swc_Address c);
               g \<leftarrow> WalletService_Get u (swc_Address c);
               (case g of Inl e \<Rightarrow> throw (wrap_err ''failed to load verified wallet'' e) | Inr w \<Rightarrow> ok w)
             })
        })
   }"

text \<open>The context errors, which are returned as they are, are two sentinels.\<close>

definition context_error :: "go_err \<Rightarrow> bool" where
  "context_error e \<longleftrightarrow> err_is e (Sentinel ''context deadline exceeded'') \<or> err_is e (Sentinel ''context canceled'')"

definition VerifySignature :: "sol_crypto \<Rightarrow> string \<Rightarrow> string \<Rightarrow> string \<Rightarrow> sol_wallet go" where
  "VerifySignature sv u a sig = for_wallet u a (case ValidateSignature sig of
     Inl e \<Rightarrow> throw (wrap_err ''signature validation failed'' e)
   | Inr _ \<Rightarrow> do {
       r \<leftarrow> Challenge_Get u a;
       (case r of
          Inl e \<Rightarrow> throw (if context_error e then e else wrap_err (''no active challenge found for wallet '' @ a) e)
        | Inr c \<Rightarrow> do {
            now \<leftarrow> now_m;
            if now > swc_ExpiresAt c then do {
              Challenge_Delete (swc_UserID c) (swc_Address c);
              throw (ErrNew ''challenge expired'')
            }
            else (case signature_valid sv c sig of Inl e \<Rightarrow> throw e | Inr _ \<Rightarrow> confirm_wallet u c)
          })
     })"

section \<open>The handlers\<close>

record challenge_response =
  chr_Message :: string
  chr_ExpiresAt :: int
  chr_Wallet :: string
  chr_Nonce :: string

text \<open>\<open>user\<close> is the authenticated user, which the routes of these handlers require; \<open>body\<close> what binding gives.\<close>

definition valid_address :: "string \<Rightarrow> 'a handler \<Rightarrow> 'a handler" where
  "valid_address a h = (case ValidateAddress a of Inl _ \<Rightarrow> refuse 400 ''Invalid wallet address'' | Inr _ \<Rightarrow> h)"

definition GenerateSolanaWalletChallenge :: "sol_crypto \<Rightarrow> user_identity \<Rightarrow> string + string \<Rightarrow> challenge_response handler" where
  "GenerateSolanaWalletChallenge sv user body = bound body (\<lambda>wallet. valid_address wallet (do {
     l \<leftarrow> Link (ui_ID user) wallet;
     (case l of
        Inl e \<Rightarrow> refuse 500 ''Failed to prepare wallet for verification''
      | Inr _ \<Rightarrow> do {
          r \<leftarrow> GenerateChallenge sv (ui_ID user) wallet;
          (case r of
             Inl e \<Rightarrow> refuse 500 ''Failed to generate challenge''
           | Inr c \<Rightarrow> reply \<lparr>chr_Message = vc_Message c, chr_ExpiresAt = unix_time (vc_ExpiresAt c), chr_Wallet = wallet,
               chr_Nonce = vc_Nonce c\<rparr>)
        })
   }))"

definition VerifySolanaWallet :: "sol_crypto \<Rightarrow> user_identity \<Rightarrow> string + string \<times> string \<Rightarrow> (string \<times> time option) handler" where
  "VerifySolanaWallet sv user body = bound body (\<lambda>(wallet, signature). valid_address wallet (do {
     r \<leftarrow> VerifySignature sv (ui_ID user) wallet signature;
     (case r of
        Inl e \<Rightarrow> refuse 400 ''Signature verification failed''
      | Inr w \<Rightarrow> reply (sw_Address w, sw_VerifiedAt w))
   }))"

definition ListSolanaWallets :: "user_identity \<Rightarrow> sol_wallet list handler" where
  "ListSolanaWallets user = do {
     r \<leftarrow> Wallet_List (ui_ID user);
     (case r of Inl e \<Rightarrow> refuse 500 ''Failed to list wallets'' | Inr ws \<Rightarrow> reply ws)
   }"

definition DeleteSolanaWallet :: "user_identity \<Rightarrow> string \<Rightarrow> string handler" where
  "DeleteSolanaWallet user wallet = (if wallet = '''' then refuse 400 ''wallet parameter required''
     else valid_address wallet (do {
       r \<leftarrow> WalletService_Delete (ui_ID user) wallet;
       (case r of Inl e \<Rightarrow> refuse 500 ''Failed to delete wallet'' | Inr _ \<Rightarrow> reply wallet)
     }))"

definition GetSolanaWallet :: "user_identity \<Rightarrow> sol_wallet handler" where
  "GetSolanaWallet user = do {
     r \<leftarrow> WalletService_GetPrimary (ui_ID user);
     (case r of Inl e \<Rightarrow> refuse 404 ''No Solana wallet linked'' | Inr w \<Rightarrow> reply w)
   }"

section \<open>The store in memory\<close>

text \<open>
  \<open>SolanaWalletStore\<close>: of each user with wallets the set of them. The lock makes the operations atomic; the order of
  \<open>List\<close> is that of Go's map iteration, so the model gives a set.
\<close>

type_synonym wallet_store = "string \<Rightarrow> string set option"

definition Store_List :: "string \<Rightarrow> wallet_store \<Rightarrow> string set" where
  "Store_List u s = (case s u of None \<Rightarrow> {} | Some m \<Rightarrow> m)"

definition Store_Add :: "string \<Rightarrow> string \<Rightarrow> wallet_store \<Rightarrow> wallet_store" where
  "Store_Add u w s = s(u \<mapsto> insert w (Store_List u s))"

definition Store_Remove :: "string \<Rightarrow> string \<Rightarrow> wallet_store \<Rightarrow> wallet_store" where
  "Store_Remove u w s = (case s u of None \<Rightarrow> s | Some m \<Rightarrow> let m' = m - {w} in s(u := (if m' = {} then None else Some m')))"

definition Store_Clear :: "string \<Rightarrow> wallet_store \<Rightarrow> wallet_store" where
  "Store_Clear u s = s(u := None)"

end
