(* ===== verification/Solana_Payment.thy ===== *)
theory Solana_Payment
  imports Solana_Wallet Payments
begin

text \<open>
  Paying with a Solana token: the token configuration (\<open>config/config.go\<close>, \<open>config/solana_tokens.go\<close>), the quote of a price in
  a token (\<open>solana_price.go\<close>, \<open>solana_token_quote.go\<close>), the payment intents (\<open>solana_payment_intent.go\<close> and its
  repository) and \<open>SolanaPaymentService\<close> (\<open>solana_payment.go\<close>). Amounts are exact rationals: the rounding of \<open>float64\<close> is
  left out.
\<close>

section \<open>Configuration\<close>

record token_config =
  tk_Mint :: string
  tk_Symbol :: string
  tk_Name :: string
  tk_Decimals :: int
  tk_Enabled :: bool
  tk_MainnetMint :: string

record solana_config =
  sc_RPCEndpoint :: string
  sc_Network :: string
  sc_RecipientWallet :: string
  sc_SupportedTokens :: "(string \<times> token_config) list"

definition token_of :: "string \<Rightarrow> string \<Rightarrow> string \<Rightarrow> string \<Rightarrow> int \<Rightarrow> string \<times> token_config" where
  "token_of symbol name mint mainnet decimals = (symbol, \<lparr>tk_Mint = mint, tk_Symbol = symbol, tk_Name = name,
     tk_Decimals = decimals, tk_Enabled = True, tk_MainnetMint = mainnet\<rparr>)"

definition DefaultSupportedTokens :: "(string \<times> token_config) list" where
  "DefaultSupportedTokens = [
     token_of ''SOL'' ''Solana'' ''So11111111111111111111111111111111111111112'' ''So11111111111111111111111111111111111111112'' 9,
     token_of ''USDC'' ''USD Coin'' ''EPjFWdd5AufqSSqeM2qN1xzybapC8G4wEGGkZwyTDt1v'' ''EPjFWdd5AufqSSqeM2qN1xzybapC8G4wEGGkZwyTDt1v'' 6,
     token_of ''PYUSD'' ''PayPal USD'' ''2b1kV6DkPAnxd5ixfnxCpjxmKwqjjaYmCZfHsFu24GXo'' ''2b1kV6DkPAnxd5ixfnxCpjxmKwqjjaYmCZfHsFu24GXo'' 6]"

definition DefaultDevnetTokens :: "(string \<times> token_config) list" where
  "DefaultDevnetTokens = [
     token_of ''SOL'' ''Solana'' ''So11111111111111111111111111111111111111112'' ''So11111111111111111111111111111111111111112'' 9,
     token_of ''USDC'' ''USD Coin (Devnet)'' ''4zMMC9srt5Ri5X14GAgXhaHii3GnPAEERYPJgZJDncDU'' ''EPjFWdd5AufqSSqeM2qN1xzybapC8G4wEGGkZwyTDt1v'' 6,
     token_of ''PYUSD'' ''PayPal USD (Devnet)'' ''CXk2AMBfi3TwaEL2468s6zP8xq9NxTXjp9gjMgzeUynM'' ''2b1kV6DkPAnxd5ixfnxCpjxmKwqjjaYmCZfHsFu24GXo'' 6]"

definition TokensForNetwork :: "string \<Rightarrow> (string \<times> token_config) list" where
  "TokensForNetwork network = (if to_lower network = ''devnet'' then DefaultDevnetTokens else DefaultSupportedTokens)"

definition GetTokenBySymbol :: "string \<Rightarrow> bool \<Rightarrow> token_config option" where
  "GetTokenBySymbol symbol useDevnet = map_of (TokensForNetwork (if useDevnet then ''devnet'' else ''mainnet'')) symbol"

definition IsValidToken :: "string \<Rightarrow> bool" where
  "IsValidToken symbol \<longleftrightarrow> map_of DefaultSupportedTokens symbol \<noteq> None"

definition supported_token :: "solana_config \<Rightarrow> string \<Rightarrow> token_config option" where
  "supported_token c symbol = (case map_of (sc_SupportedTokens c) symbol of
     None \<Rightarrow> None | Some t \<Rightarrow> if tk_Enabled t then Some t else None)"

section \<open>Prices\<close>

text \<open>
  The price feed: what the request for these mints at a step gives. The answer of \<open>FetchJupiterPrices\<close> decodes to the
  \<open>usdPrice\<close> of each mint (\<open>Inl\<close> when it does not decode). \<open>ps_ToUint64\<close> is the conversion of a number that is not
  in the range of \<open>uint64\<close>, which Go leaves to the implementation.
\<close>

datatype feed_answer = FeedError string | FeedStatus string | FeedBody "string + (string \<times> float64) list"

record sol_service =
  ps_Crypto :: sol_crypto
  ps_Config :: "solana_config option"
  ps_Feed :: "nat \<Rightarrow> string list \<Rightarrow> feed_answer"
  ps_ToUint64 :: "int \<Rightarrow> 64 word"
  ps_Products :: bool
  ps_Entitlements :: bool
  ps_Notifications :: bool
  ps_IDString :: "uuid \<Rightarrow> string"

definition FetchJupiterPrices :: "sol_service \<Rightarrow> string list \<Rightarrow> (string \<times> float64) list go" where
  "FetchJupiterPrices sv mints = (if mints = [] then ok [] else State (\<lambda>w.
     ((case ps_Feed sv (w_pc w) mints of
         FeedError e \<Rightarrow> Inl (ErrNew e)
       | FeedStatus s \<Rightarrow> Inl (ErrNew (''unexpected Jupiter response status: '' @ s))
       | FeedBody (Inl e) \<Rightarrow> Inl (ErrNew e)
       | FeedBody (Inr ps) \<Rightarrow> Inr ps), tick w)))"

definition pow10 :: "int \<Rightarrow> float64" where
  "pow10 d = (if d \<ge> 0 then 10 ^ nat d else 1 / 10 ^ nat (- d))"

text \<open>\<open>math.Round\<close> (half away from zero) and the conversion to \<open>uint64\<close>.\<close>

definition round_half :: "float64 \<Rightarrow> int" where
  "round_half x = (if x \<ge> 0 then \<lfloor>x + 1 / 2\<rfloor> else - \<lfloor>- x + 1 / 2\<rfloor>)"

definition to_uint64 :: "sol_service \<Rightarrow> int \<Rightarrow> 64 word" where
  "to_uint64 sv n = (if 0 \<le> n \<and> n < 2 ^ 64 then word_of_int n else ps_ToUint64 sv n)"

definition quote_mint :: "token_config \<Rightarrow> string" where
  "quote_mint t = (if tk_MainnetMint t = '''' then tk_Mint t else tk_MainnetMint t)"

definition missing_mint :: "string \<Rightarrow> go_err" where
  "missing_mint symbol = ErrNew (''token '' @ symbol @ '' missing mint configuration'')"

definition token_units :: "sol_service \<Rightarrow> token_config \<Rightarrow> float64 \<Rightarrow> float64 \<Rightarrow> 64 word" where
  "token_units sv t amountUSD price = to_uint64 sv (round_half (amountUSD / price * pow10 (tk_Decimals t)))"

definition calculateTokenQuote :: "sol_service \<Rightarrow> token_config \<Rightarrow> float64 \<Rightarrow> (64 word \<times> float64) go" where
  "calculateTokenQuote sv t amountUSD = (if amountUSD \<le> 0 then ok (0, 0)
     else if quote_mint t = '''' then throw (missing_mint (tk_Symbol t))
     else do {
       r \<leftarrow> FetchJupiterPrices sv [quote_mint t];
       (case r of
          Inl e \<Rightarrow> throw (wrap_err ''failed to fetch token price'' e)
        | Inr prices \<Rightarrow> (case map_of prices (quote_mint t) of
            None \<Rightarrow> throw (ErrNew (''token price unavailable for '' @ tk_Symbol t))
          | Some p \<Rightarrow>
              if p \<le> 0 then throw (ErrNew (''token price unavailable for '' @ tk_Symbol t))
              else let units = token_units sv t amountUSD p
                in ok (units, of_int (uint units) / pow10 (tk_Decimals t))))
     })"

section \<open>SolanaPaymentIntentRepo\<close>

text \<open>The primary key, \<open>UNIQUE(reference)\<close>, and the range of \<open>BIGINT\<close>.\<close>

definition intents_unique :: "sol_intent list \<Rightarrow> bool" where
  "intents_unique rs \<longleftrightarrow> distinct (map spi_ID rs) \<and> distinct (map spi_Reference (filter (\<lambda>r. spi_Reference r \<noteq> None) rs))"

definition add_intent :: "sol_intent \<Rightarrow> tables \<Rightarrow> tables" where
  "add_intent r t = t\<lparr>t_intents := t_intents t @ [r]\<rparr>"

definition Intent_Insert :: "sol_intent \<Rightarrow> unit go" where
  "Intent_Insert i = db_exec Pool (\<lambda>now t.
     if uint (spi_ExpectedAmountLamports i) \<ge> 2 ^ 63 then Inl ''ERROR: bigint out of range''
     else if intents_unique (t_intents (add_intent i t)) then Inr ((), add_intent i) else Inl duplicate_key)"

definition Intent_GetByID :: "uuid \<Rightarrow> sol_intent go" where
  "Intent_GetByID i = db_query Pool (\<lambda>now t. scan_row (find (\<lambda>r. spi_ID r = i) (t_intents t)))"

definition Intent_GetByReference :: "string \<Rightarrow> sol_intent go" where
  "Intent_GetByReference s = db_query Pool (\<lambda>now t. scan_row (find (\<lambda>r. spi_Reference r = Some s) (t_intents t)))"

definition Intent_update :: "uuid \<Rightarrow> (sol_intent \<Rightarrow> sol_intent) \<Rightarrow> (sol_intent \<Rightarrow> bool) \<Rightarrow> nat go" where
  "Intent_update i f c = db_exec Pool (\<lambda>now t.
     Inr (length (filter (\<lambda>r. spi_ID r = i \<and> c r) (t_intents t)),
          \<lambda>t. t\<lparr>t_intents := update_where (\<lambda>r. spi_ID r = i \<and> c r) f (t_intents t)\<rparr>))"

definition IntentRepo_MarkProcessing :: "uuid \<Rightarrow> string \<Rightarrow> string \<Rightarrow> nat go" where
  "IntentRepo_MarkProcessing i newStatus expected = do {
     now \<leftarrow> now_m;
     Intent_update i (\<lambda>r. r\<lparr>spi_Status := newStatus, spi_UpdatedAt := now\<rparr>) (\<lambda>r. spi_Status r = expected)
   }"

definition IntentRepo_MarkConfirmed :: "uuid \<Rightarrow> string \<Rightarrow> string list \<Rightarrow> string \<Rightarrow> nat go" where
  "IntentRepo_MarkConfirmed i newStatus allowed sig = do {
     now \<leftarrow> now_m;
     Intent_update i (\<lambda>r. r\<lparr>spi_Status := newStatus, spi_TransactionSignature := Some sig, spi_Signature := Some sig,
       spi_ConfirmedAt := Some now, spi_UpdatedAt := now\<rparr>) (\<lambda>r. spi_Status r \<in> set allowed)
   }"

definition IntentRepo_MarkFailed :: "uuid \<Rightarrow> string \<Rightarrow> string \<Rightarrow> nat go" where
  "IntentRepo_MarkFailed i failedStatus msg = do {
     now \<leftarrow> now_m;
     Intent_update i (\<lambda>r. r\<lparr>spi_Status := failedStatus, spi_ErrorMessage := Some msg, spi_UpdatedAt := now\<rparr>) (\<lambda>r. True)
   }"

section \<open>SolanaPaymentIntentService\<close>

definition FlowTypeDirect :: string where "FlowTypeDirect = ''direct''"
definition FlowTypeSolanaPay :: string where "FlowTypeSolanaPay = ''solanapay''"
definition IntentStatusPending :: string where "IntentStatusPending = ''pending''"
definition IntentStatusProcessing :: string where "IntentStatusProcessing = ''processing''"
definition IntentStatusConfirmed :: string where "IntentStatusConfirmed = ''confirmed''"
definition IntentStatusFailed :: string where "IntentStatusFailed = ''failed''"

lemmas intent_status_defs = IntentStatusPending_def IntentStatusProcessing_def IntentStatusConfirmed_def IntentStatusFailed_def

definition ErrIntentNotFound :: go_err where "ErrIntentNotFound = Sentinel ''solana payment intent not found''"
definition ErrIntentInvalidState :: go_err where
  "ErrIntentInvalidState = Sentinel ''solana payment intent has invalid state for this operation''"

text \<open>What an intent is for: the price, the merchant's wallet, the amount in the token, or the error before it.\<close>

definition quoted_price :: "sol_service \<Rightarrow> string \<Rightarrow> uuid \<Rightarrow> string \<Rightarrow> (price \<times> string \<times> token_config \<times> 64 word \<times> float64) go" where
  "quoted_price sv u priceID symbol = (if u = '''' then throw (ErrNew ''userID cannot be empty'')
     else (case ps_Config sv of
         None \<Rightarrow> throw (ErrNew ''solana configuration not available'')
       | Some c \<Rightarrow> do {
           r \<leftarrow> Price_GetByID Pool priceID;
           (case r of
              Inl e \<Rightarrow> throw (wrap_err ''failed to load price'' e)
            | Inr p \<Rightarrow> (case supported_token c symbol of
                None \<Rightarrow> throw (ErrNew (''token '' @ symbol @ '' not supported''))
              | Some t \<Rightarrow>
                  if sc_RecipientWallet c = '''' then throw (ErrNew ''solana recipient wallet not configured'')
                  else do {
                    q \<leftarrow> calculateTokenQuote sv t (price_Amount p);
                    (case q of
                       Inl e \<Rightarrow> throw (wrap_err ''failed to calculate token amount'' e)
                     | Inr (units, amount) \<Rightarrow> ok (p, sc_RecipientWallet c, t, units, amount))
                  }))
         }))"

definition new_intent ::
  "uuid \<Rightarrow> string \<Rightarrow> price \<Rightarrow> string \<Rightarrow> string \<Rightarrow> token_config \<Rightarrow> 64 word \<Rightarrow> float64 \<Rightarrow> string \<Rightarrow> time \<Rightarrow> sol_intent" where
  "new_intent i u p flow symbol t units amount merchant expires = \<lparr>spi_ID = i, spi_UserID = u, spi_PriceID = price_ID p,
     spi_FlowType = flow, spi_Token = symbol, spi_TokenMint = tk_Mint t, spi_Amount = amount, spi_Currency = symbol,
     spi_ExpectedAmountLamports = units, spi_PayerWallet = None, spi_RecipientWallet = merchant, spi_Reference = None,
     spi_Memo = None, spi_Status = IntentStatusPending, spi_Signature = None, spi_TransactionSignature = None,
     spi_ErrorMessage = None, spi_ExpiresAt = Some expires, spi_ConfirmedAt = None, spi_CreatedAt = 0, spi_UpdatedAt = 0\<rparr>"

definition insertIntent :: "sol_intent \<Rightarrow> sol_intent go" where
  "insertIntent i = do {
     now \<leftarrow> now_m;
     let row = i\<lparr>spi_CreatedAt := now, spi_UpdatedAt := now\<rparr>;
     r \<leftarrow> Intent_Insert row;
     (case r of Inl e \<Rightarrow> throw (wrap_err ''failed to create solana payment intent'' e) | Inr _ \<Rightarrow> ok row)
   }"

definition CreateDirectIntent :: "sol_service \<Rightarrow> string \<Rightarrow> uuid \<Rightarrow> string \<Rightarrow> string \<Rightarrow> sol_intent go" where
  "CreateDirectIntent sv u priceID symbol payer = do {
     r \<leftarrow> quoted_price sv u priceID symbol;
     (case r of
        Inl e \<Rightarrow> throw e
      | Inr (p, merchant, t, units, amount) \<Rightarrow> do {
          now \<leftarrow> now_m;
          i \<leftarrow> new_uuid;
          insertIntent ((new_intent i u p FlowTypeDirect symbol t units amount merchant (time_add now (10 * minute)))
            \<lparr>spi_PayerWallet := (if payer = '''' then None else Some payer)\<rparr>)
        })
   }"

definition generateReference :: "sol_service \<Rightarrow> (world, string + string) state" where
  "generateReference sv = do {
     b \<leftarrow> rand_m (ps_Crypto sv) 32;
     State_Monad.return (case b of Inl e \<Rightarrow> Inl e | Inr bytes \<Rightarrow> Inr (sv_Encode58 (ps_Crypto sv) bytes))
   }"

definition CreateSolanaPayIntent :: "sol_service \<Rightarrow> string \<Rightarrow> uuid \<Rightarrow> string \<Rightarrow> sol_intent go" where
  "CreateSolanaPayIntent sv u priceID symbol = do {
     r \<leftarrow> quoted_price sv u priceID symbol;
     (case r of
        Inl e \<Rightarrow> throw e
      | Inr (p, merchant, t, units, amount) \<Rightarrow> do {
          g \<leftarrow> generateReference sv;
          (case g of
             Inl e \<Rightarrow> throw (ErrWrap ''failed to generate reference'' (ErrNew e))
           | Inr reference \<Rightarrow> do {
               now \<leftarrow> now_m;
               i \<leftarrow> new_uuid;
               insertIntent ((new_intent i u p FlowTypeSolanaPay symbol t units amount merchant (time_add now (15 * minute)))
                 \<lparr>spi_Reference := Some reference,
                  spi_Memo := Some (''purchase:'' @ u @ '':'' @ ps_IDString sv (price_ID p))\<rparr>)
             })
        })
   }"

text \<open>\<open>GetByID\<close> and \<open>GetByReference\<close> wrap the sentinel and print the error.\<close>

definition found_intent :: "sol_intent go \<Rightarrow> sol_intent go" where
  "found_intent m = do {
     r \<leftarrow> m;
     (case r of Inl e \<Rightarrow> throw (sentinel_with ErrIntentNotFound (err_text e)) | Inr i \<Rightarrow> ok i)
   }"

definition IntentService_GetByID :: "uuid \<Rightarrow> sol_intent go" where
  "IntentService_GetByID i = found_intent (Intent_GetByID i)"

definition IntentService_GetByReference :: "string \<Rightarrow> sol_intent go" where
  "IntentService_GetByReference s = found_intent (Intent_GetByReference s)"

definition marked :: "string \<Rightarrow> nat go \<Rightarrow> unit go" where
  "marked what m = do {
     r \<leftarrow> m;
     (case r of Inl e \<Rightarrow> throw (wrap_err what e) | Inr rows \<Rightarrow> if rows = 0 then throw ErrIntentInvalidState else ok ())
   }"

definition MarkProcessing :: "uuid \<Rightarrow> unit go" where
  "MarkProcessing i = marked ''failed to mark intent processing'' (IntentRepo_MarkProcessing i IntentStatusProcessing IntentStatusPending)"

definition MarkConfirmed :: "uuid \<Rightarrow> string \<Rightarrow> unit go" where
  "MarkConfirmed i sig = marked ''failed to confirm intent''
     (IntentRepo_MarkConfirmed i IntentStatusConfirmed [IntentStatusPending, IntentStatusProcessing] sig)"

definition MarkFailed :: "uuid \<Rightarrow> string \<Rightarrow> unit go" where
  "MarkFailed i msg = marked ''failed to mark intent failed'' (IntentRepo_MarkFailed i IntentStatusFailed msg)"

section \<open>SolanaPaymentService\<close>

definition ErrInvalidToken :: go_err where "ErrInvalidToken = Sentinel ''invalid or unsupported token''"
definition ErrPriceNotFound :: go_err where "ErrPriceNotFound = Sentinel ''price not found''"

text \<open>A one-off purchase is refused while an entitlement without end is active.\<close>

definition one_off_allowed :: "handle \<Rightarrow> string \<Rightarrow> unit go" where
  "one_off_allowed h u = do {
     now \<leftarrow> now_m;
     r \<leftarrow> EntRepo_HasActiveIndefinite h u ''premium'' now;
     (case r of
        Inl e \<Rightarrow> throw (wrap_err ''failed entitlement check'' e)
      | Inr exists \<Rightarrow>
          if exists then throw (ErrNew ''one-off purchase not allowed while subscription entitlement is active'') else ok ())
   }"

definition product_active :: "sol_service \<Rightarrow> uuid \<Rightarrow> unit go" where
  "product_active sv i = (if \<not> ps_Products sv then ok () else do {
     r \<leftarrow> Product_GetByID Pool i;
     (case r of
        Inl e \<Rightarrow> throw (wrap_err ''failed to load product'' e)
      | Inr pr \<Rightarrow>
          if \<not> prod_IsActive pr then throw (ErrNew (''product '' @ ps_IDString sv (prod_ID pr) @ '' is not available'')) else ok ())
   })"

definition quote_for :: "sol_service \<Rightarrow> string \<Rightarrow> price \<Rightarrow> string \<Rightarrow> (float64 \<times> string \<times> 64 word \<times> time) go" where
  "quote_for sv u p symbol = (case ps_Config sv of
     None \<Rightarrow> throw (ErrNew ''solana not configured'')
   | Some c \<Rightarrow> (case supported_token c symbol of
       None \<Rightarrow> throw ErrInvalidToken
     | Some t \<Rightarrow>
         if quote_mint t = '''' then throw (missing_mint symbol)
         else do {
           q \<leftarrow> calculateTokenQuote sv t (price_Amount p);
           (case q of
              Inl e \<Rightarrow> throw e
            | Inr (units, _) \<Rightarrow> do {
                now \<leftarrow> now_m;
                a \<leftarrow> (if u \<noteq> '''' \<and> ps_Entitlements sv then one_off_allowed Pool u else ok ());
                (case a of
                   Inl e \<Rightarrow> throw e
                 | Inr _ \<Rightarrow> ok (price_Amount p, price_Currency p, units, time_add now (10 * minute)))
              })
         }))"

definition Generate :: "sol_service \<Rightarrow> string \<Rightarrow> uuid \<Rightarrow> string \<Rightarrow> (float64 \<times> string \<times> 64 word \<times> time) go" where
  "Generate sv u priceID symbol = do {
     r \<leftarrow> Price_GetByID Pool priceID;
     (case r of
        Inl e \<Rightarrow> throw (sentinel_with ErrPriceNotFound (err_text e))
      | Inr p \<Rightarrow>
          if \<not> price_IsActive p then throw (ErrNew (''price '' @ ps_IDString sv (price_ID p) @ '' is not available''))
          else do {
            a \<leftarrow> product_active sv (price_ProductID p);
            (case a of Inl e \<Rightarrow> throw e | Inr _ \<Rightarrow> quote_for sv u p symbol)
          })
   }"

definition defaultSolanaWindowDays :: int where "defaultSolanaWindowDays = 30"

definition resolveEntitlementNames :: "product \<Rightarrow> string list" where
  "resolveEntitlementNames pr = (if prod_EntitlementsSpec pr = [] then [''premium''] else map fst (prod_EntitlementsSpec pr))"

definition resolvePriceDurationDays :: "price \<Rightarrow> int" where
  "resolvePriceDurationDays p = (case price_BillingCycleDays p of
     Some d \<Rightarrow> if d > 0 then d else defaultSolanaWindowDays | None \<Rightarrow> defaultSolanaWindowDays)"

definition resolveEntitlementDuration :: "product \<Rightarrow> string \<Rightarrow> int \<Rightarrow> int" where
  "resolveEntitlementDuration pr name fallback = (if prod_EntitlementsSpec pr = [] then fallback
     else (case map_of (prod_EntitlementsSpec pr) name of Some (Some d) \<Rightarrow> if d > 0 then d else fallback | _ \<Rightarrow> fallback))"

definition entitlement_days :: "product \<Rightarrow> price \<Rightarrow> string \<Rightarrow> int" where
  "entitlement_days pr p name = (let default = resolvePriceDurationDays p; days = resolveEntitlementDuration pr name default;
     days' = (if days \<le> 0 then default else days) in if days' \<le> 0 then defaultSolanaWindowDays else days')"

text \<open>\<open>idx_solana_tx_signature\<close> and the primary key.\<close>

definition soltxs_unique :: "sol_transaction list \<Rightarrow> bool" where
  "soltxs_unique rs \<longleftrightarrow> distinct (map stx_ID rs) \<and> distinct (map stx_Signature (filter (\<lambda>r. stx_Signature r \<noteq> None) rs))"

definition confirm_soltxs :: "string \<Rightarrow> float64 \<Rightarrow> string \<Rightarrow> tables \<Rightarrow> tables" where
  "confirm_soltxs u amount sig t = t\<lparr>t_soltxs := update_where (\<lambda>r. stx_UserID r = Some u \<and> stx_Amount r = amount)
     (\<lambda>r. r\<lparr>stx_Status := ''confirmed'', stx_Signature := Some sig\<rparr>) (t_soltxs t)\<rparr>"

definition MarkConfirmedByUserAndAmount :: "handle \<Rightarrow> string \<Rightarrow> float64 \<Rightarrow> string \<Rightarrow> unit go" where
  "MarkConfirmedByUserAndAmount h u amount sig = db_exec h (\<lambda>now t.
     if soltxs_unique (t_soltxs (confirm_soltxs u amount sig t)) then Inr ((), confirm_soltxs u amount sig) else Inl duplicate_key)"

definition solana_payment :: "uuid \<Rightarrow> string \<Rightarrow> price \<Rightarrow> string \<Rightarrow> time \<Rightarrow> payment" where
  "solana_payment i u p sig now = \<lparr>pay_ID = i, pay_UserID = u, pay_PriceID = price_ID p, pay_SubscriptionID = None,
     pay_RefundedPaymentID = None, pay_Processor = ProcessorSolana, pay_ProcessorProvider = None, pay_TransactionID = sig,
     pay_Amount = price_Amount p, pay_Currency = price_Currency p, pay_PurchasedAt = now, pay_CreatedAt = 0\<rparr>"

text \<open>The windows of a purchase, one per entitlement of the product (in Go's map order; the model takes the order of the list).\<close>

definition grant_windows :: "handle \<Rightarrow> string \<Rightarrow> product \<Rightarrow> price \<Rightarrow> uuid \<Rightarrow> unit go" where
  "grant_windows h u pr p payID = for_each (resolveEntitlementNames pr) (\<lambda>name. do {
     r \<leftarrow> AppendEntitlementDays h u name (entitlement_days pr p name) EntitlementSourceOneOff (Some payID);
     (case r of Inl e \<Rightarrow> throw (wrap_err (''failed to grant entitlement '' @ name) e) | Inr _ \<Rightarrow> ok ())
   })"

definition receipt_data :: "payment \<Rightarrow> product \<Rightarrow> string option \<Rightarrow> (string \<times> meta) list" where
  "receipt_data pay pr email = [(''amount'', MAmount (pay_Amount pay)), (''currency'', MStr (pay_Currency pay)),
     (''product_name'', MStr (prod_DisplayName pr)), (''payment_method'', MStr ''solana'')] @
     (case email of Some e \<Rightarrow> if trim_space e = '''' then [] else [(''user_email'', MStr (trim_space e))] | None \<Rightarrow> [])"

definition submit_purchase ::
  "sol_service \<Rightarrow> handle \<Rightarrow> string \<Rightarrow> string \<Rightarrow> string option \<Rightarrow> price \<Rightarrow> payment \<Rightarrow> (payment \<times> notification list) go" where
  "submit_purchase sv h u sig email p pay = do {
     c \<leftarrow> PayStore_Create h pay;
     (case c of
        Inl e \<Rightarrow> throw (wrap_err ''failed to create payment'' e)
      | Inr _ \<Rightarrow> do {
          g \<leftarrow> Product_GetByID h (price_ProductID p);
          (case g of
             Inl e \<Rightarrow> throw (wrap_err ''failed to get product'' e)
           | Inr pr \<Rightarrow>
               if \<not> prod_IsActive pr then throw (ErrNew (''product '' @ ps_IDString sv (prod_ID pr) @ '' is not available''))
               else do {
                 r \<leftarrow> grant_windows h u pr p (pay_ID pay);
                 (case r of
                    Inl e \<Rightarrow> throw e
                  | Inr _ \<Rightarrow> do {
                      n1 \<leftarrow> queue_notification h u NotificationPremiumStarted [];
                      n2 \<leftarrow> queue_notification h u NotificationOneOffPurchaseCompleted (receipt_data pay pr email);
                      MarkConfirmedByUserAndAmount h u (price_Amount p) sig;
                      ok (pay, n1 @ n2)
                    })
               })
        })
   }"

definition submit_body :: "sol_service \<Rightarrow> handle \<Rightarrow> string \<Rightarrow> uuid \<Rightarrow> string \<Rightarrow> string option \<Rightarrow> (payment \<times> notification list) go" where
  "submit_body sv h u priceID sig email = do {
     r \<leftarrow> Price_GetByID h priceID;
     (case r of
        Inl e \<Rightarrow> throw (sentinel_with ErrPriceNotFound (err_text e))
      | Inr p \<Rightarrow> do {
          a \<leftarrow> (if u \<noteq> '''' then one_off_allowed h u else ok ());
          (case a of
             Inl e \<Rightarrow> throw e
           | Inr _ \<Rightarrow> do {
               now \<leftarrow> now_m;
               i \<leftarrow> new_uuid;
               submit_purchase sv h u sig email p (solana_payment i u p sig now)
             })
        })
   }"

definition Submit :: "sol_service \<Rightarrow> string \<Rightarrow> uuid \<Rightarrow> string \<Rightarrow> string option \<Rightarrow> payment go" where
  "Submit sv u priceID sig email = do {
     r \<leftarrow> run_in_tx (submit_body sv Tx u priceID sig email);
     (case r of
        Inl e \<Rightarrow> throw e
      | Inr (pay, ns) \<Rightarrow> do {
          (if ps_Notifications sv then for_all_do ns deliver_mail else State_Monad.return ());
          ok pay
        })
   }"

end
