(* ===== verification/Form_Encoding.thy ===== *)
theory Form_Encoding
  imports Encoding
begin

text \<open>
  Form values as \<open>net/url\<close> writes them, and that they are read back: what \<open>url.Values.Encode\<close> gives is parsed by
  \<open>ParseQuery\<close> into the same pairs.
\<close>

section \<open>Writing\<close>

text \<open>\<open>url.Values.Encode\<close>: \<open>QueryEscape\<close> of keys and values, the keys in order.\<close>

definition unreserved :: "char \<Rightarrow> bool" where
  "unreserved c \<longleftrightarrow> c \<in> set ''ABCDEFGHIJKLMNOPQRSTUVWXYZabcdefghijklmnopqrstuvwxyz0123456789-_.~''"

definition upper_hex :: "nat \<Rightarrow> char" where
  "upper_hex n = (if n < 10 then char_of (48 + n) else char_of (55 + n))"

definition escape_byte :: "char \<Rightarrow> string" where
  "escape_byte c = (if unreserved c then [c] else if c = CHR '' '' then ''+''
     else [CHR ''%'', upper_hex (of_char c div 16), upper_hex (of_char c mod 16)])"

definition query_escape :: "string \<Rightarrow> string" where
  "query_escape s = concat (map escape_byte s)"

definition encode_values :: "(string \<times> string) list \<Rightarrow> string" where
  "encode_values kvs = join ''&'' (map (\<lambda>(k, v). query_escape k @ ''='' @ query_escape v) (sort_key fst kvs))"

section \<open>Splitting\<close>

lemma split_on_join: "x \<notin> set s \<Longrightarrow> split_on x acc (s @ x # t) = (rev acc @ s) # split_on x [] t"
  by (induction s arbitrary: acc) auto

lemma split_on_rest: "x \<notin> set s \<Longrightarrow> split_on x acc s = [rev acc @ s]"
  by (induction s arbitrary: acc) auto

lemma split_join:
  assumes "\<forall>p \<in> set ps. x \<notin> set p" "ps \<noteq> []"
  shows "split_on x [] (join [x] ps) = ps"
  using assms by (induction "[x]" ps rule: join.induct) (auto simp: split_on_join split_on_rest)

section \<open>Reading back\<close>

lemma hex_digit_upper: "k < 16 \<Longrightarrow> hex_digit (upper_hex k) = Some k"
  by (auto simp: hex_digit_def upper_hex_def)

lemma unreserved_plain: "unreserved c \<Longrightarrow> c \<noteq> CHR ''%'' \<and> c \<noteq> CHR ''+'' \<and> c \<noteq> CHR ''&'' \<and> c \<noteq> CHR ''='' \<and> c \<noteq> CHR '';''"
  by (auto simp: unreserved_def)

lemma code_bound: "of_char c < (256 :: nat)"
  by (metis of_char_mod_256 mod_less_divisor zero_less_numeral)

lemma nibbles: "of_char c div 16 < (16 :: nat)" "of_char c mod 16 < (16 :: nat)"
  using code_bound [of c] by (simp_all add: less_mult_imp_div_less)

lemma unescape_byte: "query_unescape (escape_byte c @ r) = map_option ((#) c) (query_unescape r)"
proof -
  have "char_of (16 * (of_char c div 16) + of_char c mod 16 :: nat) = c" by simp
  then show ?thesis
    using unreserved_plain [of c] by (auto simp: escape_byte_def hex_digit_upper nibbles)
qed

lemma unescape_escape: "query_unescape (query_escape s) = Some s"
  by (induction s) (simp_all add: query_escape_def unescape_byte)

lemma upper_hex_plain: "k < 16 \<Longrightarrow> upper_hex k \<noteq> CHR ''&'' \<and> upper_hex k \<noteq> CHR ''='' \<and> upper_hex k \<noteq> CHR '';''"
  using hex_digit_upper [of k] by (auto simp: hex_digit_def)

lemma escape_plain: "CHR ''&'' \<notin> set (query_escape s)" "CHR ''='' \<notin> set (query_escape s)" "CHR '';'' \<notin> set (query_escape s)"
proof -
  have "x \<notin> set (escape_byte c)" if "x \<in> {CHR ''&'', CHR ''='', CHR '';''}" for x c
    using that unreserved_plain [of c] upper_hex_plain [OF nibbles(1), of c] upper_hex_plain [OF nibbles(2), of c]
    by (auto simp: escape_byte_def)
  then show "CHR ''&'' \<notin> set (query_escape s)" "CHR ''='' \<notin> set (query_escape s)" "CHR '';'' \<notin> set (query_escape s)"
    by (auto simp: query_escape_def)
qed

lemma query_pair_escaped: "query_pair (query_escape k @ ''='' @ query_escape v) = Some (k, v)"
proof -
  have "cut (CHR ''='') (query_escape k @ ''='' @ query_escape v) = (query_escape k, query_escape v)"
    using escape_plain(2) [of k] by (simp add: cut_def takeWhile_append dropWhile_append takeWhile_eq_all_conv dropWhile_eq_Nil_conv)
  then show ?thesis
    using escape_plain(3) by (simp add: query_pair_def unescape_escape)
qed

lemma those_map_Some: "(\<forall>x \<in> set xs. f x = Some (g x)) \<Longrightarrow> those (map f xs) = Some (map g xs)"
  by (induction xs) auto

lemma parse_encoded: "ParseQuery (encode_values kvs) = Some (sort_key fst kvs)"
proof (cases "kvs = []")
  case True
  then show ?thesis by (simp add: ParseQuery_def encode_values_def)
next
  case False
  let ?f = "\<lambda>(k, v). query_escape k @ ''='' @ query_escape v" and ?kvs = "sort_key fst kvs"
  have "?kvs \<noteq> []" using False by (metis set_empty set_sort)
  then have "split_on (CHR ''&'') [] (encode_values kvs) = map ?f ?kvs"
    unfolding encode_values_def by (intro split_join) (auto simp: escape_plain)
  moreover have "filter (\<lambda>p. p \<noteq> '''') (map ?f ?kvs) = map ?f ?kvs" by (auto simp: filter_id_conv)
  moreover have "those (map query_pair (map ?f ?kvs)) = Some ?kvs"
    using query_pair_escaped by (subst map_map, subst those_map_Some [where g = id]) auto
  ultimately show ?thesis by (simp add: ParseQuery_def)
qed

end
