(* ===== verification/Solana_API.thy ===== *)
theory Solana_API
  imports Solana_Payment NMI_Client Form_Encoding
begin

text \<open>
  The HTTP handlers of a Solana payment: \<open>solana_generate.go\<close> with \<open>BuildPaymentTransaction\<close> of \<open>solana_transaction.go\<close>,
  \<open>solana_qr.go\<close>, \<open>solana_submit.go\<close>, \<open>solana_check.go\<close> and \<open>solana_supported_tokens.go\<close>. \<open>user\<close> is the user of the request's user
  context (\<open>None\<close>: it has none), \<open>body\<close> what binding gives, and an identifier of the body what \<open>uuid.Parse\<close> gives. The
  requests of one handler to the chain are answered by a \<open>sol_rpc\<close>.
\<close>

definition signed_in :: "user_identity option \<Rightarrow> (user_identity \<Rightarrow> 'a handler) \<Rightarrow> 'a handler" where
  "signed_in user f = (case user of None \<Rightarrow> refuse 401 ''User authentication required'' | Some u \<Rightarrow> f u)"

definition with_id :: "string \<Rightarrow> uuid option \<Rightarrow> (uuid \<Rightarrow> 'a handler) \<Rightarrow> 'a handler" where
  "with_id msg i f = (case i of None \<Rightarrow> refuse 400 msg | Some x \<Rightarrow> f x)"

section \<open>BuildPaymentTransaction\<close>

record built_transaction =
  bt_Base64 :: string
  bt_Amount :: float64
  bt_TokenAmount :: "64 word"
  bt_TokenSymbol :: string
  bt_ExpiresAt :: time
  bt_Instructions :: string

text \<open>The instruction: lamports for \<open>SOL\<close>, and otherwise tokens between the associated accounts of the two wallets.\<close>

definition payment_instruction :: "sol_lib \<Rightarrow> string \<Rightarrow> token_config \<Rightarrow> 64 word \<Rightarrow> string \<Rightarrow> string \<Rightarrow> sol_transfer res" where
  "payment_instruction lib symbol t amount from' to' = (if symbol = ''SOL'' then Inr (NativeTransfer amount from' to')
     else (case sl_Key lib (tk_Mint t) of
         Inl e \<Rightarrow> Inl (ErrWrap ''invalid token mint address'' (ErrNew e))
       | Inr mint \<Rightarrow> (case sl_ATA lib from' mint of
           Inl e \<Rightarrow> Inl (ErrWrap ''failed to find from token account'' (ErrNew e))
         | Inr a \<Rightarrow> (case sl_ATA lib to' mint of
             Inl e \<Rightarrow> Inl (ErrWrap ''failed to find to token account'' (ErrNew e))
           | Inr b \<Rightarrow> Inr (TokenTransfer amount a b from')))))"

definition transaction_text :: "sol_lib \<Rightarrow> sol_transfer \<Rightarrow> string \<Rightarrow> string \<Rightarrow> string res" where
  "transaction_text lib i blockhash payer = (case sl_Build lib i blockhash payer of
     Inl e \<Rightarrow> Inl (ErrWrap ''failed to create transaction'' (ErrNew e))
   | Inr tx \<Rightarrow> (case sl_Marshal lib tx of
       Inl e \<Rightarrow> Inl (ErrWrap ''failed to serialize transaction'' (ErrNew e)) | Inr b \<Rightarrow> Inr b))"

definition build_transaction ::
  "sol_service \<Rightarrow> sol_rpc \<Rightarrow> price \<Rightarrow> string \<Rightarrow> token_config \<Rightarrow> string \<Rightarrow> string \<Rightarrow> built_transaction go" where
  "build_transaction sv c p symbol t from' to' = do {
     q \<leftarrow> calculateTokenQuote sv t (price_Amount p);
     (case q of
        Inl e \<Rightarrow> throw (wrap_err ''failed to calculate token amount'' e)
      | Inr (units, _) \<Rightarrow>
          if units = 0 then throw (ErrNew ''calculated token amount is zero'')
          else (case rpc_Blockhash c of
              Inl e \<Rightarrow> throw (ErrWrap ''failed to get blockhash'' (ErrWrap ''failed to get latest blockhash'' (ErrNew e)))
            | Inr h \<Rightarrow> (case payment_instruction (sv_Lib (ps_Crypto sv)) symbol t units from' to' of
                Inl e \<Rightarrow> throw e
              | Inr i \<Rightarrow> (case transaction_text (sv_Lib (ps_Crypto sv)) i h from' of
                  Inl e \<Rightarrow> throw e
                | Inr b \<Rightarrow> do {
                    now \<leftarrow> now_m;
                    ok \<lparr>bt_Base64 = b, bt_Amount = price_Amount p, bt_TokenAmount = units, bt_TokenSymbol = symbol,
                      bt_ExpiresAt = time_add now (10 * minute),
                      bt_Instructions = ''Sign this transaction to pay '' @ format2 (price_Amount p) @ '' '' @ price_Currency p @
                        '' using '' @ symbol\<rparr>
                  }))))
   }"

definition BuildPaymentTransaction :: "sol_service \<Rightarrow> sol_rpc \<Rightarrow> uuid \<Rightarrow> string \<Rightarrow> string \<Rightarrow> built_transaction go" where
  "BuildPaymentTransaction sv c priceID symbol wallet = do {
     r \<leftarrow> Price_GetByID Pool priceID;
     (case r of
        Inl e \<Rightarrow> throw (wrap_err ''failed to get price'' e)
      | Inr p \<Rightarrow> (case ps_Config sv of
          None \<Rightarrow> throw (ErrNew ''solana configuration not found'')
        | Some cfg \<Rightarrow> (case supported_token cfg symbol of
            None \<Rightarrow> throw (ErrNew (''token '' @ symbol @ '' not supported''))
          | Some t \<Rightarrow> (case sl_Key (sv_Lib (ps_Crypto sv)) wallet of
              Inl e \<Rightarrow> throw (ErrWrap ''invalid user wallet address'' (ErrNew e))
            | Inr from' \<Rightarrow>
                if sc_RecipientWallet cfg = '''' then throw (ErrNew ''merchant wallet not configured'')
                else (case sl_Key (sv_Lib (ps_Crypto sv)) (sc_RecipientWallet cfg) of
                    Inl e \<Rightarrow> throw (ErrWrap ''invalid merchant wallet address'' (ErrNew e))
                  | Inr to' \<Rightarrow> build_transaction sv c p symbol t from' to')))))
   }"

section \<open>GeneratePayment\<close>

record payment_request =
  pr_PriceID :: "uuid option"
  pr_Token :: string
  pr_UserWallet :: string

record generate_response =
  gr_Transaction :: string
  gr_Amount :: float64
  gr_Currency :: string
  gr_TokenAmount :: "64 word"
  gr_TokenSymbol :: string
  gr_ExpiresAt :: int
  gr_Instructions :: string
  gr_IntentID :: string

text \<open>The user's verified wallet with that address.\<close>

definition payer_wallet :: "string \<Rightarrow> string \<Rightarrow> (sol_wallet \<Rightarrow> 'a handler) \<Rightarrow> 'a handler" where
  "payer_wallet u a f = do {
     r \<leftarrow> WalletService_Get u a;
     (case r of
        Inl e \<Rightarrow>
          if err_is e ErrWalletNotFound then refuse 400 ''Wallet is not linked to this account''
          else refuse 500 ''Failed to load wallet''
      | Inr w \<Rightarrow>
          if \<not> sw_IsVerified w then refuse 400 ''Wallet must be verified before generating a transaction'' else f w)
   }"

definition GeneratePayment ::
  "sol_service \<Rightarrow> sol_rpc \<Rightarrow> user_identity option \<Rightarrow> string + payment_request \<Rightarrow> generate_response handler" where
  "GeneratePayment sv c user body = bound body (\<lambda>req. with_id ''Invalid price ID format'' (pr_PriceID req) (\<lambda>priceID.
     signed_in user (\<lambda>u. payer_wallet (ui_ID u) (pr_UserWallet req) (\<lambda>w. do {
       g \<leftarrow> Generate sv (ui_ID u) priceID (pr_Token req);
       (case g of
          Inl e \<Rightarrow> refuse 400 ''Unable to generate payment for this price''
        | Inr (amount, currency, units, expires) \<Rightarrow> do {
            i \<leftarrow> CreateDirectIntent sv (ui_ID u) priceID (pr_Token req) (sw_Address w);
            (case i of
               Inl e \<Rightarrow> refuse 500 ''Failed to prepare payment''
             | Inr intent \<Rightarrow> do {
                 b \<leftarrow> BuildPaymentTransaction sv c priceID (pr_Token req) (sw_Address w);
                 (case b of
                    Inl e \<Rightarrow> refuse 500 ''Failed to build payment transaction''
                  | Inr tx \<Rightarrow> reply \<lparr>gr_Transaction = bt_Base64 tx, gr_Amount = amount, gr_Currency = currency, gr_TokenAmount = units,
                      gr_TokenSymbol = bt_TokenSymbol tx, gr_ExpiresAt = unix_time expires,
                      gr_Instructions = bt_Instructions tx, gr_IntentID = ps_IDString sv (spi_ID intent)\<rparr>)
               })
          })
     }))))"

section \<open>GenerateSolanaPayQR\<close>

text \<open>\<open>big.Rat.FloatString\<close> of \<open>units / 10 ^ decimals\<close> with that many decimals: exact.\<close>

definition pad_zeros :: "nat \<Rightarrow> string \<Rightarrow> string" where
  "pad_zeros n s = replicate (n - length s) (CHR ''0'') @ s"

definition formatTokenAmount :: "64 word \<Rightarrow> int \<Rightarrow> string" where
  "formatTokenAmount units decimals = (if decimals \<le> 0 then show_nat (unat units)
     else let s = 10 ^ nat decimals in
       show_nat (unat units div s) @ ''.'' @ pad_zeros (nat decimals) (show_nat (unat units mod s)))"

record qr_response =
  qr_URL :: string
  qr_Amount :: float64
  qr_TokenAmount :: string
  qr_TokenSymbol :: string
  qr_Label :: string
  qr_Message :: string
  qr_ExpiresAt :: int
  qr_Reference :: string
  qr_IntentID :: string

definition pay_params :: "sol_intent \<Rightarrow> string \<Rightarrow> token_config \<Rightarrow> 64 word \<Rightarrow> string \<Rightarrow> (string \<times> string) list" where
  "pay_params intent symbol t units reference =
     [(''amount'', formatTokenAmount units (tk_Decimals t))] @
     (if tk_Mint t \<noteq> '''' \<and> to_upper symbol \<noteq> ''SOL'' then [(''spl-token'', tk_Mint t)] else []) @
     [(''reference'', reference), (''label'', ''Doujins Purchase'')] @
     (case spi_Memo intent of Some m \<Rightarrow> [(''memo'', m)] | None \<Rightarrow> [])"

definition pay_url :: "sol_intent \<Rightarrow> (string \<times> string) list \<Rightarrow> string" where
  "pay_url intent params = (let base = ''solana:'' @ spi_RecipientWallet intent; q = encode_values params in
     if q = '''' then base else base @ ''?'' @ q)"

definition qr_of :: "sol_service \<Rightarrow> string \<Rightarrow> token_config \<Rightarrow> float64 \<Rightarrow> 64 word \<Rightarrow> time \<Rightarrow> sol_intent \<Rightarrow> qr_response handler" where
  "qr_of sv symbol t amount units expires intent = (case spi_Reference intent of
     None \<Rightarrow> refuse 500 ''Failed to prepare payment''
   | Some reference \<Rightarrow> reply \<lparr>qr_URL = pay_url intent (pay_params intent symbol t units reference), qr_Amount = amount,
       qr_TokenAmount = formatTokenAmount units (tk_Decimals t), qr_TokenSymbol = symbol, qr_Label = ''Doujins Purchase'',
       qr_Message = (case spi_Memo intent of Some m \<Rightarrow> m | None \<Rightarrow> ''''), qr_ExpiresAt = unix_time expires,
       qr_Reference = reference, qr_IntentID = ps_IDString sv (spi_ID intent)\<rparr>)"

definition GenerateSolanaPayQR :: "sol_service \<Rightarrow> user_identity option \<Rightarrow> string + payment_request \<Rightarrow> qr_response handler" where
  "GenerateSolanaPayQR sv user body = bound body (\<lambda>req. with_id ''Invalid price ID format'' (pr_PriceID req) (\<lambda>priceID. do {
     r \<leftarrow> Price_GetByID Pool priceID;
     (case r of
        Inl e \<Rightarrow> refuse 404 ''Price not found''
      | Inr p \<Rightarrow> (case ps_Config sv of
          None \<Rightarrow> refuse 500 ''Payment system configuration error''
        | Some cfg \<Rightarrow> (case supported_token cfg (pr_Token req) of
            None \<Rightarrow> refuse 400 ''Invalid or unsupported token''
          | Some t \<Rightarrow> signed_in user (\<lambda>u. do {
              g \<leftarrow> Generate sv (ui_ID u) (price_ID p) (pr_Token req);
              (case g of
                 Inl e \<Rightarrow> refuse 500 ''Failed to prepare payment''
               | Inr (amount, _, units, expires) \<Rightarrow> do {
                   i \<leftarrow> CreateSolanaPayIntent sv (ui_ID u) (price_ID p) (pr_Token req);
                   (case i of
                      Inl e \<Rightarrow> refuse 500 ''Failed to prepare payment''
                    | Inr intent \<Rightarrow> qr_of sv (pr_Token req) t amount units expires intent)
                 })
            }))))
   }))"

section \<open>The record of a payment\<close>

record transaction_details =
  td_Token :: string
  td_TokenMint :: string
  td_FromAddress :: string
  td_References :: "string list"

text \<open>The memo instructions of a transaction: those whose program is the memo program.\<close>

definition memo_texts :: "sol_lib \<Rightarrow> sol_message \<Rightarrow> string list" where
  "memo_texts lib msg = map si_Data (filter (\<lambda>i. si_Program i = Some (sl_MemoProgram lib)) (sm_Instructions msg))"

definition gatherTransactionReferences :: "sol_lib \<Rightarrow> sol_message \<Rightarrow> sol_meta option \<Rightarrow> string list" where
  "gatherTransactionReferences lib msg m = sort (remdups (filter (\<lambda>s. s \<noteq> '''') (map trim_space
     (sm_AccountKeys msg @ (case m of Some x \<Rightarrow> mt_LoadedReadOnly x @ mt_LoadedWritable x | None \<Rightarrow> []) @ memo_texts lib msg))))"

definition extractTransactionDetails :: "sol_lib \<Rightarrow> sol_result \<Rightarrow> string \<Rightarrow> string \<Rightarrow> string \<Rightarrow> transaction_details" where
  "extractTransactionDetails lib r from' symbol mint = (case rs_Transaction r of
     Some (Inr msg) \<Rightarrow> \<lparr>td_Token = symbol, td_TokenMint = mint,
       td_FromAddress = (case sm_AccountKeys msg of k # _ \<Rightarrow> k | [] \<Rightarrow> from'),
       td_References = gatherTransactionReferences lib msg (rs_Meta r)\<rparr>
   | _ \<Rightarrow> \<lparr>td_Token = symbol, td_TokenMint = mint, td_FromAddress = from', td_References = []\<rparr>)"

text \<open>\<open>hash\<close> is the base58 text of the SHA-256 of its argument.\<close>

definition validateQRReference ::
  "(string \<Rightarrow> string) \<Rightarrow> (uuid \<Rightarrow> string) \<Rightarrow> string \<Rightarrow> string list \<Rightarrow> string \<Rightarrow> uuid \<Rightarrow> (world, unit res) state" where
  "validateQRReference hash idstr memo references u priceID =
     (let parts = split_on (CHR '':'') [] memo in
      if length parts < 2 then throw (ErrNew ''invalid memo format'')
      else (case atoi (List.last parts) of
          None \<Rightarrow> throw (ErrWrap ''failed to parse timestamp from memo'' (ErrNew ''strconv.ParseInt''))
        | Some ts \<Rightarrow> do {
            now \<leftarrow> now_m;
            if unix_time now - ts > 600 then throw (ErrNew ''QR code expired'')
            else if hash (u @ '':'' @ idstr priceID @ '':'' @ show_int ts) \<in> set references then ok ()
            else if references = [] then throw (ErrNew ''no QR reference accounts found in transaction'')
            else throw (ErrNew ''no matching QR reference found'')
          }))"

definition unix_instant :: "int \<Rightarrow> time" where
  "unix_instant s = (s + 62135596800) * 1000000000"

definition transaction_row :: "uuid \<Rightarrow> string \<Rightarrow> string \<Rightarrow> payment \<Rightarrow> transaction_details \<Rightarrow> sol_intent \<Rightarrow> sol_result \<Rightarrow> sol_transaction" where
  "transaction_row i u sig pay d intent r = \<lparr>stx_ID = i, stx_UserID = Some u, stx_Signature = Some sig,
     stx_Status = ''confirmed'', stx_Amount = pay_Amount pay, stx_Token = td_Token d, stx_TokenMint = td_TokenMint d,
     stx_FromAddress = td_FromAddress d, stx_ToAddress = spi_RecipientWallet intent, stx_IntentID = Some (spi_ID intent),
     stx_BlockTime = map_option unix_instant (rs_BlockTime r),
     stx_Slot = (if rs_Slot r > 0 then Some (sint (word_of_nat (rs_Slot r) :: 64 word)) else None)\<rparr>"

definition SolanaTransaction_Insert :: "sol_transaction \<Rightarrow> unit go" where
  "SolanaTransaction_Insert r = db_exec Pool (\<lambda>now t.
     if soltxs_unique (t_soltxs t @ [r]) then Inr ((), \<lambda>t. t\<lparr>t_soltxs := t_soltxs t @ [r]\<rparr>) else Inl duplicate_key)"

section \<open>SubmitPayment\<close>

record submit_request =
  sr_SignedTransaction :: string
  sr_PriceID :: "uuid option"
  sr_Memo :: string
  sr_IntentID :: "uuid option"

record submit_response =
  sbr_PurchaseID :: string
  sbr_TransactionID :: string
  sbr_Status :: string
  sbr_Amount :: float64
  sbr_Currency :: string
  sbr_ProcessedAt :: time
  sbr_Message :: string
  sbr_IntentID :: string

definition submittable :: "sol_intent \<Rightarrow> user_identity \<Rightarrow> uuid \<Rightarrow> time \<Rightarrow> (nat \<times> string) option" where
  "submittable i u priceID now =
     (if spi_UserID i \<noteq> ui_ID u then Some (403, ''Payment intent does not belong to you'')
      else if spi_PriceID i \<noteq> priceID then Some (400, ''Price does not match payment intent'')
      else if spi_FlowType i \<noteq> FlowTypeDirect then Some (400, ''Payment intent is not for direct wallet flow'')
      else if spi_Status i \<noteq> IntentStatusPending \<and> spi_Status i \<noteq> IntentStatusProcessing
        then Some (400, ''Payment intent already processed'')
      else (case spi_ExpiresAt i of Some x \<Rightarrow> if now > x then Some (400, ''Payment intent expired'') else None | None \<Rightarrow> None))"

text \<open>
  The signature to verify: of a transaction that parses, the one it was sent with, or its first; the text itself
  otherwise.
\<close>

definition submitted_signature :: "sol_lib \<Rightarrow> sol_rpc \<Rightarrow> string \<Rightarrow> string \<Rightarrow> (nat \<times> string) + string" where
  "submitted_signature lib c text wallet = (case sl_Parse lib text of
     None \<Rightarrow> Inr text
   | Some (keys, sigs) \<Rightarrow> (case keys of
       [] \<Rightarrow> Inl (400, ''Signed transaction missing fee payer'')
     | k # _ \<Rightarrow>
         if k \<noteq> wallet then Inl (400, ''Signed transaction must use your linked wallet as fee payer'')
         else (case sigs of
             [] \<Rightarrow> Inl (400, ''Signed transaction does not contain a signature'')
           | s # _ \<Rightarrow> Inr (case rpc_Send c text of Inl e \<Rightarrow> s | Inr s2 \<Rightarrow> s2))))"

text \<open>Both handlers, once the transaction is verified: confirm the intent, record the purchase, record the transaction.\<close>

definition settle ::
  "sol_service \<Rightarrow> user_identity \<Rightarrow> uuid \<Rightarrow> sol_intent \<Rightarrow> string \<Rightarrow> (payment \<Rightarrow> (world, 'b) state) \<Rightarrow> string \<Rightarrow>
    transaction_details \<Rightarrow> sol_result \<Rightarrow> (payment \<Rightarrow> 'a handler) \<Rightarrow> 'a handler" where
  "settle sv u priceID intent sig note failed details r f = do {
     MarkConfirmed (spi_ID intent) sig;
     p \<leftarrow> Submit sv (ui_ID u) priceID sig (ui_Email u);
     (case p of
        Inl e \<Rightarrow> do { MarkFailed (spi_ID intent) (err_text e); refuse 500 failed }
      | Inr pay \<Rightarrow> do {
          note pay;
          i \<leftarrow> new_uuid;
          SolanaTransaction_Insert (transaction_row i (ui_ID u) sig pay details intent r);
          f pay
        })
   }"

definition submit_verified ::
  "sol_service \<Rightarrow> sol_rpc \<Rightarrow> (string \<Rightarrow> string) \<Rightarrow> user_identity \<Rightarrow> submit_request \<Rightarrow> uuid \<Rightarrow> sol_intent \<Rightarrow> sol_wallet \<Rightarrow> string \<Rightarrow>
    submit_response handler" where
  "submit_verified sv c hash u req priceID intent wallet sig =
     (case VerifyTransactionWithContent (sv_Lib (ps_Crypto sv)) c sig (spi_ExpectedAmountLamports intent) (spi_RecipientWallet intent)
         (spi_TokenMint intent) (sw_Address wallet) (spi_Reference intent) of
        Inl e \<Rightarrow> do {
          MarkFailed (spi_ID intent) (err_text e);
          refuse 400 (''Transaction verification failed: '' @ err_text e)
        }
      | Inr r \<Rightarrow>
          let details = extractTransactionDetails (sv_Lib (ps_Crypto sv)) r (sw_Address wallet) (spi_Token intent) (spi_TokenMint intent) in
          settle sv u priceID intent sig
            (\<lambda>_. if sr_Memo req \<noteq> '''' then validateQRReference hash (ps_IDString sv) (sr_Memo req) (td_References details) (ui_ID u) priceID
                 else ok ())
            ''Failed to process payment'' details r
            (\<lambda>pay. do {
               now \<leftarrow> now_m;
               reply \<lparr>sbr_PurchaseID = ps_IDString sv (pay_ID pay), sbr_TransactionID = pay_TransactionID pay, sbr_Status = ''confirmed'',
                 sbr_Amount = pay_Amount pay, sbr_Currency = pay_Currency pay, sbr_ProcessedAt = now,
                 sbr_Message = ''Payment verified on-chain and processed successfully.'', sbr_IntentID = ps_IDString sv (spi_ID intent)\<rparr>
             }))"

definition submit_from ::
  "sol_service \<Rightarrow> sol_rpc \<Rightarrow> (string \<Rightarrow> string) \<Rightarrow> user_identity \<Rightarrow> submit_request \<Rightarrow> uuid \<Rightarrow> sol_intent \<Rightarrow> string \<Rightarrow> submit_response handler" where
  "submit_from sv c hash u req priceID intent payer = do {
     g \<leftarrow> WalletService_Get (ui_ID u) payer;
     (case g of
        Inl e \<Rightarrow> refuse 400 ''Linked wallet not available''
      | Inr w \<Rightarrow>
          if \<not> sw_IsVerified w then refuse 400 ''Wallet must be verified before submitting a payment''
          else (case submitted_signature (sv_Lib (ps_Crypto sv)) c (sr_SignedTransaction req) (sw_Address w) of
              Inl (status, msg) \<Rightarrow> refuse status msg
            | Inr sig \<Rightarrow> (case ValidateSignature sig of
                Inl e \<Rightarrow> refuse 400 ''Invalid transaction signature format''
              | Inr _ \<Rightarrow> submit_verified sv c hash u req priceID intent w sig)))
   }"

definition SubmitPayment ::
  "sol_service \<Rightarrow> sol_rpc \<Rightarrow> (string \<Rightarrow> string) \<Rightarrow> user_identity option \<Rightarrow> string + submit_request \<Rightarrow> submit_response handler" where
  "SubmitPayment sv c hash user body = bound body (\<lambda>req. with_id ''Invalid price ID format'' (sr_PriceID req) (\<lambda>priceID.
     with_id ''Invalid intent ID format'' (sr_IntentID req) (\<lambda>intentID. signed_in user (\<lambda>u. do {
       r \<leftarrow> IntentService_GetByID intentID;
       (case r of
          Inl e \<Rightarrow> refuse 400 ''Invalid payment intent''
        | Inr intent \<Rightarrow> do {
            now \<leftarrow> now_m;
            (case submittable intent u priceID now of
               Some (status, msg) \<Rightarrow> refuse status msg
             | None \<Rightarrow> do {
                 MarkProcessing (spi_ID intent);
                 (case spi_PayerWallet intent of
                    None \<Rightarrow> refuse 500 ''Payment intent misconfigured''
                  | Some payer \<Rightarrow>
                      if payer = '''' then refuse 500 ''Payment intent misconfigured''
                      else submit_from sv c hash u req priceID intent payer)
               })
          })
     }))))"

section \<open>CheckSolanaPayment\<close>

record check_response =
  ckr_Status :: string
  ckr_PaymentID :: string
  ckr_IntentID :: string
  ckr_Transaction :: string
  ckr_ErrorMessage :: string

definition check_status :: "string \<Rightarrow> string \<Rightarrow> string \<Rightarrow> check_response handler" where
  "check_status status intentID msg =
     reply \<lparr>ckr_Status = status, ckr_PaymentID = '''', ckr_IntentID = intentID, ckr_Transaction = '''', ckr_ErrorMessage = msg\<rparr>"

definition check_verified :: "sol_service \<Rightarrow> sol_rpc \<Rightarrow> user_identity \<Rightarrow> sol_intent \<Rightarrow> string \<Rightarrow> check_response handler" where
  "check_verified sv c u intent sig =
     (case VerifyTransactionWithContent (sv_Lib (ps_Crypto sv)) c sig (spi_ExpectedAmountLamports intent) (spi_RecipientWallet intent)
         (spi_TokenMint intent) '''' (spi_Reference intent) of
        Inl e \<Rightarrow> do {
          MarkFailed (spi_ID intent) (err_text e);
          check_status ''failed'' (ps_IDString sv (spi_ID intent)) ''Transaction verification failed''
        }
      | Inr r \<Rightarrow>
          settle sv u (spi_PriceID intent) intent sig (\<lambda>_. ok ()) ''Failed to record payment''
            (extractTransactionDetails (sv_Lib (ps_Crypto sv)) r '''' (spi_Token intent) (spi_TokenMint intent)) r
            (\<lambda>pay. reply \<lparr>ckr_Status = ''confirmed'', ckr_PaymentID = ps_IDString sv (pay_ID pay),
               ckr_IntentID = ps_IDString sv (spi_ID intent), ckr_Transaction = sig, ckr_ErrorMessage = ''''\<rparr>))"

definition check_pending :: "sol_service \<Rightarrow> sol_rpc \<Rightarrow> user_identity \<Rightarrow> string \<Rightarrow> sol_intent \<Rightarrow> check_response handler" where
  "check_pending sv c u reference intent = do {
     MarkProcessing (spi_ID intent);
     (case sl_Key (sv_Lib (ps_Crypto sv)) reference of
        Inl e \<Rightarrow> refuse 400 ''Invalid reference format''
      | Inr key \<Rightarrow> (case rpc_SignaturesFor c key of
          Inl e \<Rightarrow> refuse 500 ''Failed to check payment status''
        | Inr [] \<Rightarrow> check_status ''pending'' (ps_IDString sv (spi_ID intent)) ''''
        | Inr (sig # _) \<Rightarrow> check_verified sv c u intent sig))
   }"

definition check_intent :: "sol_service \<Rightarrow> sol_rpc \<Rightarrow> user_identity \<Rightarrow> string \<Rightarrow> sol_intent \<Rightarrow> check_response handler" where
  "check_intent sv c u reference intent =
     (if spi_UserID intent \<noteq> ui_ID u then refuse 403 ''Payment intent does not belong to you''
      else if spi_FlowType intent \<noteq> FlowTypeSolanaPay then refuse 400 ''Reference is not a Solana Pay intent''
      else if spi_Status intent = IntentStatusConfirmed then
        reply \<lparr>ckr_Status = ''confirmed'', ckr_PaymentID = '''', ckr_IntentID = ps_IDString sv (spi_ID intent),
          ckr_Transaction = given (spi_TransactionSignature intent), ckr_ErrorMessage = ''''\<rparr>
      else do {
        now \<leftarrow> now_m;
        if (case spi_ExpiresAt intent of Some x \<Rightarrow> now > x | None \<Rightarrow> False) then do {
          MarkFailed (spi_ID intent) ''intent expired'';
          check_status ''failed'' (ps_IDString sv (spi_ID intent)) ''Intent expired''
        }
        else check_pending sv c u reference intent
      })"

definition CheckSolanaPayment ::
  "sol_service \<Rightarrow> sol_rpc \<Rightarrow> user_identity option \<Rightarrow> string + string \<Rightarrow> check_response handler" where
  "CheckSolanaPayment sv c user query = bound query (\<lambda>reference.
     if reference = '''' then refuse 400 ''Reference is required''
     else signed_in user (\<lambda>u. do {
       r \<leftarrow> IntentService_GetByReference reference;
       (case r of
          Inl e \<Rightarrow> check_status ''pending'' '''' ''''
        | Inr intent \<Rightarrow> check_intent sv c u reference intent)
     }))"

section \<open>GetSupportedTokens\<close>

record token_info =
  ti_Symbol :: string
  ti_Name :: string
  ti_Mint :: string
  ti_Decimals :: int
  ti_Price :: float64

definition token_entry :: "(string \<times> float64) list \<Rightarrow> token_config \<Rightarrow> token_info" where
  "token_entry prices t = \<lparr>ti_Symbol = tk_Symbol t, ti_Name = (if tk_Name t = '''' then tk_Symbol t else tk_Name t),
     ti_Mint = tk_Mint t, ti_Decimals = tk_Decimals t,
     ti_Price = (case map_of prices (quote_mint t) of Some p \<Rightarrow> p | None \<Rightarrow> 0)\<rparr>"

definition GetSupportedTokens :: "sol_service \<Rightarrow> token_info list handler" where
  "GetSupportedTokens sv = (case ps_Config sv of
     None \<Rightarrow> refuse 500 ''Solana configuration missing''
   | Some cfg \<Rightarrow> do {
       let tokens = (if sc_SupportedTokens cfg = [] then TokensForNetwork (sc_Network cfg) else sc_SupportedTokens cfg);
       r \<leftarrow> FetchJupiterPrices sv (remdups (filter (\<lambda>m. m \<noteq> '''') (map (quote_mint \<circ> snd) tokens)));
       reply (map (token_entry (case r of Inl _ \<Rightarrow> [] | Inr ps \<Rightarrow> ps) \<circ> snd) (sort_key fst tokens))
     })"

end
