(* ===== verification/Wallet_Props.thy ===== *)
theory Wallet_Props
  imports Solana_Wallet Samples
begin

text \<open>
  Whose wallets are verified: whatever fails in the database, a request makes a wallet verified only when its user
  presents a valid signature of the challenge that is stored for them and the address.
\<close>

section \<open>The requests\<close>

datatype wallet_request =
    ChallengeRequest "string + string"
  | VerifyRequest "string + string \<times> string"
  | ListRequest
  | DeleteRequest string
  | GetRequest

definition answered :: "(world, 'a) state \<Rightarrow> (world, unit) state" where
  "answered m = State_Monad.bind m (\<lambda>_. State_Monad.return ())"

fun wallet_handler :: "sol_crypto \<Rightarrow> user_identity \<Rightarrow> wallet_request \<Rightarrow> (world, unit) state" where
  "wallet_handler sv u (ChallengeRequest b) = answered (GenerateSolanaWalletChallenge sv u b)"
| "wallet_handler sv u (VerifyRequest b) = answered (VerifySolanaWallet sv u b)"
| "wallet_handler sv u ListRequest = answered (ListSolanaWallets u)"
| "wallet_handler sv u (DeleteRequest a) = answered (DeleteSolanaWallet u a)"
| "wallet_handler sv u GetRequest = answered (GetSolanaWallet u)"

definition verified_wallets :: "tables \<Rightarrow> (string \<times> string) set" where
  "verified_wallets t = (\<lambda>w. (sw_UserID w, sw_Address w)) ` {w \<in> set (t_wallets t). sw_IsVerified w}"

abbreviation only_in :: "(string \<times> string) set \<Rightarrow> tables \<Rightarrow> bool" where
  "only_in V \<equiv> (\<lambda>t. verified_wallets t \<subseteq> V)"

section \<open>The statements\<close>

lemma sane_pool: "sane False I d = (\<lambda>w. w_tx w = None \<and> I (w_db w))"
  by (rule ext) (simp add: sane_def)

lemma keeps_rand [keeps_intros]: "keeps b I (rand_m sv n)"
  by (simp add: keeps_def wp_def rand_m_def)

lemma keeps_answered [keeps_intros]: "keeps b I m \<Longrightarrow> keeps b I (answered m)"
  unfolding answered_def by (intro keeps_intros)

lemma keeps_wallet_queries [keeps_intros]:
  "keeps b I (Wallet_GetByUserAndAddress u a)" "keeps b I (Wallet_ListByUser u)" "keeps b I (Wallet_GetLatest u a)"
  "keeps b I (Wallet_GetPrimary u)" "keeps b I (Challenge_Get u a)"
  unfolding Wallet_GetByUserAndAddress_def Wallet_ListByUser_def Wallet_GetLatest_def Wallet_GetPrimary_def Challenge_Get_def
  by (intro keeps_intros)+

lemma keeps_for_wallet [keeps_intros]: "keeps b I m \<Longrightarrow> keeps b I (for_wallet u a m)"
  unfolding for_wallet_def by (intro keeps_intros)

lemma keeps_one_wallet [keeps_intros]: "keeps b I m \<Longrightarrow> keeps b I (one_wallet what u a m)"
  unfolding one_wallet_def by (intro keeps_intros)

lemma verified_add: "sw_IsVerified w = False \<Longrightarrow> verified_wallets (add_wallet w t) = verified_wallets t"
  by (auto simp: verified_wallets_def add_wallet_def)

lemma keeps_Wallet_Insert: "sw_IsVerified w = False \<Longrightarrow> keeps False (only_in V) (Wallet_Insert w)"
  unfolding Wallet_Insert_def Let_def
  by (intro keeps_intros keeps_exec) (auto simp: verified_add stored_wallet_def split: if_splits)

lemma keeps_Link [keeps_intros]: "keeps False (only_in V) (Link u a)"
  unfolding Link_def by (intro keeps_intros keeps_Wallet_Insert) (simp add: new_wallet_def)

lemma keeps_challenges [keeps_intros]:
  "keeps False (only_in V) (Challenge_Upsert c)" "keeps False (only_in V) (Challenge_Delete u a)"
  unfolding Challenge_Upsert_def Challenge_Delete_def
  by (intro keeps_exec; auto simp: verified_wallets_def)+

lemma verified_update:
  "(u, a) \<in> V \<Longrightarrow> only_in V t \<Longrightarrow> only_in V (t\<lparr>t_wallets := update_where (wallet_of u a) (verify_wallet at') (t_wallets t)\<rparr>)"
  by (auto simp: verified_wallets_def set_update_where wallet_of_def verify_wallet_def split: if_splits)

lemma keeps_Wallet_Verify: "(u, a) \<in> V \<Longrightarrow> keeps False (only_in V) (Wallet_Verify u a)"
  unfolding Wallet_Verify_def Wallet_MarkVerified_def
  by (intro keeps_intros keeps_exec) (auto dest: verified_update)

lemma keeps_Wallet_Delete [keeps_intros]: "keeps False (only_in V) (Wallet_Delete u a)"
  unfolding Wallet_Delete_def by (intro keeps_exec) (auto simp: verified_wallets_def)

lemma keeps_confirm: "(u, swc_Address c) \<in> V \<Longrightarrow> keeps False (only_in V) (confirm_wallet u c)"
  unfolding confirm_wallet_def WalletService_Get_def by (intro keeps_intros keeps_Wallet_Verify)

section \<open>The handlers\<close>

lemma keeps_valid_address [keeps_intros]: "keeps b I m \<Longrightarrow> keeps b I (valid_address a m)"
  unfolding valid_address_def refuse_def by (intro keeps_intros)

lemma keeps_other_requests:
  "\<forall>b. req \<noteq> VerifyRequest b \<Longrightarrow> keeps False (only_in V) (wallet_handler sv u req)"
  by (cases req)
     (auto simp: GenerateSolanaWalletChallenge_def GenerateChallenge_def ListSolanaWallets_def Wallet_List_def
        DeleteSolanaWallet_def WalletService_Delete_def GetSolanaWallet_def WalletService_GetPrimary_def Let_def
        intro!: keeps_intros)

text \<open>The challenge that a request answers with a valid signature in time.\<close>

definition proven :: "sol_crypto \<Rightarrow> user_identity \<Rightarrow> wallet_request \<Rightarrow> world \<Rightarrow> sol_challenge \<Rightarrow> bool" where
  "proven sv u req w c \<longleftrightarrow> (\<exists>a sig. req = VerifyRequest (Inr (a, sig)) \<and> c \<in> set (t_challenges (w_db w)) \<and>
     swc_UserID c = ui_ID u \<and> swc_Address c = a \<and> signature_valid sv c sig = Inr () \<and>
     (\<exists>now. reads w now \<and> now \<le> swc_ExpiresAt c))"

lemma wp_VerifySignature:
  assumes s: "w_tx w = None" "only_in V (w_db w)"
    and V: "\<And>c. c \<in> set (t_challenges (w_db w)) \<Longrightarrow> swc_UserID c = ui_ID u \<Longrightarrow> swc_Address c = a \<Longrightarrow>
      signature_valid sv c sig = Inr () \<Longrightarrow> (\<exists>now. reads w now \<and> now \<le> swc_ExpiresAt c) \<Longrightarrow> (ui_ID u, a) \<in> V"
  shows "wp (VerifySignature sv (ui_ID u) a sig) (\<lambda>_ w'. w_tx w' = None \<and> only_in V (w_db w')) w"
proof -
  have fin: "wp m (\<lambda>_ w'. w_tx w' = None \<and> only_in V (w_db w')) w'"
    if "keeps False (only_in V) m" "w_tx w' = None" "only_in V (w_db w')" for m :: "(world, 'z) state" and w'
    using keepsD[OF that(1), of undefined w'] that(2,3) by (simp add: sane_pool)
  have read: "reads w (clock_now (tick w))"
    by (rule reads_clock) simp_all
  have "wp (if clock_now (tick w) > swc_ExpiresAt c then do { Challenge_Delete (swc_UserID c) (swc_Address c); throw (ErrNew ''challenge expired'') }
      else (case signature_valid sv c sig of Inl e \<Rightarrow> throw e | Inr _ \<Rightarrow> confirm_wallet (ui_ID u) c))
      (\<lambda>_ w'. w_tx w' = None \<and> only_in V (w_db w')) (tick (tick w))"
    if c: "find (challenge_of (ui_ID u) a) (t_challenges (w_db w)) = Some c" for c
  proof -
    from find_Some_in[OF c] have c': "c \<in> set (t_challenges (w_db w))" "swc_UserID c = ui_ID u" "swc_Address c = a"
      by (auto simp: challenge_of_def)
    show ?thesis
    proof (cases "clock_now (tick w) > swc_ExpiresAt c")
      case True
      then show ?thesis
        using s by (simp only: if_True) (rule fin, intro keeps_intros, simp_all)
    next
      case late: False
      show ?thesis
      proof (cases "signature_valid sv c sig")
        case (Inl e)
        then show ?thesis using late s by (simp add: wp_simps)
      next
        case (Inr x)
        have "(ui_ID u, swc_Address c) \<in> V"
          using V[OF c'] Inr late read c'(3) by (metis linorder_not_less old.unit.exhaust)
        then show ?thesis
          using late Inr s by (simp only: if_False sum.case) (rule fin, rule keeps_confirm, simp_all)
      qed
    qed
  qed
  then show ?thesis
    using s unfolding VerifySignature_def for_wallet_def Challenge_Get_def
    by (auto simp: wp_simps scan_row_def split: sum.split option.split)
qed

lemma wallet_step:
  assumes "w_tx w = None"
  shows "wp (wallet_handler sv u req) (\<lambda>_ w'. w_tx w' = None \<and>
    verified_wallets (w_db w') \<subseteq> verified_wallets (w_db w) \<union> {(ui_ID u, swc_Address c) | c. proven sv u req w c}) w"
    (is "wp _ (\<lambda>_ w'. _ \<and> _ \<subseteq> ?V) _")
proof (cases "\<exists>b. req = VerifyRequest b")
  case False
  then have "keeps False (only_in ?V) (wallet_handler sv u req)"
    by (intro keeps_other_requests) blast
  from keepsD[OF this, of undefined w] assms show ?thesis
    by (simp add: sane_pool)
next
  case True
  then obtain b where req: "req = VerifyRequest b" by blast
  show ?thesis
  proof (cases b)
    case (Inl e)
    then show ?thesis
      using assms by (auto simp: req VerifySolanaWallet_def answered_def bound_def refuse_def wp_simps)
  next
    case (Inr x)
    obtain a sig where x: "x = (a, sig)" by (cases x)
    have "wp (VerifySignature sv (ui_ID u) a sig) (\<lambda>_ w'. w_tx w' = None \<and> only_in ?V (w_db w')) w"
      by (rule wp_VerifySignature) (auto simp: assms proven_def req Inr x)
    then show ?thesis
      using assms
      by (auto simp: req Inr x VerifySolanaWallet_def answered_def bound_def refuse_def reply_def valid_address_def wp_simps
        elim!: wp_mono split: sum.split)
  qed
qed

section \<open>Sequences of requests\<close>

fun wallet_traffic :: "sol_crypto \<Rightarrow> (user_identity \<times> wallet_request) list \<Rightarrow> (world, unit) state" where
  "wallet_traffic sv [] = State_Monad.return ()"
| "wallet_traffic sv ((u, req) # rs) = State_Monad.bind (wallet_handler sv u req) (\<lambda>_. wallet_traffic sv rs)"

definition after_requests :: "sol_crypto \<Rightarrow> (user_identity \<times> wallet_request) list \<Rightarrow> world \<Rightarrow> world" where
  "after_requests sv rs w = snd (run_state (wallet_traffic sv rs) w)"

lemma after_requests_simps [simp]:
  "after_requests sv [] w = w"
  "after_requests sv (r # rs) w = after_requests sv rs (snd (run_state (wallet_handler sv (fst r) (snd r)) w))"
  by (cases r; simp add: after_requests_def split: prod.split)+

lemma after_requests_tx: "w_tx w = None \<Longrightarrow> w_tx (after_requests sv rs w) = None"
proof (induction rs arbitrary: w)
  case (Cons r rs)
  then show ?case using wallet_step[OF Cons.prems, of sv "fst r" "snd r"] by (simp add: wp_def)
qed simp

lemma wallet_traffic_proven:
  assumes "w_tx w = None" "x \<in> verified_wallets (w_db (after_requests sv rs w))"
  shows "x \<in> verified_wallets (w_db w) \<or> (\<exists>i < length rs. \<exists>c. x = (ui_ID (fst (rs ! i)), swc_Address c) \<and>
    proven sv (fst (rs ! i)) (snd (rs ! i)) (after_requests sv (take i rs) w) c)"
  using assms
proof (induction rs arbitrary: w)
  case (Cons r rs)
  let ?w = "snd (run_state (wallet_handler sv (fst r) (snd r)) w)"
  from wallet_step[OF Cons.prems(1), of sv "fst r" "snd r"]
  have tx: "w_tx ?w = None" and step: "verified_wallets (w_db ?w) \<subseteq> verified_wallets (w_db w) \<union>
      {(ui_ID (fst r), swc_Address c) | c. proven sv (fst r) (snd r) w c}"
    by (simp_all add: wp_def)
  from Cons.prems(2) have "x \<in> verified_wallets (w_db (after_requests sv rs ?w))" by simp
  from Cons.IH[OF tx this] show ?case
  proof (elim disjE exE conjE)
    assume "x \<in> verified_wallets (w_db ?w)"
    with step have "x \<in> verified_wallets (w_db w) \<or> (\<exists>c. x = (ui_ID (fst r), swc_Address c) \<and> proven sv (fst r) (snd r) w c)"
      by blast
    then show ?thesis by (auto intro!: exI[of _ 0])
  next
    fix i c
    assume "i < length rs" "x = (ui_ID (fst (rs ! i)), swc_Address c)"
      "proven sv (fst (rs ! i)) (snd (rs ! i)) (after_requests sv (take i rs) ?w) c"
    then show ?thesis
      by (intro disjI2 exI[of _ "Suc i"]) auto
  qed
qed simp

text \<open>
  C19. A verified wallet has been proven: after any sequence of wallet requests by any users, with whatever database
  faults, a wallet is verified only if it was at the start, or if one of the requests presented, before the expiry, a
  signature that is valid for the challenge then stored for that user and that address.
\<close>

theorem verified_wallet_is_proven:
  assumes "w_tx w = None" "(u, a) \<in> verified_wallets (w_db (after_requests sv rs w))" "(u, a) \<notin> verified_wallets (w_db w)"
  shows "\<exists>i < length rs. \<exists>c. proven sv (fst (rs ! i)) (snd (rs ! i)) (after_requests sv (take i rs) w) c \<and>
    ui_ID (fst (rs ! i)) = u \<and> swc_Address c = a"
  using wallet_traffic_proven[OF assms(1,2)] assms(3) by blast

section \<open>An address is taken by whoever asks first\<close>

lemma Link_taken:
  assumes "w_tx w = None" "wallets_unique (t_wallets (w_db w))" "x \<in> set (t_wallets (w_db w))" "sw_Address x = a"
    "sw_UserID x \<noteq> u"
  shows "wp (Link u a) (\<lambda>r w'. (\<exists>e. r = Inl e) \<and> w_tx w' = None \<and> w_db w' = w_db w) w"
proof -
  have none: "find (wallet_of u a) (t_wallets (w_db w)) = None"
  proof -
    have "\<not> wallet_of u a y" if y: "y \<in> set (t_wallets (w_db w))" for y
    proof
      assume "wallet_of u a y"
      with assms(2,3,4) y have "y = x"
        by (auto simp: wallets_unique_def wallet_of_def distinct_map inj_on_def)
      with \<open>wallet_of u a y\<close> assms(5) show False by (simp add: wallet_of_def)
    qed
    then show ?thesis by (simp add: find_None_iff)
  qed
  have dup: "\<not> wallets_unique (t_wallets (add_wallet (stored_wallet now (new_wallet u a n i)) (w_db w)))" for now n i
    using assms(3,4) by (auto simp: wallets_unique_def add_wallet_def stored_wallet_def new_wallet_def image_iff)
  show ?thesis
    unfolding Link_def for_wallet_def Wallet_GetByUserAndAddress_def Wallet_Insert_def
    by (simp add: wp_simps none dup scan_row_def assms(1) split: sum.split option.split)
qed

lemma VerifySignature_taken:
  assumes "w_tx w = None" "wallets_unique (t_wallets (w_db w))" "x \<in> set (t_wallets (w_db w))" "sw_Address x = a"
    "sw_UserID x \<noteq> u"
  shows "wp (VerifySignature sv u a sig) (\<lambda>r w'. (\<exists>e. r = Inl e) \<and> t_wallets (w_db w') = t_wallets (w_db w)) w"
proof -
  have link: "wp (confirm_wallet u c) (\<lambda>r w'. (\<exists>e. r = Inl e) \<and> t_wallets (w_db w') = t_wallets (w_db w)) (tick (tick w))"
    if "swc_Address c = a" for c
    unfolding confirm_wallet_def wp_bind that
    by (rule wp_mono[OF Link_taken[of "tick (tick w)" x]]) (auto simp: assms wp_simps)
  have "wp (if clock_now (tick w) > swc_ExpiresAt c then do { Challenge_Delete (swc_UserID c) (swc_Address c); throw (ErrNew ''challenge expired'') }
      else (case signature_valid sv c sig of Inl e \<Rightarrow> throw e | Inr _ \<Rightarrow> confirm_wallet u c))
      (\<lambda>r w'. (\<exists>e. r = Inl e) \<and> t_wallets (w_db w') = t_wallets (w_db w)) (tick (tick w))"
    if c: "find (challenge_of u a) (t_challenges (w_db w)) = Some c" for c
  proof -
    have "swc_Address c = a" using find_Some_in[OF c] by (simp add: challenge_of_def)
    from link[OF this] show ?thesis
      using assms(1) by (auto simp: wp_simps Challenge_Delete_def db_write_def split: sum.split option.split)
  qed
  then show ?thesis
    unfolding VerifySignature_def for_wallet_def Challenge_Get_def
    using assms(1) by (auto simp: wp_simps scan_row_def split: sum.split option.split)
qed

text \<open>
  C25. An address belongs to whoever asked for a challenge first, verified or not: while another user has a wallet with
  the address, a user who presents a signature of it is answered with an error, whatever the signature, and no wallet
  changes.
\<close>

theorem taken_address_cannot_be_verified:
  assumes "w_tx w = None" "wallets_unique (t_wallets (w_db w))" "x \<in> set (t_wallets (w_db w))" "sw_Address x = a"
    "sw_UserID x \<noteq> ui_ID u" "run_state (VerifySolanaWallet sv u (Inr (a, sig))) w = (r, w')"
  shows "(\<exists>msg. r = ErrorJSON 400 msg) \<and> t_wallets (w_db w') = t_wallets (w_db w)"
proof -
  have "wp (VerifySolanaWallet sv u (Inr (a, sig))) (\<lambda>r w'. (\<exists>msg. r = ErrorJSON 400 msg) \<and> t_wallets (w_db w') = t_wallets (w_db w)) w"
    unfolding VerifySolanaWallet_def bound_def valid_address_def
    by (auto simp: wp_simps refuse_def reply_def assms split: sum.split intro: wp_mono[OF VerifySignature_taken[OF assms(1-5)]])
  then show ?thesis using assms(6) by (rule wp_run[of _ "\<lambda>r w'. _ r w'"])
qed

section \<open>Witnesses\<close>

text \<open>A signature scheme for the examples: the signature bytes begin with those of the key.\<close>

definition sample_lib :: sol_lib where
  "sample_lib = \<lparr>sl_SystemProgram = ''System'', sl_TokenProgram = ''Token'', sl_MemoProgram = ''Memo'', sl_Key = Inr,
     sl_ATA = (\<lambda>owner mint. Inr (owner @ mint)), sl_Parse = (\<lambda>_. None), sl_Build = (\<lambda>_ _ _. Inr ''tx''), sl_Marshal = Inr\<rparr>"

definition sample_crypto :: sol_crypto where
  "sample_crypto = \<lparr>sv_Lib = sample_lib, sv_Rand = (\<lambda>_ n. Inr (replicate n (CHR ''r''))),
     sv_Verify = (\<lambda>key msg s. take 8 s = take 8 key), sv_Encode58 = id, sv_Decode58 = (\<lambda>s. Inr (take 64 s))\<rparr>"

definition ann :: user_identity where
  "ann = \<lparr>ui_ID = ''ann'', ui_Email = Some ''ann@example.com'', ui_Username = ''ann''\<rparr>"

definition bob :: user_identity where
  "bob = \<lparr>ui_ID = ''bob'', ui_Email = None, ui_Username = ''bob''\<rparr>"

definition sample_address :: string where "sample_address = replicate 40 (CHR ''A'')"
definition sample_signature :: string where "sample_signature = replicate 88 (CHR ''A'')"

definition wallet_world :: world where
  "wallet_world = sample_world\<lparr>w_env := sample_env\<lparr>env_clock := \<lambda>_. 62135596800000000000\<rparr>\<rparr>"

definition sample_requests :: "(user_identity \<times> wallet_request) list" where
  "sample_requests = [(ann, ChallengeRequest (Inr sample_address)), (ann, VerifyRequest (Inr (sample_address, sample_signature)))]"

lemma verified_iff: "(u, a) \<in> verified_wallets t \<longleftrightarrow> (\<exists>w \<in> set (t_wallets t). sw_IsVerified w \<and> sw_UserID w = u \<and> sw_Address w = a)"
  by (auto simp: verified_wallets_def)

lemma sample_wallet_run:
  "\<exists>w \<in> set (t_wallets (w_db (after_requests sample_crypto sample_requests wallet_world))).
     sw_IsVerified w \<and> sw_UserID w = ''ann'' \<and> sw_Address w = sample_address"
  by code_simp

lemma verified_wallet_is_proven_witness:
  "\<exists>i < length sample_requests. \<exists>c. proven sample_crypto (fst (sample_requests ! i)) (snd (sample_requests ! i))
     (after_requests sample_crypto (take i sample_requests) wallet_world) c \<and>
     ui_ID (fst (sample_requests ! i)) = ''ann'' \<and> swc_Address c = sample_address"
proof (rule verified_wallet_is_proven)
  show "(''ann'', sample_address) \<in> verified_wallets (w_db (after_requests sample_crypto sample_requests wallet_world))"
    unfolding verified_iff by (rule sample_wallet_run)
  show "w_tx wallet_world = None" "(''ann'', sample_address) \<notin> verified_wallets (w_db wallet_world)"
    by (simp_all add: wallet_world_def sample_world_def sample_tables_def verified_iff)
qed

text \<open>Bob asks for a challenge of Ann's address; Ann, who holds the key, is refused.\<close>

definition squatted_world :: world where
  "squatted_world = after_requests sample_crypto [(bob, ChallengeRequest (Inr sample_address)),
     (ann, ChallengeRequest (Inr sample_address))] wallet_world"

lemma squatted_rows: "map (\<lambda>x. (sw_UserID x, sw_Address x)) (t_wallets (w_db squatted_world)) = [(''bob'', sample_address)]"
  by code_simp

lemma squatted_tx: "w_tx squatted_world = None"
  unfolding squatted_world_def by (intro after_requests_tx) (simp add: wallet_world_def sample_world_def)

lemma taken_address_cannot_be_verified_witness:
  "(\<exists>msg. fst (run_state (VerifySolanaWallet sample_crypto ann (Inr (sample_address, sample_signature))) squatted_world) = ErrorJSON 400 msg) \<and>
   t_wallets (w_db (snd (run_state (VerifySolanaWallet sample_crypto ann (Inr (sample_address, sample_signature))) squatted_world))) =
     t_wallets (w_db squatted_world)"
proof -
  obtain x where x: "t_wallets (w_db squatted_world) = [x]" "sw_UserID x = ''bob''" "sw_Address x = sample_address"
    using squatted_rows by (auto simp: map_eq_Cons_conv)
  show ?thesis
    by (rule taken_address_cannot_be_verified[where x = x])
       (simp_all add: squatted_tx x wallets_unique_def ann_def)
qed

end
