(* ===== verification/Chain_Props.thy ===== *)
theory Chain_Props
  imports Wallet_Props
begin

text \<open>
  What the verification of a transaction on the chain establishes, and what it does not: the transfer it finds goes to the
  recipient, but a transfer of lamports is taken for one of tokens, and an intent of nothing is paid by any transaction.
\<close>

section \<open>The transfer that is found\<close>

text \<open>The instruction transfers at least the amount from the payer to one of the accounts: in lamports or in tokens.\<close>

definition sends_lamports :: "sol_lib \<Rightarrow> string list \<Rightarrow> 64 word \<Rightarrow> string \<Rightarrow> sol_instruction \<Rightarrow> bool" where
  "sends_lamports lib accounts amount payer i \<longleftrightarrow> si_Program i = Some (sl_SystemProgram lib) \<and>
     (\<exists>l s d. si_Decoded i = Some (SysTransfer (Some l) (Some s) (Some d)) \<and> amount \<le> l \<and> d \<in> set accounts \<and>
       (payer = '''' \<or> s = payer))"

definition sends_tokens :: "sol_lib \<Rightarrow> sol_meta \<Rightarrow> string list \<Rightarrow> string \<Rightarrow> 64 word \<Rightarrow> string \<Rightarrow> sol_instruction \<Rightarrow> bool" where
  "sends_tokens lib m accounts mint amount payer i \<longleftrightarrow> si_Program i = Some (sl_TokenProgram lib) \<and>
     (\<exists>a as d o' k actual. (si_Decoded i = Some (TokTransfer (Some a)) \<and> d = 1 \<and> o' = 2 \<or>
         si_Decoded i = Some (TokTransferChecked (Some a)) \<and> d = 2 \<and> o' = 3) \<and>
       si_Accounts i = Some as \<and> o' < length as \<and> as ! d \<in> set accounts \<and> (payer = '''' \<or> as ! o' = payer) \<and> amount \<le> a \<and>
       accountIndexFromInstruction i d = Some k \<and>
       (actual = mintForAccount m k \<or> d = 2 \<and> actual = as ! 1 \<and> actual \<noteq> '''') \<and>
       (mint = '''' \<or> actual = '''' \<or> mintMatches mint actual))"

text \<open>The balance of an account, in lamports or in tokens, has grown by at least the amount.\<close>

definition lamports_grew :: "sol_meta \<Rightarrow> nat \<Rightarrow> 64 word \<Rightarrow> bool" where
  "lamports_grew m k amount \<longleftrightarrow> k < length (mt_PreBalances m) \<and> k < length (mt_PostBalances m) \<and>
     uint (mt_PreBalances m ! k) + uint amount \<le> uint (mt_PostBalances m ! k)"

definition tokens_grew :: "sol_meta \<Rightarrow> nat \<Rightarrow> 64 word \<Rightarrow> bool" where
  "tokens_grew m k amount \<longleftrightarrow> (\<exists>post pre. tokenBalanceDelta m k = Inr (post, pre) \<and> uint pre + uint amount \<le> uint post)"

lemma word_le_diff:
  fixes a b c :: "'a :: len word"
  assumes "b \<le> a" "c \<le> a - b"
  shows "uint b + uint c \<le> uint a"
  using assms by (simp add: word_le_def uint_sub_if')

lemma pickBetterMatch_Some: "pickBetterMatch b c = Some x \<Longrightarrow> b = Some x \<or> c = Some x"
  by (auto simp: pickBetterMatch_def split: option.splits if_splits)

lemma found_match:
  "foldl (\<lambda>best i. pickBetterMatch best (f i)) b is = Some x \<Longrightarrow> b = Some x \<or> (\<exists>i \<in> set is. f i = Some x)"
proof (induction "is" arbitrary: b)
  case (Cons i "is")
  from Cons.prems have "foldl (\<lambda>best i. pickBetterMatch best (f i)) (pickBetterMatch b (f i)) is = Some x" by simp
  from Cons.IH[OF this] show ?case by (auto dest: pickBetterMatch_Some)
qed simp

lemma instruction_match_sends:
  assumes "instruction_match lib m accounts mint amount payer i = Some x"
  shows "sends_lamports lib accounts amount payer i \<or> sends_tokens lib m accounts mint amount payer i"
  using assms
  by (auto simp: instruction_match_def evaluateSystemTransfer_def evaluateTokenTransfer_def evaluateTokenTransferChecked_def
      sends_lamports_def sends_tokens_def Let_def not_less split: option.splits if_splits sol_decoded.splits)

lemma verifyBalanceChanges_grew:
  "verifyBalanceChanges m k a amount = Inr () \<Longrightarrow> lamports_grew m k amount \<or> tokens_grew m k amount"
  by (auto simp: verifyBalanceChanges_def lamports_received_def lamports_grew_def tokens_grew_def word_le_diff not_less
      split: if_splits sum.splits)

lemma validated_transaction:
  assumes "validateTransactionContent lib r m amount recipient mint payer reference = Inr ()"
  shows "\<exists>msg k. rs_Transaction r = Some (Inr msg) \<and> payer_ok lib msg payer = Inr () \<and> reference_ok lib msg m reference = Inr () \<and>
    (\<exists>i \<in> set (sm_Instructions msg). sends_lamports lib (recipient_candidates lib recipient mint) amount payer i \<or>
       sends_tokens lib m (recipient_candidates lib recipient mint) (normalizeMint mint) amount payer i) \<and>
    (lamports_grew m k amount \<or> tokens_grew m k amount)"
proof -
  from assms obtain msg x where msg: "rs_Transaction r = Some (Inr msg)" "payer_ok lib msg payer = Inr ()"
      "reference_ok lib msg m reference = Inr ()"
    and f: "findTransferMatch lib m msg (recipient_candidates lib recipient mint) mint amount payer = Inr (Some x)"
    and v: "verifyBalanceChanges m (tm_AccountIndex x) (tm_Destination x) amount = Inr ()"
    by (auto simp: validateTransactionContent_def split: option.splits sum.splits)
  from f have "foldl (\<lambda>best i. pickBetterMatch best (instruction_match lib m (recipient_candidates lib recipient mint)
      (normalizeMint mint) amount payer i)) None (sm_Instructions msg) = Some x"
    by (auto simp: findTransferMatch_def split: if_splits option.splits)
  from found_match[OF this] obtain i where "i \<in> set (sm_Instructions msg)"
    "instruction_match lib m (recipient_candidates lib recipient mint) (normalizeMint mint) amount payer i = Some x"
    by auto
  with instruction_match_sends verifyBalanceChanges_grew[OF v] msg show ?thesis by blast
qed

text \<open>What the answers of the chain must have been: confirmed, found, and without an error.\<close>

definition on_chain :: "sol_rpc \<Rightarrow> string \<Rightarrow> sol_result \<Rightarrow> sol_meta \<Rightarrow> bool" where
  "on_chain c signature r m \<longleftrightarrow> (\<exists>sig. rpc_Signature c signature = Inr sig \<and> rs_Meta r = Some m \<and> mt_Err m = None \<and>
     (\<exists>level. Polled None level \<in> set (rpc_Polls c sig) \<and> level \<in> {''confirmed'', ''finalized''}) \<and>
     (\<exists>n < 5. rpc_Get c sig n = Inr r))"

lemma confirmed_by_poll:
  "confirmed_by sig ps = Inr () \<Longrightarrow> \<exists>level. Polled None level \<in> set ps \<and> level \<in> {''confirmed'', ''finalized''}"
  by (induction ps) (auto split: poll.splits option.splits if_splits)

lemma retry_found: "GetTransactionWithRetry c sig i n e = Inr r \<Longrightarrow> \<exists>k. i \<le> k \<and> k < i + n \<and> rpc_Get c sig k = Inr r"
proof (induction n arbitrary: i e)
  case (Suc n)
  then show ?case
  proof (cases "rpc_Get c sig i")
    case (Inl e')
    with Suc.prems obtain e'' where "GetTransactionWithRetry c sig (Suc i) n e'' = Inr r"
      by (auto split: if_splits option.splits)
    from Suc.IH[OF this] show ?thesis by (auto intro: Suc_leD)
  qed (auto intro!: exI[of _ i])
qed simp

lemma fetched_on_chain: "fetchConfirmedTransaction c s = Inr (r, m) \<Longrightarrow> on_chain c s r m"
  by (auto simp: fetchConfirmedTransaction_def on_chain_def dest!: confirmed_by_poll retry_found split: sum.splits option.splits)

text \<open>
  C16. A transaction that is accepted for an intent of some amount pays it: the chain confirmed it without an error; one of
  its instructions transfers at least the amount, from the payer when one is expected, to the recipient or its
  associated token account; some account's balance grew by at least the amount; the payer pays its fee; and it names the
  reference of the intent.
\<close>

theorem accepted_transaction_pays:
  assumes "VerifyTransactionWithContent lib c signature amount recipient mint payer reference = Inr r"
    and "amount > 0" "recipient \<noteq> ''''"
  shows "\<exists>msg m k. on_chain c signature r m \<and> rs_Transaction r = Some (Inr msg) \<and>
    (\<exists>i \<in> set (sm_Instructions msg). sends_lamports lib (recipient_candidates lib recipient mint) amount payer i \<or>
       sends_tokens lib m (recipient_candidates lib recipient mint) (normalizeMint mint) amount payer i) \<and>
    (lamports_grew m k amount \<or> tokens_grew m k amount) \<and>
    (payer = '''' \<or> (\<exists>key ks. sl_Key lib payer = Inr key \<and> sm_AccountKeys msg = key # ks)) \<and>
    (\<forall>s. reference = Some s \<and> s \<noteq> '''' \<longrightarrow> (\<exists>key. sl_Key lib s = Inr key \<and> messageContainsKey msg m key))"
proof -
  from assms obtain m where f: "fetchConfirmedTransaction c signature = Inr (r, m)"
    and v: "validateTransactionContent lib r m amount recipient mint payer reference = Inr ()"
    by (auto simp: VerifyTransactionWithContent_def split: sum.splits if_splits)
  from validated_transaction[OF v] obtain msg k where t: "rs_Transaction r = Some (Inr msg)" "payer_ok lib msg payer = Inr ()"
      "reference_ok lib msg m reference = Inr ()"
      "\<exists>i \<in> set (sm_Instructions msg). sends_lamports lib (recipient_candidates lib recipient mint) amount payer i \<or>
         sends_tokens lib m (recipient_candidates lib recipient mint) (normalizeMint mint) amount payer i"
      "lamports_grew m k amount \<or> tokens_grew m k amount"
    by blast
  have payer: "payer = '''' \<or> (\<exists>key ks. sl_Key lib payer = Inr key \<and> sm_AccountKeys msg = key # ks)"
    using t(2) by (auto simp: payer_ok_def split: if_splits sum.splits list.splits)
  have ref: "\<forall>s. reference = Some s \<and> s \<noteq> '''' \<longrightarrow> (\<exists>key. sl_Key lib s = Inr key \<and> messageContainsKey msg m key)"
    using t(3) by (auto simp: reference_ok_def split: if_splits sum.splits)
  show ?thesis
    by (intro exI conjI) (rule fetched_on_chain[OF f], rule t(1), rule t(4), rule t(5), rule payer, rule ref)
qed

section \<open>Lamports for tokens\<close>

text \<open>
  C38. The mint of the intent does not matter to a native transfer: a transaction of the payer with a single instruction that
  transfers lamports to the recipient, whose balance grows by them, is accepted for an intent of that many units of any
  token, however few lamports are worth.
\<close>

theorem lamports_pay_for_tokens:
  assumes "rs_Transaction r = Some (Inr msg)" "payer_ok lib msg payer = Inr ()" "reference_ok lib msg m reference = Inr ()"
    and i: "sm_Instructions msg = [i]" "si_Program i = Some (sl_SystemProgram lib)" "si_Accounts i = Some as"
      "si_Decoded i = Some (SysTransfer (Some l) (Some s) (Some recipient))" "accountIndexFromInstruction i 1 = Some k"
    and "amount \<le> l" "payer = '''' \<or> s = payer" "lamports_received m k amount"
    and lib: "invalid_candidate lib (recipient_candidates lib recipient mint) = None"
  shows "validateTransactionContent lib r m amount recipient mint payer reference = Inr ()"
proof -
  have c: "recipient \<in> set (recipient_candidates lib recipient mint)"
    by (simp add: recipient_candidates_def split: sum.split)
  have "instruction_match lib m (recipient_candidates lib recipient mint) (normalizeMint mint) amount payer i =
      Some \<lparr>tm_Program = ''system'', tm_Amount = l, tm_Source = s, tm_Destination = recipient, tm_Mint = '''', tm_AccountIndex = k\<rparr>"
    using i assms(9,10) c by (auto simp: instruction_match_def evaluateSystemTransfer_def)
  then have "findTransferMatch lib m msg (recipient_candidates lib recipient mint) mint amount payer =
      Inr (Some \<lparr>tm_Program = ''system'', tm_Amount = l, tm_Source = s, tm_Destination = recipient, tm_Mint = '''', tm_AccountIndex = k\<rparr>)"
    using c lib i(1) by (auto simp: findTransferMatch_def pickBetterMatch_def)
  then show ?thesis
    using assms by (simp add: validateTransactionContent_def verifyBalanceChanges_def)
qed

section \<open>An intent of nothing\<close>

text \<open>
  An intent whose quote came to zero units is paid by any transaction: the verification then asks only that the chain
  confirmed the transaction without an error, not who sent what to whom.
\<close>

theorem zero_intent_paid_by_any_transaction:
  "VerifyTransactionWithContent lib c signature 0 recipient mint payer reference =
     (case fetchConfirmedTransaction c signature of Inl e \<Rightarrow> Inl e | Inr (r, m) \<Rightarrow> Inr r)"
  by (simp add: VerifyTransactionWithContent_def split: sum.split)

section \<open>Witnesses\<close>

text \<open>A transaction that transfers 1500 lamports from Ann's wallet to the merchant's, as the chain reports it.\<close>

definition sample_transfer :: sol_instruction where
  "sample_transfer = \<lparr>si_Program = Some ''System'', si_AccountIndexes = [0, 1], si_Accounts = Some [''Ann'', ''Shop''], si_Data = '''',
     si_Decoded = Some (SysTransfer (Some 1500) (Some ''Ann'') (Some ''Shop''))\<rparr>"

definition sample_message :: sol_message where
  "sample_message = \<lparr>sm_AccountKeys = [''Ann'', ''Shop'', ''Ref''], sm_Instructions = [sample_transfer]\<rparr>"

definition sample_meta :: sol_meta where
  "sample_meta = \<lparr>mt_Err = None, mt_PreBalances = [9000, 100, 0], mt_PostBalances = [7400, 1600, 0], mt_PreTokenBalances = [],
     mt_PostTokenBalances = [], mt_LoadedWritable = [], mt_LoadedReadOnly = []\<rparr>"

definition sample_result :: sol_result where
  "sample_result = \<lparr>rs_Slot = 7, rs_BlockTime = Some 1700000000, rs_Meta = Some sample_meta, rs_Transaction = Some (Inr sample_message)\<rparr>"

text \<open>The chain: the transaction is confirmed at the second poll and found at the second attempt.\<close>

definition sample_rpc :: sol_rpc where
  "sample_rpc = \<lparr>rpc_Signature = Inr, rpc_Polls = (\<lambda>_. [NoStatus, Polled None ''confirmed'']),
     rpc_Get = (\<lambda>_ n. if n = 0 then Inl (ErrNew ''transaction not found'') else Inr sample_result), rpc_Done = (\<lambda>_. None),
     rpc_Send = (\<lambda>_. Inl ''already sent''), rpc_SignaturesFor = (\<lambda>_. Inr [sample_signature]), rpc_Blockhash = Inr ''hash''\<rparr>"

lemma sample_verification:
  "VerifyTransactionWithContent sample_lib sample_rpc ''sig'' 1500 ''Shop'' '''' ''Ann'' (Some ''Ref'') = Inr sample_result"
proof -
  have "fetchConfirmedTransaction sample_rpc ''sig'' = Inr (sample_result, sample_meta)"
    by code_simp
  moreover have "validateTransactionContent sample_lib sample_result sample_meta 1500 ''Shop'' '''' ''Ann'' (Some ''Ref'') = Inr ()"
    by code_simp
  ultimately show ?thesis by (simp add: VerifyTransactionWithContent_def)
qed

lemma accepted_transaction_pays_witness:
  "\<exists>msg m k. on_chain sample_rpc ''sig'' sample_result m \<and> rs_Transaction sample_result = Some (Inr msg) \<and>
    (\<exists>i \<in> set (sm_Instructions msg). sends_lamports sample_lib (recipient_candidates sample_lib ''Shop'' '''') 1500 ''Ann'' i \<or>
       sends_tokens sample_lib m (recipient_candidates sample_lib ''Shop'' '''') (normalizeMint '''') 1500 ''Ann'' i) \<and>
    (lamports_grew m k 1500 \<or> tokens_grew m k 1500) \<and>
    (''Ann'' = '''' \<or> (\<exists>key ks. sl_Key sample_lib ''Ann'' = Inr key \<and> sm_AccountKeys msg = key # ks)) \<and>
    (\<forall>s. Some ''Ref'' = Some s \<and> s \<noteq> '''' \<longrightarrow> (\<exists>key. sl_Key sample_lib s = Inr key \<and> messageContainsKey msg m key))"
  by (rule accepted_transaction_pays[OF sample_verification]) simp_all

text \<open>1500 lamports for 1500 units of a stablecoin of six decimals, 0.0015 of it.\<close>

lemma lamports_pay_for_tokens_witness:
  "validateTransactionContent sample_lib sample_result sample_meta 1500 ''Shop''
     ''EPjFWdd5AufqSSqeM2qN1xzybapC8G4wEGGkZwyTDt1v'' ''Ann'' (Some ''Ref'') = Inr ()"
proof (rule lamports_pay_for_tokens)
  show "rs_Transaction sample_result = Some (Inr sample_message)" by (simp add: sample_result_def)
  show "sm_Instructions sample_message = [sample_transfer]" by (simp add: sample_message_def)
  show "si_Program sample_transfer = Some (sl_SystemProgram sample_lib)" by (simp add: sample_transfer_def sample_lib_def)
  show "si_Accounts sample_transfer = Some [''Ann'', ''Shop'']" by (simp add: sample_transfer_def)
  show "si_Decoded sample_transfer = Some (SysTransfer (Some 1500) (Some ''Ann'') (Some ''Shop''))" by (simp add: sample_transfer_def)
  show "accountIndexFromInstruction sample_transfer 1 = Some 1"
    by (simp add: sample_transfer_def accountIndexFromInstruction_def)
  show "lamports_received sample_meta 1 1500" by code_simp
  show "payer_ok sample_lib sample_message ''Ann'' = Inr ()" by code_simp
  show "reference_ok sample_lib sample_message sample_meta (Some ''Ref'') = Inr ()" by code_simp
  show "invalid_candidate sample_lib (recipient_candidates sample_lib ''Shop'' ''EPjFWdd5AufqSSqeM2qN1xzybapC8G4wEGGkZwyTDt1v'') = None"
    by code_simp
qed simp_all

end
