(* ===== verification/Purchase_Props.thy ===== *)
theory Purchase_Props
  imports Solana_API Chain_Props Lifecycle_Laws
begin

text \<open>
  What holds of Solana purchases whatever fails in the database: a signature pays once, nothing is granted for an intent
  whose transaction is not verified, and the intents stay well-formed.
\<close>

section \<open>The statements\<close>

lemma keeps_one_off_allowed [keeps_intros]: "keeps b I (one_off_allowed h u)"
  unfolding one_off_allowed_def EntRepo_HasActiveIndefinite_def by (intro keeps_intros)

lemma keeps_catalogue_reads [keeps_intros]: "keeps b I (Price_GetByID h i)" "keeps b I (Product_GetByID h i)"
  unfolding Price_GetByID_def Product_GetByID_def by (intro keeps_intros)+

lemma keeps_feed [keeps_intros]: "keeps b I (FetchJupiterPrices sv mints)"
  by (simp add: keeps_def wp_def FetchJupiterPrices_def ok_def)

lemma keeps_quote [keeps_intros]: "keeps b I (calculateTokenQuote sv t x)"
  unfolding calculateTokenQuote_def Let_def by (intro keeps_intros)

lemma keeps_quoted_price [keeps_intros]: "keeps b I (quoted_price sv u p symbol)"
  unfolding quoted_price_def by (intro keeps_intros)

lemma keeps_Generate [keeps_intros]: "keeps b I (Generate sv u p symbol)"
  unfolding Generate_def quote_for_def product_active_def by (intro keeps_intros)

lemma keeps_Build [keeps_intros]: "keeps b I (BuildPaymentTransaction sv c p symbol a)"
  unfolding BuildPaymentTransaction_def build_transaction_def by (intro keeps_intros)

lemma keeps_validateQR [keeps_intros]: "keeps b I (validateQRReference hash idstr memo refs u p)"
  unfolding validateQRReference_def Let_def by (intro keeps_intros)

lemma keeps_WalletService_Get [keeps_intros]: "keeps b I (WalletService_Get u a)"
  unfolding WalletService_Get_def by (intro keeps_intros)

lemma keeps_intent_lookups [keeps_intros]: "keeps b I (IntentService_GetByID i)" "keeps b I (IntentService_GetByReference s)"
  unfolding IntentService_GetByID_def IntentService_GetByReference_def found_intent_def Intent_GetByID_def Intent_GetByReference_def
  by (intro keeps_intros)+

lemma keeps_request [keeps_intros]:
  "(\<And>u. user = Some u \<Longrightarrow> keeps b I (f u)) \<Longrightarrow> keeps b I (signed_in user f)"
  "(\<And>x. i = Some x \<Longrightarrow> keeps b I (g x)) \<Longrightarrow> keeps b I (with_id msg i g)"
  "keeps b I (check_status a b' c)"
  unfolding signed_in_def with_id_def check_status_def by (auto intro!: keeps_intros split: option.split)

section \<open>The contract of the purchase\<close>

text \<open>An invariant that the statements of a purchase keep is kept by \<open>Submit\<close>.\<close>

locale purchase_inv = table_inv +
  assumes add_payment: "I t \<Longrightarrow> pay_unique (t_payments (add_payment p t)) \<Longrightarrow> I (add_payment p t)"
    and confirm: "I t \<Longrightarrow> soltxs_unique (t_soltxs (confirm_soltxs u a s t)) \<Longrightarrow> I (confirm_soltxs u a s t)"
begin

lemma keeps_submit_body: "keeps True I (submit_body sv Tx u p sig email)"
  unfolding submit_body_def submit_purchase_def grant_windows_def MarkConfirmedByUserAndAmount_def
  by (intro keeps_intros keeps_PayStore_Create keeps_AppendEntitlementDays keeps_queue_notification keeps_exec add_payment add_ent)
     (auto split: if_splits intro: confirm)

lemma keeps_Submit: "keeps False I (Submit sv u p sig email)"
  unfolding Submit_def by (intro keeps_intros keeps_submit_body)

end

interpretation any_purchase: purchase_inv "\<lambda>_. True"
  by unfold_locales simp_all

section \<open>A signature pays once\<close>

definition paid_by :: "string \<Rightarrow> tables \<Rightarrow> bool" where
  "paid_by sig t \<longleftrightarrow> (\<exists>p \<in> set (t_payments t). pay_Processor p = ProcessorSolana \<and> pay_TransactionID p = sig)"

lemma paid_not_unique:
  "paid_by sig t \<Longrightarrow> \<not> pay_unique (t_payments (add_payment (stored_payment now (solana_payment i u p sig n)) t))"
  by (force simp: paid_by_def pay_unique_def add_payment_def stored_payment_def solana_payment_def)

lemma second_purchase_refused:
  assumes "paid_by sig (view h w)"
  shows "wp (submit_purchase sv h u sig email p (solana_payment i u p sig now)) (\<lambda>r _. \<exists>e. r = Inl e) w"
  unfolding submit_purchase_def wp_bind wp_PayStore_Create
  using paid_not_unique[OF assms] by (simp add: wp_simps Let_def split: option.split)

lemma second_body_refused:
  assumes "paid_by sig (view h w)"
  shows "wp (submit_body sv h u priceID sig email) (\<lambda>r _. \<exists>e. r = Inl e) w"
  unfolding submit_body_def one_off_allowed_def
  by (auto simp: wp_simps assms intro!: second_purchase_refused split: option.split sum.split)

text \<open>
  C17. A signature pays once: while the payments hold one of Solana with the signature, recording another purchase with it
  fails, for any user and price and with any database faults, and leaves the committed tables as they are.
\<close>

theorem solana_signature_pays_once:
  assumes "w_tx w = None" "paid_by sig (w_db w)" "run_state (Submit sv u priceID sig email) w = (r, w')"
  shows "(\<exists>e. r = Inl e) \<and> w_db w' = w_db w \<and> w_outbox w' = w_outbox w"
proof -
  have "wp (run_in_tx (submit_body sv Tx u priceID sig email)) (\<lambda>r _. \<exists>e. r = Inl e) w"
    unfolding wp_run_in_tx using assms(1,2)
    by (auto split: option.split intro!: wp_mono[OF second_body_refused] simp: view_def)
  with run_in_tx_atomic[OF any_purchase.keeps_submit_body assms(1)]
  have "wp (run_in_tx (submit_body sv Tx u priceID sig email)) (\<lambda>r w'. (\<exists>e. r = Inl e) \<and> rolled_back_or w r w') w"
    by (blast intro: wp_conj wp_mono)
  then have "wp (Submit sv u priceID sig email) (\<lambda>r w'. (\<exists>e. r = Inl e) \<and> w_db w' = w_db w \<and> w_outbox w' = w_outbox w) w"
    unfolding Submit_def wp_bind by (rule wp_mono) (auto simp: wp_simps rolled_back_or_def)
  then show ?thesis using assms(3) by (rule wp_run)
qed

section \<open>Nothing is granted without verification\<close>

definition books :: "tables \<Rightarrow> payment list \<times> entitlement list" where
  "books t = (t_payments t, t_ents t)"

lemma keeps_intent_marks [keeps_intros]:
  assumes "\<And>t f c. I t \<Longrightarrow> I (t\<lparr>t_intents := update_where c f (t_intents t)\<rparr>)"
  shows "keeps False I (MarkProcessing i)" "keeps False I (MarkConfirmed i sig)" "keeps False I (MarkFailed i msg)"
  unfolding MarkProcessing_def MarkConfirmed_def MarkFailed_def marked_def IntentRepo_MarkProcessing_def IntentRepo_MarkConfirmed_def
    IntentRepo_MarkFailed_def Intent_update_def
  by (intro keeps_intros keeps_exec; auto intro: assms)+

text \<open>A transaction on the chain is verified for an intent of the user.\<close>

definition verified_for :: "sol_service \<Rightarrow> sol_rpc \<Rightarrow> user_identity \<Rightarrow> sol_intent \<Rightarrow> bool" where
  "verified_for sv c u i \<longleftrightarrow> spi_UserID i = ui_ID u \<and> (\<exists>sig payer r. VerifyTransactionWithContent (sv_Lib (ps_Crypto sv)) c sig
     (spi_ExpectedAmountLamports i) (spi_RecipientWallet i) (spi_TokenMint i) payer (spi_Reference i) = Inr r)"

lemma wp_lookup_intent:
  assumes "\<And>e. wp (f (Inl e)) Q (tick w)" "\<And>i. i \<in> set (t_intents (w_db w)) \<Longrightarrow> wp (f (Inr i)) Q (tick w)"
  shows "wp (State_Monad.bind (IntentService_GetByID k) f) Q w" "wp (State_Monad.bind (IntentService_GetByReference s) f) Q w"
  unfolding IntentService_GetByID_def IntentService_GetByReference_def found_intent_def Intent_GetByID_def Intent_GetByReference_def
  using assms by (auto simp: wp_simps scan_row_def view_def db_fail_def dest: find_Some_in split: option.split)

lemma books_simps [simp]: "books (t\<lparr>t_intents := x\<rparr>) = books t" "books (t\<lparr>t_soltxs := y\<rparr>) = books t"
  by (simp_all add: books_def)

lemma keeps_unverified:
  assumes "\<not> verified_for sv c u i" "spi_UserID i = ui_ID u"
  shows "keeps False (\<lambda>t. books t = B) (submit_from sv c hash u req p i payer)"
    "keeps False (\<lambda>t. books t = B) (check_pending sv c u ref i)"
proof -
  have no: "VerifyTransactionWithContent (sv_Lib (ps_Crypto sv)) c sig (spi_ExpectedAmountLamports i) (spi_RecipientWallet i)
      (spi_TokenMint i) a (spi_Reference i) \<noteq> Inr r" for sig a r
    using assms by (auto simp: verified_for_def)
  show "keeps False (\<lambda>t. books t = B) (submit_from sv c hash u req p i payer)"
    unfolding submit_from_def submit_verified_def Let_def
    by (intro keeps_intros) (use no in \<open>auto split: prod.split intro!: keeps_intros\<close>)
  show "keeps False (\<lambda>t. books t = B) (check_pending sv c u ref i)"
    unfolding check_pending_def check_verified_def
    by (intro keeps_intros) (use no in \<open>auto split: list.split intro!: keeps_intros\<close>)
qed

lemma wp_booked: "keeps False (\<lambda>t. books t = B) m \<Longrightarrow> w_tx w = None \<Longrightarrow> books (w_db w) = B \<Longrightarrow> wp m (\<lambda>_ w'. books (w_db w') = B) w"
  by (drule keepsD[of _ _ _ undefined w]) (auto simp: sane_pool elim!: wp_mono)

lemma submit_unverified:
  assumes "w_tx w = None" "\<And>i u. user = Some u \<Longrightarrow> i \<in> set (t_intents (w_db w)) \<Longrightarrow> \<not> verified_for sv c u i"
  shows "wp (SubmitPayment sv c hash user body) (\<lambda>_ w'. books (w_db w') = books (w_db w)) w"
proof -
  have "wp (do {
          now \<leftarrow> now_m;
          (case submittable i u p now of
             Some (status, msg) \<Rightarrow> refuse status msg
           | None \<Rightarrow> do {
               MarkProcessing (spi_ID i);
               (case spi_PayerWallet i of
                  None \<Rightarrow> refuse 500 ''Payment intent misconfigured''
                | Some payer \<Rightarrow>
                    if payer = '''' then refuse 500 ''Payment intent misconfigured''
                    else submit_from sv c hash u req p i payer)
             })
        }) (\<lambda>_ w'. books (w_db w') = books (w_db w)) (tick w)"
    if "user = Some u" "i \<in> set (t_intents (w_db w))" for u i p req
  proof (rule wp_booked, intro keeps_intros)
    fix now payer
    assume "submittable i u p now = None"
    then have "spi_UserID i = ui_ID u" by (simp add: submittable_def split: if_splits)
    then show "keeps False (\<lambda>t. books t = books (w_db w)) (submit_from sv c hash u req p i payer)"
      by (rule keeps_unverified[OF assms(2)[OF that]])
  qed (simp_all add: assms(1))
  then show ?thesis
    unfolding SubmitPayment_def bound_def with_id_def signed_in_def
    by (auto simp: refuse_def wp_return intro!: wp_lookup_intent split: sum.split option.split)
qed

lemma check_unverified:
  assumes "w_tx w = None" "\<And>i u. user = Some u \<Longrightarrow> i \<in> set (t_intents (w_db w)) \<Longrightarrow> \<not> verified_for sv c u i"
  shows "wp (CheckSolanaPayment sv c user query) (\<lambda>_ w'. books (w_db w') = books (w_db w)) w"
proof -
  have "wp (check_intent sv c u ref i) (\<lambda>_ w'. books (w_db w') = books (w_db w)) (tick w)"
    if "user = Some u" "i \<in> set (t_intents (w_db w))" for u i ref
    unfolding check_intent_def
    by (rule wp_booked, intro keeps_intros keeps_unverified[OF assms(2)[OF that]]) (simp_all add: assms(1))
  then show ?thesis
    unfolding CheckSolanaPayment_def bound_def signed_in_def
    by (auto simp: refuse_def check_status_def reply_def wp_return intro!: wp_lookup_intent split: sum.split option.split)
qed

text \<open>
  C18. A Solana purchase needs a verified transaction: if submitting or checking a payment changes the payments or the
  entitlements, with whatever faults, then the user has an intent for whose amount, recipient, token and reference the
  verification of some signature on the chain succeeded.
\<close>

theorem solana_purchase_needs_verification:
  assumes "w_tx w = None"
    and "books (w_db (snd (run_state (SubmitPayment sv c hash user body) w))) \<noteq> books (w_db w) \<or>
      books (w_db (snd (run_state (CheckSolanaPayment sv c user query) w))) \<noteq> books (w_db w)"
  shows "\<exists>u i. user = Some u \<and> i \<in> set (t_intents (w_db w)) \<and> verified_for sv c u i"
proof (rule ccontr)
  assume "\<not> ?thesis"
  with submit_unverified[OF assms(1)] check_unverified[OF assms(1)] assms(2) show False
    unfolding wp_def by blast
qed

section \<open>Intents are well-formed\<close>

definition intent_ok :: "sol_intent \<Rightarrow> bool" where
  "intent_ok r \<longleftrightarrow>
     spi_Status r \<in> {IntentStatusPending, IntentStatusProcessing, IntentStatusConfirmed, IntentStatusFailed} \<and>
     (spi_FlowType r = FlowTypeDirect \<and> spi_Reference r = None \<or>
      spi_FlowType r = FlowTypeSolanaPay \<and> spi_Reference r \<noteq> None \<and> spi_PayerWallet r = None) \<and>
     spi_TransactionSignature r = spi_Signature r \<and>
     (spi_Status r = IntentStatusConfirmed \<longrightarrow> spi_Signature r \<noteq> None \<and> spi_ConfirmedAt r \<noteq> None) \<and>
     (spi_Signature r \<noteq> None \<longrightarrow> spi_Status r \<in> {IntentStatusConfirmed, IntentStatusFailed}) \<and>
     spi_ExpiresAt r \<noteq> None \<and> uint (spi_ExpectedAmountLamports r) < 2 ^ 63"

definition intents_ok :: "tables \<Rightarrow> bool" where
  "intents_ok t \<longleftrightarrow> intents_unique (t_intents t) \<and> (\<forall>r \<in> set (t_intents t). intent_ok r)"

lemma intents_ok_frame [simp]:
  "intents_ok (t\<lparr>t_subs := a\<rparr>) = intents_ok t" "intents_ok (t\<lparr>t_ents := b\<rparr>) = intents_ok t"
  "intents_ok (t\<lparr>t_notifs := c\<rparr>) = intents_ok t" "intents_ok (t\<lparr>t_payments := d\<rparr>) = intents_ok t"
  "intents_ok (t\<lparr>t_soltxs := e\<rparr>) = intents_ok t"
  by (simp_all add: intents_ok_def)

interpretation intents: purchase_inv intents_ok
  by unfold_locales (simp_all add: put_sub_def add_sub_def add_ent_def end_ents_def add_nq_def add_payment_def confirm_soltxs_def)

lemma intents_unique_update:
  "intents_unique rs \<Longrightarrow> (\<And>r. spi_ID (f r) = spi_ID r) \<Longrightarrow> (\<And>r. spi_Reference (f r) = spi_Reference r) \<Longrightarrow>
   intents_unique (update_where c f rs)"
  by (simp add: intents_unique_def map_update_where filter_update_where)

lemma keeps_Intent_update:
  assumes "\<And>r. spi_ID (f r) = spi_ID r" "\<And>r. spi_Reference (f r) = spi_Reference r" "\<And>r. intent_ok r \<Longrightarrow> c r \<Longrightarrow> intent_ok (f r)"
  shows "keeps False intents_ok (Intent_update i f c)"
  unfolding Intent_update_def
  by (intro keeps_exec) (auto simp: intents_ok_def set_update_where assms intents_unique_update)

lemma keeps_marks [keeps_intros]:
  "keeps False intents_ok (MarkProcessing i)" "keeps False intents_ok (MarkConfirmed i sig)" "keeps False intents_ok (MarkFailed i msg)"
  unfolding MarkProcessing_def MarkConfirmed_def MarkFailed_def marked_def IntentRepo_MarkProcessing_def IntentRepo_MarkConfirmed_def
    IntentRepo_MarkFailed_def
  by (intro keeps_intros keeps_Intent_update; auto simp: intent_ok_def intent_status_defs)+

lemma keeps_insertIntent:
  assumes "\<And>now. uint (spi_ExpectedAmountLamports i) < 2 ^ 63 \<Longrightarrow> intent_ok (i\<lparr>spi_CreatedAt := now, spi_UpdatedAt := now\<rparr>)"
  shows "keeps False intents_ok (insertIntent i)"
  unfolding insertIntent_def Intent_Insert_def Let_def
  by (intro keeps_intros keeps_exec) (auto simp: intents_ok_def add_intent_def assms not_le split: if_splits)

lemma keeps_CreateIntents [keeps_intros]:
  "keeps False intents_ok (CreateDirectIntent sv u p symbol payer)" "keeps False intents_ok (CreateSolanaPayIntent sv u p symbol)"
  unfolding CreateDirectIntent_def CreateSolanaPayIntent_def generateReference_def
  by (intro keeps_intros keeps_insertIntent; simp add: intent_ok_def new_intent_def intent_status_defs FlowTypeDirect_def FlowTypeSolanaPay_def)+

lemma keeps_settle [keeps_intros]:
  "(\<And>x. keeps False intents_ok (note x)) \<Longrightarrow> (\<And>x. keeps False intents_ok (f x)) \<Longrightarrow>
   keeps False intents_ok (settle sv u p i sig note msg d r f)"
  unfolding settle_def SolanaTransaction_Insert_def
  by (intro keeps_intros intents.keeps_Submit keeps_exec) (auto split: if_splits)

text \<open>The four handlers, with the chain that answers each.\<close>

datatype payment_call =
    CallGenerate "string + payment_request"
  | CallQR "string + payment_request"
  | CallSubmit "string + submit_request"
  | CallCheck "string + string"

fun payment_handler :: "sol_service \<Rightarrow> (string \<Rightarrow> string) \<Rightarrow> sol_rpc \<times> user_identity option \<times> payment_call \<Rightarrow> (world, unit) state" where
  "payment_handler sv hash (c, u, CallGenerate b) = answered (GeneratePayment sv c u b)"
| "payment_handler sv hash (c, u, CallQR b) = answered (GenerateSolanaPayQR sv u b)"
| "payment_handler sv hash (c, u, CallSubmit b) = answered (SubmitPayment sv c hash u b)"
| "payment_handler sv hash (c, u, CallCheck b) = answered (CheckSolanaPayment sv c u b)"

lemma keeps_payment_handlers:
  "keeps False intents_ok (GeneratePayment sv c u b1)" "keeps False intents_ok (GenerateSolanaPayQR sv u b1)"
  "keeps False intents_ok (SubmitPayment sv c hash u b2)" "keeps False intents_ok (CheckSolanaPayment sv c u b3)"
proof -
  show "keeps False intents_ok (GeneratePayment sv c u b1)"
    unfolding GeneratePayment_def payer_wallet_def by (intro keeps_intros)
  show "keeps False intents_ok (GenerateSolanaPayQR sv u b1)"
    unfolding GenerateSolanaPayQR_def qr_of_def by (intro keeps_intros)
  show "keeps False intents_ok (SubmitPayment sv c hash u b2)"
    unfolding SubmitPayment_def submit_from_def submit_verified_def Let_def by (intro keeps_intros)
  show "keeps False intents_ok (CheckSolanaPayment sv c u b3)"
    unfolding CheckSolanaPayment_def check_intent_def check_pending_def check_verified_def
    by (intro keeps_intros) (auto split: list.split intro!: keeps_intros)
qed

lemma keeps_payment_handler: "keeps False intents_ok (payment_handler sv hash r)"
  by (induction sv hash r rule: payment_handler.induct) (simp_all add: keeps_answered keeps_payment_handlers)

text \<open>
  C20. The payment intents are well-typed whatever is requested and whatever fails: from tables whose intents are, after any
  sequence of requests to generate, quote, submit or check payments by any users, every intent has one of the four
  statuses and the fields of its flow, a signature exactly as long as it is confirmed or failed after confirmation, an
  expiry, and an amount that fits its column, and identifiers and references are unique.
\<close>

theorem payment_intents_well_typed:
  assumes "w_tx w = None" "intents_ok (w_db w)"
  shows "intents_ok (w_db (snd (run_state (for_all_do rs (payment_handler sv hash)) w)))"
proof -
  have "keeps False intents_ok (for_all_do rs (payment_handler sv hash))"
    by (intro keeps_intros keeps_payment_handler)
  from keepsD[OF this, of undefined w] assms show ?thesis
    by (simp add: sane_pool wp_def)
qed

section \<open>Witnesses\<close>

definition sample_service :: sol_service where
  "sample_service = \<lparr>ps_Crypto = sample_crypto,
     ps_Config = Some \<lparr>sc_RPCEndpoint = '''', sc_Network = ''devnet'', sc_RecipientWallet = ''Shop'', sc_SupportedTokens = DefaultDevnetTokens\<rparr>,
     ps_Feed = (\<lambda>_ ms. FeedBody (Inr (map (\<lambda>m. (m, 2)) ms))), ps_ToUint64 = (\<lambda>_. 0), ps_Products = True, ps_Entitlements = True,
     ps_Notifications = True, ps_IDString = (\<lambda>_. ''id'')\<rparr>"

definition paid_before_world :: world where
  "paid_before_world = wallet_world\<lparr>w_db := sample_tables\<lparr>t_payments := [solana_payment 900 ''bob'' sample_price ''sig'' 5]\<rparr>\<rparr>"

lemma solana_signature_pays_once_witness:
  "(\<exists>e. fst (run_state (Submit sample_service ''ann'' (price_ID sample_price) ''sig'' None) paid_before_world) = Inl e) \<and>
   w_db (snd (run_state (Submit sample_service ''ann'' (price_ID sample_price) ''sig'' None) paid_before_world)) = w_db paid_before_world \<and>
   w_outbox (snd (run_state (Submit sample_service ''ann'' (price_ID sample_price) ''sig'' None) paid_before_world)) = w_outbox paid_before_world"
proof (rule solana_signature_pays_once)
  show "w_tx paid_before_world = None"
    by (simp add: paid_before_world_def wallet_world_def sample_world_def)
  show "paid_by ''sig'' (w_db paid_before_world)"
    by (simp add: paid_before_world_def paid_by_def solana_payment_def)
qed simp

text \<open>An intent of Ann's over Solana Pay, and the check that settles it.\<close>

definition sample_intent :: sol_intent where
  "sample_intent = (new_intent 70 ''ann'' sample_price FlowTypeSolanaPay ''SOL'' \<lparr>tk_Mint = '''', tk_Symbol = ''SOL'', tk_Name = ''Solana'',
       tk_Decimals = 9, tk_Enabled = True, tk_MainnetMint = ''''\<rparr> 1500 0 ''Shop'' 99999999999999999999)
     \<lparr>spi_Reference := Some ''Ref'', spi_Memo := Some ''purchase''\<rparr>"

definition intent_world :: world where
  "intent_world = wallet_world\<lparr>w_db := sample_tables\<lparr>t_intents := [sample_intent]\<rparr>\<rparr>"

lemma settled_intent:
  "map pay_TransactionID (t_payments (w_db (snd (run_state (CheckSolanaPayment sample_service sample_rpc (Some ann) (Inr ''Ref'')) intent_world)))) =
     [sample_signature]"
  by code_simp

lemma solana_purchase_needs_verification_witness:
  "\<exists>u i. Some ann = Some u \<and> i \<in> set (t_intents (w_db intent_world)) \<and> verified_for sample_service sample_rpc u i"
proof (rule solana_purchase_needs_verification[where hash = id and body = "Inl ''''" and query = "Inr ''Ref''"])
  show "w_tx intent_world = None" by (simp add: intent_world_def wallet_world_def sample_world_def)
  have "t_payments (w_db intent_world) = []" by (simp add: intent_world_def sample_tables_def)
  with settled_intent
  have "books (w_db (snd (run_state (CheckSolanaPayment sample_service sample_rpc (Some ann) (Inr ''Ref'')) intent_world))) \<noteq> books (w_db intent_world)"
    by (auto simp: books_def)
  then show "books (w_db (snd (run_state (SubmitPayment sample_service sample_rpc id (Some ann) (Inl '''')) intent_world))) \<noteq> books (w_db intent_world) \<or>
    books (w_db (snd (run_state (CheckSolanaPayment sample_service sample_rpc (Some ann) (Inr ''Ref'')) intent_world))) \<noteq> books (w_db intent_world)"
    by blast
qed

lemma payment_intents_well_typed_witness:
  "intents_ok (w_db (snd (run_state (for_all_do
     [(sample_rpc, Some ann, CallQR (Inr \<lparr>pr_PriceID = Some (price_ID sample_price), pr_Token = ''USDC'', pr_UserWallet = ''''\<rparr>)),
      (sample_rpc, Some ann, CallCheck (Inr ''Ref''))] (payment_handler sample_service id)) intent_world)))"
  by (rule payment_intents_well_typed)
     (simp_all add: intent_world_def wallet_world_def sample_world_def intents_ok_def intents_unique_def sample_intent_def
        new_intent_def intent_ok_def intent_status_defs FlowTypeDirect_def FlowTypeSolanaPay_def)

end
