(* ===== verification/Middleware.thy ===== *)
theory Middleware
  imports Vault
begin

text \<open>
  What a request passes before its handler: the identity in its bearer token (\<open>internal/manager/web/auth/verifier.go\<close>,
  \<open>web/middleware/auth.go\<close>), the key of the administration (\<open>internal_only.go\<close>), the address checks (\<open>security.go\<close>,
  \<open>internal/utils/ipverify.go\<close>), the rate limiter (\<open>ratelimit.go\<close>), and the routes that say which of them apply
  (\<open>internal/server\<close>). The verification of a token is the library's: a token gives an error or the map of its claims.
\<close>

section \<open>Requests and verdicts\<close>

text \<open>
  The headers have canonical names. \<open>gq_ClientIP\<close> is what \<open>gin.Context.ClientIP\<close> gives. A middleware aborts with a status
  and a message, or passes the request on with a user context (\<open>None\<close>: none is attached).
\<close>

record gin_request =
  gq_Method :: string
  gq_Path :: string
  gq_Headers :: "(string \<times> string) list"
  gq_ClientIP :: string

definition GetHeader :: "gin_request \<Rightarrow> string \<Rightarrow> string" where
  "GetHeader q k = (case map_of (gq_Headers q) k of Some v \<Rightarrow> v | None \<Rightarrow> '''')"

datatype 'c verdict = Abort nat string | Next 'c

section \<open>Claims\<close>

text \<open>The values of a \<open>jwt.MapClaims\<close>, by their Go type.\<close>

datatype claim = ClString string | ClStrings "string list" | ClList "claim list" | ClFloat float64
  | ClInt64 int | ClNumber string | ClOther

type_synonym map_claims = "(string \<times> claim) list"

record claims =
  cl_UserID :: string
  cl_Email :: string
  cl_Username :: string
  cl_Roles :: "string list"
  cl_SessionID :: string
  cl_ExpiresAt :: time

definition stringVal :: "claim option \<Rightarrow> string" where
  "stringVal v = (case v of Some (ClString s) \<Rightarrow> s | _ \<Rightarrow> '''')"

definition toStringSlice :: "claim option \<Rightarrow> string list" where
  "toStringSlice v = (case v of
     Some (ClStrings t) \<Rightarrow> t
   | Some (ClList t) \<Rightarrow> List.map_filter (\<lambda>el. case el of ClString s \<Rightarrow> Some s | _ \<Rightarrow> None) t
   | _ \<Rightarrow> [])"

text \<open>\<open>time.Unix(s, 0)\<close>; the zero time when there is no number. A float is truncated towards zero.\<close>

definition claim_time :: "claim option \<Rightarrow> time" where
  "claim_time v = (let at_unix = (\<lambda>s :: int. (s + 62135596800) * 1000000000) in
     case v of
       Some (ClFloat f) \<Rightarrow> at_unix (if 0 \<le> f then \<lfloor>f\<rfloor> else \<lceil>f\<rceil>)
     | Some (ClInt64 n) \<Rightarrow> at_unix n
     | Some (ClNumber s) \<Rightarrow> (case atoi s of Some n \<Rightarrow> at_unix n | None \<Rightarrow> 0)
     | _ \<Rightarrow> 0)"

definition BuildClaimsFromMap :: "map_claims option \<Rightarrow> claims option" where
  "BuildClaimsFromMap raw = (case raw of
     None \<Rightarrow> None
   | Some m \<Rightarrow>
       let preferred = stringVal (map_of m ''preferred_username'') in
       Some \<lparr>cl_UserID = stringVal (map_of m ''sub''), cl_Email = stringVal (map_of m ''email''),
         cl_Username = (if preferred = '''' then stringVal (map_of m ''username'') else preferred),
         cl_Roles = toStringSlice (map_of m ''roles''), cl_SessionID = stringVal (map_of m ''session_id''),
         cl_ExpiresAt = claim_time (map_of m ''exp'')\<rparr>)"

definition EmailPtr :: "claims \<Rightarrow> string option" where
  "EmailPtr c = (if cl_Email c = '''' then None else Some (cl_Email c))"

definition FormatVerifierError :: "go_err option \<Rightarrow> string" where
  "FormatVerifierError err = (case err of
     None \<Rightarrow> ''''
   | Some e \<Rightarrow>
       let msg = to_lower (err_text e) in
       if contains msg ''missing_token'' then ''missing_token''
       else if contains msg ''bad_issuer'' then ''invalid_issuer''
       else if contains msg ''bad_audience'' then ''invalid_audience''
       else if contains msg ''invalid_token'' then ''invalid_or_expired_token''
       else msg)"

section \<open>The user of a request\<close>

text \<open>The \<open>UserIdentity\<close> with its roles.\<close>

record identity = user_identity +
  ui_Roles :: "string list"

record user_context =
  uc_User :: "identity option"
  uc_SessionID :: string
  uc_ExpiresAt :: time

definition HasRole :: "user_context option \<Rightarrow> string \<Rightarrow> bool" where
  "HasRole u role = (case u of
     None \<Rightarrow> False
   | Some c \<Rightarrow> (case uc_User c of None \<Rightarrow> False | Some i \<Rightarrow> role \<in> set (ui_Roles i)))"

definition buildUserContext :: "claims option \<Rightarrow> user_context option" where
  "buildUserContext claims = map_option (\<lambda>c.
     \<lparr>uc_User = Some \<lparr>ui_ID = cl_UserID c, ui_Email = EmailPtr c, ui_Username = cl_Username c, ui_Roles = cl_Roles c\<rparr>,
      uc_SessionID = cl_SessionID c, uc_ExpiresAt = cl_ExpiresAt c\<rparr>) claims"

text \<open>The context of the request after \<open>attachUserContext\<close>: a nil context leaves what is there.\<close>

definition attachUserContext :: "user_context option \<Rightarrow> user_context option \<Rightarrow> user_context option" where
  "attachUserContext ctx uc = (case uc of None \<Rightarrow> ctx | Some u \<Rightarrow> Some u)"

definition bearerToken :: "string \<Rightarrow> string" where
  "bearerToken header =
     (let h = trim_space header; prefix = ''Bearer '' in
      if h = '''' then ''''
      else if \<not> has_prefix (to_lower h) (to_lower prefix) then ''''
      else trim_space (drop (length prefix) h))"

type_synonym verifier = "string \<Rightarrow> map_claims option res"

type_synonym middleware_fun = "gin_request \<Rightarrow> user_context option \<Rightarrow> user_context option verdict"

definition AuthRequired :: "verifier option \<Rightarrow> middleware_fun" where
  "AuthRequired verifier q ctx = (case verifier of
     None \<Rightarrow> Abort 500 ''authentication disabled''
   | Some verify \<Rightarrow>
       let token = bearerToken (GetHeader q ''Authorization'') in
       if token = '''' then Abort 401 ''authorization header required''
       else (case verify token of
           Inl e \<Rightarrow> Abort 401 (FormatVerifierError (Some e))
         | Inr cs \<Rightarrow> Next (attachUserContext ctx (buildUserContext (BuildClaimsFromMap cs)))))"

definition OptionalAuth :: "verifier option \<Rightarrow> middleware_fun" where
  "OptionalAuth verifier q ctx =
     (let token = bearerToken (GetHeader q ''Authorization'') in
      if token = '''' then Next ctx
      else (case verifier of
          None \<Rightarrow> Next ctx
        | Some verify \<Rightarrow> (case verify token of
              Inl e \<Rightarrow> Next ctx
            | Inr cs \<Rightarrow> Next (attachUserContext ctx (buildUserContext (BuildClaimsFromMap cs))))))"

definition AdminRequired :: middleware_fun where
  "AdminRequired q ctx = (case Option.bind ctx uc_User of
     None \<Rightarrow> Abort 401 ''authentication required''
   | Some u \<Rightarrow> if \<not> HasRole ctx ''admin'' then Abort 403 ''admin privileges required'' else Next ctx)"

definition RequireUserContext :: "user_context option \<Rightarrow> user_context verdict" where
  "RequireUserContext ctx = (case ctx of None \<Rightarrow> Abort 401 ''authentication required'' | Some uc \<Rightarrow> Next uc)"

definition InternalOnly :: "string \<Rightarrow> middleware_fun" where
  "InternalOnly billingAPIKey q ctx =
     (let token = GetHeader q ''X-Api-Key'' in
      if billingAPIKey = '''' then Abort 503 ''admin access disabled''
      else if token = '''' \<or> token \<noteq> billingAPIKey then Abort 401 ''invalid api key''
      else Next ctx)"

end
