(* ===== verification/Addresses.thy ===== *)
theory Addresses
  imports Middleware
begin

text \<open>
  IP addresses: \<open>net.ParseIP\<close>, \<open>net.ParseCIDR\<close> and \<open>IPNet.Contains\<close> of Go's library, the ranges of CCBill
  (\<open>internal/utils/ipverify.go\<close>) and the address checks of \<open>web/middleware/security.go\<close>. An address is its 16
  bytes, in which IPv4 is embedded after ten zeros and two bytes 255.
\<close>

section \<open>The library\<close>

definition octet :: "string \<Rightarrow> nat option" where
  "octet s = (if s \<noteq> '''' \<and> list_all is_digit s \<and> (hd s = CHR ''0'' \<longrightarrow> length s = 1) \<and> digits_int s \<le> 255
     then Some (nat (digits_int s)) else None)"

definition parse_ipv4 :: "string \<Rightarrow> nat list option" where
  "parse_ipv4 s = (let fs = split_on (CHR ''.'') [] s in if length fs = 4 then those (map octet fs) else None)"

definition is_hex :: "char \<Rightarrow> bool" where
  "is_hex c \<longleftrightarrow> hex_digit c \<noteq> None"

definition hex_value :: "string \<Rightarrow> nat" where
  "hex_value ds = foldl (\<lambda>n c. 16 * n + the (hex_digit c)) 0 ds"

text \<open>
  The groups of an IPv6 address: how many can still follow, the bytes so far and where the ellipsis stands. The
  last two groups may be written as an IPv4 address.
\<close>

fun ipv6_groups :: "nat \<Rightarrow> nat list \<Rightarrow> nat option \<Rightarrow> string \<Rightarrow> (nat list \<times> nat option) option" where
  "ipv6_groups 0 bs ell s = (if s = '''' then Some (bs, ell) else None)"
| "ipv6_groups (Suc n) bs ell s =
     (let ds = takeWhile is_hex s; r = dropWhile is_hex s; v = hex_value ds; bs' = bs @ [v div 256, v mod 256] in
      if ds = '''' \<or> length ds > 4 then None
      else (case r of
          [] \<Rightarrow> Some (bs', ell)
        | c # t \<Rightarrow>
            if c = CHR ''.'' then
              (if (ell = None \<and> n \<noteq> 1) \<or> n < 1 then None else map_option (\<lambda>b. (bs @ b, ell)) (parse_ipv4 s))
            else if c \<noteq> CHR '':'' \<or> t = '''' then None
            else if hd t = CHR '':'' then
              (if ell \<noteq> None then None
               else if tl t = '''' then Some (bs', Some (length bs'))
               else ipv6_groups n bs' (Some (length bs')) (tl t))
            else ipv6_groups n bs' ell t))"

definition parse_ipv6 :: "string \<Rightarrow> nat list option" where
  "parse_ipv6 s =
     (let lead = has_prefix s ''::''; g = (if s = ''::'' then Some ([], Some 0)
        else if lead then ipv6_groups 8 [] (Some 0) (drop 2 s) else ipv6_groups 8 [] None s) in
      case g of
        None \<Rightarrow> None
      | Some (bs, ell) \<Rightarrow>
          (case ell of
             None \<Rightarrow> if length bs < 16 then None else Some bs
           | Some k \<Rightarrow> if length bs < 16 then Some (take k bs @ replicate (16 - length bs) 0 @ drop k bs) else None))"

definition v4_in_v6 :: "nat list" where
  "v4_in_v6 = replicate 10 0 @ [255, 255]"

text \<open>An address with a zone (after \<open>%\<close>) is none. The first of dot and colon decides the notation.\<close>

definition ParseIP :: "string \<Rightarrow> nat list option" where
  "ParseIP s =
     (if CHR ''%'' \<in> set s then None
      else (case dropWhile (\<lambda>c. c \<noteq> CHR ''.'' \<and> c \<noteq> CHR '':'') s of
          [] \<Rightarrow> None
        | c # _ \<Rightarrow> if c = CHR ''.'' then map_option (\<lambda>b. v4_in_v6 @ b) (parse_ipv4 s) else parse_ipv6 s))"

definition To4 :: "nat list \<Rightarrow> nat list option" where
  "To4 ip = (if length ip = 16 \<and> take 12 ip = v4_in_v6 then Some (drop 12 ip) else None)"

definition shortest :: "nat list \<Rightarrow> nat list" where
  "shortest ip = (case To4 ip of Some b \<Rightarrow> b | None \<Rightarrow> ip)"

definition byte_bits :: "nat \<Rightarrow> bool list" where
  "byte_bits b = map (\<lambda>k. odd (b div 2 ^ k)) (rev [0..<8])"

text \<open>A network: the bytes of its number (4 or 16) and the length of its prefix in bits.\<close>

type_synonym ip_net = "nat list \<times> nat"

definition Contains :: "ip_net \<Rightarrow> nat list \<Rightarrow> bool" where
  "Contains net ip =
     (let x = shortest ip in length x = length (fst net) \<and>
        take (snd net) (concat (map byte_bits x)) = take (snd net) (concat (map byte_bits (fst net))))"

text \<open>An embedded IPv4 network whose prefix covers the embedding is an IPv4 network.\<close>

definition ParseCIDR :: "string \<Rightarrow> ip_net option" where
  "ParseCIDR s =
     (let addr = takeWhile (\<lambda>c. c \<noteq> CHR ''/'') s; mask = drop 1 (dropWhile (\<lambda>c. c \<noteq> CHR ''/'') s);
          v6 = CHR '':'' \<in> set addr in
      if CHR ''/'' \<notin> set s \<or> mask = '''' \<or> \<not> list_all is_digit mask \<or> digits_int mask > (if v6 then 128 else 32) then None
      else let n = nat (digits_int mask) in
        map_option (\<lambda>ip. if \<not> v6 then (drop 12 ip, n)
            else if 96 \<le> n \<and> To4 ip \<noteq> None then (drop 12 ip, n - 96) else (ip, n)) (ParseIP addr))"

section \<open>The addresses of CCBill\<close>

definition ccbillIPRanges :: "string list" where
  "ccbillIPRanges = [''64.38.212.0/24'', ''64.38.215.0/24'', ''64.38.240.0/24'', ''64.38.241.0/24'']"

definition parsedCCBillRanges :: "ip_net list" where
  "parsedCCBillRanges = List.map_filter ParseCIDR ccbillIPRanges"

definition first_address :: "string \<Rightarrow> string" where
  "first_address s = trim_space (hd (split_on (CHR '','') [] s))"

definition IsValidCCBillIP :: "string \<Rightarrow> bool" where
  "IsValidCCBillIP clientIP =
     (let c = (if CHR '','' \<in> set clientIP then first_address clientIP else clientIP) in
      if clientIP = '''' then False
      else (case ParseIP c of
          None \<Rightarrow> False
        | Some ip \<Rightarrow> list_ex (\<lambda>n. Contains n ip) parsedCCBillRanges))"

section \<open>Address checks\<close>

definition getClientIP :: "gin_request \<Rightarrow> string" where
  "getClientIP q =
     (let xff = GetHeader q ''X-Forwarded-For''; real = GetHeader q ''X-Real-Ip'' in
      if xff \<noteq> '''' then first_address xff else if real \<noteq> '''' then real else gq_ClientIP q)"

text \<open>A check by the networks and the single addresses that are allowed.\<close>

definition allow_from :: "nat list list \<Rightarrow> ip_net list \<Rightarrow> middleware_fun" where
  "allow_from addresses networks q ctx = (case ParseIP (getClientIP q) of
     None \<Rightarrow> Abort 403 ''Access denied''
   | Some ip \<Rightarrow> if ip \<in> set addresses \<or> list_ex (\<lambda>n. Contains n ip) networks then Next ctx else Abort 403 ''Access denied'')"

definition internalNetworks :: "ip_net list" where
  "internalNetworks = [([10, 0, 0, 0], 8), ([172, 16, 0, 0], 12), ([192, 168, 0, 0], 16), ([127, 0, 0, 0], 8)]"

definition InternalIPWhitelist :: middleware_fun where
  "InternalIPWhitelist = allow_from [] internalNetworks"

text \<open>An entry that does not parse is skipped.\<close>

definition WebhookIPWhitelist :: "string list \<Rightarrow> middleware_fun" where
  "WebhookIPWhitelist allowedIPs = allow_from
     (List.map_filter ParseIP (filter (\<lambda>s. CHR ''/'' \<notin> set s) allowedIPs))
     (List.map_filter ParseCIDR (filter (\<lambda>s. CHR ''/'' \<in> set s) allowedIPs))"

end
