(* ===== verification/Server.thy ===== *)
theory Server
  imports Addresses
begin

text \<open>
  The rate limiter (\<open>internal/manager/web/middleware/ratelimit.go\<close>) and the routes of the two HTTP servers
  (\<open>internal/server\<close>).
\<close>

section \<open>Limits\<close>

record rate_limit =
  rl_Limit :: int
  rl_Window :: duration

text \<open>A \<open>RateLimitsConfig\<close>; a limit may be nil.\<close>

type_synonym rate_limits = "(string \<times> rate_limit option) list"

definition limit_of :: "rate_limits \<Rightarrow> string \<Rightarrow> rate_limit option" where
  "limit_of cfg k = Option.bind (map_of cfg k) id"

definition effectiveLimit :: "rate_limit option \<Rightarrow> int" where
  "effectiveLimit limit = (case limit of None \<Rightarrow> 0 | Some l \<Rightarrow> if rl_Limit l \<le> 0 then 60 else rl_Limit l)"

definition classifyBucket :: "string \<Rightarrow> string \<Rightarrow> string" where
  "classifyBucket path verb =
     (if has_prefix path ''/v1/subscriptions/webhook'' then ''webhook''
      else if has_prefix path ''/v1/payment-methods'' then ''payment-methods''
      else if has_prefix path ''/v1/subscriptions'' \<and> to_upper verb = ''POST'' then ''subscriptions''
      else ''default'')"

definition resolveRateLimitPolicy :: "rate_limits option \<Rightarrow> gin_request \<Rightarrow> rate_limit option \<times> string" where
  "resolveRateLimitPolicy cfg q = (case cfg of
     None \<Rightarrow> (None, '''')
   | Some c \<Rightarrow>
       let bucket = classifyBucket (to_lower (gq_Path q)) (gq_Method q);
           k = (if bucket = ''webhook'' then ''webhook'' else if bucket = ''subscriptions'' then ''subscribe''
             else if bucket = ''payment-methods'' then ''payment'' else ''default'') in
       (case limit_of c k of Some l \<Rightarrow> Some l | None \<Rightarrow> limit_of c ''default'', bucket))"

section \<open>The window of a key\<close>

text \<open>An \<open>inMemoryCounter\<close>, and the counters of a \<open>RateLimitStore\<close>.\<close>

record counter =
  ct_count :: int
  ct_reset :: time

type_synonym limiter = "string \<Rightarrow> counter option"

definition limit_key :: "string \<Rightarrow> string \<Rightarrow> string" where
  "limit_key bucket ip = bucket @ '':'' @ ip"

text \<open>The counter of a request at \<open>now\<close>: a new window when there is none or it is over.\<close>

definition counted :: "time \<Rightarrow> counter option \<Rightarrow> counter" where
  "counted now c = (case c of
     Some x \<Rightarrow> if ct_reset x < now then \<lparr>ct_count = 1, ct_reset = time_add now minute\<rparr> else x\<lparr>ct_count := ct_count x + 1\<rparr>
   | None \<Rightarrow> \<lparr>ct_count = 1, ct_reset = time_add now minute\<rparr>)"

text \<open>
  What a limiter answers: whether the request is allowed, how many are left and when the window ends, as a
  difference of times. \<open>now'\<close> is the second reading of the clock.
\<close>

type_synonym allowance = "bool \<times> int \<times> int"

definition Allow :: "string \<Rightarrow> string \<Rightarrow> rate_limit option \<Rightarrow> time \<Rightarrow> time \<Rightarrow> limiter \<Rightarrow> allowance \<times> limiter" where
  "Allow ip bucket limit now now' s =
     (let threshold = effectiveLimit limit; key = limit_key bucket ip; c = counted now (s key) in
      if limit = None \<or> threshold \<le> 0 then ((True, 0, 0), s)
      else ((ct_count c \<le> threshold, max 0 (threshold - ct_count c), max 0 (ct_reset c - now')), s(key \<mapsto> c)))"

text \<open>
  The counter in Redis: \<open>incr\<close> is what \<open>INCR\<close> gives for a key. The key holds the minute; its expiry only frees
  memory.
\<close>

definition unix_seconds :: "time \<Rightarrow> int" where
  "unix_seconds t = t div 1000000000 - 62135596800"

definition redisAllow :: "(string \<Rightarrow> int res) \<Rightarrow> string \<Rightarrow> string \<Rightarrow> rate_limit option \<Rightarrow> time \<Rightarrow> time \<Rightarrow> allowance res" where
  "redisAllow incr ip bucket limit now now' =
     (let threshold = effectiveLimit limit;
          window = (let u = unix_seconds now in if 0 \<le> u then u div 60 else - ((- u) div 60)) in
      if limit = None \<or> threshold \<le> 0 then Inr (True, 0, 0)
      else (case incr (''rl:'' @ limit_key bucket ip @ '':'' @ show_int window) of
          Inl e \<Rightarrow> Inl e
        | Inr cnt \<Rightarrow> Inr (cnt \<le> threshold, max 0 (threshold - cnt),
            ((window + 1) * 60 + 62135596800) * 1000000000 - now')))"

text \<open>
  The middleware: the headers it sets and its verdict, \<open>incr\<close> being absent without Redis. The clock is read at
  \<open>now\<close> and \<open>now'\<close> by the limiter and at \<open>later\<close> for the header.
\<close>

definition RateLimit :: "rate_limits option \<Rightarrow> (string \<Rightarrow> int res) option \<Rightarrow> time \<Rightarrow> time \<Rightarrow> time \<Rightarrow> gin_request \<Rightarrow>
    limiter \<Rightarrow> ((string \<times> string) list \<times> (nat \<times> string) option) \<times> limiter" where
  "RateLimit cfg redis now now' later q s =
     (let (limit, bucket) = resolveRateLimitPolicy cfg q; ip = getClientIP q in
      if limit = None then (([], None), s)
      else
        let answer = (case redis of None \<Rightarrow> None | Some incr \<Rightarrow>
              (case redisAllow incr ip bucket limit now now' of Inl e \<Rightarrow> None | Inr a \<Rightarrow> Some a));
            ((allowed, remaining, reset), s') = (case answer of Some a \<Rightarrow> (a, s) | None \<Rightarrow> Allow ip bucket limit now now' s);
            retry = - ((- reset) div 1000000000);
            headers = [(''X-RateLimit-Limit'', show_int (effectiveLimit limit)), (''X-RateLimit-Remaining'', show_int remaining)] @
              (if 0 < reset then [(''X-RateLimit-Reset'', show_int (unix_seconds (later + reset)))] else []) in
        if \<not> allowed then
          ((headers @ [(''Retry-After'', show_int (if retry \<le> 0 then 60 else retry))], Some (429, ''Rate limit exceeded'')), s')
        else ((headers, None), s'))"

section \<open>Routes\<close>

text \<open>
  Of a router the model keeps which middleware runs before the handler of a route: a group's \<open>Use\<close> holds for the routes
  that are registered after it. \<open>RateLimited\<close> and \<open>Authenticated\<close> are the public server's, \<open>Keyed\<close> the administration's.
\<close>

datatype guard = RateLimited | Authenticated | Keyed

datatype registration = Use guard | On string string

text \<open>A route: its verb and path, and the middleware before its handler, in order.\<close>

type_synonym route = "(string \<times> string) \<times> guard list"

definition join_paths :: "string \<Rightarrow> string \<Rightarrow> string" where
  "join_paths p r = (if r = '''' then p else if hd r = CHR ''/'' then p @ r else p @ ''/'' @ r)"

fun register_group :: "string \<Rightarrow> guard list \<Rightarrow> registration list \<Rightarrow> route list" where
  "register_group p gs [] = []"
| "register_group p gs (Use g # rs) = register_group p (gs @ [g]) rs"
| "register_group p gs (On verb r # rs) = ((verb, join_paths p r), gs) # register_group p gs rs"

definition registerPublicRoutes :: "guard list \<Rightarrow> route list" where
  "registerPublicRoutes gs =
     register_group '''' gs [On ''GET'' ''/''] @
     register_group ''/v1/subscriptions'' gs
       [On ''GET'' ''/products'', On ''GET'' ''/page-data'', Use Authenticated, On ''POST'' ''/process/:processor'',
        On ''POST'' ''/ccbill/flexform-url'', On ''POST'' ''/cancel'', On ''GET'' ''/active'', On ''GET'' ''/history'',
        On ''GET'' ''/purchases''] @
     register_group ''/v1/subscriptions/webhook'' gs [On ''POST'' ''/:processor'', On ''POST'' ''/:processor/:provider''] @
     register_group ''/v1/payment-methods'' gs
       [Use Authenticated, On ''POST'' '''', On ''GET'' '''', On ''PUT'' '':id'', On ''DELETE'' '':id'', On ''PUT'' '':id/activate''] @
     register_group ''/v1/notifications'' gs
       [Use Authenticated, On ''GET'' '''', On ''GET'' ''/unread-count'', On ''POST'' '':id/read''] @
     register_group ''/v1/wallet/solana'' gs
       [Use Authenticated, On ''GET'' '''', On ''GET'' ''/linked'', On ''POST'' ''/challenge'', On ''POST'' ''/verify'', On ''DELETE'' ''''] @
     register_group ''/v1/solana'' gs
       [On ''GET'' ''/tokens'', Use Authenticated, On ''POST'' ''/generate'', On ''POST'' ''/submit'', On ''POST'' ''/qr'',
        On ''GET'' ''/check''] @
     register_group ''/v1/access'' gs [Use Authenticated, On ''GET'' ''''] @
     register_group ''/v1'' gs [On ''GET'' ''/me/status''] @
     register_group '''' gs
       [On ''GET'' ''/health/live'', On ''GET'' ''/health/ready'', On ''GET'' ''/healthz'', On ''GET'' ''/readyz'']"

definition registerAdminRoutes :: "guard list \<Rightarrow> route list" where
  "registerAdminRoutes gs =
     register_group ''/v1'' gs
       [On ''PUT'' ''/subscriptions/:id/extend'', On ''POST'' ''/subscriptions/:id/cancel'', On ''GET'' ''/subscriptions/:id/details'',
        On ''GET'' ''/subscriptions/dashboard-metrics'', On ''GET'' ''/subscriptions/daily-metrics'',
        On ''GET'' ''/subscriptions/processor-metrics'', On ''GET'' ''/users/:user_id/entitlements''] @
     register_group '''' gs [On ''GET'' ''/health'', On ''HEAD'' ''/health'']"

definition setupHandlers :: "route list \<times> route list" where
  "setupHandlers = (registerPublicRoutes [RateLimited], registerAdminRoutes [Keyed])"

text \<open>
  What a server is built with: the verifier, the key of the administration, and whether the rate limiter stops the request.
\<close>

record server_env =
  se_Verifier :: "verifier option"
  se_BillingAPIKey :: string
  se_RateLimit :: "gin_request \<Rightarrow> (nat \<times> string) option"

definition run_guard :: "server_env \<Rightarrow> guard \<Rightarrow> middleware_fun" where
  "run_guard e g = (case g of
     RateLimited \<Rightarrow> (\<lambda>q ctx. case se_RateLimit e q of Some (n, m) \<Rightarrow> Abort n m | None \<Rightarrow> Next ctx)
   | Authenticated \<Rightarrow> AuthRequired (se_Verifier e)
   | Keyed \<Rightarrow> InternalOnly (se_BillingAPIKey e))"

text \<open>The handler runs with the context when the chain ends in \<open>Next\<close>.\<close>

fun run_chain :: "server_env \<Rightarrow> guard list \<Rightarrow> middleware_fun" where
  "run_chain e [] q ctx = Next ctx"
| "run_chain e (g # gs) q ctx = (case run_guard e g q ctx of Abort n m \<Rightarrow> Abort n m | Next c \<Rightarrow> run_chain e gs q c)"

definition readyHandler :: "(string option) option \<Rightarrow> (string option) option \<Rightarrow> bool \<Rightarrow> nat \<times> string \<times> (string \<times> string) list" where
  "readyHandler database redis has_verifier =
     (let check = (\<lambda>d r k. [(''db'', d), (''redis'', r), (''authkit'', k)]) in
      case database of
        None \<Rightarrow> (503, ''not_ready'', check ''missing'' ''ok'' ''ok'')
      | Some (Some e) \<Rightarrow> (503, ''not_ready'', check ''down'' ''ok'' ''ok'')
      | Some None \<Rightarrow>
          (case redis of
             Some (Some e) \<Rightarrow> (503, ''not_ready'', check ''ok'' ''down'' ''ok'')
           | _ \<Rightarrow>
               let r = (if redis = None then ''missing'' else ''ok'') in
               if \<not> has_verifier then (503, ''not_ready'', check ''ok'' r ''not_initialized'')
               else (200, ''ready'', check ''ok'' r ''ok'')))"

end
