(* ===== verification/Server_Props.thy ===== *)
theory Server_Props
  imports Server Form_Encoding
begin

text \<open>
  Who reaches a handler: the rate limiter admits a bounded number of requests in a minute, a private route needs a verified
  token, an administrative one the key, and the CCBill check accepts exactly four networks.
\<close>

section \<open>The rate limiter\<close>

text \<open>A request at the limiter: its address, bucket and limit, and the two readings of the clock.\<close>

type_synonym limiter_call = "string \<times> string \<times> rate_limit option \<times> time \<times> time"

fun after_calls :: "limiter_call list \<Rightarrow> limiter \<Rightarrow> limiter" where
  "after_calls [] s = s"
| "after_calls ((ip, b, l, now, now') # cs) s = after_calls cs (snd (Allow ip b l now now' s))"

text \<open>How many of the requests with a key are allowed.\<close>

fun admitted :: "string \<Rightarrow> limiter_call list \<Rightarrow> limiter \<Rightarrow> nat" where
  "admitted k [] s = 0"
| "admitted k ((ip, b, l, now, now') # cs) s =
     (if limit_key b ip = k \<and> fst (fst (Allow ip b l now now' s)) then 1 else 0) + admitted k cs (snd (Allow ip b l now now' s))"

definition counts_ok :: "limiter \<Rightarrow> bool" where
  "counts_ok s \<longleftrightarrow> (\<forall>k c. s k = Some c \<longrightarrow> 0 \<le> ct_count c)"

lemma counts_ok_Allow: "counts_ok s \<Longrightarrow> counts_ok (snd (Allow ip b l now now' s))"
  by (force simp: counts_ok_def Allow_def counted_def Let_def split: option.split if_splits)

lemma counts_ok_after: "counts_ok s \<Longrightarrow> counts_ok (after_calls cs s)"
  by (induction cs s rule: after_calls.induct) (simp_all add: counts_ok_Allow)

lemma effectiveLimit_pos: "0 < effectiveLimit (Some l)"
  by (simp add: effectiveLimit_def)

lemma Allow_other: "limit_key b ip \<noteq> k \<Longrightarrow> snd (Allow ip b l now now' s) k = s k"
  by (simp add: Allow_def Let_def)

lemma Allow_same:
  "fst (fst (Allow ip b (Some l) now now' s)) \<longleftrightarrow> ct_count (counted now (s (limit_key b ip))) \<le> effectiveLimit (Some l)"
  "snd (Allow ip b (Some l) now now' s) (limit_key b ip) = Some (counted now (s (limit_key b ip)))"
  using effectiveLimit_pos [of l] by (simp_all add: Allow_def Let_def)

text \<open>What a window can still admit.\<close>

definition room :: "int \<Rightarrow> counter option \<Rightarrow> nat" where
  "room n c = (case c of None \<Rightarrow> 0 | Some x \<Rightarrow> nat (n - ct_count x))"

text \<open>The requests of a key have one limit and fall into a span of time.\<close>

definition within_span :: "string \<Rightarrow> rate_limit \<Rightarrow> time \<Rightarrow> time \<Rightarrow> limiter_call list \<Rightarrow> bool" where
  "within_span k rl t t' cs \<longleftrightarrow>
     list_all (\<lambda>(ip, b, l, now, now'). limit_key b ip \<noteq> k \<or> (l = Some rl \<and> t \<le> now \<and> now \<le> t')) cs"

lemma counted_cases:
  "counted now c = \<lparr>ct_count = 1, ct_reset = time_add now minute\<rparr> \<and> (\<forall>x. c = Some x \<longrightarrow> ct_reset x < now) \<or>
   (\<exists>x. c = Some x \<and> now \<le> ct_reset x \<and> counted now c = x\<lparr>ct_count := ct_count x + 1\<rparr>)"
  by (auto simp: counted_def split: option.split)

lemma admitted_in_window:
  assumes "within_span k rl t t' cs" "s k = Some c" "t' \<le> ct_reset c" "0 \<le> ct_count c"
  shows "admitted k cs s \<le> room (effectiveLimit (Some rl)) (s k)"
  using assms
proof (induction k cs s arbitrary: c rule: admitted.induct)
  case (1 k s)
  then show ?case by simp
next
  case (2 k ip b l now now' cs s)
  show ?case
  proof (cases "limit_key b ip = k")
    case False
    then have "snd (Allow ip b l now now' s) k = s k" by (rule Allow_other)
    with False 2 show ?thesis by (simp add: within_span_def)
  next
    case True
    with 2(2) have l: "l = Some rl" and now: "now \<le> t'" and cs: "within_span k rl t t' cs"
      by (auto simp: within_span_def)
    from now 2(3,4) have c: "counted now (s k) = c\<lparr>ct_count := ct_count c + 1\<rparr>" by (simp add: counted_def)
    have s': "snd (Allow ip b l now now' s) k = Some (c\<lparr>ct_count := ct_count c + 1\<rparr>)"
      using Allow_same(2) [of ip b rl now now' s] True l c by simp
    have "admitted k cs (snd (Allow ip b l now now' s)) \<le> room (effectiveLimit (Some rl)) (snd (Allow ip b l now now' s) k)"
      by (rule 2(1) [OF cs s']) (use 2(4,5) in auto)
    moreover have "fst (fst (Allow ip b l now now' s)) \<longleftrightarrow> ct_count c + 1 \<le> effectiveLimit (Some rl)"
      using Allow_same(1) [of ip b rl now now' s] True l c by simp
    ultimately show ?thesis using True s' 2(3) by (auto simp: room_def)
  qed
qed

lemma admitted_in_span:
  assumes "within_span k rl t (t + 60000000000) cs" "counts_ok s"
  shows "admitted k cs s \<le> room (effectiveLimit (Some rl)) (s k) + nat (effectiveLimit (Some rl))"
  using assms
proof (induction k cs s rule: admitted.induct)
  case (1 k s)
  then show ?case by simp
next
  case (2 k ip b l now now' cs s)
  let ?s = "snd (Allow ip b l now now' s)" and ?n = "effectiveLimit (Some rl)"
  have ok: "counts_ok ?s" using 2(3) by (rule counts_ok_Allow)
  show ?case
  proof (cases "limit_key b ip = k")
    case False
    then have "?s k = s k" by (rule Allow_other)
    with False 2 ok show ?thesis by (simp add: within_span_def)
  next
    case True
    with 2(2) have l: "l = Some rl" and now: "t \<le> now" and cs: "within_span k rl t (t + 60000000000) cs"
      by (auto simp: within_span_def)
    have s': "?s k = Some (counted now (s k))" using Allow_same(2) [of ip b rl now now' s] True l by simp
    have a: "fst (fst (Allow ip b l now now' s)) \<longleftrightarrow> ct_count (counted now (s k)) \<le> ?n"
      using Allow_same(1) [of ip b rl now now' s] True l by simp
    from counted_cases [of now "s k"] show ?thesis
    proof
      assume "counted now (s k) = \<lparr>ct_count = 1, ct_reset = time_add now minute\<rparr> \<and> (\<forall>x. s k = Some x \<longrightarrow> ct_reset x < now)"
      then have new: "counted now (s k) = \<lparr>ct_count = 1, ct_reset = time_add now minute\<rparr>" by simp
      have "admitted k cs ?s \<le> room ?n (?s k)"
        by (rule admitted_in_window [where s = ?s and k = k, OF cs s']) (use new now in \<open>simp_all add: time_add_def minute_def\<close>)
      with True s' new effectiveLimit_pos [of rl] show ?thesis by (auto simp: room_def)
    next
      assume "\<exists>x. s k = Some x \<and> now \<le> ct_reset x \<and> counted now (s k) = x\<lparr>ct_count := ct_count x + 1\<rparr>"
      then obtain x where x: "s k = Some x" "counted now (s k) = x\<lparr>ct_count := ct_count x + 1\<rparr>" by blast
      have "admitted k cs ?s \<le> room ?n (?s k) + nat ?n" by (rule 2(1) [OF cs ok])
      with True s' x a show ?thesis by (auto simp: room_def)
    qed
  qed
qed

text \<open>
  C39. Whatever requests came before, the in-memory limiter admits at most twice the limit of the requests with
  one address and bucket within any 60 seconds (a fixed window admits its limit at its end and the next one at its start).
\<close>

theorem window_limit_respected:
  assumes "within_span (limit_key bucket ip) rl t (t + 60000000000) cs"
  shows "int (admitted (limit_key bucket ip) cs (after_calls earlier (\<lambda>_. None))) \<le> 2 * effectiveLimit (Some rl)"
proof -
  have ok: "counts_ok (after_calls earlier (\<lambda>_. None))" by (rule counts_ok_after) (simp add: counts_ok_def)
  have "room (effectiveLimit (Some rl)) (after_calls earlier (\<lambda>_. None) (limit_key bucket ip)) \<le> nat (effectiveLimit (Some rl))"
    using ok by (auto simp: room_def counts_ok_def intro!: nat_mono split: option.split)
  with admitted_in_span [OF assms ok] effectiveLimit_pos [of rl] show ?thesis by linarith
qed


definition sample_calls :: "limiter_call list" where
  "sample_calls = map (\<lambda>n. (''9.9.9.9'', ''default'', Some \<lparr>rl_Limit = 2, rl_Window = minute\<rparr>, n, n)) [100, 200, 300, 60000000050]"

theorem window_limit_respected_witness:
  "int (admitted (limit_key ''default'' ''9.9.9.9'') sample_calls
     (after_calls [(''9.9.9.9'', ''default'', Some \<lparr>rl_Limit = 2, rl_Window = minute\<rparr>, 1, 1)] (\<lambda>_. None))) \<le> 4
   \<and> admitted (limit_key ''default'' ''9.9.9.9'') sample_calls
     (after_calls [(''9.9.9.9'', ''default'', Some \<lparr>rl_Limit = 2, rl_Window = minute\<rparr>, 1, 1)] (\<lambda>_. None)) = 2"
proof
  have "within_span (limit_key ''default'' ''9.9.9.9'') \<lparr>rl_Limit = 2, rl_Window = minute\<rparr> 100 (100 + 60000000000) sample_calls"
    by code_simp
  from window_limit_respected [OF this, where earlier = "[(''9.9.9.9'', ''default'', Some \<lparr>rl_Limit = 2, rl_Window = minute\<rparr>, 1, 1)]"]
  show "int (admitted (limit_key ''default'' ''9.9.9.9'') sample_calls
     (after_calls [(''9.9.9.9'', ''default'', Some \<lparr>rl_Limit = 2, rl_Window = minute\<rparr>, 1, 1)] (\<lambda>_. None))) \<le> 4"
    by (simp add: effectiveLimit_def del: after_calls.simps)
qed code_simp

section \<open>Routes\<close>

text \<open>The routes without a user: the listings, the webhooks, the status and the health of the server.\<close>

definition open_routes :: "(string \<times> string) list" where
  "open_routes = [(''GET'', ''/''), (''GET'', ''/v1/subscriptions/products''), (''GET'', ''/v1/subscriptions/page-data''),
     (''POST'', ''/v1/subscriptions/webhook/:processor''), (''POST'', ''/v1/subscriptions/webhook/:processor/:provider''),
     (''GET'', ''/v1/solana/tokens''), (''GET'', ''/v1/me/status''), (''GET'', ''/health/live''), (''GET'', ''/health/ready''),
     (''GET'', ''/healthz''), (''GET'', ''/readyz'')]"

lemma private_routes:
  "list_all (\<lambda>(r, gs). gs = [RateLimited, Authenticated] \<or> r \<in> set open_routes) (fst setupHandlers)"
  by code_simp

lemma admin_routes: "list_all (\<lambda>(r, gs). gs = [Keyed]) (snd setupHandlers)"
  by code_simp

lemma AuthRequired_Next:
  "AuthRequired verifier q ctx = Next c \<longleftrightarrow> (\<exists>verify cs. verifier = Some verify \<and> bearerToken (GetHeader q ''Authorization'') \<noteq> '''' \<and>
     verify (bearerToken (GetHeader q ''Authorization'')) = Inr cs \<and>
     c = attachUserContext ctx (buildUserContext (BuildClaimsFromMap cs)))"
  by (auto simp: AuthRequired_def Let_def split: option.split sum.split)

text \<open>
  C21. Apart from the open routes, the handler of a public route runs only for a request whose bearer token a
  verifier is configured for and accepts; the user it then runs for is the one of the token's claims. (A
  verifier that accepts a token and yields no claims leaves the context as it was.)
\<close>

theorem private_routes_need_token:
  assumes "((verb, path), gs) \<in> set (fst setupHandlers)" "(verb, path) \<notin> set open_routes"
    and "run_chain e gs q ctx = Next c"
  shows "\<exists>verify cs. se_Verifier e = Some verify \<and> bearerToken (GetHeader q ''Authorization'') \<noteq> '''' \<and>
    verify (bearerToken (GetHeader q ''Authorization'')) = Inr cs \<and>
    (case cs of None \<Rightarrow> c = ctx | Some m \<Rightarrow> map_option uc_User c = Some (Some \<lparr>ui_ID = stringVal (map_of m ''sub''),
       ui_Email = (let a = stringVal (map_of m ''email'') in if a = '''' then None else Some a),
       ui_Username = (let p = stringVal (map_of m ''preferred_username'') in if p = '''' then stringVal (map_of m ''username'') else p),
       ui_Roles = toStringSlice (map_of m ''roles'')\<rparr>))"
proof -
  from private_routes assms(1,2) have "gs = [RateLimited, Authenticated]" by (fastforce simp: list_all_iff)
  with assms(3) show ?thesis
    by (auto simp: run_guard_def AuthRequired_Next attachUserContext_def buildUserContext_def BuildClaimsFromMap_def
      EmailPtr_def Let_def split: option.splits verdict.splits)
qed

text \<open>
  The handler of a route of the administration runs only for a request that carries the configured key, which
  is not empty.
\<close>

theorem admin_routes_need_key:
  assumes "((verb, path), gs) \<in> set (snd setupHandlers)" "run_chain e gs q ctx = Next c"
  shows "se_BillingAPIKey e \<noteq> '''' \<and> GetHeader q ''X-Api-Key'' = se_BillingAPIKey e \<and> c = ctx"
proof -
  from admin_routes assms(1) have "gs = [Keyed]" by (fastforce simp: list_all_iff)
  with assms(2) show ?thesis
    by (auto simp: run_guard_def InternalOnly_def Let_def split: if_splits verdict.splits)
qed

definition sample_server :: server_env where
  "sample_server = \<lparr>se_Verifier = Some (\<lambda>t. if t = ''tok'' then Inr (Some [(''sub'', ClString ''u1'')]) else Inl (ErrNew ''invalid_token'')),
     se_BillingAPIKey = ''key'', se_RateLimit = (\<lambda>q. None)\<rparr>"

definition sample_request :: gin_request where
  "sample_request = \<lparr>gq_Method = ''GET'', gq_Path = ''/v1/access'', gq_Headers = [(''Authorization'', ''bearer tok''), (''X-Api-Key'', ''key'')],
     gq_ClientIP = ''9.9.9.9''\<rparr>"

theorem private_routes_need_token_witness:
  "\<exists>c. run_chain sample_server [RateLimited, Authenticated] sample_request None = Next (Some c) \<and>
     map_option ui_ID (uc_User c) = Some ''u1'' \<and>
     (\<exists>verify m. se_Verifier sample_server = Some verify \<and> verify (bearerToken (GetHeader sample_request ''Authorization'')) = Inr (Some m))"
proof -
  define c where "c = \<lparr>uc_User = Some \<lparr>ui_ID = ''u1'', ui_Email = None, ui_Username = '''', ui_Roles = []\<rparr>, uc_SessionID = '''', uc_ExpiresAt = 0\<rparr>"
  have r: "((''GET'', ''/v1/access''), [RateLimited, Authenticated]) \<in> set (fst setupHandlers)" by code_simp
  have o: "(''GET'', ''/v1/access'') \<notin> set open_routes" by code_simp
  have n: "run_chain sample_server [RateLimited, Authenticated] sample_request None = Next (Some c)" unfolding c_def by code_simp
  from private_routes_need_token [OF r o n] obtain verify cs where v: "se_Verifier sample_server = Some verify"
      "verify (bearerToken (GetHeader sample_request ''Authorization'')) = Inr cs" "cs \<noteq> None"
    by (auto split: option.splits)
  then show ?thesis
    using n by (intro exI[of _ c]) (auto simp: c_def)
qed

theorem admin_routes_need_key_witness:
  "run_chain sample_server [Keyed] sample_request None = Next None \<and> se_BillingAPIKey sample_server \<noteq> ''''"
proof -
  have r: "((''GET'', ''/health''), [Keyed]) \<in> set (snd setupHandlers)" by code_simp
  have n: "run_chain sample_server [Keyed] sample_request None = Next None" by code_simp
  from admin_routes_need_key [OF r n] n show ?thesis by simp
qed

section \<open>CCBill's addresses\<close>

text \<open>The text of an IPv4 address.\<close>

definition dotted :: "nat \<Rightarrow> nat \<Rightarrow> nat \<Rightarrow> nat \<Rightarrow> string" where
  "dotted a b c d = show_nat a @ CHR ''.'' # show_nat b @ CHR ''.'' # show_nat c @ CHR ''.'' # show_nat d"

lemma digit_char: "k < 10 \<Longrightarrow> code (char_of (48 + k :: nat)) = 48 + k"
  by simp

lemma digit_zero:
  assumes "k < 10"
  shows "char_of (48 + k :: nat) = CHR ''0'' \<longleftrightarrow> k = 0"
proof
  assume "char_of (48 + k) = CHR ''0''"
  with digit_char [OF assms] have "48 + k = code (CHR ''0'')" by simp
  then show "k = 0" by simp
next
  have "char_of (48 :: nat) = CHR ''0''" by code_simp
  then show "char_of (48 + k) = CHR ''0''" if "k = 0" using that by simp
qed

lemma is_digit_char: "k < 10 \<Longrightarrow> is_digit (char_of (48 + k :: nat))"
  by (simp add: is_digit_def)

lemma show_nat_digits:
  "list_all is_digit (show_nat n) \<and> digits_int (show_nat n) = int n \<and> show_nat n \<noteq> '''' \<and> (hd (show_nat n) = CHR ''0'' \<longrightarrow> n = 0)"
proof (induction n rule: show_nat.induct)
  case (1 n)
  have c: "code (char_of (48 + n mod 10)) = 48 + n mod 10" by (rule digit_char) simp
  show ?case
  proof (cases "n < 10")
    case True
    then show ?thesis using c digit_zero [OF True] is_digit_char [OF True] by (simp add: show_nat.simps [of n] digits_int_def)
  next
    case False
    with 1 have "list_all is_digit (show_nat (n div 10))" "digits_int (show_nat (n div 10)) = int (n div 10)"
      "show_nat (n div 10) \<noteq> ''''" "hd (show_nat (n div 10)) = CHR ''0'' \<longrightarrow> n div 10 = 0" by simp_all
    moreover have "10 * int (n div 10) + int (n mod 10) = int n" using div_mult_mod_eq [of n 10] by linarith
    ultimately show ?thesis using c False is_digit_char [of "n mod 10"] by (auto simp: show_nat.simps [of n] digits_int_def)
  qed
qed

lemma octet_show: "n < 256 \<Longrightarrow> octet (show_nat n) = Some n" "list_all is_digit (show_nat n)"
  using show_nat_digits [of n] by (auto simp: octet_def show_nat.simps [of 0])

lemma digits_plain: "list_all is_digit s \<Longrightarrow> CHR ''.'' \<notin> set s \<and> CHR '','' \<notin> set s \<and> CHR ''%'' \<notin> set s \<and> CHR '':'' \<notin> set s"
  by (auto simp: list_all_iff is_digit_def)

lemma parse_dotted:
  assumes "a < 256" "b < 256" "c < 256" "d < 256"
  shows "parse_ipv4 (dotted a b c d) = Some [a, b, c, d]"
  using digits_plain [OF octet_show(2) [of a]] digits_plain [OF octet_show(2) [of b]]
    digits_plain [OF octet_show(2) [of c]] digits_plain [OF octet_show(2) [of d]]
    octet_show(1) [OF assms(1)] octet_show(1) [OF assms(2)] octet_show(1) [OF assms(3)] octet_show(1) [OF assms(4)]
  by (simp add: parse_ipv4_def dotted_def split_on_join split_on_rest)

lemma dropWhile_dotted:
  assumes "list_all is_digit s"
  shows "dropWhile (\<lambda>c. c \<noteq> CHR ''.'' \<and> c \<noteq> CHR '':'') (s @ CHR ''.'' # t) = CHR ''.'' # t"
  using digits_plain [OF assms] by (subst dropWhile_append2) auto

lemma ParseIP_dotted:
  assumes "a < 256" "b < 256" "c < 256" "d < 256"
  shows "ParseIP (dotted a b c d) = Some (v4_in_v6 @ [a, b, c, d])" "CHR '','' \<notin> set (dotted a b c d)" "dotted a b c d \<noteq> ''''"
proof -
  note p = digits_plain [OF octet_show(2) [of a]] digits_plain [OF octet_show(2) [of b]]
    digits_plain [OF octet_show(2) [of c]] digits_plain [OF octet_show(2) [of d]]
  show "CHR '','' \<notin> set (dotted a b c d)" "dotted a b c d \<noteq> ''''" using p by (simp_all add: dotted_def)
  have "dropWhile (\<lambda>c. c \<noteq> CHR ''.'' \<and> c \<noteq> CHR '':'') (dotted a b c d)
      = CHR ''.'' # show_nat b @ CHR ''.'' # show_nat c @ CHR ''.'' # show_nat d"
    unfolding dotted_def by (rule dropWhile_dotted) (rule octet_show(2) [of a])
  moreover have "CHR ''%'' \<notin> set (dotted a b c d)" using p by (simp add: dotted_def)
  ultimately show "ParseIP (dotted a b c d) = Some (v4_in_v6 @ [a, b, c, d])"
    using parse_dotted [OF assms] by (simp add: ParseIP_def)
qed

lemma byte_bits_value:
  assumes "n < 256"
  shows "foldl (\<lambda>v b. 2 * v + of_bool b) 0 (byte_bits n) = n"
proof -
  have half: "n div 2 ^ k = 2 * (n div 2 ^ Suc k) + of_bool (odd (n div 2 ^ k))" for k
  proof -
    have "n div 2 ^ Suc k = n div 2 ^ k div 2" by (simp only: power_Suc2 div_mult2_eq)
    then show ?thesis using div_mult_mod_eq [of "n div 2 ^ k" 2] by (simp add: mod_2_eq_odd)
  qed
  show ?thesis
    using assms half [of 0] half [of 1] half [of 2] half [of 3] half [of 4] half [of 5] half [of 6] half [of 7]
    by (simp add: byte_bits_def upt_rec)
qed

lemma byte_bits_inj: "n < 256 \<Longrightarrow> k < 256 \<Longrightarrow> byte_bits n = byte_bits k \<longleftrightarrow> n = k"
  using byte_bits_value by metis

lemma length_byte_bits: "length (byte_bits n) = 8"
  by (simp add: byte_bits_def)

lemma Contains_24:
  "Contains ([x, y, z, 0], 24) (v4_in_v6 @ [a, b, c, d]) \<longleftrightarrow> byte_bits a = byte_bits x \<and> byte_bits b = byte_bits y \<and> byte_bits c = byte_bits z"
  by (simp add: Contains_def shortest_def To4_def v4_in_v6_def length_byte_bits Let_def)

lemma ccbill_networks:
  "parsedCCBillRanges = [([64, 38, 212, 0], 24), ([64, 38, 215, 0], 24), ([64, 38, 240, 0], 24), ([64, 38, 241, 0], 24)]"
  by code_simp

lemma ccbill_addresses:
  assumes "a < 256" "b < 256" "c < 256" "d < 256"
  shows "IsValidCCBillIP (dotted a b c d) \<longleftrightarrow> a = 64 \<and> b = 38 \<and> c \<in> {212, 215, 240, 241}"
proof -
  have "IsValidCCBillIP (dotted a b c d) \<longleftrightarrow> list_ex (\<lambda>n. Contains n (v4_in_v6 @ [a, b, c, d])) parsedCCBillRanges"
    by (simp add: IsValidCCBillIP_def ParseIP_dotted [OF assms])
  then show ?thesis
    by (auto simp: ccbill_networks Contains_24 byte_bits_inj assms)
qed

end
