(* ===== verification/Alias.thy ===== *)
theory Alias
  imports Webhook_Common Samples
begin

text \<open>
  \<open>internal/manager/api/cc-bill-alias/ccbill_alias.go\<close> and \<open>internal/manager/data/repo/ccbill_username_alias.go\<close>: the user names
  under which users are known at CCBill. A name is the beginning of a hash of the user's identifier in base 32;
  \<open>sha\<close> is SHA-256. What is allocated here is what \<open>Alias_Resolve\<close> reads when a webhook arrives.
\<close>

section \<open>The table\<close>

definition ErrCCBillAliasConflict :: go_err where
  "ErrCCBillAliasConflict = Sentinel ''ccbill alias conflict''"

definition alias_unique :: "ccbill_alias list \<Rightarrow> bool" where
  "alias_unique rs \<longleftrightarrow> distinct (map al_Alias rs) \<and> distinct (map al_UserID rs)"

definition add_alias :: "ccbill_alias \<Rightarrow> tables \<Rightarrow> tables" where
  "add_alias r t = t\<lparr>t_aliases := t_aliases t @ [r]\<rparr>"

definition alias_by_user :: "tables \<Rightarrow> string \<Rightarrow> ccbill_alias option" where
  "alias_by_user t u = find (\<lambda>r. al_UserID r = u) (t_aliases t)"

definition AliasRepo_GetByUserID :: "string \<Rightarrow> ccbill_alias go" where
  "AliasRepo_GetByUserID u = db_query Pool (\<lambda>now t. scan_row (alias_by_user t u))"

definition AliasRepo_Create :: "ccbill_alias \<Rightarrow> unit go" where
  "AliasRepo_Create a = do {
     now \<leftarrow> now_m;
     r \<leftarrow> db_exec Pool (\<lambda>_ t.
       let row = a\<lparr>al_CreatedAt := (if is_zero_time (al_CreatedAt a) then now else al_CreatedAt a), al_UpdatedAt := now\<rparr>
       in if alias_unique (t_aliases (add_alias row t)) then Inr ((), add_alias row) else Inl duplicate_key);
     (case r of
        Inl e \<Rightarrow> throw (if e = DbErr duplicate_key then ErrCCBillAliasConflict else e)
      | Inr _ \<Rightarrow> ok ())
   }"

definition AliasRepo_Touch :: "string \<Rightarrow> unit go" where
  "AliasRepo_Touch a = do {
     now \<leftarrow> now_m;
     db_exec Pool (\<lambda>_ t. Inr ((), \<lambda>t. t\<lparr>t_aliases := update_where (\<lambda>r. al_Alias r = a) (\<lambda>r. r\<lparr>al_UpdatedAt := now\<rparr>) (t_aliases t)\<rparr>))
   }"

section \<open>Names\<close>

text \<open>\<open>base32.StdEncoding\<close> without padding: groups of five bits, the last one filled with zeros.\<close>

definition base32_char :: "nat \<Rightarrow> char" where
  "base32_char n = (if n < 26 then char_of (65 + n) else char_of (24 + n))"

definition bits_of :: "nat list \<Rightarrow> nat list" where
  "bits_of bs = concat (map (\<lambda>b. map (\<lambda>k. b div 2 ^ k mod 2) (rev [0..<8])) bs)"

fun base32_groups :: "nat list \<Rightarrow> string" where
  "base32_groups (a # b # c # d # e # r) = base32_char (16 * a + 8 * b + 4 * c + 2 * d + e) # base32_groups r"
| "base32_groups [] = ''''"
| "base32_groups [a] = [base32_char (16 * a)]"
| "base32_groups [a, b] = [base32_char (16 * a + 8 * b)]"
| "base32_groups [a, b, c] = [base32_char (16 * a + 8 * b + 4 * c)]"
| "base32_groups [a, b, c, d] = [base32_char (16 * a + 8 * b + 4 * c + 2 * d)]"

definition ccbillAliasMinLength :: nat where "ccbillAliasMinLength = 4"
definition ccbillAliasMaxLength :: nat where "ccbillAliasMaxLength = 16"

definition generateAliasCandidate :: "(string \<Rightarrow> nat list) \<Rightarrow> string \<Rightarrow> nat \<Rightarrow> string" where
  "generateAliasCandidate sha u attempt =
     (let base = (if 0 < attempt then u @ ''#'' @ show_nat attempt else u);
          name = take ccbillAliasMaxLength (to_lower (base32_groups (bits_of (sha base)))) in
      if length name < ccbillAliasMinLength then ''user'' @ show_nat attempt else name)"

section \<open>CCBillAliasService\<close>

definition maxAliasAttempts :: nat where "maxAliasAttempts = 5"

text \<open>\<open>left\<close> attempts are left.\<close>

fun allocate_alias :: "(string \<Rightarrow> nat list) \<Rightarrow> string \<Rightarrow> nat \<Rightarrow> string go" where
  "allocate_alias sha u 0 = throw (ErrNew (''unable to allocate ccbill alias for user '' @ u))"
| "allocate_alias sha u (Suc left) =
     (let candidate = generateAliasCandidate sha u (maxAliasAttempts - Suc left) in do {
       c \<leftarrow> AliasRepo_Create \<lparr>al_Alias = candidate, al_UserID = u, al_CreatedAt = 0, al_UpdatedAt = 0\<rparr>;
       (case c of
          Inr _ \<Rightarrow> ok candidate
        | Inl e \<Rightarrow>
            if err_is e ErrCCBillAliasConflict then do {
              r \<leftarrow> AliasRepo_GetByUserID u;
              (case r of Inr row \<Rightarrow> ok (al_Alias row) | Inl _ \<Rightarrow> allocate_alias sha u left)
            }
            else throw e)
     })"

definition Alias_GetOrCreate :: "(string \<Rightarrow> nat list) \<Rightarrow> string \<Rightarrow> string go" where
  "Alias_GetOrCreate sha userID =
     (let u = trim_space userID in
      if u = '''' then throw (ErrNew ''user id is required for alias creation'')
      else do {
        r \<leftarrow> AliasRepo_GetByUserID u;
        (case r of
           Inr row \<Rightarrow> ok (al_Alias row)
         | Inl e \<Rightarrow> if \<not> err_is e ErrNoRows then throw e else allocate_alias sha u maxAliasAttempts)
      })"

section \<open>What is allocated is resolved\<close>

text \<open>The names are unique and as \<open>Alias_Resolve\<close> reads them: not blank, and without space around them.\<close>

definition aliases_ok :: "tables \<Rightarrow> bool" where
  "aliases_ok t \<longleftrightarrow> alias_unique (t_aliases t) \<and> (\<forall>r \<in> set (t_aliases t). al_Alias r \<noteq> '''' \<and> trim_space (al_Alias r) = al_Alias r)"

lemma trim_plain: "list_all (\<lambda>c. \<not> is_space c) s \<Longrightarrow> trim_space s = s"
proof -
  have d: "list_all (\<lambda>c. \<not> is_space c) s \<Longrightarrow> dropWhile is_space s = s" for s by (cases s) auto
  assume "list_all (\<lambda>c. \<not> is_space c) s"
  then show ?thesis using d [of s] d [of "rev s"] by (simp add: trim_space_def list_all_iff)
qed

lemma base32_plain: "\<forall>b \<in> set bs. b < 2 \<Longrightarrow> list_all (\<lambda>c. \<not> is_space c) (to_lower (base32_groups bs))"
proof -
  have p: "\<not> is_space (base32_char n)" if "n < 32" for n
    using that by (auto simp: base32_char_def is_space_def)
  show "\<forall>b \<in> set bs. b < 2 \<Longrightarrow> list_all (\<lambda>c. \<not> is_space c) (to_lower (base32_groups bs))"
    by (induction bs rule: base32_groups.induct) (simp_all add: to_lower_def p)
qed


lemma candidate_plain:
  "trim_space (generateAliasCandidate sha u n) = generateAliasCandidate sha u n" "generateAliasCandidate sha u n \<noteq> ''''"
proof -
  let ?s = "to_lower (base32_groups (bits_of (sha (if 0 < n then u @ ''#'' @ show_nat n else u))))"
  have "\<forall>b \<in> set (bits_of bs). b < 2" for bs by (auto simp: bits_of_def)
  then have "list_all (\<lambda>c. \<not> is_space c) ?s" by (rule base32_plain)
  then have "list_all (\<lambda>c. \<not> is_space c) (take ccbillAliasMaxLength ?s)" by (auto simp: list_all_iff dest: in_set_takeD)
  moreover have "list_all (\<lambda>c. \<not> is_space c) (''user'' @ show_nat n)"
  proof (induction n rule: show_nat.induct)
    case (1 n)
    have d: "\<not> is_space (char_of (48 + k))" if "k < 10" for k :: nat using that by (simp add: is_space_def)
    then show ?case using 1 by (subst show_nat.simps) (auto simp: list_all_iff is_space_def)
  qed
  ultimately have "list_all (\<lambda>c. \<not> is_space c) (generateAliasCandidate sha u n)"
    unfolding generateAliasCandidate_def Let_def by simp
  then show "trim_space (generateAliasCandidate sha u n) = generateAliasCandidate sha u n" by (rule trim_plain)
  show "generateAliasCandidate sha u n \<noteq> ''''" by (auto simp: generateAliasCandidate_def Let_def ccbillAliasMinLength_def)
qed

text \<open>The user has the name.\<close>

definition known_as :: "tables \<Rightarrow> string \<Rightarrow> string \<Rightarrow> bool" where
  "known_as t u a \<longleftrightarrow> (\<exists>r \<in> set (t_aliases t). al_Alias r = a \<and> al_UserID r = u)"

definition named :: "string \<Rightarrow> string res \<Rightarrow> world \<Rightarrow> bool" where
  "named u r w \<longleftrightarrow> aliases_ok (w_db w) \<and> (\<forall>a. r = Inr a \<longrightarrow> known_as (w_db w) u a)"

lemma user_known: "alias_by_user t u = Some r \<Longrightarrow> known_as t u (al_Alias r)"
  by (auto simp: alias_by_user_def known_as_def find_Some_iff)

lemma wp_alias_query:
  assumes "aliases_ok (w_db w)"
  shows "wp (AliasRepo_GetByUserID u) (\<lambda>r w'. aliases_ok (w_db w') \<and> (\<forall>x. r = Inr x \<longrightarrow> known_as (w_db w') u (al_Alias x))) w"
  using assms unfolding AliasRepo_GetByUserID_def
  by (auto simp: wp_simps view_def tick_def db_fail_def scan_row_def dest: user_known split: option.split)

lemma wp_alias_create:
  assumes "aliases_ok (w_db w)" "trim_space a = a" "a \<noteq> ''''"
  shows "wp (AliasRepo_Create \<lparr>al_Alias = a, al_UserID = u, al_CreatedAt = 0, al_UpdatedAt = 0\<rparr>)
    (\<lambda>r w'. aliases_ok (w_db w') \<and> (r = Inr () \<longrightarrow> known_as (w_db w') u a)) w"
  using assms unfolding AliasRepo_Create_def
  by (auto simp: wp_simps view_def tick_def db_fail_def db_write_def Let_def is_zero_time_def aliases_ok_def add_alias_def known_as_def
    split: option.split)

lemma wp_allocate: "aliases_ok (w_db w) \<Longrightarrow> wp (allocate_alias sha u n) (named u) w"
proof (induction n arbitrary: w)
  case 0
  then show ?case by (simp add: wp_simps named_def)
next
  case (Suc n)
  let ?a = "generateAliasCandidate sha u (maxAliasAttempts - Suc n)"
  have q: "wp (AliasRepo_GetByUserID u \<bind> (\<lambda>r. case r of Inr row \<Rightarrow> ok (al_Alias row) | Inl _ \<Rightarrow> allocate_alias sha u n)) (named u) v"
    if v: "aliases_ok (w_db v)" for v
    unfolding wp_bind
    by (rule wp_mono [OF wp_alias_query [OF v]]) (auto simp: wp_simps named_def intro: Suc.IH split: sum.split)
  show ?case
    unfolding allocate_alias.simps Let_def wp_bind
    by (rule wp_mono [OF wp_alias_create [OF Suc.prems candidate_plain]])
      (auto simp: wp_simps named_def intro: q [unfolded wp_bind] split: sum.split)
qed

lemma wp_get_or_create: "aliases_ok (w_db w) \<Longrightarrow> wp (Alias_GetOrCreate sha u) (named (trim_space u)) w"
  unfolding Alias_GetOrCreate_def Let_def
  by (auto simp: wp_simps named_def intro!: wp_mono [OF wp_alias_query] intro: wp_allocate split: sum.split)

lemma resolved:
  assumes "aliases_ok (w_db w)" "known_as (w_db w) u a" "db_fault Pool w = None"
  shows "fst (run_state (Alias_Resolve a) w) = Inr u"
proof -
  from assms(2) obtain r where r: "r \<in> set (t_aliases (w_db w))" "al_Alias r = a" "al_UserID r = u" by (auto simp: known_as_def)
  with assms(1) have a: "a \<noteq> ''''" "trim_space a = a" by (auto simp: aliases_ok_def)
  from find_distinct [of al_Alias "t_aliases (w_db w)" r] assms(1) r have "alias_by_name (w_db w) a = Some r"
    by (simp add: alias_by_name_def aliases_ok_def alias_unique_def)
  then have "wp (Alias_Resolve a) (\<lambda>x _. x = Inr u) w"
    using a assms(3) r(3) by (simp add: Alias_Resolve_def AliasRepo_GetByAlias_def wp_simps scan_row_def view_def)
  then show ?thesis by (simp add: wp_def)
qed

text \<open>
  C24. A name that is allocated for a user, whatever fails on the way, resolves to that user as long as the table of
  names is what the allocation left: a webhook that CCBill sends under this name reaches the user's account.
\<close>

theorem alias_resolves_to_user:
  assumes "aliases_ok (w_db w)" "run_state (Alias_GetOrCreate sha u) w = (Inr a, w')"
    and "w_db v = w_db w'" "db_fault Pool v = None"
  shows "fst (run_state (Alias_Resolve a) v) = Inr (trim_space u)"
proof -
  from wp_get_or_create [OF assms(1)] assms(2) have "named (trim_space u) (Inr a) w'" by (rule wp_run)
  with assms(3) show ?thesis by (intro resolved assms(4)) (simp_all add: named_def)
qed


theorem alias_resolves_to_user_witness:
  "let run = run_state (Alias_GetOrCreate (\<lambda>s. [104, 105, 106, 107, 108, 109]) '' u1'') sample_world in
     fst run = Inr ''nbuwu23mnu'' \<and> fst (run_state (Alias_Resolve ''nbuwu23mnu'') (snd run)) = Inr ''u1''"
proof -
  let ?run = "run_state (Alias_GetOrCreate (\<lambda>s. [104, 105, 106, 107, 108, 109]) '' u1'') sample_world"
  have ok: "aliases_ok (w_db sample_world)" by (simp add: sample_world_def sample_tables_def aliases_ok_def alias_unique_def)
  have a: "fst ?run = Inr ''nbuwu23mnu''" by code_simp
  have f: "db_fault Pool (snd ?run) = None" by code_simp
  have t: "trim_space '' u1'' = ''u1''" by code_simp
  from a have "?run = (Inr ''nbuwu23mnu'', snd ?run)" by (simp add: prod_eq_iff)
  from alias_resolves_to_user [OF ok this refl f] a t show ?thesis unfolding Let_def by simp
qed

end
