(* ===== verification/CCBill_Client.thy ===== *)
theory CCBill_Client
  imports Config Form_Encoding Addresses
begin

text \<open>
  \<open>pkg/ccbill\<close>: the links to CCBill's payment forms and the signature of its callbacks (\<open>ccbill.go\<close>), and the list of active
  members from the DataLink service (\<open>datalink.go\<close>) with \<open>encoding/csv\<close>'s reader. \<open>sha_hex\<close> is the hexadecimal SHA-256 of
  a text. The pauses between attempts are left out.
\<close>

section \<open>Payment forms\<close>

text \<open>The section of the configuration, with the fields that only the forms use.\<close>

record form_config = ccbill_config +
  ff_Salt :: string
  ff_Language :: string
  ff_CurrencyCode :: string
  ff_IFrameWidth :: string
  ff_IFrameHeight :: string

record ccbill_client =
  cc_Config :: form_config
  cc_ApiURL :: string

definition CCBillDevAPIURL :: string where
  "CCBillDevAPIURL = ''https://sandbox-api.ccbill.com/wap-frontflex/flexforms/75383d6a-41d4-4bd0-ac12-6c8c37fde5e5''"

definition CCBillProdAPIURL :: string where
  "CCBillProdAPIURL = ''https://api.ccbill.com/wap-frontflex/flexforms/75383d6a-41d4-4bd0-ac12-6c8c37fde5e5''"

definition CCBill_NewClient :: "form_config \<Rightarrow> bool \<Rightarrow> ccbill_client" where
  "CCBill_NewClient cfg isProd = \<lparr>cc_Config = cfg, cc_ApiURL = (if isProd then CCBillProdAPIURL else CCBillDevAPIURL)\<rparr>"

record flexform_params =
  fp_Username :: string
  fp_Email :: string
  fp_Password :: string
  fp_CustomerFName :: string
  fp_CustomerLName :: string
  fp_Address1 :: string
  fp_City :: string
  fp_State :: string
  fp_ZipCode :: string
  fp_Country :: string
  fp_FlexID :: string
  fp_UserID :: string
  fp_PriceID :: string

record flexform_response =
  fr_IFrameURL :: string
  fr_Width :: string
  fr_Height :: string
  fr_SuccessURL :: string
  fr_DeclineURL :: string

text \<open>\<open>url.Values.Get\<close>: the first value of the key.\<close>

definition form_value :: "(string \<times> string) list \<Rightarrow> string \<Rightarrow> string" where
  "form_value kvs k = (case map_of kvs k of Some v \<Rightarrow> v | None \<Rightarrow> '''')"

definition createSignatureInput :: "ccbill_client \<Rightarrow> (string \<times> string) list \<Rightarrow> string" where
  "createSignatureInput c params = form_value params ''username'' @ ff_Salt (cc_Config c)"

definition generateCCBillSignature :: "(string \<Rightarrow> string) \<Rightarrow> ccbill_client \<Rightarrow> (string \<times> string) list \<Rightarrow> string" where
  "generateCCBillSignature sha_hex c q = sha_hex (createSignatureInput c q)"

definition VerifyCallbackSignature :: "(string \<Rightarrow> string) \<Rightarrow> ccbill_client \<Rightarrow> (string \<times> string) list \<Rightarrow> bool" where
  "VerifyCallbackSignature sha_hex c params \<longleftrightarrow>
     sha_hex (createSignatureInput c params) = to_lower (form_value params ''X-signature'')"

definition getConfigOrDefault :: "string \<Rightarrow> string \<Rightarrow> string" where
  "getConfigOrDefault v d = (if v = '''' then d else v)"

text \<open>The parameters of the form; the signature is set last.\<close>

definition form_params :: "(string \<Rightarrow> string) \<Rightarrow> ccbill_client \<Rightarrow> flexform_params \<Rightarrow> (string \<times> string) list" where
  "form_params sha_hex c p =
     [(''clientAccnum'', cb_ClientAccNum (cc_Config c)), (''clientSubacc'', cb_ClientSubAcc (cc_Config c)),
      (''formName'', cb_FormName (cc_Config c)), (''language'', ff_Language (cc_Config c)),
      (''currencyCode'', ff_CurrencyCode (cc_Config c)), (''email'', fp_Email p), (''username'', fp_Username p),
      (''password'', fp_Password p), (''customer_fname'', fp_CustomerFName p), (''customer_lname'', fp_CustomerLName p),
      (''address1'', fp_Address1 p), (''city'', fp_City p), (''state'', fp_State p), (''zipcode'', fp_ZipCode p),
      (''country'', fp_Country p)] @
     (if ff_Salt (cc_Config c) \<noteq> '''' then [(''signature'', generateCCBillSignature sha_hex c [(''username'', fp_Username p)])] else [])"

definition trim_right :: "char \<Rightarrow> string \<Rightarrow> string" where
  "trim_right c s = rev (dropWhile (\<lambda>x. x = c) (rev s))"

definition GenerateFlexFormURL :: "(string \<Rightarrow> string) \<Rightarrow> ccbill_client \<Rightarrow> flexform_params \<Rightarrow> flexform_response res" where
  "GenerateFlexFormURL sha_hex c p =
     (if fp_Username p = '''' \<or> fp_Email p = '''' then Inl (ErrNew ''username and email are required'')
      else Inr \<lparr>fr_IFrameURL = trim_right (CHR ''/'') (cb_BaseFlexFormURL (cc_Config c)) @ ''/'' @ fp_FlexID p @ ''?'' @
            encode_values (form_params sha_hex c p),
          fr_Width = getConfigOrDefault (ff_IFrameWidth (cc_Config c)) ''100%'',
          fr_Height = getConfigOrDefault (ff_IFrameHeight (cc_Config c)) ''600px'',
          fr_SuccessURL = cb_SuccessURL (cc_Config c), fr_DeclineURL = cb_DeclineURL (cc_Config c)\<rparr>)"

section \<open>The checks of a webhook\<close>

definition ValidateWebhookIP :: "string \<Rightarrow> unit res" where
  "ValidateWebhookIP clientIP = (case ParseIP clientIP of
     None \<Rightarrow> Inl (ErrNew (''invalid IP address: '' @ clientIP))
   | Some ip \<Rightarrow> if list_ex (\<lambda>n. Contains n ip) parsedCCBillRanges then Inr ()
       else Inl (ErrNew (''webhook request from unauthorized IP: '' @ clientIP)))"

definition ValidateWebhookAuth :: "form_config \<Rightarrow> string \<Rightarrow> string \<Rightarrow> unit res" where
  "ValidateWebhookAuth cfg accnum subacc =
     (if accnum \<noteq> cb_ClientAccNum cfg then
        Inl (ErrNew (''webhook clientAccnum mismatch: got '' @ accnum @ '', expected '' @ cb_ClientAccNum cfg))
      else if subacc \<noteq> cb_ClientSubAcc cfg then
        Inl (ErrNew (''webhook clientSubacc mismatch: got '' @ subacc @ '', expected '' @ cb_ClientSubAcc cfg))
      else Inr ())"

section \<open>Comma-separated values\<close>

text \<open>
  \<open>encoding/csv\<close>'s reader with any number of fields: lines may end in \<open>\r\n\<close>, and a last one in \<open>\r\<close>. The state of the reader
  is what it expects: the start of a field, the rest of a plain or a quoted one, or what follows a quote in a
  quoted one. An error ends the reading; it comes after the records read so far (its position is left out).
\<close>

fun normalize_newlines :: "string \<Rightarrow> string" where
  "normalize_newlines (c # d # s) = (if c = CHR 0x0D \<and> d = CHR 0x0A then d # normalize_newlines s else c # normalize_newlines (d # s))"
| "normalize_newlines [c] = (if c = CHR 0x0D then [] else [c])"
| "normalize_newlines [] = []"

datatype csv_state = AtField | InPlain string | InQuoted string | AfterQuote string

fun csv_read :: "csv_state \<Rightarrow> string list \<Rightarrow> string list list \<Rightarrow> string \<Rightarrow> string list list \<times> string option" where
  "csv_read st fs rs [] = (case st of
     AtField \<Rightarrow> (if fs = [] then rs else rs @ [fs @ ['''']], None)
   | InPlain a \<Rightarrow> (rs @ [fs @ [a]], None)
   | InQuoted a \<Rightarrow> (rs, Some ''extraneous or missing \" in quoted-field'')
   | AfterQuote a \<Rightarrow> (rs @ [fs @ [a]], None))"
| "csv_read st fs rs (c # s) = (case st of
     AtField \<Rightarrow>
       if c = CHR 0x22 then csv_read (InQuoted '''') fs rs s
       else if c = CHR '','' then csv_read AtField (fs @ ['''']) rs s
       else if c = CHR 0x0A then csv_read AtField [] (if fs = [] then rs else rs @ [fs @ ['''']]) s
       else csv_read (InPlain [c]) fs rs s
   | InPlain a \<Rightarrow>
       if c = CHR '','' then csv_read AtField (fs @ [a]) rs s
       else if c = CHR 0x0A then csv_read AtField [] (rs @ [fs @ [a]]) s
       else if c = CHR 0x22 then (rs, Some ''bare \" in non-quoted-field'')
       else csv_read (InPlain (a @ [c])) fs rs s
   | InQuoted a \<Rightarrow> if c = CHR 0x22 then csv_read (AfterQuote a) fs rs s else csv_read (InQuoted (a @ [c])) fs rs s
   | AfterQuote a \<Rightarrow>
       if c = CHR 0x22 then csv_read (InQuoted (a @ [c])) fs rs s
       else if c = CHR '','' then csv_read AtField (fs @ [a]) rs s
       else if c = CHR 0x0A then csv_read AtField [] (rs @ [fs @ [a]]) s
       else (rs, Some ''extraneous or missing \" in quoted-field''))"

definition csv_records :: "string \<Rightarrow> string list list \<times> string option" where
  "csv_records s = csv_read AtField [] [] (normalize_newlines s)"

section \<open>The members\<close>

record ccbill_record =
  cr_TransactionType :: string
  cr_ClientAccNum :: string
  cr_Field2 :: string
  cr_SubscriptionID :: int
  cr_Date :: string
  cr_Username :: string
  cr_Email :: string
  cr_Status :: string
  cr_RebillDate :: string
  cr_ExpiryDate :: string

text \<open>A record of at least ten fields.\<close>

definition parseRecord :: "string list \<Rightarrow> ccbill_record res" where
  "parseRecord r = (case atoi (r ! 3) of
     None \<Rightarrow> Inl (ErrWrap (''parsing subscription ID '' @ [CHR 0x27] @ r ! 3 @ [CHR 0x27]) (ErrNew ''strconv.ParseInt''))
   | Some i \<Rightarrow> Inr \<lparr>cr_TransactionType = r ! 0, cr_ClientAccNum = r ! 1, cr_Field2 = r ! 2, cr_SubscriptionID = i, cr_Date = r ! 4,
       cr_Username = r ! 5, cr_Email = r ! 6, cr_Status = r ! 7, cr_RebillDate = r ! 8, cr_ExpiryDate = r ! 9\<rparr>)"

definition parsed_record :: "string list \<Rightarrow> ccbill_record option" where
  "parsed_record r = (if length r < 10 then None else case parseRecord r of Inl _ \<Rightarrow> None | Inr x \<Rightarrow> Some x)"

definition ProcessCSVData :: "string \<Rightarrow> ccbill_record list res" where
  "ProcessCSVData csv = (case csv_records csv of
     (rs, Some e) \<Rightarrow> Inl (ErrWrap (''reading CSV record '' @ show_nat (length rs)) (ErrNew e))
   | (rs, None) \<Rightarrow> Inr (List.map_filter parsed_record rs))"

record datalink_client =
  dc_BaseURL :: string
  dc_ClientAccNum :: string
  dc_Username :: string
  dc_Password :: string

definition NewDataLinkClient :: "form_config \<Rightarrow> datalink_client" where
  "NewDataLinkClient cfg = \<lparr>dc_BaseURL = (if cb_DataLinkURL cfg = '''' then ''https://datalink.ccbill.com'' else cb_DataLinkURL cfg),
     dc_ClientAccNum = cb_ClientAccNum cfg, dc_Username = cb_DataLinkUsername cfg, dc_Password = cb_DataLinkPassword cfg\<rparr>"

definition datalink_form :: "datalink_client \<Rightarrow> (string \<times> string) list" where
  "datalink_form c = [(''transactionTypes'', ''ACTIVEMEMBERS''), (''clientAccnum'', dc_ClientAccNum c), (''username'', dc_Username c),
     (''password'', dc_Password c)]"

definition maxRetries :: nat where "maxRetries = 5"

text \<open>
  The attempts, of which \<open>left\<close> are left: what reading the body of the first answer with status 200 gives.
\<close>

fun fetch_body :: "string \<Rightarrow> (string \<times> string) list \<Rightarrow> nat \<Rightarrow> (string + string) go" where
  "fetch_body url form 0 = throw (ErrNew '''')"
| "fetch_body url form (Suc left) = do {
     r \<leftarrow> http_post url form;
     (case r of
        HttpRefused e \<Rightarrow>
          if left = 0 then throw (ErrWrap (''failed after '' @ show_nat maxRetries @ '' retries'') (ErrNew e)) else fetch_body url form left
      | HttpResponse status body _ \<Rightarrow>
          if status = 200 then ok body
          else if status = 401 then throw (ErrNew ''authentication failed: invalid credentials'')
          else if status = 403 then throw (ErrNew ''access forbidden: check client account permissions'')
          else if left = 0 then throw (ErrNew (''failed after '' @ show_nat maxRetries @ '' retries, last status: '' @ show_nat status))
          else fetch_body url form left)
   }"

definition active_members_prefix :: string where
  "active_members_prefix = [CHR 0x22] @ ''ACTIVEMEMBERS'' @ [CHR 0x22]"

definition check_content :: "string \<Rightarrow> unit res" where
  "check_content content = (let low = to_lower content in
     if has_prefix content active_members_prefix then Inr ()
     else if has_prefix low ''error'' \<or> has_prefix low ''invalid'' \<or> contains low ''authentication failed'' \<or> contains low ''access denied''
       then Inl (ErrNew (''CCBill API error: '' @ content))
     else Inl (ErrNew ''invalid response format from CCBill: expected ACTIVEMEMBERS data''))"

text \<open>\<open>urlerr\<close> is the error, if any, of building a request to the address.\<close>

definition FetchActiveMembers :: "(string \<Rightarrow> string option) \<Rightarrow> datalink_client \<Rightarrow> ccbill_record list go" where
  "FetchActiveMembers urlerr c =
     (let url = dc_BaseURL c @ ''/data/main.cgi'' in
      case urlerr url of
        Some e \<Rightarrow> throw (ErrWrap ''creating request'' (ErrNew e))
      | None \<Rightarrow> do {
          r \<leftarrow> fetch_body url (datalink_form c) maxRetries;
          (case r of
             Inl e \<Rightarrow> throw e
           | Inr (Inl e) \<Rightarrow> throw (ErrWrap ''reading response body'' (ErrNew e))
           | Inr (Inr content) \<Rightarrow> (case check_content content of
               Inl e \<Rightarrow> throw e
             | Inr _ \<Rightarrow> (case ProcessCSVData content of Inl e \<Rightarrow> throw e | Inr ms \<Rightarrow> ok ms)))
        })"

definition DataLink_ValidateConfig :: "datalink_client \<Rightarrow> unit res" where
  "DataLink_ValidateConfig c =
     (if dc_ClientAccNum c = '''' then Inl (ErrNew ''CCBill datalink client account number is required'')
      else if dc_Username c = '''' then Inl (ErrNew ''CCBill datalink username is required'')
      else if dc_Password c = '''' then Inl (ErrNew ''CCBill datalink password is required'')
      else Inr ())"

definition ValidateRecord :: "ccbill_record \<Rightarrow> unit res" where
  "ValidateRecord r =
     (if cr_SubscriptionID r \<le> 0 then Inl (ErrNew (''invalid subscription ID: '' @ show_int (cr_SubscriptionID r)))
      else if cr_Email r = '''' then Inl (ErrNew ''empty email address'')
      else if cr_Status r = '''' then Inl (ErrNew ''empty status'')
      else Inr ())"

definition MapCCBillStatusToInternal :: "string \<Rightarrow> string" where
  "MapCCBillStatusToInternal s =
     (if s = ''ACTIVE'' then ''active'' else if s = ''EXPIRED'' then ''expired'' else if s = ''CANCELLED'' then ''cancelled''
      else ''pending'')"

section \<open>Dates\<close>

text \<open>The layout \<open>01/02/2006\<close>, and \<open>15:04:05\<close> with an optional fraction; and what is left of the text.\<close>

definition scan_us_date :: "string \<Rightarrow> ((int \<times> int \<times> int) \<times> string) option" where
  "scan_us_date s =
     Option.bind (two_digits s) (\<lambda>(m, r1).
     if m < 1 \<or> 12 < m then None else
     Option.bind (expect (CHR ''/'') r1) (\<lambda>r2.
     Option.bind (two_digits r2) (\<lambda>(d, r3).
     Option.bind (expect (CHR ''/'') r3) (\<lambda>r4.
     if length r4 < 4 \<or> \<not> list_all is_digit (take 4 r4) then None else Some ((digits_int (take 4 r4), m, d), drop 4 r4)))))"

definition scan_clock :: "string \<Rightarrow> ((int \<times> int \<times> int \<times> int) \<times> string) option" where
  "scan_clock s =
     Option.bind (one_or_two_digits s) (\<lambda>(h, r1).
     if 24 \<le> h then None else
     Option.bind (expect (CHR '':'') r1) (\<lambda>r2.
     Option.bind (two_digits r2) (\<lambda>(mi, r3).
     if 60 \<le> mi then None else
     Option.bind (expect (CHR '':'') r3) (\<lambda>r4.
     Option.bind (two_digits r4) (\<lambda>(se, r5).
     if 60 \<le> se then None else (case scan_nanos r5 of (ns, r6) \<Rightarrow> Some ((h, mi, se, ns), r6)))))))"

definition moment :: "int \<times> int \<times> int \<Rightarrow> int \<times> int \<times> int \<times> int \<Rightarrow> time option" where
  "moment ymd hms = (case (ymd, hms) of ((y, m, d), (h, mi, se, ns)) \<Rightarrow>
     if valid_day y m d then Some (time_date y m d h mi se ns) else None)"

definition parse_us_date :: "string \<Rightarrow> time option" where
  "parse_us_date s = (case scan_us_date s of Some (ymd, []) \<Rightarrow> moment ymd (0, 0, 0, 0) | _ \<Rightarrow> None)"

definition parse_us_datetime :: "string \<Rightarrow> time option" where
  "parse_us_datetime s =
     Option.bind (scan_us_date s) (\<lambda>(ymd, r).
     Option.bind (if r = [] then Some [] else expect (CHR '' '') r) (\<lambda>r0.
     (case scan_clock (dropWhile (\<lambda>c. c = CHR '' '') r0) of Some (hms, []) \<Rightarrow> moment ymd hms | _ \<Rightarrow> None)))"

definition parse_iso_utc :: "string \<Rightarrow> time option" where
  "parse_iso_utc s =
     Option.bind (scan_date s) (\<lambda>(ymd, r).
     Option.bind (expect (CHR ''T'') r) (\<lambda>r0.
     (case scan_clock r0 of Some (hms, z) \<Rightarrow> if z = ''Z'' then moment ymd hms else None | None \<Rightarrow> None)))"

text \<open>
  The formats in order; the last one, with milliseconds before the \<open>Z\<close>, adds nothing to the fifth, which accepts any
  fraction. No date is no error.
\<close>

definition ParseCCBillDate :: "string \<Rightarrow> time option res" where
  "ParseCCBillDate s =
     (if s = '''' then Inr None
      else (case List.find (\<lambda>f. f s \<noteq> None) [parse_date, parse_us_date, parse_datetime, parse_us_datetime, parse_iso_utc] of
          Some f \<Rightarrow> Inr (f s)
        | None \<Rightarrow> Inl (ErrNew (''unable to parse CCBill date: '' @ s))))"

end
