(* ===== verification/CCBill_Client_Props.thy ===== *)
theory CCBill_Client_Props
  imports CCBill_Client Samples
begin

text \<open>
  The properties of the CCBill client: a payment link carries the customer's data, a quoted list of members is read as it was
  written, and the list is asked for at most five times.
\<close>

section \<open>Payment links\<close>

lemma form_params_distinct: "distinct (map fst (form_params sha c p))"
  by (simp add: form_params_def)

lemma map_of_sort_key:
  assumes "distinct (map fst kvs)"
  shows "map_of (sort_key fst kvs) = map_of kvs"
  using assms by (intro map_of_inject_set [THEN iffD2]) (simp_all add: distinct_map)

text \<open>
  C35. The address of a payment form is the configured base, the form and a query string which, read back, gives CCBill the
  account, the customer's user name, email, name and address as they were given, and the signature of the user name
  when a salt is configured.
\<close>

theorem flexform_url_decodes:
  assumes "GenerateFlexFormURL sha_hex c p = Inr r"
  shows "\<exists>q kvs. fr_IFrameURL r = trim_right (CHR ''/'') (cb_BaseFlexFormURL (cc_Config c)) @ ''/'' @ fp_FlexID p @ ''?'' @ q \<and>
    ParseQuery q = Some kvs \<and> form_value kvs ''clientAccnum'' = cb_ClientAccNum (cc_Config c) \<and>
    form_value kvs ''username'' = fp_Username p \<and> form_value kvs ''email'' = fp_Email p \<and> form_value kvs ''password'' = fp_Password p \<and>
    form_value kvs ''customer_fname'' = fp_CustomerFName p \<and> form_value kvs ''customer_lname'' = fp_CustomerLName p \<and>
    form_value kvs ''address1'' = fp_Address1 p \<and> form_value kvs ''city'' = fp_City p \<and> form_value kvs ''state'' = fp_State p \<and>
    form_value kvs ''zipcode'' = fp_ZipCode p \<and> form_value kvs ''country'' = fp_Country p \<and>
    form_value kvs ''signature'' = (if ff_Salt (cc_Config c) = '''' then '''' else sha_hex (fp_Username p @ ff_Salt (cc_Config c)))"
proof -
  let ?ps = "form_params sha_hex c p"
  have v: "form_value (sort_key fst ?ps) k = form_value ?ps k" for k
    by (simp add: form_value_def map_of_sort_key form_params_distinct)
  have u: "fr_IFrameURL r = trim_right (CHR ''/'') (cb_BaseFlexFormURL (cc_Config c)) @ ''/'' @ fp_FlexID p @ ''?'' @ encode_values ?ps"
    using assms by (auto simp: GenerateFlexFormURL_def split: if_splits)
  show ?thesis
    by (rule exI [of _ "encode_values ?ps"], rule exI [of _ "sort_key fst ?ps"])
      (simp add: u v parse_encoded, simp add: form_params_def form_value_def generateCCBillSignature_def createSignatureInput_def)
qed

definition sample_form_client :: ccbill_client where
  "sample_form_client = CCBill_NewClient \<lparr>cb_FormID = ''1'', cb_FormName = ''f'', cb_ClientSubAcc = ''0000'',
     cb_ClientAccNum = ''900100'', cb_BaseFlexFormURL = ''https://ccbill/'', cb_SuccessURL = ''/ok'', cb_DeclineURL = ''/no'',
     cb_DataLinkURL = '''', cb_DataLinkUsername = ''dl'', cb_DataLinkPassword = ''pw'', ff_Salt = ''salt'',
     ff_Language = ''English'', ff_CurrencyCode = ''840'', ff_IFrameWidth = '''', ff_IFrameHeight = ''''\<rparr> False"

definition sample_flexform :: flexform_params where
  "sample_flexform = \<lparr>fp_Username = ''ann'', fp_Email = ''a+b@x.io'', fp_Password = ''p&q'', fp_CustomerFName = ''Ann'',
     fp_CustomerLName = ''Lee'', fp_Address1 = ''1 Main St'', fp_City = ''Rome'', fp_State = ''RM'', fp_ZipCode = ''00100'',
     fp_Country = ''IT'', fp_FlexID = ''abc'', fp_UserID = ''u'', fp_PriceID = ''p''\<rparr>"

theorem flexform_url_decodes_witness:
  "\<exists>q kvs. ParseQuery q = Some kvs \<and> form_value kvs ''email'' = ''a+b@x.io'' \<and> form_value kvs ''signature'' = ''annsalt''"
proof -
  obtain r where r: "GenerateFlexFormURL id sample_form_client sample_flexform = Inr r"
    by (simp add: GenerateFlexFormURL_def sample_flexform_def)
  have "ff_Salt (cc_Config sample_form_client) = ''salt''" by (simp add: sample_form_client_def CCBill_NewClient_def)
  then show ?thesis using flexform_url_decodes [OF r] by (auto simp: sample_flexform_def)
qed

section \<open>Lists of members\<close>

text \<open>A field in quotes, its quotes doubled, and lines of such fields.\<close>

definition quoted_field :: "string \<Rightarrow> string" where
  "quoted_field f = CHR 0x22 # concat (map (\<lambda>c. if c = CHR 0x22 then [c, c] else [c]) f) @ [CHR 0x22]"

definition csv_line :: "string list \<Rightarrow> string" where
  "csv_line r = join '','' (map quoted_field r) @ [CHR 0x0A]"

definition csv_text :: "string list list \<Rightarrow> string" where
  "csv_text rs = concat (map csv_line rs)"

lemma read_step:
  "c \<noteq> CHR 0x22 \<Longrightarrow> csv_read (InQuoted a) fs rs (c # s) = csv_read (InQuoted (a @ [c])) fs rs s"
  "csv_read (InQuoted a) fs rs (CHR 0x22 # s) = csv_read (AfterQuote a) fs rs s"
  "csv_read (AfterQuote a) fs rs (CHR 0x22 # s) = csv_read (InQuoted (a @ [CHR 0x22])) fs rs s"
  "csv_read AtField fs rs (CHR 0x22 # s) = csv_read (InQuoted '''') fs rs s"
  "csv_read (AfterQuote a) fs rs (CHR '','' # s) = csv_read AtField (fs @ [a]) rs s"
  "csv_read (AfterQuote a) fs rs (CHR 0x0A # s) = csv_read AtField [] (rs @ [fs @ [a]]) s"
  by simp_all

lemma read_in_quotes:
  "csv_read (InQuoted a) fs rs (concat (map (\<lambda>c. if c = CHR 0x22 then [c, c] else [c]) f) @ CHR 0x22 # s) =
     csv_read (AfterQuote (a @ f)) fs rs s"
proof (induction f arbitrary: a)
  case Nil
  show ?case by (simp add: read_step del: csv_read.simps)
next
  case (Cons d f)
  show ?case
    using Cons.IH [of "a @ [d]"] by (cases "d = CHR 0x22") (simp_all add: read_step del: csv_read.simps)
qed

lemma read_field:
  "csv_read AtField fs rs (quoted_field f @ CHR '','' # s) = csv_read AtField (fs @ [f]) rs s"
  "csv_read AtField fs rs (quoted_field f @ CHR 0x0A # s) = csv_read AtField [] (rs @ [fs @ [f]]) s"
  by (simp_all add: quoted_field_def read_in_quotes read_step del: csv_read.simps)

lemma read_line:
  assumes "r \<noteq> []"
  shows "csv_read AtField fs rs (csv_line r @ s) = csv_read AtField [] (rs @ [fs @ r]) s"
proof -
  have "r \<noteq> [] \<Longrightarrow> csv_read AtField fs rs (join '','' (map quoted_field r) @ CHR 0x0A # s) = csv_read AtField [] (rs @ [fs @ r]) s"
    for r fs
    by (induction r arbitrary: fs rule: induct_list012) (simp_all add: read_field del: csv_read.simps)
  with assms show ?thesis by (simp add: csv_line_def del: csv_read.simps)
qed

lemma read_lines: "\<forall>r \<in> set rows. r \<noteq> [] \<Longrightarrow> csv_read AtField [] rs (csv_text rows) = (rs @ rows, None)"
  by (induction rows arbitrary: rs) (simp_all add: csv_text_def read_line)

lemma normalize_id: "CHR 0x0D \<notin> set s \<Longrightarrow> normalize_newlines s = s"
  by (induction s rule: normalize_newlines.induct) auto

lemma set_join: "set (join sep xs) \<subseteq> set sep \<union> \<Union> (set ` set xs)"
  by (induction sep xs rule: join.induct) auto

lemma no_return:
  assumes "\<forall>r \<in> set rows. \<forall>f \<in> set r. CHR 0x0D \<notin> set f"
  shows "CHR 0x0D \<notin> set (csv_text rows)"
proof -
  have f: "set (quoted_field f) \<subseteq> insert (CHR 0x22) (set f)" for f by (auto simp: quoted_field_def)
  have "set (csv_line r) \<subseteq> {CHR '','', CHR 0x0A, CHR 0x22} \<union> \<Union> (set ` set r)" for r
    using set_join [of "'',''" "map quoted_field r"] f by (fastforce simp: csv_line_def)
  with assms show ?thesis by (fastforce simp: csv_text_def)
qed

definition member_row :: "ccbill_record \<Rightarrow> string \<Rightarrow> string list" where
  "member_row m i = [cr_TransactionType m, cr_ClientAccNum m, cr_Field2 m, i, cr_Date m, cr_Username m, cr_Email m, cr_Status m,
     cr_RebillDate m, cr_ExpiryDate m]"

text \<open>
  A list of members in which every field is quoted, whatever commas, quotes and line feeds the fields hold (but
  no carriage return), is read as exactly these members in their order.
\<close>

theorem quoted_members_are_read:
  assumes "\<forall>(m, i) \<in> set ms. atoi i = Some (cr_SubscriptionID m) \<and> (\<forall>f \<in> set (member_row m i). CHR 0x0D \<notin> set f)"
  shows "ProcessCSVData (csv_text (map (\<lambda>(m, i). member_row m i) ms)) = Inr (map fst ms)"
proof -
  let ?rows = "map (\<lambda>(m, i). member_row m i) ms"
  have "csv_records (csv_text ?rows) = (?rows, None)"
  proof -
    have "CHR 0x0D \<notin> set (csv_text ?rows)" using assms by (intro no_return) fastforce
    moreover have "\<forall>r \<in> set ?rows. r \<noteq> []" by (auto simp: member_row_def)
    ultimately show ?thesis by (simp add: csv_records_def normalize_id read_lines)
  qed
  moreover have "parsed_record (member_row m i) = Some m" if "(m, i) \<in> set ms" for m i
    using assms that by (auto simp: parsed_record_def parseRecord_def member_row_def)
  then have "List.map_filter parsed_record ?rows = map fst ms"
    by (induction ms) (auto simp: List.map_filter_simps)
  ultimately show ?thesis by (simp add: ProcessCSVData_def)
qed

definition sample_member :: ccbill_record where
  "sample_member = \<lparr>cr_TransactionType = ''ACTIVEMEMBERS'', cr_ClientAccNum = ''900100'', cr_Field2 = ''0000'',
     cr_SubscriptionID = 42, cr_Date = ''2025-01-01'', cr_Username = ''ann, the first'', cr_Email = ''a@x.io'', cr_Status = ''ACTIVE'',
     cr_RebillDate = '''', cr_ExpiryDate = ''''\<rparr>"

theorem quoted_members_are_read_witness:
  "ProcessCSVData (csv_text [member_row sample_member ''42'']) = Inr [sample_member]"
proof -
  have "atoi ''42'' = Some 42" by code_simp
  then show ?thesis
    using quoted_members_are_read [of "[(sample_member, ''42'')]"] by (simp add: sample_member_def member_row_def)
qed

section \<open>The requests\<close>

definition fetched :: "world \<Rightarrow> string \<Rightarrow> (string \<times> string) list \<Rightarrow> nat \<Rightarrow> (string + string) res \<Rightarrow> world \<Rightarrow> bool" where
  "fetched w url form n r w' \<longleftrightarrow> w_db w' = w_db w \<and> (\<exists>k \<le> n. w_sent w' = w_sent w @ replicate k (url, form) \<and>
     (\<forall>b. r = Inr b \<longrightarrow> (\<exists>j close. 0 < k \<and> env_http (w_env w) j url form = HttpResponse 200 b close)))"

lemma wp_fetch: "wp (fetch_body url form n) (fetched w url form n) w"
proof (induction n arbitrary: w)
  case 0
  then show ?case by (auto simp: wp_simps fetched_def)
next
  case (Suc n)
  let ?w = "(tick w)\<lparr>w_sent := w_sent w @ [(url, form)]\<rparr>"
  have again: "wp (fetch_body url form n) (fetched w url form (Suc n)) ?w"
  proof (rule wp_mono [OF Suc.IH])
    fix r w'
    assume "fetched ?w url form n r w'"
    then obtain k where k: "w_db w' = w_db w" "k \<le> n" "w_sent w' = w_sent w @ replicate (Suc k) (url, form)"
        "\<forall>b. r = Inr b \<longrightarrow> (\<exists>j close. 0 < k \<and> env_http (w_env w) j url form = HttpResponse 200 b close)"
      by (auto simp: fetched_def tick_def)
    then show "fetched w url form (Suc n) r w'"
      unfolding fetched_def by (auto intro!: exI [of _ "Suc k"])
  qed
  have stop: "fetched w url form (Suc n) (Inl e) ?w" for e
    by (auto simp: fetched_def tick_def intro!: exI [of _ "Suc 0"])
  have found: "env_http (w_env w) (w_pc w) url form = HttpResponse 200 b close \<Longrightarrow> fetched w url form (Suc n) (Inr b) ?w" for b close
    unfolding fetched_def by (intro conjI exI [of _ "Suc 0"]) (auto simp: tick_def)
  show ?case
    using again stop found
    by (auto simp: wp_simps split: http_result.split)
qed

text \<open>
  The members are asked for at most five times, each time with the same form; nothing is stored; and a list is
  returned only if one of the answers had status 200 and, after its quoted heading, is the text of that list.
\<close>

theorem members_asked_at_most_five_times:
  assumes "run_state (FetchActiveMembers urlerr c) w = (r, w')"
  shows "w_db w' = w_db w \<and>
    (\<exists>k \<le> 5. w_sent w' = w_sent w @ replicate k (dc_BaseURL c @ ''/data/main.cgi'', datalink_form c)) \<and>
    (\<forall>ms. r = Inr ms \<longrightarrow> (\<exists>j content close. env_http (w_env w) j (dc_BaseURL c @ ''/data/main.cgi'') (datalink_form c) =
        HttpResponse 200 (Inr content) close \<and> has_prefix content active_members_prefix \<and> ProcessCSVData content = Inr ms))"
proof -
  have prefix: "check_content x = Inr y \<Longrightarrow> has_prefix x active_members_prefix" for x y
    by (auto simp: check_content_def Let_def split: if_splits)
  have "wp (FetchActiveMembers urlerr c) (\<lambda>r w'. w_db w' = w_db w \<and>
    (\<exists>k \<le> 5. w_sent w' = w_sent w @ replicate k (dc_BaseURL c @ ''/data/main.cgi'', datalink_form c)) \<and>
    (\<forall>ms. r = Inr ms \<longrightarrow> (\<exists>j content close. env_http (w_env w) j (dc_BaseURL c @ ''/data/main.cgi'') (datalink_form c) =
        HttpResponse 200 (Inr content) close \<and> has_prefix content active_members_prefix \<and> ProcessCSVData content = Inr ms))) w"
    unfolding FetchActiveMembers_def Let_def
    apply (auto simp: wp_simps split: option.split intro!: exI [of _ "0 :: nat"])
    apply (rule wp_mono [OF wp_fetch])
    apply (auto simp: fetched_def maxRetries_def wp_simps split: sum.split dest!: prefix)
    apply blast
    done
  then show ?thesis using assms by (rule wp_run)
qed

definition datalink_world :: world where
  "datalink_world = sample_world\<lparr>w_env := sample_env\<lparr>env_http :=
     (\<lambda>_ _ _. HttpResponse 200 (Inr (csv_text [member_row sample_member ''42''])) None)\<rparr>\<rparr>"

theorem members_asked_at_most_five_times_witness:
  "\<exists>r w' k. run_state (FetchActiveMembers (\<lambda>_. None) (NewDataLinkClient (cc_Config sample_form_client))) datalink_world = (r, w') \<and>
     k \<le> (5 :: nat) \<and> length (w_sent w') = length (w_sent datalink_world) + k"
proof -
  obtain r w' where r: "run_state (FetchActiveMembers (\<lambda>_. None) (NewDataLinkClient (cc_Config sample_form_client))) datalink_world = (r, w')"
    by fastforce
  from members_asked_at_most_five_times [OF r] obtain k :: nat where "k \<le> 5"
      "length (w_sent w') = length (w_sent datalink_world) + k" by auto
  with r show ?thesis by blast
qed

end
