(* ===== verification/Web_Request.thy ===== *)
theory Web_Request
  imports Server Webhook_Dispatcher
begin

text \<open>
  \<open>internal/manager/web/request/request.go\<close> and the paging of \<open>requests.go\<close>: what the handlers learn of an HTTP request, the
  address it comes from, its user, and the message of a body that does not bind; and the request that the reception
  of webhooks sees.
\<close>

section \<open>The address of the client\<close>

record http_request = gin_request +
  hq_RemoteAddr :: string

text \<open>
  \<open>net.SplitHostPort\<close>, of which the host is used: the text before the last colon, or between brackets; \<open>None\<close> is
  an error.
\<close>

definition before_last :: "char \<Rightarrow> string \<Rightarrow> string" where
  "before_last c s = rev (drop 1 (dropWhile (\<lambda>x. x \<noteq> c) (rev s)))"

definition after_last :: "char \<Rightarrow> string \<Rightarrow> string" where
  "after_last c s = rev (takeWhile (\<lambda>x. x \<noteq> c) (rev s))"

definition split_host :: "string \<Rightarrow> string option" where
  "split_host s =
     (if CHR '':'' \<notin> set s then None
      else if hd s = CHR ''['' then
        (let inner = takeWhile (\<lambda>x. x \<noteq> CHR '']'') (tl s); rest = drop (Suc (length inner)) s in
         if CHR '']'' \<notin> set s \<or> rest \<noteq> CHR '']'' # CHR '':'' # after_last (CHR '':'') s then None
         else if CHR ''['' \<in> set inner \<or> CHR ''['' \<in> set rest \<or> CHR '']'' \<in> set (tl rest) then None
         else Some inner)
      else
        (let host = before_last (CHR '':'') s in
         if CHR '':'' \<in> set host \<or> CHR ''['' \<in> set s \<or> CHR '']'' \<in> set s then None else Some host))"

definition GetClientIP :: "http_request \<Rightarrow> string" where
  "GetClientIP q =
     (let forwarded = GetHeader (gin_request.truncate q) ''X-Forwarded-For'';
          realIP = GetHeader (gin_request.truncate q) ''X-Real-Ip'' in
      if forwarded \<noteq> '''' then first_address forwarded
      else if realIP \<noteq> '''' then trim_space realIP
      else (case split_host (hq_RemoteAddr q) of None \<Rightarrow> hq_RemoteAddr q | Some ip \<Rightarrow> ip))"

section \<open>The user\<close>

text \<open>What the gin context holds under \<open>user\<close>; a pointer that is nil is \<open>None\<close>.\<close>

datatype context_value = CtxUserContext "user_context option" | CtxIdentity "identity option" | CtxOther

definition GetUserContext :: "context_value option \<Rightarrow> user_context option" where
  "GetUserContext v = (case v of Some (CtxUserContext c) \<Rightarrow> c | _ \<Rightarrow> None)"

text \<open>A nil \<open>*UserContext\<close> is dereferenced.\<close>

definition GetUser :: "context_value option \<Rightarrow> identity option res" where
  "GetUser v = (case Option.bind (GetUserContext v) uc_User of
     Some u \<Rightarrow> Inr (Some u)
   | None \<Rightarrow> (case v of
       Some (CtxIdentity i) \<Rightarrow> Inr i
     | Some (CtxUserContext (Some c)) \<Rightarrow> Inr (uc_User c)
     | Some (CtxUserContext None) \<Rightarrow> Inl (GoPanic ''nil pointer dereference'')
     | _ \<Rightarrow> Inr None))"

section \<open>Binding\<close>

text \<open>An error of the binding: the names of the fields that fail their validation, or any other.\<close>

datatype bind_error = InvalidFields "string list" | BindFailed string

definition normaliseBindError :: "bind_error \<Rightarrow> string" where
  "normaliseBindError e = (case e of
     InvalidFields (f # _) \<Rightarrow> to_lower f @ '' is invalid''
   | InvalidFields [] \<Rightarrow> ''invalid_request''
   | BindFailed m \<Rightarrow> if contains m ''EOF'' then ''empty_request_body'' else ''invalid_request'')"

text \<open>\<open>BindJSON\<close>, \<open>BindQuery\<close> and \<open>BindURI\<close>: the value, or the message that has been answered with status 400.\<close>

definition BindJSON :: "bind_error + 'a \<Rightarrow> string + 'a" where
  "BindJSON b = (case b of Inl e \<Rightarrow> Inl (normaliseBindError e) | Inr x \<Rightarrow> Inr x)"

section \<open>Paging\<close>

record pagination_params =
  pp_Page :: int
  pp_PageSize :: int

definition SetPaginationDefaults :: "int \<Rightarrow> pagination_params \<Rightarrow> pagination_params" where
  "SetPaginationDefaults n p = p\<lparr>pp_Page := 1, pp_PageSize := n\<rparr>"

definition CapPageSize :: "int \<Rightarrow> pagination_params \<Rightarrow> bool \<times> pagination_params" where
  "CapPageSize n p = (if n < pp_PageSize p then (True, p\<lparr>pp_PageSize := n\<rparr>) else (False, p))"

section \<open>The request of a webhook\<close>

text \<open>
  What \<open>Webhook\<close> reads before it looks at the processor: the path parameters, the query parameters \<open>provider\<close> and
  \<open>eventType\<close>, the first value of each header and the address of the client.
\<close>

definition received :: "http_request \<Rightarrow> string \<Rightarrow> string \<Rightarrow> (string \<Rightarrow> string) \<Rightarrow> string option \<Rightarrow> webhook_request" where
  "received q processor provider query body =
     \<lparr>rq_Processor = processor, rq_Provider = provider, rq_QueryProvider = query ''provider'', rq_QueryEventType = query ''eventType'',
      rq_Headers = gq_Headers q, rq_ClientIP = GetClientIP q, rq_Body = body\<rparr>"

end
