(* ===== verification/Web_Request_Props.thy ===== *)
theory Web_Request_Props
  imports Web_Request Server_Props Reception_Props
begin

text \<open>
  The check of CCBill's addresses, put together: the address that \<open>Webhook\<close> checks is read from a header of the
  request.
\<close>

lemma dotted_chars: "set (dotted a b c d) \<subseteq> {x. is_digit x} \<union> {CHR ''.''}"
proof -
  have "list_all is_digit (show_nat n)" for n using show_nat_digits [of n] by simp
  then show ?thesis by (fastforce simp: dotted_def list_all_iff)
qed

lemma trim_dotted: "trim_space (dotted a b c d) = dotted a b c d"
proof -
  have "x \<in> set (dotted a b c d) \<Longrightarrow> \<not> is_space x" for x
    using dotted_chars [of a b c d] by (auto simp: is_digit_def is_space_def)
  then have "dropWhile is_space (dotted a b c d) = dotted a b c d" "dropWhile is_space (rev (dotted a b c d)) = rev (dotted a b c d)"
    by (simp_all add: dropWhile_eq_self_iff) (metis hd_in_set rev_is_Nil_conv set_rev)+
  then show ?thesis by (simp add: trim_space_def)
qed

lemma first_dotted: "first_address (dotted a b c d) = dotted a b c d"
proof -
  have "CHR '','' \<notin> set (dotted a b c d)" using dotted_chars [of a b c d] by (auto simp: is_digit_def)
  then show ?thesis by (simp add: first_address_def split_on_rest trim_dotted)
qed

lemma dotted_nonempty: "dotted a b c d \<noteq> ''''"
  by (simp add: dotted_def)

lemma forwarded_address:
  assumes "map_of (gq_Headers q) ''X-Forwarded-For'' = Some h" "first_address h = dotted a b c d"
  shows "GetClientIP q = dotted a b c d"
proof -
  have "h \<noteq> ''''"
    using assms(2) dotted_nonempty [of a b c d] by (auto simp: first_address_def trim_space_def)
  then show ?thesis
    using assms by (simp add: GetClientIP_def GetHeader_def gin_request.defs)
qed

lemma create_succeeds:
  assumes "healthy w" "trim_space (to_lower (we_Processor p)) \<noteq> ''''" "we_EventType p \<noteq> ''''" "we_IPAddress p \<noteq> ''''"
    and "\<forall>n. env_uuid (w_env w) n \<notin> wh_ID ` set (t_events (w_db w))"
  shows "wp (WE_Create (Some rc) p) (\<lambda>x w'. \<exists>e. x = Inr e) w"
proof -
  have "db_fault Pool (tick (tick w)) = None" using assms(1) by simp
  then show ?thesis
    using assms(2-5) by (simp add: WE_Create_def wp_simps Let_def)
qed

text \<open>
  \<open>admitted rt w p ip x w'\<close>: a new event with the payload and the address is stored; the answer is 200, unless the
  processing of the event inside the request panics, which it cannot when the queue takes the event.
\<close>

definition admitted :: "runtime \<Rightarrow> world \<Rightarrow> string \<Rightarrow> string \<Rightarrow> response res \<Rightarrow> world \<Rightarrow> bool" where
  "admitted rt w p ip x w' \<longleftrightarrow>
     (\<exists>i e. event_by_id (w_db w) i = None \<and> event_by_id (w_db w') i = Some e \<and> wh_RawPayload e = p \<and> wh_IPAddress e = ip) \<and>
     (x = Inr (200, ''accepted'') \<or> (\<exists>e. x = Inl e \<and> is_panic e)) \<and>
     (\<forall>q. rt_Enqueue rt = Some q \<and> (\<forall>i. q i) \<longrightarrow> x = Inr (200, ''accepted''))"

lemma accept_admits:
  assumes "healthy w" "quiet w" "rt_Events rt = Some rc" "rt_Dispatch rt = Some svc"
    and "trim_space (to_lower (we_Processor p)) \<noteq> ''''" "we_EventType p \<noteq> ''''" "we_IPAddress p \<noteq> ''''"
    and "\<forall>n. env_uuid (w_env w) n \<notin> wh_ID ` set (t_events (w_db w))"
  shows "wp (accept_event rt p) (admitted rt w (we_Payload p) (we_IPAddress p)) w"
  unfolding accept_event_def wp_bind assms(3)
proof (rule wp_mono [OF wp_conj [OF wp_Create [OF assms(2)] create_succeeds [OF assms(1,5-8)]]], elim conjE exE)
  fix x w1 e
  assume c: "\<forall>e. x = Inr e \<longrightarrow> quiet w1 \<and> event_by_id (w_db w) (wh_ID e) = None \<and>
      event_by_id (w_db w1) (wh_ID e) = Some e \<and> wh_state e = (WebhookStatusPending, 0) \<and> wh_RawPayload e = we_Payload p \<and>
      wh_EventType e = we_EventType p \<and> wh_Processor e = trim_space (to_lower (we_Processor p)) \<and> wh_Headers e = we_Headers p \<and>
      wh_IPAddress e = we_IPAddress p" and x: "x = Inr e"
  have e: "quiet w1" "event_by_id (w_db w) (wh_ID e) = None" "event_by_id (w_db w1) (wh_ID e) = Some e"
      "wh_RawPayload e = we_Payload p" "wh_IPAddress e = we_IPAddress p"
    using c x by auto
  have stored: "\<exists>i e. event_by_id (w_db w) i = None \<and> event_by_id (w_db w') i = Some e \<and> wh_RawPayload e = we_Payload p \<and>
      wh_IPAddress e = we_IPAddress p" if m: "moved (rc_MaxAttempts rc) w1 w'" for w'
  proof -
    obtain e' where "event_by_id (w_db w') (wh_ID e) = Some e'" "wh_core e' = wh_core e"
      using m e(3) unfolding moved_def by blast
    with e show ?thesis
      by (intro exI[of _ "wh_ID e"] exI[of _ e']) (simp add: wh_core_def)
  qed
  have "wp (queueOrProcessWebhook rt (wh_ID e)) (\<lambda>r w'. moved (rc_MaxAttempts rc) w1 w' \<and>
      (\<forall>q. rt_Enqueue rt = Some q \<and> (\<forall>i. q i) \<longrightarrow> r = Inr ())) w1"
  proof (rule wp_conj)
    show "wp (queueOrProcessWebhook rt (wh_ID e)) (\<lambda>_. moved (rc_MaxAttempts rc) w1) w1"
      using advances_queue [OF assms(4,3)] e(1) unfolding advances_def by (blast intro: wp_mono)
    show "wp (queueOrProcessWebhook rt (wh_ID e)) (\<lambda>r _. \<forall>q. rt_Enqueue rt = Some q \<and> (\<forall>i. q i) \<longrightarrow> r = Inr ()) w1"
      by (rule wpI) (auto simp: queueOrProcessWebhook_def assms(4) ok_def)
  qed
  then show "wp (case x of Inl e \<Rightarrow> ok (500, ''Failed to persist webhook event'')
      | Inr event \<Rightarrow> do {
          q \<leftarrow> queueOrProcessWebhook rt (wh_ID event);
          (case q of Inl e \<Rightarrow> if is_panic e then throw e else ok (200, ''accepted'') | Inr _ \<Rightarrow> ok (200, ''accepted''))
        }) (admitted rt w (we_Payload p) (we_IPAddress p)) w1"
    unfolding x sum.case wp_bind
    by (rule wp_mono) (use stored in \<open>auto simp: wp_simps admitted_def split: sum.split\<close>)
qed

text \<open>
  C4. The check does not hold an attacker off: when every statement succeeds, a request from any peer whose header
  \<open>X-Forwarded-For\<close> starts with an address of any of CCBill's four networks is let in: its event is stored with that
  address as its origin, and it is answered 200, unless the event is processed in the request and that
  processing panics.
\<close>

theorem forged_address_is_accepted:
  assumes "rt_ValidIP rt = IsValidCCBillIP" "rt_Events rt = Some rc" "rt_Dispatch rt = Some svc"
    and "map_of (gq_Headers q) ''X-Forwarded-For'' = Some h" "first_address h = dotted 64 38 c d"
    and "c \<in> {212, 215, 240, 241}" "d < 256"
    and "normalizeCCBillPayload body = Some p" "trim_space (query ''eventType'') \<noteq> ''''"
    and "healthy w" "quiet w" "\<forall>n. env_uuid (w_env w) n \<notin> wh_ID ` set (t_events (w_db w))"
    and "run_state (Webhook rt (received q ''ccbill'' prov query (Some body))) w = (x, w')"
  shows "(\<exists>i e. event_by_id (w_db w) i = None \<and> event_by_id (w_db w') i = Some e \<and> wh_RawPayload e = p \<and>
      wh_IPAddress e = dotted 64 38 c d) \<and>
    (x = Inr (200, ''accepted'') \<or> (\<exists>e. x = Inl e \<and> is_panic e)) \<and>
    (\<forall>take. rt_Enqueue rt = Some take \<and> (\<forall>i. take i) \<longrightarrow> x = Inr (200, ''accepted''))"
proof -
  have ip: "GetClientIP q = dotted 64 38 c d" using assms(4,5) by (rule forwarded_address)
  have valid: "IsValidCCBillIP (dotted 64 38 c d)" using assms(6,7) by (subst ccbill_addresses) auto
  have nonempty: "dotted 64 38 c d \<noteq> ''''" by (rule dotted_nonempty)
  have lower: "trim_space (to_lower ''ccbill'') \<noteq> ''''" by code_simp
  have "wp (Webhook rt (received q ''ccbill'' prov query (Some body))) (admitted rt w p (dotted 64 38 c d)) w"
    using assms(1-3,8,9) valid
    by (simp add: Webhook_def ccbill_webhook_def received_def ip webhook_components_def Let_def split del: if_split,
        intro wp_mono [OF accept_admits [OF assms(10,11,2,3)]], use assms(12) nonempty lower in auto)
  then have "admitted rt w p (dotted 64 38 c d) x w'"
    using assms(13) by (rule wp_run)
  then show ?thesis
    unfolding admitted_def .
qed

definition forged_request :: http_request where
  "forged_request = \<lparr>gq_Method = ''POST'', gq_Path = ''/webhooks/ccbill'', gq_Headers = [(''X-Forwarded-For'', ''64.38.215.1, 203.0.113.7'')],
     gq_ClientIP = ''203.0.113.7'', hq_RemoteAddr = ''203.0.113.7:4711''\<rparr>"

definition checked_runtime :: runtime where
  "checked_runtime = sample_runtime\<lparr>rt_ValidIP := IsValidCCBillIP, rt_Enqueue := Some (\<lambda>_. True)\<rparr>"

theorem forged_address_is_accepted_witness:
  "\<exists>w' i e. run_state (Webhook checked_runtime (received forged_request ''ccbill'' '''' (\<lambda>k. if k = ''eventType'' then ''RenewalSuccess'' else '''')
       (Some ''{}''))) sample_world = (Inr (200, ''accepted''), w') \<and>
     event_by_id (w_db w') i = Some e \<and> wh_IPAddress e = ''64.38.215.1''"
proof -
  let ?query = "\<lambda>k. if k = ''eventType'' then ''RenewalSuccess'' else ''''"
  have d: "dotted 64 38 215 1 = ''64.38.215.1''" by code_simp
  have n: "normalizeCCBillPayload ''{}'' = Some ''{}''" "trim_space (?query ''eventType'') \<noteq> ''''" by code_simp+
  have w: "healthy sample_world" "quiet sample_world" "\<forall>n. env_uuid (w_env sample_world) n \<notin> wh_ID ` set (t_events (w_db sample_world))"
    by (simp_all add: healthy_def quiet_def sample_world_def sample_env_def sample_tables_def)
  obtain x w' where r: "run_state (Webhook checked_runtime (received forged_request ''ccbill'' '''' ?query (Some ''{}''))) sample_world = (x, w')"
    by fastforce
  have rt: "rt_ValidIP checked_runtime = IsValidCCBillIP" "rt_Events checked_runtime = Some defaultWebhookRetryConfig"
      "rt_Dispatch checked_runtime = Some sample_services" "rt_Enqueue checked_runtime = Some (\<lambda>_. True)"
    by (simp_all add: checked_runtime_def sample_runtime_def)
  have "first_address ''64.38.215.1, 203.0.113.7'' = ''64.38.215.1''"
    by code_simp
  then have h: "map_of (gq_Headers forged_request) ''X-Forwarded-For'' = Some ''64.38.215.1, 203.0.113.7''"
      "first_address ''64.38.215.1, 203.0.113.7'' = dotted 64 38 215 1" "(215 :: nat) \<in> {212, 215, 240, 241}" "(1 :: nat) < 256"
    unfolding d by (simp_all add: forged_request_def)
  show ?thesis
    using forged_address_is_accepted [OF rt(1-3) h n w r] rt(4) r unfolding d by auto
qed

end
