(* ===== verification/Cache.thy ===== *)
theory Cache
  imports Go_Prelude
begin

text \<open>
  \<open>pkg/cache/memory_cache.go\<close>: a map whose items expire. Each critical section of its lock is one step, so that \<open>Get\<close> of an
  expired item is two steps, between which other goroutines may run. The values are the bytes that \<open>encoding/json\<close>
  gives; \<open>encode\<close> and \<open>decode\<close> are its two functions.
\<close>

section \<open>The operations\<close>

record cache_item =
  it_Value :: string
  it_Expiration :: time

type_synonym cache_items = "string \<Rightarrow> cache_item option"

definition NewMemoryCache :: cache_items where
  "NewMemoryCache = (\<lambda>k. None)"

definition item_expired :: "time \<Rightarrow> cache_item \<Rightarrow> bool" where
  "item_expired now i \<longleftrightarrow> \<not> is_zero_time (it_Expiration i) \<and> it_Expiration i < now"

definition Cache_Delete :: "string \<Rightarrow> cache_items \<Rightarrow> cache_items" where
  "Cache_Delete k c = c(k := None)"

text \<open>The bytes found, and whether an expired item has to be deleted.\<close>

definition cache_look :: "time \<Rightarrow> string \<Rightarrow> cache_items \<Rightarrow> string option \<times> bool" where
  "cache_look now k c = (case c k of
     None \<Rightarrow> (None, False)
   | Some i \<Rightarrow> if item_expired now i then (None, True) else (Some (it_Value i), False))"

text \<open>Undisturbed. \<open>Inr None\<close> leaves the destination as it is.\<close>

definition Cache_Get :: "(string \<Rightarrow> 'v res) \<Rightarrow> time \<Rightarrow> string \<Rightarrow> cache_items \<Rightarrow> 'v option res \<times> cache_items" where
  "Cache_Get decode now k c = (case cache_look now k c of
     (None, gone) \<Rightarrow> (Inr None, if gone then Cache_Delete k c else c)
   | (Some b, gone) \<Rightarrow> (case decode b of Inl e \<Rightarrow> Inl e | Inr v \<Rightarrow> Inr (Some v), c))"

definition cache_put :: "time \<Rightarrow> string \<Rightarrow> string \<Rightarrow> duration \<Rightarrow> cache_items \<Rightarrow> cache_items" where
  "cache_put now k b ttl c = c(k \<mapsto> \<lparr>it_Value = b, it_Expiration = (if 0 < sint ttl then time_add now ttl else 0)\<rparr>)"

definition Cache_Set :: "('v \<Rightarrow> string res) \<Rightarrow> time \<Rightarrow> string \<Rightarrow> 'v \<Rightarrow> duration \<Rightarrow> cache_items \<Rightarrow> unit res \<times> cache_items" where
  "Cache_Set encode now k v ttl c = (case encode v of Inl e \<Rightarrow> (Inl e, c) | Inr b \<Rightarrow> (Inr (), cache_put now k b ttl c))"

definition Cache_Clear :: "cache_items \<Rightarrow> cache_items" where
  "Cache_Clear c = NewMemoryCache"

text \<open>One round of the background cleanup.\<close>

definition cleanupExpired :: "time \<Rightarrow> cache_items \<Rightarrow> cache_items" where
  "cleanupExpired now c = (\<lambda>k. case c k of None \<Rightarrow> None | Some i \<Rightarrow> if item_expired now i then None else Some i)"

section \<open>A history of operations\<close>

text \<open>Each operation with the time it reads.\<close>

datatype cache_op = OpGet time string | OpSet time string string duration | OpDelete time string | OpClear time | OpCleanup time

fun op_time :: "cache_op \<Rightarrow> time" where
  "op_time (OpGet t k) = t"
| "op_time (OpSet t k b ttl) = t"
| "op_time (OpDelete t k) = t"
| "op_time (OpClear t) = t"
| "op_time (OpCleanup t) = t"

text \<open>What the gets of a history find: \<open>Inr None\<close> is nothing.\<close>

fun cache_run :: "cache_op list \<Rightarrow> cache_items \<Rightarrow> string option res list" where
  "cache_run [] c = []"
| "cache_run (OpGet t k # ops) c = (case Cache_Get Inr t k c of (x, c') \<Rightarrow> x # cache_run ops c')"
| "cache_run (OpSet t k b ttl # ops) c = cache_run ops (snd (Cache_Set Inr t k b ttl c))"
| "cache_run (OpDelete t k # ops) c = cache_run ops (Cache_Delete k c)"
| "cache_run (OpClear t # ops) c = cache_run ops (Cache_Clear c)"
| "cache_run (OpCleanup t # ops) c = cache_run ops (cleanupExpired t c)"

text \<open>
  The contract, from the past alone, the latest operation first: the value that was set last and not deleted since, as
  long as its time to live has not passed.
\<close>

fun remembered :: "cache_op list \<Rightarrow> time \<Rightarrow> string \<Rightarrow> string option" where
  "remembered [] now k = None"
| "remembered (OpSet t k' b ttl # past) now k =
     (if k' = k then (if 0 < sint ttl \<and> t + sint ttl < now then None else Some b) else remembered past now k)"
| "remembered (OpDelete t k' # past) now k = (if k' = k then None else remembered past now k)"
| "remembered (OpClear t # past) now k = None"
| "remembered (OpGet t k' # past) now k = remembered past now k"
| "remembered (OpCleanup t # past) now k = remembered past now k"

fun spec_run :: "cache_op list \<Rightarrow> cache_op list \<Rightarrow> string option res list" where
  "spec_run past [] = []"
| "spec_run past (OpGet t k # ops) = Inr (remembered past t k) # spec_run (OpGet t k # past) ops"
| "spec_run past (OpSet t k b ttl # ops) = spec_run (OpSet t k b ttl # past) ops"
| "spec_run past (OpDelete t k # ops) = spec_run (OpDelete t k # past) ops"
| "spec_run past (OpClear t # ops) = spec_run (OpClear t # past) ops"
| "spec_run past (OpCleanup t # ops) = spec_run (OpCleanup t # past) ops"

section \<open>Refinement\<close>

text \<open>What is visible of the items at a time: the abstraction.\<close>

definition visible :: "cache_items \<Rightarrow> time \<Rightarrow> string \<Rightarrow> string option" where
  "visible c now k = (case c k of None \<Rightarrow> None | Some i \<Rightarrow> if item_expired now i then None else Some (it_Value i))"

lemma visible_Delete: "visible (Cache_Delete k c) now = (visible c now)(k := None)"
  by (auto simp: visible_def Cache_Delete_def)

lemma visible_Clear: "visible (Cache_Clear c) now = (\<lambda>k. None)" "visible NewMemoryCache now = (\<lambda>k. None)"
  by (simp_all add: visible_def Cache_Clear_def NewMemoryCache_def fun_eq_iff)

lemma visible_put:
  "0 \<le> t \<Longrightarrow> visible (cache_put t k b ttl c) now = (visible c now)(k := if 0 < sint ttl \<and> t + sint ttl < now then None else Some b)"
  by (auto simp: visible_def cache_put_def item_expired_def is_zero_time_def time_add_def)

lemma expired_later: "item_expired t i \<Longrightarrow> t \<le> now \<Longrightarrow> item_expired now i"
  by (auto simp: item_expired_def)

lemma visible_cleanup: "t \<le> now \<Longrightarrow> visible (cleanupExpired t c) now = visible c now"
  by (auto simp: visible_def cleanupExpired_def fun_eq_iff dest: expired_later split: option.split)

lemma Get_visible:
  "fst (Cache_Get Inr t k c) = Inr (visible c t k)" "t \<le> now \<Longrightarrow> visible (snd (Cache_Get decode t k c)) now = visible c now"
  by (auto simp: visible_def Cache_Get_def cache_look_def Cache_Delete_def fun_eq_iff dest: expired_later split: option.split)

lemma cache_refines:
  assumes "\<forall>now \<ge> m. visible c now = remembered past now" "\<forall>op \<in> set ops. m \<le> op_time op \<and> 0 \<le> op_time op" "sorted (map op_time ops)"
  shows "cache_run ops c = spec_run past ops"
  using assms
proof (induction ops arbitrary: past c m)
  case (Cons op ops)
  have IH: "cache_run ops c' = spec_run (op # past) ops" if "\<forall>now \<ge> op_time op. visible c' now = remembered (op # past) now" for c'
    using Cons.prems(2,3) that by (intro Cons.IH [of "op_time op"]) auto
  have c: "visible c now = remembered past now" if "op_time op \<le> now" for now
    using Cons.prems(1,2) that by simp
  have t: "0 \<le> op_time op" using Cons.prems(2) by simp
  show ?case
  proof (cases op)
    case (OpGet t k)
    have "cache_run ops (snd (Cache_Get Inr t k c)) = spec_run (op # past) ops"
      using c OpGet by (intro IH) (simp add: Get_visible fun_eq_iff)
    then show ?thesis
      using c [of t] OpGet Get_visible(1) [of t k c] by (cases "Cache_Get Inr t k c") simp
  next
    case (OpSet t k b ttl)
    have "cache_run ops (cache_put t k b ttl c) = spec_run (op # past) ops"
      using c t OpSet by (intro IH) (simp add: visible_put fun_eq_iff)
    then show ?thesis using OpSet by (simp add: Cache_Set_def)
  next
    case (OpDelete t k)
    have "cache_run ops (Cache_Delete k c) = spec_run (op # past) ops"
      using c OpDelete by (intro IH) (simp add: visible_Delete fun_eq_iff)
    then show ?thesis using OpDelete by simp
  next
    case (OpClear t)
    have "cache_run ops (Cache_Clear c) = spec_run (op # past) ops"
      using OpClear by (intro IH) (simp add: visible_Clear fun_eq_iff)
    then show ?thesis using OpClear by simp
  next
    case (OpCleanup t)
    have "cache_run ops (cleanupExpired t c) = spec_run (op # past) ops"
      using c OpCleanup by (intro IH) (simp add: visible_cleanup fun_eq_iff)
    then show ?thesis using OpCleanup by simp
  qed
qed simp

text \<open>
  C31. Operations that run one after the other are answered by the contract: a get finds the value that was set last
  for the key and not deleted or cleared since, while its time to live has not passed, and nothing otherwise, wherever
  rounds of the cleanup come in between.
\<close>

theorem memory_cache_refines:
  assumes "\<forall>op \<in> set ops. 0 \<le> op_time op" "sorted (map op_time ops)"
  shows "cache_run ops NewMemoryCache = spec_run [] ops"
proof -
  have "\<forall>now \<ge> 0. visible NewMemoryCache now = remembered [] now" by (simp add: visible_Clear fun_eq_iff)
  then show ?thesis using assms by (intro cache_refines [of 0]) auto
qed

theorem memory_cache_refines_witness:
  "cache_run [OpSet 10 ''k'' ''a'' 5, OpGet 12 ''k'', OpCleanup 16, OpGet 17 ''k''] NewMemoryCache = [Inr (Some ''a''), Inr None]"
  using memory_cache_refines [of "[OpSet 10 ''k'' ''a'' 5, OpGet 12 ''k'', OpCleanup 16, OpGet 17 ''k'']"] by simp

section \<open>Two goroutines\<close>

text \<open>
  The state with the keys whose deletion is pending, one for each \<open>Get\<close> that has found an expired item and has not
  taken the lock again.
\<close>

record shared_cache =
  ca_Items :: cache_items
  ca_Pending :: "string list"

datatype cache_step = GetLooks time string | GetDeletes string | SetStores time string string duration | CleanupRuns time

fun cache_next :: "cache_step \<Rightarrow> shared_cache \<Rightarrow> shared_cache" where
  "cache_next (GetLooks t k) s = (if snd (cache_look t k (ca_Items s)) then s\<lparr>ca_Pending := k # ca_Pending s\<rparr> else s)"
| "cache_next (GetDeletes k) s =
     (if k \<in> set (ca_Pending s) then s\<lparr>ca_Items := Cache_Delete k (ca_Items s), ca_Pending := remove1 k (ca_Pending s)\<rparr> else s)"
| "cache_next (SetStores t k b ttl) s = s\<lparr>ca_Items := cache_put t k b ttl (ca_Items s)\<rparr>"
| "cache_next (CleanupRuns t) s = s\<lparr>ca_Items := cleanupExpired t (ca_Items s)\<rparr>"

lemma undisturbed_get:
  "ca_Items (fold cache_next [GetLooks t k, GetDeletes k] \<lparr>ca_Items = c, ca_Pending = []\<rparr>) = snd (Cache_Get decode t k c)"
  by (simp add: Cache_Get_def split: option.split prod.split) (auto simp: cache_look_def split: option.split_asm if_splits)

text \<open>
  A value that is set while a get of the expired value before it waits for the lock is lost: the get deletes it,
  and it is found by nobody, though its own time to live has not passed.
\<close>

theorem expired_get_drops_fresh_value:
  assumes "ca_Items s k = Some i" "item_expired t i" "0 \<le> t'" "now \<le> t' + sint ttl"
  shows "visible (ca_Items (fold cache_next [GetLooks t k, SetStores t' k b ttl, GetDeletes k] s)) now k = None \<and>
    visible (ca_Items (fold cache_next [GetLooks t k, GetDeletes k, SetStores t' k b ttl] s)) now k = Some b"
  using assms by (simp add: cache_look_def visible_Delete visible_put)

theorem expired_get_drops_fresh_value_witness:
  "visible (ca_Items (fold cache_next [GetLooks 20 ''k'', SetStores 21 ''k'' ''new'' 100, GetDeletes ''k'']
     \<lparr>ca_Items = cache_put 10 ''k'' ''old'' 5 NewMemoryCache, ca_Pending = []\<rparr>)) 22 ''k'' = None"
  using expired_get_drops_fresh_value [of "\<lparr>ca_Items = cache_put 10 ''k'' ''old'' 5 NewMemoryCache, ca_Pending = []\<rparr>" "''k''"
    "\<lparr>it_Value = ''old'', it_Expiration = 15\<rparr>" 20 21 22 100 "''new''"]
  by (simp add: cache_put_def time_add_def item_expired_def is_zero_time_def)

end
