(* ===== verification/User_API.thy ===== *)
theory User_API
  imports Accounts Method_API Web_Request
begin

text \<open>
  The HTTP handlers around a user's subscription: \<open>cancel_subscription.go\<close>, \<open>get_subscription.go\<close>,
  \<open>get_subscription_history.go\<close>, \<open>subscribe.go\<close> and \<open>manage.go\<close> of \<open>api/subscription\<close>, \<open>get_access_status.go\<close> and
  \<open>get_user_payments.go\<close> of \<open>api/user\<close>, \<open>get_products.go\<close>, \<open>notifications.go\<close>, \<open>admin_entitlements.go\<close>, with
  \<open>public_subscription_service.go\<close> and the counts of \<open>billing_analytics.go\<close>. A handler yields the response it
  writes, or panics. \<open>uc\<close> is the user context of the request (nil: \<open>None\<close>), \<open>body\<close> what binding gives, \<open>query\<close> the query
  parameters.
\<close>

section \<open>Responses\<close>

type_synonym 'a api = "'a reply go"

definition answers :: "'a \<Rightarrow> 'a api" where
  "answers x = ok (SuccessJSON x)"

definition refuses :: "nat \<Rightarrow> string \<Rightarrow> 'a api" where
  "refuses status msg = ok (ErrorJSON status msg)"

text \<open>The error of a service as status 500; a panic passes.\<close>

definition fails :: "go_err \<Rightarrow> 'a api" where
  "fails e = (if is_panic e then throw e else refuses 500 (err_text e))"

definition nil_pointer :: go_err where
  "nil_pointer = GoPanic ''invalid memory address or nil pointer dereference''"

text \<open>\<open>userCtx.User\<close> of a nil context is a panic.\<close>

definition context_user :: "user_context option \<Rightarrow> (identity \<Rightarrow> 'a api) \<Rightarrow> 'a api" where
  "context_user uc f = (case uc of
     None \<Rightarrow> throw nil_pointer
   | Some c \<Rightarrow> (case uc_User c of None \<Rightarrow> refuses 401 ''User authentication required'' | Some u \<Rightarrow> f u))"

definition bound_body :: "string + 'b \<Rightarrow> ('b \<Rightarrow> 'a api) \<Rightarrow> 'a api" where
  "bound_body b f = (case b of Inl msg \<Rightarrow> refuses 400 msg | Inr x \<Rightarrow> f x)"

text \<open>The value of \<open>strconv.Atoi\<close> whatever its error: 0, or the nearest bound for a number out of range.\<close>

definition atoi_value :: "string \<Rightarrow> int" where
  "atoi_value s =
     (let (neg, ds) = (case s of c # t \<Rightarrow> if c = CHR ''-'' then (True, t) else if c = CHR ''+'' then (False, t) else (False, s) | [] \<Rightarrow> (False, []))
      in if ds = [] \<or> \<not> list_all is_digit ds then 0
         else max (- (2 ^ 63)) (min (2 ^ 63 - 1) (if neg then - digits_int ds else digits_int ds)))"

definition page_limit :: "string \<Rightarrow> int" where
  "page_limit s = (let n = atoi_value s in if n \<le> 0 \<or> 100 < n then 10 else n)"

definition page_offset :: "string \<Rightarrow> int" where
  "page_offset s = (let n = atoi_value s in if n < 0 then 0 else n)"

text \<open>\<open>response.PaginatedResponse\<close>; a page of 0 is left out.\<close>

record 'a listing =
  li_Data :: "'a list"
  li_TotalItems :: nat
  li_Page :: int
  li_PageSize :: int

section \<open>Subscriptions\<close>

definition CancelSubscription_handler :: "nmi_clients option \<Rightarrow> user_context option \<Rightarrow> string + string \<Rightarrow> string api" where
  "CancelSubscription_handler clients uc body = bound_body body (\<lambda>feedback. context_user uc (\<lambda>u. do {
     r \<leftarrow> User_CancelUserSubscription clients (ui_ID u) feedback;
     (case r of Inl e \<Rightarrow> fails e | Inr _ \<Rightarrow> answers ''subscription cancelled successfully'')
   }))"

definition GetSubscription :: "bool \<Rightarrow> user_context option \<Rightarrow> (string + user_subscription) api" where
  "GetSubscription ents uc = context_user uc (\<lambda>u. do {
     r \<leftarrow> GetUserSubscription ents (ui_ID u);
     (case r of
        Inl e \<Rightarrow> if err_is e ErrNoRows then answers (Inl ''no active subscription found'') else fails e
      | Inr s \<Rightarrow> answers (Inr s))
   })"

definition history_options :: "(string \<Rightarrow> string) \<Rightarrow> query_options" where
  "history_options query = \<lparr>qo_Page = 0, qo_PageSize = 0, qo_Limit = page_limit (query ''limit''), qo_Offset = page_offset (query ''offset''),
     qo_TotalItems = 0, qo_All = False\<rparr>"

definition GetSubscriptionHistory :: "user_context option \<Rightarrow> (string \<Rightarrow> string) \<Rightarrow> user_subscription listing api" where
  "GetSubscriptionHistory uc query = context_user uc (\<lambda>u. do {
     r \<leftarrow> GetUserSubscriptionHistory (ui_ID u) \<lparr>sf_UserID = '''', sf_Status = query ''status'', sf_PriceID = 0, sf_Processor = ''''\<rparr>
       (history_options query);
     (case r of
        Inl e \<Rightarrow> fails e
      | Inr (ss, n) \<Rightarrow> answers \<lparr>li_Data = ss, li_TotalItems = n, li_Page = 0, li_PageSize = 0\<rparr>)
   })"

text \<open>The answer of \<open>POST /process/:processor\<close>: the body's processor goes before that of the path.\<close>

definition Subscribe_handler :: "subscription_service \<Rightarrow> user_context option \<Rightarrow> string \<Rightarrow> string + subscribe_data \<Rightarrow> subscribe_result api" where
  "Subscribe_handler svc uc processor body = bound_body body (\<lambda>d.
     let d' = (if sd_Processor d = '''' then d\<lparr>sd_Processor := processor\<rparr> else d) in
     context_user uc (\<lambda>u. do {
       r \<leftarrow> Subscribe svc d' (user_identity.truncate u);
       (case r of Inl e \<Rightarrow> if is_panic e then throw e else refuses 500 ''Internal server error'' | Inr x \<Rightarrow> answers x)
     }))"

definition UpdateStatus_handler :: "(string \<Rightarrow> string + uuid) \<Rightarrow> string + status_params \<Rightarrow> string api" where
  "UpdateStatus_handler parse body = bound_body body (\<lambda>d. do {
     r \<leftarrow> UpdateStatus parse d;
     (case r of Inl e \<Rightarrow> fails e | Inr _ \<Rightarrow> answers ''subscription status updated'')
   })"

definition ExtendSubscription_handler :: "(string \<Rightarrow> string + uuid) \<Rightarrow> string + (string \<times> duration) \<Rightarrow> string api" where
  "ExtendSubscription_handler parse body = bound_body body (\<lambda>(i, d). do {
     r \<leftarrow> Manage_ExtendSubscription parse i d;
     (case r of Inl e \<Rightarrow> fails e | Inr _ \<Rightarrow> answers ''subscription extended successfully'')
   })"

section \<open>Access and payments\<close>

text \<open>\<open>GetUser\<close> as the handlers call it.\<close>

definition request_user :: "context_value option \<Rightarrow> (identity option \<Rightarrow> 'a api) \<Rightarrow> 'a api" where
  "request_user v f = (case GetUser v of Inl e \<Rightarrow> throw e | Inr u \<Rightarrow> f u)"

record access_status =
  as_IsPremium :: bool
  as_Access :: "access_grant list"

text \<open>\<open>svc\<close>: the service and its two services of subscriptions and entitlements (\<open>None\<close>: none).\<close>

definition GetAccessStatus :: "(bool \<times> bool) option \<Rightarrow> context_value option \<Rightarrow> access_status api" where
  "GetAccessStatus svc v = request_user v (\<lambda>user. case user of
     None \<Rightarrow> refuses 401 ''unauthorized''
   | Some u \<Rightarrow> (case svc of
       None \<Rightarrow> refuses 500 ''access service unavailable''
     | Some (subs, ents) \<Rightarrow> do {
         r \<leftarrow> GetUserAccessStatus subs ents (ui_ID u);
         (case r of
            Inr gs \<Rightarrow> answers \<lparr>as_IsPremium = gs \<noteq> [], as_Access = gs\<rparr>
          | Inl e \<Rightarrow> if err_is e ErrNoRows then answers \<lparr>as_IsPremium = False, as_Access = []\<rparr> else fails e)
       }))"

definition any_payment :: payment_filters where
  "any_payment = \<lparr>pf_UserID = '''', pf_PriceID = 0, pf_Processor = '''', pf_StartDate = None, pf_EndDate = None, pf_MinAmount = None,
     pf_MaxAmount = None\<rparr>"

definition GetUserPayments_handler :: "user_context option \<Rightarrow> (string \<Rightarrow> string) \<Rightarrow> payment listing api" where
  "GetUserPayments_handler uc query = context_user uc (\<lambda>u. do {
     r \<leftarrow> GetUserPayments (ui_ID u) (any_payment\<lparr>pf_Processor := query ''type''\<rparr>) (history_options query);
     (case r of
        Inl e \<Rightarrow> fails e
      | Inr (ps, n) \<Rightarrow> answers \<lparr>li_Data = ps, li_TotalItems = n, li_Page = 0, li_PageSize = 0\<rparr>)
   })"

text \<open>The administration's listing of a user's entitlements; without a service it is empty.\<close>

definition GetAdminActiveEntitlements :: "bool \<Rightarrow> string + string \<Rightarrow> entitlement list api" where
  "GetAdminActiveEntitlements ents uri = bound_body uri (\<lambda>u. if \<not> ents then answers [] else do {
     now \<leftarrow> now_m;
     r \<leftarrow> EntRepo_ListActiveRecords Pool u now;
     (case r of Inl e \<Rightarrow> fails e | Inr es \<Rightarrow> answers es)
   })"

section \<open>Notifications\<close>

text \<open>\<open>user.ID\<close> of a nil user is a panic.\<close>

definition user_id :: "identity option \<Rightarrow> (string \<Rightarrow> 'a api) \<Rightarrow> 'a api" where
  "user_id user f = (case user of None \<Rightarrow> throw nil_pointer | Some u \<Rightarrow> f (ui_ID u))"

definition seen_param :: "string \<Rightarrow> bool option" where
  "seen_param s = (if s = ''true'' then Some True else if s = ''false'' then Some False else None)"

definition page_options :: "int \<Rightarrow> int \<Rightarrow> query_options" where
  "page_options page size' = \<lparr>qo_Page = page, qo_PageSize = size', qo_Limit = 0, qo_Offset = 0, qo_TotalItems = 0, qo_All = False\<rparr>"

definition GetNotifications :: "context_value option \<Rightarrow> (string \<Rightarrow> string) \<Rightarrow> notification listing api" where
  "GetNotifications v query = request_user v (\<lambda>user.
     let p = atoi_value (query ''page''); page = (if p \<le> 0 then 1 else p);
         n = atoi_value (query ''page_size''); size' = (if n \<le> 0 \<or> 100 < n then 20 else n) in
     user_id user (\<lambda>u. do {
       r \<leftarrow> GetUserNotifications u \<lparr>nf_UserID = u, nf_EventType = None, nf_Seen = seen_param (query ''seen'')\<rparr> (page_options page size');
       (case r of
          Inl e \<Rightarrow> fails e
        | Inr (ns, k) \<Rightarrow> answers \<lparr>li_Data = ns, li_TotalItems = k, li_Page = page, li_PageSize = size'\<rparr>)
     }))"

definition MarkNotificationRead_handler :: "(string \<Rightarrow> string + uuid) \<Rightarrow> context_value option \<Rightarrow> string \<Rightarrow> string api" where
  "MarkNotificationRead_handler parse v i = request_user v (\<lambda>user. case parse i of
     Inl m \<Rightarrow> refuses 400 ''Invalid notification ID''
   | Inr i \<Rightarrow> user_id user (\<lambda>u. do {
       r \<leftarrow> MarkNotificationRead u i;
       (case r of Inl e \<Rightarrow> fails e | Inr _ \<Rightarrow> answers ''notification marked as read'')
     }))"

definition GetUnreadNotificationCount :: "context_value option \<Rightarrow> nat api" where
  "GetUnreadNotificationCount v = request_user v (\<lambda>user. user_id user (\<lambda>u. do {
     r \<leftarrow> GetUserNotifications u \<lparr>nf_UserID = u, nf_EventType = None, nf_Seen = Some False\<rparr> (page_options 1 1);
     (case r of Inl e \<Rightarrow> fails e | Inr (ns, k) \<Rightarrow> answers k)
   }))"

section \<open>The public catalogue\<close>

text \<open>\<open>PublicSubscriptionService\<close>: a product whose prices could not be loaded is listed without any.\<close>

fun public_prices :: "product list \<Rightarrow> (world, (product \<times> price list) list) state" where
  "public_prices [] = State_Monad.return []"
| "public_prices (pr # prs) = do {
     r \<leftarrow> Price_GetByProductID Pool (prod_ID pr);
     rest \<leftarrow> public_prices prs;
     State_Monad.return ((pr, case r of Inl _ \<Rightarrow> [] | Inr ps \<Rightarrow> ps) # rest)
   }"

definition Public_GetAvailableProducts :: "(product \<times> price list) list go" where
  "Public_GetAvailableProducts = do {
     r \<leftarrow> Product_GetActive Pool;
     (case r of
        Inl e \<Rightarrow> throw (wrap_err ''failed to get products'' e)
      | Inr prs \<Rightarrow> do { ps \<leftarrow> public_prices prs; ok ps })
   }"

record page_data =
  pd_Products :: "(product \<times> price list) list"
  pd_Premium :: "string list"
  pd_Currency :: string

definition GetSubscriptionPageData :: "page_data go" where
  "GetSubscriptionPageData = do {
     r \<leftarrow> Public_GetAvailableProducts;
     (case r of
        Inl e \<Rightarrow> throw (wrap_err ''failed to get products'' e)
      | Inr ps \<Rightarrow> ok \<lparr>pd_Products = ps,
          pd_Premium = [''Access to premium content'', ''HD quality downloads'', ''Priority support'', ''No advertisements''],
          pd_Currency = ''USD''\<rparr>)
   }"

definition GetProducts :: "(product \<times> price list) list api" where
  "GetProducts = do {
     r \<leftarrow> Public_GetAvailableProducts;
     (case r of Inl e \<Rightarrow> fails e | Inr ps \<Rightarrow> answers ps)
   }"

definition GetSubscribePageData :: "page_data api" where
  "GetSubscribePageData = do {
     r \<leftarrow> GetSubscriptionPageData;
     (case r of Inl e \<Rightarrow> fails e | Inr d \<Rightarrow> answers d)
   }"

section \<open>Counts\<close>

text \<open>\<open>BillingAnalyticsRepo\<close>: each method counts the subscriptions that satisfy its conditions.\<close>

definition count_subs :: "(subscription \<Rightarrow> bool) \<Rightarrow> nat go" where
  "count_subs P = db_query Pool (\<lambda>now t. Inr (length (filter P (t_subs t))))"

definition cancelled_in :: "time \<Rightarrow> time \<Rightarrow> string list \<Rightarrow> subscription \<Rightarrow> bool" where
  "cancelled_in from' to' types s \<longleftrightarrow>
     (case (sub_CancelledAt s, sub_CancelType s) of
        (Some c, Some ct) \<Rightarrow> from' \<le> c \<and> c < to' \<and> cancel_type_str ct \<in> set types
      | _ \<Rightarrow> False)"

definition CountActiveUsersWithoutAutoRenew :: "nat go" where
  "CountActiveUsersWithoutAutoRenew = count_subs (\<lambda>s. sub_Status s = StatusActive \<and> sub_CancelledAt s \<noteq> None)"

definition CountActiveUsersWithAutoRenew :: "nat go" where
  "CountActiveUsersWithAutoRenew = count_subs (\<lambda>s. sub_Status s = StatusActive \<and> sub_Processor s \<in> {ProcessorCCBill, ProcessorNMI})"

definition CountActiveUsersWithFailingRebill :: "nat go" where
  "CountActiveUsersWithFailingRebill = count_subs (\<lambda>s. sub_Status s = StatusPastDue)"

definition CountDailySignups :: "time \<Rightarrow> time \<Rightarrow> nat go" where
  "CountDailySignups from' to' = count_subs (\<lambda>s. from' \<le> sub_CreatedAt s \<and> sub_CreatedAt s < to')"

definition CountDailyExplicitCancellations :: "time \<Rightarrow> time \<Rightarrow> nat go" where
  "CountDailyExplicitCancellations from' to' = count_subs (cancelled_in from' to' [''user'', ''admin'', ''merchant''])"

definition CountDailyFailedRebillCancellations :: "time \<Rightarrow> time \<Rightarrow> nat go" where
  "CountDailyFailedRebillCancellations from' to' = count_subs (cancelled_in from' to' [''expired'', ''failed_payment''])"

definition CountActiveUsersWithoutAutoRenewByProcessor :: "string \<Rightarrow> nat go" where
  "CountActiveUsersWithoutAutoRenewByProcessor p =
     count_subs (\<lambda>s. sub_Status s = StatusActive \<and> sub_CancelledAt s \<noteq> None \<and> processor_str (sub_Processor s) = p)"

definition CountActiveUsersWithAutoRenewByProcessor :: "string \<Rightarrow> nat go" where
  "CountActiveUsersWithAutoRenewByProcessor p = count_subs (\<lambda>s. sub_Status s = StatusActive \<and> processor_str (sub_Processor s) = p)"

definition CountActiveUsersWithFailingRebillByProcessor :: "string \<Rightarrow> nat go" where
  "CountActiveUsersWithFailingRebillByProcessor p = count_subs (\<lambda>s. sub_Status s = StatusPastDue \<and> processor_str (sub_Processor s) = p)"

end
