(* ===== verification/User_Props.thy ===== *)
theory User_Props
  imports User_API Server_Props Samples Dunning
begin

text \<open>
  The properties of the handlers around a user: the listings show the user's own rows, provided the token has a
  subject, and premium is whoever has an active subscription or any active entitlement.
\<close>

section \<open>Results in any world\<close>

text \<open>\<open>always m P\<close>: in every world the result of \<open>m\<close> satisfies \<open>P\<close>.\<close>

definition always :: "(world, 'a) state \<Rightarrow> ('a \<Rightarrow> bool) \<Rightarrow> bool" where
  "always m P \<longleftrightarrow> (\<forall>w. wp m (\<lambda>r _. P r) w)"

lemma always_bind: "always m P \<Longrightarrow> (\<And>x. P x \<Longrightarrow> always (f x) Q) \<Longrightarrow> always (State_Monad.bind m f) Q"
  unfolding always_def wp_bind by (blast intro: wp_mono)

lemma always_any: "always m (\<lambda>_. True)"
  by (auto simp: always_def intro!: wpI)

lemma always_bind_any: "(\<And>x. always (f x) Q) \<Longrightarrow> always (State_Monad.bind m f) Q"
  by (rule always_bind [OF always_any])

lemma always_simps [simp]:
  "always (State_Monad.return x) P = P x" "always (ok x) R = R (Inr x)" "always (throw e) R = R (Inl e)"
  by (simp_all add: always_def wp_simps)

lemma always_query: "(\<And>now t. P (f now t)) \<Longrightarrow> (\<And>e. P (Inl e)) \<Longrightarrow> always (db_query h f) P"
  by (auto simp: always_def wp_simps split: option.split)

lemma always_map_m: "(\<And>x. x \<in> set xs \<Longrightarrow> always (f x) P) \<Longrightarrow> always (map_m f xs) (\<lambda>ys. \<forall>y \<in> set ys. P y)"
proof (induction xs)
  case (Cons x xs)
  then show ?case
    by (auto intro!: always_bind [of "f x" P] always_bind [of "map_m f xs" "\<lambda>ys. \<forall>y \<in> set ys. P y"])
qed simp

section \<open>Whose rows a listing shows\<close>

lemma set_slice: "set (slice l k xs) \<subseteq> set xs"
  using set_drop_subset [of "nat k" xs] set_take_subset [of "nat l" "drop (nat k) xs"] by (auto simp: slice_def Let_def)

definition listed :: "('a \<Rightarrow> bool) \<Rightarrow> ('a list \<times> nat) res \<Rightarrow> bool" where
  "listed P r \<longleftrightarrow> (\<forall>xs n. r = Inr (xs, n) \<longrightarrow> (\<forall>x \<in> set xs. P x))"

lemma listed_simps [simp]: "listed P (Inl e)" "listed P (Inr (xs, n)) = (\<forall>x \<in> set xs. P x)"
  by (simp_all add: listed_def)

lemma always_listing:
  assumes "\<And>now t xs. g now t = Inr xs \<Longrightarrow> \<forall>x \<in> set xs. P x"
  shows "always (do {
     c \<leftarrow> db_query h f;
     (case c of Inl e \<Rightarrow> throw e | Inr n \<Rightarrow> do {
        r \<leftarrow> db_query h' g;
        (case r of Inl e \<Rightarrow> throw e | Inr xs \<Rightarrow> ok (xs, n)) }) }) (listed P)"
proof -
  have "always (db_query h' g) (\<lambda>r. \<forall>xs. r = Inr xs \<longrightarrow> (\<forall>x \<in> set xs. P x))"
    using assms by (intro always_query) auto
  then show ?thesis
    by (intro always_bind_any) (auto split: sum.split intro!: always_bind)
qed

lemma listings:
  "always (GetSubscribers f o') (listed (applySubscriptionFilters f))"
  "always (PayStore_GetPayments h pf o') (listed (payment_matches pf))"
  "always (NQRepo_GetNotifications h nf o') (listed (nq_matches nf))"
  unfolding GetSubscribers_def SubRepo_GetSubscribers_def PayStore_GetPayments_def NQRepo_GetNotifications_def page_rows_def subs_desc_def
  by (rule always_listing; use set_slice in fastforce)+

text \<open>The user of a subscription in a listing.\<close>

definition sub_owner :: "user_subscription \<Rightarrow> string" where
  "sub_owner x = (case us_Subscription x of Some s \<Rightarrow> sub_UserID s | None \<Rightarrow> '''')"

lemma always_enrich: "always (user_enrich s a) (\<lambda>x. sub_owner x = sub_UserID s)"
  by (auto simp: user_enrich_def sub_owner_def intro!: always_bind_any)

definition shows_only :: "('a \<Rightarrow> bool) \<Rightarrow> 'a listing reply res \<Rightarrow> bool" where
  "shows_only P r \<longleftrightarrow> (\<forall>l. r = Inr (SuccessJSON l) \<longrightarrow> (\<forall>x \<in> set (li_Data l). P x))"

lemma shows_simps [simp]: "shows_only P (Inl e)" "shows_only P (Inr (ErrorJSON c m))"
    "shows_only P (Inr (SuccessJSON l)) = (\<forall>x \<in> set (li_Data l). P x)"
  by (simp_all add: shows_only_def)

lemma always_answers [simp]: "always (answers x) R = R (Inr (SuccessJSON x))" "always (refuses c m) R = R (Inr (ErrorJSON c m))"
  by (simp_all add: answers_def refuses_def)

lemma always_fails: "R (Inl e) \<Longrightarrow> R (Inr (ErrorJSON 500 (err_text e))) \<Longrightarrow> always (fails e) R"
  by (simp add: fails_def)

lemma always_mono: "always m P \<Longrightarrow> (\<And>x. P x \<Longrightarrow> Q x) \<Longrightarrow> always m Q"
  unfolding always_def by (blast intro: wp_mono)

lemma history_own:
  assumes "u \<noteq> ''''" "sf_UserID f = ''''"
  shows "always (GetUserSubscriptionHistory u f o') (listed (\<lambda>x. sub_owner x = u))"
proof -
  have one: "always (map_m (\<lambda>s. user_enrich s None) ss) (\<lambda>xs. \<forall>x \<in> set xs. sub_owner x = u)"
    if "\<forall>s \<in> set ss. applySubscriptionFilters (f\<lparr>sf_UserID := u\<rparr>) s" for ss
    using that assms(1)
    by (intro always_map_m always_mono [OF always_enrich]) (auto simp: applySubscriptionFilters_def)
  show ?thesis
    unfolding GetUserSubscriptionHistory_def
    using assms(2) by (auto split: sum.split intro!: always_bind [OF listings(1)] always_bind [OF one])
qed

lemma payments_own:
  assumes "u \<noteq> ''''" "pf_UserID f = ''''"
  shows "always (GetUserPayments u f o') (listed (\<lambda>p. pay_UserID p = u))"
  using assms unfolding GetUserPayments_def GetAllPurchases_def
  by (auto split: sum.split simp: payment_matches_def intro!: always_bind [OF listings(2)])

lemma notifications_own:
  assumes "u \<noteq> ''''" "nf_UserID f = u"
  shows "always (GetUserNotifications u f o') (listed (\<lambda>n. nq_UserID n = u))"
  using assms unfolding GetUserNotifications_def GetAllNotifications_def
  by (auto split: sum.split simp: nq_matches_def intro!: always_bind [OF listings(3)])

text \<open>
  C5. The subscriptions, payments and notifications that a handler lists, whatever the query asks for and whichever
  statements fail, are those of the user of the request, provided that user's identifier is not empty.
\<close>

theorem listings_show_own_rows:
  assumes "uc_User c = Some u" "ui_ID u \<noteq> ''''"
  shows "always (GetSubscriptionHistory (Some c) query) (shows_only (\<lambda>x. sub_owner x = ui_ID u)) \<and>
    always (GetUserPayments_handler (Some c) query) (shows_only (\<lambda>p. pay_UserID p = ui_ID u)) \<and>
    always (GetNotifications (Some (CtxUserContext (Some c))) query) (shows_only (\<lambda>n. nq_UserID n = ui_ID u))"
proof (intro conjI)
  show "always (GetSubscriptionHistory (Some c) query) (shows_only (\<lambda>x. sub_owner x = ui_ID u))"
    using assms by (auto simp: GetSubscriptionHistory_def context_user_def split: sum.split intro!: always_bind [OF history_own] always_fails)
  show "always (GetUserPayments_handler (Some c) query) (shows_only (\<lambda>p. pay_UserID p = ui_ID u))"
    using assms by (auto simp: GetUserPayments_handler_def context_user_def any_payment_def split: sum.split
      intro!: always_bind [OF payments_own] always_fails)
  show "always (GetNotifications (Some (CtxUserContext (Some c))) query) (shows_only (\<lambda>n. nq_UserID n = ui_ID u))"
    using assms by (auto simp: GetNotifications_def request_user_def GetUser_def GetUserContext_def user_id_def Let_def split: sum.split
      intro!: always_bind [OF notifications_own] always_fails)
qed

text \<open>The handlers with the three listings, as the witness applies them.\<close>

definition user_of :: "string \<Rightarrow> identity" where
  "user_of i = \<lparr>ui_ID = i, ui_Email = None, ui_Username = '''', ui_Roles = []\<rparr>"

definition context_of :: "string \<Rightarrow> user_context" where
  "context_of i = \<lparr>uc_User = Some (user_of i), uc_SessionID = '''', uc_ExpiresAt = 0\<rparr>"

theorem listings_show_own_rows_witness:
  "always (GetSubscriptionHistory (Some (context_of ''u1'')) (\<lambda>_. '''')) (shows_only (\<lambda>x. sub_owner x = ''u1''))"
  using listings_show_own_rows [of "context_of ''u1''" "user_of ''u1''"] by (simp add: context_of_def user_of_def)

section \<open>A token without a subject\<close>

lemma wp_user_enrich: "wp (user_enrich s a) (\<lambda>x _. us_Subscription x = Some s) w"
proof -
  have "always (user_enrich s a) (\<lambda>x. us_Subscription x = Some s)"
    by (auto simp: user_enrich_def intro!: always_bind_any)
  then show ?thesis by (simp add: always_def)
qed

lemma wp_enrich_all: "wp (map_m (\<lambda>s. user_enrich s a) ss) (\<lambda>xs _. map us_Subscription xs = map Some ss) w"
proof (induction ss arbitrary: w)
  case (Cons s ss)
  show ?case
    unfolding map_m.simps wp_bind
    by (rule wp_mono [OF wp_user_enrich], rule wp_mono [OF Cons]) (simp add: wp_simps)
qed (simp add: wp_simps)

lemma wp_all_subscribers:
  assumes "healthy w"
  shows "wp (GetSubscribers f o') (\<lambda>r _. r = Inr (slice (qo_Limit o') (qo_Offset o') (subs_desc (applySubscriptionFilters f) (w_db w)),
     length (filter (applySubscriptionFilters f) (t_subs (w_db w))))) w"
  using assms by (simp add: GetSubscribers_def SubRepo_GetSubscribers_def wp_simps view_def)

text \<open>
  C28. A verified token whose claims have no subject makes its holder the user with the empty identifier, and the
  history of that user is everybody's: when the statements succeed, the handler answers with the requested page of the
  subscriptions of all users.
\<close>

theorem token_without_subject_sees_all:
  assumes "map_of m ''sub'' = None" "healthy w"
    and "run_state (GetSubscriptionHistory (buildUserContext (BuildClaimsFromMap (Some m))) (\<lambda>k. if k = ''status'' then '''' else query k)) w
      = (r, w')"
  shows "\<exists>l. r = Inr (SuccessJSON l) \<and> li_TotalItems l = length (t_subs (w_db w)) \<and>
    map us_Subscription (li_Data l) =
      map Some (slice (page_limit (query ''limit'')) (page_offset (query ''offset'')) (subs_desc (\<lambda>_. True) (w_db w)))"
proof -
  let ?f = "\<lparr>sf_UserID = '''', sf_Status = '''', sf_PriceID = 0, sf_Processor = ''''\<rparr>"
  have all: "applySubscriptionFilters ?f = (\<lambda>_. True)" by (simp add: applySubscriptionFilters_def fun_eq_iff)
  have empty: "stringVal (map_of m ''sub'') = ''''" using assms(1) by (simp add: stringVal_def)
  note page = wp_all_subscribers [OF assms(2), of ?f, unfolded all]
  have "wp (GetSubscriptionHistory (buildUserContext (BuildClaimsFromMap (Some m))) (\<lambda>k. if k = ''status'' then '''' else query k))
    (\<lambda>r _. \<exists>l. r = Inr (SuccessJSON l) \<and> li_TotalItems l = length (t_subs (w_db w)) \<and>
      map us_Subscription (li_Data l) =
        map Some (slice (page_limit (query ''limit'')) (page_offset (query ''offset'')) (subs_desc (\<lambda>_. True) (w_db w)))) w"
    by (simp add: GetSubscriptionHistory_def buildUserContext_def BuildClaimsFromMap_def Let_def context_user_def empty
        GetUserSubscriptionHistory_def wp_simps history_options_def)
      (rule wp_mono [OF page], auto simp: wp_simps answers_def intro!: wp_mono [OF wp_enrich_all])
  then show ?thesis using assms(3) by (rule wp_run)
qed

theorem token_without_subject_sees_all_witness:
  "\<exists>l w'. run_state (GetSubscriptionHistory (buildUserContext (BuildClaimsFromMap (Some []))) (\<lambda>_. '''')) sample_world
     = (Inr (SuccessJSON l), w') \<and> li_TotalItems l = length (t_subs (w_db sample_world))"
proof -
  obtain r w' where r: "run_state (GetSubscriptionHistory (buildUserContext (BuildClaimsFromMap (Some [])))
      (\<lambda>k. if k = ''status'' then '''' else (\<lambda>_. '''') k)) sample_world = (r, w')" by fastforce
  have "healthy sample_world" using good_sample by (simp add: good_def)
  from token_without_subject_sees_all [OF _ this r] r show ?thesis by auto
qed

section \<open>The administration\<close>

text \<open>
  No guard of the administration's routes makes a user, so the two handlers of a user's subscription that are
  registered there panic for every request that reaches them (once its body binds), and change nothing.
\<close>

theorem admin_cancellation_panics:
  assumes "((verb, path), gs) \<in> set (snd setupHandlers)" "run_chain e gs q None = Next c"
  shows "run_state (CancelSubscription_handler clients c (Inr feedback)) w = (Inl nil_pointer, w) \<and>
    run_state (GetSubscription ents c) w = (Inl nil_pointer, w)"
proof -
  from admin_routes assms(1) have "gs = [Keyed]" by (fastforce simp: list_all_iff)
  with assms(2) have "c = None" by (auto simp: run_guard_def InternalOnly_def Let_def split: if_splits verdict.splits)
  then show ?thesis
    by (simp add: CancelSubscription_handler_def GetSubscription_def bound_body_def context_user_def throw_def)
qed

theorem admin_cancellation_panics_witness:
  "((''POST'', ''/v1/subscriptions/:id/cancel''), [Keyed]) \<in> set (snd setupHandlers) \<and>
   run_state (CancelSubscription_handler None None (Inr ''bye'')) sample_world = (Inl nil_pointer, sample_world)"
proof -
  have r: "((''POST'', ''/v1/subscriptions/:id/cancel''), [Keyed]) \<in> set (snd setupHandlers)" by code_simp
  have n: "run_chain sample_server [Keyed] sample_request None = Next None" by code_simp
  show ?thesis using admin_cancellation_panics [OF r n] r by blast
qed

section \<open>Access\<close>

text \<open>
  C29. When the statements succeed, the access status of a user says premium exactly if the user has a subscription
  that is active and whose period has not ended, or any active entitlement with a name, whatever the name; and
  nothing is changed.
\<close>

theorem premium_is_any_access:
  assumes "healthy w" "GetUser v = Inr (Some u)" "run_state (GetAccessStatus (Some (True, True)) v) w = (r, w')"
  shows "w_db w' = w_db w \<and> (\<exists>a. r = Inr (SuccessJSON a) \<and> (as_IsPremium a \<longleftrightarrow>
    active_sub_of (clock_now w) (w_db w) (ui_ID u) \<noteq> None \<or>
    (\<exists>e \<in> set (active_ents (w_db w) (ui_ID u) (clock_now (tick w))). ent_Entitlement e \<noteq> '''')))"
proof -
  have "skipped [] e \<longleftrightarrow> ent_Entitlement e = ''''" for e by (auto simp: skipped_def split: option.split)
  then have none: "filter (\<lambda>e. \<not> skipped [] e) (sort_key ent_StartAt es) = [] \<longleftrightarrow> (\<forall>e \<in> set es. ent_Entitlement e = '''')" for es
    by (simp add: filter_empty_conv)
  have "wp (GetAccessStatus (Some (True, True)) v) (\<lambda>r w'. w_db w' = w_db w \<and> (\<exists>a. r = Inr (SuccessJSON a) \<and> (as_IsPremium a \<longleftrightarrow>
    active_sub_of (clock_now w) (w_db w) (ui_ID u) \<noteq> None \<or>
    (\<exists>e \<in> set (active_ents (w_db w) (ui_ID u) (clock_now (tick w))). ent_Entitlement e \<noteq> '''')))) w"
    using assms(1,2)
    by (cases "active_sub_of (clock_now w) (w_db w) (ui_ID u)")
      (auto simp: GetAccessStatus_def request_user_def GetUserAccessStatus_def SubRepo_GetActiveSubscription_def
        entitlementAccessGrants_def EntRepo_ListActiveRecords_def wp_simps view_def scan_row_def answers_def none Let_def)
  then show ?thesis using assms(3) by (rule wp_run)
qed

definition downloads_world :: world where
  "downloads_world = sample_world\<lparr>w_db := sample_tables\<lparr>t_subs := [], t_ents := [sample_ent\<lparr>ent_Entitlement := ''downloads''\<rparr>]\<rparr>\<rparr>"

theorem premium_is_any_access_witness:
  "\<exists>a w'. run_state (GetAccessStatus (Some (True, True)) (Some (CtxUserContext (Some (context_of ''alice''))))) downloads_world
     = (Inr (SuccessJSON a), w') \<and> as_IsPremium a"
proof -
  have h: "healthy downloads_world" by (simp add: healthy_def downloads_world_def sample_world_def sample_env_def)
  have u: "GetUser (Some (CtxUserContext (Some (context_of ''alice'')))) = Inr (Some (user_of ''alice''))"
    by (simp add: GetUser_def GetUserContext_def context_of_def)
  obtain r w' where r: "run_state (GetAccessStatus (Some (True, True)) (Some (CtxUserContext (Some (context_of ''alice''))))) downloads_world = (r, w')"
    by fastforce
  have "set (active_ents (w_db downloads_world) ''alice'' (clock_now (tick downloads_world))) = {sample_ent\<lparr>ent_Entitlement := ''downloads''\<rparr>}"
    by (auto simp: active_ents_def downloads_world_def sample_world_def sample_tables_def sample_ent_def covers_def clock_now_def sample_env_def)
  then show ?thesis using premium_is_any_access [OF h u r] r by (auto simp: user_of_def)
qed

section \<open>Lookups by identifier\<close>

text \<open>What \<open>GetByID\<close> of the subscriptions is asked for first ends there.\<close>

lemma admin_lookups_refused:
  "wp (UpdateSubscription i updates) (unmoved w) w" "wp (Admin_CancelSubscription ents i reason) (unmoved w) w"
  "wp (Admin_ExtendSubscription i days reason) (unmoved w) w" "wp (GetSubscriptionByID i) (unmoved w) w"
  "wp (DunningAttemptWorker_Work (Some cs) i) (unmoved w) w"
  unfolding UpdateSubscription_def Admin_CancelSubscription_def merchant_cancel_def Admin_ExtendSubscription_def forget_result_def
    change_active_def GetSubscriptionByID_def DunningAttemptWorker_Work_def
  by (simp_all add: wp_simps)

lemma manage_lookups_refused:
  "parse sid = Inr i \<Longrightarrow> st_SubscriptionID p = sid \<Longrightarrow> wp (UpdateStatus parse p) (unmoved w) w"
  "parse sid = Inr i \<Longrightarrow> wp (Manage_ExtendSubscription parse sid d) (unmoved w) w"
  by (simp_all add: UpdateStatus_def Manage_ExtendSubscription_def must_parse_def forget_result_def change_active_def wp_simps)

text \<open>
  C37. Nothing that starts from the identifier of a subscription is ever done, whatever the tables hold and whichever
  statement fails: cancelling or expiring its membership, the administration's update, cancellation and
  extension, the two operations of the management and the dunning job return an error and leave the tables, the
  mail, the reported events and the forms posted to the gateway as they were; and it is never shown.
\<close>

theorem lookups_by_id_refused:
  assumes "parse sid = Inr i" "st_SubscriptionID st = sid"
    and "m \<in> {CancelMembership mail (p\<lparr>kp_SubscriptionID := Some i\<rparr>), ExpireMembership mail i, UpdateSubscription i updates,
      Admin_CancelSubscription ents i reason, Admin_ExtendSubscription i days reason, UpdateStatus parse st,
      Manage_ExtendSubscription parse sid d, DunningAttemptWorker_Work (Some cs) i}"
    and "run_state m w = (r, w')"
  shows "(\<exists>e. r = Inl e) \<and> w_db w' = w_db w \<and> w_outbox w' = w_outbox w \<and> w_log w' = w_log w \<and> w_sent w' = w_sent w \<and>
    (\<exists>e w''. run_state (GetSubscriptionByID i) w = (Inl e, w''))"
proof -
  have "wp m (unmoved w) w"
    using assms(3) admin_lookups_refused manage_lookups_refused[of parse sid i] assms(1,2) expire_refused
      cancel_by_id_refused[of "p\<lparr>kp_SubscriptionID := Some i\<rparr>" i] by auto
  then have "unmoved w r w'"
    using assms(4) by (rule run_refused)
  moreover have "\<exists>e w''. run_state (GetSubscriptionByID i) w = (Inl e, w'')"
    using wp_run[OF admin_lookups_refused(4)[of i w] surjective_pairing] by (auto simp: unmoved_def prod_eq_iff)
  ultimately show ?thesis
    by (auto simp: unmoved_def untouched_def)
qed

theorem lookups_by_id_refused_witness:
  "\<exists>e w'. run_state (ExpireMembership True 1) sample_world = (Inl e, w') \<and> w_db w' = w_db sample_world \<and>
     sub_by_id (w_db w') 1 = Some sample_sub"
proof -
  obtain r w' where r: "run_state (ExpireMembership True 1) sample_world = (r, w')"
    by fastforce
  let ?st = "\<lparr>st_SubscriptionID = ''1'', st_Status = StatusActive, st_CancelFeedback = '''', st_CancelType = None\<rparr>"
  have "(\<exists>e. r = Inl e) \<and> w_db w' = w_db sample_world"
    using lookups_by_id_refused[where parse = "\<lambda>_. Inr 1" and sid = "''1''" and st = ?st and m = "ExpireMembership True 1" and mail = True,
        OF refl _ _ r] by simp
  with r show ?thesis
    by auto
qed

end
