(* ===== verification/Replay.thy ===== *)
theory Replay
  imports Form_Encoding Webhook_Dispatcher Web_Request
begin

text \<open>
  \<open>internal/manager/web/webhook/replay_service.go\<close>: saved webhook events are posted to the endpoint again, or only checked
  (a dry run). The file system, the HTTP client (\<open>'s\<close> is the state of the server that it talks to), the check of the
  target's address by \<open>url.JoinPath\<close> and \<open>fmt\<close>'s printing of a JSON value that is no string are parameters. The pauses and
  what is printed are left out.
\<close>

section \<open>The service\<close>

record replay_service =
  rs_TargetEndpoint :: string
  rs_Concurrent :: int
  rs_DryRun :: bool

record replay_result =
  rr_EventFile :: string
  rr_Processor :: string
  rr_EventType :: string
  rr_Success :: bool
  rr_StatusCode :: nat
  rr_Error :: string

text \<open>
  The directory of the saved events (or why there is none), what exists, the entries of a directory (name and whether
  it is a directory) and the contents of a file.
\<close>

record files =
  fs_Webhooks :: "string res"
  fs_Exists :: "string \<Rightarrow> bool"
  fs_Dir :: "string \<Rightarrow> string + (string \<times> bool) list"
  fs_Read :: "string \<Rightarrow> string + string"

text \<open>
  A request: the endpoint, the path below it, the query, the content type and the body. \<open>url.JoinPath\<close> keeps the query of
  the endpoint: what follows its first question mark, less a fragment.
\<close>

definition target_query :: "string \<Rightarrow> string" where
  "target_query target = snd (cut (CHR ''?'') (fst (cut (CHR ''#'') target)))"

record replay_request =
  rp_Target :: string
  rp_Path :: "string list"
  rp_Query :: string
  rp_ContentType :: string
  rp_Content :: string

datatype replay_answer = NoAnswer string | Answer nat string

text \<open>
  \<open>re_Schedule n\<close> is the order in which \<open>n\<close> workers send the events of a list; one worker sends them in the list's
  order.
\<close>

record 's replay_env =
  re_Files :: files
  re_Schedule :: "int \<Rightarrow> string list \<Rightarrow> string list"
  re_Target :: "string \<Rightarrow> string option"
  re_Print :: "json \<Rightarrow> string"
  re_Post :: "replay_request \<Rightarrow> ('s, replay_answer) state"

definition path_join :: "string \<Rightarrow> string \<Rightarrow> string" where
  "path_join d f = d @ ''/'' @ f"

definition has_suffix :: "string \<Rightarrow> string \<Rightarrow> bool" where
  "has_suffix s suf \<longleftrightarrow> has_prefix (rev s) (rev suf)"

definition loadWebhookEvents :: "files \<Rightarrow> string \<Rightarrow> string \<Rightarrow> string list res" where
  "loadWebhookEvents fs processor filter' = (case fs_Webhooks fs of
     Inl e \<Rightarrow> Inl e
   | Inr base \<Rightarrow> (let dir = path_join base processor in
       if \<not> fs_Exists fs dir then Inl (ErrNew (''processor directory not found: '' @ dir))
       else if filter' = ''all'' then (case fs_Dir fs dir of
           Inl m \<Rightarrow> Inl (ErrWrap (''failed to read processor directory '' @ dir) (ErrNew m))
         | Inr entries \<Rightarrow> (case map (\<lambda>(n, d). path_join dir n) (filter (\<lambda>(n, d). \<not> d \<and> has_suffix n ''.json'') entries) of
             [] \<Rightarrow> Inl (ErrNew (''no webhook event files found in '' @ dir))
           | es \<Rightarrow> Inr es))
       else if \<not> fs_Exists fs (path_join dir filter') then Inl (ErrNew (''event file not found: '' @ path_join dir filter'))
       else Inr [path_join dir filter']))"

section \<open>One event\<close>

text \<open>The last value of a key of an object.\<close>

definition member :: "(string \<times> json) list \<Rightarrow> string \<Rightarrow> json option" where
  "member kvs k = map_of (rev kvs) k"

definition object_event_type :: "json \<Rightarrow> string" where
  "object_event_type j = (case j of
     JObj kvs \<Rightarrow> (case member kvs ''event_type'' of Some (JStr s) \<Rightarrow> s | _ \<Rightarrow> '''')
   | _ \<Rightarrow> '''')"

definition replay_event_type :: "string \<Rightarrow> json \<Rightarrow> string" where
  "replay_event_type processor j = (if processor \<noteq> ''nmi'' then ''''
     else (case j of JArr (x # xs) \<Rightarrow> object_event_type x | _ \<Rightarrow> object_event_type j))"

definition new_result :: "string \<Rightarrow> string \<Rightarrow> replay_result" where
  "new_result processor file = \<lparr>rr_EventFile = after_last (CHR ''/'') file, rr_Processor = processor, rr_EventType = '''',
     rr_Success = False, rr_StatusCode = 0, rr_Error = ''''\<rparr>"

text \<open>The processor of a result is the directory of its file.\<close>

definition file_processor :: "string \<Rightarrow> string" where
  "file_processor file = after_last (CHR ''/'') (before_last (CHR ''/'') file)"

definition read_event :: "files \<Rightarrow> string \<Rightarrow> string + (string \<times> json)" where
  "read_event fs file = (case fs_Read fs file of
     Inl m \<Rightarrow> Inl (''Failed to read file: '' @ m)
   | Inr b \<Rightarrow> (case json_parse b of None \<Rightarrow> Inl (''Invalid JSON: '' @ err_text json_err) | Some j \<Rightarrow> Inr (b, j)))"

definition validateWebhookPayload :: "files \<Rightarrow> string \<Rightarrow> replay_result" where
  "validateWebhookPayload fs file = (let r = new_result (file_processor file) file in
     case read_event fs file of
       Inl m \<Rightarrow> r\<lparr>rr_Error := m\<rparr>
     | Inr (b, j) \<Rightarrow> r\<lparr>rr_EventType := replay_event_type (rr_Processor r) j, rr_Success := True\<rparr>)"

definition webhook_path :: "string \<Rightarrow> string list" where
  "webhook_path processor = [''api'', ''v1'', ''subscriptions'', ''webhook'', processor] @ (if processor = ''nmi'' then [''mobius''] else [])"

definition form_text :: "(json \<Rightarrow> string) \<Rightarrow> json \<Rightarrow> string" where
  "form_text print' j = (case j of JStr s \<Rightarrow> s | JBool b \<Rightarrow> if b then ''true'' else ''false'' | JNull \<Rightarrow> ''<nil>'' | _ \<Rightarrow> print' j)"

definition replay_body :: "(json \<Rightarrow> string) \<Rightarrow> string \<Rightarrow> string \<Rightarrow> json \<Rightarrow> string \<times> string" where
  "replay_body print' processor b j = (if processor = ''ccbill''
     then (''application/x-www-form-urlencoded'', encode_values (case j of
         JObj kvs \<Rightarrow> map (\<lambda>k. (k, form_text print' (the (member kvs k)))) (remdups (map fst kvs)) | _ \<Rightarrow> []))
     else (''application/json'', b))"

definition answered :: "replay_result \<Rightarrow> replay_answer \<Rightarrow> replay_result" where
  "answered r a = (case a of
     NoAnswer m \<Rightarrow> r\<lparr>rr_Error := ''Request failed: '' @ m\<rparr>
   | Answer status text \<Rightarrow>
       if 200 \<le> status \<and> status < 300 then r\<lparr>rr_StatusCode := status, rr_Success := True\<rparr>
       else r\<lparr>rr_StatusCode := status, rr_Error := ''HTTP '' @ show_nat status @ '': '' @ text\<rparr>)"

definition replayWebhookEvent :: "'s replay_env \<Rightarrow> replay_service \<Rightarrow> string \<Rightarrow> ('s, replay_result) state" where
  "replayWebhookEvent env rs file = (let r = new_result (file_processor file) file in
     case read_event (re_Files env) file of
       Inl m \<Rightarrow> State_Monad.return (r\<lparr>rr_Error := m\<rparr>)
     | Inr (b, j) \<Rightarrow> (let r' = r\<lparr>rr_EventType := replay_event_type (rr_Processor r) j\<rparr> in
         case re_Target env (rs_TargetEndpoint rs) of
           Some m \<Rightarrow> State_Monad.return (r'\<lparr>rr_Error := ''Failed to build webhook URL: '' @ m\<rparr>)
         | None \<Rightarrow> do {
             a \<leftarrow> re_Post env \<lparr>rp_Target = rs_TargetEndpoint rs, rp_Path = webhook_path (rr_Processor r),
               rp_Query = target_query (rs_TargetEndpoint rs),
               rp_ContentType = fst (replay_body (re_Print env) (rr_Processor r) b j),
               rp_Content = snd (replay_body (re_Print env) (rr_Processor r) b j)\<rparr>;
             State_Monad.return (answered r' a)
           }))"

section \<open>All events\<close>

definition replay_one :: "'s replay_env \<Rightarrow> replay_service \<Rightarrow> string \<Rightarrow> ('s, replay_result) state" where
  "replay_one env rs file =
     (if rs_DryRun rs then State_Monad.return (validateWebhookPayload (re_Files env) file) else replayWebhookEvent env rs file)"

fun replay_all :: "'s replay_env \<Rightarrow> replay_service \<Rightarrow> string list \<Rightarrow> ('s, replay_result list) state" where
  "replay_all env rs [] = State_Monad.return []"
| "replay_all env rs (f # fs) = do { r \<leftarrow> replay_one env rs f; rest \<leftarrow> replay_all env rs fs; State_Monad.return (r # rest) }"

definition workers :: "replay_service \<Rightarrow> string list \<Rightarrow> int" where
  "workers rs fs = min (if rs_Concurrent rs \<le> 0 then 1 else rs_Concurrent rs) (int (length fs))"

text \<open>The numbers of successes and failures.\<close>

definition processWebhookEvents :: "'s replay_env \<Rightarrow> replay_service \<Rightarrow> string list \<Rightarrow> ('s, nat \<times> nat) state" where
  "processWebhookEvents env rs fs = (if fs = [] then State_Monad.return (0, 0) else do {
     rsl \<leftarrow> replay_all env rs (re_Schedule env (workers rs fs) fs);
     State_Monad.return (length (filter rr_Success rsl), length (filter (\<lambda>r. \<not> rr_Success r) rsl))
   })"

definition replay_loaded :: "string \<Rightarrow> string \<Rightarrow> 's replay_env \<Rightarrow> replay_service \<Rightarrow> string \<Rightarrow> ('s, (nat \<times> nat) res) state" where
  "replay_loaded what processor env rs filter' = (case loadWebhookEvents (re_Files env) processor filter' of
     Inl e \<Rightarrow> State_Monad.return (Inl (wrap_err (''failed to load '' @ what @ '' webhook events'') e))
   | Inr fs \<Rightarrow> do { n \<leftarrow> processWebhookEvents env rs fs; State_Monad.return (Inr n) })"

definition ReplayCCBillWebhooks :: "'s replay_env \<Rightarrow> replay_service \<Rightarrow> string \<Rightarrow> ('s, (nat \<times> nat) res) state" where
  "ReplayCCBillWebhooks = replay_loaded ''CCBill'' ''ccbill''"

definition ReplayNMIWebhooks :: "'s replay_env \<Rightarrow> replay_service \<Rightarrow> string \<Rightarrow> ('s, (nat \<times> nat) res) state" where
  "ReplayNMIWebhooks = replay_loaded ''NMI'' ''nmi''"

definition replay_processor :: "string \<Rightarrow> 's replay_env \<Rightarrow> replay_service \<Rightarrow> string \<Rightarrow> string \<Rightarrow> ('s, unit res) state" where
  "replay_processor what env rs processor file =
     (if processor \<notin> {''ccbill'', ''nmi''} then
        State_Monad.return (Inl (ErrNew (''invalid processor '' @ quoted processor @ ''. Must be: ccbill or nmi'')))
      else do {
        r \<leftarrow> (if processor = ''ccbill'' then ReplayCCBillWebhooks else ReplayNMIWebhooks) env rs file;
        State_Monad.return (case r of
            Inl e \<Rightarrow> Inl e
          | Inr (_, failures) \<Rightarrow>
              if failures > 0 then Inl (ErrNew (''webhook '' @ what @ '' failed for '' @ processor @ ''/'' @ file)) else Inr ())
      })"

definition ReplayEvent :: "'s replay_env \<Rightarrow> string \<Rightarrow> string \<Rightarrow> string \<Rightarrow> ('s, unit res) state" where
  "ReplayEvent env processor file target =
     replay_processor ''replay'' env \<lparr>rs_TargetEndpoint = target, rs_Concurrent = 1, rs_DryRun = False\<rparr> processor file"

definition ReplayAllEvents :: "'s replay_env \<Rightarrow> string \<Rightarrow> string \<Rightarrow> ('s, unit res) state" where
  "ReplayAllEvents env processor target = ReplayEvent env processor ''all'' target"

definition ValidateEvent :: "'s replay_env \<Rightarrow> string \<Rightarrow> string \<Rightarrow> ('s, unit res) state" where
  "ValidateEvent env processor file =
     replay_processor ''validation'' env \<lparr>rs_TargetEndpoint = '''', rs_Concurrent = 0, rs_DryRun = True\<rparr> processor file"

definition ValidateAllEvents :: "'s replay_env \<Rightarrow> string \<Rightarrow> ('s, unit res) state" where
  "ValidateAllEvents env processor = ValidateEvent env processor ''all''"

section \<open>Against this server\<close>

text \<open>
  \<open>c.Query\<close>: the first value of a key among the pairs of the query that are well formed, or nothing.
\<close>

definition query_value :: "string \<Rightarrow> string \<Rightarrow> string" where
  "query_value raw k =
     (case map_of (List.map_filter query_pair (filter (\<lambda>p. p \<noteq> '''') (split_on (CHR ''&'') [] raw))) k of
        Some v \<Rightarrow> v | None \<Rightarrow> '''')"

text \<open>
  The server behind a proxy that removes what comes before \<open>/v1\<close> (\<open>registerPublicRoutes\<close> has its routes below \<open>/v1\<close>, the
  replay posts below \<open>/api/v1\<close>): the two routes of the webhooks hand the request to \<open>Webhook\<close>, another path is not
  found. \<open>q\<close> holds what the connection adds to the request. A panic is answered by \<open>gin.Recovery\<close>.
\<close>

definition to_answer :: "response res \<Rightarrow> replay_answer" where
  "to_answer r = (case r of Inr (status, msg) \<Rightarrow> Answer status msg | Inl _ \<Rightarrow> Answer 500 '''')"

definition own_server :: "runtime \<Rightarrow> http_request \<Rightarrow> replay_request \<Rightarrow> (world, replay_answer) state" where
  "own_server rt q r =
     (if take 4 (rp_Path r) \<noteq> [''api'', ''v1'', ''subscriptions'', ''webhook''] then State_Monad.return (Answer 404 ''404 page not found'')
      else (case drop 4 (rp_Path r) of
          [processor] \<Rightarrow> do {
            x \<leftarrow> Webhook rt (received q processor '''' (query_value (rp_Query r)) (Some (rp_Content r)));
            State_Monad.return (to_answer x)
          }
        | [processor, provider] \<Rightarrow> do {
            x \<leftarrow> Webhook rt (received q processor provider (query_value (rp_Query r)) (Some (rp_Content r)));
            State_Monad.return (to_answer x)
          }
        | _ \<Rightarrow> State_Monad.return (Answer 404 ''404 page not found'')))"

end
