(* ===== verification/Replay_Props.thy ===== *)
theory Replay_Props
  imports Replay Reception_Props
begin

text \<open>The properties of the replay of saved events, alone and against the reception of webhooks of this program.\<close>

section \<open>Counts\<close>

lemma wp_replay_all_length: "wp (replay_all env rs fs) (\<lambda>xs _. length xs = length fs) s"
proof (induction fs arbitrary: s)
  case (Cons f fs)
  have "wp (replay_one env rs f) (\<lambda>_ _. True) s" by (rule wpI) simp
  then show ?case
    unfolding replay_all.simps wp_bind
    by (rule wp_mono) (rule wp_mono [OF Cons], simp add: wp_simps)
qed (simp add: wp_simps)

lemma wp_dry_run: "rs_DryRun rs \<Longrightarrow> wp (replay_all env rs fs) (\<lambda>_ s'. s' = s) s"
  by (induction fs) (auto simp: wp_simps replay_one_def intro: wp_mono)

text \<open>
  Every event is counted, as a success or as a failure, however many workers share them; and a dry run sends
  nothing to the server.
\<close>

theorem replay_counts_every_event:
  assumes "\<And>n fs. length (re_Schedule env n fs) = length fs" "run_state (processWebhookEvents env rs fs) s = ((won, lost), s')"
  shows "won + lost = length fs \<and> (rs_DryRun rs \<longrightarrow> s' = s)"
proof -
  have "wp (processWebhookEvents env rs fs) (\<lambda>n _. fst n + snd n = length fs) s"
  proof (cases "fs = []")
    case False
    have split: "length (filter P xs) + length (filter (\<lambda>x. \<not> P x) xs) = length xs" for P and xs :: "replay_result list"
      using sum_length_filter_compl [of P xs] by simp
    from False show ?thesis
      unfolding processWebhookEvents_def
      by (auto simp: wp_simps split assms(1) intro!: wp_mono [OF wp_replay_all_length])
  qed (simp add: processWebhookEvents_def wp_simps)
  moreover have "rs_DryRun rs \<Longrightarrow> wp (processWebhookEvents env rs fs) (\<lambda>_ x. x = s) s"
    by (auto simp: processWebhookEvents_def wp_simps intro!: wp_mono [OF wp_dry_run])
  ultimately show ?thesis
    using wp_run [OF _ assms(2)] by fastforce
qed

section \<open>CCBill events\<close>

text \<open>Nothing but events that no job or retry processes is added.\<close>

definition only_dead :: "world \<Rightarrow> world \<Rightarrow> bool" where
  "only_dead w w' \<longleftrightarrow> (\<exists>es. w_db w' = fold add_event es (w_db w) \<and> (\<forall>e \<in> set es. \<not> retryable e))"

lemma only_dead_refl: "only_dead w w"
  unfolding only_dead_def by (intro exI [of _ "[]"]) simp

lemma only_dead_trans: "only_dead w w' \<Longrightarrow> only_dead w' w'' \<Longrightarrow> only_dead w w''"
  unfolding only_dead_def by (metis fold_append comp_apply set_append Un_iff)

lemma ccbill_without_type:
  assumes "rq_Processor r = ''ccbill''" "trim_space (rq_QueryEventType r) = ''''"
  shows "wp (Webhook rt r) (\<lambda>x w'. (\<exists>c m. x = Inr (c, m) \<and> 300 \<le> c) \<and> only_dead w w') w"
proof -
  have dead: "w_db w' = w_db w \<or> (\<exists>e. w_db w' = add_event e (w_db w) \<and> \<not> retryable e \<and> wh_Status e = ''invalid_payload'') \<Longrightarrow> only_dead w w'" for w'
    unfolding only_dead_def by (auto intro: exI [of _ "[]"] exI [of _ "[e]" for e])
  show ?thesis
    using assms only_dead_refl
    by (auto simp: Webhook_def ccbill_webhook_def wp_simps Let_def split: option.split intro!: wp_mono [OF dead_letter_frame] dead)
qed

text \<open>The endpoint's own query names no type of event.\<close>

definition untyped :: "replay_service \<Rightarrow> bool" where
  "untyped rs \<longleftrightarrow> trim_space (query_value (target_query (rs_TargetEndpoint rs)) ''eventType'') = ''''"

lemma replayed_ccbill:
  assumes "re_Post env = own_server rt q" "\<not> rs_DryRun rs" "untyped rs" "file_processor f = ''ccbill''"
  shows "wp (replay_one env rs f) (\<lambda>x w'. \<not> rr_Success x \<and> only_dead w w') w"
proof -
  let ?query = "query_value (target_query (rs_TargetEndpoint rs))"
  have r: "rq_Processor (received q ''ccbill'' '''' ?query b) = ''ccbill''" "trim_space (rq_QueryEventType (received q ''ccbill'' '''' ?query b)) = ''''" for b
    using assms(3) by (simp_all add: received_def untyped_def)
  show ?thesis
    using assms(1,2,4) only_dead_refl
    by (auto simp: replay_one_def replayWebhookEvent_def Let_def new_result_def webhook_path_def own_server_def wp_simps answered_def to_answer_def
      split: sum.split option.split intro!: wp_mono [OF ccbill_without_type [OF r]])
qed

lemma replayed_all_ccbill:
  assumes "re_Post env = own_server rt q" "\<not> rs_DryRun rs" "untyped rs" "\<forall>f \<in> set fs. file_processor f = ''ccbill''"
  shows "wp (replay_all env rs fs) (\<lambda>xs w'. (\<forall>x \<in> set xs. \<not> rr_Success x) \<and> only_dead w w') w"
  using assms(4)
proof (induction fs arbitrary: w)
  case (Cons f fs)
  have one: "wp (replay_one env rs f) (\<lambda>x w'. \<not> rr_Success x \<and> only_dead w w') w"
    using Cons.prems by (intro replayed_ccbill [OF assms(1-3)]) simp
  have rest: "wp (replay_all env rs fs) (\<lambda>xs w''. (\<forall>x \<in> set xs. \<not> rr_Success x) \<and> only_dead w' w'') w'" for w'
    using Cons by simp
  show ?case
    unfolding replay_all.simps wp_bind
    by (rule wp_mono [OF one], rule wp_mono [OF rest]) (auto simp: wp_simps intro: only_dead_trans)
qed (simp add: wp_simps only_dead_refl)

lemma last_parts: "c \<notin> set b \<Longrightarrow> after_last c (a @ c # b) = b \<and> before_last c (a @ c # b) = a"
  by (induction b rule: rev_induct) (auto simp: after_last_def before_last_def takeWhile_append dropWhile_append)

lemma loaded_ccbill:
  assumes "\<forall>d es. fs_Dir fs d = Inr es \<longrightarrow> (\<forall>(n, b) \<in> set es. CHR ''/'' \<notin> set n)" "CHR ''/'' \<notin> set f"
    and "loadWebhookEvents fs ''ccbill'' f = Inr es"
  shows "\<forall>e \<in> set es. file_processor e = ''ccbill''"
proof -
  have p: "CHR ''/'' \<notin> set n \<Longrightarrow> file_processor (path_join (path_join base ''ccbill'') n) = ''ccbill''" for base n
    using last_parts [of "CHR ''/''" n "path_join base ''ccbill''"] last_parts [of "CHR ''/''" "''ccbill''" base]
    by (simp add: file_processor_def path_join_def)
  from assms(3) obtain base where b: "fs_Webhooks fs = Inr base"
    by (auto simp: loadWebhookEvents_def split: sum.splits)
  show ?thesis
  proof (cases "f = ''all''")
    case True
    from assms(3) b True obtain entries where d: "fs_Dir fs (path_join base ''ccbill'') = Inr entries"
      by (auto simp: loadWebhookEvents_def Let_def split: sum.splits if_splits)
    let ?es = "map (\<lambda>(n, d). path_join (path_join base ''ccbill'') n) (filter (\<lambda>(n, d). \<not> d \<and> has_suffix n ''.json'') entries)"
    have "es = ?es"
      using assms(3) b True d by (cases ?es) (auto simp: loadWebhookEvents_def Let_def split: if_splits)
    moreover have "\<forall>(n, b) \<in> set entries. CHR ''/'' \<notin> set n" using assms(1) d by blast
    ultimately show ?thesis using p by auto
  next
    case False
    with assms(3) b have "es = [path_join (path_join base ''ccbill'') f]"
      by (simp add: loadWebhookEvents_def Let_def split: if_splits)
    with p assms(2) show ?thesis by simp
  qed
qed

text \<open>
  C40. Replayed against this server, CCBill events are never accepted: unless the query of the target endpoint itself
  names a type of event, the form is posted without the query parameter for it, so that every event is counted as
  a failure, and at most dead letters are left behind. (That a proxy maps the path onto the server's routes is
  granted.)
\<close>

theorem ccbill_replay_always_fails:
  assumes "re_Post env = own_server rt q" "\<not> rs_DryRun rs"
    and "trim_space (query_value (target_query (rs_TargetEndpoint rs)) ''eventType'') = ''''"
    and "\<forall>n fs. set (re_Schedule env n fs) = set fs"
    and "\<forall>d es. fs_Dir (re_Files env) d = Inr es \<longrightarrow> (\<forall>(n, b) \<in> set es. CHR ''/'' \<notin> set n)" "CHR ''/'' \<notin> set f"
    and "run_state (ReplayCCBillWebhooks env rs f) w = (Inr (won, lost), w')"
  shows "won = 0 \<and> only_dead w w'"
proof -
  have u: "untyped rs"
    using assms(3) by (simp add: untyped_def)
  have process: "wp (processWebhookEvents env rs es) (\<lambda>n w'. fst n = 0 \<and> only_dead w w') w"
    if es: "\<forall>e \<in> set es. file_processor e = ''ccbill''" for es
  proof -
    have "\<forall>e \<in> set (re_Schedule env (workers rs es) es). file_processor e = ''ccbill''" using es assms(4) by simp
    note all = replayed_all_ccbill [OF assms(1,2) u this]
    show ?thesis
      unfolding processWebhookEvents_def using only_dead_refl
      by (auto simp: wp_simps filter_empty_conv intro!: wp_mono [OF all])
  qed
  have "wp (ReplayCCBillWebhooks env rs f) (\<lambda>r w'. \<forall>n. r = Inr n \<longrightarrow> fst n = 0 \<and> only_dead w w') w"
  proof (cases "loadWebhookEvents (re_Files env) ''ccbill'' f")
    case (Inr es)
    show ?thesis
      unfolding ReplayCCBillWebhooks_def replay_loaded_def Inr sum.case wp_bind
      by (rule wp_mono [OF process [OF loaded_ccbill [OF assms(5,6) Inr]]]) (auto simp: wp_simps)
  qed (simp add: ReplayCCBillWebhooks_def replay_loaded_def wp_simps)
  from wp_run [OF this assms(7)] show ?thesis by simp
qed

section \<open>Witnesses\<close>

definition saved_files :: files where
  "saved_files = \<lparr>fs_Webhooks = Inr ''/w'', fs_Exists = (\<lambda>p. p \<in> {''/w/ccbill'', ''/w/ccbill/RenewalSuccess.json''}),
     fs_Dir = (\<lambda>d. Inr [(''RenewalSuccess.json'', False), (''README.md'', False)]),
     fs_Read = (\<lambda>f. Inr [CHR ''{'', CHR 0x22, CHR ''k'', CHR 0x22, CHR '':'', CHR ''1'', CHR ''}''])\<rparr>"

definition replay_sample :: "world replay_env" where
  "replay_sample = \<lparr>re_Files = saved_files, re_Schedule = (\<lambda>n fs. fs), re_Target = (\<lambda>t. None), re_Print = (\<lambda>j. ''1''),
     re_Post = own_server sample_runtime \<lparr>gq_Method = ''POST'', gq_Path = '''', gq_Headers = [], gq_ClientIP = '''', hq_RemoteAddr = ''ccbill-ip''\<rparr>\<rparr>"

definition replay_run :: "bool \<Rightarrow> replay_service" where
  "replay_run dry = \<lparr>rs_TargetEndpoint = ''http://localhost?replay=1'', rs_Concurrent = 2, rs_DryRun = dry\<rparr>"

theorem replay_counts_every_event_witness:
  "\<exists>won lost w'. run_state (processWebhookEvents replay_sample (replay_run True) [''a/b.json'', ''a/c.json'']) sample_world = ((won, lost), w') \<and>
     won + lost = 2 \<and> w' = sample_world"
proof -
  obtain won lost w' where r: "run_state (processWebhookEvents replay_sample (replay_run True) [''a/b.json'', ''a/c.json'']) sample_world = ((won, lost), w')"
    by (metis surj_pair)
  have "\<And>n fs. length (re_Schedule replay_sample n fs) = length fs" by (simp add: replay_sample_def)
  from replay_counts_every_event [OF this r] r show ?thesis by (simp add: replay_run_def)
qed

theorem ccbill_replay_always_fails_witness:
  "\<exists>won lost w'. run_state (ReplayCCBillWebhooks replay_sample (replay_run False) ''all'') sample_world = (Inr (won, lost), w') \<and>
     won = 0 \<and> only_dead sample_world w'"
proof -
  obtain x w' where r: "run_state (ReplayCCBillWebhooks replay_sample (replay_run False) ''all'') sample_world = (x, w')" by fastforce
  have l: "loadWebhookEvents (re_Files replay_sample) ''ccbill'' ''all'' = Inr [''/w/ccbill/RenewalSuccess.json'']"
    by (simp add: replay_sample_def saved_files_def loadWebhookEvents_def path_join_def has_suffix_def)
  then have "wp (ReplayCCBillWebhooks replay_sample (replay_run False) ''all'') (\<lambda>y _. \<exists>n. y = Inr n) sample_world"
    unfolding ReplayCCBillWebhooks_def replay_loaded_def l sum.case wp_bind by (intro wpI) (auto simp: wp_simps)
  from wp_run [OF this r] obtain won lost where x: "x = Inr (won, lost)" by (metis surj_pair)
  have n: "\<forall>d es. fs_Dir (re_Files replay_sample) d = Inr es \<longrightarrow> (\<forall>(n, b) \<in> set es. CHR ''/'' \<notin> set n)"
    by (auto simp: replay_sample_def saved_files_def)
  have p: "re_Post replay_sample = own_server sample_runtime \<lparr>gq_Method = ''POST'', gq_Path = '''', gq_Headers = [], gq_ClientIP = '''', hq_RemoteAddr = ''ccbill-ip''\<rparr>"
      "\<not> rs_DryRun (replay_run False)" "\<forall>n fs. set (re_Schedule replay_sample n fs) = set fs" "CHR ''/'' \<notin> set ''all''"
    by (simp_all add: replay_sample_def replay_run_def)
  have q: "trim_space (query_value (target_query (rs_TargetEndpoint (replay_run False))) ''eventType'') = ''''"
    by code_simp
  from ccbill_replay_always_fails [OF p(1,2) q p(3) n p(4) r [unfolded x]] r x show ?thesis by blast
qed

end
