(* ===== verification/Email.thy ===== *)
theory Email
  imports NMI_Client Notification Samples
begin

text \<open>
  The mails to a user: \<open>internal/manager/api/email/\<close>, \<open>subscription_email_service.go\<close> and the delivery of
  \<open>notification_service.go\<close>. A mail is its recipient, its subject and the values filled into its text in their order; the
  fixed wording and SendGrid's client are left out. \<open>profiles.users\<close> is a table of another service: \<open>profile_rows\<close> gives the row
  of an identifier, or an error.
\<close>

section \<open>Calendar\<close>

text \<open>\<open>time.Time.Date\<close> and \<open>AddDate(0, 1, 0)\<close> in UTC. The third argument of \<open>civil_from\<close> is a number of days from the first of the month on.\<close>

lemma days_in_pos: "28 \<le> days_in y m"
  by (simp add: days_in_def)

function civil_from :: "int \<Rightarrow> int \<Rightarrow> int \<Rightarrow> int \<times> int \<times> int" where
  "civil_from y m d = (if d < days_in y m then (y, m, d + 1)
     else if 12 \<le> m then civil_from (y + 1) 1 (d - days_in y m) else civil_from y (m + 1) (d - days_in y m))"
  by auto
termination
proof (relation "measure (\<lambda>(y, m, d). nat d)", goal_cases)
  case (2 y m d)
  then show ?case using days_in_pos [of y m] by simp
next
  case (3 y m d)
  then show ?case using days_in_pos [of y m] by simp
qed simp

declare civil_from.simps [simp del]

definition civil :: "time \<Rightarrow> int \<times> int \<times> int" where
  "civil t = (let n = t div day_ns in civil_from (400 * (n div 146097) + 1) 1 (n mod 146097))"

definition month_later :: "time \<Rightarrow> time" where
  "month_later t = (case civil t of (y, m, d) \<Rightarrow> days_civil y (m + 1) d * day_ns + t mod day_ns)"

lemma next_month: "1 \<le> m \<Longrightarrow> days_civil y (m + 1) 1 = days_civil y m 1 + days_in y m"
  using upto_rec2 [of 1 m] by (simp add: days_civil_def Let_def)

lemma div_step:
  fixes n y :: int
  assumes "0 < n"
  shows "y div n = (y - 1) div n + (if n dvd y then 1 else 0)"
proof (cases "n dvd y")
  case True
  then obtain k where "y = n * k" ..
  moreover have "(n * k - 1) div n = k - 1"
    using assms by (intro int_div_pos_eq [of _ _ _ "n - 1"]) (simp_all add: algebra_simps)
  ultimately show ?thesis using assms by simp
next
  case False
  then have "0 < y mod n" using assms pos_mod_sign [of n y] by (simp add: dvd_eq_mod_eq_0 order_less_le)
  moreover have "y mod n < n" using assms by simp
  ultimately have "(y - 1) div n = y div n"
    using mult_div_mod_eq [of n y] by (intro int_div_pos_eq [of _ _ _ "y mod n - 1"]) linarith+
  with False show ?thesis by simp
qed

lemma next_year: "days_civil (y + 1) 1 1 = days_civil y 12 1 + 31"
proof -
  have list: "[1..11 :: int] = [1, 2, 3, 4, 5, 6, 7, 8, 9, 10, 11]" by code_simp
  have months: "days_in y 1 = 31" "days_in y 3 = 31" "days_in y 4 = 30" "days_in y 5 = 31" "days_in y 6 = 30" "days_in y 7 = 31"
      "days_in y 8 = 31" "days_in y 9 = 30" "days_in y 10 = 31" "days_in y 11 = 30"
    by (simp_all add: days_in_def)
  have "(\<Sum>i\<leftarrow>[1..11]. days_in y i) = 306 + days_in y 2"
    unfolding list list.map sum_list.Cons sum_list.Nil months by simp
  then have december: "days_civil y 12 1 = 365 * (y - 1) + (y - 1) div 4 - (y - 1) div 100 + (y - 1) div 400 + 306 + days_in y 2"
    by (simp add: days_civil_def Let_def)
  have arith: "A = 365 * y + a - b + c \<Longrightarrow> D = 365 * (y - 1) + a' - b' + c' + 306 + f \<Longrightarrow>
      f = 28 + (if P \<and> (\<not> Q \<or> R) then 1 else 0) \<Longrightarrow> a = a' + (if P then 1 else 0) \<Longrightarrow> b = b' + (if Q then 1 else 0) \<Longrightarrow>
      c = c' + (if R then 1 else 0) \<Longrightarrow> (R \<Longrightarrow> Q) \<Longrightarrow> (Q \<Longrightarrow> P) \<Longrightarrow> A = D + 31"
    for A D a b c a' b' c' f :: int and P Q R
    by (cases P; cases Q; cases R; simp)
  show ?thesis
  proof (rule arith [OF _ december])
    show "days_civil (y + 1) 1 1 = 365 * y + y div 4 - y div 100 + y div 400" by (simp add: days_civil_def Let_def)
    show "days_in y 2 = 28 + (if 4 dvd y \<and> (\<not> 100 dvd y \<or> 400 dvd y) then 1 else 0)"
      by (simp add: days_in_def leap_def mod_eq_0_iff_dvd)
    show "400 dvd y \<Longrightarrow> 100 dvd y" "100 dvd y \<Longrightarrow> 4 dvd y"
      using dvd_trans [of 100 400 y] dvd_trans [of 4 100 y] by simp_all
  qed (rule div_step, simp)+
qed

lemma civil_from_days:
  "0 \<le> d \<Longrightarrow> 1 \<le> m \<Longrightarrow> m \<le> 12 \<Longrightarrow> civil_from y m d = (y', m', d') \<Longrightarrow>
     days_civil y' m' d' = days_civil y m 1 + d \<and> 1 \<le> m' \<and> m' \<le> 12 \<and> 1 \<le> d' \<and> d' \<le> days_in y' m'"
proof (induction y m d rule: civil_from.induct)
  case (1 y m d)
  have day: "days_civil y m (d + 1) = days_civil y m 1 + d" by (simp add: days_civil_def Let_def)
  have "m = 12 \<Longrightarrow> days_in y m = 31" by (simp add: days_in_def)
  with 1 day next_month [of m y] next_year [of y] show ?case
    by (simp add: civil_from.simps [of y m d] split: if_splits)
qed

text \<open>The civil date of a time is that of its day.\<close>

lemma civil_day:
  assumes "civil t = (y, m, d)"
  shows "days_civil y m d = t div day_ns \<and> 1 \<le> m \<and> m \<le> 12 \<and> 1 \<le> d \<and> d \<le> days_in y m"
proof -
  let ?n = "t div day_ns"
  have "days_civil (400 * (?n div 146097) + 1) 1 1 = 146097 * (?n div 146097)"
    by (simp add: days_civil_def Let_def)
  then show ?thesis
    using civil_from_days [of "?n mod 146097" 1 "400 * (?n div 146097) + 1" y m d] assms mult_div_mod_eq [of 146097 ?n]
    by (simp add: civil_def Let_def)
qed

definition month_names :: "string list" where
  "month_names = [''Jan'', ''Feb'', ''Mar'', ''Apr'', ''May'', ''Jun'', ''Jul'', ''Aug'', ''Sep'', ''Oct'', ''Nov'', ''Dec'']"

text \<open>The layout \<open>Jan 2, 2006\<close>, for years of four digits.\<close>

definition short_date :: "time \<Rightarrow> string" where
  "short_date t = (case civil t of (y, m, d) \<Rightarrow> month_names ! nat (m - 1) @ '' '' @ show_int d @ '', '' @ show_int y)"

section \<open>The mails\<close>

record subscription_mail =
  sm_UserEmail :: string
  sm_Username :: string
  sm_SubscriptionID :: uuid
  sm_Amount :: float64
  sm_Currency :: string
  sm_PeriodStart :: time
  sm_PeriodEnd :: time
  sm_PaymentMethod :: string
  sm_TransactionID :: string

record receipt_mail =
  rm_UserEmail :: string
  rm_Amount :: float64
  rm_Currency :: string
  rm_ProductName :: string
  rm_PaymentMethod :: string
  rm_IsPremium :: bool

record outgoing =
  og_To :: string
  og_Subject :: string
  og_Values :: "string list"

text \<open>The right single quotation mark and the bullet in UTF-8.\<close>

definition quote_mark :: string where
  "quote_mark = [CHR 0xE2, CHR 0x80, CHR 0x99]"

definition bullet :: string where
  "bullet = [CHR 0xE2, CHR 0x80, CHR 0xA2]"

definition apostrophe :: string where
  "apostrophe = [CHR 0x27]"

text \<open>\<open>$%.2f %s\<close>; \<open>show_uuid\<close> is \<open>uuid.String\<close>.\<close>

definition dollars :: "float64 \<Rightarrow> string \<Rightarrow> string" where
  "dollars a c = ''$'' @ format2 a @ '' '' @ c"

definition SendSubscriptionConfirmation :: "(uuid \<Rightarrow> string) \<Rightarrow> subscription_mail \<Rightarrow> outgoing" where
  "SendSubscriptionConfirmation show_uuid d = \<lparr>og_To = sm_UserEmail d, og_Subject = ''Welcome to Doujins Premium! Your subscription is confirmed'',
     og_Values = [sm_Username d, show_uuid (sm_SubscriptionID d), dollars (sm_Amount d) (sm_Currency d), short_date (sm_PeriodStart d),
       short_date (sm_PeriodEnd d), sm_PaymentMethod d]\<rparr>"

definition SendSubscriptionRenewal :: "(uuid \<Rightarrow> string) \<Rightarrow> subscription_mail \<Rightarrow> outgoing" where
  "SendSubscriptionRenewal show_uuid d = \<lparr>og_To = sm_UserEmail d, og_Subject = ''Your Doujins Premium subscription has been renewed'',
     og_Values = [sm_Username d, show_uuid (sm_SubscriptionID d), dollars (sm_Amount d) (sm_Currency d), short_date (sm_PeriodStart d),
       short_date (sm_PeriodEnd d), sm_TransactionID d]\<rparr>"

text \<open>The subject, the sentence on the reason and the last sentence of a cancellation.\<close>

definition cancellation_texts :: "end_reason \<Rightarrow> string \<times> string \<times> string" where
  "cancellation_texts reason =
     (let footer = ''You can resubscribe at any time to regain premium access. We'' @ apostrophe @ ''d love to see you back!'' in
      case reason of
        PremiumEndReasonChargeback \<Rightarrow> (''Your Doujins Premium subscription has been terminated'',
          ''We received a dispute on your most recent payment, so the membership has been closed for now.'',
          ''If this was unexpected, please reach out to support so we can help restore your access.'')
      | PremiumEndReasonRefund \<Rightarrow> (''Your Doujins Premium subscription was refunded'',
          ''We'' @ apostrophe @ ''ve processed your refund and closed the associated premium membership.'', footer)
      | PremiumEndReasonAdmin \<Rightarrow> (''Your Doujins Premium subscription was cancelled'', ''Our support team closed this subscription.'', footer)
      | PremiumEndReasonProcessor \<Rightarrow> (''Your Doujins Premium subscription was cancelled'',
          ''Your payment provider confirmed this cancellation, so we'' @ quote_mark @ ''ve closed the membership.'', footer)
      | _ \<Rightarrow> (''Your Doujins Premium subscription has been cancelled'',
          ''We'' @ apostrophe @ ''ve cancelled your premium membership as requested.'', footer))"

text \<open>The date is filled into \<open>Premium access available until\<close> and into \<open>You'll continue to enjoy premium access until\<close>.\<close>

definition SendSubscriptionCancellation :: "(uuid \<Rightarrow> string) \<Rightarrow> subscription_mail \<Rightarrow> end_reason \<Rightarrow> outgoing" where
  "SendSubscriptionCancellation show_uuid d reason = (case cancellation_texts reason of (subject, blurb, footer) \<Rightarrow>
     \<lparr>og_To = sm_UserEmail d, og_Subject = subject,
      og_Values = [subject, sm_Username d, blurb, show_uuid (sm_SubscriptionID d), short_date (sm_PeriodEnd d), short_date (sm_PeriodEnd d),
        footer]\<rparr>)"

definition SendSubscriptionExpired :: "subscription_mail \<Rightarrow> outgoing" where
  "SendSubscriptionExpired d = \<lparr>og_To = sm_UserEmail d, og_Subject = ''Your Doujins Premium access has expired'',
     og_Values = [sm_Username d, short_date (sm_PeriodEnd d)]\<rparr>"

definition Email_SendPaymentFailed :: "(uuid \<Rightarrow> string) \<Rightarrow> subscription_mail \<Rightarrow> outgoing" where
  "Email_SendPaymentFailed show_uuid d = \<lparr>og_To = sm_UserEmail d,
     og_Subject = ''We couldn'' @ quote_mark @ ''t renew your Doujins Premium subscription'',
     og_Values = [sm_Username d, show_uuid (sm_SubscriptionID d), dollars (sm_Amount d) (sm_Currency d), sm_PaymentMethod d]\<rparr>"

text \<open>The date (\<open>Jan 2, 2006 15:04 MST\<close>) is of the moment of sending and left out of the values.\<close>

definition SendOneOffPurchaseReceipt :: "receipt_mail \<Rightarrow> outgoing" where
  "SendOneOffPurchaseReceipt d =
     (let product_name = (if rm_ProductName d = '''' then ''Doujins premium content'' else rm_ProductName d);
          amount = (if rm_Currency d = ''USD'' then dollars (rm_Amount d) (rm_Currency d) else format2 (rm_Amount d) @ '' '' @ rm_Currency d);
          intro = (if rm_IsPremium d then ''Thanks for unlocking Doujins Premium!'' else ''Thanks for completing your purchase!'')
      in \<lparr>og_To = rm_UserEmail d,
          og_Subject = (if to_lower (rm_PaymentMethod d) = ''solana'' then ''Your Solana premium purchase is confirmed''
            else ''Thanks for supporting Doujins!''),
          og_Values = [intro, product_name, amount]\<rparr>)"

section \<open>Whom a mail is about\<close>

record profile_row =
  pf_Username :: "string option"
  pf_Email :: string
  pf_EmailVerified :: bool
  pf_IsActive :: bool

definition GetUserEmail :: "(uuid \<Rightarrow> string + profile_row) \<Rightarrow> uuid \<Rightarrow> (string \<times> string \<times> bool \<times> bool) res" where
  "GetUserEmail rows i = (case rows i of
     Inl m \<Rightarrow> Inl (DbErr m)
   | Inr r \<Rightarrow> Inr (case pf_Username r of Some u \<Rightarrow> u | None \<Rightarrow> '''', pf_Email r, pf_EmailVerified r, pf_IsActive r))"

definition errUserEmailUnavailable :: go_err where
  "errUserEmailUnavailable = Sentinel ''user email unavailable''"

text \<open>
  The service: whether a mail can be sent at all (\<open>IsEnabled\<close>), the profiles (\<open>None\<close>: none), \<open>uuid.Parse\<close> and \<open>uuid.String\<close>.
\<close>

record mail_service =
  ml_Enabled :: bool
  ml_Profiles :: "(uuid \<Rightarrow> string + profile_row) option"
  ml_Parse :: "string \<Rightarrow> uuid option"
  ml_Show :: "uuid \<Rightarrow> string"

definition getUserEmail :: "mail_service \<Rightarrow> string \<Rightarrow> (string \<times> string) res" where
  "getUserEmail svc u = (case (ml_Profiles svc, ml_Parse svc u) of
     (Some rows, Some i) \<Rightarrow> (case GetUserEmail rows i of
         Inl e \<Rightarrow> Inl errUserEmailUnavailable
       | Inr (username, address, verified, active) \<Rightarrow>
           if address = '''' \<or> \<not> active then Inl errUserEmailUnavailable else Inr (username, address))
   | _ \<Rightarrow> Inl errUserEmailUnavailable)"

definition to_upper :: "string \<Rightarrow> string" where
  "to_upper = map (\<lambda>c. if 97 \<le> code c \<and> code c \<le> 122 then char_of (code c - 32) else c)"

definition processorDisplayName :: "processor \<Rightarrow> string" where
  "processorDisplayName p = (case p of
     ProcessorNMI \<Rightarrow> ''Credit Card'' | ProcessorCCBill \<Rightarrow> ''Credit Card'' | ProcessorPayPal \<Rightarrow> ''PayPal'' | ProcessorSolana \<Rightarrow> ''Solana''
   | ProcessorOther s \<Rightarrow> to_upper (trim_space s))"

definition trimmed :: "string option \<Rightarrow> string" where
  "trimmed s = (case s of Some x \<Rightarrow> trim_space x | None \<Rightarrow> '''')"

definition describePaymentMethod :: "subscription \<Rightarrow> string" where
  "describePaymentMethod s = (case sub_PaymentMethod s of
     None \<Rightarrow> ''''
   | Some pm \<Rightarrow> join '' '' (filter (\<lambda>p. p \<noteq> '''')
       [if trimmed (pm_CardType pm) \<noteq> '''' then trimmed (pm_CardType pm) else processorDisplayName (pm_Processor pm),
        if trimmed (pm_LastFour pm) \<noteq> '''' then bullet @ bullet @ bullet @ bullet @ trimmed (pm_LastFour pm) else '''']))"

text \<open>The subscription that a mail is about: the active one, or else the latest.\<close>

definition mail_subscription :: "string \<Rightarrow> subscription go" where
  "mail_subscription u = do {
     r \<leftarrow> SubRepo_GetActiveSubscription Pool u;
     (case r of
        Inr s \<Rightarrow> ok s
      | Inl e \<Rightarrow>
          if err_is e ErrNoRows then do {
            r2 \<leftarrow> SubRepo_GetLatestByUserID Pool u;
            (case r2 of
               Inr s \<Rightarrow> ok s
             | Inl e2 \<Rightarrow> if err_is e2 ErrNoRows then throw errUserEmailUnavailable
                 else throw (wrap_err (''failed to get subscription for user '' @ u) e2))
          } else throw (wrap_err ''failed to get active subscription'' e))
   }"

definition mail_address :: "mail_service \<Rightarrow> string \<Rightarrow> subscription \<Rightarrow> (string \<times> string) res" where
  "mail_address svc u s = (if trimmed (sub_UserEmail s) \<noteq> '''' then Inr ('''', trimmed (sub_UserEmail s)) else getUserEmail svc u)"

definition mail_period :: "price \<Rightarrow> subscription \<Rightarrow> time \<Rightarrow> time \<Rightarrow> time \<times> time" where
  "mail_period p s now now2 = (case sub_CurrentPeriodStartsAt s of
     None \<Rightarrow> (now, now2)
   | Some st \<Rightarrow> (st, case sub_CurrentPeriodEndsAt s of
       Some e \<Rightarrow> e
     | None \<Rightarrow> (case price_BillingCycleDays p of
         Some n \<Rightarrow> if n > 0 then st + n * day_ns else month_later st
       | None \<Rightarrow> month_later st)))"

definition mail_method :: "subscription \<Rightarrow> string" where
  "mail_method s = (if describePaymentMethod s \<noteq> '''' then describePaymentMethod s
     else if processorDisplayName (sub_Processor s) \<noteq> '''' then processorDisplayName (sub_Processor s) else ''Credit Card'')"

definition getEmailData :: "mail_service \<Rightarrow> string \<Rightarrow> subscription_mail go" where
  "getEmailData svc u = do {
     r \<leftarrow> mail_subscription u;
     (case r of
        Inl e \<Rightarrow> throw e
      | Inr s \<Rightarrow> (case mail_address svc u s of
          Inl e \<Rightarrow> throw e
        | Inr (username, address) \<Rightarrow>
            if address = '''' then throw errUserEmailUnavailable else do {
              p \<leftarrow> Price_GetByID Pool (sub_PriceID s);
              (case p of
                 Inl e \<Rightarrow> throw (wrap_err ''failed to get price'' e)
               | Inr pr \<Rightarrow> do {
                   now \<leftarrow> now_m;
                   now2 \<leftarrow> now_m;
                   ok \<lparr>sm_UserEmail = address, sm_Username = username, sm_SubscriptionID = sub_ID s, sm_Amount = price_Amount pr,
                     sm_Currency = price_Currency pr, sm_PeriodStart = fst (mail_period pr s now now2),
                     sm_PeriodEnd = snd (mail_period pr s now now2), sm_PaymentMethod = mail_method s, sm_TransactionID = ''''\<rparr>
                 })
            }))
   }"

section \<open>SubscriptionEmailService and the delivery\<close>

text \<open>The mail that is handed to SendGrid, if any.\<close>

definition with_email_data :: "mail_service \<Rightarrow> string \<Rightarrow> (subscription_mail \<Rightarrow> outgoing) \<Rightarrow> outgoing option go" where
  "with_email_data svc u f = (if \<not> ml_Enabled svc then ok None else do {
     r \<leftarrow> getEmailData svc u;
     (case r of
        Inl e \<Rightarrow> if err_is e errUserEmailUnavailable then ok None else throw (wrap_err ''failed to get email data'' e)
      | Inr d \<Rightarrow> ok (Some (f d)))
   })"

definition SendSubscriptionConfirmed :: "mail_service \<Rightarrow> string \<Rightarrow> outgoing option go" where
  "SendSubscriptionConfirmed svc u = with_email_data svc u (SendSubscriptionConfirmation (ml_Show svc))"

definition SendSubscriptionRenewed :: "mail_service \<Rightarrow> string \<Rightarrow> outgoing option go" where
  "SendSubscriptionRenewed svc u = with_email_data svc u (SendSubscriptionRenewal (ml_Show svc))"

definition SendPremiumEnded :: "mail_service \<Rightarrow> string \<Rightarrow> end_reason \<Rightarrow> outgoing option go" where
  "SendPremiumEnded svc u reason = with_email_data svc u (\<lambda>d. case reason of
     PremiumEndReasonExpired \<Rightarrow> SendSubscriptionExpired d
   | PremiumEndReasonUserCancel \<Rightarrow> SendSubscriptionCancellation (ml_Show svc) d PremiumEndReasonUserCancel
   | PremiumEndReasonUnknown \<Rightarrow> SendSubscriptionCancellation (ml_Show svc) d PremiumEndReasonUserCancel
   | _ \<Rightarrow> SendSubscriptionCancellation (ml_Show svc) d reason)"

definition SendPaymentFailed :: "mail_service \<Rightarrow> string \<Rightarrow> outgoing option go" where
  "SendPaymentFailed svc u = with_email_data svc u (Email_SendPaymentFailed (ml_Show svc))"

text \<open>The address of a receipt: that of the notification, or else the one of the profile.\<close>

definition receipt_address :: "mail_service \<Rightarrow> notification \<Rightarrow> string" where
  "receipt_address svc n = (if data_str ''user_email'' (nq_Data n) \<noteq> '''' then data_str ''user_email'' (nq_Data n)
     else (case getUserEmail svc (nq_UserID n) of Inr (u, m) \<Rightarrow> m | Inl e \<Rightarrow> ''''))"

text \<open>An empty list of data is the nil map of a notification without data.\<close>

definition sendEmailNotification :: "mail_service \<Rightarrow> notification \<Rightarrow> outgoing option go" where
  "sendEmailNotification svc n = (case nq_EventType n of
     NotificationPremiumStarted \<Rightarrow> SendSubscriptionConfirmed svc (nq_UserID n)
   | NotificationPremiumRenewed \<Rightarrow> SendSubscriptionRenewed svc (nq_UserID n)
   | NotificationPremiumEnded \<Rightarrow> SendPremiumEnded svc (nq_UserID n) (case map_of (nq_Data n) ''reason'' of
       Some (MStr r) \<Rightarrow> ParsePremiumEndReason r | _ \<Rightarrow> PremiumEndReasonUnknown)
   | NotificationPaymentMethodFailed \<Rightarrow> SendPaymentFailed svc (nq_UserID n)
   | NotificationOneOffPurchaseCompleted \<Rightarrow>
       if nq_Data n = [] \<or> receipt_address svc n = '''' \<or> \<not> ml_Enabled svc then ok None
       else ok (Some (SendOneOffPurchaseReceipt \<lparr>rm_UserEmail = receipt_address svc n, rm_Amount = data_amount ''amount'' (nq_Data n),
         rm_Currency = data_str ''currency'' (nq_Data n), rm_ProductName = data_str ''product_name'' (nq_Data n),
         rm_PaymentMethod = data_str ''payment_method'' (nq_Data n), rm_IsPremium = True\<rparr>))
   | _ \<Rightarrow> ok None)"

definition DeliverEmail :: "mail_service \<Rightarrow> notification \<Rightarrow> outgoing option go" where
  "DeliverEmail = sendEmailNotification"

definition deliverExternalNotifications :: "mail_service \<Rightarrow> notification \<Rightarrow> outgoing option go" where
  "deliverExternalNotifications svc n = do {
     r \<leftarrow> sendEmailNotification svc n;
     (case r of Inl e \<Rightarrow> throw (wrap_err ''failed to send email notification'' e) | Inr m \<Rightarrow> ok m)
   }"

text \<open>The layout \<open>January 2, 2006\<close>, and \<open>int(d.Hours() / 24)\<close>, which rounds towards zero.\<close>

definition long_months :: "string list" where
  "long_months = [''January'', ''February'', ''March'', ''April'', ''May'', ''June'', ''July'', ''August'', ''September'', ''October'',
     ''November'', ''December'']"

definition long_date :: "time \<Rightarrow> string" where
  "long_date t = (case civil t of (y, m, d) \<Rightarrow> long_months ! nat (m - 1) @ '' '' @ show_int d @ '', '' @ show_int y)"

definition whole_days :: "int \<Rightarrow> int" where
  "whole_days d = (if 0 \<le> d then d div day_ns else - (- d div day_ns))"

definition SendEntitlementExpiration :: "time \<Rightarrow> string \<Rightarrow> string \<Rightarrow> string \<Rightarrow> time \<Rightarrow> outgoing" where
  "SendEntitlementExpiration now to' username name expiresAt = \<lparr>og_To = to', og_Subject = ''Your '' @ name @ '' access expires soon'',
     og_Values = [username, name, show_int (whole_days (expiresAt - now)), long_date expiresAt]\<rparr>"

definition SendEntitlementExpired :: "mail_service \<Rightarrow> string \<Rightarrow> string \<Rightarrow> time \<Rightarrow> outgoing option go" where
  "SendEntitlementExpired svc u name expiresAt = (if \<not> ml_Enabled svc then ok None else (case getUserEmail svc u of
     Inl e \<Rightarrow> if err_is e errUserEmailUnavailable then ok None else throw (wrap_err ''failed to get user profile'' e)
   | Inr (username, address) \<Rightarrow> do { now \<leftarrow> now_m; ok (Some (SendEntitlementExpiration now address username name expiresAt)) }))"

section \<open>Where a mail goes\<close>

text \<open>The addresses of a user: those of the user's subscriptions, and the one of an active profile.\<close>

definition address_of :: "mail_service \<Rightarrow> tables \<Rightarrow> string \<Rightarrow> string \<Rightarrow> bool" where
  "address_of svc t u a \<longleftrightarrow> (\<exists>s \<in> set (t_subs t). sub_UserID s = u \<and> a = trimmed (sub_UserEmail s)) \<or>
     (\<exists>rows i r. ml_Profiles svc = Some rows \<and> ml_Parse svc u = Some i \<and> rows i = Inr r \<and> pf_IsActive r \<and> a = pf_Email r)"

lemma getUserEmail_address: "getUserEmail svc u = Inr (x, a) \<Longrightarrow> address_of svc t u a \<and> a \<noteq> ''''"
  by (auto simp: getUserEmail_def GetUserEmail_def address_of_def split: option.splits sum.splits prod.splits if_splits)

lemma wp_mail_subscription:
  "wp (mail_subscription u) (\<lambda>r w'. w_db w' = w_db w \<and> (\<forall>s. r = Inr s \<longrightarrow> (\<exists>x \<in> set (t_subs (w_db w)). sub_UserID x = u \<and>
     sub_UserEmail s = sub_UserEmail x))) w"
proof -
  have a: "active_sub_of now t u = Some x \<Longrightarrow> \<exists>y \<in> set (t_subs t). sub_UserID y = u \<and> sub_UserEmail x = sub_UserEmail y" for now t x
    unfolding active_sub_of_def by (drule newest_Some_in) auto
  have l: "latest_by_user t u = Some x \<Longrightarrow> \<exists>y \<in> set (t_subs t). sub_UserID y = u \<and> sub_UserEmail x = sub_UserEmail y" for t x
    unfolding latest_by_user_def by (drule newest_Some_in) auto
  show ?thesis
    by (auto simp: mail_subscription_def SubRepo_GetActiveSubscription_def SubRepo_GetLatestByUserID_def wp_simps scan_row_def view_def
      split: option.split intro: a l)
qed

lemma wp_getEmailData:
  "wp (getEmailData svc u) (\<lambda>r w'. w_db w' = w_db w \<and> (\<forall>d. r = Inr d \<longrightarrow> address_of svc (w_db w) u (sm_UserEmail d) \<and> sm_UserEmail d \<noteq> '''')) w"
proof -
  have a: "address_of svc t u (trimmed (sub_UserEmail s)) \<or> trimmed (sub_UserEmail s) = ''''"
    if "\<exists>x \<in> set (t_subs t). sub_UserID x = u \<and> sub_UserEmail s = sub_UserEmail x" for t s
    using that by (auto simp: address_of_def)
  have m: "mail_address svc u s = Inr (x, y) \<Longrightarrow> \<exists>x \<in> set (t_subs t). sub_UserID x = u \<and> sub_UserEmail s = sub_UserEmail x \<Longrightarrow>
      address_of svc t u y" for s x y t
    using a [of t s] by (auto simp: mail_address_def split: if_splits dest: getUserEmail_address)
  show ?thesis
    unfolding getEmailData_def wp_bind
    by (rule wp_mono [OF wp_mail_subscription])
      (auto simp: wp_simps Price_GetByID_def split: sum.split option.split prod.split dest: m)
qed

lemma wp_with_data:
  assumes "\<And>d. og_To (f d) = sm_UserEmail d"
  shows "wp (with_email_data svc u f) (\<lambda>r w'. w_db w' = w_db w \<and> (\<forall>m. r = Inr (Some m) \<longrightarrow> address_of svc (w_db w) u (og_To m) \<and> og_To m \<noteq> '''')) w"
proof (cases "ml_Enabled svc")
  case True
  then show ?thesis
    unfolding with_email_data_def
    by (simp add: wp_bind) (rule wp_mono [OF wp_getEmailData], auto simp: wp_simps assms split: sum.split)
qed (simp add: with_email_data_def wp_simps)

lemma send_to [simp]:
  "og_To (SendSubscriptionConfirmation f d) = sm_UserEmail d" "og_To (SendSubscriptionRenewal f d) = sm_UserEmail d"
  "og_To (SendSubscriptionCancellation f d reason) = sm_UserEmail d" "og_To (SendSubscriptionExpired d) = sm_UserEmail d"
  "og_To (Email_SendPaymentFailed f d) = sm_UserEmail d" "og_To (SendOneOffPurchaseReceipt r) = rm_UserEmail r"
  by (simp_all add: SendSubscriptionConfirmation_def SendSubscriptionRenewal_def SendSubscriptionCancellation_def
    SendSubscriptionExpired_def Email_SendPaymentFailed_def SendOneOffPurchaseReceipt_def Let_def split: prod.split)

text \<open>
  C30. The mail of a notification goes to an address of the user it is for (one stored with a subscription of that user,
  or that of the user's active profile) or, if it is a receipt, to the address that the notification itself holds; it
  is never sent to an empty address, and sending it changes no table.
\<close>

theorem mail_goes_to_its_user:
  assumes "run_state (deliverExternalNotifications svc n) w = (r, w')"
  shows "w_db w' = w_db w \<and> (\<forall>m. r = Inr (Some m) \<longrightarrow> og_To m \<noteq> '''' \<and> (address_of svc (w_db w) (nq_UserID n) (og_To m) \<or>
    nq_EventType n = NotificationOneOffPurchaseCompleted \<and> og_To m = data_str ''user_email'' (nq_Data n)))"
proof -
  have receipt: "receipt_address svc n \<noteq> '''' \<Longrightarrow> address_of svc (w_db w) (nq_UserID n) (receipt_address svc n) \<or>
      receipt_address svc n = data_str ''user_email'' (nq_Data n)"
    by (auto simp: receipt_address_def split: sum.split dest: getUserEmail_address)
  have ended: "og_To (case reason of PremiumEndReasonExpired \<Rightarrow> SendSubscriptionExpired d
     | PremiumEndReasonUserCancel \<Rightarrow> SendSubscriptionCancellation (ml_Show svc) d PremiumEndReasonUserCancel
     | PremiumEndReasonUnknown \<Rightarrow> SendSubscriptionCancellation (ml_Show svc) d PremiumEndReasonUserCancel
     | _ \<Rightarrow> SendSubscriptionCancellation (ml_Show svc) d reason) = sm_UserEmail d" for reason d
    by (cases reason) simp_all
  let ?Q = "\<lambda>r w'. w_db w' = w_db w \<and> (\<forall>m. r = Inr (Some m) \<longrightarrow> og_To m \<noteq> '''' \<and> (address_of svc (w_db w) (nq_UserID n) (og_To m) \<or>
    nq_EventType n = NotificationOneOffPurchaseCompleted \<and> og_To m = data_str ''user_email'' (nq_Data n)))"
  have "wp (sendEmailNotification svc n) ?Q w"
    using receipt
    by (cases "nq_EventType n")
      (auto simp: sendEmailNotification_def SendSubscriptionConfirmed_def SendSubscriptionRenewed_def SendPremiumEnded_def SendPaymentFailed_def
        wp_simps ended intro!: wp_mono [OF wp_with_data])
  then have "wp (deliverExternalNotifications svc n) ?Q w"
    unfolding deliverExternalNotifications_def wp_bind by (rule wp_mono) (auto simp: wp_simps split: sum.split)
  then show ?thesis using assms by (rule wp_run)
qed

definition sample_mails :: mail_service where
  "sample_mails = \<lparr>ml_Enabled = True,
     ml_Profiles = Some (\<lambda>i. Inr \<lparr>pf_Username = Some ''al'', pf_Email = ''al@x.io'', pf_EmailVerified = True, pf_IsActive = True\<rparr>),
     ml_Parse = (\<lambda>u. Some 7), ml_Show = (\<lambda>i. show_nat i)\<rparr>"

definition sample_purchase :: notification where
  "sample_purchase = (new_notification 5 ''alice'' NotificationOneOffPurchaseCompleted [(''currency'', MStr ''USD'')])"

theorem mail_goes_to_its_user_witness:
  "\<exists>m w'. run_state (deliverExternalNotifications sample_mails sample_purchase) sample_world = (Inr (Some m), w') \<and>
     address_of sample_mails (w_db sample_world) ''alice'' (og_To m) \<and> w_db w' = w_db sample_world"
proof -
  have n: "nq_EventType sample_purchase = NotificationOneOffPurchaseCompleted" "nq_UserID sample_purchase = ''alice''"
      "nq_Data sample_purchase = [(''currency'', MStr ''USD'')]"
    by (simp_all add: sample_purchase_def new_notification_def)
  have a: "receipt_address sample_mails sample_purchase = ''al@x.io''"
    by (simp add: receipt_address_def n data_str_def getUserEmail_def GetUserEmail_def sample_mails_def)
  obtain r w' where r: "run_state (deliverExternalNotifications sample_mails sample_purchase) sample_world = (r, w')" by fastforce
  have "wp (deliverExternalNotifications sample_mails sample_purchase) (\<lambda>r _. \<exists>m. r = Inr (Some m)) sample_world"
    by (simp add: deliverExternalNotifications_def sendEmailNotification_def n a wp_simps) (simp add: sample_mails_def wp_simps)
  from wp_run [OF this r] obtain m where m: "r = Inr (Some m)" ..
  from mail_goes_to_its_user [OF r] m r show ?thesis by (auto simp: n data_str_def)
qed

end
