(* ===== verification/Subscribe_Props.thy ===== *)
theory Subscribe_Props
  imports Subscribe Dunning_Props Samples
begin

text \<open>
  The properties of subscribing: the gateway is asked for at most one subscription, at the price of the catalogue, and only
  for a user without an active one.
\<close>

section \<open>Requests for a subscription\<close>

definition is_charge :: "form \<Rightarrow> bool" where
  "is_charge f \<longleftrightarrow> map_of f ''recurring'' = Some ''add_subscription''"

definition charges :: "(string \<times> form) list \<Rightarrow> form list" where
  "charges fs = filter is_charge (map snd fs)"

lemma charges_simps [simp]: "charges [] = []" "charges (a @ b) = charges a @ charges b"
  by (simp_all add: charges_def)

text \<open>\<open>asks A m\<close>: the result of \<open>m\<close> and the requests for a subscription that it posts satisfy \<open>A\<close>.\<close>

definition asks :: "('a \<Rightarrow> form list \<Rightarrow> bool) \<Rightarrow> (world, 'a) state \<Rightarrow> bool" where
  "asks A m \<longleftrightarrow> (\<forall>w. wp m (\<lambda>r w'. \<exists>fs. w_sent w' = w_sent w @ fs \<and> A r (charges fs)) w)"

abbreviation no_charge :: "(world, 'a) state \<Rightarrow> bool" where
  "no_charge \<equiv> sends (\<lambda>f. \<not> is_charge f)"

lemma asks_mono: "asks A m \<Longrightarrow> (\<And>r cs. A r cs \<Longrightarrow> B r cs) \<Longrightarrow> asks B m"
  unfolding asks_def by (blast intro: wp_mono)

lemma asks_bind:
  assumes "asks A m" "\<And>x cs. A x cs \<Longrightarrow> asks (\<lambda>r ds. B r (cs @ ds)) (f x)"
  shows "asks B (State_Monad.bind m f)"
  unfolding asks_def wp_bind
proof
  fix w :: world
  have step: "wp (f x) (\<lambda>r w''. \<exists>fs. w_sent w'' = w_sent w @ fs \<and> B r (charges fs)) w'" if "w_sent w' = w_sent w @ fs" "A x (charges fs)" for x w' fs
  proof -
    have "wp (f x) (\<lambda>r w''. \<exists>gs. w_sent w'' = w_sent w' @ gs \<and> B r (charges fs @ charges gs)) w'"
      using assms(2) [OF that(2)] unfolding asks_def by blast
    then show ?thesis
      by (rule wp_mono) (use that(1) in \<open>auto intro: exI [of _ "fs @ gs" for gs]\<close>)
  qed
  show "wp m (\<lambda>x. wp (f x) (\<lambda>r w'. \<exists>fs. w_sent w' = w_sent w @ fs \<and> B r (charges fs))) w"
    using assms(1) unfolding asks_def by (blast intro: wp_mono step)
qed

lemma asks_none: "no_charge m \<Longrightarrow> asks (\<lambda>_ cs. cs = []) m"
  unfolding asks_def sends_def posted_def charges_def
  by (erule all_forward, erule wp_mono) (auto simp: filter_empty_conv)

lemma asks_after: "no_charge m \<Longrightarrow> (\<And>x. asks B (f x)) \<Longrightarrow> asks B (State_Monad.bind m f)"
  by (rule asks_bind [OF asks_none]) simp_all

lemma asks_simps [simp]: "asks A (ok x) = A (Inr x) []" "asks B (throw e) = B (Inl e) []"
  by (simp_all add: asks_def wp_simps)

section \<open>What posts none\<close>

lemma vault_forms_no_charge [simp]:
  "\<not> is_charge (create_vault_form c d)"
  "\<not> is_charge ([(''customer_vault'', ''delete_customer''), (''security_key'', k), (''customer_vault_id'', i)] @ test_mode c)"
  by (simp_all add: is_charge_def create_vault_form_def vault_person_def test_mode_def map_of_opt_field map_add_def)

lemma no_charge_vault [sends_intros]: "no_charge (CreateCustomerVault c d)" "no_charge (DeleteCustomerVault c i)"
  unfolding CreateCustomerVault_def DeleteCustomerVault_def simple_request_def done_m_def Let_def
  by (intro sends_intros sends_direct; (rule vault_forms_no_charge)?)+

lemma no_charge_parts [sends_intros]:
  "no_charge (CreateVault cs u req)" "no_charge (DeleteVault cs pm)" "no_charge (Idem_Begin op k uid)" "no_charge (Idem_Complete i x)"
  "no_charge (Idem_Fail i y)" "no_charge (SubRepo_Create h s)" "no_charge (saved_method svc v p mid)"
  "no_charge (SubRepo_GetLatestByUserID h v)" "no_charge (Product_GetByID h j)"
  unfolding CreateVault_def DeleteVault_def Idem_Begin_def Idem_Complete_def Idem_Fail_def IdemRepo_Create_def IdemRepo_GetByOperationAndKey_def
    IdemRepo_UpdateStatus_def SubRepo_Create_def saved_method_def SubRepo_GetLatestByUserID_def Product_GetByID_def Let_def
  by (intro sends_intros)+

lemma no_charge_subscribe [sends_intros]:
  "no_charge (begin_window svc k v)" "no_charge (obtain_vault svc user token vault provider p)" "no_charge (abandon svc window made e)"
  "no_charge (available_product pr)" "no_charge (available_price svc i)" "no_charge (no_active_subscription v)"
  unfolding begin_window_def obtain_vault_def abandon_def available_product_def available_price_def no_active_subscription_def Let_def
  by (intro sends_intros)+

section \<open>The request\<close>

lemma charge_form: "is_charge (add_form c d)"
  by (simp add: is_charge_def add_form_def opt_field_def test_mode_def)

lemma asks_add: "asks (\<lambda>r cs. (cs = [] \<and> (\<forall>x. r \<noteq> Inr x)) \<or> cs = [add_form c p]) (AddRecurringSubscription c p)"
proof -
  have "asks (\<lambda>_ cs. cs = [add_form c p]) (sendDirectRequest c (add_form c p))"
    using charge_form [of c p] by (simp add: asks_def sendDirectRequest_def wp_post_form sent_def charges_def)
  then show ?thesis
    unfolding AddRecurringSubscription_def
    by (auto intro!: asks_bind split: sum.split option.split)
qed

lemma asks_request:
  "asks (\<lambda>r cs. (cs = [] \<and> (\<forall>x. r \<noteq> Inr x)) \<or> cs = [add_form client p])
     (request_subscription svc d user priceID client i p provider window made)"
  unfolding request_subscription_def
proof (rule asks_bind [OF asks_add])
  fix r :: "add_response res" and cs
  assume a: "(cs = [] \<and> (\<forall>x. r \<noteq> Inr x)) \<or> cs = [add_form client p]"
  show "asks (\<lambda>ra ds. cs @ ds = [] \<and> (\<forall>x. ra \<noteq> Inr x) \<or> cs @ ds = [add_form client p])
      (case r of Inl e \<Rightarrow> abandon svc window made e
       | Inr resp \<Rightarrow> do {
          (case window of Some req \<Rightarrow> Idem_Complete (idem_ID req) (Some (marshal_response resp)) | None \<Rightarrow> ok ());
          c \<leftarrow> SubRepo_Create Pool (pending_subscription d user priceID i (ar_SubscriptionID resp) provider (chosen_method svc d made));
          (case c of Inl e \<Rightarrow> throw (wrap_err ''failed to create subscription'' e) | Inr _ \<Rightarrow> ok (Subscribed resp))
        })"
  proof (cases r)
    case (Inl e)
    have "asks (\<lambda>x cs. cs = [] \<and> (\<forall>y. x \<noteq> Inr y)) (abandon svc window made e)"
      unfolding abandon_def by (intro asks_after sends_intros) simp
    then show ?thesis using a Inl by (auto elim!: asks_mono)
  next
    case (Inr resp)
    have "asks (\<lambda>_ cs. cs = []) (do {
          (case window of Some req \<Rightarrow> Idem_Complete (idem_ID req) (Some (marshal_response resp)) | None \<Rightarrow> ok ());
          c \<leftarrow> SubRepo_Create Pool (pending_subscription d user priceID i (ar_SubscriptionID resp) provider (chosen_method svc d made));
          (case c of Inl e \<Rightarrow> throw (wrap_err ''failed to create subscription'' e) | Inr _ \<Rightarrow> ok (Subscribed resp))
        })"
      by (intro asks_none sends_intros)
    then show ?thesis using a Inr by (auto elim!: asks_mono)
  qed
qed

text \<open>The request for a price: its plan, amount and currency.\<close>

definition asks_price :: "price \<Rightarrow> form \<Rightarrow> bool" where
  "asks_price p f \<longleftrightarrow> map_of f ''amount'' = Some (format2 (price_Amount p)) \<and> map_of f ''currency'' = Some (price_Currency p) \<and>
     map_of f ''plan_id'' = Some (case price_NMIPlanID p of Some x \<Rightarrow> trim_space x | None \<Rightarrow> '''')"

lemma asks_price_form:
  "rd_Amount q = price_Amount p \<Longrightarrow> rd_Currency q = price_Currency p \<Longrightarrow> rd_PlanID q = (case price_NMIPlanID p of Some x \<Rightarrow> trim_space x | None \<Rightarrow> '''') \<Longrightarrow>
     asks_price p (add_form c q)"
  by (simp add: asks_price_def add_form_def)

lemma asks_subscribe_nmi:
  "asks (\<lambda>r cs. (cs = [] \<and> (\<forall>x. r \<noteq> Inr x)) \<or> (\<exists>f. cs = [f] \<and> asks_price price f)) (subscribe_nmi svc d user priceID price)"
proof -
  have request: "asks (\<lambda>r cs. (cs = [] \<and> (\<forall>x. r \<noteq> Inr x)) \<or> (\<exists>f. cs = [f] \<and> asks_price price f))
      (request_subscription svc d user priceID client i q provider window made)"
    if "q = subscribe_params svc d user price i\<lparr>rd_CustomerVaultID := v\<rparr> \<or> q = subscribe_params svc d user price i\<lparr>rd_PaymentToken := v\<rparr>"
    for client i q v provider window made
    by (rule asks_mono [OF asks_request]) (use that in \<open>auto simp: subscribe_params_def intro!: asks_price_form\<close>)
  note request [OF disjI1 [OF refl]] request [OF disjI2 [OF refl]]
  show ?thesis
    unfolding subscribe_nmi_def Let_def
    by (auto split: sum.split prod.split intro!: asks_after sends_intros
      request [OF disjI1 [OF refl]] request [OF disjI2 [OF refl]])
qed

section \<open>Subscribe\<close>

text \<open>What subscribing may have posted since the world \<open>w\<close>.\<close>

definition charged_once :: "subscription_service \<Rightarrow> subscribe_data \<Rightarrow> user_identity \<Rightarrow> world \<Rightarrow> subscribe_result res \<Rightarrow> world \<Rightarrow> bool" where
  "charged_once svc d user w r w' \<longleftrightarrow> (\<exists>fs. w_sent w' = w_sent w @ fs \<and> length (charges fs) \<le> 1 \<and> (\<forall>x. r = Inr (Subscribed x) \<longrightarrow> charges fs \<noteq> []) \<and>
    (\<forall>f \<in> set (charges fs). \<exists>i p. ss_ParseID svc (sd_PriceID d) = Inr i \<and> price_by_id (w_db w) i = Some p \<and> price_IsActive p \<and>
       asks_price p f \<and> (\<forall>s. latest_by_user (w_db w) (ui_ID user) = Some s \<longrightarrow> sub_Status s \<noteq> StatusActive)))"

lemma charged_nothing: "w_sent w' = w_sent w \<Longrightarrow> (\<forall>x. r \<noteq> Inr (Subscribed x)) \<Longrightarrow> charged_once svc d user w r w'"
  unfolding charged_once_def by (intro exI [of _ "[]"]) simp

lemma wp_price:
  "wp (available_price svc i) (\<lambda>r w'. w_db w' = w_db w \<and> w_sent w' = w_sent w \<and>
     (\<forall>p. r = Inr p \<longrightarrow> price_by_id (w_db w) i = Some p \<and> price_IsActive p)) w"
  by (auto simp: available_price_def available_product_def Price_GetByID_def Product_GetByID_def wp_simps scan_row_def view_def
    split: option.split)

lemma wp_no_active:
  "wp (no_active_subscription u) (\<lambda>r w'. w_sent w' = w_sent w \<and>
     (r = Inr () \<longrightarrow> (\<forall>s. latest_by_user (w_db w) u = Some s \<longrightarrow> sub_Status s \<noteq> StatusActive))) w"
proof -
  have "db_fault Pool w = Some e \<Longrightarrow> \<not> err_is e ErrNoRows" for e
    using db_fault_DbErr [of Pool w e] by (auto simp: ErrNoRows_def)
  then show ?thesis
    by (auto simp: no_active_subscription_def SubRepo_GetLatestByUserID_def wp_simps scan_row_def view_def with_details_def split: option.split)
qed

lemma charged_once_nmi:
  assumes "ss_ParseID svc (sd_PriceID d) = Inr i" "price_by_id (w_db w) i = Some p" "price_IsActive p" "w_sent w2 = w_sent w"
    "\<forall>s. latest_by_user (w_db w) (ui_ID user) = Some s \<longrightarrow> sub_Status s \<noteq> StatusActive"
  shows "wp (subscribe_nmi svc d user i p) (charged_once svc d user w) w2"
proof -
  have "wp (subscribe_nmi svc d user i p) (\<lambda>r w'. \<exists>fs. w_sent w' = w_sent w2 @ fs \<and>
      ((charges fs = [] \<and> (\<forall>x. r \<noteq> Inr x)) \<or> (\<exists>f. charges fs = [f] \<and> asks_price p f))) w2"
    using asks_subscribe_nmi [of p svc d user i] unfolding asks_def by blast
  then show ?thesis
    by (rule wp_mono) (use assms in \<open>fastforce simp: charged_once_def\<close>)
qed

lemma charged_once_price:
  assumes i: "ss_ParseID svc (sd_PriceID d) = Inr i"
    and w1: "w_db w1 = w_db w \<and> w_sent w1 = w_sent w \<and> (\<forall>p. r = Inr p \<longrightarrow> price_by_id (w_db w) i = Some p \<and> price_IsActive p)"
  shows "wp (case r of Inl e \<Rightarrow> throw e | Inr p \<Rightarrow> do {
      a \<leftarrow> no_active_subscription (ui_ID user);
      (case a of
         Inl e \<Rightarrow> throw e
       | Inr _ \<Rightarrow>
           if sd_Processor d = '''' \<or> sd_Processor d = ''ccbill'' then ok RedirectRequired
           else if sd_Processor d = ''nmi'' then subscribe_nmi svc d user i p
           else throw (ErrNew ''invalid payment processor''))
    }) (charged_once svc d user w) w1"
proof (cases r)
  case (Inl e)
  then show ?thesis using w1 by (simp add: wp_throw charged_nothing)
next
  case (Inr p)
  with w1 have "price_by_id (w_db w) i = Some p" "price_IsActive p" "w_db w1 = w_db w" "w_sent w1 = w_sent w" by auto
  then show ?thesis
    unfolding Inr sum.case wp_bind
    by (intro wp_mono [OF wp_no_active])
      (auto simp: wp_simps split: sum.split intro!: charged_nothing charged_once_nmi i)
qed

text \<open>
  C6. Whatever fails and whatever the gateway answers, subscribing posts at most one request for a subscription; if it
  posts one, the price that the body names is an active one of the catalogue, the request carries that price's plan,
  amount and currency, and the latest subscription of the user is not active; and it reports a subscription only
  if it has posted one.
\<close>

theorem subscribe_charges_once:
  assumes "run_state (Subscribe svc d user) w = (r, w')"
  shows "\<exists>fs. w_sent w' = w_sent w @ fs \<and> length (charges fs) \<le> 1 \<and> (\<forall>x. r = Inr (Subscribed x) \<longrightarrow> charges fs \<noteq> []) \<and>
    (\<forall>f \<in> set (charges fs). \<exists>i p. ss_ParseID svc (sd_PriceID d) = Inr i \<and> price_by_id (w_db w) i = Some p \<and> price_IsActive p \<and>
       asks_price p f \<and> (\<forall>s. latest_by_user (w_db w) (ui_ID user) = Some s \<longrightarrow> sub_Status s \<noteq> StatusActive))"
proof -
  have "wp (Subscribe svc d user) (charged_once svc d user w) w"
  proof (cases "ss_ParseID svc (sd_PriceID d)")
    case (Inl m)
    then show ?thesis by (auto simp: Subscribe_def parse_id_def wp_simps intro: charged_nothing)
  next
    case (Inr i)
    have parsed: "parse_id svc ''invalid price ID'' (sd_PriceID d) = Inr i"
      by (simp add: parse_id_def Inr)
    show ?thesis
      unfolding Subscribe_def parsed sum.case
      by (subst wp_bind, rule wp_mono [OF wp_price]) (rule charged_once_price [OF Inr])
  qed
  then show ?thesis using assms unfolding charged_once_def by (rule wp_run)
qed


definition sample_service :: subscription_service where
  "sample_service = \<lparr>ss_ParseID = (\<lambda>s. if s = ''ten'' then Inr 10 else Inl ''invalid UUID length''), ss_IDString = show_nat,
     ss_Products = True, ss_NMIClients = Some sample_clients, ss_Methods = True, ss_Vault = Some sample_clients, ss_Idempotency = True\<rparr>"

definition sample_request :: subscribe_data where
  "sample_request = \<lparr>sd_Email = ''a@b'', sd_FirstName = '''', sd_LastName = '''', sd_Address1 = '''', sd_City = '''', sd_State = '''',
     sd_Zip = '''', sd_Country = '''', sd_PriceID = ''ten'', sd_Processor = ''nmi'', sd_Provider = '''', sd_PaymentToken = ''tok'',
     sd_PaymentMethodID = ''''\<rparr>"

text \<open>A user with an active subscription is not charged again.\<close>

theorem subscribe_charges_once_witness:
  "\<exists>r w'. run_state (Subscribe sample_service sample_request \<lparr>ui_ID = ''alice'', ui_Email = None, ui_Username = ''alice''\<rparr>) sample_world = (r, w') \<and>
     charges (w_sent w') = []"
proof -
  obtain r w' where run: "run_state (Subscribe sample_service sample_request \<lparr>ui_ID = ''alice'', ui_Email = None, ui_Username = ''alice''\<rparr>)
      sample_world = (r, w')" by fastforce
  have sent: "w_sent sample_world = []" by (simp add: sample_world_def)
  have "latest_by_user (w_db sample_world) ''alice'' = Some sample_sub" "sub_Status sample_sub = StatusActive"
    by (simp_all add: sample_world_def sample_tables_def sample_sub_def latest_by_user_def)
  then have "charges (w_sent w') = []"
    using subscribe_charges_once [OF run] sent by (cases "charges (w_sent w')") auto
  with run show ?thesis by blast
qed

end
