(* ===== verification/Spool.thy ===== *)
theory Spool
  imports Email
begin

text \<open>
  \<open>pkg/spool/spool.go\<close>: records that wait for a later write, one file each in a directory whose size is capped. The directory
  is the list of its entries; \<open>disk_env\<close> says which calls of the file system fail. \<open>encode\<close> and \<open>dec\<close> are \<open>encoding/json\<close>
  on a record.
\<close>

section \<open>The file system\<close>

datatype node = File string | Folder "(string \<times> node) list"

type_synonym dir = "(string \<times> node) list"

datatype spool_err = NotExist | OsError string | SpoolError string | SpoolWrap string spool_err

text \<open>A write that fails may leave a part of the file; the other calls that fail leave the directory as it is.\<close>

record disk_env =
  de_Mkdir :: "spool_err option"
  de_Write :: "string \<Rightarrow> (spool_err \<times> string option) option"
  de_ReadDir :: "spool_err option"
  de_Stat :: "string \<Rightarrow> bool"
  de_Read :: "string \<Rightarrow> spool_err option"
  de_Remove :: "string \<Rightarrow> spool_err option"
  de_Rename :: "spool_err option"

definition put_file :: "string \<Rightarrow> string \<Rightarrow> dir \<Rightarrow> dir" where
  "put_file n c d = filter (\<lambda>e. fst e \<noteq> n) d @ [(n, File c)]"

definition write_file :: "disk_env \<Rightarrow> string \<Rightarrow> string \<Rightarrow> dir \<Rightarrow> dir \<times> (spool_err + unit)" where
  "write_file env n c d = (case de_Write env n of
     Some (e, left) \<Rightarrow> ((case left of None \<Rightarrow> d | Some c' \<Rightarrow> put_file n c' d), Inl e)
   | None \<Rightarrow> (case map_of d n of
       Some (Folder _) \<Rightarrow> (d, Inl (OsError ''is a directory''))
     | _ \<Rightarrow> (put_file n c d, Inr ())))"

definition remove_file :: "disk_env \<Rightarrow> string \<Rightarrow> dir \<Rightarrow> dir \<times> (spool_err + unit)" where
  "remove_file env n d = (case de_Remove env n of
     Some e \<Rightarrow> (d, Inl e)
   | None \<Rightarrow> (case map_of d n of
       None \<Rightarrow> (d, Inl NotExist)
     | Some (Folder (_ # _)) \<Rightarrow> (d, Inl (OsError ''directory not empty''))
     | _ \<Rightarrow> (filter (\<lambda>e. fst e \<noteq> n) d, Inr ())))"

definition rename_file :: "disk_env \<Rightarrow> string \<Rightarrow> string \<Rightarrow> dir \<Rightarrow> dir \<times> (spool_err + unit)" where
  "rename_file env a b d = (case de_Rename env of
     Some e \<Rightarrow> (d, Inl e)
   | None \<Rightarrow> (case (map_of d a, map_of d b) of
       (None, _) \<Rightarrow> (d, Inl NotExist)
     | (Some (File c), Some (Folder _)) \<Rightarrow> (d, Inl (OsError ''file exists''))
     | (Some x, _) \<Rightarrow> (filter (\<lambda>e. fst e \<noteq> a \<and> fst e \<noteq> b) d @ [(b, x)], Inr ())))"

text \<open>The names of the files, as \<open>os.ReadDir\<close> and \<open>sort.Strings\<close> leave them, and the size \<open>os.Stat\<close> reports.\<close>

fun is_file :: "node \<Rightarrow> bool" where
  "is_file (File c) = True"
| "is_file (Folder d) = False"

definition file_names :: "dir \<Rightarrow> string list" where
  "file_names d = sort (map fst (filter (\<lambda>e. is_file (snd e)) d))"

definition stat_size :: "disk_env \<Rightarrow> dir \<Rightarrow> string \<Rightarrow> int option" where
  "stat_size env d n = (if \<not> de_Stat env n then None else (case map_of d n of
     None \<Rightarrow> None | Some (File c) \<Rightarrow> Some (int (length c)) | Some (Folder _) \<Rightarrow> Some 4096))"

section \<open>The spool\<close>

record spool =
  sp_dir :: string
  sp_maxBytes :: int
  sp_maxFiles :: int
  sp_lowWMScale :: rat

definition New_spool :: "disk_env \<Rightarrow> string \<Rightarrow> spool_err + spool" where
  "New_spool env dir = (case de_Mkdir env of
     Some e \<Rightarrow> Inl (SpoolWrap ''create spool dir'' e)
   | None \<Rightarrow> Inr \<lparr>sp_dir = (if dir = '''' then ''/var/lib/doujins-billing/spool'' else dir),
       sp_maxBytes = 2 ^ 30, sp_maxFiles = 0, sp_lowWMScale = 9 / 10\<rparr>)"

text \<open>The conversion of a scaled cap truncates.\<close>

definition scaled :: "int \<Rightarrow> rat \<Rightarrow> int" where
  "scaled n s = (if 0 \<le> of_int n * s then \<lfloor>of_int n * s\<rfloor> else \<lceil>of_int n * s\<rceil>)"

definition fits :: "spool \<Rightarrow> int \<Rightarrow> int \<Rightarrow> int \<Rightarrow> int \<Rightarrow> bool" where
  "fits s bytes files capBytes capFiles \<longleftrightarrow>
     (sp_maxBytes s > 0 \<longrightarrow> bytes \<le> capBytes) \<and> (sp_maxFiles s > 0 \<longrightarrow> files \<le> capFiles)"

text \<open>The oldest files are deleted until what is left fits; the flag says whether it ever does.\<close>

fun delete_oldest :: "disk_env \<Rightarrow> (int \<Rightarrow> int \<Rightarrow> bool) \<Rightarrow> int \<Rightarrow> int \<Rightarrow> string list \<Rightarrow> dir \<Rightarrow> dir \<times> bool" where
  "delete_oldest env below used files [] d = (d, False)"
| "delete_oldest env below used files (n # ns) d =
     (let used' = used - (case stat_size env d n of None \<Rightarrow> 0 | Some k \<Rightarrow> k);
          d' = fst (remove_file env n d) in
      if below used' (files - 1) then (d', True) else delete_oldest env below used' (files - 1) ns d')"

definition enforceCapacity :: "disk_env \<Rightarrow> spool \<Rightarrow> int \<Rightarrow> int \<Rightarrow> dir \<Rightarrow> dir \<times> (spool_err + unit)" where
  "enforceCapacity env s newSize newFiles d =
     (if \<not> sp_maxBytes s > 0 \<and> \<not> sp_maxFiles s > 0 then (d, Inr ())
      else (case de_ReadDir env of
        Some e \<Rightarrow> (d, Inl e)
      | None \<Rightarrow>
          let names = file_names d;
              used = sum_list (map (\<lambda>n. case stat_size env d n of None \<Rightarrow> 0 | Some k \<Rightarrow> k) names);
              files = int (length names) in
          if fits s (used + newSize) (files + newFiles) (sp_maxBytes s) (sp_maxFiles s) then (d, Inr ())
          else
            let targetBytes = scaled (sp_maxBytes s) (sp_lowWMScale s);
                targetFiles = scaled (sp_maxFiles s) (sp_lowWMScale s);
                (d', under) = delete_oldest env (\<lambda>u f. fits s (u + newSize) (f + newFiles) targetBytes targetFiles) used files names d in
            if under then (d', Inr ())
            else if sp_maxBytes s > 0 \<and> newSize > sp_maxBytes s then (d', Inl (SpoolError ''spool record exceeds max bytes cap''))
            else if sp_maxFiles s > 0 \<and> newFiles > sp_maxFiles s then (d', Inl (SpoolError ''spool record exceeds max files cap''))
            else (d', Inr ())))"

section \<open>Queueing and reading\<close>

text \<open>\<open>Format\<close> with the layout \<open>20060102T150405.000000000Z07:00\<close> in UTC, for years from 0 to 9999.\<close>

definition zero_pad :: "nat \<Rightarrow> int \<Rightarrow> string" where
  "zero_pad k n = (let s = show_int n in replicate (k - length s) CHR ''0'' @ s)"

definition stamp :: "time \<Rightarrow> string" where
  "stamp t = (case civil t of (y, m, d) \<Rightarrow> let ns = t mod day_ns; sec = ns div 1000000000 in
     zero_pad 4 y @ zero_pad 2 m @ zero_pad 2 d @ ''T'' @
     zero_pad 2 (sec div 3600) @ zero_pad 2 (sec div 60 mod 60) @ zero_pad 2 (sec mod 60) @ ''.'' @
     zero_pad 9 (ns mod 1000000000) @ ''Z'')"

text \<open>Nanoseconds since 1970 as an \<open>int64\<close>.\<close>

definition UnixNano :: "time \<Rightarrow> int" where
  "UnixNano t = sint (of_int (t - days_civil 1970 1 1 * day_ns) :: 64 word)"

definition record_name :: "time \<Rightarrow> time \<Rightarrow> string" where
  "record_name t1 t2 = stamp t1 @ ''_'' @ show_int (UnixNano t2) @ ''.json''"

text \<open>\<open>t1\<close> and \<open>t2\<close> are the two readings of the clock.\<close>

definition Enqueue :: "disk_env \<Rightarrow> ('r \<Rightarrow> spool_err + string) \<Rightarrow> spool \<Rightarrow> time \<Rightarrow> time \<Rightarrow> 'r \<Rightarrow> dir \<Rightarrow> dir \<times> (spool_err + unit)" where
  "Enqueue env encode s t1 t2 rec d = (let name = record_name t1 t2; tmp = name @ ''.tmp'' in
     case encode rec of
       Inl e \<Rightarrow> (d, Inl e)
     | Inr data \<Rightarrow> (case write_file env tmp data d of
         (d1, Inl e) \<Rightarrow> (d1, Inl e)
       | (d1, Inr _) \<Rightarrow> (case enforceCapacity env s (int (length data)) 1 d1 of
           (d2, Inl e) \<Rightarrow> (fst (remove_file env tmp d2), Inl e)
         | (d2, Inr _) \<Rightarrow> rename_file env tmp name d2)))"

definition List_spool :: "disk_env \<Rightarrow> spool \<Rightarrow> int \<Rightarrow> dir \<Rightarrow> spool_err + string list" where
  "List_spool env s limit d = (case de_ReadDir env of
     Some e \<Rightarrow> if e = NotExist then Inr [] else Inl e
   | None \<Rightarrow> let names = file_names d in
       Inr (map (\<lambda>n. sp_dir s @ ''/'' @ n) (if limit > 0 \<and> int (length names) > limit then take (nat limit) names else names)))"

definition Read_spool :: "disk_env \<Rightarrow> (string \<Rightarrow> spool_err + 'r) \<Rightarrow> string \<Rightarrow> dir \<Rightarrow> spool_err + 'r \<times> string" where
  "Read_spool env dec n d = (case de_Read env n of
     Some e \<Rightarrow> Inl e
   | None \<Rightarrow> (case map_of d n of
       None \<Rightarrow> Inl NotExist
     | Some (Folder _) \<Rightarrow> Inl (OsError ''is a directory'')
     | Some (File b) \<Rightarrow> (case dec b of Inl e \<Rightarrow> Inl e | Inr r \<Rightarrow> Inr (r, b))))"

definition Remove_spool :: "disk_env \<Rightarrow> string \<Rightarrow> dir \<Rightarrow> dir \<times> (spool_err + unit)" where
  "Remove_spool env n d = (case remove_file env n d of
     (d', Inl e) \<Rightarrow> if e \<noteq> NotExist then (d', Inl e) else (d', Inr ())
   | (d', Inr _) \<Rightarrow> (d', Inr ()))"

text \<open>The bytes of the files in the tree.\<close>

fun node_size :: "node \<Rightarrow> int" where
  "node_size (File c) = int (length c)"
| "node_size (Folder d) = sum_list (map (\<lambda>e. node_size (snd e)) d)"

definition DiskUsage :: "disk_env \<Rightarrow> dir \<Rightarrow> int \<times> spool_err option" where
  "DiskUsage env d = (case de_ReadDir env of Some e \<Rightarrow> (0, Some e) | None \<Rightarrow> (node_size (Folder d), None))"


section \<open>The cap\<close>

definition bytes :: "dir \<Rightarrow> int" where
  "bytes d = sum_list (map (\<lambda>e. if is_file (snd e) then node_size (snd e) else 0) d)"

text \<open>No call fails.\<close>

definition reliable :: "disk_env \<Rightarrow> bool" where
  "reliable env \<longleftrightarrow> (\<forall>n. de_Write env n = None \<and> de_Stat env n \<and> de_Remove env n = None) \<and> de_ReadDir env = None \<and> de_Rename env = None"

abbreviation without :: "string \<Rightarrow> dir \<Rightarrow> dir" where
  "without n d \<equiv> filter (\<lambda>e. fst e \<noteq> n) d"

lemma sum_list_insort: "sum_list (map f (insort x xs)) = f x + (sum_list (map f xs) :: int)"
  by (induction xs) auto

lemma sum_list_sort: "sum_list (map f (sort xs)) = (sum_list (map f xs) :: int)"
  by (induction xs) (simp_all add: sum_list_insort)

lemma stat_entry:
  "reliable env \<Longrightarrow> distinct (map fst d) \<Longrightarrow> e \<in> set d \<Longrightarrow> is_file (snd e) \<Longrightarrow> stat_size env d (fst e) = Some (node_size (snd e))"
  by (cases e; cases "snd e") (simp_all add: stat_size_def reliable_def)

lemma used_is_bytes:
  assumes "reliable env" "distinct (map fst d)"
  shows "sum_list (map (\<lambda>n. case stat_size env d n of None \<Rightarrow> 0 | Some k \<Rightarrow> k) (file_names d)) = bytes d"
proof -
  let ?f = "\<lambda>n. case stat_size env d n of None \<Rightarrow> 0 | Some k \<Rightarrow> k"
  have "sum_list (map ?f (file_names d)) = sum_list (map (\<lambda>e. ?f (fst e)) (filter (\<lambda>e. is_file (snd e)) d))"
    by (simp add: file_names_def sum_list_sort comp_def)
  also have "\<dots> = sum_list (map (\<lambda>e. node_size (snd e)) (filter (\<lambda>e. is_file (snd e)) d))"
    using stat_entry [OF assms] by (intro arg_cong [where f = sum_list] map_cong) auto
  also have "\<dots> = bytes d" by (simp add: bytes_def sum_list_map_filter')
  finally show ?thesis .
qed

lemma file_names_set: "set (file_names d) = fst ` {e \<in> set d. is_file (snd e)}"
  by (auto simp: file_names_def)

lemma file_names_distinct: "distinct (map fst d) \<Longrightarrow> distinct (file_names d)"
  by (auto simp: file_names_def distinct_map inj_on_def)

lemma distinct_without: "distinct (map fst d) \<Longrightarrow> distinct (map fst (without n d))"
  by (simp add: distinct_map_filter)

lemma file_names_without:
  assumes "distinct (map fst d)" "file_names d = n # ns"
  shows "file_names (without n d) = ns"
proof -
  have "file_names (without n d) = filter (\<lambda>x. x \<noteq> n) (file_names d)"
    by (simp add: file_names_def filter_sort filter_map comp_def conj_commute)
  also have "\<dots> = ns"
    using assms(2) file_names_distinct [OF assms(1)] by (auto simp: filter_id_conv)
  finally show ?thesis .
qed

lemma bytes_without:
  assumes "distinct (map fst d)" "(n, x) \<in> set d"
  shows "bytes (without n d) = bytes d - (if is_file x then node_size x else 0)"
  using assms
proof (induction d)
  case (Cons e d)
  show ?case
  proof (cases "e = (n, x)")
    case True
    then have "without n d = d" using Cons.prems(1) by (auto simp: filter_id_conv)
    with True show ?thesis by (simp add: bytes_def)
  next
    case False
    then have "(n, x) \<in> set d" "fst e \<noteq> n" using Cons.prems by (auto simp: image_iff)
    with Cons show ?thesis by (simp add: bytes_def)
  qed
qed simp

text \<open>Deleting the oldest files takes away a prefix of the sorted names, and the count of the bytes used stays exact.\<close>

lemma delete_oldest_spec:
  assumes "reliable env" "distinct (map fst d)" "file_names d = ns" "delete_oldest env below (bytes d) f ns d = (d', b)"
  shows "\<exists>k. file_names d' = drop k ns \<and> d' = filter (\<lambda>e. fst e \<notin> set (take k ns)) d \<and>
     (if b then \<exists>f'. below (bytes d') f' else file_names d' = [])"
  using assms(2-4)
proof (induction ns arbitrary: d f)
  case Nil
  then show ?case by auto
next
  case (Cons n ns)
  have "n \<in> set (file_names d)" using Cons.prems by simp
  then obtain x where x: "(n, x) \<in> set d" "is_file x" by (auto simp: file_names_set)
  then obtain c where c: "x = File c" by (cases x) auto
  have m: "map_of d n = Some x" using x Cons.prems(1) by simp
  have r: "fst (remove_file env n d) = without n d"
    using assms(1) by (simp add: remove_file_def reliable_def m c)
  have u: "bytes d - (case stat_size env d n of None \<Rightarrow> 0 | Some k \<Rightarrow> k) = bytes (without n d)"
    using assms(1) by (simp add: bytes_without [OF Cons.prems(1) x(1)] c stat_size_def m reliable_def)
  have names: "file_names (without n d) = ns" by (rule file_names_without [OF Cons.prems(1,2)])
  have more: "filter (\<lambda>e. fst e \<notin> set (take k ns)) (without n d) = filter (\<lambda>e. fst e \<notin> set (take (Suc k) (n # ns))) d" for k
    by (auto intro: filter_cong)
  show ?case
  proof (cases "below (bytes (without n d)) (f - 1)")
    case True
    then show ?thesis using Cons.prems(3) names more [of 0]
      by (intro exI [of _ 1]) (auto simp: r u Let_def)
  next
    case False
    then have "delete_oldest env below (bytes (without n d)) (f - 1) ns (without n d) = (d', b)"
      using Cons.prems(3) by (simp add: r u Let_def)
    from Cons.IH [OF distinct_without [OF Cons.prems(1)] names this]
    obtain k where "file_names d' = drop k ns" "d' = filter (\<lambda>e. fst e \<notin> set (take k ns)) (without n d)"
      "if b then \<exists>f'. below (bytes d') f' else file_names d' = []" by blast
    then show ?thesis unfolding more by (intro exI [of _ "Suc k"]) simp
  qed
qed


lemma scaled_le: "0 \<le> n \<Longrightarrow> 0 \<le> s \<Longrightarrow> s \<le> 1 \<Longrightarrow> scaled n s \<le> n"
  using mult_left_mono [of s 1 "of_int n"] by (simp add: scaled_def floor_le_iff)

lemma enforce_fits:
  "reliable env \<Longrightarrow> distinct (map fst d) \<Longrightarrow> fits s (bytes d + n) (int (length (file_names d)) + f) (sp_maxBytes s) (sp_maxFiles s) \<Longrightarrow>
     enforceCapacity env s n f d = (d, Inr ())"
  using used_is_bytes [of env d] by (simp add: enforceCapacity_def Let_def reliable_def)

lemma enforce_within:
  assumes "reliable env" "distinct (map fst d)" "sp_maxBytes s > 0" "0 \<le> sp_lowWMScale s" "sp_lowWMScale s \<le> 1"
    and run: "enforceCapacity env s n f d = (d', Inr ())"
  shows "\<exists>k. d' = filter (\<lambda>e. fst e \<notin> set (take k (file_names d))) d \<and> (bytes d' + n \<le> sp_maxBytes s \<or> file_names d' = [])"
proof -
  let ?names = "file_names d"
  let ?below = "\<lambda>u g. fits s (u + n) (g + f) (scaled (sp_maxBytes s) (sp_lowWMScale s)) (scaled (sp_maxFiles s) (sp_lowWMScale s))"
  have target: "scaled (sp_maxBytes s) (sp_lowWMScale s) \<le> sp_maxBytes s" using assms by (intro scaled_le) auto
  have dir: "de_ReadDir env = None" using assms(1) by (simp add: reliable_def)
  note enter = enforceCapacity_def [of env s n f d] Let_def used_is_bytes [OF assms(1,2)] dir
  show ?thesis
  proof (cases "fits s (bytes d + n) (int (length ?names) + f) (sp_maxBytes s) (sp_maxFiles s)")
    case True
    then show ?thesis using run assms(3) enforce_fits [OF assms(1,2) True] by (intro exI [of _ 0]) (auto simp: fits_def)
  next
    case False
    obtain d2 b where del: "delete_oldest env ?below (bytes d) (int (length ?names)) ?names d = (d2, b)" by fastforce
    have "d2 = d'" using run False assms(3) by (auto simp: enter del split: if_splits)
    moreover obtain k where "d2 = filter (\<lambda>e. fst e \<notin> set (take k ?names)) d"
      "if b then \<exists>f'. ?below (bytes d2) f' else file_names d2 = []"
      using delete_oldest_spec [OF assms(1,2) refl del] by blast
    ultimately show ?thesis using target assms(3) by (intro exI [of _ k]) (auto simp: fits_def split: if_splits)
  qed
qed

lemma bytes_filter: "bytes (filter P d) \<le> bytes d"
proof -
  have "0 \<le> node_size x" if "is_file x" for x using that by (cases x) simp_all
  then show ?thesis by (induction d) (auto simp: bytes_def add_increasing)
qed

lemma bytes_append: "bytes (xs @ ys) = bytes xs + bytes ys"
  by (simp add: bytes_def)

lemma sorted_take_below:
  assumes "sorted xs" "b \<in> set (take k xs)" "a \<in> set xs" "(a :: string) < b"
  shows "a \<in> set (take k xs)"
proof (rule ccontr)
  assume "a \<notin> set (take k xs)"
  then have "a \<in> set (drop k xs)" using assms(3) append_take_drop_id [of k xs] by (metis Un_iff set_append)
  then have "b \<le> a" using assms(1,2) append_take_drop_id [of k xs] by (metis sorted_append)
  with assms(4) show False by simp
qed

lemma rename_done:
  assumes "reliable env" "distinct (map fst d)" "a \<noteq> b" "rename_file env a b d = (d', Inr ())"
  obtains x where "(a, x) \<in> set d" "d' = filter (\<lambda>e. fst e \<noteq> a \<and> fst e \<noteq> b) d @ [(b, x)]"
  using assms by (auto simp: rename_file_def reliable_def split: option.splits node.splits dest: map_of_SomeD)

text \<open>
  C32. When no call of the file system fails, a record that is accepted is in the spool, the files then take at most the
  cap less the size of the record once more (it is counted as a file and as a new record), and files are given up from the
  oldest on: if a file is missing afterwards, so is every older one.
\<close>

theorem spool_keeps_cap:
  assumes "reliable env" "distinct (map fst d)" "sp_maxBytes s > 0" "0 \<le> sp_lowWMScale s" "sp_lowWMScale s \<le> 1"
    and run: "Enqueue env encode s t1 t2 rec d = (d', Inr ())"
  shows "\<exists>data. encode rec = Inr data \<and> map_of d' (record_name t1 t2) = Some (File data) \<and>
    bytes d' + int (length data) \<le> sp_maxBytes s \<and>
    (\<forall>a b. a \<in> set (file_names d) \<longrightarrow> b \<in> set (file_names d) - {record_name t1 t2, record_name t1 t2 @ ''.tmp''} \<longrightarrow> a < b \<longrightarrow>
       map_of d' b = None \<longrightarrow> a \<noteq> record_name t1 t2 \<longrightarrow> map_of d' a = None)"
proof -
  let ?name = "record_name t1 t2"
  let ?tmp = "?name @ ''.tmp''"
  obtain data where data: "encode rec = Inr data" using run by (auto simp: Enqueue_def Let_def split: sum.splits)
  define d1 where "d1 = put_file ?tmp data d"
  have w: "write_file env ?tmp data d = (d1, Inr ())"
    using run data assms(1) by (auto simp: Enqueue_def write_file_def reliable_def d1_def Let_def split: option.splits node.splits)
  obtain d2 where e: "enforceCapacity env s (int (length data)) 1 d1 = (d2, Inr ())" and mv: "rename_file env ?tmp ?name d2 = (d', Inr ())"
    using run data w by (auto simp: Enqueue_def Let_def split: prod.splits sum.splits)
  have d1: "distinct (map fst d1)" using assms(2) by (auto simp: d1_def put_file_def distinct_map_filter)
  obtain k where k: "d2 = filter (\<lambda>e. fst e \<notin> set (take k (file_names d1))) d1"
    and cap: "bytes d2 + int (length data) \<le> sp_maxBytes s \<or> file_names d2 = []"
    using enforce_within [OF assms(1) d1 assms(3-5) e] by blast
  have d2: "distinct (map fst d2)" using d1 by (simp add: k distinct_map_filter)
  obtain x where x: "(?tmp, x) \<in> set d2" and d': "d' = filter (\<lambda>e. fst e \<noteq> ?tmp \<and> fst e \<noteq> ?name) d2 @ [(?name, x)]"
    using rename_done [OF assms(1) d2 _ mv] by auto
  have "x = File data" using x by (auto simp: k d1_def put_file_def split: if_splits)
  note x = x [unfolded this] and d' = d' [unfolded this]
  have "file_names d2 \<noteq> []" using x file_names_set [of d2] by force
  moreover have "bytes d' \<le> bytes d2"
    using bytes_without [OF d2 x] bytes_filter [of "\<lambda>e. fst e \<noteq> ?name" "without ?tmp d2"]
    by (simp add: d' bytes_append conj_commute) (simp add: bytes_def)
  moreover have found: "map_of d' ?name = Some (File data)" by (auto simp: d' map_add_def split: option.split dest: map_of_SomeD)
  moreover have "map_of d' a = None"
    if a: "a \<in> set (file_names d)" "b \<in> set (file_names d) - {?name, ?tmp}" "a < b" "map_of d' b = None" "a \<noteq> ?name" for a b
  proof (cases "a = ?tmp")
    case False
    have "a \<in> set (file_names d1)" "b \<in> set (file_names d1)" using a False by (auto simp: file_names_set d1_def put_file_def)
    moreover have "b \<in> set (take k (file_names d1))"
      using a(2,4) \<open>b \<in> set (file_names d1)\<close> by (auto simp: map_of_eq_None_iff d' k file_names_set image_iff)
    moreover have "sorted (file_names d1)" by (simp add: file_names_def)
    ultimately have "a \<in> set (take k (file_names d1))"
      using a(3) sorted_take_below by blast
    with a(5) show ?thesis by (auto simp: map_of_eq_None_iff d' k)
  qed (auto simp: map_of_eq_None_iff d')
  ultimately show ?thesis using cap data by (intro exI [of _ data]) auto
qed


definition sample_disk :: disk_env where
  "sample_disk = \<lparr>de_Mkdir = None, de_Write = \<lambda>_. None, de_ReadDir = None, de_Stat = \<lambda>_. True, de_Read = \<lambda>_. None,
     de_Remove = \<lambda>_. None, de_Rename = None\<rparr>"

definition sample_spool :: spool where
  "sample_spool = \<lparr>sp_dir = ''/s'', sp_maxBytes = 2 ^ 30, sp_maxFiles = 0, sp_lowWMScale = 9 / 10\<rparr>"

lemma reliable_sample: "reliable sample_disk"
  by (simp add: reliable_def sample_disk_def)

text \<open>A second record joins the one that is there, under the caps of \<open>New\<close>.\<close>

theorem spool_keeps_cap_witness:
  "New_spool sample_disk ''/s'' = Inr sample_spool \<and>
   (\<exists>d'. Enqueue sample_disk Inr sample_spool 0 0 ''data'' [(''0'', File ''old'')] = (d', Inr ()) \<and>
      map_of d' (record_name 0 0) = Some (File ''data'') \<and> bytes d' + 4 \<le> 2 ^ 30)"
proof -
  let ?d = "[(''0'', File ''old'')]" and ?tmp = "record_name 0 0 @ ''.tmp''"
  let ?d1 = "?d @ [(?tmp, File ''data'')]"
  have name: "?tmp \<noteq> ''0''" "record_name 0 0 \<noteq> ''0''" by (simp_all add: record_name_def)
  have "write_file sample_disk ?tmp ''data'' ?d = (?d1, Inr ())"
    using name by (simp add: write_file_def sample_disk_def put_file_def)
  moreover have "distinct (map fst ?d1)" "bytes ?d1 = 7" using name by (simp_all add: bytes_def)
  then have "enforceCapacity sample_disk sample_spool 4 1 ?d1 = (?d1, Inr ())"
    by (intro enforce_fits [OF reliable_sample]) (simp_all add: fits_def sample_spool_def)
  moreover have "rename_file sample_disk ?tmp (record_name 0 0) ?d1 = ([(''0'', File ''old''), (record_name 0 0, File ''data'')], Inr ())"
    using name by (simp add: rename_file_def sample_disk_def)
  ultimately have run: "Enqueue sample_disk Inr sample_spool 0 0 ''data'' ?d = ([(''0'', File ''old''), (record_name 0 0, File ''data'')], Inr ())"
    by (simp add: Enqueue_def Let_def)
  have "New_spool sample_disk ''/s'' = Inr sample_spool" by (simp add: New_spool_def sample_disk_def sample_spool_def)
  moreover have "sp_maxBytes sample_spool = 2 ^ 30" "sp_lowWMScale sample_spool = 9 / 10" by (simp_all add: sample_spool_def)
  ultimately show ?thesis using spool_keeps_cap [OF reliable_sample _ _ _ _ run] run by auto
qed

end
