(* ===== verification/Runtime.thy ===== *)
theory Runtime
  imports Subscribe CCBill_Client Solana_API Webhook_Retry
begin

text \<open>
  \<open>internal/app\<close>: what the start derives from the configuration (\<open>build_runtime.go\<close>, \<open>app.go\<close>), the background workers
  (\<open>river_register.go\<close>, \<open>runtime.go\<close>), the cache that follows Redis, and the shutdown. Whether a service answers is a parameter.
  The list of NMI providers is a Go map in the order of the iteration.
\<close>

section \<open>The clients of the gateways\<close>

definition client_entry :: "(string \<Rightarrow> string) \<Rightarrow> config \<Rightarrow> nmi_config \<Rightarrow> string \<Rightarrow> (string \<times> nmi_client) res" where
  "client_entry getenv cfg c name = (case ProviderSettings (Some c) name of
     Inl e \<Rightarrow> Inl e
   | Inr settings \<Rightarrow> let providerKey = provider_key (ns_Name settings) in
       (case NewClient getenv providerKey (Some settings) (cfg_Env cfg = ''prod'') of
          Inl e \<Rightarrow> Inl e | Inr client \<Rightarrow> Inr (providerKey, client)))"

text \<open>A duplicate is refused before its client is made.\<close>

fun add_clients :: "(string \<Rightarrow> string) \<Rightarrow> config \<Rightarrow> nmi_config \<Rightarrow> string list \<Rightarrow> nmi_clients \<Rightarrow> nmi_clients res" where
  "add_clients getenv cfg c [] clients = Inr clients"
| "add_clients getenv cfg c (name # names) clients = (case ProviderSettings (Some c) name of
     Inl e \<Rightarrow> Inl e
   | Inr settings \<Rightarrow> let providerKey = provider_key (ns_Name settings) in
       if map_of clients providerKey \<noteq> None
       then Inl (ErrNew (''duplicate nmi provider '' @ quoted providerKey @ '' detected in configuration''))
       else (case NewClient getenv providerKey (Some settings) (cfg_Env cfg = ''prod'') of
          Inl e \<Rightarrow> Inl e
        | Inr client \<Rightarrow> add_clients getenv cfg c names (clients @ [(providerKey, client)])))"

definition createNMIClients :: "(string \<Rightarrow> string) \<Rightarrow> config \<Rightarrow> nmi_clients res" where
  "createNMIClients getenv cfg = (case cfg_NMI cfg of
     None \<Rightarrow> Inr [] | Some c \<Rightarrow> add_clients getenv cfg c (map fst (nmi_Providers c)) [])"

definition createCCBillDataLinkClient :: "form_config option \<Rightarrow> datalink_client option" where
  "createCCBillDataLinkClient cfg = (case cfg of
     None \<Rightarrow> None
   | Some c \<Rightarrow>
       if cb_DataLinkUsername c = '''' \<or> cb_DataLinkPassword c = '''' \<or> cb_ClientAccNum c = '''' then None
       else (case DataLink_ValidateConfig (NewDataLinkClient c) of Inl _ \<Rightarrow> None | Inr _ \<Rightarrow> Some (NewDataLinkClient c)))"

record redis_config =
  rc_Addr :: string
  rc_Password :: string
  rc_DB :: int

record redis_options =
  ro_Addr :: string
  ro_DB :: int
  ro_Password :: string

definition redis_connection :: "string \<Rightarrow> redis_config option \<Rightarrow> redis_options option" where
  "redis_connection env cfg = map_option (\<lambda>c. \<lparr>ro_Addr = rc_Addr c, ro_DB = rc_DB c,
     ro_Password = (if rc_Password c \<noteq> '''' \<and> env = ''prod'' then rc_Password c else '''')\<rparr>) cfg"

text \<open>The subscription service as \<open>createServices\<close> puts it together.\<close>

definition wired_subscriptions :: "(string \<Rightarrow> string + uuid) \<Rightarrow> (uuid \<Rightarrow> string) \<Rightarrow> nmi_clients \<Rightarrow> subscription_service" where
  "wired_subscriptions parse text clients = \<lparr>ss_ParseID = parse, ss_IDString = text, ss_Products = True,
     ss_NMIClients = Some clients, ss_Methods = True, ss_Vault = Some clients, ss_Idempotency = True\<rparr>"

text \<open>\<open>database\<close>: the error of connecting or of the migrations, if there is one.\<close>

definition buildRuntime :: "(string \<Rightarrow> string) \<Rightarrow> go_err option \<Rightarrow> config \<Rightarrow> nmi_clients res" where
  "buildRuntime getenv database cfg = (case database of
     Some e \<Rightarrow> Inl (ErrWrap ''failed to create db'' e)
   | None \<Rightarrow> (case createNMIClients getenv cfg of
       Inl e \<Rightarrow> Inl (ErrWrap ''failed to create nmi clients'' e) | Inr clients \<Rightarrow> Inr clients))"

definition Bootstrap :: "(string \<Rightarrow> go_err option) \<Rightarrow> (string \<Rightarrow> string) \<Rightarrow> go_err option \<Rightarrow> go_err option \<Rightarrow> config option \<Rightarrow> nmi_clients res" where
  "Bootstrap urlerr getenv verifier database config = (case config of
     None \<Rightarrow> Inl (ErrNew ''config is required'')
   | Some cfg \<Rightarrow> (case Validate urlerr cfg of
       Inl e \<Rightarrow> Inl (ErrWrap ''config validation failed'' e)
     | Inr _ \<Rightarrow> (case verifier of
         Some e \<Rightarrow> Inl (ErrWrap ''build auth verifier'' e)
       | None \<Rightarrow> (case buildRuntime getenv database cfg of
           Inl e \<Rightarrow> Inl (ErrWrap ''initialise runtime'' e) | Inr clients \<Rightarrow> Inr clients))))"

section \<open>The background workers\<close>

definition worker_names :: "string list" where
  "worker_names = [''dunning attempt'', ''dunning sweep'', ''idempotency cleanup'', ''ccbill reconcile'', ''webhook process'', ''webhook retry'']"

text \<open>\<open>fails\<close>: the error of registering a worker.\<close>

fun add_workers :: "(string \<Rightarrow> go_err option) \<Rightarrow> string list \<Rightarrow> unit res" where
  "add_workers fails [] = Inr ()"
| "add_workers fails (n # ns) = (case fails n of
     Some e \<Rightarrow> Inl (ErrWrap (''add '' @ n @ '' worker'') e) | None \<Rightarrow> add_workers fails ns)"

definition buildRiverWorkers :: "(string \<Rightarrow> go_err option) \<Rightarrow> unit res" where
  "buildRiverWorkers fails = add_workers fails worker_names"

datatype periodic = DunningSweep | IdempotencyCleanup | CCBillReconcile | WebhookRetry

record periodic_job =
  pj_Interval :: duration
  pj_Args :: periodic
  pj_Queue :: string
  pj_RunOnStart :: bool

definition buildRiverPeriodicJobs :: "periodic_job list" where
  "buildRiverPeriodicJobs = [
     \<lparr>pj_Interval = minute, pj_Args = DunningSweep, pj_Queue = ''billing'', pj_RunOnStart = False\<rparr>,
     \<lparr>pj_Interval = 24 * hour, pj_Args = IdempotencyCleanup, pj_Queue = ''billing'', pj_RunOnStart = True\<rparr>,
     \<lparr>pj_Interval = 6 * hour, pj_Args = CCBillReconcile, pj_Queue = ''billing'', pj_RunOnStart = False\<rparr>,
     \<lparr>pj_Interval = minute, pj_Args = WebhookRetry, pj_Queue = ''billing'', pj_RunOnStart = True\<rparr>]"

text \<open>\<open>rt_River\<close>, \<open>rt_Pool\<close> and the others say whether the field is set; \<open>rt_Jobs\<close> and \<open>rt_Starts\<close> are what the River client was given.\<close>

record runtime =
  rt_River :: bool
  rt_Pool :: bool
  rt_Started :: bool
  rt_DB :: bool
  rt_Billing :: bool
  rt_Redis :: bool
  rt_Jobs :: "periodic_job list"
  rt_Starts :: nat

record river_env =
  re_Worker :: "string \<Rightarrow> go_err option"
  re_Pool :: "go_err option"
  re_Client :: "go_err option"

definition buildRiverClient :: "river_env \<Rightarrow> config \<Rightarrow> unit res" where
  "buildRiverClient env cfg = (case cfg_DB cfg of
     None \<Rightarrow> Inl (ErrNew ''missing database configuration for River'')
   | Some db \<Rightarrow>
       if GetConnectionString db = '''' then Inl (ErrNew ''missing database configuration for River (DB_URL or DB_HOST/DB_PORT/etc.)'')
       else (case re_Pool env of
         Some e \<Rightarrow> Inl (ErrWrap ''failed creating pgx pool for River'' e)
       | None \<Rightarrow> (case re_Client env of
           Some e \<Rightarrow> Inl (ErrWrap ''failed creating River client'' e) | None \<Rightarrow> Inr ())))"

definition InitRiver :: "river_env \<Rightarrow> config \<Rightarrow> runtime \<Rightarrow> runtime \<times> unit res" where
  "InitRiver env cfg r = (if rt_River r then (r, Inr ())
     else (case buildRiverWorkers (re_Worker env) of
         Inl e \<Rightarrow> (r, Inl (ErrWrap ''build river workers'' e))
       | Inr _ \<Rightarrow> (case buildRiverClient env cfg of
           Inl e \<Rightarrow> (r, Inl e)
         | Inr _ \<Rightarrow> (r\<lparr>rt_River := True, rt_Pool := True, rt_Jobs := [], rt_Starts := 0\<rparr>, Inr ()))))"

definition StartWorkers :: "river_env \<Rightarrow> config \<Rightarrow> runtime \<Rightarrow> runtime" where
  "StartWorkers env cfg r = (if rt_Started r then r
     else (case InitRiver env cfg r of
         (r', Inl _) \<Rightarrow> r'
       | (r', Inr _) \<Rightarrow> r'\<lparr>rt_Jobs := rt_Jobs r' @ buildRiverPeriodicJobs, rt_Started := True, rt_Starts := rt_Starts r' + 1\<rparr>))"

section \<open>The cache that follows Redis\<close>

datatype backend = MemoryBackend | RedisBackend

record monitor =
  mo_UsingRedis :: bool
  mo_Backend :: backend

definition monitor_probe :: "bool \<Rightarrow> monitor" where
  "monitor_probe pong = (if pong then \<lparr>mo_UsingRedis = True, mo_Backend = RedisBackend\<rparr>
     else \<lparr>mo_UsingRedis = False, mo_Backend = MemoryBackend\<rparr>)"

definition monitor_tick :: "bool \<Rightarrow> monitor \<Rightarrow> monitor" where
  "monitor_tick pong m =
     (if pong then (if \<not> mo_UsingRedis m then m\<lparr>mo_Backend := RedisBackend, mo_UsingRedis := True\<rparr> else m)
      else if mo_UsingRedis m then m\<lparr>mo_Backend := MemoryBackend, mo_UsingRedis := False\<rparr> else m)"

definition monitorRedis :: "bool \<Rightarrow> bool list \<Rightarrow> monitor" where
  "monitorRedis first pings = fold monitor_tick pings (monitor_probe first)"

section \<open>The shutdown\<close>

text \<open>What closing a resource answers; the argument of \<open>cl_Redis\<close> says whether the client is closed already.\<close>

record closing =
  cl_River :: "go_err option"
  cl_DB :: "go_err option"
  cl_Billing :: "go_err option"
  cl_Memory :: "go_err option"
  cl_Redis :: "bool \<Rightarrow> go_err option"

definition problem :: "string \<Rightarrow> go_err option \<Rightarrow> go_err list" where
  "problem what e = (case e of None \<Rightarrow> [] | Some x \<Rightarrow> [ErrWrap what x])"

definition problems :: "string \<Rightarrow> go_err list \<Rightarrow> unit res" where
  "problems what es = (if es = [] then Inr () else Inl (ErrNew (what @ '': ['' @ join '' '' (map err_text es) @ '']'')))"

definition Runtime_Close :: "closing \<Rightarrow> bool \<Rightarrow> runtime option \<Rightarrow> runtime option \<times> unit res" where
  "Runtime_Close env again rt = (case rt of
     None \<Rightarrow> (None, Inr ())
   | Some r \<Rightarrow>
       (Some (r\<lparr>rt_Started := rt_Started r \<and> \<not> rt_River r, rt_Pool := False\<rparr>),
        problems ''failed to close some resources''
          ((if rt_River r \<and> rt_Started r then problem ''failed to stop River client'' (cl_River env) else []) @
           (if rt_DB r then problem ''failed to close db'' (cl_DB env) else []) @
           (if rt_Billing r then problem ''failed to close billing event service'' (cl_Billing env) else []) @
           (if rt_Redis r then problem ''failed to close Redis client'' (cl_Redis env again) else []))))"

definition App_Close :: "closing \<Rightarrow> backend option \<Rightarrow> runtime option \<Rightarrow> runtime option \<times> unit res" where
  "App_Close env cache rt =
     (let cacheErr = (case cache of
            None \<Rightarrow> []
          | Some MemoryBackend \<Rightarrow> problem ''close cache'' (cl_Memory env)
          | Some RedisBackend \<Rightarrow> problem ''close cache'' (cl_Redis env False));
          (rt', r) = Runtime_Close env (cache = Some RedisBackend) rt in
      (rt', problems ''shutdown errors'' (cacheErr @ (case r of Inl e \<Rightarrow> [e] | Inr _ \<Rightarrow> []))))"


section \<open>What the start gives\<close>

lemma client_entry_cases:
  "client_entry getenv cfg c name = Inr (k, cl) \<longleftrightarrow> (\<exists>st. ProviderSettings (Some c) name = Inr st \<and> k = provider_key (ns_Name st) \<and>
     NewClient getenv k (Some st) (cfg_Env cfg = ''prod'') = Inr cl)"
  by (auto simp: client_entry_def Let_def split: sum.splits)

text \<open>The clients are the entries of the names, in their order, and no key is there twice.\<close>

lemma add_clients_iff:
  "distinct (map fst acc) \<Longrightarrow> add_clients getenv cfg c names acc = Inr cs \<longleftrightarrow>
     (\<exists>es. map (client_entry getenv cfg c) names = map Inr es \<and> distinct (map fst (acc @ es)) \<and> cs = acc @ es)"
proof (induction names arbitrary: acc)
  case (Cons name names)
  show ?case
  proof (cases "client_entry getenv cfg c name")
    case (Inl e)
    then show ?thesis by (auto simp: client_entry_def Let_def split: sum.splits)
  next
    case (Inr kc)
    obtain k cl where kc: "kc = (k, cl)" by fastforce
    from Inr obtain st where st: "ProviderSettings (Some c) name = Inr st" "k = provider_key (ns_Name st)"
      "NewClient getenv k (Some st) (cfg_Env cfg = ''prod'') = Inr cl"
      by (auto simp: kc client_entry_cases)
    show ?thesis
    proof (cases "k \<in> fst ` set acc")
      case True
      then have "map_of acc k \<noteq> None" by (simp add: map_of_eq_None_iff)
      with st True show ?thesis by (auto simp: Inr kc Cons_eq_map_conv Let_def)
    next
      case False
      then have "map_of acc k = None" by (simp add: map_of_eq_None_iff)
      with st have "add_clients getenv cfg c (name # names) acc = add_clients getenv cfg c names (acc @ [(k, cl)])"
        by (simp add: Let_def)
      moreover have "distinct (map fst (acc @ [(k, cl)]))" using Cons.prems False by auto
      ultimately show ?thesis using Cons.IH [of "acc @ [(k, cl)]"] by (force simp: Inr kc Cons_eq_map_conv)
    qed
  qed
qed auto

lemma NewClient_client:
  "NewClient getenv k (Some st) live = Inr cl \<Longrightarrow> nc_Provider cl = k \<and> nc_IsProd cl = live \<and> (live \<longrightarrow> nc_SecurityKey cl \<noteq> '''')"
  by (cases "live \<and> resolveSecurityKey getenv k st = ''''") (auto simp: NewClient_def Let_def)

lemma Bootstrap_clients: "Bootstrap urlerr getenv verifier database (Some cfg) = Inr clients \<Longrightarrow> createNMIClients getenv cfg = Inr clients"
  by (simp add: Bootstrap_def buildRuntime_def split: sum.splits option.splits)

text \<open>
  C33. An application that has started can serve every provider of its configuration: the subscription service, as it is
  put together, finds a client under the provider's name, that client is the provider's own, and in production it has a security key.
\<close>

theorem started_service_finds_clients:
  assumes "Bootstrap urlerr getenv verifier database (Some cfg) = Inr clients" and "cfg_NMI cfg = Some c"
    and "name \<in> fst ` set (nmi_Providers c)"
  shows "\<exists>st cl. ProviderSettings (Some c) name = Inr st \<and>
    nmiClientForProvider (wired_subscriptions parse text clients) (ns_Name st) = Inr cl \<and>
    nc_Provider cl = provider_key (ns_Name st) \<and> (cfg_Env cfg = ''prod'' \<longrightarrow> nc_SecurityKey cl \<noteq> '''')"
proof -
  have "add_clients getenv cfg c (map fst (nmi_Providers c)) [] = Inr clients"
    using Bootstrap_clients [OF assms(1)] assms(2) by (simp add: createNMIClients_def)
  then have es: "map (client_entry getenv cfg c) (map fst (nmi_Providers c)) = map Inr clients" and keys: "distinct (map fst clients)"
    by (auto simp: add_clients_iff)
  from arg_cong [OF es, of set] have "client_entry getenv cfg c ` fst ` set (nmi_Providers c) = Inr ` set clients"
    by (simp add: image_comp)
  with assms(3) have "client_entry getenv cfg c name \<in> Inr ` set clients" by blast
  then obtain k cl where e: "client_entry getenv cfg c name = Inr (k, cl)" "(k, cl) \<in> set clients" by auto
  then obtain st where st: "ProviderSettings (Some c) name = Inr st" "k = provider_key (ns_Name st)"
    "NewClient getenv k (Some st) (cfg_Env cfg = ''prod'') = Inr cl"
    by (auto simp: client_entry_cases)
  moreover have "map_of clients k = Some cl" using e(2) keys by simp
  ultimately show ?thesis using NewClient_client [OF st(3)]
    by (auto simp: nmiClientForProvider_def wired_subscriptions_def Let_def)
qed

text \<open>A map is iterated in any order: another order gives the same clients.\<close>

lemma clients_any_order:
  assumes "distinct names" "distinct names'" "set names = set names'" "add_clients getenv cfg c names [] = Inr cs"
  shows "\<exists>cs'. add_clients getenv cfg c names' [] = Inr cs' \<and> map_of cs' = map_of cs"
proof -
  define g where "g = (\<lambda>n. projr (client_entry getenv cfg c n))"
  from assms(4) have es: "map (client_entry getenv cfg c) names = map Inr cs" "distinct (map fst cs)" by (auto simp: add_clients_iff)
  then have "map projr (map (client_entry getenv cfg c) names) = cs" by (simp add: comp_def)
  then have cs: "cs = map g names" by (simp add: g_def comp_def)
  have entry: "client_entry getenv cfg c n = Inr (g n)" if "n \<in> set names" for n
    using es(1) that by (auto simp: cs)
  have inj: "inj_on (\<lambda>n. fst (g n)) (set names)" using es(2) by (simp add: cs distinct_map comp_def)
  then have d: "distinct (map fst (map g names'))" using assms(2,3) by (simp add: distinct_map comp_def)
  then have "add_clients getenv cfg c names' [] = Inr (map g names')"
    using entry assms(3) by (auto simp: add_clients_iff intro!: exI [of _ "map g names'"])
  moreover have "map_of (map g names') = map_of cs"
    using d es(2) assms(3) by (intro map_of_inject_set [THEN iffD2]) (auto simp: cs)
  ultimately show ?thesis by blast
qed

section \<open>Workers, cache and shutdown\<close>

text \<open>Starting the workers again changes nothing.\<close>

lemma start_workers_once: "rt_Started (StartWorkers env cfg r) \<Longrightarrow> StartWorkers env cfg (StartWorkers env cfg r) = StartWorkers env cfg r"
  by (simp add: StartWorkers_def [of env cfg "StartWorkers env cfg r"])

lemma monitor_follows: "mo_UsingRedis m = (mo_Backend m = RedisBackend) \<Longrightarrow>
    mo_Backend (fold monitor_tick pings m) = (if pings = [] then mo_Backend m else if List.last pings then RedisBackend else MemoryBackend)"
proof (induction pings arbitrary: m)
  case (Cons p ps)
  have "mo_UsingRedis (monitor_tick p m) = (mo_Backend (monitor_tick p m) = RedisBackend)"
    "mo_Backend (monitor_tick p m) = (if p then RedisBackend else MemoryBackend)"
    using Cons.prems by (cases "mo_Backend m"; simp add: monitor_tick_def)+
  with Cons.IH [of "monitor_tick p m"] show ?case by (cases p) simp_all
qed simp

text \<open>The cache is Redis exactly when the latest ping was answered.\<close>

lemma monitor_backend: "mo_Backend (monitorRedis first pings) = (if List.last (first # pings) then RedisBackend else MemoryBackend)"
  by (simp add: monitorRedis_def monitor_follows monitor_probe_def)

text \<open>
  The cache and the runtime own the same client: when Redis serves the cache and a closed client refuses to be closed
  again, a shutdown reports an error, though everything was closed.
\<close>

lemma redis_shutdown_reports_error:
  assumes "rt_Redis r" "cl_Redis env True = Some e"
  shows "\<exists>m. snd (App_Close env (Some RedisBackend) (Some r)) = Inl m"
  using assms by (simp add: App_Close_def Runtime_Close_def problems_def problem_def)


section \<open>A concrete configuration\<close>

definition sample_nmi :: nmi_config where
  "sample_nmi = \<lparr>nmi_SecurityKey = '''', nmi_TokenizationKey = '''', nmi_WebhookSecret = '''', nmi_TestMode = True, nmi_DirectPostURL = '''',
     nmi_QueryURL = '''', nmi_Providers = [(''mobius'', Some \<lparr>np_SecurityKey = ''sk'', np_TokenizationKey = '''', np_WebhookSecret = '''',
       np_TestMode = None, np_DirectPostURL = '''', np_QueryURL = ''''\<rparr>)]\<rparr>"

definition sample_config :: config where
  "sample_config = \<lparr>cfg_Env = ''dev'', cfg_NMI = Some sample_nmi, cfg_CCBill = None, cfg_Webhooks = None,
     cfg_DB = Some \<lparr>db_URL = ''postgres://db'', db_Host = '''', db_Port = '''', db_Database = '''', db_Username = '''', db_Password = '''',
       db_SSLMode = ''''\<rparr>\<rparr>"

lemma sample_valid: "Validate (\<lambda>_. None) sample_config = Inr ()"
  by (simp add: Validate_def isDev_def sample_config_def wrap_res_def validateDatabase_def webhook_config_always_valid [THEN conjunct1])

lemma mobius_key: "provider_key ''mobius'' = ''mobius''"
  by (simp add: provider_key_def to_lower_def lower_char_def trim_space_def is_space_def)

lemma sample_settings: "\<exists>st. ProviderSettings (Some sample_nmi) ''mobius'' = Inr st \<and> ns_Name st = ''mobius''"
  by (simp add: ProviderSettings_def mobius_key sample_nmi_def Let_def trim_space_def is_space_def)

lemma sample_starts: "\<exists>clients. Bootstrap (\<lambda>_. None) (\<lambda>_. '''') None None (Some sample_config) = Inr clients"
proof -
  obtain st where st: "ProviderSettings (Some sample_nmi) ''mobius'' = Inr st" "ns_Name st = ''mobius''" using sample_settings by blast
  have "\<exists>cl. NewClient (\<lambda>_. '''') ''mobius'' (Some st) False = Inr cl" by (simp add: NewClient_def Let_def)
  then have "\<exists>cs. createNMIClients (\<lambda>_. '''') sample_config = Inr cs"
    using st mobius_key by (auto simp: createNMIClients_def sample_config_def sample_nmi_def [THEN arg_cong, of nmi_Providers])
  then show ?thesis by (auto simp: Bootstrap_def sample_valid buildRuntime_def)
qed

theorem started_service_finds_clients_witness:
  "\<exists>clients cl. Bootstrap (\<lambda>_. None) (\<lambda>_. '''') None None (Some sample_config) = Inr clients \<and>
     nmiClientForProvider (wired_subscriptions (\<lambda>_. Inr 0) show_nat clients) ''mobius'' = Inr cl \<and> nc_Provider cl = ''mobius''"
proof -
  obtain clients where run: "Bootstrap (\<lambda>_. None) (\<lambda>_. '''') None None (Some sample_config) = Inr clients" using sample_starts by blast
  have "cfg_NMI sample_config = Some sample_nmi" "''mobius'' \<in> fst ` set (nmi_Providers sample_nmi)"
    by (simp_all add: sample_config_def sample_nmi_def)
  from started_service_finds_clients [OF run this, of "\<lambda>_. Inr 0" show_nat] sample_settings run show ?thesis
    by (auto simp: mobius_key)
qed

end
