(* ===== verification/Spec2Isabelle.thy ===== *)
theory Spec2Isabelle
  imports Lifecycle_Props CCBill_Props Reception_Props NMI_Props Encoding_Props Dunning_Props Catalogue Accounts Solana_API Purchase_Props Server_Props Alias CCBill_Client_Props Web_Request_Props Cache User_Props Replay_Props Email Subscribe_Props Spool Runtime
begin

text \<open>
  A billing manager for memberships. Users subscribe to a price of a product; a payment processor (NMI, CCBill, PayPal)
  charges them and reports by webhooks, or they pay on the Solana chain. A product names entitlements, and access
  is a window of time in which a user holds one. Paths below are relative to \<open>internal/manager\<close> unless they say
  otherwise, and start at \<open>src/\<close>.

  \<^bold>\<open>The model.\<close> A Go function that returns a result and an error is a state monad over \<open>world\<close> that returns
  \<open>go_err + 'a\<close> (theory \<open>Store\<close>): the world holds the committed tables, the tables of the open transaction if there is
  one, the clock, the fresh identifiers, the analytics events, the mails and the forms posted to the gateway. Its
  environment says, step by step, which statement on the database fails, what the clock shows, which identifier is drawn and what
  the gateway answers, so a theorem that quantifies over worlds quantifies over all places where a database can fail. A failed
  statement aborts its transaction as in PostgreSQL: the statements that follow fail and the commit rolls back. A panic is an
  error value of its own. Pointers are options, and \<open>time.Time\<close> and \<open>time.Duration\<close> are nanoseconds; the
  backoff of a retry is a \<open>64 word\<close> that overflows as in Go, and so are the amounts of tokens.
  A \<open>float64\<close> amount is the rational it denotes, with NaN and the infinities where text is parsed (\<open>Encoding\<close>); the
  rounding of arithmetic is not modelled.

  \<^bold>\<open>Foundations.\<close>
  \<^item> \<open>Go_Prelude\<close>: errors with \<open>errors.Is\<close>, time, strings, and the collections of rules (\<open>row_simps\<close>, \<open>wp_simps\<close>).
  \<^item> \<open>Models\<close>, \<open>Schema\<close>: the rows of \<open>pkg/db/models\<close> with their methods; the tables, and the unique indexes of
    five of them (\<open>schema_ok\<close>). A table is the list of its rows in insertion order.
  \<^item> \<open>Store\<close>: the monad, \<open>RunInTx\<close> (\<open>run_in_tx\<close>), and \<open>wp\<close>, the weakest precondition with its rules; \<open>keeps b I m\<close> says that
    \<open>m\<close> keeps the table invariant \<open>I\<close> under every schedule of faults.
  \<^item> \<open>Encoding\<close>: JSON with its UTF-8, form bodies, \<open>strconv\<close> and the time layouts, as executable functions. \<open>Encoding_Props\<close>
    proves the round trip of a printed JSON map, for any bytes. \<open>Query\<close> is \<open>pkg/query\<close>; \<open>Config\<close> is the validation in \<open>config/config.go\<close>.

  \<^bold>\<open>Components.\<close>
  \<^item> \<open>Subscription_Repo\<close>, \<open>Catalogue\<close>, \<open>Entitlement\<close>, \<open>Notification\<close>, \<open>Payments\<close>, \<open>Idempotency\<close>: the repositories
    of \<open>data/repo\<close> and the services over them.
  \<^item> \<open>Lifecycle\<close>: \<open>api/lifecycle\<close>, the creation, renewal, cancellation, expiry and failure of a membership.
  \<^item> \<open>Webhook_Events\<close>, \<open>Webhook_Types\<close>, \<open>Webhook_Common\<close>, \<open>Webhook_NMI\<close>, \<open>Webhook_CCBill\<close>, \<open>Webhook_Dispatcher\<close>:
    \<open>web/webhook\<close> with the user names at CCBill (\<open>Alias\<close>), from the HTTP handler through the persisted event and its retries to the handlers of the events.
  \<^item> \<open>NMI_Client\<close>, \<open>Payment_Methods\<close>, \<open>Vault\<close>, \<open>Method_API\<close>, \<open>Dunning\<close>: \<open>pkg/nmi\<close>, the payment methods and their
    vaults at the gateway, the HTTP handlers on them, and the jobs that retry a failed charge.
  \<^item> \<open>Form_Encoding\<close>, \<open>CCBill_Client\<close>: the escapes of \<open>net/url\<close>, and \<open>pkg/ccbill\<close>: the links to the payment forms, the digest
    of a callback, the list of active members from the data link and its retries.
  \<^item> \<open>Subscribe\<close>, \<open>Accounts\<close>, \<open>User_API\<close>: subscribing and cancelling, the services for users and administrators, and the
    HTTP handlers of \<open>api/subscription\<close> and \<open>api/user\<close>, with the public listings.
  \<^item> \<open>Email\<close>: which mail a notification becomes, to whom it goes and with which values (\<open>api/email\<close>,
    \<open>api/subscription/subscription_email_service.go\<close>), with the calendar that its dates need.
  \<^item> \<open>Cache\<close>: the cache in memory of \<open>pkg/cache\<close>. \<open>Spool\<close>: \<open>pkg/spool\<close>, a directory of capped size. \<open>Replay\<close>: \<open>web/webhook/replay_service.go\<close>, which posts saved webhooks again.
  \<^item> \<open>Runtime\<close>: \<open>internal/app\<close>, the clients that the start makes from the configuration, the background workers, the cache that
    follows Redis, and the shutdown.
  \<^item> \<open>Solana_Chain\<close>, \<open>Solana_Wallet\<close>, \<open>Solana_Payment\<close>, \<open>Solana_API\<close>: \<open>api/solana\<close>, the verification of a transaction,
    the wallets and their challenges, the intents, and the handlers.
  \<^item> \<open>Middleware\<close>, \<open>Addresses\<close>, \<open>Server\<close>: \<open>web/auth\<close>, \<open>web/middleware\<close>, \<open>internal/utils/ipverify.go\<close> and the routes of
    \<open>internal/server\<close>: who may reach a handler, with the parsing of IP addresses and the rate limiter. \<open>Web_Request\<close> is
    \<open>web/request\<close>: the client's address as the headers give it, and the request that the reception of webhooks sees.

  \<^bold>\<open>Interfaces.\<close> A locale states what a group of theorems needs, and is interpreted on the model.
  \<^item> \<open>table_inv\<close> (\<open>Lifecycle_Laws\<close>): an invariant of the tables that single statements keep; every membership operation
    keeps it. \<open>webhook_inv\<close> (\<open>Webhook_Laws\<close>) extends it to all webhooks, \<open>purchase_inv\<close> (\<open>Purchase_Props\<close>) to the
    purchases on the chain. Instances are the trivial invariant (which gives atomicity), the schema, the facts about events,
    and the well-formed intents.
  \<^item> \<open>world_inv\<close> (\<open>Webhook_Laws\<close>): the same for invariants of the whole world.
  \<^item> \<open>sends P m\<close> (\<open>Gateway_Laws\<close>): every form that \<open>m\<close> posts to the gateway satisfies \<open>P\<close>.

  \<^bold>\<open>What is proved.\<close>
  \<^item> \<open>Webhook_Retry\<close>, \<open>Webhook_Traffic\<close>: the processor refines the state machine of an event (pending, processing,
    processed, failed, error) under any interleaving of requests, jobs and retries; attempts are bounded by the
    configured maximum; the backoff is the capped exponential. \<open>Reception_Props\<close>: who is refused, and that an accepted
    webhook is persisted. \<open>Deduplication\<close>: a webhook recorded as done is not handled again.
  \<^item> \<open>Lifecycle_Laws\<close>, \<open>Lifecycle_Effects\<close>, \<open>Lifecycle_Props\<close>: an operation that fails has changed nothing, the indexes
    of \<open>schema_ok\<close> hold throughout, and without faults each operation has exactly the effect on the subscription, on the access of its
    user and on the notifications that is written there.
  \<^item> \<open>CCBill_Props\<close>, \<open>NMI_Props\<close>: the effect of a sale, a chargeback, a refund and a reactivation; that the events for a
    cancellation and an expiration are refused; a renewal of NMI delivered twice counts once. \<open>Payments\<close>: refunds never exceed the payment.
  \<^item> \<open>Dunning_Props\<close>: the methods that the API stores are never charged; what a dunning attempt leaves that the gateway
    approves. That dunning ends is a theorem of \<open>Lifecycle_Props\<close>, where failed payments are counted.
  \<^item> \<open>Chain_Props\<close>, \<open>Wallet_Props\<close>, \<open>Purchase_Props\<close>: an accepted transaction pays the recipient; a signature pays once;
    nothing is granted without a verified transaction; a verified wallet was signed for by its user.
  \<^item> \<open>Server_Props\<close>: a private route needs a verified token and an administrative one the key; the rate limiter admits at
    most twice its limit in a minute; CCBill's addresses are the four networks listed. \<open>Web_Request_Props\<close>: a peer that writes one
    of them in a header is taken for CCBill.
  \<^item> \<open>Subscribe_Props\<close>: subscribing asks the gateway for at most one subscription, at the price of the catalogue.
    \<open>CCBill_Client_Props\<close>: the address of the payment form decodes into what was asked for. \<open>User_Props\<close>: a listing shows the rows of the token's
    user only, what a token without a subject sees, and that nothing is done that starts from
    the identifier of a subscription. \<open>Email\<close>: a mail goes to the address of its user.
  \<^item> \<open>Cache\<close>: the cache refines a map whose entries expire, except that reading an expired entry can delete its
    replacement. \<open>Spool\<close>: a record that is accepted is kept within the cap, and the oldest files go first.
    \<open>Replay_Props\<close>: what the replay of stored webhooks counts, and that this server refuses those of CCBill. \<open>Runtime\<close>: every provider of the configuration is served
    once the application has started, whatever the order in which the map of providers is iterated.
  \<^item> Where the code falls short of what it means to do, the theorem says what it does.
  \<^item> \<open>Samples\<close> holds the tables on which the hypotheses are shown to hold.

  \<^bold>\<open>Bounds.\<close> All definitions are total and recursion follows the data, except where the code retries: the parser of JSON has
  fuel, twice the length of its input plus two (a nesting level takes two calls and at least two characters); the requests for a
  transaction on the chain are repeated as often as the code allows, and running out of attempts is the error the code returns.

  \<^bold>\<open>Parameters.\<close> What is not in the repository is an argument: the answers of the gateway, of the chain and of the price feed,
  HMAC-SHA256, SHA-256 and Ed25519, the base58 library and \<open>solana-go\<close>'s decoding, \<open>uuid.Parse\<close>, the verifier of tokens, the environment, and the
  insertion of a job in the queue. A theorem states what it assumes of them.

  \<^bold>\<open>Not modelled.\<close> Logging; the analytics sink beyond the events it is given; the fixed wording of mails and the SendGrid client;
  \<open>main.go\<close> and the part of \<open>internal/app\<close> that only connects components; the routing of gin and its CORS headers; reading
  configuration files (koanf); the RPC client of the chain, which is one request per method to a service; the Redis cache, which
  forwards to its client; the records of \<open>web/request\<close> and \<open>web/response\<close> that no handler fills; the stores in
  \<open>payment/stores/payment-methoddb\<close> and \<open>subscription/subscriptiondb\<close>, which nothing uses; the administrative metrics, whose
  package is not in the repository; concurrency inside the database other than the faults and the interleaving of whole operations.
  In \<open>notification_service.go\<close> and \<open>routes_public.go\<close> a variable shadows the package it is named after, so these files do not
  compile as they stand; the model reads them as they are meant.

  \<^bold>\<open>Refused queries.\<close> A few queries name a column that two of their joined tables have, and PostgreSQL refuses them
  (\<open>db_refused\<close>): \<open>GetByID\<close> and \<open>GetSubscriptionsWithDetailsForUser\<close> of \<open>data/repo/subscription.go\<close>, and the load of the dunning job
  (\<open>data/river/jobs_dunning.go\<close>). What would follow them is modelled too (\<open>dunning_attempt\<close>, and the branches of their callers),
  as it would run if the row were found.
\<close>

end
